(* ===== verification/Prelude.thy ===== *)
theory Prelude
  imports Main "HOL-Library.Char_ord" "HOL-Library.List_Lexorder"
begin

text \<open>
  The vocabulary shared by every component theory: Python exceptions as values, the
  exception monad with its \<open>require\<close> guard, and the Python string operations the sources
  use.

  A Python \<open>str\<close> and a Python \<open>bytes\<close> are both modelled by \<^typ>\<open>string\<close>: a
  \<^typ>\<open>char\<close> of a \<open>str\<close> is one code point of the range U+0000 to U+00FF, a
  \<^typ>\<open>char\<close> of a \<open>bytes\<close> is one byte, and \<open>utf8\<close> encodes the former into the
  latter. Texts with code points above U+00FF are outside the model.
\<close>

named_theorems exn_simps \<open>inversion rules of the exception monad\<close>
named_theorems str_simps \<open>facts about the Python string operations\<close>


section \<open>Exceptions and the exception monad\<close>

text \<open>
  One constructor per exception class that the modelled code raises or catches, with the
  message. \<open>json.JSONDecodeError\<close> and, except where the code tells them apart,
  \<open>UnicodeDecodeError\<close> are subclasses of \<open>ValueError\<close> and are represented by it; \<open>YAMLError\<close> is the class of the YAML library.
\<close>

datatype exn =
    ValueError string
  | TypeError string
  | KeyError string
  | AttributeError string
  | OverflowError string
  | IndexError string
  | RuntimeError string
  | YAMLError string
  | UnicodeDecodeError string
  | FileNotFoundError string
  | FileExistsError string
  | OSError string

type_synonym 'a result = "exn + 'a"

fun exn_text :: "exn \<Rightarrow> string" where
  "exn_text (ValueError m) = m"
| "exn_text (TypeError m) = m"
| "exn_text (KeyError m) = m"
| "exn_text (AttributeError m) = m"
| "exn_text (OverflowError m) = m"
| "exn_text (IndexError m) = m"
| "exn_text (RuntimeError m) = m"
| "exn_text (YAMLError m) = m"
| "exn_text (UnicodeDecodeError m) = m"
| "exn_text (FileNotFoundError m) = m"
| "exn_text (FileExistsError m) = m"
| "exn_text (OSError m) = m"

fun is_ValueError :: "exn \<Rightarrow> bool" where
  "is_ValueError (ValueError m) = True"
| "is_ValueError (UnicodeDecodeError m) = True"
| "is_ValueError e = False"

fun is_OSError :: "exn \<Rightarrow> bool" where
  "is_OSError (OSError m) = True"
| "is_OSError (FileNotFoundError m) = True"
| "is_OSError (FileExistsError m) = True"
| "is_OSError e = False"

definition rbind :: "'a result \<Rightarrow> ('a \<Rightarrow> 'b result) \<Rightarrow> 'b result" where
  "rbind m f = (case m of Inl e \<Rightarrow> Inl e | Inr a \<Rightarrow> f a)"

text \<open>\<open>require ok e k\<close> is \<^verbatim>\<open>if not ok: raise e\<close> followed by \<open>k\<close>.\<close>

definition require :: "bool \<Rightarrow> exn \<Rightarrow> 'a result \<Rightarrow> 'a result" where
  "require ok e k = (if ok then k else Inl e)"

text \<open>\<open>try: m except classes: raise e\<close> for a set of caught exception classes.\<close>

definition rescue :: "(exn \<Rightarrow> bool) \<Rightarrow> exn \<Rightarrow> 'a result \<Rightarrow> 'a result" where
  "rescue caught e m = (case m of Inl x \<Rightarrow> (if caught x then Inl e else Inl x) | Inr a \<Rightarrow> Inr a)"

definition of_option :: "exn \<Rightarrow> 'a option \<Rightarrow> 'a result" where
  "of_option e x = (case x of None \<Rightarrow> Inl e | Some a \<Rightarrow> Inr a)"

fun mapr :: "('a \<Rightarrow> 'b result) \<Rightarrow> 'a list \<Rightarrow> 'b list result" where
  "mapr f [] = Inr []"
| "mapr f (x # xs) = rbind (f x) (\<lambda>y. rbind (mapr f xs) (\<lambda>ys. Inr (y # ys)))"

text \<open>\<open>[x for x in xs if p(x)]\<close> where the test may raise.\<close>

fun filterr :: "('a \<Rightarrow> bool result) \<Rightarrow> 'a list \<Rightarrow> 'a list result" where
  "filterr p [] = Inr []"
| "filterr p (x # xs) =
     rbind (p x) (\<lambda>b. rbind (filterr p xs) (\<lambda>ys. Inr (if b then x # ys else ys)))"

text \<open>\<open>any(p(x) for x in xs)\<close>: left to right, stopping at the first true test.\<close>

fun anyr :: "('a \<Rightarrow> bool result) \<Rightarrow> 'a list \<Rightarrow> bool result" where
  "anyr p [] = Inr False"
| "anyr p (x # xs) = rbind (p x) (\<lambda>b. if b then Inr True else anyr p xs)"

lemma rbind_simps [simp]: "rbind (Inl e) f = Inl e" "rbind (Inr a) f = f a"
  by (simp_all add: rbind_def)

lemma require_simps [simp]: "require True e k = k" "require False e k = Inl e"
  by (simp_all add: require_def)

lemma rbind_Inr_iff [exn_simps]: "rbind m f = Inr b \<longleftrightarrow> (\<exists>a. m = Inr a \<and> f a = Inr b)"
  by (cases m) auto

lemma rbind_Inl_iff [exn_simps]:
  "rbind m f = Inl e \<longleftrightarrow> m = Inl e \<or> (\<exists>a. m = Inr a \<and> f a = Inl e)"
  by (cases m) auto

lemma require_Inr_iff [exn_simps]: "require ok e k = Inr a \<longleftrightarrow> ok \<and> k = Inr a"
  by (simp add: require_def)

lemma require_Inl_iff [exn_simps]: "require ok e k = Inl x \<longleftrightarrow> \<not> ok \<and> x = e \<or> ok \<and> k = Inl x"
  by (auto simp: require_def)

lemma rbind_InrE: "rbind m f = Inr b \<Longrightarrow> (\<And>a. m = Inr a \<Longrightarrow> f a = Inr b \<Longrightarrow> P) \<Longrightarrow> P"
  by (auto simp: rbind_Inr_iff)

lemma require_InrE: "require ok e k = Inr a \<Longrightarrow> (ok \<Longrightarrow> k = Inr a \<Longrightarrow> P) \<Longrightarrow> P"
  by (simp add: require_Inr_iff)

lemmas resultE = rbind_InrE require_InrE

lemma rescue_Inr_iff [exn_simps]: "rescue c e m = Inr a \<longleftrightarrow> m = Inr a"
  by (auto simp: rescue_def split: sum.splits)

lemma rescue_simps [simp]:
  "rescue c e (Inr a) = Inr a"
  "rescue c e (Inl x) = (if c x then Inl e else Inl x)"
  by (simp_all add: rescue_def)

lemma of_option_Inr_iff [exn_simps]: "of_option e x = Inr a \<longleftrightarrow> x = Some a"
  by (simp add: of_option_def split: option.splits)

lemma of_option_simps [simp]: "of_option e None = Inl e" "of_option e (Some a) = Inr a"
  by (simp_all add: of_option_def)

text \<open>\<open>for x in xs: if p(x): raise ...\<close>: the loop passes when no element fails.\<close>

lemma find_raise_Inr_iff [exn_simps]:
  "(case find p xs of None \<Rightarrow> k | Some x \<Rightarrow> Inl (e x)) = Inr a \<longleftrightarrow> (\<forall>x\<in>set xs. \<not> p x) \<and> k = Inr a"
  by (auto simp: find_None_iff find_Some_iff split: option.splits)

lemma mapr_Inr_iff [exn_simps]: "mapr f xs = Inr ys \<longleftrightarrow> list_all2 (\<lambda>x y. f x = Inr y) xs ys"
proof (induction xs arbitrary: ys)
  case Nil
  then show ?case by auto
next
  case (Cons x xs)
  then show ?case by (cases ys) (auto simp: rbind_Inr_iff)
qed

lemma mapr_ok_iff: "(\<exists>ys. mapr f xs = Inr ys) \<longleftrightarrow> (\<forall>x\<in>set xs. \<exists>y. f x = Inr y)"
  by (induction xs) (auto simp: rbind_Inr_iff)

lemma mapr_append:
  "mapr f (xs @ ys) = rbind (mapr f xs) (\<lambda>us. rbind (mapr f ys) (\<lambda>vs. Inr (us @ vs)))"
proof (induction xs)
  case Nil
  then show ?case by (cases "mapr f ys") auto
next
  case (Cons x xs)
  then show ?case
    by (cases "f x"; cases "mapr f xs"; cases "mapr f ys") auto
qed

lemma filterr_total: "(\<And>x. x \<in> set xs \<Longrightarrow> p x = Inr (q x)) \<Longrightarrow> filterr p xs = Inr (filter q xs)"
  by (induction xs) auto

lemma filterr_subset: "filterr p xs = Inr ys \<Longrightarrow> set ys \<subseteq> set xs"
  by (induction xs arbitrary: ys) (auto simp: rbind_Inr_iff split: if_splits)

lemma filterr_keeps: "filterr p xs = Inr ys \<Longrightarrow> y \<in> set ys \<Longrightarrow> p y = Inr True"
  by (induction xs arbitrary: ys) (auto simp: rbind_Inr_iff split: if_splits)

lemma filterr_drops: "filterr p xs = Inr ys \<Longrightarrow> x \<in> set xs \<Longrightarrow> x \<notin> set ys \<Longrightarrow> p x = Inr False"
proof (induction xs arbitrary: ys)
  case Nil
  then show ?case by simp
next
  case (Cons a xs)
  from Cons.prems(1) obtain b zs where b: "p a = Inr b" and zs: "filterr p xs = Inr zs"
    and ys: "ys = (if b then a # zs else zs)"
    by (auto simp: rbind_Inr_iff)
  then show ?case using Cons.IH [OF zs] Cons.prems by (cases b) (auto split: if_splits)
qed

lemma filterr_distinct: "filterr p xs = Inr ys \<Longrightarrow> distinct (map f xs) \<Longrightarrow> distinct (map f ys)"
proof (induction xs arbitrary: ys)
  case Nil
  then show ?case by simp
next
  case (Cons a xs)
  from Cons.prems(1) obtain b zs where zs: "filterr p xs = Inr zs"
    and ys: "ys = (if b then a # zs else zs)"
    by (auto simp: rbind_Inr_iff)
  have "f ` set zs \<subseteq> f ` set xs" using filterr_subset [OF zs] by blast
  then show ?case using Cons ys zs by auto
qed

lemma anyr_False_iff: "anyr p xs = Inr False \<longleftrightarrow> (\<forall>x\<in>set xs. p x = Inr False)"
proof (induction xs)
  case Nil
  then show ?case by simp
next
  case (Cons x xs)
  then show ?case by (cases "p x") auto
qed

lemma anyr_total: "(\<And>x. x \<in> set xs \<Longrightarrow> p x = Inr (q x)) \<Longrightarrow> anyr p xs = Inr (\<exists>x\<in>set xs. q x)"
  by (induction xs) auto


section \<open>Python strings\<close>

text \<open>\<open>str.isspace\<close> on U+0000 to U+00FF; the characters \<open>strip\<close> removes and \<open>\s\<close> matches.\<close>

definition is_space :: "char \<Rightarrow> bool" where
  "is_space c \<longleftrightarrow> c \<in> set [CHR 0x09, CHR 0x0A, CHR 0x0B, CHR 0x0C, CHR 0x0D,
     CHR 0x1C, CHR 0x1D, CHR 0x1E, CHR 0x1F, CHR 0x20, CHR 0x85, CHR 0xA0]"

definition strip :: "string \<Rightarrow> string" where
  "strip s = rev (dropWhile is_space (rev (dropWhile is_space s)))"

definition starts_with :: "string \<Rightarrow> string \<Rightarrow> bool" where
  "starts_with p s \<longleftrightarrow> take (length p) s = p"

definition ends_with :: "string \<Rightarrow> string \<Rightarrow> bool" where
  "ends_with p s \<longleftrightarrow> starts_with (rev p) (rev s)"

definition remove_prefix :: "string \<Rightarrow> string \<Rightarrow> string" where
  "remove_prefix p s = (if starts_with p s then drop (length p) s else s)"

definition remove_suffix :: "string \<Rightarrow> string \<Rightarrow> string" where
  "remove_suffix p s = (if p \<noteq> [] \<and> ends_with p s then take (length s - length p) s else s)"

text \<open>\<open>s.replace(c, r)\<close> for a one-character pattern.\<close>

definition replace_char :: "char \<Rightarrow> string \<Rightarrow> string \<Rightarrow> string" where
  "replace_char c r s = concat (map (\<lambda>x. if x = c then r else [x]) s)"

text \<open>\<open>s.split(c)\<close> for a one-character separator.\<close>

fun split_char :: "char \<Rightarrow> string \<Rightarrow> string list" where
  "split_char c [] = [[]]"
| "split_char c (x # xs) =
     (if x = c then [] # split_char c xs
      else case split_char c xs of [] \<Rightarrow> [[x]] | y # ys \<Rightarrow> (x # y) # ys)"

text \<open>\<open>s.splitlines()\<close> on U+0000 to U+00FF: the line boundaries, with CR LF as one.\<close>

definition is_line_end :: "char \<Rightarrow> bool" where
  "is_line_end c \<longleftrightarrow> c \<in> set [CHR 0x0A, CHR 0x0B, CHR 0x0C, CHR 0x0D, CHR 0x1C, CHR 0x1D, CHR 0x1E, CHR 0x85]"

fun splitlines_from :: "string \<Rightarrow> string \<Rightarrow> string list" where
  "splitlines_from acc [] = (if acc = [] then [] else [rev acc])"
| "splitlines_from acc (c # cs) =
     (if c = CHR 0x0D \<and> cs \<noteq> [] \<and> hd cs = CHR 0x0A then rev acc # splitlines_from [] (tl cs)
      else if is_line_end c then rev acc # splitlines_from [] cs
      else splitlines_from (c # acc) cs)"

definition splitlines :: "string \<Rightarrow> string list" where
  "splitlines s = splitlines_from [] s"

text \<open>\<open>sep.join(parts)\<close>.\<close>

fun join :: "string \<Rightarrow> string list \<Rightarrow> string" where
  "join sep [] = []"
| "join sep [x] = x"
| "join sep (x # y # ys) = x @ sep @ join sep (y # ys)"

text \<open>\<open>s.split()\<close>.\<close>

fun words_from :: "string \<Rightarrow> string \<Rightarrow> string list" where
  "words_from acc [] = (if acc = [] then [] else [rev acc])"
| "words_from acc (c # cs) =
     (if is_space c then (if acc = [] then words_from [] cs else rev acc # words_from [] cs)
      else words_from (c # acc) cs)"

definition words :: "string \<Rightarrow> string list" where
  "words s = words_from [] s"

text \<open>\<^verbatim>\<open>if not ok: errors.append(message)\<close>.\<close>

definition unless :: "bool \<Rightarrow> string \<Rightarrow> string list" where
  "unless ok message = (if ok then [] else [message])"

text \<open>\<open>pathlib\<close>: the parts of a path below its root, its final component and the suffix of a
  final component.\<close>

definition path_parts :: "string \<Rightarrow> string list" where
  "path_parts p = filter (\<lambda>c. c \<noteq> [] \<and> c \<noteq> ''.'') (split_char (CHR ''/'') p)"

definition path_suffix :: "string \<Rightarrow> string" where
  "path_suffix name =
     (let ext = rev (takeWhile (\<lambda>c. c \<noteq> CHR ''.'') (rev name)); stem = take (length name - length ext - 1) name in
      if CHR ''.'' \<in> set name \<and> ext \<noteq> [] \<and> stem \<noteq> [] then CHR ''.'' # ext else [])"

definition path_name :: "string \<Rightarrow> string" where
  "path_name p = (if path_parts p = [] then [] else last (path_parts p))"

definition contains_text :: "string \<Rightarrow> string \<Rightarrow> bool" where
  "contains_text p s \<longleftrightarrow> list_ex (\<lambda>n. starts_with p (drop n s)) [0..<Suc (length s)]"

definition is_digit :: "char \<Rightarrow> bool" where
  "is_digit c \<longleftrightarrow> c \<in> set ''0123456789''"

definition is_hex_lower :: "char \<Rightarrow> bool" where
  "is_hex_lower c \<longleftrightarrow> c \<in> set ''0123456789abcdef''"

text \<open>\<open>SHA256_PATTERN.fullmatch\<close>, also written out as a length and character test.\<close>

definition is_sha256 :: "string \<Rightarrow> bool" where
  "is_sha256 s \<longleftrightarrow> length s = 64 \<and> list_all is_hex_lower s"

text \<open>A parameter or field that holds such a digest.\<close>

type_synonym digest = string

text \<open>UTF-8 encoding of the modelled code points.\<close>

definition utf8_char :: "char \<Rightarrow> string" where
  "utf8_char c = (let n = of_char c :: nat in
     if n < 128 then [c] else [char_of (192 + n div 64), char_of (128 + n mod 64)])"

definition utf8 :: "string \<Rightarrow> string" where
  "utf8 s = concat (map utf8_char s)"

text \<open>Decimal numerals.\<close>

definition digit_char :: "nat \<Rightarrow> char" where
  "digit_char d = ''0123456789'' ! d"

fun show_nat :: "nat \<Rightarrow> string" where
  "show_nat n = (if n < 10 then [digit_char n] else show_nat (n div 10) @ [digit_char (n mod 10)])"

declare show_nat.simps [simp del]

definition show_int :: "int \<Rightarrow> string" where
  "show_int i = (if i < 0 then CHR ''-'' # show_nat (nat (- i)) else show_nat (nat i))"

text \<open>\<open>f"{n:0{width}d}"\<close> for a number that fits the width.\<close>

fun show_pad :: "nat \<Rightarrow> nat \<Rightarrow> string" where
  "show_pad 0 n = []"
| "show_pad (Suc w) n = show_pad w (n div 10) @ [digit_char (n mod 10)]"

definition digit_val :: "char \<Rightarrow> nat" where
  "digit_val c = of_char c - 48"

text \<open>A fixed-width run of ASCII digits, as a number.\<close>

definition read_digits :: "string \<Rightarrow> nat option" where
  "read_digits s = (if s \<noteq> [] \<and> list_all is_digit s
     then Some (foldl (\<lambda>n c. 10 * n + digit_val c) 0 s) else None)"

lemma length_utf8: "length (utf8 s) \<le> 2 * length s"
  by (induction s) (auto simp: utf8_def utf8_char_def Let_def)

lemma join_append: "xs \<noteq> [] \<Longrightarrow> ys \<noteq> [] \<Longrightarrow> join sep (xs @ ys) = join sep xs @ sep @ join sep ys"
proof (induction sep xs rule: join.induct)
  case (2 sep x)
  then show ?case by (cases ys) simp_all
qed simp_all

lemma starts_with_append [simp]: "starts_with p (p @ s)"
  by (simp add: starts_with_def)

lemma starts_with_iff: "starts_with p s \<longleftrightarrow> (\<exists>r. s = p @ r)"
  unfolding starts_with_def by (metis append_eq_conv_conj append_take_drop_id)

lemma ends_with_iff: "ends_with p s \<longleftrightarrow> (\<exists>r. s = r @ p)"
  unfolding ends_with_def starts_with_iff by (metis rev_append rev_rev_ident)

lemma remove_prefix_append [simp]: "remove_prefix p (p @ s) = s"
  by (simp add: remove_prefix_def)

lemma strip_Nil [simp]: "strip [] = []"
  by (simp add: strip_def)

lemma dropWhile_all_iff: "dropWhile p s = [] \<longleftrightarrow> (\<forall>c\<in>set (dropWhile p s). p c)"
  by (induction s) auto

lemma strip_eq_Nil_iff: "strip s = [] \<longleftrightarrow> list_all is_space s"
proof -
  have "strip s = [] \<longleftrightarrow> (\<forall>c\<in>set (dropWhile is_space s). is_space c)"
    by (simp add: strip_def)
  also have "\<dots> \<longleftrightarrow> dropWhile is_space s = []"
    using dropWhile_all_iff by blast
  finally show ?thesis by (simp add: list_all_iff)
qed

lemma strip_nonblankI: "c \<in> set s \<Longrightarrow> \<not> is_space c \<Longrightarrow> strip s \<noteq> []"
  by (auto simp: strip_eq_Nil_iff list_all_iff)

lemma digit_char_is_digit [simp]: "d < 10 \<Longrightarrow> is_digit (digit_char d)"
proof -
  assume "d < 10"
  then have "d = 0 \<or> d = 1 \<or> d = 2 \<or> d = 3 \<or> d = 4 \<or> d = 5 \<or> d = 6 \<or> d = 7 \<or> d = 8 \<or> d = 9"
    by arith
  then show ?thesis by (elim disjE) (simp_all add: digit_char_def is_digit_def)
qed

lemma digit_val_digit_char [simp]: "d < 10 \<Longrightarrow> digit_val (digit_char d) = d"
proof -
  assume "d < 10"
  then have "d = 0 \<or> d = 1 \<or> d = 2 \<or> d = 3 \<or> d = 4 \<or> d = 5 \<or> d = 6 \<or> d = 7 \<or> d = 8 \<or> d = 9"
    by arith
  then show ?thesis by (elim disjE) (simp_all add: digit_char_def digit_val_def)
qed

lemma length_show_pad [simp]: "length (show_pad w n) = w"
  by (induction w arbitrary: n) auto

lemma show_pad_digits [simp]: "list_all is_digit (show_pad w n)"
  by (induction w arbitrary: n) auto

lemma show_pad_value:
  "n < 10 ^ w \<Longrightarrow> foldl (\<lambda>n c. 10 * n + digit_val c) 0 (show_pad w n) = n"
proof (induction w arbitrary: n)
  case 0
  then show ?case by simp
next
  case (Suc w)
  then have "n div 10 < 10 ^ w" by (simp add: div_less_iff_less_mult mult.commute)
  then show ?case using Suc.IH [of "n div 10"] by simp
qed

text \<open>Printing with zero padding and reading back are inverse on numbers that fit.\<close>

lemma read_show_pad [str_simps]: "n < 10 ^ w \<Longrightarrow> 0 < w \<Longrightarrow> read_digits (show_pad w n) = Some n"
  using length_show_pad [of w n]
  by (auto simp: read_digits_def show_pad_value simp del: length_show_pad)

lemma show_pad_not_char: "\<not> is_digit c \<Longrightarrow> c \<notin> set (show_pad w n)"
  using show_pad_digits [of w n] by (auto simp: list_all_iff)

lemma replace_char_id: "c \<notin> set s \<Longrightarrow> replace_char c r s = s"
  by (induction s) (auto simp: replace_char_def)

lemma replace_char_append [simp]: "replace_char c r (s @ t) = replace_char c r s @ replace_char c r t"
  by (simp add: replace_char_def)

lemma split_char_nonempty: "split_char c s \<noteq> []"
  by (induction s) (auto split: list.splits)

lemma join_split_char: "join [c] (split_char c s) = s"
proof (induction s)
  case Nil
  then show ?case by simp
next
  case (Cons x s)
  then show ?case
    using split_char_nonempty [of c s]
    by (cases "split_char c s"; cases "tl (split_char c s)") auto
qed

end
