(* ===== verification/Py_Json.thy ===== *)
theory Py_Json
  imports Prelude
begin

text \<open>
  JSON documents as Python sees them after \<open>json.loads\<close>: \<open>None\<close>, \<open>bool\<close>, \<open>int\<close>,
  \<open>str\<close>, \<open>list\<close> and \<open>dict\<close>. An object keeps its members in insertion order with
  distinct names, as a Python \<open>dict\<close> does. Numbers with a fraction or an exponent
  (Python floats) are outside the model. The operations are the ones the sources apply to
  such values: \<open>get\<close>, subscription, iteration, truth value, \<open>isinstance\<close>, \<open>==\<close>,
  membership in a set of strings, and the canonical \<open>json.dumps\<close> with sorted keys.
\<close>

named_theorems json_simps \<open>facts about Python values\<close>


section \<open>Values\<close>

datatype json =
    JNull
  | JBool bool
  | JInt int
  | JStr string
  | JArr "json list"
  | JObj "(string \<times> json) list"

type_synonym obj = "(string \<times> json) list"

fun type_name :: "json \<Rightarrow> string" where
  "type_name JNull = ''NoneType''"
| "type_name (JBool b) = ''bool''"
| "type_name (JInt i) = ''int''"
| "type_name (JStr s) = ''str''"
| "type_name (JArr xs) = ''list''"
| "type_name (JObj d) = ''dict''"

fun is_str :: "json \<Rightarrow> bool" where
  "is_str (JStr s) = True"
| "is_str v = False"

fun is_list :: "json \<Rightarrow> bool" where
  "is_list (JArr xs) = True"
| "is_list v = False"

fun is_dict :: "json \<Rightarrow> bool" where
  "is_dict (JObj d) = True"
| "is_dict v = False"

fun is_bool :: "json \<Rightarrow> bool" where
  "is_bool (JBool b) = True"
| "is_bool v = False"

text \<open>\<open>isinstance(v, int) and not isinstance(v, bool)\<close>: Python's \<open>bool\<close> is an \<open>int\<close>.\<close>

fun is_int :: "json \<Rightarrow> bool" where
  "is_int (JInt i) = True"
| "is_int v = False"

fun int_val :: "json \<Rightarrow> int" where
  "int_val (JInt i) = i"
| "int_val v = 0"

fun str_val :: "json \<Rightarrow> string" where
  "str_val (JStr s) = s"
| "str_val v = []"

fun list_val :: "json \<Rightarrow> json list" where
  "list_val (JArr xs) = xs"
| "list_val v = []"

fun dict_val :: "json \<Rightarrow> obj" where
  "dict_val (JObj d) = d"
| "dict_val v = []"

text \<open>\<open>bool(v)\<close>.\<close>

fun truthy :: "json \<Rightarrow> bool" where
  "truthy JNull = False"
| "truthy (JBool b) = b"
| "truthy (JInt i) = (i \<noteq> 0)"
| "truthy (JStr s) = (s \<noteq> [])"
| "truthy (JArr xs) = (xs \<noteq> [])"
| "truthy (JObj d) = (d \<noteq> [])"

text \<open>\<open>isinstance(v, str) and v.strip()\<close>.\<close>

definition nonblank :: "json \<Rightarrow> bool" where
  "nonblank v \<longleftrightarrow> is_str v \<and> strip (str_val v) \<noteq> []"

text \<open>\<open>isinstance(v, str)\<close> and the string is a SHA-256 digest in hexadecimal.\<close>

definition sha256_str :: "json \<Rightarrow> bool" where
  "sha256_str v \<longleftrightarrow> is_str v \<and> is_sha256 (str_val v)"

lemma is_str_conv: "is_str v \<longleftrightarrow> (\<exists>s. v = JStr s)"
  by (cases v) auto

lemma is_list_conv: "is_list v \<longleftrightarrow> (\<exists>xs. v = JArr xs)"
  by (cases v) auto

lemma is_dict_conv: "is_dict v \<longleftrightarrow> (\<exists>d. v = JObj d)"
  by (cases v) auto

lemma is_int_conv: "is_int v \<longleftrightarrow> (\<exists>i. v = JInt i)"
  by (cases v) auto

lemma nonblank_JStr [simp]: "nonblank (JStr s) \<longleftrightarrow> strip s \<noteq> []"
  by (simp add: nonblank_def)

lemma nonblank_JNull [simp]: "\<not> nonblank JNull"
  by (simp add: nonblank_def)

lemma nonblank_conv: "nonblank v \<longleftrightarrow> (\<exists>s. v = JStr s \<and> strip s \<noteq> [])"
  by (cases v) (auto simp: nonblank_def)

lemma sha256_str_JStr [simp]: "sha256_str (JStr s) \<longleftrightarrow> is_sha256 s"
  by (simp add: sha256_str_def)


section \<open>Dictionaries\<close>

text \<open>\<open>d.get(k)\<close>, \<open>d.get(k, default)\<close>, \<open>k in d\<close> and \<open>set(d)\<close>.\<close>

definition get :: "obj \<Rightarrow> string \<Rightarrow> json" where
  "get d k = (case map_of d k of None \<Rightarrow> JNull | Some v \<Rightarrow> v)"

definition get_default :: "obj \<Rightarrow> string \<Rightarrow> json \<Rightarrow> json" where
  "get_default d k v = (case map_of d k of None \<Rightarrow> v | Some w \<Rightarrow> w)"

definition has_key :: "obj \<Rightarrow> string \<Rightarrow> bool" where
  "has_key d k \<longleftrightarrow> k \<in> set (map fst d)"

definition keys_eq :: "obj \<Rightarrow> string list \<Rightarrow> bool" where
  "keys_eq d ks \<longleftrightarrow> set (map fst d) = set ks"

definition keys_within :: "obj \<Rightarrow> string list \<Rightarrow> bool" where
  "keys_within d ks \<longleftrightarrow> set (map fst d) \<subseteq> set ks"

text \<open>\<open>d[k] = v\<close>: in place when the key exists, else appended.\<close>

fun put :: "string \<Rightarrow> json \<Rightarrow> obj \<Rightarrow> obj" where
  "put k v [] = [(k, v)]"
| "put k v ((k', w) # d) = (if k' = k then (k, v) # d else (k', w) # put k v d)"

definition update_all :: "(string \<times> json) list \<Rightarrow> obj \<Rightarrow> obj" where
  "update_all kvs d = fold (\<lambda>(k, v) d. put k v d) kvs d"

text \<open>\<open>v[k]\<close> for a string key, with the exception Python raises.\<close>

fun item :: "json \<Rightarrow> string \<Rightarrow> json result" where
  "item (JObj d) k = (case map_of d k of None \<Rightarrow> Inl (KeyError k) | Some v \<Rightarrow> Inr v)"
| "item (JArr xs) k = Inl (TypeError ''list indices must be integers or slices, not str'')"
| "item (JStr s) k = Inl (TypeError ''string indices must be integers'')"
| "item v k = Inl (TypeError (CHR 0x27 # type_name v @ CHR 0x27 # '' object is not subscriptable''))"

text \<open>\<open>for x in v\<close>: a list yields its elements, a dict its keys, a string its characters.\<close>

fun iter_items :: "json \<Rightarrow> json list result" where
  "iter_items (JArr xs) = Inr xs"
| "iter_items (JObj d) = Inr (map (\<lambda>(k, v). JStr k) d)"
| "iter_items (JStr s) = Inr (map (\<lambda>c. JStr [c]) s)"
| "iter_items v = Inl (TypeError (CHR 0x27 # type_name v @ CHR 0x27 # '' object is not iterable''))"

text \<open>\<open>v in {strings}\<close>: lists and dicts are unhashable.\<close>

fun in_strings :: "json \<Rightarrow> string list \<Rightarrow> bool result" where
  "in_strings (JStr s) ss = Inr (s \<in> set ss)"
| "in_strings (JArr xs) ss = Inl (TypeError (''unhashable type: '' @ [CHR 0x27] @ ''list'' @ [CHR 0x27]))"
| "in_strings (JObj d) ss = Inl (TypeError (''unhashable type: '' @ [CHR 0x27] @ ''dict'' @ [CHR 0x27]))"
| "in_strings v ss = Inr False"

text \<open>\<open>v.strip()\<close> (and the other \<open>str\<close> methods): only strings have them.\<close>

fun method_str :: "string \<Rightarrow> json \<Rightarrow> string result" where
  "method_str m (JStr s) = Inr s"
| "method_str m v = Inl (AttributeError
     (CHR 0x27 # type_name v @ CHR 0x27 # '' object has no attribute '' @ CHR 0x27 # m @ [CHR 0x27]))"

lemma get_simps [simp]:
  "get [] k = JNull"
  "get ((k', v) # d) k = (if k' = k then v else get d k)"
  by (simp_all add: get_def)

lemma get_default_simps [simp]:
  "get_default [] k v = v"
  "get_default ((k', w) # d) k v = (if k' = k then w else get_default d k v)"
  by (simp_all add: get_default_def)

lemma has_key_simps [simp]:
  "\<not> has_key [] k"
  "has_key ((k', v) # d) k \<longleftrightarrow> k' = k \<or> has_key d k"
  by (auto simp: has_key_def)

lemma has_key_map_of: "has_key d k \<longleftrightarrow> (\<exists>v. map_of d k = Some v)"
  by (induction d) auto

lemma get_not_null_has_key: "get d k \<noteq> JNull \<Longrightarrow> has_key d k"
  by (induction d) (auto split: if_splits)

lemma item_get: "has_key d k \<Longrightarrow> item (JObj d) k = Inr (get d k)"
  by (auto simp: has_key_map_of get_def)

lemma item_Inr_iff [exn_simps]: "item v k = Inr w \<longleftrightarrow> (\<exists>d. v = JObj d \<and> map_of d k = Some w)"
  by (cases v) (auto split: option.splits)

lemma keys_eq_has_key: "keys_eq d ks \<Longrightarrow> k \<in> set ks \<Longrightarrow> has_key d k"
  by (auto simp: keys_eq_def has_key_def)

lemma has_key_put [simp]: "has_key (put k v d) j \<longleftrightarrow> j = k \<or> has_key d j"
  by (induction k v d rule: put.induct) auto

lemma get_put [simp]: "get (put k v d) j = (if j = k then v else get d j)"
  by (induction k v d rule: put.induct) auto

lemma map_of_put [simp]: "map_of (put k v d) = (map_of d)(k \<mapsto> v)"
  by (induction k v d rule: put.induct) (auto simp: fun_eq_iff)

lemma fst_set_put: "fst ` set (put k v d) = insert k (fst ` set d)"
  by (induction k v d rule: put.induct) auto

lemma keys_within_put [simp]: "keys_within (put k v d) ks \<longleftrightarrow> k \<in> set ks \<and> keys_within d ks"
  by (simp add: keys_within_def fst_set_put)

lemma keys_eq_put: "keys_eq d ks \<Longrightarrow> k \<in> set ks \<Longrightarrow> keys_eq (put k v d) ks"
  by (auto simp: keys_eq_def fst_set_put)

lemma distinct_put: "distinct (map fst d) \<Longrightarrow> distinct (map fst (put k v d))"
proof (induction k v d rule: put.induct)
  case (2 k v k' w d)
  then show ?case using fst_set_put [of k v d] by auto
qed simp

lemma update_all_simps [simp]:
  "update_all [] d = d"
  "update_all ((k, v) # kvs) d = update_all kvs (put k v d)"
  by (simp_all add: update_all_def)

lemma get_update_all_other: "k \<notin> set (map fst kvs) \<Longrightarrow> get (update_all kvs d) k = get d k"
  by (induction kvs arbitrary: d) auto

lemma fst_set_update_all: "fst ` set (update_all kvs d) = fst ` set kvs \<union> fst ` set d"
proof (induction kvs arbitrary: d)
  case Nil
  then show ?case by simp
next
  case (Cons kv kvs)
  then show ?case by (cases kv) (simp add: fst_set_put)
qed

lemma distinct_update_all: "distinct (map fst d) \<Longrightarrow> distinct (map fst (update_all kvs d))"
proof (induction kvs arbitrary: d)
  case Nil
  then show ?case by simp
next
  case (Cons kv kvs)
  then show ?case by (cases kv) (simp add: distinct_put)
qed

text \<open>The total reading of such a membership test.\<close>

definition str_in :: "json \<Rightarrow> string list \<Rightarrow> bool" where
  "str_in v ss \<longleftrightarrow> is_str v \<and> str_val v \<in> set ss"

lemma in_strings_True_iff: "in_strings v ss = Inr True \<longleftrightarrow> str_in v ss"
  by (cases v) (auto simp: str_in_def)

lemma in_strings_guard [exn_simps]:
  "(\<exists>ok. in_strings v ss = Inr ok \<and> ok) \<longleftrightarrow> str_in v ss"
  "(\<exists>ok. in_strings v ss = Inr ok \<and> ok \<and> P) \<longleftrightarrow> str_in v ss \<and> P"
  by (cases v; auto simp: str_in_def)+

lemma str_in_JStr [simp]: "str_in (JStr s) ss \<longleftrightarrow> s \<in> set ss"
  by (simp add: str_in_def)

lemma str_in_conv: "str_in v ss \<longleftrightarrow> (\<exists>s\<in>set ss. v = JStr s)"
  by (cases v) (auto simp: str_in_def)

lemma in_strings_JStr [simp]: "in_strings (JStr s) ss = Inr (s \<in> set ss)"
  by simp

lemma method_str_Inr_iff [exn_simps]: "method_str m v = Inr s \<longleftrightarrow> v = JStr s"
  by (cases v) auto


section \<open>Python equality\<close>

text \<open>
  \<open>==\<close> on JSON values: dictionaries compare as mappings, whatever the insertion order,
  and \<open>True == 1\<close>, \<open>False == 0\<close>.
\<close>

fun num_of :: "json \<Rightarrow> int option" where
  "num_of (JBool b) = Some (if b then 1 else 0)"
| "num_of (JInt i) = Some i"
| "num_of v = None"

lemma size_json_obj: "(k, v) \<in> set d \<Longrightarrow> size v < size (JObj d)"
  by (induction d) auto

lemma size_json_arr: "v \<in> set xs \<Longrightarrow> size v < size (JArr xs)"
  by (induction xs) auto

function (sequential) py_eq :: "json \<Rightarrow> json \<Rightarrow> bool" where
  "py_eq (JObj a) (JObj b) =
     (set (map fst a) = set (map fst b) \<and>
      (\<forall>kv\<in>set a. case map_of b (fst kv) of None \<Rightarrow> False | Some w \<Rightarrow> py_eq (snd kv) w))"
| "py_eq (JArr xs) (JArr ys) =
     (length xs = length ys \<and> (\<forall>p\<in>set (zip xs ys). py_eq (fst p) (snd p)))"
| "py_eq (JStr s) (JStr t) = (s = t)"
| "py_eq JNull JNull = True"
| "py_eq a b = (case (num_of a, num_of b) of (Some i, Some j) \<Rightarrow> i = j | _ \<Rightarrow> False)"
  by pat_completeness auto
termination
  by (relation "measure (\<lambda>(a, b). size a)")
    (auto dest!: set_zip_leftD size_json_obj simp: size_json_arr less_Suc_eq_le size_list_estimation')

text \<open>Well-formed values: every object has distinct member names.\<close>

function wf_json :: "json \<Rightarrow> bool" where
  "wf_json JNull = True"
| "wf_json (JBool b) = True"
| "wf_json (JInt i) = True"
| "wf_json (JStr s) = True"
| "wf_json (JArr xs) = (\<forall>v\<in>set xs. wf_json v)"
| "wf_json (JObj d) = (distinct (map fst d) \<and> (\<forall>kv\<in>set d. wf_json (snd kv)))"
  by pat_completeness auto
termination
  by (relation "measure size") (auto dest!: size_json_obj simp: size_json_arr less_Suc_eq_le size_list_estimation')

lemma py_eq_str_left [simp]: "py_eq (JStr s) v \<longleftrightarrow> v = JStr s"
  by (cases v) auto

lemma py_eq_str_right [simp]: "py_eq v (JStr s) \<longleftrightarrow> v = JStr s"
  by (cases v) auto

lemma py_eq_refl: "wf_json v \<Longrightarrow> py_eq v v"
proof (induction v rule: wf_json.induct)
  case (5 xs)
  then show ?case by (auto simp: zip_same)
next
  case (6 d)
  then show ?case by (auto simp: map_of_is_SomeI)
qed auto

declare py_eq.simps(1,2) [simp del]


section \<open>Sets and renderings\<close>

text \<open>\<open>set(v)\<close>: the keys of a dict; the elements of a list or string when hashable.\<close>

definition hashable :: "json \<Rightarrow> bool" where
  "hashable v \<longleftrightarrow> \<not> is_list v \<and> \<not> is_dict v"

definition set_of :: "json \<Rightarrow> json list result" where
  "set_of v = rbind (iter_items v) (\<lambda>xs.
     require (list_all hashable xs) (TypeError ''unhashable type'') (Inr xs))"

text \<open>\<open>repr\<close> and \<open>str\<close> of JSON values, as f-strings use them.\<close>

definition repr_printable :: "char \<Rightarrow> bool" where
  "repr_printable c = (let n = of_char c :: nat in 32 \<le> n \<and> n \<le> 126 \<or> 161 \<le> n \<and> n \<noteq> 173)"

definition hex2 :: "nat \<Rightarrow> string" where
  "hex2 n = [''0123456789abcdef'' ! (n div 16 mod 16), ''0123456789abcdef'' ! (n mod 16)]"

definition repr_char :: "char \<Rightarrow> char \<Rightarrow> string" where
  "repr_char q c =
     (if c = q \<or> c = CHR 0x5C then [CHR 0x5C, c]
      else if c = CHR 0x0A then [CHR 0x5C, CHR ''n'']
      else if c = CHR 0x0D then [CHR 0x5C, CHR ''r'']
      else if c = CHR 0x09 then [CHR 0x5C, CHR ''t'']
      else if repr_printable c then [c] else [CHR 0x5C, CHR ''x''] @ hex2 (of_char c))"

definition repr_str :: "string \<Rightarrow> string" where
  "repr_str s = (let q = (if CHR 0x27 \<in> set s \<and> CHR 0x22 \<notin> set s then CHR 0x22 else CHR 0x27)
     in q # concat (map (repr_char q) s) @ [q])"

function py_repr :: "json \<Rightarrow> string" where
  "py_repr JNull = ''None''"
| "py_repr (JBool b) = (if b then ''True'' else ''False'')"
| "py_repr (JInt i) = show_int i"
| "py_repr (JStr s) = repr_str s"
| "py_repr (JArr xs) = ''['' @ join '', '' (map py_repr xs) @ '']''"
| "py_repr (JObj d) = CHR 0x7B # join '', '' (map (\<lambda>kv. repr_str (fst kv) @ '': '' @ py_repr (snd kv)) d) @ [CHR 0x7D]"
  by pat_completeness auto
termination
  by (relation "measure size") (auto dest!: size_json_obj simp: size_json_arr less_Suc_eq_le size_list_estimation')

definition py_str :: "json \<Rightarrow> string" where
  "py_str v = (case v of JStr s \<Rightarrow> s | _ \<Rightarrow> py_repr v)"


section \<open>Canonical rendering\<close>

text \<open>
  \<open>json.dumps(v, ensure_ascii=False, sort_keys=True, separators=(",", ":"))\<close>: keys
  sorted by code point, no spaces, the escapes of \<open>json.encoder\<close>.
\<close>

definition hex4 :: "nat \<Rightarrow> string" where
  "hex4 n = [CHR ''0'', CHR ''0'', ''0123456789abcdef'' ! (n div 16 mod 16), ''0123456789abcdef'' ! (n mod 16)]"

definition escape_char :: "char \<Rightarrow> string" where
  "escape_char c =
     (if c = CHR 0x22 then [CHR 0x5C, CHR 0x22]
      else if c = CHR 0x5C then [CHR 0x5C, CHR 0x5C]
      else if c = CHR 0x08 then [CHR 0x5C, CHR ''b'']
      else if c = CHR 0x0C then [CHR 0x5C, CHR ''f'']
      else if c = CHR 0x0A then [CHR 0x5C, CHR ''n'']
      else if c = CHR 0x0D then [CHR 0x5C, CHR ''r'']
      else if c = CHR 0x09 then [CHR 0x5C, CHR ''t'']
      else if (of_char c :: nat) < 32 then [CHR 0x5C, CHR ''u''] @ hex4 (of_char c)
      else [c])"

definition dump_str :: "string \<Rightarrow> string" where
  "dump_str s = [CHR 0x22] @ concat (map escape_char s) @ [CHR 0x22]"

function dumps :: "json \<Rightarrow> string" where
  "dumps JNull = ''null''"
| "dumps (JBool b) = (if b then ''true'' else ''false'')"
| "dumps (JInt i) = show_int i"
| "dumps (JStr s) = dump_str s"
| "dumps (JArr xs) = ''['' @ join '','' (map dumps xs) @ '']''"
| "dumps (JObj d) =
     CHR 0x7B # join '','' (map snd (sort_key fst
       (map (\<lambda>kv. (fst kv, dump_str (fst kv) @ '':'' @ dumps (snd kv))) d))) @ [CHR 0x7D]"
  by pat_completeness auto
termination
  by (relation "measure size") (auto dest!: size_json_obj simp: size_json_arr less_Suc_eq_le size_list_estimation')

text \<open>
  \<open>json.dumps(v, ensure_ascii=False)\<close>: members in insertion order, separators \<open>", "\<close>
  and \<open>": "\<close>.
\<close>

function dumps_plain :: "json \<Rightarrow> string" where
  "dumps_plain JNull = ''null''"
| "dumps_plain (JBool b) = (if b then ''true'' else ''false'')"
| "dumps_plain (JInt i) = show_int i"
| "dumps_plain (JStr s) = dump_str s"
| "dumps_plain (JArr xs) = ''['' @ join '', '' (map dumps_plain xs) @ '']''"
| "dumps_plain (JObj d) =
     CHR 0x7B # join '', '' (map (\<lambda>kv. dump_str (fst kv) @ '': '' @ dumps_plain (snd kv)) d) @ [CHR 0x7D]"
  by pat_completeness auto
termination
  by (relation "measure size") (auto dest!: size_json_obj simp: size_json_arr less_Suc_eq_le size_list_estimation')

definition canonical_bytes :: "json \<Rightarrow> string" where
  "canonical_bytes v = utf8 (dumps v)"

text \<open>The rendering of a value never depends on the insertion order of its members.\<close>

lemma sort_key_unique:
  fixes a b :: "(string \<times> 'b) list"
  assumes "distinct (map fst a)" and "distinct (map fst b)" and "set a = set b"
  shows "sort_key fst a = sort_key fst b"
proof (rule map_sorted_distinct_set_unique [where f = fst])
  show "inj_on fst (set (sort_key fst a) \<union> set (sort_key fst b))"
    using assms by (simp add: distinct_map)
qed (use assms in \<open>simp_all add: distinct_map\<close>)

lemma dumps_member_order:
  assumes "distinct (map fst a)" and "distinct (map fst b)" and "set a = set b"
  shows "dumps (JObj a) = dumps (JObj b)"
proof -
  let ?f = "\<lambda>kv. (fst kv, dump_str (fst kv) @ '':'' @ dumps (snd kv))"
  have "sort_key fst (map ?f a) = sort_key fst (map ?f b)"
    using assms by (intro sort_key_unique) (simp_all add: comp_def)
  then show ?thesis by simp
qed

end
