(* ===== verification/Sha256.thy ===== *)
theory Sha256
  imports Prelude "HOL-Library.Word"
begin

text \<open>
  \<open>hashlib.sha256(data).hexdigest()\<close> of the Python standard library, written out from
  FIPS 180-4 over 32-bit words: padding to 64-byte blocks, the message schedule, the
  compression function and the lower-case hexadecimal rendering. The sources only rely on
  the shape of the digest (64 lower-case hexadecimal characters), which is proved here, and
  on equal inputs having equal digests.
\<close>

unbundle bit_operations_syntax

type_synonym w32 = "32 word"

text \<open>
  The constants are the first 32 bits of the fractional parts of cube roots (round constants)
  and square roots (initial state) of the first primes: the integer root, bit by bit from
  bit 35 down, of the prime scaled by \<open>2 ^ 32\<close> to the power of the root, modulo \<open>2 ^ 32\<close>.
\<close>

definition first_primes :: "int list" where
  "first_primes = [
     2, 3, 5, 7, 11, 13, 17, 19, 23, 29, 31, 37, 41, 43, 47, 53,
     59, 61, 67, 71, 73, 79, 83, 89, 97, 101, 103, 107, 109, 113, 127, 131,
     137, 139, 149, 151, 157, 163, 167, 173, 179, 181, 191, 193, 197, 199, 211, 223,
     227, 229, 233, 239, 241, 251, 257, 263, 269, 271, 277, 281, 283, 293, 307, 311]"

fun int_root :: "nat \<Rightarrow> int \<Rightarrow> nat \<Rightarrow> int \<Rightarrow> int" where
  "int_root k n 0 r = r"
| "int_root k n (Suc b) r = int_root k n b (if (r + 2 ^ b) ^ k \<le> n then r + 2 ^ b else r)"

definition root_bits :: "nat \<Rightarrow> int \<Rightarrow> w32" where
  "root_bits k p = of_int (int_root k (p * 2 ^ (32 * k)) 36 0 mod 2 ^ 32)"

definition sha_k :: "w32 list" where
  "sha_k = map (root_bits 3) first_primes"

definition sha_init :: "w32 list" where
  "sha_init = map (root_bits 2) (take 8 first_primes)"

definition rotr :: "nat \<Rightarrow> w32 \<Rightarrow> w32" where
  "rotr n x = drop_bit n x OR push_bit (32 - n) x"

definition big_sigma0 :: "w32 \<Rightarrow> w32" where
  "big_sigma0 x = rotr 2 x XOR rotr 13 x XOR rotr 22 x"

definition big_sigma1 :: "w32 \<Rightarrow> w32" where
  "big_sigma1 x = rotr 6 x XOR rotr 11 x XOR rotr 25 x"

definition small_sigma0 :: "w32 \<Rightarrow> w32" where
  "small_sigma0 x = rotr 7 x XOR rotr 18 x XOR drop_bit 3 x"

definition small_sigma1 :: "w32 \<Rightarrow> w32" where
  "small_sigma1 x = rotr 17 x XOR rotr 19 x XOR drop_bit 10 x"

definition sha_ch :: "w32 \<Rightarrow> w32 \<Rightarrow> w32 \<Rightarrow> w32" where
  "sha_ch x y z = (x AND y) XOR (NOT x AND z)"

definition sha_maj :: "w32 \<Rightarrow> w32 \<Rightarrow> w32 \<Rightarrow> w32" where
  "sha_maj x y z = (x AND y) XOR (x AND z) XOR (y AND z)"

text \<open>Padding: a one bit, zeros, and the length in bits as a 64-bit big-endian number.\<close>

definition be_bytes :: "nat \<Rightarrow> int \<Rightarrow> int list" where
  "be_bytes k n = map (\<lambda>i. (n div 256 ^ i) mod 256) (rev [0..<k])"

definition sha_pad :: "int list \<Rightarrow> int list" where
  "sha_pad bs = (let n = int (length bs) in
     bs @ [128] @ replicate (nat ((55 - n) mod 64)) 0 @ be_bytes 8 (8 * n))"

definition be_word :: "int list \<Rightarrow> w32" where
  "be_word bs = word_of_int (foldl (\<lambda>n b. 256 * n + b) 0 bs)"

fun sha_chunks :: "nat \<Rightarrow> 'a list \<Rightarrow> 'a list list" where
  "sha_chunks n xs = (if n = 0 \<or> xs = [] then [] else take n xs # sha_chunks n (drop n xs))"

declare sha_chunks.simps [simp del]

text \<open>The schedule, kept newest first, is extended \<open>k\<close> times.\<close>

fun sha_extend :: "nat \<Rightarrow> w32 list \<Rightarrow> w32 list" where
  "sha_extend 0 ws = ws"
| "sha_extend (Suc k) ws =
     sha_extend k ((small_sigma1 (ws ! 1) + ws ! 6 + small_sigma0 (ws ! 14) + ws ! 15) # ws)"

definition sha_schedule :: "int list \<Rightarrow> w32 list" where
  "sha_schedule block = rev (sha_extend 48 (rev (map be_word (sha_chunks 4 block))))"

fun round_step :: "w32 list \<Rightarrow> w32 \<times> w32 \<Rightarrow> w32 list" where
  "round_step [a, b, c, d, e, f, g, h] (k, w) =
     (let t1 = h + big_sigma1 e + sha_ch e f g + k + w;
          t2 = big_sigma0 a + sha_maj a b c
      in [t1 + t2, a, b, c, d + t1, e, f, g])"
| "round_step hs kw = hs"

definition sha_compress :: "w32 list \<Rightarrow> int list \<Rightarrow> w32 list" where
  "sha_compress hs block =
     map2 (+) hs (foldl round_step hs (zip sha_k (sha_schedule block)))"

definition sha256_words :: "string \<Rightarrow> w32 list" where
  "sha256_words bs = foldl sha_compress sha_init (sha_chunks 64 (sha_pad (map of_char bs)))"

definition hex_digit :: "nat \<Rightarrow> char" where
  "hex_digit d = ''0123456789abcdef'' ! d"

definition hex_word :: "w32 \<Rightarrow> string" where
  "hex_word w = map (\<lambda>i. hex_digit (nat ((uint w div 16 ^ i) mod 16))) (rev [0..<8])"

definition sha256_hex :: "string \<Rightarrow> string" where
  "sha256_hex bs = concat (map hex_word (sha256_words bs))"


section \<open>The shape of a digest\<close>

lemma hex_digit_hex: "d < 16 \<Longrightarrow> is_hex_lower (hex_digit d)"
proof -
  assume "d < 16"
  then have "hex_digit d \<in> set ''0123456789abcdef''"
    unfolding hex_digit_def by (intro nth_mem) simp
  then show ?thesis by (simp add: is_hex_lower_def)
qed

lemma length_hex_word [simp]: "length (hex_word w) = 8"
  by (simp add: hex_word_def)

lemma hex_word_hex: "list_all is_hex_lower (hex_word w)"
  by (auto simp: hex_word_def list_all_iff nat_less_iff intro!: hex_digit_hex)

lemma length_round_step: "length hs = 8 \<Longrightarrow> length (round_step hs kw) = 8"
  by (induction hs kw rule: round_step.induct) (auto simp: Let_def)

lemma length_rounds: "length hs = 8 \<Longrightarrow> length (foldl round_step hs kws) = 8"
  by (induction kws arbitrary: hs) (auto simp: length_round_step)

lemma length_compress: "length hs = 8 \<Longrightarrow> length (sha_compress hs b) = 8"
  by (simp add: sha_compress_def length_rounds)

lemma length_compress_all: "length hs = 8 \<Longrightarrow> length (foldl sha_compress hs bs) = 8"
  by (induction bs arbitrary: hs) (auto simp: length_compress)

lemma length_concat_const: "(\<And>x. length (f x) = k) \<Longrightarrow> length (concat (map f xs)) = k * length xs"
  by (induction xs) auto

lemma length_sha256 [simp]: "length (sha256_hex bs) = 64"
proof -
  have "length (sha256_words bs) = 8"
    unfolding sha256_words_def by (rule length_compress_all) (simp add: sha_init_def first_primes_def)
  then show ?thesis by (simp add: sha256_hex_def length_concat_const [where k = 8])
qed

lemma sha256_is_sha256 [simp]: "is_sha256 (sha256_hex bs)"
  using hex_word_hex
  by (auto simp: is_sha256_def) (auto simp: sha256_hex_def list_all_iff)

end
