(* ===== verification/Datetime.thy ===== *)
theory Datetime
  imports Prelude
begin

text \<open>
  The part of Python's \<open>datetime\<close> the sources use. A datetime is its local time in
  microseconds since 0001-01-01T00:00:00 and, when aware, its UTC offset in microseconds.
  Dates are converted by the algorithms of CPython's \<open>datetime.py\<close> (\<open>_ymd2ord\<close>,
  \<open>_ord2ymd\<close>); \<open>fromisoformat\<close> accepts the grammar documented for Python 3.10, the
  oldest version the package supports. The theory ends with the round trip the stores rely
  on: a timestamp written by \<open>stamp\<close> parses back to the same second.
\<close>

datatype datetime = DT (local_us: int) (utcoff: "int option")

text \<open>An aware datetime's position on the UTC time line.\<close>

fun instant :: "datetime \<Rightarrow> int" where
  "instant (DT t (Some off)) = t - off"
| "instant (DT t None) = t"

definition is_aware :: "datetime \<Rightarrow> bool" where
  "is_aware d \<longleftrightarrow> utcoff d \<noteq> None"

definition us_second :: int where "us_second = 1000000"
definition us_minute :: int where "us_minute = 60000000"
definition us_hour :: int where "us_hour = 3600000000"
definition us_day :: int where "us_day = 86400000000"

lemmas us_defs = us_second_def us_minute_def us_hour_def us_day_def

text \<open>The first instant after 9999-12-31T23:59:59.999999.\<close>

definition max_us :: int where "max_us = 3652059 * 86400000000"


section \<open>Calendar\<close>

definition is_leap :: "int \<Rightarrow> bool" where
  "is_leap y \<longleftrightarrow> y mod 4 = 0 \<and> (y mod 100 \<noteq> 0 \<or> y mod 400 = 0)"

definition days_before_year :: "int \<Rightarrow> int" where
  "days_before_year y = (let x = y - 1 in x * 365 + x div 4 - x div 100 + x div 400)"

definition month_days :: "int list" where
  "month_days = [-1, 31, 28, 31, 30, 31, 30, 31, 31, 30, 31, 30, 31]"

definition month_starts :: "int list" where
  "month_starts = [-1, 0, 31, 59, 90, 120, 151, 181, 212, 243, 273, 304, 334]"

definition days_in_month :: "bool \<Rightarrow> nat \<Rightarrow> int" where
  "days_in_month leap m = (if m = 2 \<and> leap then 29 else month_days ! m)"

definition days_before_month :: "bool \<Rightarrow> nat \<Rightarrow> int" where
  "days_before_month leap m = month_starts ! m + (if 2 < m \<and> leap then 1 else 0)"

definition ymd2ord :: "int \<Rightarrow> nat \<Rightarrow> int \<Rightarrow> int" where
  "ymd2ord y m d = days_before_year y + days_before_month (is_leap y) m + d"

definition valid_ymd :: "int \<Rightarrow> nat \<Rightarrow> int \<Rightarrow> bool" where
  "valid_ymd y m d \<longleftrightarrow> 1 \<le> y \<and> y \<le> 9999 \<and> 1 \<le> m \<and> m \<le> 12 \<and> 1 \<le> d \<and> d \<le> days_in_month (is_leap y) m"

text \<open>The month and day of the zero-based day \<open>r\<close> of a year: an estimate, then one correction.\<close>

definition month_day :: "bool \<Rightarrow> int \<Rightarrow> nat \<times> int" where
  "month_day leap r =
     (let month = nat ((r + 50) div 32); preceding = days_before_month leap month
      in if preceding > r
         then (month - 1, r - (preceding - days_in_month leap (month - 1)) + 1)
         else (month, r - preceding + 1))"

definition ord2ymd :: "int \<Rightarrow> int \<times> nat \<times> int" where
  "ord2ymd n =
     (let m = n - 1; n400 = m div 146097; r400 = m mod 146097;
          n100 = r400 div 36524; r100 = r400 mod 36524;
          n4 = r100 div 1461; r4 = r100 mod 1461;
          n1 = r4 div 365; r = r4 mod 365;
          year = n400 * 400 + 1 + n100 * 100 + n4 * 4 + n1
      in if n1 = 4 \<or> n100 = 4 then (year - 1, 12, 31)
         else (year, month_day (n1 = 3 \<and> (n4 \<noteq> 24 \<or> n100 = 3)) r))"


section \<open>Writing and reading timestamps\<close>

text \<open>\<open>value.replace(microsecond=0).isoformat().replace("+00:00", "Z")\<close> of a UTC time.\<close>

definition iso_date :: "int \<Rightarrow> string" where
  "iso_date day = (case ord2ymd (day + 1) of (y, m, d) \<Rightarrow>
     show_pad 4 (nat y) @ ''-'' @ show_pad 2 m @ ''-'' @ show_pad 2 (nat d))"

definition iso_time :: "int \<Rightarrow> string" where
  "iso_time s = show_pad 2 (nat (s div 3600)) @ '':'' @ show_pad 2 (nat (s div 60 mod 60)) @ '':''
     @ show_pad 2 (nat (s mod 60))"

definition stamp :: "int \<Rightarrow> string" where
  "stamp t = iso_date (t div us_day) @ ''T'' @ iso_time (t div us_second mod 86400) @ ''Z''"

definition parse_date :: "string \<Rightarrow> int option" where
  "parse_date s =
     (case (read_digits (take 4 s), read_digits (take 2 (drop 5 s)), read_digits (take 2 (drop 8 s))) of
        (Some y, Some m, Some d) \<Rightarrow>
          (if length s = 10 \<and> s ! 4 = CHR ''-'' \<and> s ! 7 = CHR ''-'' \<and> valid_ymd (int y) m (int d)
           then Some (ymd2ord (int y) m (int d) - 1) else None)
      | _ \<Rightarrow> None)"

text \<open>\<open>HH[:MM[:SS[.fff[fff]]]]\<close> as microseconds, with the hour, minute and second values.\<close>

definition parse_hms :: "string \<Rightarrow> (nat \<times> nat \<times> nat \<times> nat) option" where
  "parse_hms s = (let n = length s in
     if n \<notin> set [2, 5, 8, 12, 15] \<or> (5 \<le> n \<and> s ! 2 \<noteq> CHR '':'') \<or> (8 \<le> n \<and> s ! 5 \<noteq> CHR '':'')
        \<or> (12 \<le> n \<and> s ! 8 \<noteq> CHR ''.'')
     then None
     else case (read_digits (take 2 s),
                if 5 \<le> n then read_digits (take 2 (drop 3 s)) else Some 0,
                if 8 \<le> n then read_digits (take 2 (drop 6 s)) else Some 0,
                if 12 \<le> n then read_digits (drop 9 s) else Some 0) of
            (Some h, Some m, Some sec, Some f) \<Rightarrow> Some (h, m, sec, if n = 12 then f * 1000 else f)
          | _ \<Rightarrow> None)"

definition hms_us :: "nat \<times> nat \<times> nat \<times> nat \<Rightarrow> int" where
  "hms_us x = (case x of (h, m, s, f) \<Rightarrow>
     int h * us_hour + int m * us_minute + int s * us_second + int f)"

definition is_sign :: "char \<Rightarrow> bool" where
  "is_sign c \<longleftrightarrow> c = CHR ''+'' \<or> c = CHR ''-''"

definition parse_offset :: "string \<Rightarrow> int option option" where
  "parse_offset s = (case s of
     [] \<Rightarrow> Some None
   | sign # tz \<Rightarrow>
       (if length tz \<notin> set [5, 8, 15] then None
        else case parse_hms tz of
               None \<Rightarrow> None
             | Some x \<Rightarrow>
                 (let off = (if sign = CHR ''-'' then - hms_us x else hms_us x)
                  in if - us_day < off \<and> off < us_day then Some (Some off) else None)))"

definition parse_time_part :: "int \<Rightarrow> string \<Rightarrow> datetime option" where
  "parse_time_part day t =
     (case parse_hms (takeWhile (\<lambda>c. \<not> is_sign c) t) of
        None \<Rightarrow> None
      | Some (h, m, s, f) \<Rightarrow>
          (if h < 24 \<and> m < 60 \<and> s < 60
           then (case parse_offset (dropWhile (\<lambda>c. \<not> is_sign c) t) of
                   None \<Rightarrow> None
                 | Some off \<Rightarrow> Some (DT (day * us_day + hms_us (h, m, s, f)) off))
           else None))"

definition fromisoformat :: "string \<Rightarrow> datetime option" where
  "fromisoformat s =
     (case parse_date (take 10 s) of
        None \<Rightarrow> None
      | Some day \<Rightarrow>
          (if length s = 10 then Some (DT (day * us_day) None)
           else parse_time_part day (drop 11 s)))"

text \<open>\<open>datetime.fromisoformat(value.replace("Z", "+00:00"))\<close>, the reading every store uses.\<close>

definition parse_stamp :: "string \<Rightarrow> datetime option" where
  "parse_stamp s = fromisoformat (replace_char (CHR ''Z'') ''+00:00'' s)"

text \<open>\<open>current + timedelta(minutes=m)\<close>.\<close>

definition add_minutes :: "int \<Rightarrow> int \<Rightarrow> int result" where
  "add_minutes t m =
     (if t + m * us_minute < max_us then Inr (t + m * us_minute)
      else Inl (OverflowError ''date value out of range''))"

lemma add_minutes_Inr_iff [exn_simps]:
  "add_minutes t m = Inr e \<longleftrightarrow> e = t + m * us_minute \<and> t + m * us_minute < max_us"
  by (auto simp: add_minutes_def)


section \<open>Correctness of the calendar\<close>

definition month_day_ok :: "bool \<Rightarrow> int \<Rightarrow> bool" where
  "month_day_ok leap r \<longleftrightarrow> (case month_day leap r of (m, d) \<Rightarrow>
     1 \<le> m \<and> m \<le> 12 \<and> 1 \<le> d \<and> d \<le> days_in_month leap m \<and> days_before_month leap m + d = r + 1)"

lemma month_day_table_leap: "list_all (month_day_ok True) [0..365]"
  by code_simp

lemma month_day_table_common: "list_all (month_day_ok False) [0..364]"
  by code_simp

lemma month_day_correct:
  assumes "0 \<le> r" and "r \<le> (if leap then 365 else 364)" and "month_day leap r = (m, d)"
  shows "1 \<le> m" "m \<le> 12" "1 \<le> d" "d \<le> days_in_month leap m" "days_before_month leap m + d = r + 1"
proof -
  have "month_day_ok leap r"
    using month_day_table_leap month_day_table_common assms(1,2)
    by (cases leap) (auto simp: list_all_iff)
  then show "1 \<le> m" "m \<le> 12" "1 \<le> d" "d \<le> days_in_month leap m" "days_before_month leap m + d = r + 1"
    using assms(3) by (simp_all add: month_day_ok_def)
qed

lemma div_digit: "0 \<le> r \<Longrightarrow> r < k \<Longrightarrow> (k * q + r) div k = (q :: int)"
  by simp

lemma mod_digit: "0 \<le> r \<Longrightarrow> r < k \<Longrightarrow> (k * q + r) mod k = (r :: int)"
  by simp

text \<open>A year written in the mixed radix 400, 100, 4, 1 and the days before it.\<close>

lemma days_before_year_radix:
  assumes "0 \<le> b" "b \<le> 3" "0 \<le> c" "c \<le> 24" "0 \<le> e" "e \<le> 3"
  shows "days_before_year (400 * a + 1 + 100 * b + 4 * c + e)
       = 146097 * a + 36524 * b + 1461 * c + 365 * e"
proof -
  let ?x = "400 * a + 100 * b + 4 * c + e"
  have "?x div 4 = 100 * a + 25 * b + c"
    using div_digit [of e 4 "100 * a + 25 * b + c"] assms by (simp add: algebra_simps)
  moreover have "?x div 100 = 4 * a + b"
    using div_digit [of "4 * c + e" 100 "4 * a + b"] assms by (simp add: algebra_simps)
  moreover have "?x div 400 = a"
    using div_digit [of "100 * b + 4 * c + e" 400 a] assms by (simp add: algebra_simps)
  ultimately show ?thesis by (simp add: days_before_year_def Let_def algebra_simps)
qed

lemma is_leap_radix:
  assumes "0 \<le> b" "b \<le> 3" "0 \<le> c" "c \<le> 24" "0 \<le> e" "e \<le> 3"
  shows "is_leap (400 * a + 1 + 100 * b + 4 * c + e) \<longleftrightarrow> e = 3 \<and> (c \<noteq> 24 \<or> b = 3)"
proof (cases "e = 3")
  case False
  then have "(400 * a + 1 + 100 * b + 4 * c + e) mod 4 = e + 1"
    using mod_digit [of "e + 1" 4 "100 * a + 25 * b + c"] assms by (simp add: algebra_simps)
  then show ?thesis using False assms by (simp add: is_leap_def)
next
  case e: True
  let ?y = "400 * a + 1 + 100 * b + 4 * c + e"
  have m4: "?y mod 4 = 0"
    using mod_digit [of 0 4 "100 * a + 25 * b + c + 1"] e by (simp add: algebra_simps)
  show ?thesis
  proof (cases "c = 24")
    case False
    then have "?y mod 100 = 4 * c + 4"
      using mod_digit [of "4 * c + 4" 100 "4 * a + b"] assms e by (simp add: algebra_simps)
    then show ?thesis using False assms e m4 by (simp add: is_leap_def)
  next
    case c: True
    have m100: "?y mod 100 = 0"
      using mod_digit [of 0 100 "4 * a + b + 1"] c e by (simp add: algebra_simps)
    have "?y mod 400 = 0 \<longleftrightarrow> b = 3"
    proof (cases "b = 3")
      case True
      then show ?thesis using mod_digit [of 0 400 "a + 1"] c e by (simp add: algebra_simps)
    next
      case False
      then show ?thesis
        using mod_digit [of "100 * b + 100" 400 a] c e assms by (simp add: algebra_simps)
    qed
    then show ?thesis using m4 m100 c e by (simp add: is_leap_def)
  qed
qed

text \<open>The ordinal of the date CPython computes for an ordinal is that ordinal.\<close>

lemma ymd2ord_ord2ymd:
  assumes "ord2ymd n = (y, m, d)"
  shows "ymd2ord y m d = n" and "1 \<le> m" and "m \<le> 12" and "1 \<le> d" and "d \<le> days_in_month (is_leap y) m"
proof -
  define a where "a = (n - 1) div 146097"
  define r400 where "r400 = (n - 1) mod 146097"
  define b where "b = r400 div 36524"
  define r100 where "r100 = r400 mod 36524"
  define c where "c = r100 div 1461"
  define r4 where "r4 = r100 mod 1461"
  define e where "e = r4 div 365"
  define r where "r = r4 mod 365"
  note defs = a_def r400_def b_def r100_def c_def r4_def e_def r_def
  have n: "n = 146097 * a + 36524 * b + 1461 * c + 365 * e + r + 1"
    using div_mult_mod_eq [of "n - 1" 146097] div_mult_mod_eq [of r400 36524]
      div_mult_mod_eq [of r100 1461] div_mult_mod_eq [of r4 365]
    unfolding a_def [symmetric] r400_def [symmetric] b_def [symmetric] r100_def [symmetric]
      c_def [symmetric] r4_def [symmetric] e_def [symmetric] r_def [symmetric] by linarith
  have rng: "0 \<le> r400" "r400 < 146097" "0 \<le> r100" "r100 < 36524" "0 \<le> r4" "r4 < 1461" "0 \<le> r" "r < 365"
    unfolding defs by simp_all
  have rec: "r400 = 36524 * b + r100" "r100 = 1461 * c + r4" "r4 = 365 * e + r"
    unfolding b_def r100_def c_def r4_def e_def r_def by simp_all
  have bnd: "0 \<le> b" "b \<le> 4" "0 \<le> c" "c \<le> 24" "0 \<le> e" "e \<le> 4"
    using rng rec by linarith+
  have "ord2ymd n = (if e = 4 \<or> b = 4 then (a * 400 + 1 + b * 100 + c * 4 + e - 1, 12, 31)
      else (a * 400 + 1 + b * 100 + c * 4 + e, month_day (e = 3 \<and> (c \<noteq> 24 \<or> b = 3)) r))"
    unfolding ord2ymd_def Let_def defs by (rule refl)
  then have eq: "(y, m, d) = (if e = 4 \<or> b = 4 then (a * 400 + 1 + b * 100 + c * 4 + e - 1, 12, 31)
      else (a * 400 + 1 + b * 100 + c * 4 + e, month_day (e = 3 \<and> (c \<noteq> 24 \<or> b = 3)) r))"
    using assms by simp
  have "ymd2ord y m d = n \<and> 1 \<le> m \<and> m \<le> 12 \<and> 1 \<le> d \<and> d \<le> days_in_month (is_leap y) m"
  proof (cases "e = 4 \<or> b = 4")
    case False
    let ?l = "e = 3 \<and> (c \<noteq> 24 \<or> b = 3)"
    from False bnd have b3: "b \<le> 3" "e \<le> 3" by auto
    from False eq have y: "y = 400 * a + 1 + 100 * b + 4 * c + e" and md: "month_day ?l r = (m, d)"
      by auto
    have leap: "is_leap y = ?l" unfolding y using bnd b3 by (intro is_leap_radix) auto
    have dby: "days_before_year y = 146097 * a + 36524 * b + 1461 * c + 365 * e"
      unfolding y using bnd b3 by (intro days_before_year_radix) auto
    have r: "r \<le> (if ?l then 365 else 364)" using rng by auto
    note ok = month_day_correct [OF rng(7) r md]
    from ok(5) have "ymd2ord y m d = n" unfolding ymd2ord_def dby leap n by simp
    then show ?thesis using ok(1-4) by (simp add: leap)
  next
    case True
    have md: "y = 400 * a + 100 * b + 4 * c + e" "m = 12" "d = 31" using True eq by auto
    show ?thesis
    proof (cases "b = 4")
      case True
      from rec(1) have "r400 = 146096" "r100 = 0" using True rng by auto
      then have z: "c = 0" "e = 0" "r = 0" unfolding c_def e_def r_def r4_def by simp_all
      have y: "y = 400 * a + 1 + 100 * 3 + 4 * 24 + 3" using md True z by simp
      have "is_leap y" unfolding y by (subst is_leap_radix) auto
      moreover have "days_before_year y = 146097 * a + 36524 * 3 + 1461 * 24 + 365 * 3"
        unfolding y by (subst days_before_year_radix) auto
      ultimately show ?thesis using md n True z
        by (simp add: ymd2ord_def days_before_month_def days_in_month_def month_starts_def month_days_def)
    next
      case False
      with True have e: "e = 4" by simp
      from rec(3) have r: "r = 0" using e rng by simp
      have b3: "b \<le> 3" using False bnd by simp
      have c: "c \<noteq> 24" using rng e rec by linarith
      have y: "y = 400 * a + 1 + 100 * b + 4 * c + 3" using md e by simp
      have "is_leap y" unfolding y using bnd b3 c by (subst is_leap_radix) auto
      moreover have "days_before_year y = 146097 * a + 36524 * b + 1461 * c + 365 * 3"
        unfolding y using bnd b3 by (subst days_before_year_radix) auto
      ultimately show ?thesis using md n e r
        by (simp add: ymd2ord_def days_before_month_def days_in_month_def month_starts_def month_days_def)
    qed
  qed
  then show "ymd2ord y m d = n" "1 \<le> m" "m \<le> 12" "1 \<le> d" "d \<le> days_in_month (is_leap y) m"
    by simp_all
qed

text \<open>Ordinals from 1 to 3652059 are the dates of the years 1 to 9999.\<close>

lemma day_of_year_bound:
  assumes "1 \<le> m" "m \<le> 12" "1 \<le> d" "d \<le> days_in_month leap m"
  shows "days_before_month leap m + d \<le> 366" and "0 < days_before_month leap m + d"
proof -
  have "m = 1 \<or> m = 2 \<or> m = 3 \<or> m = 4 \<or> m = 5 \<or> m = 6 \<or> m = 7 \<or> m = 8 \<or> m = 9 \<or> m = 10
      \<or> m = 11 \<or> m = 12"
    using assms(1,2) by arith
  then have "days_before_month leap m + d \<le> 366 \<and> 0 < days_before_month leap m + d"
    using assms(3,4)
    by (elim disjE; cases leap)
      (simp_all add: days_before_month_def days_in_month_def month_starts_def month_days_def)
  then show "days_before_month leap m + d \<le> 366" and "0 < days_before_month leap m + d" by simp_all
qed

lemma days_before_year_bounds:
  "y \<le> 0 \<Longrightarrow> days_before_year y \<le> -366" "10000 \<le> y \<Longrightarrow> 3652059 \<le> days_before_year y"
proof -
  define x where "x = y - 1"
  define z where "z = x div 100"
  have x4: "4 * (x div 4) \<le> x" "x < 4 * (x div 4) + 4" by simp_all
  have z: "100 * z \<le> x" "x < 100 * z + 100" unfolding z_def by simp_all
  have "x div 400 = z div 4" unfolding z_def by (simp add: zdiv_zmult2_eq [symmetric])
  then have w: "4 * (x div 400) \<le> z" "z < 4 * (x div 400) + 4" by simp_all
  have dby: "days_before_year y = x * 365 + x div 4 - z + x div 400"
    by (simp add: days_before_year_def x_def z_def Let_def)
  show "y \<le> 0 \<Longrightarrow> days_before_year y \<le> -366"
  proof -
    assume "y \<le> 0"
    then have "x \<le> -1" by (simp add: x_def)
    with x4 z w have "z \<le> -1" "x div 400 \<le> -1" "x div 4 \<le> 25 * z + 24" by linarith+
    then show ?thesis using \<open>x \<le> -1\<close> unfolding dby by linarith
  qed
  show "10000 \<le> y \<Longrightarrow> 3652059 \<le> days_before_year y"
  proof (cases "y = 10000")
    case True
    then show ?thesis by (simp add: days_before_year_def)
  next
    case False
    assume "10000 \<le> y"
    with False have "10000 \<le> x" by (simp add: x_def)
    then show ?thesis using x4 z w unfolding dby by linarith
  qed
qed

lemma ord2ymd_valid:
  assumes "1 \<le> n" "n \<le> 3652059" and ymd: "ord2ymd n = (y, m, d)"
  shows "valid_ymd y m d"
proof -
  note ok = ymd2ord_ord2ymd [OF ymd]
  note doy = day_of_year_bound [OF ok(2-5)]
  have n: "n = days_before_year y + (days_before_month (is_leap y) m + d)"
    using ok(1) by (simp add: ymd2ord_def)
  have "1 \<le> y" using days_before_year_bounds(1) [of y] doy assms(1) n by (cases "y \<le> 0") auto
  moreover have "y \<le> 9999" using days_before_year_bounds(2) [of y] doy assms(2) n by (cases "10000 \<le> y") auto
  ultimately show ?thesis using ok by (simp add: valid_ymd_def)
qed


section \<open>A written timestamp reads back\<close>

lemma days_in_month_le: "1 \<le> m \<Longrightarrow> m \<le> 12 \<Longrightarrow> days_in_month leap m \<le> 31"
proof -
  assume "1 \<le> m" "m \<le> 12"
  then have "m = 1 \<or> m = 2 \<or> m = 3 \<or> m = 4 \<or> m = 5 \<or> m = 6 \<or> m = 7 \<or> m = 8 \<or> m = 9 \<or> m = 10
      \<or> m = 11 \<or> m = 12"
    by arith
  then show ?thesis by (elim disjE) (simp_all add: days_in_month_def month_days_def)
qed

lemma take_show_pad [simp]:
  "take k (show_pad k n @ s) = show_pad k n" "drop k (show_pad k n @ s) = s"
  by simp_all

lemma parse_iso_date:
  assumes "0 \<le> day" "day < 3652059"
  shows "parse_date (iso_date day) = Some day" and "length (iso_date day) = 10"
    and "\<forall>c\<in>set (iso_date day). is_digit c \<or> c = CHR ''-''"
proof -
  obtain y m d where ymd: "ord2ymd (day + 1) = (y, m, d)" by (cases "ord2ymd (day + 1)") auto
  have v: "valid_ymd y m d" using assms by (intro ord2ymd_valid [OF _ _ ymd]) auto
  then have rng: "0 \<le> y" "y < 10000" "m < 100" "0 \<le> d" "d < 100"
    using days_in_month_le [of m "is_leap y"] by (auto simp: valid_ymd_def)
  let ?s = "show_pad 4 (nat y) @ ''-'' @ show_pad 2 m @ ''-'' @ show_pad 2 (nat d)"
  have s: "iso_date day = ?s" by (simp add: iso_date_def ymd)
  have r: "read_digits (show_pad 4 (nat y)) = Some (nat y)" "read_digits (show_pad 2 m) = Some m"
    "read_digits (show_pad 2 (nat d)) = Some (nat d)"
    using rng by (auto intro!: read_show_pad simp: nat_less_iff)
  have "take 4 ?s = show_pad 4 (nat y)" "take 2 (drop 5 ?s) = show_pad 2 m"
    "take 2 (drop 8 ?s) = show_pad 2 (nat d)" "?s ! 4 = CHR ''-''" "?s ! 7 = CHR ''-''" "length ?s = 10"
    by (simp_all add: nth_append)
  then show "parse_date (iso_date day) = Some day"
    unfolding s parse_date_def
    using r rng v ymd2ord_ord2ymd(1) [OF ymd] by simp
  show "length (iso_date day) = 10" unfolding s by simp
  show "\<forall>c\<in>set (iso_date day). is_digit c \<or> c = CHR ''-''"
    unfolding s using show_pad_digits by (auto simp: list_all_iff)
qed

lemma parse_padded_time:
  assumes "h < 100" "m < 100" "c < 100"
  shows "parse_hms (show_pad 2 h @ '':'' @ show_pad 2 m @ '':'' @ show_pad 2 c) = Some (h, m, c, 0)"
proof -
  let ?s = "show_pad 2 h @ '':'' @ show_pad 2 m @ '':'' @ show_pad 2 c"
  have r: "read_digits (show_pad 2 h) = Some h" "read_digits (show_pad 2 m) = Some m"
    "read_digits (show_pad 2 c) = Some c"
    using assms by (auto intro!: read_show_pad)
  have "take 2 ?s = show_pad 2 h" "take 2 (drop 3 ?s) = show_pad 2 m"
    "take 2 (drop 6 ?s) = show_pad 2 c" "?s ! 2 = CHR '':''" "?s ! 5 = CHR '':''" "length ?s = 8"
    by (simp_all add: nth_append)
  then show ?thesis unfolding parse_hms_def Let_def using r by simp
qed

lemma parse_iso_time:
  assumes "0 \<le> s" "s < 86400"
  shows "parse_hms (iso_time s) = Some (nat (s div 3600), nat (s div 60 mod 60), nat (s mod 60), 0)"
    and "\<forall>c\<in>set (iso_time s). is_digit c \<or> c = CHR '':''"
proof -
  have "s div 3600 < 24" using assms by (simp add: div_less_iff_less_mult)
  then show "parse_hms (iso_time s) = Some (nat (s div 3600), nat (s div 60 mod 60), nat (s mod 60), 0)"
    unfolding iso_time_def by (intro parse_padded_time) (simp_all add: nat_less_iff)
  show "\<forall>c\<in>set (iso_time s). is_digit c \<or> c = CHR '':''"
    unfolding iso_time_def using show_pad_digits by (auto simp: list_all_iff)
qed

lemma parse_zero_offset: "parse_offset ''+00:00'' = Some (Some 0)"
  by code_simp

lemma digit_distinct [simp]:
  "\<not> is_digit (CHR ''+'')" "\<not> is_digit (CHR ''-'')" "\<not> is_digit (CHR ''Z'')" "\<not> is_digit (CHR ''T'')"
  by (simp_all add: is_digit_def)

lemma takeWhile_sign:
  assumes "\<forall>c\<in>set xs. is_digit c \<or> c = CHR '':''"
  shows "takeWhile (\<lambda>c. \<not> is_sign c) (xs @ ''+00:00'') = xs"
    and "dropWhile (\<lambda>c. \<not> is_sign c) (xs @ ''+00:00'') = ''+00:00''"
proof -
  have "\<not> is_sign c" if "c \<in> set xs" for c
    using assms that by (auto simp: is_sign_def)
  then show "takeWhile (\<lambda>c. \<not> is_sign c) (xs @ ''+00:00'') = xs"
    and "dropWhile (\<lambda>c. \<not> is_sign c) (xs @ ''+00:00'') = ''+00:00''"
    by (simp_all add: is_sign_def)
qed

lemma replace_Z_stamp_parts:
  assumes "\<forall>c\<in>set xs. is_digit c \<or> c = CHR ''-'' \<or> c = CHR '':'' \<or> c = CHR ''T''"
  shows "replace_char (CHR ''Z'') r xs = xs"
  using assms by (intro replace_char_id) auto

lemma day_split: "0 \<le> t \<Longrightarrow> t div us_day * us_day + (t div us_second mod 86400) * us_second = t - t mod us_second"
proof -
  have "t div us_second div 86400 = t div us_day" by (simp add: us_defs zdiv_zmult2_eq [symmetric])
  moreover have "t div us_second = t div us_second div 86400 * 86400 + t div us_second mod 86400" by simp
  ultimately have "t div us_second = t div us_day * 86400 + t div us_second mod 86400" by simp
  moreover have "t = t div us_second * us_second + t mod us_second" by simp
  ultimately show ?thesis unfolding us_defs by linarith
qed

lemma div_24: "s < 86400 \<Longrightarrow> s div 3600 < (24 :: int)"
  by (simp add: div_less_iff_less_mult)

lemma nat_24: "x < 24 \<Longrightarrow> nat x < 24"
  by simp

lemma nat_mod_60: "nat (x mod 60) < 60"
  by (simp add: nat_less_iff)

lemma hms_us_split: "0 \<le> s \<Longrightarrow> s < 86400 \<Longrightarrow>
  hms_us (nat (s div 3600), nat (s div 60 mod 60), nat (s mod 60), 0) = s * us_second"
proof -
  assume s: "0 \<le> s" "s < 86400"
  define h m c where hmc: "h = s div 3600" "m = s div 60 mod 60" "c = s mod 60"
  have "s div 60 div 60 = h" unfolding hmc by (simp add: zdiv_zmult2_eq [symmetric])
  moreover have "s div 60 = s div 60 div 60 * 60 + m" "s = s div 60 * 60 + c"
    unfolding hmc by simp_all
  ultimately have "s = h * 3600 + m * 60 + c" by linarith
  moreover have "0 \<le> h" "0 \<le> m" "0 \<le> c" using s unfolding hmc by (simp_all add: pos_imp_zdiv_nonneg_iff)
  ultimately show ?thesis unfolding hmc [symmetric] hms_us_def us_defs by simp
qed

text \<open>A rendered stamp is 19 ASCII characters and a \<open>Z\<close>, which stands for a zero offset.\<close>

lemma stamp_body:
  assumes "0 \<le> t" "t < max_us"
  obtains body where "stamp t = body @ ''Z''" and "length body = 19"
    and "\<forall>c\<in>set body. is_digit c \<or> c = CHR ''-'' \<or> c = CHR '':'' \<or> c = CHR ''T''"
    and "fromisoformat (body @ ''+00:00'') = Some (DT (t - t mod us_second) (Some 0))"
proof -
  let ?d = "t div us_day" and ?s = "t div us_second mod 86400"
  have d: "0 \<le> ?d" "?d < 3652059"
    using assms by (simp_all add: us_defs max_us_def pos_imp_zdiv_nonneg_iff div_less_iff_less_mult)
  have s: "0 \<le> ?s" "?s < 86400" by simp_all
  note pd = parse_iso_date [OF d] and pt = parse_iso_time [OF s]
  let ?body = "iso_date ?d @ ''T'' @ iso_time ?s"
  have "take 10 (?body @ ''+00:00'') = iso_date ?d" "drop 11 (?body @ ''+00:00'') = iso_time ?s @ ''+00:00''"
    using pd(2) by simp_all
  moreover have "length (?body @ ''+00:00'') \<noteq> 10" using pd(2) by simp
  moreover have "parse_time_part ?d (iso_time ?s @ ''+00:00'') = Some (DT (t - t mod us_second) (Some 0))"
  proof -
    have "?s div 3600 < 24" using s(2) by (rule div_24)
    then have "nat (?s div 3600) < 24 \<and> nat (?s div 60 mod 60) < 60 \<and> nat (?s mod 60) < 60"
      by (simp only: nat_mod_60 nat_24)
    then show ?thesis
      unfolding parse_time_part_def takeWhile_sign [OF pt(2)] pt(1) parse_zero_offset
      by (simp only: option.case prod.case simp_thms if_True hms_us_split [OF s] day_split [OF assms(1)])
  qed
  ultimately have "fromisoformat (?body @ ''+00:00'') = Some (DT (t - t mod us_second) (Some 0))"
    unfolding fromisoformat_def using pd(1) by simp
  moreover have "length ?body = 19" using pd(2) by (simp add: iso_time_def)
  moreover have "\<forall>c\<in>set ?body. is_digit c \<or> c = CHR ''-'' \<or> c = CHR '':'' \<or> c = CHR ''T''"
    using pd(3) pt(2) by auto
  moreover have "stamp t = ?body @ ''Z''" by (simp add: stamp_def)
  ultimately show ?thesis by (intro that)
qed

theorem parse_stamp_stamp:
  assumes "0 \<le> t" "t < max_us"
  shows "parse_stamp (stamp t) = Some (DT (t - t mod us_second) (Some 0))"
proof -
  obtain body where b: "stamp t = body @ ''Z''" "\<forall>c\<in>set body. is_digit c \<or> c = CHR ''-'' \<or> c = CHR '':'' \<or> c = CHR ''T''"
    "fromisoformat (body @ ''+00:00'') = Some (DT (t - t mod us_second) (Some 0))"
    using stamp_body [OF assms] by metis
  have "replace_char (CHR ''Z'') ''+00:00'' (body @ ''Z'') = body @ ''+00:00''"
    using replace_Z_stamp_parts [OF b(2)] by (simp add: replace_char_def)
  then show ?thesis using b(1,3) by (simp add: parse_stamp_def)
qed

end
