(* ===== verification/Governance.thy ===== *)
theory Governance
  imports Py_Json Sha256 Datetime
begin

text \<open>
  The repository governance state of \<open>src/src/sddgov/governance.py\<close>: the JSON stores under
  \<open>.sddgov/\<close>, project initialisation, the event log, work claims and the queue of
  external actions with their signed resolutions.

  A store file is missing, holds text that \<open>json.loads\<close> rejects, or holds a JSON
  document; \<open>_write\<close> replaces it atomically, so a reader never sees a partial document.
  Each operation takes the clock reading \<open>now\<close> (UTC microseconds since 0001-01-01), which
  is constant during the operation, and returns its result or exception together with the
  new repository state.
\<close>


section \<open>Repository state\<close>

datatype store_file = Missing | Malformed | Doc json

record repo =
  project_json :: store_file
  work_claims :: store_file
  external_actions :: store_file
  decisions_json :: store_file
  approvers_json :: store_file
  reviewers_json :: store_file
  events :: "json list option"

text \<open>\<open>_read(path, default)\<close>.\<close>

definition read_file :: "store_file \<Rightarrow> json \<Rightarrow> json result" where
  "read_file f dflt = (case f of
     Missing \<Rightarrow> Inr dflt
   | Malformed \<Rightarrow> Inl (ValueError ''Expecting value'')
   | Doc v \<Rightarrow> Inr v)"

definition governance_version :: string where
  "governance_version = ''0.2.0rc1''"

definition profiles :: "string list" where
  "profiles = [''solo-fast'', ''team-standard'', ''regulated'']"

definition emit_event :: "int \<Rightarrow> string \<Rightarrow> string \<Rightarrow> obj \<Rightarrow> repo \<Rightarrow> json result \<times> repo" where
  "emit_event now event_type risk payload s =
     (if risk \<notin> set [''L0'', ''L1'', ''L2'', ''L3''] then (Inl (ValueError ''risk must be L0, L1, L2, or L3''), s)
      else let event = JObj [(''schema_version'', JStr ''1.0''), (''event_type'', JStr event_type),
                  (''risk_level'', JStr risk), (''at'', JStr (stamp now)), (''payload'', JObj payload)]
           in (Inr event, s\<lparr>events := Some ((case events s of None \<Rightarrow> [] | Some es \<Rightarrow> es) @ [event])\<rparr>))"

text \<open>One entry of the \<open>defaults\<close> loop: write the default document unless the file exists.\<close>

definition init_one ::
  "string \<Rightarrow> (repo \<Rightarrow> store_file) \<Rightarrow> ((store_file \<Rightarrow> store_file) \<Rightarrow> repo \<Rightarrow> repo) \<Rightarrow> obj \<Rightarrow> string list \<times> repo \<Rightarrow> string list \<times> repo"
where
  "init_one path sel upd v cs = (case cs of (created, s) \<Rightarrow>
     (if sel s = Missing then (created @ [path], upd (\<lambda>_. Doc (JObj v)) s) else (created, s)))"

definition init_project :: "int \<Rightarrow> string \<Rightarrow> repo \<Rightarrow> string list result \<times> repo" where
  "init_project now profile s =
     (if profile \<notin> set profiles
      then (Inl (ValueError (''profile must be one of: '' @ join '', '' profiles)), s)
      else
        let first = (project_json s = Missing);
            step1 = init_one ''project.json'' project_json project_json_update
              [(''schema_version'', JStr ''1.0''), (''governance_version'', JStr governance_version),
               (''profile'', JStr profile), (''created_at'', JStr (stamp now))] ([], s);
            step2 = init_one ''work-claims.json'' work_claims work_claims_update
              [(''schema_version'', JStr ''1.0''), (''claims'', JArr [])] step1;
            step3 = init_one ''external-actions.json'' external_actions external_actions_update
              [(''schema_version'', JStr ''1.1''), (''actions'', JArr [])] step2;
            step4 = init_one ''decisions.json'' decisions_json decisions_json_update
              [(''schema_version'', JStr ''1.0''), (''decisions'', JArr [])] step3;
            step5 = init_one ''trusted-approvers.json'' approvers_json approvers_json_update
              [(''schema_version'', JStr ''1.0''), (''approvers'', JArr [])] step4;
            step6 = init_one ''trusted-reviewers.json'' reviewers_json reviewers_json_update
              [(''schema_version'', JStr ''1.0''), (''reviewers'', JArr [])] step5;
            step7 = (case step6 of (created, s') \<Rightarrow>
              (if events s' = None then (created @ [''events.jsonl''], s'\<lparr>events := Some []\<rparr>) else (created, s')))
        in (Inr (fst step7),
            if first
            then snd (emit_event now ''governance_initialized'' ''L0'' [(''profile'', JStr profile)] (snd step7))
            else snd step7))"


section \<open>Work claims\<close>

definition naive_compare_error :: exn where
  "naive_compare_error = TypeError (''can'' @ [CHR 0x27] @ ''t compare offset-naive and offset-aware datetimes'')"

text \<open>\<open>datetime.fromisoformat(claim["expires_at"].replace("Z", "+00:00"))\<close>.\<close>

definition claim_expiry :: "json \<Rightarrow> datetime result" where
  "claim_expiry claim =
     rbind (item claim ''expires_at'') (\<lambda>v.
     rbind (method_str ''replace'' v) (\<lambda>t.
     of_option (ValueError ''Invalid isoformat string'') (parse_stamp t)))"

text \<open>\<open>expiry > current\<close>, where comparing a naive with an aware datetime raises.\<close>

definition after_now :: "int \<Rightarrow> datetime \<Rightarrow> bool result" where
  "after_now now d = require (is_aware d) naive_compare_error (Inr (now < instant d))"

definition claim_is_active :: "int \<Rightarrow> json \<Rightarrow> bool result" where
  "claim_is_active now claim =
     rbind (claim_expiry claim) (\<lambda>d.
     rbind (after_now now d) (\<lambda>later.
       if later then rbind (item claim ''status'') (\<lambda>st. Inr (st = JStr ''active'')) else Inr False))"

definition claims_package :: "string \<Rightarrow> json \<Rightarrow> bool result" where
  "claims_package wp row = rbind (item row ''work_package'') (\<lambda>v. Inr (v = JStr wp))"

definition new_claim :: "int \<Rightarrow> string \<Rightarrow> string \<Rightarrow> int \<Rightarrow> obj" where
  "new_claim now wp agent expiry =
     [(''work_package'', JStr wp), (''agent'', JStr agent), (''status'', JStr ''active''),
      (''claimed_at'', JStr (stamp now)), (''expires_at'', JStr (stamp expiry))]"

text \<open>The read and the decision of \<open>claim_work\<close>: the claim and the document to write.\<close>

definition claim_work_plan :: "int \<Rightarrow> string \<Rightarrow> string \<Rightarrow> int \<Rightarrow> store_file \<Rightarrow> (obj \<times> obj) result" where
  "claim_work_plan now wp agent ttl_minutes f =
     require (1 \<le> ttl_minutes \<and> ttl_minutes \<le> 1440) (ValueError ''ttl_minutes must be between 1 and 1440'')
     (rbind (read_file f (JObj [(''schema_version'', JStr ''1.0''), (''claims'', JArr [])])) (\<lambda>data.
      rbind (item data ''claims'') (\<lambda>cs.
      rbind (iter_items cs) (\<lambda>rows.
      rbind (filterr (claim_is_active now) rows) (\<lambda>active.
      rbind (anyr (claims_package wp) active) (\<lambda>taken.
      require (\<not> taken) (ValueError (''work package already has an active claim: '' @ wp))
      (rbind (add_minutes now ttl_minutes) (\<lambda>expiry.
        let claim = new_claim now wp agent expiry
        in Inr (claim, put ''claims'' (JArr (active @ [JObj claim])) (dict_val data))))))))))"

definition claim_work :: "int \<Rightarrow> string \<Rightarrow> string \<Rightarrow> int \<Rightarrow> repo \<Rightarrow> json result \<times> repo" where
  "claim_work now wp agent ttl_minutes s =
     (case claim_work_plan now wp agent ttl_minutes (work_claims s) of
        Inl e \<Rightarrow> (Inl e, s)
      | Inr (claim, data) \<Rightarrow>
          (Inr (JObj claim), snd (emit_event now ''work_claimed'' ''L0'' claim (s\<lparr>work_claims := Doc (JObj data)\<rparr>))))"


section \<open>External actions\<close>

definition external_action_base_fields :: "string list" where
  "external_action_base_fields =
     [''action_id'', ''summary'', ''risk_level'', ''owner'', ''action_class'', ''scope'', ''status'',
      ''created_at'', ''expires_at'', ''request_sha256'', ''authorization_scope'']"

definition external_action_resolution_fields :: "string list" where
  "external_action_resolution_fields =
     [''resolved_at'', ''resolution_receipt_sha256'', ''resolution_evidence_sha256'', ''resolution_envelope'']"

definition external_action_request_sha256 ::
  "string \<Rightarrow> string \<Rightarrow> string \<Rightarrow> string \<Rightarrow> string \<Rightarrow> string \<Rightarrow> string" where
  "external_action_request_sha256 action_id summary risk owner action_class scope =
     sha256_hex (canonical_bytes (JObj
       [(''action_id'', JStr action_id), (''summary'', JStr summary), (''risk_level'', JStr risk),
        (''owner'', JStr owner), (''action_class'', JStr action_class), (''scope'', JStr scope)]))"

definition load_external_action_store :: "store_file \<Rightarrow> obj result" where
  "load_external_action_store f =
     rbind (read_file f (JObj [(''schema_version'', JStr ''1.1''), (''actions'', JArr [])])) (\<lambda>data.
       if py_eq data (JObj [(''schema_version'', JStr ''1.0''), (''actions'', JArr [])])
       then Inr [(''schema_version'', JStr ''1.1''), (''actions'', JArr [])]
       else if is_dict data \<and> get (dict_val data) ''schema_version'' = JStr ''1.0''
       then Inl (ValueError (''legacy external action store 1.0 cannot be migrated automatically; '' @
              ''archive it and re-queue each exact bounded action''))
       else if \<not> is_dict data \<or> \<not> keys_eq (dict_val data) [''schema_version'', ''actions'']
         \<or> get (dict_val data) ''schema_version'' \<noteq> JStr ''1.1'' \<or> \<not> is_list (get (dict_val data) ''actions'')
       then Inl (ValueError ''external action store has an invalid contract'')
       else Inr (dict_val data))"

text \<open>\<open>datetime.fromisoformat(str(v).replace("Z", "+00:00"))\<close>: no other JSON value prints as a date.\<close>

fun parse_value :: "json \<Rightarrow> datetime option" where
  "parse_value (JStr s) = parse_stamp s"
| "parse_value v = None"

definition row_error :: "string \<Rightarrow> exn" where
  "row_error m = ValueError (''external action row '' @ m)"

text \<open>The resolution part of a row, by status (the last three branches of the check).\<close>

definition check_resolution :: "obj \<Rightarrow> string \<Rightarrow> unit result" where
  "check_resolution row status =
     (if status \<in> set [''completed'', ''cancelled'']
      then require (list_all (has_key row) external_action_resolution_fields)
             (ValueError ''terminal external action row requires resolution proof'')
           (require (nonblank (get row ''resolved_at''))
             (ValueError ''terminal external action row resolved_at is invalid'')
           (case find (\<lambda>label. \<not> sha256_str (get row label))
                   [''resolution_receipt_sha256'', ''resolution_evidence_sha256''] of
              Some label \<Rightarrow> Inl (ValueError (''terminal external action row '' @ label @ '' is invalid''))
            | None \<Rightarrow>
                require (is_dict (get row ''resolution_envelope''))
                  (ValueError ''terminal external action row resolution_envelope is invalid'') (Inr ())))
      else if status = ''pending''
      then require (list_all (\<lambda>k. get row k = JNull) external_action_resolution_fields)
             (ValueError ''pending external action row cannot contain resolution proof'') (Inr ())
      else require (nonblank (get row ''resolved_at''))
             (ValueError ''expired external action row resolved_at is invalid'')
           (require (list_all (\<lambda>k. get row k = JNull)
                [''resolution_receipt_sha256'', ''resolution_evidence_sha256'', ''resolution_envelope''])
             (ValueError ''expired external action row cannot contain signed resolution proof'') (Inr ())))"

text \<open>The lifetime of a row: both timestamps aware, the expiry after the creation.\<close>

definition row_lifetime :: "obj \<Rightarrow> (datetime \<times> datetime) option" where
  "row_lifetime row = (case (parse_value (get row ''created_at''), parse_value (get row ''expires_at'')) of
     (Some c, Some e) \<Rightarrow> (if is_aware c \<and> is_aware e \<and> instant c < instant e then Some (c, e) else None)
   | _ \<Rightarrow> None)"

definition validate_external_action_row :: "json \<Rightarrow> string result" where
  "validate_external_action_row v =
     require (is_dict v) (row_error ''has an invalid contract'')
     (let row = dict_val v; missing = filter (\<lambda>k. \<not> has_key row k) external_action_base_fields in
      require (missing = []) (row_error (hd (sort missing) @ '' is required''))
     (require (keys_within row (external_action_base_fields @ external_action_resolution_fields))
        (row_error ''has an invalid field contract'')
     (case find (\<lambda>label. \<not> nonblank (get row label)) [''action_id'', ''summary'', ''owner'', ''scope''] of
        Some label \<Rightarrow> Inl (row_error (label @ '' is required''))
      | None \<Rightarrow>
     rbind (in_strings (get row ''risk_level'') [''L1'', ''L2'', ''L3'']) (\<lambda>risk_ok.
     require risk_ok (row_error ''risk_level is invalid'')
     (rbind (in_strings (get row ''action_class'') [''operational_action'', ''necessary_uat'']) (\<lambda>class_ok.
     require class_ok (row_error ''action_class is invalid'')
     (rbind (in_strings (get row ''status'') [''pending'', ''completed'', ''cancelled'', ''expired'']) (\<lambda>status_ok.
     require status_ok (row_error ''status is invalid'')
     (require (get row ''authorization_scope'' = JStr ''one concrete action only'')
        (row_error ''authorization_scope is invalid'')
     (require (row_lifetime row \<noteq> None) (row_error ''timestamps are invalid'')
     (require (get row ''request_sha256'' = JStr (external_action_request_sha256
          (str_val (get row ''action_id'')) (str_val (get row ''summary'')) (str_val (get row ''risk_level''))
          (str_val (get row ''owner'')) (str_val (get row ''action_class'')) (str_val (get row ''scope''))))
        (row_error ''request_sha256 is invalid'')
     (rbind (check_resolution row (str_val (get row ''status''))) (\<lambda>_.
        Inr (str_val (get row ''risk_level'')))))))))))))))"

definition store_rows :: "obj \<Rightarrow> json list" where
  "store_rows data = list_val (get data ''actions'')"

definition has_action_id :: "json \<Rightarrow> json \<Rightarrow> bool" where
  "has_action_id action_id row \<longleftrightarrow> get (dict_val row) ''action_id'' = action_id"

definition expire_row :: "int \<Rightarrow> obj \<Rightarrow> obj" where
  "expire_row now row = update_all
     [(''status'', JStr ''expired''), (''resolved_at'', JStr (stamp now)), (''resolution_receipt_sha256'', JNull),
      (''resolution_evidence_sha256'', JNull), (''resolution_envelope'', JNull)] row"

definition new_action ::
  "int \<Rightarrow> int \<Rightarrow> string \<Rightarrow> string \<Rightarrow> string \<Rightarrow> string \<Rightarrow> string \<Rightarrow> string \<Rightarrow> obj" where
  "new_action now expiry action_id summary risk owner action_class scope =
     [(''action_id'', JStr action_id), (''summary'', JStr summary), (''risk_level'', JStr risk),
      (''owner'', JStr owner), (''action_class'', JStr action_class), (''scope'', JStr scope),
      (''status'', JStr ''pending''), (''created_at'', JStr (stamp now)), (''expires_at'', JStr (stamp expiry)),
      (''request_sha256'', JStr (external_action_request_sha256 action_id summary risk owner action_class scope)),
      (''authorization_scope'', JStr ''one concrete action only'')]"

text \<open>Replacing the row object with a given action ID, which the Python code updates in place.\<close>

definition replace_row :: "json \<Rightarrow> obj \<Rightarrow> json list \<Rightarrow> json list" where
  "replace_row action_id new rows = map (\<lambda>r. if has_action_id action_id r then JObj new else r) rows"

text \<open>What enqueueing decides: nothing to write, one row expired, or one row appended.\<close>

datatype enqueue_plan =
    Reuse obj
  | Expire obj obj
  | Create obj obj

text \<open>The branch for an action ID that is already in the store.\<close>

definition enqueue_existing :: "int \<Rightarrow> json \<Rightarrow> string \<Rightarrow> obj \<Rightarrow> obj \<Rightarrow> enqueue_plan result" where
  "enqueue_existing now action_id request_sha256 data row =
     require (get row ''request_sha256'' = JStr request_sha256)
       (ValueError (''external action identity changed: '' @ str_val action_id))
     (rbind (in_strings (get row ''status'') [''pending'', ''completed'', ''cancelled'', ''expired'']) (\<lambda>known.
      require known (ValueError (''external action status is invalid: '' @ str_val action_id))
     (if get row ''status'' \<noteq> JStr ''pending'' then Inr (Reuse row)
      else case parse_value (get row ''expires_at'') of
             None \<Rightarrow> Inl (ValueError ''external action expiry is invalid'')
           | Some expiry \<Rightarrow>
               require (is_aware expiry) (ValueError ''external action expiry is invalid'')
               (if instant expiry \<le> now
                then let row' = expire_row now row
                     in Inr (Expire row' (put ''actions'' (JArr (replace_row action_id row' (store_rows data))) data))
                else Inr (Reuse row)))))"

text \<open>The branch for a new action ID.\<close>

definition enqueue_new ::
  "int \<Rightarrow> string \<Rightarrow> string \<Rightarrow> string \<Rightarrow> string \<Rightarrow> string \<Rightarrow> string \<Rightarrow> int \<Rightarrow> obj \<Rightarrow> enqueue_plan result" where
  "enqueue_new now action_id summary risk owner action_class scope ttl_minutes data =
     rbind (add_minutes now ttl_minutes) (\<lambda>expiry.
       let item = new_action now expiry action_id summary risk owner action_class scope
       in Inr (Create item (put ''actions'' (JArr (store_rows data @ [JObj item])) data)))"

definition enqueue_plan_of ::
  "int \<Rightarrow> json \<Rightarrow> json \<Rightarrow> json \<Rightarrow> json \<Rightarrow> json \<Rightarrow> json \<Rightarrow> json \<Rightarrow> store_file \<Rightarrow> enqueue_plan result" where
  "enqueue_plan_of now action_id summary risk owner scope ttl_minutes action_class f =
     rbind (in_strings risk [''L1'', ''L2'', ''L3'']) (\<lambda>risk_ok.
     rbind (if risk_ok then in_strings action_class [''operational_action'', ''necessary_uat''] else Inr False) (\<lambda>class_ok.
     require class_ok
       (ValueError ''external action must be an explicitly classified Operational Action or Necessary UAT'')
     (require (list_all nonblank [action_id, summary, owner, scope])
       (ValueError ''external action requires action_id, summary, owner, and scope'')
     (require (is_int ttl_minutes \<and> 1 \<le> int_val ttl_minutes \<and> int_val ttl_minutes \<le> 10080)
       (ValueError ''external action ttl_minutes must be between 1 and 10080'')
     (rbind (load_external_action_store f) (\<lambda>data.
      rbind (mapr validate_external_action_row (store_rows data)) (\<lambda>_.
      case filter (has_action_id action_id) (store_rows data) of
        [] \<Rightarrow> enqueue_new now (str_val action_id) (str_val summary) (str_val risk) (str_val owner)
                (str_val action_class) (str_val scope) (int_val ttl_minutes) data
      | [r] \<Rightarrow> enqueue_existing now action_id
                 (external_action_request_sha256 (str_val action_id) (str_val summary) (str_val risk)
                   (str_val owner) (str_val action_class) (str_val scope)) data (dict_val r)
      | _ \<Rightarrow> Inl (ValueError (''duplicate external action state: '' @ str_val action_id)))))))))"

text \<open>
  \<open>enqueue_external_action\<close> holds the lock file for the whole of
  \<open>_enqueue_external_action_unlocked\<close>, so it is one atomic step.
\<close>

definition enqueue_external_action ::
  "int \<Rightarrow> json \<Rightarrow> json \<Rightarrow> json \<Rightarrow> json \<Rightarrow> json \<Rightarrow> json \<Rightarrow> json \<Rightarrow> repo \<Rightarrow> obj result \<times> repo" where
  "enqueue_external_action now action_id summary risk owner scope ttl_minutes action_class s =
     (case enqueue_plan_of now action_id summary risk owner scope ttl_minutes action_class (external_actions s) of
        Inl e \<Rightarrow> (Inl e, s)
      | Inr (Reuse row) \<Rightarrow> (Inr (put ''external_action_created'' (JBool False) row), s)
      | Inr (Expire row data) \<Rightarrow>
          (Inr (put ''external_action_created'' (JBool False) row),
           snd (emit_event now ''external_action_expired'' (str_val (get row ''risk_level''))
                 [(''action_id'', action_id)] (s\<lparr>external_actions := Doc (JObj data)\<rparr>)))
      | Inr (Create row data) \<Rightarrow>
          (Inr (put ''external_action_created'' (JBool True) row),
           snd (emit_event now ''external_action_queued'' (str_val risk)
                 [(''action_id'', action_id)] (s\<lparr>external_actions := Doc (JObj data)\<rparr>))))"

text \<open>
  The part of \<open>resolve_external_action\<close> after the one matching row is found: the row, and
  when the state changes the risk level to log and the document to write.
\<close>

definition resolve_row ::
  "string \<Rightarrow> string \<Rightarrow> string \<Rightarrow> string \<Rightarrow> digest \<Rightarrow> string \<Rightarrow> string \<Rightarrow> digest \<Rightarrow> digest \<Rightarrow> json \<Rightarrow> obj \<Rightarrow> obj
     \<Rightarrow> (obj \<times> (string \<times> obj) option) result" where
  "resolve_row action_id action_class owner scope request_sha256 status resolved_at receipt_sha256
       evidence_sha256 envelope data row =
     require (get row ''action_class'' = JStr action_class \<and> get row ''owner'' = JStr owner
         \<and> get row ''scope'' = JStr scope \<and> get row ''request_sha256'' = JStr request_sha256)
       (ValueError ''external action resolution identity does not match pending action'')
     (if get row ''status'' = JStr status
      then require (get row ''resolution_receipt_sha256'' = JStr receipt_sha256)
             (ValueError ''external action was resolved by a different receipt'')
             (Inr (row, None))
      else
     require (get row ''status'' = JStr ''pending'') (ValueError ''external action is not pending'')
     (case (parse_value (get row ''expires_at''), parse_stamp resolved_at, parse_value (get row ''created_at'')) of
        (Some expiry, Some resolution_time, Some created) \<Rightarrow>
          require (is_aware expiry \<and> is_aware resolution_time \<and> is_aware created)
            (ValueError ''external action resolution timestamp requires a timezone'')
          (require (instant created \<le> instant resolution_time \<and> instant resolution_time \<le> instant expiry)
            (ValueError ''external action resolution is outside the action lifetime'')
          (let row' = update_all [(''status'', JStr status), (''resolved_at'', JStr resolved_at),
                 (''resolution_receipt_sha256'', JStr receipt_sha256),
                 (''resolution_evidence_sha256'', JStr evidence_sha256),
                 (''resolution_envelope'', envelope)] row
           in Inr (row', Some (str_val (get row ''risk_level''),
                put ''actions'' (JArr (replace_row (JStr action_id) row' (store_rows data))) data))))
      | _ \<Rightarrow> Inl (ValueError ''external action resolution timestamp is invalid'')))"

definition resolve_plan ::
  "string \<Rightarrow> string \<Rightarrow> string \<Rightarrow> string \<Rightarrow> digest \<Rightarrow> string \<Rightarrow> string \<Rightarrow> digest \<Rightarrow> digest \<Rightarrow> json \<Rightarrow> store_file
     \<Rightarrow> (obj \<times> (string \<times> obj) option) result" where
  "resolve_plan action_id action_class owner scope request_sha256 status resolved_at receipt_sha256
       evidence_sha256 envelope f =
     require (status \<in> set [''completed'', ''cancelled''])
       (ValueError ''external action resolution status must be completed or cancelled'')
     (case find (\<lambda>lv. strip (snd lv) = [])
             [(''action_id'', action_id), (''action_class'', action_class), (''owner'', owner),
              (''scope'', scope), (''resolved_at'', resolved_at)] of
        Some lv \<Rightarrow> Inl (ValueError (''external action resolution '' @ fst lv @ '' is required''))
      | None \<Rightarrow>
     (case find (\<lambda>ld. \<not> is_sha256 (snd ld))
             [(''request_sha256'', request_sha256), (''resolution_receipt_sha256'', receipt_sha256),
              (''resolution_evidence_sha256'', evidence_sha256)] of
        Some ld \<Rightarrow> Inl (ValueError (''external action resolution '' @ fst ld @ '' is invalid''))
      | None \<Rightarrow>
     require (is_dict envelope) (ValueError ''external action resolution envelope is invalid'')
     (rbind (load_external_action_store f) (\<lambda>data.
      rbind (mapr validate_external_action_row (store_rows data)) (\<lambda>_.
      case filter (has_action_id (JStr action_id)) (store_rows data) of
        [r] \<Rightarrow> resolve_row action_id action_class owner scope request_sha256 status resolved_at
                 receipt_sha256 evidence_sha256 envelope data (dict_val r)
      | _ \<Rightarrow> Inl (ValueError ''external action resolution requires one exact action''))))))"

definition resolve_external_action ::
  "int \<Rightarrow> string \<Rightarrow> string \<Rightarrow> string \<Rightarrow> string \<Rightarrow> digest \<Rightarrow> string \<Rightarrow> string \<Rightarrow> digest \<Rightarrow> digest \<Rightarrow> json \<Rightarrow> repo
     \<Rightarrow> obj result \<times> repo" where
  "resolve_external_action now action_id action_class owner scope request_sha256 status resolved_at
       receipt_sha256 evidence_sha256 envelope s =
     (case resolve_plan action_id action_class owner scope request_sha256 status resolved_at
             receipt_sha256 evidence_sha256 envelope (external_actions s) of
        Inl e \<Rightarrow> (Inl e, s)
      | Inr (row, None) \<Rightarrow> (Inr (put ''state_changed'' (JBool False) row), s)
      | Inr (row, Some (risk, data)) \<Rightarrow>
          (Inr (put ''state_changed'' (JBool True) row),
           snd (emit_event now (''external_action_'' @ status) risk
                 [(''action_id'', JStr action_id), (''action_class'', JStr action_class)]
                 (s\<lparr>external_actions := Doc (JObj data)\<rparr>))))"


section \<open>Status report\<close>

text \<open>The claim loop of \<open>project_status\<close>: active and expired counts.\<close>

fun count_claims :: "int \<Rightarrow> json list \<Rightarrow> nat \<times> nat \<Rightarrow> (nat \<times> nat) result" where
  "count_claims now [] n = Inr n"
| "count_claims now (claim # cs) (active, expired) =
     rbind (claim_expiry claim) (\<lambda>d.
     rbind (item claim ''status'') (\<lambda>st.
     rbind (if st = JStr ''active'' then after_now now d else Inr False) (\<lambda>live.
       count_claims now cs
         (if live then (Suc active, expired)
          else if st = JStr ''active'' then (active, Suc expired) else (active, expired)))))"

definition is_pending :: "json \<Rightarrow> bool result" where
  "is_pending row = rbind (item row ''status'') (\<lambda>st. Inr (st = JStr ''pending''))"

fun len_of :: "json \<Rightarrow> nat result" where
  "len_of (JArr xs) = Inr (length xs)"
| "len_of (JObj d) = Inr (length d)"
| "len_of (JStr s) = Inr (length s)"
| "len_of v = Inl (TypeError (''object of type '' @ [CHR 0x27] @ type_name v @ [CHR 0x27] @ '' has no len()''))"

text \<open>The text of \<open>events.jsonl\<close> and the number of its non-blank lines.\<close>

definition events_text :: "json list option \<Rightarrow> string" where
  "events_text es = concat (map (\<lambda>e. dumps_plain e @ [CHR 0x0A]) (case es of None \<Rightarrow> [] | Some es \<Rightarrow> es))"

definition event_count :: "json list option \<Rightarrow> nat" where
  "event_count es = length (filter (\<lambda>line. strip line \<noteq> []) (splitlines (events_text es)))"

definition project_status :: "int \<Rightarrow> repo \<Rightarrow> obj result" where
  "project_status now s =
     rbind (read_file (project_json s) JNull) (\<lambda>project.
     require (project \<noteq> JNull) (FileNotFoundError ''.sddgov/project.json; run sddgov init first'')
     (rbind (rbind (read_file (work_claims s) (JObj [(''claims'', JArr [])])) (\<lambda>v. item v ''claims'')) (\<lambda>claims.
      rbind (rbind (read_file (external_actions s) (JObj [(''actions'', JArr [])])) (\<lambda>v. item v ''actions'')) (\<lambda>actions.
      rbind (rbind (read_file (decisions_json s) (JObj [(''decisions'', JArr [])])) (\<lambda>v. item v ''decisions'')) (\<lambda>decisions.
      rbind (iter_items claims) (\<lambda>rows.
      rbind (count_claims now rows (0, 0)) (\<lambda>(active, expired).
      rbind (item project ''governance_version'') (\<lambda>version.
      rbind (item project ''profile'') (\<lambda>profile.
      rbind (iter_items actions) (\<lambda>action_rows.
      rbind (filterr is_pending action_rows) (\<lambda>pending.
      rbind (len_of decisions) (\<lambda>n_decisions.
        Inr [(''governance_version'', version), (''profile'', profile),
             (''active_claims'', JInt (int active)), (''expired_claims'', JInt (int expired)),
             (''pending_external_actions'', JInt (int (length pending))),
             (''recorded_decisions'', JInt (int n_decisions)),
             (''event_count'', JInt (int (event_count (events s))))]))))))))))))"

end
