(* ===== verification/Evolving_Store.thy ===== *)
theory Evolving_Store
  imports Main
begin

text \<open>
  The contract shared by the durable stores of the program (the external action queue, the
  decision store, the nonce ledger): rows are kept in order, an operation may only move a row
  along an \<open>evolves\<close> relation and append new rows, and every operation keeps the store's
  invariant. What follows for whole histories of operations is proved here once.
\<close>

text \<open>Row by row evolution, new rows after the old ones.\<close>

definition grows :: "('r \<Rightarrow> 'r \<Rightarrow> bool) \<Rightarrow> 'r list \<Rightarrow> 'r list \<Rightarrow> bool" where
  "grows ev rs rs' \<longleftrightarrow> length rs \<le> length rs' \<and> list_all2 ev rs (take (length rs) rs')"

lemma grows_append: "list_all2 ev rs rs' \<Longrightarrow> grows ev rs (rs' @ new)"
  by (simp add: grows_def list_all2_lengthD)

lemma grows_same_length: "list_all2 ev rs rs' \<Longrightarrow> grows ev rs rs'"
  using grows_append [of ev rs rs' "[]"] by simp

lemma grows_refl: "(\<And>r. ev r r) \<Longrightarrow> grows ev rs rs"
  by (simp add: grows_def list_all2_refl)

lemma grows_trans:
  assumes tr: "\<And>a b c. ev a b \<Longrightarrow> ev b c \<Longrightarrow> ev a c" and ab: "grows ev a b" and bc: "grows ev b c"
  shows "grows ev a c"
proof -
  let ?n = "length a"
  have "list_all2 ev a (take ?n b)" using ab by (simp add: grows_def)
  moreover have "list_all2 ev (take ?n b) (take ?n (take (length b) c))"
    using bc unfolding grows_def by (intro list_all2_takeI) simp
  moreover have "take ?n (take (length b) c) = take ?n c"
    using ab by (simp add: grows_def min_absorb1)
  ultimately have "list_all2 ev a (take ?n c)"
    using list_all2_trans [of ev ev ev] tr by metis
  then show ?thesis using ab bc by (simp add: grows_def)
qed

lemma grows_nth: "grows ev rs rs' \<Longrightarrow> i < length rs \<Longrightarrow> i < length rs' \<and> ev (rs ! i) (rs' ! i)"
  by (auto simp: grows_def list_all2_conv_all_nth)

lemma grows_eq_prefix: "grows (=) rs rs' \<longleftrightarrow> (\<exists>new. rs' = rs @ new)"
  by (auto simp: grows_def list.rel_eq) (metis append_take_drop_id)

locale evolving_store =
  fixes step :: "'s \<Rightarrow> 's \<Rightarrow> bool"
    and inv :: "'s \<Rightarrow> bool"
    and rows :: "'s \<Rightarrow> 'r list"
    and evolves :: "'r \<Rightarrow> 'r \<Rightarrow> bool"
  assumes evolves_refl: "evolves r r"
    and evolves_trans: "evolves a b \<Longrightarrow> evolves b c \<Longrightarrow> evolves a c"
    and step_inv: "inv s \<Longrightarrow> step s s' \<Longrightarrow> inv s'"
    and step_grows: "inv s \<Longrightarrow> step s s' \<Longrightarrow> grows evolves (rows s) (rows s')"
begin

lemma reachable_inv: "step\<^sup>*\<^sup>* s s' \<Longrightarrow> inv s \<Longrightarrow> inv s'"
  by (induction rule: rtranclp_induct) (auto intro: step_inv)

lemma reachable_grows: "step\<^sup>*\<^sup>* s s' \<Longrightarrow> inv s \<Longrightarrow> grows evolves (rows s) (rows s')"
proof (induction rule: rtranclp_induct)
  case base
  then show ?case by (intro grows_refl evolves_refl)
next
  case (step y z)
  then have "inv y" using reachable_inv by blast
  then have "grows evolves (rows y) (rows z)" using step(2) by (rule step_grows)
  then show ?case using step(3,4) by (blast intro: grows_trans evolves_trans)
qed

lemma reachable_row:
  "step\<^sup>*\<^sup>* s s' \<Longrightarrow> inv s \<Longrightarrow> i < length (rows s) \<Longrightarrow> i < length (rows s') \<and> evolves (rows s ! i) (rows s' ! i)"
  by (rule grows_nth [OF reachable_grows])

end

text \<open>A store whose rows are found by a key that never changes.\<close>

locale keyed_store = evolving_store step inv rows evolves
  for step :: "'s \<Rightarrow> 's \<Rightarrow> bool" and inv :: "'s \<Rightarrow> bool" and rows :: "'s \<Rightarrow> 'r list"
    and evolves :: "'r \<Rightarrow> 'r \<Rightarrow> bool" +
  fixes key :: "'r \<Rightarrow> 'k"
  assumes evolves_key: "evolves r r' \<Longrightarrow> key r' = key r"
    and inv_distinct: "inv s \<Longrightarrow> distinct (map key (rows s))"
begin

lemma key_unique: "inv s \<Longrightarrow> r \<in> set (rows s) \<Longrightarrow> r' \<in> set (rows s) \<Longrightarrow> key r = key r' \<Longrightarrow> r = r'"
  using inv_distinct by (auto simp: distinct_map inj_on_def)

text \<open>The row found by a key later is the evolution of the row found by that key before.\<close>

lemma reachable_key:
  assumes "step\<^sup>*\<^sup>* s s'" and "inv s" and "r \<in> set (rows s)" and "r' \<in> set (rows s')" and "key r' = key r"
  shows "evolves r r'"
proof -
  obtain i where i: "i < length (rows s)" "r = rows s ! i" using assms(3) by (auto simp: in_set_conv_nth)
  have later: "i < length (rows s')" "evolves r (rows s' ! i)"
    using reachable_row [OF assms(1,2) i(1)] i(2) by auto
  then have "rows s' ! i \<in> set (rows s')" "key (rows s' ! i) = key r'"
    using evolves_key assms(5) by auto
  then have "rows s' ! i = r'"
    using key_unique [OF reachable_inv [OF assms(1,2)]] assms(4) by blast
  with later show ?thesis by simp
qed

end

end
