(* ===== verification/Action_Queue.thy ===== *)
theory Action_Queue
  imports Governance Evolving_Store
begin

text \<open>
  The external action queue of \<open>governance.py\<close>: a declarative description of a valid row,
  its equivalence with the code's row check, the store invariant (every row valid, action
  IDs unique) and its preservation by enqueueing and resolving, and the life cycle of a row:
  its identity never changes and a terminal row is never touched again.
\<close>


section \<open>Valid rows\<close>

definition resolution_wf :: "obj \<Rightarrow> bool" where
  "resolution_wf row \<longleftrightarrow>
     (case str_val (get row ''status'') of st \<Rightarrow>
        if st = ''completed'' \<or> st = ''cancelled''
        then (\<forall>k\<in>set external_action_resolution_fields. has_key row k) \<and> nonblank (get row ''resolved_at'')
          \<and> sha256_str (get row ''resolution_receipt_sha256'') \<and> sha256_str (get row ''resolution_evidence_sha256'')
          \<and> is_dict (get row ''resolution_envelope'')
        else if st = ''pending'' then \<forall>k\<in>set external_action_resolution_fields. get row k = JNull
        else nonblank (get row ''resolved_at'') \<and> get row ''resolution_receipt_sha256'' = JNull
          \<and> get row ''resolution_evidence_sha256'' = JNull \<and> get row ''resolution_envelope'' = JNull)"

definition row_wf :: "obj \<Rightarrow> bool" where
  "row_wf row \<longleftrightarrow>
     (\<forall>k\<in>set external_action_base_fields. has_key row k)
     \<and> keys_within row (external_action_base_fields @ external_action_resolution_fields)
     \<and> nonblank (get row ''action_id'') \<and> nonblank (get row ''summary'')
     \<and> nonblank (get row ''owner'') \<and> nonblank (get row ''scope'')
     \<and> str_in (get row ''risk_level'') [''L1'', ''L2'', ''L3'']
     \<and> str_in (get row ''action_class'') [''operational_action'', ''necessary_uat'']
     \<and> str_in (get row ''status'') [''pending'', ''completed'', ''cancelled'', ''expired'']
     \<and> get row ''authorization_scope'' = JStr ''one concrete action only''
     \<and> row_lifetime row \<noteq> None
     \<and> get row ''request_sha256'' = JStr (external_action_request_sha256
          (str_val (get row ''action_id'')) (str_val (get row ''summary'')) (str_val (get row ''risk_level''))
          (str_val (get row ''owner'')) (str_val (get row ''action_class'')) (str_val (get row ''scope'')))
     \<and> resolution_wf row"

lemma check_resolution_ok:
  "str_in (get row ''status'') [''pending'', ''completed'', ''cancelled'', ''expired''] \<Longrightarrow>
   check_resolution row (str_val (get row ''status'')) = Inr u \<longleftrightarrow> resolution_wf row"
  by (auto simp: check_resolution_def resolution_wf_def exn_simps str_in_def list_all_iff Let_def
      external_action_resolution_fields_def simp del: find.simps split: if_splits)

lemma validate_external_action_row_ok:
  "validate_external_action_row v = Inr risk \<longleftrightarrow>
     (\<exists>row. v = JObj row \<and> row_wf row \<and> risk = str_val (get row ''risk_level''))"
proof (cases v)
  case (JObj row)
  have missing: "filter (\<lambda>k. \<not> has_key row k) external_action_base_fields = []
      \<longleftrightarrow> (\<forall>k\<in>set external_action_base_fields. has_key row k)"
    by (simp add: filter_empty_conv)
  show ?thesis
    unfolding validate_external_action_row_def row_wf_def JObj Let_def
    by (auto simp: exn_simps missing check_resolution_ok simp del: find.simps)
qed (auto simp: validate_external_action_row_def exn_simps)

lemmas field_defs = external_action_base_fields_def external_action_resolution_fields_def

lemma stamp_nonblank [simp]: "strip (stamp t) \<noteq> []"
  by (rule strip_nonblankI [of "CHR ''T''"]) (simp_all add: stamp_def is_space_def)

lemma row_lifetime_new:
  assumes "0 \<le> now" "1 \<le> m" "now + m * us_minute < max_us"
    and "get row ''created_at'' = JStr (stamp now)" "get row ''expires_at'' = JStr (stamp (now + m * us_minute))"
  shows "row_lifetime row = Some (DT (now - now mod us_second) (Some 0),
           DT (now + m * us_minute - (now + m * us_minute) mod us_second) (Some 0))"
proof -
  have pos: "0 \<le> m * us_minute" "us_second \<le> m * us_minute" using assms(2) by (simp_all add: us_defs)
  then have "now < max_us" "0 \<le> now + m * us_minute" using assms by auto
  moreover have "0 \<le> now mod us_second" "(now + m * us_minute) mod us_second < us_second" by (simp_all add: us_defs)
  ultimately show ?thesis
    using assms pos by (simp add: row_lifetime_def parse_stamp_stamp is_aware_def)
qed

lemma row_wf_new_action:
  assumes "0 \<le> now" "1 \<le> m" "now + m * us_minute < max_us"
    and "strip action_id \<noteq> []" "strip summary \<noteq> []" "strip owner \<noteq> []" "strip scope \<noteq> []"
    and "risk \<in> set [''L1'', ''L2'', ''L3'']" "action_class \<in> set [''operational_action'', ''necessary_uat'']"
  shows "row_wf (new_action now (now + m * us_minute) action_id summary risk owner action_class scope)"
    (is "row_wf ?row")
proof -
  have "row_lifetime ?row \<noteq> None"
    using row_lifetime_new [OF assms(1-3), of ?row] by (simp add: new_action_def)
  then show ?thesis
    using assms(4-) unfolding row_wf_def resolution_wf_def
    by (simp add: new_action_def field_defs keys_within_def)
qed

text \<open>Updating only the status and the resolution fields keeps everything else of a valid row.\<close>

definition close_row :: "string \<Rightarrow> json \<Rightarrow> json \<Rightarrow> json \<Rightarrow> json \<Rightarrow> obj \<Rightarrow> obj" where
  "close_row status resolved_at receipt evidence envelope row = update_all
     [(''status'', JStr status), (''resolved_at'', resolved_at), (''resolution_receipt_sha256'', receipt),
      (''resolution_evidence_sha256'', evidence), (''resolution_envelope'', envelope)] row"

lemma expire_row_close: "expire_row now row = close_row ''expired'' (JStr (stamp now)) JNull JNull JNull row"
  by (simp add: expire_row_def close_row_def)

lemma get_close_row:
  "get (close_row st ra rc ev en row) k =
     (if k = ''status'' then JStr st else if k = ''resolved_at'' then ra
      else if k = ''resolution_receipt_sha256'' then rc else if k = ''resolution_evidence_sha256'' then ev
      else if k = ''resolution_envelope'' then en else get row k)"
  by (simp add: close_row_def)

lemma has_key_close_row:
  "has_key (close_row st ra rc ev en row) k \<longleftrightarrow>
     has_key row k \<or> k \<in> set (''status'' # external_action_resolution_fields)"
  by (auto simp: close_row_def field_defs)

lemma row_wf_close_row:
  assumes wf: "row_wf row"
    and st: "st \<in> set [''completed'', ''cancelled'', ''expired'']" and "nonblank ra"
    and signed: "st \<noteq> ''expired'' \<Longrightarrow> sha256_str rc \<and> sha256_str ev \<and> is_dict en"
    and unsigned: "st = ''expired'' \<Longrightarrow> rc = JNull \<and> ev = JNull \<and> en = JNull"
  shows "row_wf (close_row st ra rc ev en row)"
proof -
  let ?row = "close_row st ra rc ev en row"
  have "resolution_wf ?row"
  proof -
    from st consider "st = ''completed''" | "st = ''cancelled''" | "st = ''expired''" by auto
    then show ?thesis
      using assms(3) signed unsigned
      by cases (simp_all add: resolution_wf_def get_close_row has_key_close_row field_defs)
  qed
  moreover have "row_lifetime ?row = row_lifetime row"
    by (simp add: row_lifetime_def get_close_row)
  moreover have "keys_within ?row (external_action_base_fields @ external_action_resolution_fields)"
    using wf by (simp add: close_row_def row_wf_def) (simp add: field_defs)
  moreover have "str_in (get ?row ''status'') [''pending'', ''completed'', ''cancelled'', ''expired'']"
    using st by (auto simp: get_close_row)
  ultimately show ?thesis
    using wf unfolding row_wf_def by (simp add: get_close_row has_key_close_row)
qed


section \<open>The store\<close>

text \<open>The rows of the store, and the invariant: the store loads, rows are valid, IDs unique.\<close>

definition rows_of :: "repo \<Rightarrow> json list" where
  "rows_of s = (case load_external_action_store (external_actions s) of Inl _ \<Rightarrow> [] | Inr d \<Rightarrow> store_rows d)"

definition action_id_of :: "json \<Rightarrow> json" where
  "action_id_of r = get (dict_val r) ''action_id''"

definition store_inv :: "repo \<Rightarrow> bool" where
  "store_inv s \<longleftrightarrow> (\<exists>d. load_external_action_store (external_actions s) = Inr d)
     \<and> (\<forall>r\<in>set (rows_of s). \<exists>row. r = JObj row \<and> row_wf row)
     \<and> distinct (map action_id_of (rows_of s))"

definition store_doc :: "obj \<Rightarrow> bool" where
  "store_doc d \<longleftrightarrow> keys_eq d [''schema_version'', ''actions''] \<and> get d ''schema_version'' = JStr ''1.1''
     \<and> is_list (get d ''actions'')"

lemma load_store_doc: "load_external_action_store f = Inr d \<Longrightarrow> store_doc d"
proof -
  assume "load_external_action_store f = Inr d"
  then obtain v where *: "(if py_eq v (JObj [(''schema_version'', JStr ''1.0''), (''actions'', JArr [])])
       then Inr [(''schema_version'', JStr ''1.1''), (''actions'', JArr [])]
       else if is_dict v \<and> get (dict_val v) ''schema_version'' = JStr ''1.0''
       then Inl (ValueError (''legacy external action store 1.0 cannot be migrated automatically; '' @
              ''archive it and re-queue each exact bounded action''))
       else if \<not> is_dict v \<or> \<not> keys_eq (dict_val v) [''schema_version'', ''actions'']
         \<or> get (dict_val v) ''schema_version'' \<noteq> JStr ''1.1'' \<or> \<not> is_list (get (dict_val v) ''actions'')
       then Inl (ValueError ''external action store has an invalid contract'')
       else Inr (dict_val v)) = Inr d"
    unfolding load_external_action_store_def rbind_Inr_iff by blast
  show ?thesis
  proof (cases "py_eq v (JObj [(''schema_version'', JStr ''1.0''), (''actions'', JArr [])])")
    case True
    with * have "d = [(''schema_version'', JStr ''1.1''), (''actions'', JArr [])]" by simp
    then show ?thesis by (simp add: store_doc_def keys_eq_def)
  next
    case False
    with * show ?thesis by (simp add: store_doc_def split: if_splits)
  qed
qed

lemma load_of_store_doc: "store_doc d \<Longrightarrow> load_external_action_store (Doc (JObj d)) = Inr d"
proof -
  assume d: "store_doc d"
  then have "map_of d ''schema_version'' = Some (JStr ''1.1'')"
    by (auto simp: store_doc_def get_def split: option.splits)
  then have "(''schema_version'', JStr ''1.1'') \<in> set d" by (rule map_of_SomeD)
  then have "\<not> py_eq (JObj d) (JObj [(''schema_version'', JStr ''1.0''), (''actions'', JArr [])])"
    by (force simp: py_eq.simps)
  then show ?thesis
    using d by (simp add: load_external_action_store_def read_file_def store_doc_def)
qed

lemma store_doc_put: "store_doc d \<Longrightarrow> store_doc (put ''actions'' (JArr rows) d)"
  by (simp add: store_doc_def keys_eq_put)

lemma rows_of_write:
  assumes "load_external_action_store f = Inr d"
    and "external_actions s = Doc (JObj (put ''actions'' (JArr rows) d))"
  shows "rows_of s = rows" and "load_external_action_store (external_actions s) = Inr (put ''actions'' (JArr rows) d)"
  using load_of_store_doc [OF store_doc_put [OF load_store_doc [OF assms(1)]], of rows] assms(2)
  by (simp_all add: rows_of_def store_rows_def)

lemma emit_event_frame [simp]:
  "external_actions (snd (emit_event now t r p s)) = external_actions s"
  "work_claims (snd (emit_event now t r p s)) = work_claims s"
  "decisions_json (snd (emit_event now t r p s)) = decisions_json s"
  "project_json (snd (emit_event now t r p s)) = project_json s"
  by (simp_all add: emit_event_def Let_def)

lemma rows_of_cong: "external_actions s = external_actions s' \<Longrightarrow> rows_of s = rows_of s'"
  by (simp add: rows_of_def)


section \<open>The life cycle of a row\<close>

text \<open>
  A row evolves by staying as it is or, when pending, by getting a terminal status; every
  field that identifies the action is kept.
\<close>

definition row_evolves :: "json \<Rightarrow> json \<Rightarrow> bool" where
  "row_evolves r r' \<longleftrightarrow> r' = r \<or>
     (get (dict_val r) ''status'' = JStr ''pending''
      \<and> str_in (get (dict_val r') ''status'') [''completed'', ''cancelled'', ''expired'']
      \<and> (\<forall>k\<in>set external_action_base_fields. k \<noteq> ''status'' \<longrightarrow> get (dict_val r') k = get (dict_val r) k))"

lemma row_evolves_refl [simp]: "row_evolves r r"
  by (simp add: row_evolves_def)

lemma terminal_not_pending: "str_in v [''completed'', ''cancelled'', ''expired''] \<Longrightarrow> v \<noteq> JStr ''pending''"
  by (auto simp: str_in_conv)

lemma row_evolves_trans:
  assumes "row_evolves a b" and "row_evolves b c"
  shows "row_evolves a c"
proof (cases "b = a")
  case False
  with assms(1) have "get (dict_val b) ''status'' \<noteq> JStr ''pending''"
    unfolding row_evolves_def using terminal_not_pending by simp
  with assms(2) have "c = b" unfolding row_evolves_def by simp
  with assms(1) show ?thesis by simp
qed (use assms in simp)

lemma row_evolves_action_id: "row_evolves r r' \<Longrightarrow> action_id_of r' = action_id_of r"
  unfolding row_evolves_def action_id_of_def by (elim disjE) (simp_all add: field_defs)

lemma row_evolves_terminal:
  "row_evolves r r' \<Longrightarrow> get (dict_val r) ''status'' \<noteq> JStr ''pending'' \<Longrightarrow> r' = r"
  by (simp add: row_evolves_def)

text \<open>Replacing the one row with a given ID.\<close>

lemma replace_row_evolves:
  assumes "filter (has_action_id aid) rows = [JObj row]" and "row_evolves (JObj row) (JObj new)"
  shows "list_all2 row_evolves rows (replace_row aid new rows)"
proof -
  have "row_evolves r (if has_action_id aid r then JObj new else r)" if "r \<in> set rows" for r
  proof (cases "has_action_id aid r")
    case True
    with that have "r \<in> set (filter (has_action_id aid) rows)" by simp
    with assms True show ?thesis by simp
  qed simp
  then show ?thesis unfolding replace_row_def by (induction rows) auto
qed

lemma map_action_id_evolves: "list_all2 row_evolves rs rs' \<Longrightarrow> map action_id_of rs' = map action_id_of rs"
  by (induction rule: list_all2_induct) (simp_all add: row_evolves_action_id)

lemma set_replace_row: "r \<in> set (replace_row aid new rows) \<Longrightarrow> r = JObj new \<or> r \<in> set rows"
  by (auto simp: replace_row_def)

lemma close_row_evolves:
  assumes "get row ''status'' = JStr ''pending''" and "st \<in> set [''completed'', ''cancelled'', ''expired'']"
  shows "row_evolves (JObj row) (JObj (close_row st ra rc ev en row))"
  using assms unfolding row_evolves_def by (simp add: get_close_row field_defs)


section \<open>Enqueueing\<close>

definition valid_rows :: "json list \<Rightarrow> bool" where
  "valid_rows rows \<longleftrightarrow> (\<forall>r\<in>set rows. \<exists>row. r = JObj row \<and> row_wf row)"

lemma mapr_validate: "mapr validate_external_action_row rows = Inr risks \<Longrightarrow> valid_rows rows"
  using mapr_ok_iff [of validate_external_action_row rows]
  by (auto simp: valid_rows_def validate_external_action_row_ok)

lemma mapr_validate_ok: "valid_rows rows \<Longrightarrow> \<exists>risks. mapr validate_external_action_row rows = Inr risks"
  unfolding mapr_ok_iff by (auto simp: valid_rows_def validate_external_action_row_ok)

text \<open>What a successful enqueue has checked, and which branch it took.\<close>

lemma enqueue_plan_of_Inr:
  assumes "enqueue_plan_of now aid sm rk ow sc ttl ac f = Inr plan"
  obtains data where "load_external_action_store f = Inr data" "valid_rows (store_rows data)"
    "str_in rk [''L1'', ''L2'', ''L3'']" "str_in ac [''operational_action'', ''necessary_uat'']"
    "list_all nonblank [aid, sm, ow, sc]" "is_int ttl \<and> 1 \<le> int_val ttl \<and> int_val ttl \<le> 10080"
    "filter (has_action_id aid) (store_rows data) = [] \<and>
       enqueue_new now (str_val aid) (str_val sm) (str_val rk) (str_val ow) (str_val ac) (str_val sc) (int_val ttl) data
         = Inr plan \<or>
     (\<exists>row. filter (has_action_id aid) (store_rows data) = [JObj row] \<and>
       enqueue_existing now aid (external_action_request_sha256 (str_val aid) (str_val sm) (str_val rk)
         (str_val ow) (str_val ac) (str_val sc)) data row = Inr plan)"
proof -
  from assms obtain b c data risks where b: "in_strings rk [''L1'', ''L2'', ''L3''] = Inr b"
    "(if b then in_strings ac [''operational_action'', ''necessary_uat''] else Inr False) = Inr c" "c"
    and chk: "list_all nonblank [aid, sm, ow, sc]"
      "is_int ttl \<and> 1 \<le> int_val ttl \<and> int_val ttl \<le> 10080"
    and load: "load_external_action_store f = Inr data"
    and val: "mapr validate_external_action_row (store_rows data) = Inr risks"
    and br: "(case filter (has_action_id aid) (store_rows data) of
        [] \<Rightarrow> enqueue_new now (str_val aid) (str_val sm) (str_val rk) (str_val ow)
                (str_val ac) (str_val sc) (int_val ttl) data
      | [r] \<Rightarrow> enqueue_existing now aid
                 (external_action_request_sha256 (str_val aid) (str_val sm) (str_val rk)
                   (str_val ow) (str_val ac) (str_val sc)) data (dict_val r)
      | _ \<Rightarrow> Inl (ValueError (''duplicate external action state: '' @ str_val aid))) = Inr plan"
    unfolding enqueue_plan_of_def by (elim resultE)
  have v: "valid_rows (store_rows data)" using mapr_validate [OF val] .
  from b have "b" by (cases b) simp_all
  with b have str: "str_in rk [''L1'', ''L2'', ''L3'']" "str_in ac [''operational_action'', ''necessary_uat'']"
    by (simp_all add: in_strings_True_iff)
  show thesis
  proof (rule that [OF load v str chk])
    consider "filter (has_action_id aid) (store_rows data) = []"
      | r where "filter (has_action_id aid) (store_rows data) = [r]"
      | a b rs where "filter (has_action_id aid) (store_rows data) = a # b # rs"
      by (metis neq_Nil_conv)
    then show "filter (has_action_id aid) (store_rows data) = [] \<and>
       enqueue_new now (str_val aid) (str_val sm) (str_val rk) (str_val ow) (str_val ac) (str_val sc) (int_val ttl) data
         = Inr plan \<or>
     (\<exists>row. filter (has_action_id aid) (store_rows data) = [JObj row] \<and>
       enqueue_existing now aid (external_action_request_sha256 (str_val aid) (str_val sm) (str_val rk)
         (str_val ow) (str_val ac) (str_val sc)) data row = Inr plan)"
    proof cases
      case (2 r)
      then have "r \<in> set (filter (has_action_id aid) (store_rows data))" by simp
      then have "r \<in> set (store_rows data)" by simp
      then obtain row where "r = JObj row" using v by (auto simp: valid_rows_def)
      then show ?thesis using 2 br by simp
    qed (use br in simp_all)
  qed
qed

lemma enqueue_existing_cases:
  assumes "enqueue_existing now aid sha data row = Inr plan"
  shows "get row ''request_sha256'' = JStr sha" and
    "plan = Reuse row \<or>
     get row ''status'' = JStr ''pending'' \<and>
       plan = Expire (expire_row now row)
         (put ''actions'' (JArr (replace_row aid (expire_row now row) (store_rows data))) data)"
proof -
  from assms show "get row ''request_sha256'' = JStr sha"
    by (simp add: enqueue_existing_def require_Inr_iff)
  from assms obtain k where "(if get row ''status'' \<noteq> JStr ''pending'' then Inr (Reuse row)
      else case parse_value (get row ''expires_at'') of
             None \<Rightarrow> Inl (ValueError ''external action expiry is invalid'')
           | Some expiry \<Rightarrow>
               require (is_aware expiry) (ValueError ''external action expiry is invalid'')
               (if instant expiry \<le> now
                then let row' = expire_row now row
                     in Inr (Expire row' (put ''actions'' (JArr (replace_row aid row' (store_rows data))) data))
                else Inr (Reuse row))) = Inr plan"
    unfolding enqueue_existing_def rbind_Inr_iff require_Inr_iff by blast
  then show "plan = Reuse row \<or>
     get row ''status'' = JStr ''pending'' \<and>
       plan = Expire (expire_row now row)
         (put ''actions'' (JArr (replace_row aid (expire_row now row) (store_rows data))) data)"
    by (simp add: Let_def require_Inr_iff split: if_splits option.splits)
qed

text \<open>An enqueue that fails changes nothing; one that succeeds took one of three branches.\<close>

lemma enqueue_Inl: "fst (enqueue_external_action now aid sm rk ow sc ttl ac s) = Inl e \<Longrightarrow>
    snd (enqueue_external_action now aid sm rk ow sc ttl ac s) = s"
  by (simp add: enqueue_external_action_def split: sum.splits enqueue_plan.splits)

text \<open>The append branch: the new row is valid and carries the requested ID.\<close>

lemma enqueue_new_Inr:
  assumes "enqueue_new now aid sm rk ow ac sc m data = Inr plan"
  obtains new where "new = new_action now (now + m * us_minute) aid sm rk ow ac sc" "now + m * us_minute < max_us"
    "plan = Create new (put ''actions'' (JArr (store_rows data @ [JObj new])) data)"
  using assms by (auto simp: enqueue_new_def rbind_Inr_iff Let_def add_minutes_Inr_iff)

lemma row_wf_enqueued:
  assumes "0 \<le> now" "now + int_val ttl * us_minute < max_us"
    and "is_int ttl \<and> 1 \<le> int_val ttl \<and> int_val ttl \<le> 10080" "list_all nonblank [aid, sm, ow, sc]"
    and "str_in rk [''L1'', ''L2'', ''L3'']" "str_in ac [''operational_action'', ''necessary_uat'']"
  shows "row_wf (new_action now (now + int_val ttl * us_minute) (str_val aid) (str_val sm) (str_val rk)
     (str_val ow) (str_val ac) (str_val sc))"
  using assms by (intro row_wf_new_action) (simp_all add: nonblank_def str_in_def)

lemma action_id_new_action: "nonblank aid \<Longrightarrow> action_id_of (JObj (new_action now e (str_val aid) sm rk ow ac sc)) = aid"
  by (auto simp: action_id_of_def new_action_def nonblank_conv)

lemma filter_one_mem: "filter p xs = [x] \<Longrightarrow> x \<in> set xs \<and> p x"
  by (metis filter_set list.set_intros(1) mem_Collect_eq set_filter)

lemma enqueue_Inr:
  assumes enq: "enqueue_external_action now aid sm rk ow sc ttl ac s = (Inr res, s')"
  obtains (reuse) row where "s' = s" "filter (has_action_id aid) (rows_of s) = [JObj row]"
      "res = put ''external_action_created'' (JBool False) row"
  | (expire) row where "filter (has_action_id aid) (rows_of s) = [JObj row]" "get row ''status'' = JStr ''pending''"
      "row_wf row" "res = put ''external_action_created'' (JBool False) (expire_row now row)"
      "\<exists>d. load_external_action_store (external_actions s') = Inr d"
      "rows_of s' = replace_row aid (expire_row now row) (rows_of s)"
  | (create) new where "filter (has_action_id aid) (rows_of s) = []"
      "new = new_action now (now + int_val ttl * us_minute) (str_val aid) (str_val sm) (str_val rk)
         (str_val ow) (str_val ac) (str_val sc)"
      "res = put ''external_action_created'' (JBool True) new"
      "0 \<le> now \<Longrightarrow> row_wf new" "action_id_of (JObj new) = aid"
      "\<exists>d. load_external_action_store (external_actions s') = Inr d"
      "rows_of s' = rows_of s @ [JObj new]"
proof -
  from enq obtain plan where
    plan: "enqueue_plan_of now aid sm rk ow sc ttl ac (external_actions s) = Inr plan"
    by (cases "enqueue_plan_of now aid sm rk ow sc ttl ac (external_actions s)")
      (simp_all add: enqueue_external_action_def)
  obtain data where load: "load_external_action_store (external_actions s) = Inr data"
    and valid: "valid_rows (store_rows data)"
    and args: "str_in rk [''L1'', ''L2'', ''L3'']" "str_in ac [''operational_action'', ''necessary_uat'']"
      "list_all nonblank [aid, sm, ow, sc]" "is_int ttl \<and> 1 \<le> int_val ttl \<and> int_val ttl \<le> 10080"
    and br: "filter (has_action_id aid) (store_rows data) = [] \<and>
         enqueue_new now (str_val aid) (str_val sm) (str_val rk) (str_val ow) (str_val ac) (str_val sc)
           (int_val ttl) data = Inr plan \<or>
        (\<exists>row. filter (has_action_id aid) (store_rows data) = [JObj row] \<and>
          enqueue_existing now aid (external_action_request_sha256 (str_val aid) (str_val sm) (str_val rk)
            (str_val ow) (str_val ac) (str_val sc)) data row = Inr plan)"
    using plan by (rule enqueue_plan_of_Inr)
  have rows: "store_rows data = rows_of s" using load by (simp add: rows_of_def)
  from br consider (new) "filter (has_action_id aid) (rows_of s) = []"
      "enqueue_new now (str_val aid) (str_val sm) (str_val rk) (str_val ow) (str_val ac) (str_val sc)
         (int_val ttl) data = Inr plan"
    | (old) row where "filter (has_action_id aid) (rows_of s) = [JObj row]"
      "enqueue_existing now aid (external_action_request_sha256 (str_val aid) (str_val sm) (str_val rk)
            (str_val ow) (str_val ac) (str_val sc)) data row = Inr plan"
    unfolding rows by blast
  then show thesis
  proof cases
    case new
    from new(2) obtain row where row: "row = new_action now (now + int_val ttl * us_minute) (str_val aid)
        (str_val sm) (str_val rk) (str_val ow) (str_val ac) (str_val sc)" "now + int_val ttl * us_minute < max_us"
      and p: "plan = Create row (put ''actions'' (JArr (rows_of s @ [JObj row])) data)"
      unfolding rows [symmetric] by (rule enqueue_new_Inr)
    have s': "external_actions s' = Doc (JObj (put ''actions'' (JArr (rows_of s @ [JObj row])) data))"
      and res: "res = put ''external_action_created'' (JBool True) row"
      using enq unfolding enqueue_external_action_def plan p by auto
    have aid: "action_id_of (JObj row) = aid" using args(3) by (simp add: row(1) action_id_new_action)
    show thesis
      using create [OF new(1) row(1) res _ aid] row_wf_enqueued [OF _ row(2) args(4,3,1,2)]
        rows_of_write [OF load s'] unfolding row(1) by blast
  next
    case (old row)
    have wf: "row_wf row" using filter_one_mem [OF old(1)] valid by (auto simp: valid_rows_def rows)
    from enqueue_existing_cases(2) [OF old(2)] consider "plan = Reuse row" |
      (exp) "get row ''status'' = JStr ''pending''" "plan = Expire (expire_row now row)
        (put ''actions'' (JArr (replace_row aid (expire_row now row) (rows_of s))) data)" by (auto simp: rows)
    then show thesis
    proof cases
      case 1
      then show thesis using enq old(1) reuse unfolding enqueue_external_action_def plan by auto
    next
      case exp
      have s': "external_actions s' =
          Doc (JObj (put ''actions'' (JArr (replace_row aid (expire_row now row) (rows_of s))) data))"
        and res: "res = put ''external_action_created'' (JBool False) (expire_row now row)"
        using enq unfolding enqueue_external_action_def plan exp(2) by auto
      show thesis using expire [OF old(1) exp(1) wf res] rows_of_write [OF load s'] by blast
    qed
  qed
qed


section \<open>Resolving\<close>

text \<open>A resolution time lies between the creation and the expiry of the row, all with a timezone.\<close>

definition in_lifetime :: "obj \<Rightarrow> string \<Rightarrow> bool" where
  "in_lifetime row resolved_at \<longleftrightarrow> (case (row_lifetime row, parse_stamp resolved_at) of
     (Some (c, e), Some t) \<Rightarrow> is_aware t \<and> instant c \<le> instant t \<and> instant t \<le> instant e
   | _ \<Rightarrow> False)"

lemma resolve_row_Inr:
  assumes "resolve_row aid ac ow sc sha st ra rc ev en data row = Inr (row', ch)" and "row_wf row"
    and "st \<in> set [''completed'', ''cancelled'']"
  shows "(ch = None \<and> row' = row \<and> get row ''status'' = JStr st \<and> get row ''resolution_receipt_sha256'' = JStr rc)
    \<or> (get row ''status'' = JStr ''pending'' \<and> in_lifetime row ra
       \<and> row' = close_row st (JStr ra) (JStr rc) (JStr ev) en row
       \<and> ch = Some (str_val (get row ''risk_level''),
            put ''actions'' (JArr (replace_row (JStr aid) row' (store_rows data))) data))"
proof (cases "get row ''status'' = JStr st")
  case True
  then show ?thesis using assms(1) by (auto simp: resolve_row_def require_Inr_iff)
next
  case False
  obtain c e where life: "row_lifetime row = Some (c, e)" using assms(2) by (auto simp: row_wf_def)
  then have ce: "parse_value (get row ''created_at'') = Some c" "parse_value (get row ''expires_at'') = Some e"
    "is_aware c" "is_aware e"
    by (simp_all add: row_lifetime_def split: option.splits if_splits)
  show ?thesis
    using False assms(1) unfolding resolve_row_def in_lifetime_def life close_row_def
    by (simp add: ce require_Inr_iff Let_def split: option.splits) blast
qed

lemma resolve_plan_Inr:
  assumes "resolve_plan aid ac ow sc sha st ra rc ev en f = Inr (row', ch)"
  obtains data row where "load_external_action_store f = Inr data" "valid_rows (store_rows data)"
    "st \<in> set [''completed'', ''cancelled'']" "strip ra \<noteq> []" "is_sha256 rc" "is_sha256 ev" "is_dict en"
    "filter (has_action_id (JStr aid)) (store_rows data) = [JObj row]" "row_wf row"
    "resolve_row aid ac ow sc sha st ra rc ev en data row = Inr (row', ch)"
proof -
  from assms obtain data risks where st: "st \<in> set [''completed'', ''cancelled'']"
    and args: "strip ra \<noteq> []" "is_sha256 rc" "is_sha256 ev" "is_dict en"
    and load: "load_external_action_store f = Inr data"
    and val: "mapr validate_external_action_row (store_rows data) = Inr risks"
    and br: "(case filter (has_action_id (JStr aid)) (store_rows data) of
        [r] \<Rightarrow> resolve_row aid ac ow sc sha st ra rc ev en data (dict_val r)
      | _ \<Rightarrow> Inl (ValueError ''external action resolution requires one exact action'')) = Inr (row', ch)"
    unfolding resolve_plan_def find_raise_Inr_iff require_Inr_iff rbind_Inr_iff
    by (metis (no_types, lifting) list.set_intros(1) list.set_intros(2) snd_conv)
  then obtain r where one: "filter (has_action_id (JStr aid)) (store_rows data) = [r]"
    and rr: "resolve_row aid ac ow sc sha st ra rc ev en data (dict_val r) = Inr (row', ch)"
    by (auto split: list.splits)
  have v: "valid_rows (store_rows data)" using mapr_validate [OF val] .
  then obtain row where "r = JObj row" "row_wf row" using filter_one_mem [OF one] by (auto simp: valid_rows_def)
  then show thesis using that [OF load v st args] one rr by simp
qed

lemma resolve_Inl: "fst (resolve_external_action now aid ac ow sc sha st ra rc ev en s) = Inl e \<Longrightarrow>
    snd (resolve_external_action now aid ac ow sc sha st ra rc ev en s) = s"
  by (simp add: resolve_external_action_def split: sum.splits prod.splits option.splits)

lemma resolve_Inr:
  assumes res: "resolve_external_action now aid ac ow sc sha st ra rc ev en s = (Inr out, s')"
  obtains (same) row where "s' = s" "filter (has_action_id (JStr aid)) (rows_of s) = [JObj row]"
      "get row ''status'' = JStr st" "get row ''resolution_receipt_sha256'' = JStr rc"
      "out = put ''state_changed'' (JBool False) row" "st \<in> set [''completed'', ''cancelled'']"
  | (closed) row new where "filter (has_action_id (JStr aid)) (rows_of s) = [JObj row]" "row_wf row"
      "get row ''status'' = JStr ''pending''" "in_lifetime row ra" "st \<in> set [''completed'', ''cancelled'']"
      "new = close_row st (JStr ra) (JStr rc) (JStr ev) en row" "row_wf new"
      "out = put ''state_changed'' (JBool True) new"
      "\<exists>d. load_external_action_store (external_actions s') = Inr d"
      "rows_of s' = replace_row (JStr aid) new (rows_of s)"
proof -
  from res obtain row' ch where plan: "resolve_plan aid ac ow sc sha st ra rc ev en (external_actions s) = Inr (row', ch)"
    by (cases "resolve_plan aid ac ow sc sha st ra rc ev en (external_actions s)")
      (auto simp: resolve_external_action_def)
  obtain data row where load: "load_external_action_store (external_actions s) = Inr data"
    and st: "st \<in> set [''completed'', ''cancelled'']"
    and args: "strip ra \<noteq> []" "is_sha256 rc" "is_sha256 ev" "is_dict en"
    and one: "filter (has_action_id (JStr aid)) (store_rows data) = [JObj row]" and wf: "row_wf row"
    and rr: "resolve_row aid ac ow sc sha st ra rc ev en data row = Inr (row', ch)"
    using plan by (rule resolve_plan_Inr)
  have rows: "store_rows data = rows_of s" using load by (simp add: rows_of_def)
  let ?new = "close_row st (JStr ra) (JStr rc) (JStr ev) en row"
  from resolve_row_Inr [OF rr wf st] consider (same) "ch = None" "row' = row" "get row ''status'' = JStr st"
      "get row ''resolution_receipt_sha256'' = JStr rc"
    | (chg) "get row ''status'' = JStr ''pending''" "in_lifetime row ra" "row' = ?new"
      "ch = Some (str_val (get row ''risk_level''),
            put ''actions'' (JArr (replace_row (JStr aid) ?new (rows_of s))) data)"
    unfolding rows by blast
  then show thesis
  proof cases
    case same
    then show thesis using that(1) res one st unfolding resolve_external_action_def plan by (simp add: rows)
  next
    case chg
    have s': "external_actions s' = Doc (JObj (put ''actions'' (JArr (replace_row (JStr aid) ?new (rows_of s))) data))"
      and out: "out = put ''state_changed'' (JBool True) ?new"
      using res unfolding resolve_external_action_def plan chg by auto
    have "row_wf ?new" using wf st args by (intro row_wf_close_row) auto
    then show thesis
      using closed [OF one [unfolded rows] wf chg(1,2) st refl _ out] rows_of_write [OF load s'] by blast
  qed
qed


section \<open>The invariant and the life cycle\<close>

lemma store_inv_alt:
  "store_inv s \<longleftrightarrow> (\<exists>d. load_external_action_store (external_actions s) = Inr d)
     \<and> valid_rows (rows_of s) \<and> distinct (map action_id_of (rows_of s))"
  by (simp add: store_inv_def valid_rows_def)

lemma replace_row_inv:
  assumes "valid_rows rows" "distinct (map action_id_of rows)"
    and "filter (has_action_id aid) rows = [JObj row]" "row_wf new" "row_evolves (JObj row) (JObj new)"
  shows "valid_rows (replace_row aid new rows)" "distinct (map action_id_of (replace_row aid new rows))"
proof -
  show "valid_rows (replace_row aid new rows)"
    using assms(1,4) unfolding valid_rows_def by (blast dest: set_replace_row)
  show "distinct (map action_id_of (replace_row aid new rows))"
    using assms(2) map_action_id_evolves [OF replace_row_evolves [OF assms(3,5)]] by simp
qed

lemma row_wf_expire: "row_wf row \<Longrightarrow> row_wf (expire_row now row)"
  unfolding expire_row_close by (rule row_wf_close_row) simp_all

lemma enqueue_keeps:
  assumes "0 \<le> now" and inv: "store_inv s"
  shows "store_inv (snd (enqueue_external_action now aid sm rk ow sc ttl ac s))
    \<and> grows row_evolves (rows_of s) (rows_of (snd (enqueue_external_action now aid sm rk ow sc ttl ac s)))"
proof (cases "enqueue_external_action now aid sm rk ow sc ttl ac s")
  case (Pair r s')
  show ?thesis
  proof (cases r)
    case (Inl e)
    then show ?thesis using enqueue_Inl [of now aid sm rk ow sc ttl ac s e] Pair inv by (simp add: grows_refl)
  next
    case (Inr res)
    have enq: "enqueue_external_action now aid sm rk ow sc ttl ac s = (Inr res, s')" using Pair Inr by simp
    from enq have "store_inv s' \<and> grows row_evolves (rows_of s) (rows_of s')"
    proof (cases rule: enqueue_Inr)
      case (reuse row)
      then show ?thesis using inv by (simp add: grows_refl)
    next
      case (expire row)
      then have ev: "row_evolves (JObj row) (JObj (expire_row now row))"
        unfolding expire_row_close by (intro close_row_evolves) simp_all
      show ?thesis
        using inv expire replace_row_inv [OF _ _ expire(1) row_wf_expire [OF expire(3)] ev]
          grows_same_length [OF replace_row_evolves [OF expire(1) ev]]
        by (simp add: store_inv_alt)
    next
      case (create new)
      have "aid \<notin> action_id_of ` set (rows_of s)"
        using create(1) by (auto simp: filter_empty_conv has_action_id_def action_id_of_def)
      then show ?thesis
        using inv create(4-7) assms(1) grows_append [of row_evolves "rows_of s" "rows_of s" "[JObj new]"]
        by (simp add: store_inv_alt valid_rows_def list_all2_refl)
    qed
    then show ?thesis by (simp add: enq)
  qed
qed

lemma resolve_keeps:
  assumes inv: "store_inv s"
  shows "store_inv (snd (resolve_external_action now aid ac ow sc sha st ra rc ev en s))
    \<and> grows row_evolves (rows_of s) (rows_of (snd (resolve_external_action now aid ac ow sc sha st ra rc ev en s)))"
proof (cases "resolve_external_action now aid ac ow sc sha st ra rc ev en s")
  case (Pair r s')
  show ?thesis
  proof (cases r)
    case (Inl e)
    then show ?thesis using resolve_Inl [of now aid ac ow sc sha st ra rc ev en s e] Pair inv by (simp add: grows_refl)
  next
    case (Inr out)
    have res: "resolve_external_action now aid ac ow sc sha st ra rc ev en s = (Inr out, s')" using Pair Inr by simp
    from res have "store_inv s' \<and> grows row_evolves (rows_of s) (rows_of s')"
    proof (cases rule: resolve_Inr)
      case (same row)
      then show ?thesis using inv by (simp add: grows_refl)
    next
      case (closed row new)
      have ev: "row_evolves (JObj row) (JObj new)"
        using closed(3,5) unfolding closed(6) by (intro close_row_evolves) auto
      show ?thesis
        using inv closed(9,10) replace_row_inv [OF _ _ closed(1) closed(7) ev]
          grows_same_length [OF replace_row_evolves [OF closed(1) ev]]
        by (simp add: store_inv_alt)
    qed
    then show ?thesis by (simp add: res)
  qed
qed


section \<open>Histories\<close>

text \<open>Every operation of the governance module that can touch the repository state.\<close>

inductive queue_step :: "repo \<Rightarrow> repo \<Rightarrow> bool" where
  enqueue: "0 \<le> now \<Longrightarrow> queue_step s (snd (enqueue_external_action now aid sm rk ow sc ttl ac s))"
| resolve: "queue_step s (snd (resolve_external_action now aid ac ow sc sha st ra rc ev en s))"
| claim: "queue_step s (snd (claim_work now wp agent ttl_minutes s))"
| init: "queue_step s (snd (init_project now profile s))"
| event: "queue_step s (snd (emit_event now event_type risk payload s))"

lemma claim_work_frame: "external_actions (snd (claim_work now wp agent m s)) = external_actions s"
  by (simp add: claim_work_def split: sum.splits prod.splits)

lemma init_one_frame:
  "(\<And>f s. external_actions (upd f s) = external_actions s) \<Longrightarrow>
   external_actions (snd (init_one path sel upd v cs)) = external_actions (snd cs)"
  by (cases cs) (simp add: init_one_def)

lemma init_one_actions:
  "external_actions (snd (init_one path external_actions external_actions_update v cs)) =
   (if external_actions (snd cs) = Missing then Doc (JObj v) else external_actions (snd cs))"
  by (cases cs) (simp add: init_one_def)

lemma init_events_frame:
  "external_actions (snd (case cs of (created, s') \<Rightarrow>
     (if events s' = None then (created @ x, s'\<lparr>events := Some []\<rparr>) else (created, s')))) = external_actions (snd cs)"
  by (cases cs) simp

lemma load_missing:
  "load_external_action_store Missing = Inr [(''schema_version'', JStr ''1.1''), (''actions'', JArr [])]"
proof -
  let ?d = "[(''schema_version'', JStr ''1.1''), (''actions'', JArr [])]"
  have "load_external_action_store Missing = load_external_action_store (Doc (JObj ?d))"
    by (simp add: load_external_action_store_def read_file_def)
  also have "\<dots> = Inr ?d" by (rule load_of_store_doc) (simp add: store_doc_def keys_eq_def)
  finally show ?thesis .
qed

lemma load_init_project:
  "load_external_action_store (external_actions (snd (init_project now profile s))) =
   load_external_action_store (external_actions s)"
proof -
  let ?d = "[(''schema_version'', JStr ''1.1''), (''actions'', JArr [])]"
  have "external_actions (snd (init_project now profile s)) \<in> {external_actions s,
      if external_actions s = Missing then Doc (JObj ?d) else external_actions s}"
    unfolding init_project_def Let_def by (simp add: init_one_frame init_one_actions init_events_frame)
  moreover have "load_external_action_store (Doc (JObj ?d)) = load_external_action_store Missing"
    unfolding load_missing by (rule load_of_store_doc) (simp add: store_doc_def keys_eq_def)
  ultimately show ?thesis by (auto split: if_splits)
qed

lemma queue_step_frame:
  "load_external_action_store (external_actions s') = load_external_action_store (external_actions s) \<Longrightarrow>
   store_inv s \<Longrightarrow> store_inv s' \<and> grows row_evolves (rows_of s) (rows_of s')"
  by (simp add: store_inv_alt rows_of_def grows_refl)

lemma queue_step_keeps:
  assumes "queue_step s s'" and "store_inv s"
  shows "store_inv s' \<and> grows row_evolves (rows_of s) (rows_of s')"
  using assms
proof cases
  case (enqueue now aid sm rk ow sc ttl ac)
  then show ?thesis using enqueue_keeps assms(2) by simp
next
  case (resolve now aid ac ow sc sha st ra rc ev en)
  then show ?thesis using resolve_keeps assms(2) by simp
next
  case (claim now wp agent ttl_minutes)
  then show ?thesis using queue_step_frame assms(2) claim_work_frame by metis
next
  case (init now profile)
  then show ?thesis using queue_step_frame assms(2) load_init_project by metis
next
  case (event now event_type risk payload)
  then show ?thesis using queue_step_frame assms(2) emit_event_frame(1) by metis
qed

interpretation queue: keyed_store queue_step store_inv rows_of row_evolves action_id_of
proof unfold_locales
  show "row_evolves r r" for r by simp
  show "row_evolves a b \<Longrightarrow> row_evolves b c \<Longrightarrow> row_evolves a c" for a b c by (rule row_evolves_trans)
  show "store_inv s \<Longrightarrow> queue_step s s' \<Longrightarrow> store_inv s'" for s s' using queue_step_keeps by blast
  show "store_inv s \<Longrightarrow> queue_step s s' \<Longrightarrow> grows row_evolves (rows_of s) (rows_of s')" for s s'
    using queue_step_keeps by blast
  show "row_evolves r r' \<Longrightarrow> action_id_of r' = action_id_of r" for r r' by (rule row_evolves_action_id)
  show "store_inv s \<Longrightarrow> distinct (map action_id_of (rows_of s))" for s by (simp add: store_inv_def)
qed

text \<open>A repository without a store file has an empty, valid store.\<close>

lemma store_inv_missing: "external_actions s = Missing \<Longrightarrow> store_inv s \<and> rows_of s = []"
  by (simp add: store_inv_def rows_of_def store_rows_def load_missing)

lemma store_invE:
  assumes "store_inv s"
  obtains data where "load_external_action_store (external_actions s) = Inr data"
    "valid_rows (store_rows data)" "store_rows data = rows_of s"
proof -
  from assms obtain data where "load_external_action_store (external_actions s) = Inr data"
    unfolding store_inv_alt by blast
  moreover from this have "store_rows data = rows_of s" by (simp add: rows_of_def)
  ultimately show thesis using that assms unfolding store_inv_alt by simp
qed


section \<open>What a valid request does\<close>

text \<open>The request as strings: every text non-blank, class and risk known, the TTL in range.\<close>

definition request_ok :: "string \<Rightarrow> string \<Rightarrow> string \<Rightarrow> string \<Rightarrow> string \<Rightarrow> int \<Rightarrow> string \<Rightarrow> bool" where
  "request_ok aid sm rk ow sc m ac \<longleftrightarrow> strip aid \<noteq> [] \<and> strip sm \<noteq> [] \<and> strip ow \<noteq> [] \<and> strip sc \<noteq> []
     \<and> rk \<in> set [''L1'', ''L2'', ''L3''] \<and> ac \<in> set [''operational_action'', ''necessary_uat'']
     \<and> 1 \<le> m \<and> m \<le> 10080"

lemma enqueue_plan_eval:
  assumes "request_ok aid sm rk ow sc m ac" and "load_external_action_store f = Inr data"
    and "valid_rows (store_rows data)"
  shows "enqueue_plan_of now (JStr aid) (JStr sm) (JStr rk) (JStr ow) (JStr sc) (JInt m) (JStr ac) f =
    (case filter (has_action_id (JStr aid)) (store_rows data) of
        [] \<Rightarrow> enqueue_new now aid sm rk ow ac sc m data
      | [r] \<Rightarrow> enqueue_existing now (JStr aid) (external_action_request_sha256 aid sm rk ow ac sc) data (dict_val r)
      | _ \<Rightarrow> Inl (ValueError (''duplicate external action state: '' @ aid)))"
proof -
  obtain risks where "mapr validate_external_action_row (store_rows data) = Inr risks"
    using mapr_validate_ok [OF assms(3)] by blast
  then show ?thesis
    using assms(1,2) unfolding enqueue_plan_of_def request_ok_def str_val.simps int_val.simps by simp
qed

lemma enqueue_creates:
  assumes inv: "store_inv s" and req: "request_ok aid sm rk ow sc m ac"
    and fresh: "JStr aid \<notin> action_id_of ` set (rows_of s)" and "now + m * us_minute < max_us"
    and new: "new = new_action now (now + m * us_minute) aid sm rk ow ac sc"
    and enq: "enq = enqueue_external_action now (JStr aid) (JStr sm) (JStr rk) (JStr ow) (JStr sc) (JInt m) (JStr ac) s"
  shows "fst enq = Inr (put ''external_action_created'' (JBool True) new)"
    and "rows_of (snd enq) = rows_of s @ [JObj new]"
proof -
  from inv obtain data where load: "load_external_action_store (external_actions s) = Inr data"
    and valid: "valid_rows (store_rows data)" and rows: "store_rows data = rows_of s"
    by (rule store_invE)
  have "filter (has_action_id (JStr aid)) (store_rows data) = []"
    using fresh unfolding rows by (force simp: filter_empty_conv has_action_id_def action_id_of_def)
  then have plan: "enqueue_plan_of now (JStr aid) (JStr sm) (JStr rk) (JStr ow) (JStr sc) (JInt m) (JStr ac)
      (external_actions s) = Inr (Create new (put ''actions'' (JArr (rows_of s @ [JObj new])) data))"
    using assms(4) by (simp add: enqueue_plan_eval [OF req load valid] enqueue_new_def add_minutes_def Let_def new rows)
  show "fst enq = Inr (put ''external_action_created'' (JBool True) new)"
    unfolding enq enqueue_external_action_def plan by simp
  show "rows_of (snd enq) = rows_of s @ [JObj new]"
    by (rule rows_of_write(1) [OF load]) (simp add: enq enqueue_external_action_def plan)
qed

lemma filter_key_one:
  assumes "store_inv s" "JObj row \<in> set (rows_of s)" "get row ''action_id'' = JStr aid"
  shows "filter (has_action_id (JStr aid)) (rows_of s) = [JObj row]"
proof -
  let ?f = "filter (has_action_id (JStr aid)) (rows_of s)"
  have "JObj row \<in> set ?f" using assms(2,3) by (simp add: has_action_id_def)
  moreover have "distinct (map action_id_of ?f)" using assms(1) by (simp add: store_inv_def distinct_map_filter)
  moreover have "\<forall>r\<in>set ?f. action_id_of r = JStr aid" by (simp add: has_action_id_def action_id_of_def)
  ultimately show ?thesis by (cases ?f rule: remdups_adj.cases) auto
qed

text \<open>The same request again, before and after the expiry of the pending row.\<close>

lemma enqueue_matched:
  assumes inv: "store_inv s" and req: "request_ok aid sm rk ow sc m ac" and "JObj row \<in> set (rows_of s)"
    and "get row ''action_id'' = JStr aid" and sha: "get row ''request_sha256'' = JStr (external_action_request_sha256 aid sm rk ow ac sc)"
    and life: "row_lifetime row = Some (c, e)"
    and enq: "enq = enqueue_external_action now (JStr aid) (JStr sm) (JStr rk) (JStr ow) (JStr sc) (JInt m) (JStr ac) s"
  shows "get row ''status'' \<noteq> JStr ''pending'' \<or> now < instant e \<Longrightarrow>
      enq = (Inr (put ''external_action_created'' (JBool False) row), s)"
    and "get row ''status'' = JStr ''pending'' \<Longrightarrow> instant e \<le> now \<Longrightarrow>
      fst enq = Inr (put ''external_action_created'' (JBool False) (expire_row now row))
      \<and> rows_of (snd enq) = replace_row (JStr aid) (expire_row now row) (rows_of s)"
proof -
  from inv obtain data where load: "load_external_action_store (external_actions s) = Inr data"
    and valid: "valid_rows (store_rows data)" and rows: "store_rows data = rows_of s"
    by (rule store_invE)
  have "row_wf row" using valid assms(3) by (auto simp: valid_rows_def rows)
  then have st: "in_strings (get row ''status'') [''pending'', ''completed'', ''cancelled'', ''expired''] = Inr True"
    by (simp add: row_wf_def in_strings_True_iff)
  have one: "filter (has_action_id (JStr aid)) (store_rows data) = [JObj row]"
    unfolding rows using filter_key_one [OF inv assms(3,4)] .
  have e: "parse_value (get row ''expires_at'') = Some e" "is_aware e"
    using life by (simp_all add: row_lifetime_def split: option.splits if_splits)
  note plan = enqueue_plan_eval [OF req load valid, of now, unfolded one, simplified]
  show "enq = (Inr (put ''external_action_created'' (JBool False) row), s)"
    if "get row ''status'' \<noteq> JStr ''pending'' \<or> now < instant e"
    using that unfolding enq enqueue_external_action_def plan enqueue_existing_def sha st by (auto simp: e)
  show "fst enq = Inr (put ''external_action_created'' (JBool False) (expire_row now row))
      \<and> rows_of (snd enq) = replace_row (JStr aid) (expire_row now row) (rows_of s)"
    if p: "get row ''status'' = JStr ''pending''" and late: "instant e \<le> now"
  proof -
    have ex: "enqueue_plan_of now (JStr aid) (JStr sm) (JStr rk) (JStr ow) (JStr sc) (JInt m) (JStr ac)
      (external_actions s) = Inr (Expire (expire_row now row)
        (put ''actions'' (JArr (replace_row (JStr aid) (expire_row now row) (rows_of s))) data))"
      unfolding plan enqueue_existing_def sha st using late by (simp add: e p Let_def rows)
    show ?thesis
      by (intro conjI rows_of_write(1) [OF load]) (simp_all add: enq enqueue_external_action_def ex)
  qed
qed

text \<open>Resolving the one pending row with the right identity, and resolving it again.\<close>

definition resolution_ok :: "string \<Rightarrow> string \<Rightarrow> string \<Rightarrow> string \<Rightarrow> digest \<Rightarrow> string \<Rightarrow> string \<Rightarrow> digest \<Rightarrow> digest \<Rightarrow> json \<Rightarrow> bool" where
  "resolution_ok aid ac ow sc sha st ra rc ev en \<longleftrightarrow> st \<in> set [''completed'', ''cancelled'']
     \<and> strip aid \<noteq> [] \<and> strip ac \<noteq> [] \<and> strip ow \<noteq> [] \<and> strip sc \<noteq> [] \<and> strip ra \<noteq> []
     \<and> is_sha256 sha \<and> is_sha256 rc \<and> is_sha256 ev \<and> is_dict en"

definition row_identity :: "obj \<Rightarrow> string \<Rightarrow> string \<Rightarrow> string \<Rightarrow> string \<Rightarrow> string \<Rightarrow> bool" where
  "row_identity row aid ac ow sc sha \<longleftrightarrow> get row ''action_id'' = JStr aid \<and> get row ''action_class'' = JStr ac
     \<and> get row ''owner'' = JStr ow \<and> get row ''scope'' = JStr sc \<and> get row ''request_sha256'' = JStr sha"

lemma resolve_plan_eval:
  assumes ok: "resolution_ok aid ac ow sc sha st ra rc ev en" and inv: "store_inv s"
    and mem: "JObj row \<in> set (rows_of s)" "get row ''action_id'' = JStr aid"
    and load: "load_external_action_store (external_actions s) = Inr data"
  shows "resolve_plan aid ac ow sc sha st ra rc ev en (external_actions s) =
    resolve_row aid ac ow sc sha st ra rc ev en data row"
proof -
  have rows: "store_rows data = rows_of s" using load by (simp add: rows_of_def)
  then obtain risks where val: "mapr validate_external_action_row (store_rows data) = Inr risks"
    using mapr_validate_ok [of "rows_of s"] inv by (auto simp: store_inv_alt)
  have one: "filter (has_action_id (JStr aid)) (store_rows data) = [JObj row]"
    unfolding rows using filter_key_one [OF inv mem] .
  show ?thesis using ok unfolding resolve_plan_def resolution_ok_def load by (simp add: val one)
qed

lemma resolve_matched:
  assumes ok: "resolution_ok aid ac ow sc sha st ra rc ev en" and inv: "store_inv s"
    and mem: "JObj row \<in> set (rows_of s)" and idn: "row_identity row aid ac ow sc sha"
    and res: "res = resolve_external_action now aid ac ow sc sha st ra rc ev en s"
  shows "get row ''status'' = JStr ''pending'' \<Longrightarrow> in_lifetime row ra \<Longrightarrow>
      new = close_row st (JStr ra) (JStr rc) (JStr ev) en row \<Longrightarrow>
      fst res = Inr (put ''state_changed'' (JBool True) new) \<and> rows_of (snd res) = replace_row (JStr aid) new (rows_of s)"
    and "get row ''status'' = JStr st \<Longrightarrow> get row ''resolution_receipt_sha256'' = JStr rc \<Longrightarrow>
      res = (Inr (put ''state_changed'' (JBool False) row), s)"
    and "get row ''status'' = JStr st \<Longrightarrow> get row ''resolution_receipt_sha256'' \<noteq> JStr rc \<Longrightarrow>
      res = (Inl (ValueError ''external action was resolved by a different receipt''), s)"
    and "get row ''status'' \<noteq> JStr st \<Longrightarrow> get row ''status'' \<noteq> JStr ''pending'' \<Longrightarrow>
      res = (Inl (ValueError ''external action is not pending''), s)"
    and "get row ''status'' = JStr ''pending'' \<Longrightarrow> \<not> in_lifetime row ra \<Longrightarrow>
      snd res = s \<and> (\<exists>m. fst res = Inl (ValueError m))"
proof -
  obtain data where load: "load_external_action_store (external_actions s) = Inr data"
    and rows: "store_rows data = rows_of s" and valid: "valid_rows (store_rows data)"
    using inv by (rule store_invE)
  have aid: "get row ''action_id'' = JStr aid" using idn by (simp add: row_identity_def)
  note plan = resolve_plan_eval [OF ok inv mem aid load]
  have ids: "get row ''action_class'' = JStr ac" "get row ''owner'' = JStr ow" "get row ''scope'' = JStr sc"
    "get row ''request_sha256'' = JStr sha" using idn by (simp_all add: row_identity_def)
  have np: "st \<noteq> ''pending''" using ok by (auto simp: resolution_ok_def)
  have "row_wf row" using valid mem by (auto simp: valid_rows_def rows)
  then obtain c e where life: "row_lifetime row = Some (c, e)" by (auto simp: row_wf_def)
  then have ce: "parse_value (get row ''created_at'') = Some c" "parse_value (get row ''expires_at'') = Some e"
    "is_aware c" "is_aware e"
    by (simp_all add: row_lifetime_def split: option.splits if_splits)
  note eval = res resolve_external_action_def plan resolve_row_def
  show "res = (Inr (put ''state_changed'' (JBool False) row), s)"
    if "get row ''status'' = JStr st" "get row ''resolution_receipt_sha256'' = JStr rc"
    unfolding eval using that by (simp add: ids)
  show "res = (Inl (ValueError ''external action was resolved by a different receipt''), s)"
    if "get row ''status'' = JStr st" "get row ''resolution_receipt_sha256'' \<noteq> JStr rc"
    unfolding eval using that by (simp add: ids)
  show "res = (Inl (ValueError ''external action is not pending''), s)"
    if "get row ''status'' \<noteq> JStr st" "get row ''status'' \<noteq> JStr ''pending''"
    unfolding eval using that by (simp add: ids)
  show "snd res = s \<and> (\<exists>m. fst res = Inl (ValueError m))"
    if "get row ''status'' = JStr ''pending''" "\<not> in_lifetime row ra"
    unfolding eval using that np by (auto simp: ids ce in_lifetime_def life require_def split: option.splits)
  show "fst res = Inr (put ''state_changed'' (JBool True) new) \<and> rows_of (snd res) = replace_row (JStr aid) new (rows_of s)"
    if p: "get row ''status'' = JStr ''pending''" and t: "in_lifetime row ra"
      and new: "new = close_row st (JStr ra) (JStr rc) (JStr ev) en row"
  proof -
    have r: "resolve_row aid ac ow sc sha st ra rc ev en data row = Inr (new, Some (str_val (get row ''risk_level''),
        put ''actions'' (JArr (replace_row (JStr aid) new (rows_of s))) data))"
      unfolding resolve_row_def new close_row_def using p t np
      by (simp add: ids ce in_lifetime_def life rows Let_def split: option.splits)
    show ?thesis
      by (intro conjI rows_of_write(1) [OF load]) (simp_all add: res resolve_external_action_def plan r)
  qed
qed


section \<open>Properties of the queue\<close>

text \<open>A directory in which nothing was initialised yet, for the concrete instances.\<close>

definition fresh_repo :: repo where
  "fresh_repo = \<lparr>project_json = Missing, work_claims = Missing, external_actions = Missing,
     decisions_json = Missing, approvers_json = Missing, reviewers_json = Missing, events = None\<rparr>"

lemma fresh_repo_store [simp]: "store_inv fresh_repo" "rows_of fresh_repo = []"
  using store_inv_missing [of fresh_repo] by (simp_all add: fresh_repo_def)

lemma max_us_num: "max_us = 315537897600000000"
  by (simp add: max_us_def)

lemma new_action_fields [simp]:
  "get (new_action now e aid sm rk ow ac sc) ''status'' = JStr ''pending''"
  "get (new_action now e aid sm rk ow ac sc) ''action_id'' = JStr aid"
  "get (new_action now e aid sm rk ow ac sc) ''request_sha256'' = JStr (external_action_request_sha256 aid sm rk ow ac sc)"
  "get (new_action now e aid sm rk ow ac sc) ''created_at'' = JStr (stamp now)"
  "get (new_action now e aid sm rk ow ac sc) ''expires_at'' = JStr (stamp e)"
  by (simp_all add: new_action_def)

text \<open>
  The check that guards every store access accepts exactly the declaratively
  well-formed rows: all base fields present, no unknown field, known status, class and risk,
  aware timestamps with a positive lifetime, the request digest over the identity fields, and
  resolution proof exactly for the terminal statuses. Everything else raises.
\<close>

theorem validate_row_exact:
  "(\<exists>risk. validate_external_action_row v = Inr risk) \<longleftrightarrow> (\<exists>row. v = JObj row \<and> row_wf row)"
  by (simp add: validate_external_action_row_ok)

text \<open>
  From a repository without an action store, whatever sequence of enqueue, resolve,
  claim, init and event operations runs, with whatever arguments, failed calls included:
  the store always loads, every row passes validation, and no two rows share an action ID.
\<close>

theorem queue_always_valid:
  assumes "external_actions s = Missing" and "queue_step\<^sup>*\<^sup>* s s'"
  shows "store_inv s'"
  using queue.reachable_inv [OF assms(2)] store_inv_missing [OF assms(1)] by blast

lemma one_action_reachable:
  "queue_step\<^sup>*\<^sup>* fresh_repo (snd (enqueue_external_action 0 (JStr ''deploy'') (JStr ''s'') (JStr ''L3'')
     (JStr ''o'') (JStr ''c'') (JInt 5) (JStr ''operational_action'') fresh_repo))"
  using queue_step.enqueue [of 0 fresh_repo] by blast

text \<open>The one-row store that the concrete instances below start from.\<close>

definition sample_repo :: repo where
  "sample_repo = snd (enqueue_external_action 0 (JStr ''deploy'') (JStr ''s'') (JStr ''L3'') (JStr ''o'') (JStr ''c'')
     (JInt 5) (JStr ''operational_action'') fresh_repo)"

definition sample_row :: obj where
  "sample_row = new_action 0 (5 * us_minute) ''deploy'' ''s'' ''L3'' ''o'' ''operational_action'' ''c''"

lemma sample_request: "request_ok ''deploy'' ''s'' ''L3'' ''o'' ''c'' 5 ''operational_action''"
  by (simp add: request_ok_def strip_eq_Nil_iff is_space_def)

lemma sample_rows: "rows_of sample_repo = [JObj sample_row]"
  using enqueue_creates(2) [OF fresh_repo_store(1) sample_request, where now = 0]
  by (simp add: sample_repo_def sample_row_def us_defs max_us_num)

lemma sample_reachable: "queue_step\<^sup>*\<^sup>* fresh_repo sample_repo"
  using one_action_reachable by (simp add: sample_repo_def)

lemma sample_inv: "store_inv sample_repo"
  using queue.reachable_inv [OF sample_reachable] by simp

theorem queue_always_valid_witness: "store_inv sample_repo \<and> rows_of sample_repo \<noteq> []"
  using queue_always_valid [of fresh_repo sample_repo] sample_reachable sample_rows
  by (simp add: fresh_repo_def)

text \<open>
  C31. The life cycle of an external action over any history: the row found under an ID
  later is the row found before, or that row was pending and is now completed, cancelled or
  expired with every identity field (summary, risk, owner, class, scope, creation, expiry,
  request digest, authorization scope) unchanged. A row that was already terminal is
  unchanged in every field, and the number of rows never shrinks.
\<close>

theorem queue_life_cycle:
  assumes "store_inv s" and "queue_step\<^sup>*\<^sup>* s s'" and "r \<in> set (rows_of s)"
    and "r' \<in> set (rows_of s')" and "action_id_of r' = action_id_of r"
  shows "r' = r \<or> (get (dict_val r) ''status'' = JStr ''pending''
      \<and> str_in (get (dict_val r') ''status'') [''completed'', ''cancelled'', ''expired'']
      \<and> (\<forall>k\<in>set external_action_base_fields. k \<noteq> ''status'' \<longrightarrow> get (dict_val r') k = get (dict_val r) k))"
  using queue.reachable_key [OF assms(2,1,3,4,5)] by (simp add: row_evolves_def)

theorem queue_life_cycle_witness:
  "JObj sample_row \<in> set (rows_of sample_repo)
   \<and> (JObj sample_row = JObj sample_row \<or> get (dict_val (JObj sample_row)) ''status'' = JStr ''pending'')"
  using queue_life_cycle [OF sample_inv, of sample_repo "JObj sample_row" "JObj sample_row"]
  by (simp add: sample_rows)

text \<open>
  Enqueueing is idempotent: after a fresh request was queued, the same request at any
  later time before its expiry (the TTL may differ) reports the stored row with
  \<open>external_action_created\<close> false and changes neither the store nor the event log.
\<close>

theorem enqueue_idempotent:
  assumes "store_inv s" and "request_ok aid sm rk ow sc m ac" and "request_ok aid sm rk ow sc m' ac"
    and "JStr aid \<notin> action_id_of ` set (rows_of s)"
    and "0 \<le> now" and "now + m * us_minute < max_us" and "now' + us_second \<le> now + m * us_minute"
    and "s' = snd (enqueue_external_action now (JStr aid) (JStr sm) (JStr rk) (JStr ow) (JStr sc) (JInt m) (JStr ac) s)"
  shows "enqueue_external_action now' (JStr aid) (JStr sm) (JStr rk) (JStr ow) (JStr sc) (JInt m') (JStr ac) s' =
    (Inr (put ''external_action_created'' (JBool False) (new_action now (now + m * us_minute) aid sm rk ow ac sc)), s')"
proof -
  let ?new = "new_action now (now + m * us_minute) aid sm rk ow ac sc"
  have rows: "rows_of s' = rows_of s @ [JObj ?new]"
    using enqueue_creates(2) [OF assms(1,2,4,6) refl] assms(8) by simp
  have inv: "store_inv s'" using enqueue_keeps [OF assms(5,1)] assms(8) by blast
  have "1 \<le> m" using assms(2) by (simp add: request_ok_def)
  then have life: "row_lifetime ?new = Some (DT (now - now mod us_second) (Some 0),
      DT (now + m * us_minute - (now + m * us_minute) mod us_second) (Some 0))"
    by (intro row_lifetime_new [OF assms(5) _ assms(6)]) simp_all
  have "(now + m * us_minute) mod us_second < us_second" by (simp add: us_defs)
  then have "now' < instant (DT (now + m * us_minute - (now + m * us_minute) mod us_second) (Some 0))"
    using assms(7) by simp
  then show ?thesis
    using enqueue_matched(1) [OF inv assms(3) _ _ _ life] rows by simp
qed

theorem enqueue_idempotent_witness:
  "enqueue_external_action 60000000 (JStr ''deploy'') (JStr ''s'') (JStr ''L3'') (JStr ''o'') (JStr ''c'')
     (JInt 9) (JStr ''operational_action'') sample_repo =
   (Inr (put ''external_action_created'' (JBool False) sample_row), sample_repo)"
proof -
  have "request_ok ''deploy'' ''s'' ''L3'' ''o'' ''c'' 9 ''operational_action''"
    by (simp add: request_ok_def strip_eq_Nil_iff is_space_def)
  then show ?thesis
    using enqueue_idempotent [OF fresh_repo_store(1) sample_request, where now = 0 and now' = 60000000 and m' = 9]
    by (simp add: sample_repo_def sample_row_def us_defs max_us_num)
qed

text \<open>
  A pending action whose expiry has passed is closed as expired by the next identical
  request, is returned as such, and stays expired: no later operation reopens or resolves it.
\<close>

theorem enqueue_expires_for_good:
  assumes "store_inv s" and "request_ok aid sm rk ow sc m ac" and "JObj row \<in> set (rows_of s)"
    and "get row ''action_id'' = JStr aid" and "get row ''status'' = JStr ''pending''"
    and "get row ''request_sha256'' = JStr (external_action_request_sha256 aid sm rk ow ac sc)"
    and "row_lifetime row = Some (c, e)" and "instant e \<le> now" and "0 \<le> now"
    and "enq = enqueue_external_action now (JStr aid) (JStr sm) (JStr rk) (JStr ow) (JStr sc) (JInt m) (JStr ac) s"
    and "queue_step\<^sup>*\<^sup>* (snd enq) s''" and "r \<in> set (rows_of s'')" and "action_id_of r = JStr aid"
  shows "fst enq = Inr (put ''external_action_created'' (JBool False) (expire_row now row))
    \<and> r = JObj (expire_row now row) \<and> get (dict_val r) ''status'' = JStr ''expired''"
proof -
  have enq: "fst enq = Inr (put ''external_action_created'' (JBool False) (expire_row now row))"
    "rows_of (snd enq) = replace_row (JStr aid) (expire_row now row) (rows_of s)"
    using enqueue_matched(2) [OF assms(1-4,6,7,10,5,8)] by auto
  have inv: "store_inv (snd enq)" using enqueue_keeps [OF assms(9,1)] assms(10) by blast
  have mem: "JObj (expire_row now row) \<in> set (rows_of (snd enq))"
    unfolding enq(2) replace_row_def using assms(3,4) by (auto simp: has_action_id_def image_iff intro!: bexI [of _ "JObj row"])
  have st: "get (expire_row now row) ''status'' = JStr ''expired''" "get (expire_row now row) ''action_id'' = JStr aid"
    using assms(4) by (simp_all add: expire_row_close get_close_row)
  have "row_evolves (JObj (expire_row now row)) r"
    using queue.reachable_key [OF assms(11) inv mem assms(12)] assms(13) st(2) by (simp add: action_id_of_def)
  then have "r = JObj (expire_row now row)" by (rule row_evolves_terminal) (simp add: st)
  then show ?thesis using enq(1) st(1) by simp
qed

lemma sample_lifetime:
  "row_lifetime sample_row = Some (DT 0 (Some 0), DT 300000000 (Some 0))"
  using row_lifetime_new [of 0 5 sample_row] by (simp add: sample_row_def us_defs max_us_num)

lemma sample_row_fields: "get sample_row ''status'' = JStr ''pending''" "get sample_row ''action_id'' = JStr ''deploy''"
  "get sample_row ''request_sha256'' =
     JStr (external_action_request_sha256 ''deploy'' ''s'' ''L3'' ''o'' ''operational_action'' ''c'')"
  by (simp_all add: sample_row_def)

theorem enqueue_expires_for_good_witness:
  "fst (enqueue_external_action 300000000 (JStr ''deploy'') (JStr ''s'') (JStr ''L3'') (JStr ''o'') (JStr ''c'')
     (JInt 5) (JStr ''operational_action'') sample_repo)
   = Inr (put ''external_action_created'' (JBool False) (expire_row 300000000 sample_row))"
proof -
  let ?enq = "enqueue_external_action 300000000 (JStr ''deploy'') (JStr ''s'') (JStr ''L3'') (JStr ''o'') (JStr ''c'')
     (JInt 5) (JStr ''operational_action'') sample_repo"
  have mem: "JObj sample_row \<in> set (rows_of sample_repo)" by (simp add: sample_rows)
  have late: "instant (DT 300000000 (Some 0)) \<le> (300000000 :: int)" by simp
  have "rows_of (snd ?enq) = replace_row (JStr ''deploy'') (expire_row 300000000 sample_row) (rows_of sample_repo)"
    using enqueue_matched(2) [OF sample_inv sample_request mem sample_row_fields(2,3) sample_lifetime refl
        sample_row_fields(1) late] by simp
  then have rows: "rows_of (snd ?enq) = [JObj (expire_row 300000000 sample_row)]"
    by (simp add: sample_rows replace_row_def has_action_id_def sample_row_fields)
  have aid: "action_id_of (JObj (expire_row 300000000 sample_row)) = JStr ''deploy''"
    by (simp add: action_id_of_def expire_row_close get_close_row sample_row_fields)
  show ?thesis
    using enqueue_expires_for_good [OF sample_inv sample_request mem sample_row_fields(2,1,3) sample_lifetime late _ refl,
        of "snd ?enq" "JObj (expire_row 300000000 sample_row)"] rows aid by simp
qed

text \<open>
  A resolution closes a pending action exactly once: with the right identity and a
  time inside the lifetime the row gets the signed terminal status; repeating it with the same
  status and receipt reports \<open>state_changed\<close> false and writes nothing; a different receipt,
  or the other terminal status, is refused and writes nothing.
\<close>

theorem resolve_exactly_once:
  assumes "resolution_ok aid ac ow sc sha st ra rc ev en" and "resolution_ok aid ac ow sc sha st' ra' rc' ev' en'"
    and "store_inv s" and "JObj row \<in> set (rows_of s)" and "row_identity row aid ac ow sc sha"
    and "get row ''status'' = JStr ''pending''" and "in_lifetime row ra"
    and "new = close_row st (JStr ra) (JStr rc) (JStr ev) en row"
    and "first = resolve_external_action now aid ac ow sc sha st ra rc ev en s"
    and "second = resolve_external_action now' aid ac ow sc sha st' ra' rc' ev' en' (snd first)"
  shows "fst first = Inr (put ''state_changed'' (JBool True) new) \<and> JObj new \<in> set (rows_of (snd first))
    \<and> snd second = snd first
    \<and> fst second =
       (if st' \<noteq> st then Inl (ValueError ''external action is not pending'')
        else if rc' \<noteq> rc then Inl (ValueError ''external action was resolved by a different receipt'')
        else Inr (put ''state_changed'' (JBool False) new))"
proof -
  have aid: "get row ''action_id'' = JStr aid" using assms(5) by (simp add: row_identity_def)
  have one: "fst first = Inr (put ''state_changed'' (JBool True) new)"
    "rows_of (snd first) = replace_row (JStr aid) new (rows_of s)"
    using resolve_matched(1) [OF assms(1,3-5,9,6,7,8)] by auto
  have mem: "JObj new \<in> set (rows_of (snd first))"
    unfolding one(2) replace_row_def using assms(4) aid
    by (auto simp: has_action_id_def image_iff intro!: bexI [of _ "JObj row"])
  have inv: "store_inv (snd first)" using resolve_keeps [OF assms(3)] assms(9) by blast
  have idn: "row_identity new aid ac ow sc sha"
    using assms(5) by (simp add: row_identity_def assms(8) get_close_row)
  have st: "get new ''status'' = JStr st" "get new ''resolution_receipt_sha256'' = JStr rc"
    by (simp_all add: assms(8) get_close_row)
  have np: "st \<noteq> ''pending''" using assms(1) by (auto simp: resolution_ok_def)
  note again = resolve_matched(2-4) [OF assms(2) inv mem idn assms(10)]
  consider "st' \<noteq> st" | "st' = st" "rc' \<noteq> rc" | "st' = st" "rc' = rc" by blast
  then have "snd second = snd first \<and> fst second =
       (if st' \<noteq> st then Inl (ValueError ''external action is not pending'')
        else if rc' \<noteq> rc then Inl (ValueError ''external action was resolved by a different receipt'')
        else Inr (put ''state_changed'' (JBool False) new))"
    by cases (use again st np in \<open>simp_all\<close>)
  then show ?thesis using one(1) mem by blast
qed

definition sample_sha :: string where
  "sample_sha = external_action_request_sha256 ''deploy'' ''s'' ''L3'' ''o'' ''operational_action'' ''c''"

definition sample_receipt :: string where
  "sample_receipt = sha256_hex ''receipt''"

lemma request_sha256_is_sha256 [simp]: "is_sha256 (external_action_request_sha256 a b c d e f)"
  by (simp add: external_action_request_sha256_def)

lemma sample_resolution:
  "st \<in> set [''completed'', ''cancelled''] \<Longrightarrow>
   resolution_ok ''deploy'' ''operational_action'' ''o'' ''c'' sample_sha st (stamp 60000000)
     sample_receipt sample_receipt (JObj [])"
  using stamp_nonblank [of 60000000]
  by (simp add: resolution_ok_def sample_sha_def sample_receipt_def strip_eq_Nil_iff is_space_def)

lemma sample_in_lifetime: "in_lifetime sample_row (stamp 60000000)"
  by (simp add: in_lifetime_def sample_lifetime parse_stamp_stamp us_defs max_us_num is_aware_def)

theorem resolve_exactly_once_witness:
  "fst (resolve_external_action 1 ''deploy'' ''operational_action'' ''o'' ''c'' sample_sha ''cancelled''
      (stamp 60000000) sample_receipt sample_receipt (JObj [])
     (snd (resolve_external_action 0 ''deploy'' ''operational_action'' ''o'' ''c'' sample_sha ''completed''
      (stamp 60000000) sample_receipt sample_receipt (JObj []) sample_repo)))
   = Inl (ValueError ''external action is not pending'')"
proof -
  have idn: "row_identity sample_row ''deploy'' ''operational_action'' ''o'' ''c'' sample_sha"
    by (simp add: row_identity_def sample_row_def sample_sha_def new_action_def)
  have "JObj sample_row \<in> set (rows_of sample_repo)" by (simp add: sample_rows)
  then show ?thesis
    using resolve_exactly_once [OF sample_resolution [of "''completed''"] sample_resolution [of "''cancelled''"]
        sample_inv _ idn sample_row_fields(1) sample_in_lifetime refl refl refl, of 0 1]
    by simp
qed



end
