(* ===== verification/Work_Claims.thy ===== *)
theory Work_Claims
  imports Action_Queue
begin

text \<open>
  Work claims of \<open>governance.py\<close>: an agent claims a work package for at most a day. The
  document invariant (well-formed rows, one row per work package), the exact condition under
  which \<open>claim_work\<close> grants a claim, exclusivity until the expiry over any history of
  operations, the counts \<open>project_status\<close> reports, and the lost update that the missing
  lock allows.
\<close>

section \<open>Well-formed claim documents\<close>

definition claim_row_wf :: "json \<Rightarrow> bool" where
  "claim_row_wf r \<longleftrightarrow> (\<exists>row d. r = JObj row \<and> has_key row ''work_package'' \<and> has_key row ''status''
     \<and> has_key row ''expires_at'' \<and> parse_value (get row ''expires_at'') = Some d \<and> is_aware d)"

definition claim_rows :: "repo \<Rightarrow> json list" where
  "claim_rows s = (case work_claims s of Doc v \<Rightarrow> list_val (get (dict_val v) ''claims'') | _ \<Rightarrow> [])"

definition package_of :: "json \<Rightarrow> json" where
  "package_of r = get (dict_val r) ''work_package''"

definition expiry_of :: "json \<Rightarrow> int" where
  "expiry_of r = (case parse_value (get (dict_val r) ''expires_at'') of Some d \<Rightarrow> instant d | None \<Rightarrow> 0)"

definition active_at :: "int \<Rightarrow> json \<Rightarrow> bool" where
  "active_at now r \<longleftrightarrow> now < expiry_of r \<and> get (dict_val r) ''status'' = JStr ''active''"

text \<open>The document is absent or has a list of well-formed claims with distinct packages.\<close>

definition claims_inv :: "repo \<Rightarrow> bool" where
  "claims_inv s \<longleftrightarrow> (work_claims s = Missing \<or>
       (\<exists>d. work_claims s = Doc (JObj d) \<and> has_key d ''claims'' \<and> is_list (get d ''claims'')))
     \<and> (\<forall>r\<in>set (claim_rows s). claim_row_wf r) \<and> distinct (map package_of (claim_rows s))"

lemma has_key_item: "has_key d k \<Longrightarrow> map_of d k = Some (get d k)"
  by (auto simp: has_key_map_of get_def)

lemma claim_expiry_wf: "claim_row_wf r \<Longrightarrow> \<exists>d. claim_expiry r = Inr d \<and> is_aware d \<and> expiry_of r = instant d"
proof -
  assume "claim_row_wf r"
  then obtain row d where r: "r = JObj row" "has_key row ''expires_at''"
    and d: "parse_value (get row ''expires_at'') = Some d" "is_aware d"
    unfolding claim_row_wf_def by blast
  from d(1) obtain t where "get row ''expires_at'' = JStr t" "parse_stamp t = Some d"
    by (cases "get row ''expires_at''") simp_all
  then show ?thesis using r d by (simp add: claim_expiry_def has_key_item expiry_of_def)
qed

lemma claim_is_active_wf: "claim_row_wf r \<Longrightarrow> claim_is_active now r = Inr (active_at now r)"
proof -
  assume wf: "claim_row_wf r"
  then obtain d where d: "claim_expiry r = Inr d" "is_aware d" "expiry_of r = instant d"
    using claim_expiry_wf by blast
  from wf obtain row where "r = JObj row" "has_key row ''status''" unfolding claim_row_wf_def by blast
  then show ?thesis using d by (simp add: claim_is_active_def after_now_def active_at_def has_key_item)
qed

lemma claims_package_wf: "claim_row_wf r \<Longrightarrow> claims_package wp r = Inr (package_of r = JStr wp)"
  unfolding claim_row_wf_def by (elim exE conjE) (simp add: claims_package_def has_key_item package_of_def)


section \<open>Granting a claim\<close>

lemma claims_inv_read:
  assumes "claims_inv s"
  obtains d where "read_file (work_claims s) (JObj [(''schema_version'', JStr ''1.0''), (''claims'', JArr [])]) = Inr (JObj d)"
    "item (JObj d) ''claims'' = Inr (JArr (claim_rows s))" "has_key d ''claims''"
proof -
  from assms consider "work_claims s = Missing"
    | d where "work_claims s = Doc (JObj d)" "has_key d ''claims''" "is_list (get d ''claims'')"
    unfolding claims_inv_def by blast
  then show thesis
  proof cases
    case 1
    then show thesis using that [of "[(''schema_version'', JStr ''1.0''), (''claims'', JArr [])]"]
      by (simp add: read_file_def claim_rows_def)
  next
    case (2 d)
    then show thesis using that [of d] by (auto simp: read_file_def claim_rows_def has_key_item is_list_conv)
  qed
qed

text \<open>On a well-formed document the whole operation is one conditional.\<close>

lemma claim_work_plan_eval:
  assumes inv: "claims_inv s"
  obtains d where "has_key d ''claims''" "claim_work_plan now wp agent m (work_claims s) =
    (if \<not> (1 \<le> m \<and> m \<le> 1440) then Inl (ValueError ''ttl_minutes must be between 1 and 1440'')
     else if \<exists>r\<in>set (claim_rows s). active_at now r \<and> package_of r = JStr wp
     then Inl (ValueError (''work package already has an active claim: '' @ wp))
     else if max_us \<le> now + m * us_minute then Inl (OverflowError ''date value out of range'')
     else Inr (new_claim now wp agent (now + m * us_minute),
       put ''claims'' (JArr (filter (active_at now) (claim_rows s) @
         [JObj (new_claim now wp agent (now + m * us_minute))])) d))"
proof -
  obtain d where d: "read_file (work_claims s) (JObj [(''schema_version'', JStr ''1.0''), (''claims'', JArr [])]) = Inr (JObj d)"
    "item (JObj d) ''claims'' = Inr (JArr (claim_rows s))" "has_key d ''claims''"
    using inv by (rule claims_inv_read)
  have wf: "claim_row_wf r" if "r \<in> set (claim_rows s)" for r using inv that by (simp add: claims_inv_def)
  have act: "filterr (claim_is_active now) (claim_rows s) = Inr (filter (active_at now) (claim_rows s))"
    by (rule filterr_total) (simp add: wf claim_is_active_wf)
  have tak: "anyr (claims_package wp) (filter (active_at now) (claim_rows s)) =
      Inr (\<exists>r\<in>set (filter (active_at now) (claim_rows s)). package_of r = JStr wp)"
    by (rule anyr_total) (simp add: wf claims_package_wf)
  show thesis
    by (rule that [OF d(3)], simp add: claim_work_plan_def d(1,2) act tak require_def add_minutes_def Let_def
        del: item.simps bex_simps) blast
qed

lemma claim_rows_write [simp]:
  "claim_rows (snd (emit_event now t r p (s\<lparr>work_claims := Doc (JObj (put ''claims'' (JArr rows) d))\<rparr>))) = rows"
  by (simp add: claim_rows_def)

lemma claim_row_wf_new:
  assumes "0 \<le> now" "now < max_us"
  shows "claim_row_wf (JObj (new_claim t wp agent now))"
    and "expiry_of (JObj (new_claim t wp agent now)) = now - now mod us_second"
  using parse_stamp_stamp [OF assms]
  by (simp_all add: claim_row_wf_def new_claim_def expiry_of_def is_aware_def)

lemma claim_work_cases:
  assumes inv: "claims_inv s" and "0 \<le> now"
  obtains (refused) e where "claim_work now wp agent m s = (Inl e, s)"
      "\<not> (1 \<le> m \<and> m \<le> 1440) \<or> max_us \<le> now + m * us_minute
        \<or> (\<exists>r\<in>set (claim_rows s). active_at now r \<and> package_of r = JStr wp)"
  | (granted) new where "new = new_claim now wp agent (now + m * us_minute)" "1 \<le> m" "m \<le> 1440"
      "now + m * us_minute < max_us" "\<not> (\<exists>r\<in>set (claim_rows s). active_at now r \<and> package_of r = JStr wp)"
      "fst (claim_work now wp agent m s) = Inr (JObj new)"
      "claim_rows (snd (claim_work now wp agent m s)) = filter (active_at now) (claim_rows s) @ [JObj new]"
      "claims_inv (snd (claim_work now wp agent m s))"
proof -
  obtain d where d: "has_key d ''claims''" and plan: "claim_work_plan now wp agent m (work_claims s) =
    (if \<not> (1 \<le> m \<and> m \<le> 1440) then Inl (ValueError ''ttl_minutes must be between 1 and 1440'')
     else if \<exists>r\<in>set (claim_rows s). active_at now r \<and> package_of r = JStr wp
     then Inl (ValueError (''work package already has an active claim: '' @ wp))
     else if max_us \<le> now + m * us_minute then Inl (OverflowError ''date value out of range'')
     else Inr (new_claim now wp agent (now + m * us_minute),
       put ''claims'' (JArr (filter (active_at now) (claim_rows s) @
         [JObj (new_claim now wp agent (now + m * us_minute))])) d))"
    using inv by (rule claim_work_plan_eval)
  let ?new = "new_claim now wp agent (now + m * us_minute)"
  show thesis
  proof (cases "(1 \<le> m \<and> m \<le> 1440) \<and> \<not> (\<exists>r\<in>set (claim_rows s). active_at now r \<and> package_of r = JStr wp)
      \<and> now + m * us_minute < max_us")
    case False
    then consider "\<not> (1 \<le> m \<and> m \<le> 1440)" | "\<exists>r\<in>set (claim_rows s). active_at now r \<and> package_of r = JStr wp"
      | "max_us \<le> now + m * us_minute" by fastforce
    then have "\<exists>e. claim_work_plan now wp agent m (work_claims s) = Inl e"
      unfolding plan by cases (simp_all del: bex_simps)
    then obtain e where "claim_work_plan now wp agent m (work_claims s) = Inl e" by blast
    then have "claim_work now wp agent m s = (Inl e, s)" by (simp add: claim_work_def)
    then show thesis using refused False by fastforce
  next
    case True
    let ?rows = "filter (active_at now) (claim_rows s) @ [JObj ?new]"
    have p: "claim_work_plan now wp agent m (work_claims s) = Inr (?new, put ''claims'' (JArr ?rows) d)"
      using True unfolding plan by (simp del: bex_simps)
    have rows: "claim_rows (snd (claim_work now wp agent m s)) = ?rows" by (simp add: claim_work_def p)
    have "0 \<le> now + m * us_minute" using True assms(2) by (simp add: us_defs)
    then have new: "claim_row_wf (JObj ?new)" using True by (intro claim_row_wf_new) simp_all
    have "package_of (JObj ?new) = JStr wp" by (simp add: package_of_def new_claim_def)
    then have "package_of (JObj ?new) \<notin> package_of ` set (filter (active_at now) (claim_rows s))"
      using True by auto
    then have "claims_inv (snd (claim_work now wp agent m s))"
      using inv new unfolding claims_inv_def rows by (auto simp: claim_work_def p distinct_map_filter)
    then show thesis using granted [OF refl] True rows by (simp add: claim_work_def p del: bex_simps)
  qed
qed

lemma claims_inv_cong: "work_claims s' = work_claims s \<Longrightarrow> claims_inv s' = claims_inv s"
  by (simp add: claims_inv_def claim_rows_def)

lemma claim_rows_cong: "work_claims s' = work_claims s \<Longrightarrow> claim_rows s' = claim_rows s"
  by (simp add: claim_rows_def)

section \<open>Histories\<close>

text \<open>Operations of the governance module that run before a time \<open>T\<close>.\<close>

inductive step_before :: "int \<Rightarrow> repo \<Rightarrow> repo \<Rightarrow> bool" for T :: int where
  claim: "0 \<le> now \<Longrightarrow> now < T \<Longrightarrow> step_before T s (snd (claim_work now wp agent m s))"
| enqueue: "step_before T s (snd (enqueue_external_action now aid sm rk ow sc ttl ac s))"
| resolve: "step_before T s (snd (resolve_external_action now aid ac ow sc sha st ra rc ev en s))"
| event: "step_before T s (snd (emit_event now event_type risk payload s))"

lemma enqueue_frame: "work_claims (snd (enqueue_external_action now aid sm rk ow sc ttl ac s)) = work_claims s"
  by (simp add: enqueue_external_action_def split: sum.splits enqueue_plan.splits)

lemma resolve_frame: "work_claims (snd (resolve_external_action now aid ac ow sc sha st ra rc ev en s)) = work_claims s"
  by (simp add: resolve_external_action_def split: sum.splits prod.splits option.splits)

text \<open>Rows that are active until \<open>T\<close> at least stay in the document, in order.\<close>

definition held_rows :: "int \<Rightarrow> repo \<Rightarrow> json list" where
  "held_rows T s = filter (\<lambda>r. T \<le> expiry_of r \<and> get (dict_val r) ''status'' = JStr ''active'') (claim_rows s)"

lemma step_before_frame:
  assumes "work_claims s' = work_claims s" and "claims_inv s"
  shows "claims_inv s' \<and> grows (=) (held_rows T s) (held_rows T s')"
proof -
  have "held_rows T s' = held_rows T s" unfolding held_rows_def claim_rows_cong [OF assms(1)] ..
  then show ?thesis using assms(2) claims_inv_cong [OF assms(1)] by (simp add: grows_refl)
qed

lemma step_before_keeps:
  assumes "step_before T s s'" and inv: "claims_inv s"
  shows "claims_inv s' \<and> grows (=) (held_rows T s) (held_rows T s')"
  using assms(1)
proof cases
  case (claim now wp agent m)
  show ?thesis
  proof (rule claim_work_cases [OF inv claim(2), where wp = wp and agent = agent and m = m])
    fix e assume "claim_work now wp agent m s = (Inl e, s)"
    then show ?thesis using claim inv by (simp add: grows_refl)
  next
    fix new
    assume rows: "claim_rows (snd (claim_work now wp agent m s)) = filter (active_at now) (claim_rows s) @ [JObj new]"
      and inv': "claims_inv (snd (claim_work now wp agent m s))"
    have "filter (\<lambda>r. T \<le> expiry_of r \<and> get (dict_val r) ''status'' = JStr ''active'') (filter (active_at now) (claim_rows s))
        = held_rows T s"
      unfolding held_rows_def filter_filter using claim(3) by (intro filter_cong) (auto simp: active_at_def)
    then show ?thesis
      using inv' claim(1) unfolding grows_eq_prefix by (simp add: held_rows_def rows)
  qed
next
  case (enqueue now aid sm rk ow sc ttl ac)
  then have "work_claims s' = work_claims s" by (simp add: enqueue_frame)
  then show ?thesis using inv by (rule step_before_frame)
next
  case (resolve now aid ac ow sc sha st ra rc ev en)
  then have "work_claims s' = work_claims s" by (simp add: resolve_frame)
  then show ?thesis using inv by (rule step_before_frame)
next
  case (event now event_type risk payload)
  then have "work_claims s' = work_claims s" by simp
  then show ?thesis using inv by (rule step_before_frame)
qed

interpretation claims: evolving_store "step_before T" claims_inv "held_rows T" "(=)" for T
proof unfold_locales
  show "claims_inv s \<Longrightarrow> step_before T s s' \<Longrightarrow> claims_inv s'" for s s' using step_before_keeps by blast
  show "claims_inv s \<Longrightarrow> step_before T s s' \<Longrightarrow> grows (=) (held_rows T s) (held_rows T s')" for s s'
    using step_before_keeps by blast
qed simp_all

lemma active_held: "now < T \<Longrightarrow> r \<in> set (held_rows T s) \<Longrightarrow> r \<in> set (claim_rows s) \<and> active_at now r"
  by (auto simp: held_rows_def active_at_def)

lemma claim_work_taken:
  assumes "claims_inv s" "1 \<le> m" "m \<le> 1440" "r \<in> set (claim_rows s)" "active_at now r" "package_of r = JStr wp"
  shows "claim_work now wp agent m s = (Inl (ValueError (''work package already has an active claim: '' @ wp)), s)"
proof -
  obtain d where plan: "claim_work_plan now wp agent m (work_claims s) =
    (if \<not> (1 \<le> m \<and> m \<le> 1440) then Inl (ValueError ''ttl_minutes must be between 1 and 1440'')
     else if \<exists>r\<in>set (claim_rows s). active_at now r \<and> package_of r = JStr wp
     then Inl (ValueError (''work package already has an active claim: '' @ wp))
     else if max_us \<le> now + m * us_minute then Inl (OverflowError ''date value out of range'')
     else Inr (new_claim now wp agent (now + m * us_minute),
       put ''claims'' (JArr (filter (active_at now) (claim_rows s) @
         [JObj (new_claim now wp agent (now + m * us_minute))])) d))"
    using assms(1) by (rule claim_work_plan_eval)
  have "\<exists>r\<in>set (claim_rows s). active_at now r \<and> package_of r = JStr wp" using assms(4-6) by blast
  then have "claim_work_plan now wp agent m (work_claims s) =
      Inl (ValueError (''work package already has an active claim: '' @ wp))"
    using assms(2,3) unfolding plan by (simp del: bex_simps)
  then show ?thesis by (simp add: claim_work_def)
qed


section \<open>Properties of work claims\<close>

lemma fresh_repo_claims [simp]: "claims_inv fresh_repo" "claim_rows fresh_repo = []"
  by (simp_all add: claims_inv_def claim_rows_def fresh_repo_def)

text \<open>
  \<open>claim_work\<close> on a well-formed document: it grants exactly when the TTL is 1 to 1440
  minutes, no unexpired active claim exists for the package and the expiry is representable;
  the new document is the unexpired claims followed by the new one. Otherwise the exact error,
  and nothing is written. The invariant (well-formed rows, one per package) is kept.
\<close>

theorem claim_work_exact:
  assumes "claims_inv s" and "0 \<le> now"
  shows "claims_inv (snd (claim_work now wp agent m s))
    \<and> (if 1 \<le> m \<and> m \<le> 1440 \<and> now + m * us_minute < max_us
          \<and> (\<forall>r\<in>set (claim_rows s). active_at now r \<longrightarrow> package_of r \<noteq> JStr wp)
       then fst (claim_work now wp agent m s) = Inr (JObj (new_claim now wp agent (now + m * us_minute)))
         \<and> claim_rows (snd (claim_work now wp agent m s)) =
             filter (active_at now) (claim_rows s) @ [JObj (new_claim now wp agent (now + m * us_minute))]
       else (\<exists>e. claim_work now wp agent m s = (Inl e, s)))"
proof (rule claim_work_cases [OF assms, where wp = wp and agent = agent and m = m])
  fix e
  assume "claim_work now wp agent m s = (Inl e, s)" "\<not> (1 \<le> m \<and> m \<le> 1440) \<or> max_us \<le> now + m * us_minute
        \<or> (\<exists>r\<in>set (claim_rows s). active_at now r \<and> package_of r = JStr wp)"
  then show ?thesis using assms(1) by auto
qed auto

definition claimed_repo :: repo where
  "claimed_repo = snd (claim_work 0 ''wp-1'' ''alice'' 60 fresh_repo)"

theorem claim_work_exact_witness:
  "claims_inv claimed_repo \<and> claim_rows claimed_repo = [JObj (new_claim 0 ''wp-1'' ''alice'' 3600000000)]"
  using claim_work_exact [OF fresh_repo_claims(1), of 0 "''wp-1''" "''alice''" 60]
  by (simp add: claimed_repo_def us_defs max_us_num)



text \<open>
  \<open>claim_work\<close> reads, decides and writes without holding a lock. Two agents that read
  the same document for the same package are both granted the claim whenever one of them is,
  and whichever writes last replaces the other's row: both callers were told they hold the
  package, and the final document names one of them only.
\<close>

theorem claim_work_lost_update:
  assumes "claim_work_plan now wp a m f = Inr (c, d)"
  shows "\<exists>c' d'. claim_work_plan now wp b m f = Inr (c', d')
    \<and> get c ''agent'' = JStr a \<and> get c' ''agent'' = JStr b
    \<and> (a \<noteq> b \<longrightarrow> last (list_val (get d' ''claims'')) = JObj c'
         \<and> length (list_val (get d' ''claims'')) = length (list_val (get d ''claims''))
         \<and> c \<noteq> c')"
proof -
  from assms obtain data rows active e where
    "1 \<le> m \<and> m \<le> 1440" and r: "read_file f (JObj [(''schema_version'', JStr ''1.0''), (''claims'', JArr [])]) = Inr data"
    and "rbind (item data ''claims'') iter_items = Inr rows" and act: "filterr (claim_is_active now) rows = Inr active"
    and tk: "anyr (claims_package wp) active = Inr False" and e: "add_minutes now m = Inr e"
    and cd: "c = new_claim now wp a e" "d = put ''claims'' (JArr (active @ [JObj c])) (dict_val data)"
    unfolding claim_work_plan_def by (auto elim!: resultE simp: Let_def)
  then have "claim_work_plan now wp b m f = Inr (new_claim now wp b e,
      put ''claims'' (JArr (active @ [JObj (new_claim now wp b e)])) (dict_val data))"
    unfolding claim_work_plan_def by (auto elim!: rbind_InrE simp: Let_def)
  then show ?thesis by (auto simp: cd new_claim_def)
qed

theorem claim_work_lost_update_witness:
  "\<exists>c' d'. claim_work_plan 0 ''wp-1'' ''bob'' 60 Missing = Inr (c', d')
     \<and> get c' ''agent'' = JStr ''bob'' \<and> last (list_val (get d' ''claims'')) = JObj c'"
proof -
  have "claim_work_plan 0 ''wp-1'' ''alice'' 60 Missing = Inr (new_claim 0 ''wp-1'' ''alice'' 3600000000,
      put ''claims'' (JArr [JObj (new_claim 0 ''wp-1'' ''alice'' 3600000000)]) [(''schema_version'', JStr ''1.0''), (''claims'', JArr [])])"
    by (simp add: claim_work_plan_def read_file_def add_minutes_def us_defs max_us_num Let_def)
  from claim_work_lost_update [OF this, of "''bob''"] show ?thesis by auto
qed

section \<open>The status report\<close>

text \<open>The action list as the report reads it: the raw document, not the validated store.\<close>

lemma store_inv_raw:
  assumes "store_inv s"
  shows "rbind (read_file (external_actions s) (JObj [(''actions'', JArr [])])) (\<lambda>v. item v ''actions'') = Inr (JArr (rows_of s))"
proof (cases "external_actions s")
  case Missing
  then show ?thesis using store_inv_missing [of s] by (simp add: read_file_def)
next
  case Malformed
  then show ?thesis using assms by (simp add: store_inv_def load_external_action_store_def read_file_def)
next
  case (Doc v)
  let ?legacy = "JObj [(''schema_version'', JStr ''1.0''), (''actions'', JArr [])]"
  obtain d where load: "load_external_action_store (Doc v) = Inr d" using assms Doc by (auto simp: store_inv_def)
  have rows: "rows_of s = store_rows d" by (simp add: rows_of_def Doc load)
  show ?thesis
  proof (cases "py_eq v ?legacy")
    case True
    then obtain o1 where v: "v = JObj o1" by (cases v) simp_all
    from True have keys: "''actions'' \<in> set (map fst o1)"
      and all: "\<forall>kv\<in>set o1. case map_of [(''schema_version'', JStr ''1.0''), (''actions'', JArr [])] (fst kv) of
          None \<Rightarrow> False | Some w \<Rightarrow> py_eq (snd kv) w"
      unfolding v py_eq.simps(1) by auto
    obtain w where w: "map_of o1 ''actions'' = Some w" using keys by (metis map_of_eq_None_iff not_None_eq list.set_map)
    then have "py_eq w (JArr [])" using all map_of_SomeD [OF w] by fastforce
    then have "w = JArr []" by (cases w) (simp_all add: py_eq.simps)
    moreover have "rows_of s = []"
      using True load unfolding rows by (auto simp: load_external_action_store_def read_file_def store_rows_def)
    ultimately show ?thesis using v w by (simp add: Doc read_file_def)
  next
    case False
    have v: "v = JObj d"
      using load False by (cases v) (simp_all add: load_external_action_store_def read_file_def split: if_splits)
    have "store_doc d" by (rule load_store_doc [OF load])
    then show ?thesis unfolding rows store_doc_def
      by (auto simp: Doc v read_file_def store_rows_def is_list_conv dest!: keys_eq_has_key [where k = "''actions''"]
          simp: has_key_item)
  qed
qed

lemma count_claims_wf:
  assumes "\<forall>r\<in>set rows. claim_row_wf r"
  shows "count_claims now rows (a, e) = Inr (a + length (filter (active_at now) rows),
    e + length (filter (\<lambda>r. expiry_of r \<le> now \<and> get (dict_val r) ''status'' = JStr ''active'') rows))"
  using assms
proof (induction rows arbitrary: a e)
  case Nil
  then show ?case by simp
next
  case (Cons r rows)
  then have wf: "claim_row_wf r" by simp
  then obtain d where d: "claim_expiry r = Inr d" "is_aware d" "expiry_of r = instant d" using claim_expiry_wf by blast
  from wf have it: "item r ''status'' = Inr (get (dict_val r) ''status'')"
    unfolding claim_row_wf_def by (elim exE conjE) (simp add: has_key_item)
  have af: "after_now now d = Inr (now < expiry_of r)" by (simp add: after_now_def d)
  have "\<forall>r\<in>set rows. claim_row_wf r" using Cons.prems by simp
  note ih = Cons.IH [OF this]
  show ?case
    by (cases "get (dict_val r) ''status'' = JStr ''active''"; cases "now < expiry_of r")
      (simp_all add: d(1) it af ih active_at_def)
qed

lemma filterr_pending: "valid_rows rows \<Longrightarrow>
  filterr is_pending rows = Inr (filter (\<lambda>r. get (dict_val r) ''status'' = JStr ''pending'') rows)"
proof (rule filterr_total)
  fix r assume "valid_rows rows" "r \<in> set rows"
  then obtain row where "r = JObj row" "row_wf row" by (auto simp: valid_rows_def)
  then show "is_pending r = Inr (get (dict_val r) ''status'' = JStr ''pending'')"
    by (simp add: is_pending_def row_wf_def field_defs has_key_item)
qed

text \<open>
  The status report of an initialised repository whose stores satisfy their
  invariants: the number of active claims that have not expired, of active claims that have,
  of pending external actions, of recorded decisions and of event lines.
\<close>

theorem project_status_counts:
  assumes "claims_inv s" and "store_inv s"
    and "project_json s = Doc (JObj p)" and "map_of p ''governance_version'' = Some v" and "map_of p ''profile'' = Some pr"
    and "decisions_json s = Doc (JObj dd)" and "map_of dd ''decisions'' = Some (JArr ds)"
  shows "project_status now s = Inr [(''governance_version'', v), (''profile'', pr),
     (''active_claims'', JInt (int (length (filter (active_at now) (claim_rows s))))),
     (''expired_claims'', JInt (int (length (filter (\<lambda>r. expiry_of r \<le> now \<and>
        get (dict_val r) ''status'' = JStr ''active'') (claim_rows s))))),
     (''pending_external_actions'', JInt (int (length (filter (\<lambda>r. get (dict_val r) ''status'' = JStr ''pending'') (rows_of s))))),
     (''recorded_decisions'', JInt (int (length ds))),
     (''event_count'', JInt (int (event_count (events s))))]"
proof -
  have claims: "rbind (read_file (work_claims s) (JObj [(''claims'', JArr [])])) (\<lambda>v. item v ''claims'') = Inr (JArr (claim_rows s))"
  proof (cases "work_claims s")
    case (Doc v)
    then show ?thesis using assms(1)
      by (auto simp: claims_inv_def read_file_def claim_rows_def has_key_item is_list_conv)
  qed (use assms(1) in \<open>simp_all add: claims_inv_def read_file_def claim_rows_def\<close>)
  have wf: "\<forall>r\<in>set (claim_rows s). claim_row_wf r" using assms(1) by (simp add: claims_inv_def)
  have vr: "valid_rows (rows_of s)" using assms(2) by (simp add: store_inv_alt)
  show ?thesis
    unfolding project_status_def claims store_inv_raw [OF assms(2)]
    by (simp add: assms(3-7) read_file_def count_claims_wf [OF wf] filterr_pending [OF vr])
qed

definition status_repo :: repo where
  "status_repo = claimed_repo\<lparr>project_json := Doc (JObj [(''governance_version'', JStr ''0.2.0rc1''), (''profile'', JStr ''solo-fast'')]),
     decisions_json := Doc (JObj [(''decisions'', JArr [])])\<rparr>"

theorem project_status_counts_witness:
  "\<exists>n. project_status 0 status_repo = Inr [(''governance_version'', JStr ''0.2.0rc1''), (''profile'', JStr ''solo-fast''),
     (''active_claims'', JInt 1), (''expired_claims'', JInt 0), (''pending_external_actions'', JInt 0),
     (''recorded_decisions'', JInt 0), (''event_count'', JInt n)]"
proof -
  have rows: "claim_rows status_repo = [JObj (new_claim 0 ''wp-1'' ''alice'' 3600000000)]" "claims_inv status_repo"
    using claim_work_cases [OF fresh_repo_claims(1), of 0 "''wp-1''" "''alice''" 60]
      claims_inv_cong [of status_repo claimed_repo] claim_rows_cong [of status_repo claimed_repo]
    by (simp_all add: status_repo_def claimed_repo_def us_defs max_us_num)
  have miss: "external_actions status_repo = Missing"
    by (simp add: status_repo_def claimed_repo_def claim_work_frame fresh_repo_def)
  have exp: "expiry_of (JObj (new_claim 0 ''wp-1'' ''alice'' 3600000000)) = 3600000000"
    by (simp add: claim_row_wf_new us_defs max_us_num)
  have act: "get (new_claim 0 ''wp-1'' ''alice'' 3600000000) ''status'' = JStr ''active''" by (simp add: new_claim_def)
  show ?thesis
    using project_status_counts [OF rows(2), where now = 0] store_inv_missing [OF miss]
    by (simp add: rows(1) active_at_def exp act) (simp add: status_repo_def)
qed

text \<open>
  The report overcounts events: \<open>events.jsonl\<close> is written with
  \<open>ensure_ascii=False\<close>, so U+0085 stays in the text, and \<open>str.splitlines\<close> breaks lines
  there. One recorded event whose payload names the agent \<open>a<U+0085>b\<close> is reported as two.
\<close>

theorem event_count_overcounts:
  "event_count (events (snd (emit_event 0 ''work_claimed'' ''L0''
     [(''agent'', JStr [CHR ''a'', CHR 0x85, CHR ''b''])] fresh_repo))) = 2
   \<and> length (the (events (snd (emit_event 0 ''work_claimed'' ''L0''
     [(''agent'', JStr [CHR ''a'', CHR 0x85, CHR ''b''])] fresh_repo)))) = 1"
  by code_simp

end
