(* ===== verification/Json_Text.thy ===== *)
theory Json_Text
  imports Py_Json
begin

text \<open>
  The text side of JSON: \<open>bytes.decode("utf-8")\<close>, \<open>json.loads\<close> with an
  \<open>object_pairs_hook\<close>, and the strict hook \<open>_reject_duplicate_json_object\<close> of
  \<open>autonomy.py\<close> and \<open>trust.py\<close>. Reading back the canonical rendering of a value gives
  that value with the members of its objects in key order.

  Numbers with a fraction or an exponent, and code points above U+00FF, are outside the
  model: the reader rejects them.
\<close>


section \<open>UTF-8\<close>

fun utf8_decode :: "string \<Rightarrow> string option" where
  "utf8_decode [] = Some []"
| "utf8_decode (b # bs) = (let n = of_char b :: nat in
     if n < 128 then map_option ((#) b) (utf8_decode bs)
     else if n = 194 \<or> n = 195
     then (case bs of
             [] \<Rightarrow> None
           | c # cs \<Rightarrow> (let m = of_char c :: nat in
               if 128 \<le> m \<and> m < 192
               then map_option ((#) (char_of ((n - 192) * 64 + (m - 128)))) (utf8_decode cs)
               else None))
     else None)"

lemma div64_range: "(n::nat) < 256 \<Longrightarrow> \<not> n < 128 \<Longrightarrow> 192 + n div 64 = 194 \<or> 192 + n div 64 = 195"
  using less_mult_imp_div_less [of n 4 64] div_le_mono [of 128 n 64] by simp linarith

lemma utf8_char_decode: "utf8_decode (utf8_char c @ s) = map_option ((#) c) (utf8_decode s)"
proof -
  let ?n = "of_char c :: nat"
  have lt: "?n < 256" by simp
  show ?thesis
  proof (cases "?n < 128")
    case True
    then show ?thesis by (simp add: utf8_char_def Let_def)
  next
    case False
    then have hi: "192 + ?n div 64 = 194 \<or> 192 + ?n div 64 = 195" using lt by (intro div64_range)
    have a: "of_char (char_of (192 + ?n div 64) :: char) = 192 + ?n div 64"
      using hi by auto
    have b: "of_char (char_of (128 + ?n mod 64) :: char) = 128 + ?n mod 64" by simp
    have "(192 + ?n div 64 - 192) * 64 + (128 + ?n mod 64 - 128) = ?n" by simp
    then show ?thesis using False hi unfolding utf8_char_def
      by (simp add: Let_def a b del: of_char_of)
  qed
qed

lemma utf8_decode_utf8 [simp]: "utf8_decode (utf8 s) = Some s"
  by (induction s) (simp_all add: utf8_def utf8_char_decode)


section \<open>The reader\<close>

definition is_json_space :: "char \<Rightarrow> bool" where
  "is_json_space c \<longleftrightarrow> c \<in> set [CHR 0x20, CHR 0x09, CHR 0x0A, CHR 0x0D]"

definition skip_ws :: "string \<Rightarrow> string" where
  "skip_ws s = dropWhile is_json_space s"

definition hex_val :: "char \<Rightarrow> nat option" where
  "hex_val c = (let n = of_char c :: nat in
     if 48 \<le> n \<and> n \<le> 57 then Some (n - 48)
     else if 97 \<le> n \<and> n \<le> 102 then Some (n - 87)
     else if 65 \<le> n \<and> n \<le> 70 then Some (n - 55) else None)"

definition hex4_val :: "char \<Rightarrow> char \<Rightarrow> char \<Rightarrow> char \<Rightarrow> nat option" where
  "hex4_val a b c d = (case (hex_val a, hex_val b, hex_val c, hex_val d) of
     (Some w, Some x, Some y, Some z) \<Rightarrow> Some (((w * 16 + x) * 16 + y) * 16 + z) | _ \<Rightarrow> None)"

definition simple_escape :: "char \<Rightarrow> char option" where
  "simple_escape e =
     (if e = CHR 0x22 then Some (CHR 0x22) else if e = CHR 0x5C then Some (CHR 0x5C)
      else if e = CHR ''/'' then Some (CHR ''/'') else if e = CHR ''b'' then Some (CHR 0x08)
      else if e = CHR ''f'' then Some (CHR 0x0C) else if e = CHR ''n'' then Some (CHR 0x0A)
      else if e = CHR ''r'' then Some (CHR 0x0D) else if e = CHR ''t'' then Some (CHR 0x09) else None)"

definition decode_error :: "string \<Rightarrow> exn" where
  "decode_error m = ValueError m"

text \<open>The body of a string after its opening quote (\<open>strict\<close>: no raw control characters).\<close>

fun read_string :: "string \<Rightarrow> string \<Rightarrow> (string \<times> string) result" where
  "read_string acc [] = Inl (decode_error ''Unterminated string'')"
| "read_string acc (c # cs) =
     (if c = CHR 0x22 then Inr (rev acc, cs)
      else if c = CHR 0x5C
      then (case cs of
              [] \<Rightarrow> Inl (decode_error ''Unterminated string'')
            | e # r \<Rightarrow>
                (if e = CHR ''u''
                 then (case r of
                         a # b # x # y # r' \<Rightarrow>
                           (case hex4_val a b x y of
                              Some n \<Rightarrow> (if n < 256 then read_string (char_of n # acc) r'
                                          else Inl (decode_error ''code point outside the model''))
                            | None \<Rightarrow> Inl (decode_error ''Invalid escape''))
                       | _ \<Rightarrow> Inl (decode_error ''Invalid escape''))
                 else (case simple_escape e of
                         Some x \<Rightarrow> read_string (x # acc) r
                       | None \<Rightarrow> Inl (decode_error ''Invalid escape''))))
      else if (of_char c :: nat) < 32 then Inl (decode_error ''Invalid control character'')
      else read_string (c # acc) cs)"

definition digits_val :: "string \<Rightarrow> nat" where
  "digits_val ds = foldl (\<lambda>n c. 10 * n + digit_val c) 0 ds"

text \<open>The digits of an integer literal: a single zero, or no leading zero.\<close>

definition read_nat :: "string \<Rightarrow> (nat \<times> string) result" where
  "read_nat s = (let ds = takeWhile is_digit s in
     if ds = [] then Inl (decode_error ''Expecting value'')
     else if hd ds = CHR ''0'' then Inr (0, tl s)
     else Inr (digits_val ds, dropWhile is_digit s))"

text \<open>A fraction or an exponent would make the literal a \<open>float\<close>.\<close>

definition starts_float :: "string \<Rightarrow> bool" where
  "starts_float s = (case s of
     c # d # r \<Rightarrow> c = CHR ''.'' \<and> is_digit d
       \<or> (c = CHR ''e'' \<or> c = CHR ''E'') \<and> (is_digit d \<or> (d = CHR ''+'' \<or> d = CHR ''-'') \<and> r \<noteq> [] \<and> is_digit (hd r))
   | _ \<Rightarrow> False)"

definition read_int :: "string \<Rightarrow> (json \<times> string) result" where
  "read_int s = (let neg = (s \<noteq> [] \<and> hd s = CHR ''-'') in
     rbind (read_nat (if neg then tl s else s)) (\<lambda>(n, r).
     require (\<not> starts_float r) (decode_error ''float outside the model'')
       (Inr (JInt (if neg then - int n else int n), r))))"

type_synonym pairs_hook = "(string \<times> json) list \<Rightarrow> obj result"

text \<open>
  One value, the members of an object up to its closing brace, and the elements of an array
  up to its closing bracket. The first argument bounds the number of nested calls.
\<close>

fun scan :: "pairs_hook \<Rightarrow> nat \<Rightarrow> string \<Rightarrow> (json \<times> string) result"
  and scan_members :: "pairs_hook \<Rightarrow> nat \<Rightarrow> string \<Rightarrow> (obj \<times> string) result"
  and scan_elements :: "pairs_hook \<Rightarrow> nat \<Rightarrow> string \<Rightarrow> (json list \<times> string) result"
where
  "scan hook 0 s = Inl (decode_error ''nesting'')"
| "scan hook (Suc n) s = (case s of
     [] \<Rightarrow> Inl (decode_error ''Expecting value'')
   | c # cs \<Rightarrow>
       if c = CHR 0x22 then rbind (read_string [] cs) (\<lambda>(t, r). Inr (JStr t, r))
       else if c = CHR 0x7B
       then (case skip_ws cs of
               d # r \<Rightarrow> (if d = CHR 0x7D then rbind (hook []) (\<lambda>m. Inr (JObj m, r))
                          else rbind (scan_members hook n (d # r)) (\<lambda>(ps, r').
                               rbind (hook ps) (\<lambda>m. Inr (JObj m, r'))))
             | [] \<Rightarrow> Inl (decode_error ''Expecting property name enclosed in double quotes''))
       else if c = CHR ''[''
       then (case skip_ws cs of
               d # r \<Rightarrow> (if d = CHR '']'' then Inr (JArr [], r)
                          else rbind (scan_elements hook n (d # r)) (\<lambda>(xs, r'). Inr (JArr xs, r')))
             | [] \<Rightarrow> Inl (decode_error ''Expecting value''))
       else if starts_with ''null'' s then Inr (JNull, drop 4 s)
       else if starts_with ''true'' s then Inr (JBool True, drop 4 s)
       else if starts_with ''false'' s then Inr (JBool False, drop 5 s)
       else read_int s)"
| "scan_members hook 0 s = Inl (decode_error ''nesting'')"
| "scan_members hook (Suc n) s =
     require (s \<noteq> [] \<and> hd s = CHR 0x22) (decode_error ''Expecting property name enclosed in double quotes'')
     (rbind (read_string [] (tl s)) (\<lambda>(k, r).
      let r1 = skip_ws r in
      require (r1 \<noteq> [] \<and> hd r1 = CHR '':'') (decode_error ''Expecting : delimiter'')
      (rbind (scan hook n (skip_ws (tl r1))) (\<lambda>(v, r2).
       case skip_ws r2 of
         d # r3 \<Rightarrow> (if d = CHR 0x7D then Inr ([(k, v)], r3)
                     else if d = CHR '',''
                     then rbind (scan_members hook n (skip_ws r3)) (\<lambda>(ps, r4). Inr ((k, v) # ps, r4))
                     else Inl (decode_error ''Expecting , delimiter''))
       | [] \<Rightarrow> Inl (decode_error ''Expecting , delimiter'')))))"
| "scan_elements hook 0 s = Inl (decode_error ''nesting'')"
| "scan_elements hook (Suc n) s =
     rbind (scan hook n s) (\<lambda>(v, r).
       case skip_ws r of
         d # r1 \<Rightarrow> (if d = CHR '']'' then Inr ([v], r1)
                     else if d = CHR '',''
                     then rbind (scan_elements hook n (skip_ws r1)) (\<lambda>(vs, r2). Inr (v # vs, r2))
                     else Inl (decode_error ''Expecting , delimiter''))
       | [] \<Rightarrow> Inl (decode_error ''Expecting , delimiter''))"

text \<open>\<open>json.loads(text, object_pairs_hook=hook)\<close>: one value with white space around it.\<close>

definition loads :: "pairs_hook \<Rightarrow> string \<Rightarrow> json result" where
  "loads hook s = rbind (scan hook (2 * length s + 2) (skip_ws s)) (\<lambda>(v, r).
     require (skip_ws r = []) (decode_error ''Extra data'') (Inr v))"

text \<open>The default hook: the last of several members with one name wins.\<close>

definition dict_of_pairs :: pairs_hook where
  "dict_of_pairs ps = Inr (fold (\<lambda>(k, v) d. put k v d) ps [])"

text \<open>\<open>raw.decode("utf-8")\<close> and \<open>json.loads\<close>.\<close>

definition decode_utf8 :: "string \<Rightarrow> string result" where
  "decode_utf8 raw = of_option (UnicodeDecodeError ''invalid start byte'') (utf8_decode raw)"

definition loads_bytes :: "string \<Rightarrow> json result" where
  "loads_bytes raw = rbind (decode_utf8 raw) (loads dict_of_pairs)"

text \<open>\<open>_reject_duplicate_json_object\<close>: the loop adds one member at a time.\<close>

fun reject_duplicates_from :: "obj \<Rightarrow> (string \<times> json) list \<Rightarrow> obj result" where
  "reject_duplicates_from value [] = Inr value"
| "reject_duplicates_from value ((key, member) # ps) =
     (if has_key value key then Inl (ValueError (''JSON object contains duplicate member: '' @ key))
      else reject_duplicates_from (put key member value) ps)"

definition reject_duplicate_json_object :: pairs_hook where
  "reject_duplicate_json_object pairs = reject_duplicates_from [] pairs"

text \<open>\<open>_load_unique_json_bytes\<close>. Decoding errors are \<open>ValueError\<close>s of two library classes.\<close>

definition load_unique_json_bytes :: "string \<Rightarrow> string \<Rightarrow> json result" where
  "load_unique_json_bytes raw label = (case utf8_decode raw of
     None \<Rightarrow> Inl (ValueError (label @ '' must contain UTF-8 JSON''))
   | Some text \<Rightarrow>
       (case loads reject_duplicate_json_object text of
          Inr v \<Rightarrow> Inr v
        | Inl e \<Rightarrow>
            (if starts_with ''JSON object contains duplicate member: '' (exn_text e) then Inl e
             else Inl (ValueError (label @ '' must contain UTF-8 JSON'')))))"


section \<open>Reading back what was printed\<close>

text \<open>The value with the members of every object in key order, as the canonical rendering prints it.\<close>

function canon :: "json \<Rightarrow> json" where
  "canon JNull = JNull"
| "canon (JBool b) = JBool b"
| "canon (JInt i) = JInt i"
| "canon (JStr s) = JStr s"
| "canon (JArr xs) = JArr (map canon xs)"
| "canon (JObj d) = JObj (sort_key fst (map (\<lambda>kv. (fst kv, canon (snd kv))) d))"
  by pat_completeness auto
termination
  by (relation "measure size") (auto dest!: size_json_obj simp: size_json_arr less_Suc_eq_le size_list_estimation')

lemma insort_key_map: "insort_key f (g x) (map g xs) = map g (insort_key (f \<circ> g) x xs)"
  by (induction xs) auto

lemma sort_key_map: "sort_key f (map g xs) = map g (sort_key (f \<circ> g) xs)"
  by (induction xs) (simp_all add: insort_key_map comp_def)

lemma sort_key_keep: "sort_key fst (map (\<lambda>kv. (fst kv, g kv)) d) = map (\<lambda>kv. (fst kv, g kv)) (sort_key fst d)"
  by (simp add: sort_key_map comp_def)

definition member_text :: "string \<times> json \<Rightarrow> string" where
  "member_text kv = dump_str (fst kv) @ '':'' @ dumps (snd kv)"

lemma dumps_JObj: "dumps (JObj d) = CHR 0x7B # join '','' (map member_text (sort_key fst d)) @ [CHR 0x7D]"
proof -
  have "member_text = (\<lambda>kv. dump_str (fst kv) @ '':'' @ dumps (snd kv))" by (simp add: fun_eq_iff member_text_def)
  then show ?thesis by (simp add: sort_key_keep comp_def)
qed

lemma canon_JObj: "canon (JObj d) = JObj (map (\<lambda>kv. (fst kv, canon (snd kv))) (sort_key fst d))"
  by (simp add: sort_key_keep)

text \<open>Strings.\<close>

lemma hex_val_digit: "d < 16 \<Longrightarrow> hex_val (''0123456789abcdef'' ! d) = Some d"
proof -
  assume "d < 16"
  then have "d = 0 \<or> d = 1 \<or> d = 2 \<or> d = 3 \<or> d = 4 \<or> d = 5 \<or> d = 6 \<or> d = 7 \<or> d = 8 \<or> d = 9
    \<or> d = 10 \<or> d = 11 \<or> d = 12 \<or> d = 13 \<or> d = 14 \<or> d = 15" by arith
  then show ?thesis by (elim disjE) (simp_all add: hex_val_def)
qed

lemma hex4_val_hex4: "n < 32 \<Longrightarrow> hex4_val (CHR ''0'') (CHR ''0'') (''0123456789abcdef'' ! (n div 16))
    (''0123456789abcdef'' ! (n mod 16)) = Some n"
proof -
  assume n: "n < 32"
  have "hex_val (CHR ''0'') = Some 0" by (simp add: hex_val_def)
  moreover have lt: "n div 16 < 16" "n mod 16 < 16" using n by (simp_all add: less_mult_imp_div_less)
  moreover have "n div 16 * 16 + n mod 16 = n" by simp
  ultimately show ?thesis by (simp add: hex4_val_def hex_val_digit)
qed

lemma escape_char_cases:
  obtains (simple) e x where "escape_char c = [CHR 0x5C, e]" "simple_escape e = Some c" "e \<noteq> CHR ''u''"
  | (unicode) "escape_char c = [CHR 0x5C, CHR ''u''] @ hex4 (of_char c)" "(of_char c :: nat) < 32"
  | (plain) "escape_char c = [c]" "c \<noteq> CHR 0x22" "c \<noteq> CHR 0x5C" "\<not> (of_char c :: nat) < 32"
proof -
  consider "c = CHR 0x22" | "c = CHR 0x5C" | "c = CHR 0x08" | "c = CHR 0x0C" | "c = CHR 0x0A" | "c = CHR 0x0D"
    | "c = CHR 0x09" | (u) "c \<notin> {CHR 0x22, CHR 0x5C, CHR 0x08, CHR 0x0C, CHR 0x0A, CHR 0x0D, CHR 0x09}" "(of_char c :: nat) < 32"
    | (p) "c \<notin> {CHR 0x22, CHR 0x5C, CHR 0x08, CHR 0x0C, CHR 0x0A, CHR 0x0D, CHR 0x09}" "\<not> (of_char c :: nat) < 32"
    by blast
  then show thesis
  proof cases
    case u
    then show thesis by (intro unicode) (simp_all add: escape_char_def)
  next
    case p
    then show thesis by (intro plain) (simp_all add: escape_char_def)
  qed (rule simple, simp add: escape_char_def, simp_all add: simple_escape_def)+
qed

lemma read_string_escape: "read_string acc (escape_char c @ s) = read_string (c # acc) s"
proof (cases c rule: escape_char_cases)
  case unicode
  then show ?thesis by (simp add: hex4_def hex4_val_hex4)
qed simp_all

lemma read_string_dump: "read_string acc (concat (map escape_char t) @ CHR 0x22 # rest) = Inr (rev acc @ t, rest)"
  by (induction t arbitrary: acc) (simp_all add: read_string_escape)

text \<open>Integers.\<close>

lemma show_nat_digits: "list_all is_digit (show_nat n)"
proof (induction n rule: show_nat.induct)
  case (1 n)
  then show ?case by (subst show_nat.simps) auto
qed

lemma show_nat_nonempty: "show_nat n \<noteq> []"
  by (subst show_nat.simps) simp

lemma digits_val_show_nat: "digits_val (show_nat n) = n"
proof (induction n rule: show_nat.induct)
  case (1 n)
  show ?case
  proof (cases "n < 10")
    case True
    then show ?thesis by (subst show_nat.simps) (simp add: digits_val_def)
  next
    case False
    then have "digits_val (show_nat (n div 10)) = n div 10" using 1 by blast
    then show ?thesis using False by (subst show_nat.simps) (simp add: digits_val_def)
  qed
qed

lemma digit_char_zero: "d < 10 \<Longrightarrow> digit_char d = CHR ''0'' \<Longrightarrow> d = 0"
  using digit_val_digit_char [of d] by (simp add: digit_val_def)

lemma hd_show_nat_zero: "hd (show_nat n) = CHR ''0'' \<Longrightarrow> n = 0"
proof (induction n rule: show_nat.induct)
  case (1 n)
  show ?case
  proof (cases "n < 10")
    case True
    then show ?thesis using 1(2) digit_char_zero [of n] by (simp add: show_nat.simps [of n])
  next
    case False
    then have "hd (show_nat (n div 10)) = CHR ''0''"
      using 1(2) show_nat_nonempty [of "n div 10"] by (simp add: show_nat.simps [of n])
    then have "n div 10 = 0" using 1(1) False by blast
    then show ?thesis using False by (simp add: div_eq_0_iff)
  qed
qed

definition stops :: "string \<Rightarrow> bool" where
  "stops r \<longleftrightarrow> r = [] \<or> (\<not> is_digit (hd r) \<and> hd r \<noteq> CHR ''.'' \<and> hd r \<noteq> CHR ''e'' \<and> hd r \<noteq> CHR ''E'')"

lemma read_nat_show: "stops r \<Longrightarrow> read_nat (show_nat n @ r) = Inr (n, r)"
proof -
  assume r: "stops r"
  have all: "\<forall>c\<in>set (show_nat n). is_digit c" using show_nat_digits [of n] by (simp add: list_all_iff)
  have "takeWhile is_digit r = []" "dropWhile is_digit r = r" using r by (cases r; auto simp: stops_def)+
  then have tw: "takeWhile is_digit (show_nat n @ r) = show_nat n" "dropWhile is_digit (show_nat n @ r) = r"
    using all by (simp_all add: takeWhile_append2 dropWhile_append2)
  show ?thesis
  proof (cases "hd (show_nat n) = CHR ''0''")
    case True
    then have n: "n = 0" by (rule hd_show_nat_zero)
    then show ?thesis using tw by (simp add: read_nat_def n show_nat.simps digit_char_def Let_def)
  next
    case False
    then show ?thesis using tw show_nat_nonempty [of n] by (simp add: read_nat_def digits_val_show_nat Let_def)
  qed
qed

lemma is_digit_not_minus: "is_digit c \<Longrightarrow> c \<noteq> CHR ''-''"
  by (auto simp: is_digit_def)

lemma hd_show_nat_digit: "is_digit (hd (show_nat n))"
  using show_nat_digits [of n] show_nat_nonempty [of n] by (cases "show_nat n") auto

lemma stops_not_float: "stops r \<Longrightarrow> \<not> starts_float r"
  by (auto simp: stops_def starts_float_def split: list.splits)

lemma read_int_show: "stops r \<Longrightarrow> read_int (show_int i @ r) = Inr (JInt i, r)"
  using hd_show_nat_digit [of "nat i"] show_nat_nonempty [of "nat i"]
  by (auto simp: read_int_def show_int_def read_nat_show Let_def stops_not_float dest: is_digit_not_minus)

text \<open>The first character of a rendered value.\<close>

definition value_start :: "char \<Rightarrow> bool" where
  "value_start c \<longleftrightarrow> c \<in> set [CHR 0x22, CHR 0x7B, CHR ''['', CHR ''n'', CHR ''t'', CHR ''f'', CHR ''-''] \<or> is_digit c"

lemma dumps_start: "\<exists>c cs. dumps v = c # cs \<and> value_start c"
proof (cases v)
  case (JInt i)
  show ?thesis
    using hd_show_nat_digit [of "nat i"] show_nat_nonempty [of "nat i"]
    by (cases "i < 0"; cases "show_nat (nat i)") (simp_all add: JInt show_int_def value_start_def)
qed (simp_all add: value_start_def dump_str_def)

lemma value_start_facts: "value_start c \<Longrightarrow> \<not> is_json_space c \<and> c \<noteq> CHR '']'' \<and> c \<noteq> CHR 0x7D"
  unfolding value_start_def is_json_space_def is_digit_def by (elim disjE) auto

lemma skip_ws_dumps [simp]: "skip_ws (dumps v @ r) = dumps v @ r"
  using dumps_start [of v] value_start_facts by (auto simp: skip_ws_def)

lemma skip_ws_nonspace: "s \<noteq> [] \<Longrightarrow> \<not> is_json_space (hd s) \<Longrightarrow> skip_ws s = s"
  by (cases s) (simp_all add: skip_ws_def)

lemma skip_ws_Cons [simp]:
  "skip_ws (CHR '','' # s) = CHR '','' # s" "skip_ws (CHR 0x7D # s) = CHR 0x7D # s"
  "skip_ws (CHR '']'' # s) = CHR '']'' # s" "skip_ws (CHR '':'' # s) = CHR '':'' # s"
  "skip_ws (CHR 0x22 # s) = CHR 0x22 # s"
  by (simp_all add: skip_ws_def is_json_space_def)

lemma stops_Cons [simp]: "stops (CHR '','' # s)" "stops (CHR 0x7D # s)" "stops (CHR '']'' # s)" "stops (CHR 0x0A # s)" "stops []"
  by (simp_all add: stops_def is_digit_def)

text \<open>A value is read back whenever what follows it cannot continue a number.\<close>

definition reads_back :: "pairs_hook \<Rightarrow> json \<Rightarrow> bool" where
  "reads_back hook v \<longleftrightarrow> (\<forall>n r. 2 * length (dumps v) \<le> n \<longrightarrow> stops r \<longrightarrow> scan hook n (dumps v @ r) = Inr (canon v, r))"

lemma scan_elements_dumps:
  assumes "\<forall>x\<in>set xs. reads_back hook x" and "xs \<noteq> []" and "2 * length (join '','' (map dumps xs)) + 1 \<le> n"
  shows "scan_elements hook n (join '','' (map dumps xs) @ CHR '']'' # r) = Inr (map canon xs, r)"
  using assms
proof (induction xs arbitrary: n rule: induct_list012)
  case (2 x)
  then obtain m where n: "n = Suc m" "2 * length (dumps x) \<le> m" by (cases n) auto
  then have "scan hook m (dumps x @ CHR '']'' # r) = Inr (canon x, CHR '']'' # r)"
    using 2(1) by (simp add: reads_back_def)
  then show ?case by (simp add: n)
next
  case (3 x y zs)
  let ?rest = "join '','' (map dumps (y # zs)) @ CHR '']'' # r"
  from 3(5) obtain m where n: "n = Suc m" "2 * length (dumps x) \<le> m"
    "2 * length (join '','' (map dumps (y # zs))) + 1 \<le> m" by (cases n) auto
  have x: "scan hook m (dumps x @ CHR '','' # ?rest) = Inr (canon x, CHR '','' # ?rest)"
    using 3(3) n(2) by (simp add: reads_back_def)
  have "\<exists>t. ?rest = dumps y @ t" by (cases zs) auto
  then have "skip_ws ?rest = ?rest" by auto
  moreover have "scan_elements hook m ?rest = Inr (map canon (y # zs), r)"
    using 3(3) n(3) by (intro 3(2)) simp_all
  ultimately show ?case using x by (simp add: n(1))
qed simp

lemma dump_str_Cons: "dump_str k = CHR 0x22 # concat (map escape_char k) @ [CHR 0x22]"
  by (simp add: dump_str_def)

lemma length_member_text: "length (dumps (snd kv)) < length (member_text kv)"
  by (simp add: member_text_def)

lemma scan_members_step:
  assumes "scan hook m (dumps (snd kv) @ t) = Inr (v, t)"
  shows "scan_members hook (Suc m) (member_text kv @ t) = (case skip_ws t of
         d # r3 \<Rightarrow> (if d = CHR 0x7D then Inr ([(fst kv, v)], r3)
                     else if d = CHR '',''
                     then rbind (scan_members hook m (skip_ws r3)) (\<lambda>(ps, r4). Inr ((fst kv, v) # ps, r4))
                     else Inl (decode_error ''Expecting , delimiter''))
       | [] \<Rightarrow> Inl (decode_error ''Expecting , delimiter''))"
  using assms by (simp add: member_text_def dump_str_Cons read_string_dump)

lemma scan_members_dumps:
  assumes "\<forall>kv\<in>set ps. reads_back hook (snd kv)" and "ps \<noteq> []" and "2 * length (join '','' (map member_text ps)) + 1 \<le> n"
  shows "scan_members hook n (join '','' (map member_text ps) @ CHR 0x7D # r) =
    Inr (map (\<lambda>kv. (fst kv, canon (snd kv))) ps, r)"
  using assms
proof (induction ps arbitrary: n rule: induct_list012)
  case (2 kv)
  then obtain m where n: "n = Suc m" "2 * length (dumps (snd kv)) \<le> m" using length_member_text [of kv] by (cases n) auto
  then have "scan hook m (dumps (snd kv) @ CHR 0x7D # r) = Inr (canon (snd kv), CHR 0x7D # r)"
    using 2(1) by (simp add: reads_back_def)
  then show ?case using scan_members_step [of hook m kv "CHR 0x7D # r"] by (simp add: n(1) del: scan_members.simps)
next
  case (3 kv kv' ps)
  let ?rest = "join '','' (map member_text (kv' # ps)) @ CHR 0x7D # r"
  from 3(5) obtain m where n: "n = Suc m" "2 * length (dumps (snd kv)) \<le> m"
    "2 * length (join '','' (map member_text (kv' # ps))) + 1 \<le> m" using length_member_text [of kv] by (cases n) auto
  have x: "scan hook m (dumps (snd kv) @ CHR '','' # ?rest) = Inr (canon (snd kv), CHR '','' # ?rest)"
    using 3(3) n(2) by (simp add: reads_back_def)
  have "\<exists>t. ?rest = CHR 0x22 # t" by (cases ps) (auto simp: member_text_def dump_str_Cons)
  then have "skip_ws ?rest = ?rest" by auto
  moreover have "scan_members hook m ?rest = Inr (map (\<lambda>kv. (fst kv, canon (snd kv))) (kv' # ps), r)"
    using 3(3) n(3) by (intro 3(2)) simp_all
  ultimately show ?case
    using scan_members_step [OF x] by (simp add: n(1) del: scan_members.simps)
qed simp

lemma reads_back_scalar: "reads_back hook JNull" "reads_back hook (JBool b)" "reads_back hook (JStr s)"
proof -
  have "scan hook n (''null'' @ r) = Inr (JNull, r)" "scan hook n (''true'' @ r) = Inr (JBool True, r)"
    "scan hook n (''false'' @ r) = Inr (JBool False, r)" "scan hook n (dump_str s @ r) = Inr (JStr s, r)" if "0 < n" for n r
    using that by (cases n; simp add: starts_with_def dump_str_Cons read_string_dump)+
  then show "reads_back hook JNull" "reads_back hook (JBool b)" "reads_back hook (JStr s)"
    unfolding reads_back_def by (auto simp: dump_str_Cons)
qed

lemma reads_back_all:
  assumes hook: "\<And>ps. distinct (map fst ps) \<Longrightarrow> hook ps = Inr ps" and "wf_json v"
  shows "reads_back hook v"
  using assms(2)
proof (induction v rule: wf_json.induct)
  case (3 i)
  show ?case unfolding reads_back_def
  proof (intro allI impI)
    fix n r assume n: "2 * length (dumps (JInt i)) \<le> n" and r: "stops r"
    obtain c cs where c: "show_int i = c # cs" "c = CHR ''-'' \<or> is_digit c"
      using hd_show_nat_digit [of "nat i"] show_nat_nonempty [of "nat i"]
      by (cases "i < 0"; cases "show_nat (nat i)") (simp_all add: show_int_def)
    then obtain m where "n = Suc m" using n by (cases n) auto
    moreover have "c \<notin> {CHR 0x22, CHR 0x7B, CHR ''['', CHR ''n'', CHR ''t'', CHR ''f''}"
      using c(2) by (auto simp: is_digit_def)
    ultimately show "scan hook n (dumps (JInt i) @ r) = Inr (canon (JInt i), r)"
      using read_int_show [OF r, of i] c(1) by (simp add: starts_with_def)
  qed
next
  case (5 xs)
  show ?case unfolding reads_back_def
  proof (intro allI impI)
    fix n r assume n: "2 * length (dumps (JArr xs)) \<le> n"
    then obtain m where m: "n = Suc m" "2 * length (join '','' (map dumps xs)) + 1 \<le> m" by (cases n) auto
    show "scan hook n (dumps (JArr xs) @ r) = Inr (canon (JArr xs), r)"
    proof (cases xs)
      case (Cons x ys)
      have el: "scan_elements hook m (join '','' (map dumps xs) @ CHR '']'' # r) = Inr (map canon xs, r)"
        using 5 m(2) Cons by (intro scan_elements_dumps) auto
      obtain c cs where start: "dumps x = c # cs" "value_start c" using dumps_start by blast
      obtain t where t: "join '','' (map dumps xs) @ CHR '']'' # r = c # t" using start Cons by (cases ys) auto
      have "skip_ws (c # t) = c # t" "c \<noteq> CHR '']''" using value_start_facts [OF start(2)] by (simp_all add: skip_ws_def)
      then show ?thesis using el t by (simp add: m(1))
    qed (simp add: m(1))
  qed
next
  case (6 d)
  show ?case unfolding reads_back_def
  proof (intro allI impI)
    fix n r assume n: "2 * length (dumps (JObj d)) \<le> n"
    let ?ps = "sort_key fst d"
    from n obtain m where m: "n = Suc m" "2 * length (join '','' (map member_text ?ps)) + 1 \<le> m"
      unfolding dumps_JObj by (cases n) auto
    have h: "hook (map (\<lambda>kv. (fst kv, canon (snd kv))) ?ps) = Inr (map (\<lambda>kv. (fst kv, canon (snd kv))) ?ps)"
      using 6(2) by (intro hook) (simp add: comp_def distinct_map)
    show "scan hook n (dumps (JObj d) @ r) = Inr (canon (JObj d), r)"
    proof (cases ?ps)
      case Nil
      then show ?thesis using h by (simp add: m(1) dumps_JObj canon_JObj del: dumps.simps canon.simps)
    next
      case (Cons kv ps)
      have el: "scan_members hook m (join '','' (map member_text ?ps) @ CHR 0x7D # r) =
          Inr (map (\<lambda>kv. (fst kv, canon (snd kv))) ?ps, r)"
      proof (rule scan_members_dumps)
        have "reads_back hook (snd kv)" if "kv \<in> set d" for kv using 6 that by simp
        then show "\<forall>kv\<in>set ?ps. reads_back hook (snd kv)" by simp
      qed (use m(2) Cons in simp_all)
      obtain t where "join '','' (map member_text ?ps) @ CHR 0x7D # r = CHR 0x22 # t"
        using Cons by (cases ps) (auto simp: member_text_def dump_str_Cons)
      then show ?thesis using el h unfolding dumps_JObj canon_JObj by (simp add: m(1))
    qed
  qed
qed (simp_all add: reads_back_scalar)

lemma loads_dumps:
  assumes "\<And>ps. distinct (map fst ps) \<Longrightarrow> hook ps = Inr ps" and "wf_json v"
  shows "loads hook (dumps v) = Inr (canon v)"
proof -
  have rb: "reads_back hook v" by (rule reads_back_all) (use assms in simp_all)
  have "scan hook (2 * length (dumps v) + 2) (dumps v @ []) = Inr (canon v, [])"
    by (rule rb [unfolded reads_back_def, rule_format]) simp_all
  moreover have "skip_ws (dumps v) = dumps v" using skip_ws_dumps [of v "[]"] by simp
  ultimately show ?thesis unfolding loads_def by (simp add: skip_ws_def del: scan.simps)
qed

declare scan.simps [simp del] scan_members.simps [simp del] scan_elements.simps [simp del]

lemma put_fresh: "\<not> has_key d k \<Longrightarrow> put k v d = d @ [(k, v)]"
  by (induction k v d rule: put.induct) auto

lemma reject_duplicates_from_iff:
  "reject_duplicates_from d0 ps = Inr d \<longleftrightarrow>
     distinct (map fst ps) \<and> (\<forall>k\<in>set (map fst ps). \<not> has_key d0 k) \<and> d = d0 @ ps"
proof (induction d0 ps rule: reject_duplicates_from.induct)
  case (2 d0 k v ps)
  then show ?case by (cases "has_key d0 k") (auto simp: put_fresh has_key_def)
qed auto

lemma reject_duplicate_iff: "reject_duplicate_json_object ps = Inr d \<longleftrightarrow> distinct (map fst ps) \<and> d = ps"
  by (simp add: reject_duplicate_json_object_def reject_duplicates_from_iff)

lemma dict_of_pairs_distinct: "distinct (map fst ps) \<Longrightarrow> dict_of_pairs ps = Inr ps"
proof -
  have "fold (\<lambda>(k, v) d. put k v d) ps acc = acc @ ps" if "distinct (map fst (acc @ ps))" for acc
    using that
  proof (induction ps arbitrary: acc)
    case (Cons p ps)
    then have "\<not> has_key acc (fst p)" by (auto simp: has_key_def)
    then have "fold (\<lambda>(k, v) d. put k v d) ps (acc @ [p]) = (acc @ [p]) @ ps" using Cons by (intro Cons.IH) simp
    then show ?case using \<open>\<not> has_key acc (fst p)\<close> by (cases p) (simp add: put_fresh)
  qed simp
  from this [of "[]"] show "distinct (map fst ps) \<Longrightarrow> dict_of_pairs ps = Inr ps" by (simp add: dict_of_pairs_def)
qed

lemma loads_bytes_canonical: "wf_json v \<Longrightarrow> loads_bytes (canonical_bytes v) = Inr (canon v)"
  by (simp add: loads_bytes_def decode_utf8_def canonical_bytes_def loads_dumps dict_of_pairs_distinct)

text \<open>With a hook that accepts only distinct names, every accepted value is well formed.\<close>

definition unique_hook :: "pairs_hook \<Rightarrow> bool" where
  "unique_hook hook \<longleftrightarrow> (\<forall>ps d. hook ps = Inr d \<longrightarrow> distinct (map fst ps) \<and> d = ps)"

lemma read_int_wf: "read_int s = Inr (v, r) \<Longrightarrow> wf_json v"
  by (auto simp: read_int_def Let_def elim!: resultE)

lemma scan_unique:
  "unique_hook hook \<Longrightarrow> scan hook n s = Inr (v, r) \<Longrightarrow> wf_json v"
  "unique_hook hook \<Longrightarrow> scan_members hook n s = Inr (ps, r) \<Longrightarrow> \<forall>kv\<in>set ps. wf_json (snd kv)"
  "unique_hook hook \<Longrightarrow> scan_elements hook n s = Inr (vs, r) \<Longrightarrow> \<forall>v\<in>set vs. wf_json v"
proof (induction hook n s and hook n s and hook n s arbitrary: v r and ps r and vs r
    rule: scan_scan_members_scan_elements.induct)
  case (2 hook n s)
  show ?case
  proof (cases s)
    case (Cons c cs)
    consider "c = CHR 0x22" | (obj) "c = CHR 0x7B" | (arr) "c = CHR ''[''"
      | (other) "c \<noteq> CHR 0x22" "c \<noteq> CHR 0x7B" "c \<noteq> CHR ''[''" by blast
    then show ?thesis
    proof cases
      case 1
      then show ?thesis using 2(4) Cons by (auto simp: scan.simps elim!: resultE)
    next
      case obj
      obtain d r1 where ws: "skip_ws cs = d # r1" using 2(4) Cons obj by (cases "skip_ws cs") (simp_all add: scan.simps)
      show ?thesis
      proof (cases "d = CHR 0x7D")
        case True
        with 2(4) Cons obj ws obtain m where "hook [] = Inr m" "v = JObj m" by (auto simp: scan.simps elim!: resultE)
        then show ?thesis using 2(3) unfolding unique_hook_def by force
      next
        case False
        with 2(4) Cons obj ws obtain ps r' m where mem: "scan_members hook n (d # r1) = Inr (ps, r')"
          and h: "hook ps = Inr m" and v: "v = JObj m" by (auto simp: scan.simps elim!: resultE)
        have "\<forall>kv\<in>set ps. wf_json (snd kv)"
          using 2(1) [OF Cons _ obj ws False 2(3) mem] obj by simp
        then show ?thesis using h 2(3) by (auto simp: v unique_hook_def)
      qed
    next
      case arr
      obtain d r1 where ws: "skip_ws cs = d # r1" using 2(4) Cons arr by (cases "skip_ws cs") (simp_all add: scan.simps)
      show ?thesis
      proof (cases "d = CHR '']''")
        case True
        then show ?thesis using 2(4) Cons arr ws by (auto simp: scan.simps)
      next
        case False
        with 2(4) Cons arr ws obtain xs where el: "scan_elements hook n (d # r1) = Inr (xs, r)"
          and v: "v = JArr xs" by (auto simp: scan.simps elim!: resultE)
        have "\<forall>x\<in>set xs. wf_json x" using 2(2) [OF Cons _ _ arr ws False 2(3) el] arr by simp
        then show ?thesis by (simp add: v)
      qed
    next
      case other
      then show ?thesis using 2(4) Cons read_int_wf by (auto simp: scan.simps split: if_splits)
    qed
  qed (use 2(4) in \<open>simp add: scan.simps\<close>)
next
  case (4 hook n s)
  then show ?case by (fastforce simp: scan_members.simps Let_def elim!: resultE split: list.splits if_splits)
next
  case (6 hook n s)
  then show ?case by (auto simp: scan_elements.simps elim!: resultE split: list.splits if_splits)
qed (simp_all add: scan.simps scan_members.simps scan_elements.simps)

lemma reject_duplicate_unique: "unique_hook reject_duplicate_json_object"
  by (simp add: unique_hook_def reject_duplicate_iff)

lemma loads_unique_wf: "loads reject_duplicate_json_object s = Inr v \<Longrightarrow> wf_json v"
  unfolding loads_def by (auto elim!: resultE intro: scan_unique(1) [OF reject_duplicate_unique])

text \<open>
  C39. The strict loader reads back every canonical rendering: for a value without duplicate
  member names, the bytes that are hashed and signed parse to that value with its members in
  key order. A file that holds the canonical form is accepted and means what was signed.
\<close>

theorem load_canonical_roundtrip:
  assumes "wf_json v"
  shows "load_unique_json_bytes (canonical_bytes v) label = Inr (canon v)"
  using loads_dumps [OF _ assms, of reject_duplicate_json_object]
  by (simp add: load_unique_json_bytes_def canonical_bytes_def reject_duplicate_iff)

theorem load_canonical_roundtrip_witness:
  "load_unique_json_bytes (canonical_bytes (JObj [(''b'', JInt (-7)), (''a'', JArr [JStr [CHR 0x85, CHR 0x22]])])) ''doc''
   = Inr (JObj [(''a'', JArr [JStr [CHR 0x85, CHR 0x22]]), (''b'', JInt (-7))])"
proof -
  have "canon (JObj [(''b'', JInt (-7)), (''a'', JArr [JStr [CHR 0x85, CHR 0x22]])]) =
      JObj [(''a'', JArr [JStr [CHR 0x85, CHR 0x22]]), (''b'', JInt (-7))]" by code_simp
  then show ?thesis
    using load_canonical_roundtrip [of "JObj [(''b'', JInt (-7)), (''a'', JArr [JStr [CHR 0x85, CHR 0x22]])]" "''doc''"] by simp
qed



end
