(* ===== verification/Trust.thy ===== *)
theory Trust
  imports Json_Text
begin

text \<open>
  The trust anchors of \<open>src/src/sddgov/trust.py\<close>: full commit identifiers, the fixed
  locations of the approver stores, and the descriptor-based readers of root-owned
  control-plane documents and of owner-only files.

  The file system is not under the program's control, so a reader is a function of what its
  system calls return, in order: each call yields a status record or an \<open>OSError\<close>, and two
  calls on the same name may differ.
\<close>

unbundle bit_operations_syntax


section \<open>File status\<close>

datatype file_kind = Regular | Directory | Symlink | Socket | OtherKind

record os_stat =
  st_kind :: file_kind
  st_perm :: nat
  st_uid :: int
  st_gid :: int
  st_dev :: int
  st_ino :: int
  st_nlink :: int
  st_size :: int
  st_mtime_ns :: int
  st_ctime_ns :: int

definition perm_group_other_write :: nat where "perm_group_other_write = 18"

definition perm_group_other_any :: nat where "perm_group_other_any = 63"

text \<open>\<open>st_mode & 0o022\<close> and \<open>st_mode & 0o077\<close>: 18 and 63 in decimal.\<close>

definition writable_by_others :: "os_stat \<Rightarrow> bool" where
  "writable_by_others m \<longleftrightarrow> st_perm m AND perm_group_other_write \<noteq> 0"

definition same_inode :: "os_stat \<Rightarrow> os_stat \<Rightarrow> bool" where
  "same_inode a b \<longleftrightarrow> st_dev a = st_dev b \<and> st_ino a = st_ino b"

definition same_snapshot :: "os_stat \<Rightarrow> os_stat \<Rightarrow> bool" where
  "same_snapshot a b \<longleftrightarrow> st_dev a = st_dev b \<and> st_ino a = st_ino b \<and> st_size a = st_size b
     \<and> st_mtime_ns a = st_mtime_ns b \<and> st_ctime_ns a = st_ctime_ns b \<and> st_nlink a = st_nlink b"

definition root_only :: "os_stat \<Rightarrow> bool" where
  "root_only m \<longleftrightarrow> st_uid m = 0 \<and> \<not> writable_by_others m"


section \<open>Commit identifiers and fixed paths\<close>

definition is_hex_any :: "char \<Rightarrow> bool" where
  "is_hex_any c \<longleftrightarrow> c \<in> set ''0123456789abcdefABCDEF''"

text \<open>\<open>str.lower\<close> on U+0000 to U+00FF: ASCII letters and the Latin-1 capitals.\<close>

definition lower_char :: "char \<Rightarrow> char" where
  "lower_char c = (let n = of_char c :: nat in
     if 65 \<le> n \<and> n \<le> 90 \<or> 192 \<le> n \<and> n \<le> 222 \<and> n \<noteq> 215 then char_of (n + 32) else c)"

definition lower :: "string \<Rightarrow> string" where
  "lower s = map lower_char s"

definition require_full_commit_sha :: "json \<Rightarrow> string \<Rightarrow> string result" where
  "require_full_commit_sha v label =
     require (is_str v \<and> length (str_val v) = 40 \<and> list_all is_hex_any (str_val v))
       (ValueError (label @ '' must be a full 40-character commit SHA''))
       (Inr (lower (str_val v)))"

definition trusted_approvers_file :: string where
  "trusted_approvers_file = ''/etc/sddgov/trusted-approvers.json''"

definition trusted_approver_domains_file :: string where
  "trusted_approver_domains_file = ''/etc/sddgov/trusted-approver-domains.json''"

text \<open>
  The arguments say whether the retired environment variable is set and whether the resolved
  fixed path lies inside the resolved repository root.
\<close>

definition trusted_approvers_path :: "bool \<Rightarrow> bool \<Rightarrow> string result" where
  "trusted_approvers_path environment_set inside_root =
     require (\<not> environment_set)
       (ValueError (''caller override SDDGOV_TRUSTED_APPROVERS_FILE is forbidden; '' @
          ''trusted approver authority is fixed at '' @ trusted_approvers_file))
     (require (\<not> inside_root) (ValueError ''fixed trusted approver store must be outside the repository'')
       (Inr trusted_approvers_file))"

definition trusted_approver_domains_path :: "bool \<Rightarrow> string result" where
  "trusted_approver_domains_path inside_root =
     require (\<not> inside_root) (ValueError ''fixed trusted approver domain store must be outside the repository'')
       (Inr trusted_approver_domains_file)"


section \<open>Root-owned control-plane documents\<close>

definition max_control_plane_bytes :: nat where
  "max_control_plane_bytes = 1048576"

text \<open>
  What the calls for one parent directory return: \<open>os.stat\<close> before opening, \<open>os.open\<close>
  followed by \<open>os.fstat\<close>, and after the file was read \<open>os.stat\<close> and \<open>os.fstat\<close> again.
\<close>

record parent_calls =
  p_before :: "os_stat result"
  p_opened :: "os_stat result"
  p_path_again :: "os_stat result"
  p_descriptor_again :: "os_stat result"

record load_calls =
  c_name :: string
  c_root :: "os_stat result"
  c_parents :: "parent_calls list"
  c_before :: "os_stat result"
  c_opened :: "os_stat result"
  c_chunks :: "string list result"
  c_final :: "os_stat result"
  c_leaf :: "os_stat result"

definition chain_error :: "string \<Rightarrow> exn" where
  "chain_error label = ValueError (label @ '' parent chain must be root-owned and not writable by group or other'')"

definition open_parent :: "string \<Rightarrow> parent_calls \<Rightarrow> unit result" where
  "open_parent label p =
     rbind (p_before p) (\<lambda>before.
     rbind (p_opened p) (\<lambda>current.
     require (st_kind before \<noteq> Symlink \<and> st_kind before = Directory \<and> st_kind current = Directory
         \<and> same_inode before current \<and> root_only current)
       (chain_error label) (Inr ())))"

definition recheck_parent :: "string \<Rightarrow> parent_calls \<Rightarrow> unit result" where
  "recheck_parent label p =
     rbind (p_path_again p) (\<lambda>current_path.
     rbind (p_descriptor_again p) (\<lambda>opened_directory.
     require (st_kind current_path \<noteq> Symlink \<and> st_kind current_path = Directory
         \<and> same_inode current_path opened_directory \<and> root_only opened_directory)
       (ValueError (label @ '' parent chain changed while it was being read'')) (Inr ())))"

text \<open>The read loop: an empty chunk ends the file, the running size is bounded.\<close>

fun read_chunks :: "string \<Rightarrow> nat \<Rightarrow> string list \<Rightarrow> string result" where
  "read_chunks label n [] = Inr []"
| "read_chunks label n (chunk # chunks) =
     (if chunk = [] then Inr []
      else require (n + length chunk \<le> max_control_plane_bytes)
             (ValueError (label @ '' exceeds the 1048576-byte limit''))
           (rbind (read_chunks label (n + length chunk) chunks) (\<lambda>rest. Inr (chunk @ rest))))"

definition parse_document :: "string \<Rightarrow> string \<Rightarrow> json result" where
  "parse_document label raw = (case utf8_decode raw of
     None \<Rightarrow> Inl (ValueError (''invalid '' @ label @ '': not UTF-8''))
   | Some text \<Rightarrow>
       (case loads reject_duplicate_json_object text of
          Inl e \<Rightarrow> Inl (ValueError (''invalid '' @ label @ '': '' @ exn_text e))
        | Inr v \<Rightarrow> Inr v))"

definition load_body :: "load_calls \<Rightarrow> string \<Rightarrow> json result" where
  "load_body c label =
     rbind (c_root c) (\<lambda>root_metadata.
     require (st_kind root_metadata = Directory \<and> root_only root_metadata) (chain_error label)
     (rbind (mapr (open_parent label) (c_parents c)) (\<lambda>_.
      rbind (c_before c) (\<lambda>before.
      require (st_kind before \<noteq> Symlink \<and> st_kind before = Regular)
        (ValueError (label @ '' must be a non-symlink regular file''))
      (require (root_only before)
        (ValueError (label @ '' must be root-owned and not writable by group or other''))
      (rbind (c_opened c) (\<lambda>opened.
      require (st_kind opened = Regular \<and> st_nlink opened = 1 \<and> same_inode before opened \<and> root_only opened)
        (ValueError (label @ '' must remain a root-owned, non-linked regular file''))
      (require (st_size opened \<le> int max_control_plane_bytes)
        (ValueError (label @ '' exceeds the 1048576-byte limit''))
      (rbind (c_chunks c) (\<lambda>chunks.
       rbind (read_chunks label 0 chunks) (\<lambda>raw.
       rbind (c_final c) (\<lambda>final.
       rbind (c_leaf c) (\<lambda>leaf.
       require (same_snapshot opened final \<and> same_snapshot opened leaf)
         (ValueError (label @ '' changed while it was being read''))
       (rbind (mapr (recheck_parent label) (c_parents c)) (\<lambda>_.
        parse_document label raw)))))))))))))))"

definition load_root_owned_control_plane_json :: "load_calls \<Rightarrow> string \<Rightarrow> obj result" where
  "load_root_owned_control_plane_json c label =
     require (c_name c \<noteq> [] \<and> c_name c \<notin> set [''.'', ''..''])
       (ValueError (label @ '' has an unsafe control-plane path''))
     (rbind (case load_body c label of
               Inl e \<Rightarrow> (if is_OSError e then Inl (ValueError (label @ '' cannot be opened safely: '' @ exn_text e)) else Inl e)
             | Inr v \<Rightarrow> Inr v) (\<lambda>v.
      require (is_dict v) (ValueError (label @ '' must contain a JSON object'')) (Inr (dict_val v))))"

text \<open>
  The Agent-facing loader refuses to run as root; \<open>posix\<close> says that the platform has
  user identities at all.
\<close>

definition load_control_plane_json :: "bool \<Rightarrow> int \<Rightarrow> load_calls \<Rightarrow> string \<Rightarrow> obj result" where
  "load_control_plane_json posix euid c label =
     require posix (ValueError (label @ '' requires an independent control-plane identity''))
     (require (euid \<noteq> 0)
       (ValueError (label @ '' cannot establish a separate identity while the Agent runs as root''))
     (load_root_owned_control_plane_json c label))"

text \<open>The root Owner client reads one of two fixed documents only.\<close>

definition load_owner_runtime_control_plane_json ::
  "bool \<Rightarrow> int \<Rightarrow> string \<Rightarrow> load_calls \<Rightarrow> string \<Rightarrow> obj result" where
  "load_owner_runtime_control_plane_json posix euid candidate c label =
     require (posix \<and> euid = 0) (ValueError (label @ '' requires the isolated root Owner runtime''))
     (require (candidate \<in> set [trusted_approvers_file, trusted_approver_domains_file])
       (ValueError (label @ '' must use one fixed Owner trust path''))
     (load_root_owned_control_plane_json c label))"


section \<open>Owner-only files\<close>

definition load_owner_controlled_json :: "bool \<Rightarrow> int \<Rightarrow> load_calls \<Rightarrow> string \<Rightarrow> obj result" where
  "load_owner_controlled_json nt euid c label =
     (case c_before c of
        Inl e \<Rightarrow> Inl (ValueError (label @ '' is unavailable: '' @ exn_text e))
      | Inr before \<Rightarrow>
     require (st_kind before \<noteq> Symlink) (ValueError (label @ '' must not be a symbolic link''))
     (require (st_kind before = Regular) (ValueError (label @ '' must be a regular file''))
     (case c_opened c of
        Inl e \<Rightarrow> Inl (ValueError (label @ '' cannot be opened safely: '' @ exn_text e))
      | Inr current \<Rightarrow>
     require (same_inode before current) (ValueError (label @ '' changed while it was being opened''))
     (require (st_kind current = Regular) (ValueError (label @ '' must be a regular file''))
     (require (st_nlink current = 1) (ValueError (label @ '' must not be hard-linked''))
     (require (nt \<or> st_uid current = euid) (ValueError (label @ '' must be owned by the current user''))
     (require (nt \<or> st_perm current AND perm_group_other_any = 0)
        (ValueError (label @ '' must have owner-only permissions (0600)''))
     (rbind (case c_chunks c of
               Inl e \<Rightarrow> Inl (ValueError (''invalid '' @ label @ '': '' @ exn_text e))
             | Inr chunks \<Rightarrow> parse_document label (concat chunks)) (\<lambda>v.
      require (is_dict v) (ValueError (label @ '' must contain a JSON object'')) (Inr (dict_val v)))))))))))"


section \<open>What an accepted document guarantees\<close>

lemma root_only_simps: "root_only m \<Longrightarrow> st_uid m = 0 \<and> \<not> writable_by_others m"
  by (simp add: root_only_def)

lemma read_chunks_bound: "read_chunks label n chunks = Inr raw \<Longrightarrow> n \<le> max_control_plane_bytes \<Longrightarrow>
    n + length raw \<le> max_control_plane_bytes"
proof (induction label n chunks arbitrary: raw rule: read_chunks.induct)
  case (2 label n chunk chunks)
  show ?case
  proof (cases "chunk = []")
    case False
    with 2(2) obtain rest where b: "n + length chunk \<le> max_control_plane_bytes"
      and r: "read_chunks label (n + length chunk) chunks = Inr rest" and raw: "raw = chunk @ rest"
      by (auto elim!: resultE)
    show ?thesis using 2(1) [OF False r b] by (simp add: raw)
  qed (use 2 in simp)
qed simp

lemma parse_document_wf: "parse_document label raw = Inr v \<Longrightarrow> wf_json v"
  by (auto simp: parse_document_def loads_unique_wf split: option.splits sum.splits)

text \<open>A directory of the chain as it was opened and as it was after the read.\<close>

definition parent_trusted :: "parent_calls \<Rightarrow> bool" where
  "parent_trusted p \<longleftrightarrow> (\<exists>before current again desc.
     p_before p = Inr before \<and> p_opened p = Inr current \<and> p_path_again p = Inr again \<and> p_descriptor_again p = Inr desc
     \<and> st_kind before = Directory \<and> st_kind current = Directory \<and> st_kind again = Directory
     \<and> same_inode before current \<and> same_inode again desc \<and> root_only current \<and> root_only desc)"

definition leaf_trusted :: "load_calls \<Rightarrow> bool" where
  "leaf_trusted c \<longleftrightarrow> (\<exists>before opened final leaf.
     c_before c = Inr before \<and> c_opened c = Inr opened \<and> c_final c = Inr final \<and> c_leaf c = Inr leaf
     \<and> st_kind before = Regular \<and> root_only before \<and> st_kind opened = Regular \<and> root_only opened
     \<and> st_nlink opened = 1 \<and> same_inode before opened \<and> st_size opened \<le> int max_control_plane_bytes
     \<and> same_snapshot opened final \<and> same_snapshot opened leaf)"

lemma parent_trustedI:
  assumes "open_parent label p = Inr u" and "recheck_parent label p = Inr w"
  shows "parent_trusted p"
proof -
  from assms(1) obtain before current where "p_before p = Inr before" "p_opened p = Inr current"
    "st_kind before = Directory" "st_kind current = Directory" "same_inode before current" "root_only current"
    unfolding open_parent_def by (elim resultE) simp
  moreover from assms(2) obtain again desc where "p_path_again p = Inr again" "p_descriptor_again p = Inr desc"
    "st_kind again = Directory" "same_inode again desc" "root_only desc"
    unfolding recheck_parent_def by (elim resultE) simp
  ultimately show ?thesis unfolding parent_trusted_def by blast
qed

lemma load_body_Inr:
  assumes "load_body c label = Inr v"
  obtains rm chunks raw where "c_root c = Inr rm" "st_kind rm = Directory" "root_only rm"
    "\<forall>p\<in>set (c_parents c). parent_trusted p" "leaf_trusted c"
    "c_chunks c = Inr chunks" "read_chunks label 0 chunks = Inr raw" "parse_document label raw = Inr v"
proof -
  from assms obtain rm us before opened chunks raw final leaf ws where
    r: "c_root c = Inr rm" "st_kind rm = Directory \<and> root_only rm"
    and ps: "mapr (open_parent label) (c_parents c) = Inr us" "mapr (recheck_parent label) (c_parents c) = Inr ws"
    and b: "c_before c = Inr before" "st_kind before \<noteq> Symlink \<and> st_kind before = Regular" "root_only before"
    and op: "c_opened c = Inr opened"
      "st_kind opened = Regular \<and> st_nlink opened = 1 \<and> same_inode before opened \<and> root_only opened"
      "st_size opened \<le> int max_control_plane_bytes"
    and ch: "c_chunks c = Inr chunks" "read_chunks label 0 chunks = Inr raw"
    and f: "c_final c = Inr final" "c_leaf c = Inr leaf" "same_snapshot opened final \<and> same_snapshot opened leaf"
    and v: "parse_document label raw = Inr v"
    unfolding load_body_def by (elim resultE) (rule that)
  have "\<forall>p\<in>set (c_parents c). \<exists>u. open_parent label p = Inr u" using mapr_ok_iff [of "open_parent label" "c_parents c"] ps(1) by auto
  moreover have "\<forall>p\<in>set (c_parents c). \<exists>u. recheck_parent label p = Inr u" using mapr_ok_iff [of "recheck_parent label" "c_parents c"] ps(2) by auto
  ultimately have "\<forall>p\<in>set (c_parents c). parent_trusted p"
    using parent_trustedI by metis
  moreover have "leaf_trusted c" unfolding leaf_trusted_def using b op f by auto
  ultimately show thesis using that r ch v by blast
qed

text \<open>
  C37. A control-plane document is accepted only for a non-root process, and only when
  every directory from the root down was a root-owned directory that group and others cannot
  write, before and after the read; the file was a root-owned, unlinked, unwritable regular
  file of at most 1 MiB that kept its identity, size and times; and its text was an object
  without duplicate members.
\<close>

theorem control_plane_document_trusted:
  assumes "load_control_plane_json posix euid c label = Inr d"
  shows "posix \<and> euid \<noteq> 0
    \<and> (\<exists>rm. c_root c = Inr rm \<and> st_kind rm = Directory \<and> root_only rm)
    \<and> (\<forall>p\<in>set (c_parents c). parent_trusted p) \<and> leaf_trusted c
    \<and> (\<exists>chunks raw. c_chunks c = Inr chunks \<and> read_chunks label 0 chunks = Inr raw
         \<and> length raw \<le> max_control_plane_bytes \<and> parse_document label raw = Inr (JObj d))
    \<and> wf_json (JObj d)"
proof -
  from assms have pe: "posix" "euid \<noteq> 0" and l: "load_root_owned_control_plane_json c label = Inr d"
    by (auto simp: load_control_plane_json_def elim!: resultE)
  from l obtain v where "load_body c label = Inr v" and v: "is_dict v" "d = dict_val v"
    by (auto simp: load_root_owned_control_plane_json_def split: sum.splits if_splits elim!: resultE)
  from this(1) obtain rm chunks raw where *: "c_root c = Inr rm" "st_kind rm = Directory" "root_only rm"
    "\<forall>p\<in>set (c_parents c). parent_trusted p" "leaf_trusted c"
    "c_chunks c = Inr chunks" "read_chunks label 0 chunks = Inr raw" "parse_document label raw = Inr v"
    by (rule load_body_Inr)
  have "v = JObj d" using v by (cases v) simp_all
  then show ?thesis
    using pe * read_chunks_bound [OF *(7)] parse_document_wf [OF *(8)] by auto
qed

text \<open>A well-administered document, for the concrete instances.\<close>

definition root_dir :: os_stat where
  "root_dir = \<lparr>st_kind = Directory, st_perm = 493, st_uid = 0, st_gid = 0, st_dev = 1, st_ino = 2, st_nlink = 2,
     st_size = 4096, st_mtime_ns = 0, st_ctime_ns = 0\<rparr>"

definition root_file :: os_stat where
  "root_file = \<lparr>st_kind = Regular, st_perm = 420, st_uid = 0, st_gid = 0, st_dev = 1, st_ino = 7, st_nlink = 1,
     st_size = 2, st_mtime_ns = 0, st_ctime_ns = 0\<rparr>"

definition good_calls :: "string \<Rightarrow> load_calls" where
  "good_calls raw = \<lparr>c_name = ''doc.json'', c_root = Inr root_dir,
     c_parents = [\<lparr>p_before = Inr root_dir, p_opened = Inr root_dir, p_path_again = Inr root_dir, p_descriptor_again = Inr root_dir\<rparr>],
     c_before = Inr root_file, c_opened = Inr root_file, c_chunks = Inr [raw], c_final = Inr root_file, c_leaf = Inr root_file\<rparr>"

lemma good_root_only [simp]: "root_only root_dir" "root_only root_file"
  by (simp_all add: root_only_def writable_by_others_def root_dir_def root_file_def perm_group_other_write_def)

lemma load_good_calls:
  assumes "length raw \<le> max_control_plane_bytes" and "parse_document label raw = Inr (JObj d)" and "euid \<noteq> 0"
  shows "load_control_plane_json True euid (good_calls raw) label = Inr d"
proof -
  have "load_body (good_calls raw) label = Inr (JObj d)"
    using assms unfolding load_body_def
    by (auto simp: good_calls_def open_parent_def recheck_parent_def same_inode_def same_snapshot_def
        root_dir_def [THEN arg_cong [of _ _ st_kind]] root_file_def [THEN arg_cong [of _ _ st_kind]]
        root_file_def [THEN arg_cong [of _ _ st_nlink]] root_file_def [THEN arg_cong [of _ _ st_size]] max_control_plane_bytes_def)
  then show ?thesis using assms(3)
    by (simp add: load_control_plane_json_def load_root_owned_control_plane_json_def good_calls_def)
qed

lemma parse_document_dumps: "wf_json v \<Longrightarrow> parse_document label (canonical_bytes v) = Inr (canon v)"
  using loads_dumps [of reject_duplicate_json_object v]
  by (simp add: parse_document_def canonical_bytes_def reject_duplicate_iff)

theorem control_plane_document_trusted_witness:
  "load_control_plane_json True 1000 (good_calls ''{}'') ''doc'' = Inr [] \<and> leaf_trusted (good_calls ''{}'')"
proof -
  have "parse_document ''doc'' ''{}'' = Inr (JObj [])" by code_simp
  then have l: "load_control_plane_json True 1000 (good_calls ''{}'') ''doc'' = Inr []"
    by (intro load_good_calls) (simp_all add: max_control_plane_bytes_def)
  then show ?thesis using control_plane_document_trusted [OF l] by blast
qed

end
