(* ===== verification/Decision_Card.thy ===== *)
theory Decision_Card
  imports Trust Sha256
begin

text \<open>
  Requests and decision cards of \<open>src/src/sddgov/autonomy.py\<close>: the vocabulary of risk
  levels, categories and effects, the canonical L3 operation payload, building and rendering
  an ACTION REQUIRED package, the closed request schemas per category, and the check that a
  displayed package is bound to its outer request.
\<close>


section \<open>Vocabulary\<close>

definition risk_levels :: "string list" where
  "risk_levels = [''L0'', ''L1'', ''L2'', ''L3'']"

definition routine_operations :: "string list" where
  "routine_operations =
     [''issue'', ''branch'', ''implementation'', ''commit'', ''feature_branch_push'', ''pull_request'', ''review'',
      ''review_fix'', ''lint'', ''typecheck'', ''test'', ''e2e'', ''security_scan'', ''dependency_conflict'',
      ''git_conflict'', ''recoverable_retry'', ''integrity_verification'', ''ci'', ''merge'', ''release_readiness'']"

definition escalation_categories :: "string list" where
  "escalation_categories =
     [''uncertainty'', ''product_decision'', ''high_risk_operation'', ''operational_action'', ''necessary_uat'']"

definition high_risk_categories :: "string list" where
  "high_risk_categories =
     [''production_data_deletion'', ''irreversible_migration'', ''secret_change'', ''permission_boundary_change'',
      ''real_payment'', ''high_privilege_production_operation'', ''public_release'']"

definition sensitive_effects :: "string list" where
  "sensitive_effects =
     [''production'', ''destructive'', ''irreversible'', ''secret_change'', ''permission_boundary_change'',
      ''real_payment'', ''high_privilege'', ''public_publish'']"

definition known_categories :: "string list" where
  "known_categories = routine_operations @ escalation_categories @ high_risk_categories
     @ [''checkpoint'', ''integrity_mismatch'']"

definition action_required_fields :: "string list" where
  "action_required_fields =
     [''decision_id'', ''risk_level'', ''why_human_input_is_required'', ''what_agent_already_verified'', ''options'',
      ''recommended'', ''why'', ''impact_if_no_decision'', ''scope_of_approval'']"


section \<open>The exact operation payload\<close>

fun contains :: "string \<Rightarrow> string \<Rightarrow> bool" where
  "contains p [] = (p = [])"
| "contains p (c # s) = (starts_with p (c # s) \<or> contains p s)"

text \<open>\<open>(?i)(password|secret|token|credential|private[_-]?key)\<close>.\<close>

definition sensitive_key :: "string \<Rightarrow> bool" where
  "sensitive_key k \<longleftrightarrow> list_ex (\<lambda>p. contains p (lower k))
     [''password'', ''secret'', ''token'', ''credential'', ''privatekey'', ''private_key'', ''private-key'']"

function contains_sensitive_key :: "json \<Rightarrow> bool" where
  "contains_sensitive_key (JObj d) =
     (\<exists>kv\<in>set d. sensitive_key (fst kv) \<or> contains_sensitive_key (snd kv))"
| "contains_sensitive_key (JArr xs) = (\<exists>v\<in>set xs. contains_sensitive_key v)"
| "contains_sensitive_key (JStr s) = False"
| "contains_sensitive_key (JInt i) = False"
| "contains_sensitive_key (JBool b) = False"
| "contains_sensitive_key JNull = False"
  by pat_completeness auto
termination
  by (relation "measure size") (auto dest!: size_json_obj simp: size_json_arr less_Suc_eq_le size_list_estimation')

text \<open>\<open>key in SENSITIVE_EFFECTS and value is True\<close> for every member.\<close>

definition effects_ok :: "obj \<Rightarrow> bool" where
  "effects_ok d \<longleftrightarrow> list_all (\<lambda>kv. fst kv \<in> set sensitive_effects \<and> snd kv = JBool True) d"

definition canonical_digest :: "json \<Rightarrow> string" where
  "canonical_digest v = sha256_hex (canonical_bytes v)"

definition payload_fields :: "string list" where
  "payload_fields =
     [''repository'', ''project'', ''environment'', ''scope'', ''category'', ''target'', ''parameters'', ''effects'']"

definition validate_operation_payload :: "json \<Rightarrow> string result" where
  "validate_operation_payload payload =
     require (is_dict payload \<and> keys_eq (dict_val payload) payload_fields)
       (ValueError ''operation_payload has an invalid contract'')
     (let p = dict_val payload in
      rbind (in_strings (get p ''category'') (high_risk_categories @ [''high_risk_operation''])) (\<lambda>known.
      require known (ValueError ''operation_payload category is not an L3 operation'')
      (require (nonblank (get p ''target'')) (ValueError ''operation_payload target must not be blank'')
      (case find (\<lambda>k. \<not> nonblank (get p k)) [''repository'', ''project'', ''environment'', ''scope''] of
         Some k \<Rightarrow> Inl (ValueError (''operation_payload '' @ k @ '' must not be blank''))
       | None \<Rightarrow>
      require (is_dict (get p ''parameters'')) (ValueError ''operation_payload parameters must be an object'')
      (require (\<not> contains_sensitive_key (get p ''parameters''))
        (ValueError ''operation_payload must reference secrets, never contain them'')
      (require (is_dict (get p ''effects'') \<and> effects_ok (dict_val (get p ''effects'')))
        (ValueError ''operation_payload effects are invalid'')
      (require (get p ''category'' = JStr ''public_release'' \<longrightarrow>
          get (dict_val (get p ''effects'')) ''public_publish'' = JBool True)
        (ValueError ''public_release operation must declare public_publish'')
      (require (has_key (dict_val (get p ''effects'')) ''public_publish'' \<longrightarrow>
          get p ''category'' = JStr ''public_release'')
        (ValueError ''public_publish effect requires public_release category'')
      (Inr (canonical_digest payload))))))))))"


section \<open>Decision cards\<close>

definition package_parameters :: "string list" where
  "package_parameters = action_required_fields @ [''operation_payload'']"

text \<open>\<open>[item.strip() for item in v if item.strip()]\<close>.\<close>

definition stripped_items :: "json list \<Rightarrow> string list result" where
  "stripped_items xs = rbind (mapr (method_str ''strip'') xs) (\<lambda>ss.
     Inr (filter (\<lambda>s. s \<noteq> []) (map strip ss)))"

text \<open>\<open>v[k].strip()\<close> is empty.\<close>

definition item_blank :: "json \<Rightarrow> string \<Rightarrow> bool result" where
  "item_blank v k = rbind (item v k) (\<lambda>w. rbind (method_str ''strip'' w) (\<lambda>s. Inr (strip s = [])))"

definition option_label :: "json \<Rightarrow> json result" where
  "option_label opt =
     rbind (set_of opt) (\<lambda>ks.
     require (set ks = set [JStr ''label'', JStr ''description''])
       (ValueError ''each option must contain only label and description'')
     (rbind (item_blank opt ''label'') (\<lambda>b1.
      rbind (if b1 then Inr True else item_blank opt ''description'') (\<lambda>b.
      require (\<not> b) (ValueError ''ACTION REQUIRED options must not be blank'')
      (item opt ''label'')))))"

definition missing_field :: "obj \<Rightarrow> string \<Rightarrow> bool" where
  "missing_field p k \<longleftrightarrow> \<not> truthy (get p k) \<or> (is_str (get p k) \<and> strip (str_val (get p k)) = [])"

text \<open>The package that is returned, and the check of the operation payload by risk level.\<close>

definition card_package :: "obj \<Rightarrow> string list \<Rightarrow> json list \<Rightarrow> obj" where
  "card_package a verified choices =
     [(''heading'', JStr ''ACTION REQUIRED''), (''decision_id'', get a ''decision_id''),
      (''risk_level'', get a ''risk_level''),
      (''why_human_input_is_required'', get a ''why_human_input_is_required''),
      (''what_agent_already_verified'', JArr (map JStr verified)), (''options'', JArr choices),
      (''recommended'', get a ''recommended''), (''why'', get a ''why''),
      (''impact_if_no_decision'', get a ''impact_if_no_decision''),
      (''scope_of_approval'', get a ''scope_of_approval'')]
     @ (if get a ''operation_payload'' = JNull then [] else [(''operation_payload'', get a ''operation_payload'')])"

definition card_payload_check :: "obj \<Rightarrow> unit result" where
  "card_payload_check a =
     (if get a ''risk_level'' = JStr ''L3''
      then rbind (validate_operation_payload (get a ''operation_payload'')) (\<lambda>_. Inr ())
      else require (get a ''operation_payload'' = JNull)
             (ValueError ''only an L3 ACTION REQUIRED may contain operation_payload'') (Inr ()))"

text \<open>\<open>not decision_id.strip() or not why_human_input_is_required.strip()\<close>.\<close>

definition card_reason_blank :: "obj \<Rightarrow> bool result" where
  "card_reason_blank a =
     rbind (method_str ''strip'' (get a ''decision_id'')) (\<lambda>did.
       if strip did = [] then Inr True
       else rbind (method_str ''strip'' (get a ''why_human_input_is_required'')) (\<lambda>w. Inr (strip w = [])))"

text \<open>The body of the function, on its bound keyword arguments.\<close>

definition build_card :: "obj \<Rightarrow> obj result" where
  "build_card a =
     rbind (in_strings (get a ''risk_level'') [''L2'', ''L3'', ''Operational'', ''UAT'']) (\<lambda>known.
     require known (ValueError ''ACTION REQUIRED risk must be L2, L3, Operational, or UAT'')
     (rbind (iter_items (get a ''what_agent_already_verified'')) (\<lambda>items.
      rbind (stripped_items items) (\<lambda>verified.
      rbind (iter_items (get a ''options'')) (\<lambda>choices.
      rbind (card_reason_blank a) (\<lambda>blank.
      require (\<not> blank) (ValueError ''ACTION REQUIRED needs a decision ID and bounded reason'')
      (require (verified \<noteq> []) (ValueError ''ACTION REQUIRED must list what the Agent already verified'')
      (require (2 \<le> length choices) (ValueError ''ACTION REQUIRED must provide at least two options'')
      (rbind (mapr option_label choices) (\<lambda>labels.
       require (get a ''recommended'' \<in> set labels) (ValueError ''recommended must name one provided option'')
       (rbind (card_payload_check a) (\<lambda>_.
        require (filter (missing_field (card_package a verified choices)) action_required_fields = [])
          (ValueError (''ACTION REQUIRED missing fields: '' @
             join '', '' (filter (missing_field (card_package a verified choices)) action_required_fields)))
        (Inr (card_package a verified choices))))))))))))))"

text \<open>
  \<open>build_action_required(**arguments)\<close>: passing something that is not a mapping, an
  unknown keyword or too few keywords is a \<open>TypeError\<close> of the call itself.
\<close>

definition build_action_required :: "json \<Rightarrow> obj result" where
  "build_action_required arguments =
     require (is_dict arguments) (TypeError ''argument after ** must be a mapping'')
     (require (keys_within (dict_val arguments) package_parameters) (TypeError ''unexpected keyword argument'')
     (require (list_all (has_key (dict_val arguments)) action_required_fields)
       (TypeError ''missing required keyword-only argument'')
     (build_card (dict_val arguments))))"


section \<open>Rendering\<close>

text \<open>\<open>"\n".join(lines)\<close> on values of which only strings may be joined.\<close>

definition join_lines :: "json list \<Rightarrow> string result" where
  "join_lines ls = require (list_all is_str ls) (TypeError ''sequence item: expected str instance'')
     (Inr (join [CHR 0x0A] (map str_val ls)))"

definition option_lines :: "json \<Rightarrow> json list result" where
  "option_lines opt = rbind (item opt ''label'') (\<lambda>l. rbind (item opt ''description'') (\<lambda>d.
     Inr [JStr (''Option '' @ py_str l @ '':''), d, JStr []]))"

definition render_action_required :: "obj \<Rightarrow> string result" where
  "render_action_required package =
     require (get package ''heading'' = JStr ''ACTION REQUIRED''
         \<and> list_all (\<lambda>k. truthy (get package k)) action_required_fields)
       (ValueError ''invalid ACTION REQUIRED package'')
     (rbind (iter_items (get package ''what_agent_already_verified'')) (\<lambda>items.
      rbind (iter_items (get package ''options'')) (\<lambda>opts.
      rbind (mapr option_lines opts) (\<lambda>option_blocks.
      rbind (if get package ''risk_level'' = JStr ''L3''
             then rbind (validate_operation_payload (get package ''operation_payload'')) (\<lambda>_.
                    Inr [JStr [], JStr ''Exact operation payload:'', JStr (dumps (get package ''operation_payload''))])
             else Inr []) (\<lambda>payload_lines.
      rbind (join_lines
        ([JStr ''ACTION REQUIRED'', JStr [], JStr (''Decision ID: '' @ py_str (get package ''decision_id'')),
          JStr (''Risk Level: '' @ py_str (get package ''risk_level'')), JStr [],
          JStr ''Why human input is required:'', get package ''why_human_input_is_required'', JStr [],
          JStr ''What Agent already verified:'']
         @ map (\<lambda>i. JStr (''- '' @ py_str i)) items @ [JStr []] @ concat option_blocks
         @ [JStr ''Recommended:'', get package ''recommended'', JStr [], JStr ''Why:'', get package ''why'', JStr [],
            JStr ''Impact if no decision:'', get package ''impact_if_no_decision'', JStr [],
            JStr ''Scope of this approval:'', get package ''scope_of_approval'']
         @ payload_lines)) (\<lambda>text.
        Inr (text @ [CHR 0x0A])))))))"


section \<open>Closed request schemas\<close>

definition closed_base :: "string list" where
  "closed_base = [''risk_level'', ''category'', ''effects'']"

text \<open>Callers have checked that the category is a string.\<close>

definition category_of :: "obj \<Rightarrow> string" where
  "category_of request = str_val (get request ''category'')"

definition l0_l1_envelope_error :: "obj \<Rightarrow> string option" where
  "l0_l1_envelope_error request =
     (let category = category_of request in
      if category \<in> set [''operational_action'', ''necessary_uat''] then None
      else if \<not> keys_within request (closed_base @
                (if category = ''integrity_mismatch'' then [''unrelated_work_exists'']
                 else if category = ''uncertainty'' then [''machine_verifiable'', ''unrelated_work_exists'']
                 else []))
      then Some ''low_risk_action_requires_closed_typed_executor_contract''
      else if get request ''effects'' \<noteq> JObj [] then None
      else if list_ex (\<lambda>k. has_key request k \<and> \<not> is_bool (get request k)) [''machine_verifiable'', ''unrelated_work_exists'']
      then Some ''low_risk_action_boolean_field_is_invalid''
      else None)"

definition category_schema :: "string \<Rightarrow> string list" where
  "category_schema category =
     (if category = ''product_decision''
      then [''decision_id'', ''decision_scope'', ''assumptions_sha256'', ''reopen_condition_triggered'', ''decision_package'',
            ''unrelated_work_exists'', ''assumption_paths'', ''approver_id'', ''valid_days'', ''owner_client'']
      else if category \<in> set (''high_risk_operation'' # high_risk_categories)
      then [''approval_id'', ''operation_id'', ''operation_payload'', ''decision_package'', ''machine_verifiable'', ''unrelated_work_exists'']
      else if category = ''operational_action''
      then [''action_id'', ''action_owner'', ''action_scope'', ''action_ttl_minutes'', ''decision_package'', ''unrelated_work_exists'']
      else if category = ''necessary_uat''
      then [''uat_id'', ''uat_owner'', ''uat_scope'', ''uat_ttl_minutes'', ''decision_package'', ''unrelated_work_exists'']
      else if category = ''uncertainty'' then [''machine_verifiable'', ''unrelated_work_exists'', ''decision_package'']
      else if category = ''integrity_mismatch'' then [''unrelated_work_exists'']
      else [])"

definition closed_category_envelope_error :: "obj \<Rightarrow> string option" where
  "closed_category_envelope_error request =
     (let category = category_of request in
      if category = ''necessary_uat'' \<and> has_key request ''machine_verifiable''
      then Some ''machine_verifiable_work_is_not_necessary_uat''
      else if \<not> keys_within request (closed_base @ category_schema category)
      then Some ''request_contains_fields_outside_closed_category_schema''
      else None)"


section \<open>Binding a package to its request\<close>

text \<open>The last four checks, on the risk, identity and scope the outer request names.\<close>

definition binding_check :: "obj \<Rightarrow> json \<Rightarrow> json \<Rightarrow> json \<Rightarrow> string option" where
  "binding_check package expected_risk identity scope =
     (if get package ''risk_level'' \<noteq> expected_risk then Some ''action_required_risk_does_not_match_request''
      else if \<not> nonblank identity then Some ''action_required_outer_identity_is_required''
      else if get package ''decision_id'' \<noteq> identity then Some ''action_required_identity_does_not_match_request''
      else if \<not> nonblank scope then Some ''action_required_outer_scope_is_required''
      else if get package ''scope_of_approval'' \<noteq> scope then Some ''action_required_scope_does_not_match_request''
      else None)"

definition action_required_binding_error :: "obj \<Rightarrow> obj \<Rightarrow> string option result" where
  "action_required_binding_error request package =
     (let category = category_of request in
      if category = ''product_decision''
      then Inr (binding_check package (JStr ''L2'') (get request ''decision_id'') (get request ''decision_scope''))
      else if category \<in> set (high_risk_categories @ [''high_risk_operation''])
      then
        (let payload = get request ''operation_payload'' in
         if get package ''risk_level'' \<noteq> JStr ''L3'' then Inr (Some ''action_required_risk_does_not_match_request'')
         else if \<not> is_dict payload then Inr (Some ''l3_prompt_requires_exact_operation_payload'')
         else
           (case validate_operation_payload payload of
              Inl e \<Rightarrow> (if is_ValueError e then Inr (Some ''l3_prompt_requires_exact_operation_payload'') else Inl e)
            | Inr _ \<Rightarrow>
                (if get (dict_val payload) ''category'' \<noteq> JStr category
                    \<or> \<not> py_eq (get (dict_val payload) ''effects'') (get request ''effects'')
                 then Inr (Some ''l3_prompt_payload_does_not_match_request'')
                 else if \<not> py_eq (get package ''operation_payload'') payload
                 then Inr (Some ''l3_prompt_package_payload_does_not_match_request'')
                 else if \<not> nonblank (get request ''operation_id'') then Inr (Some ''l3_prompt_requires_operation_id'')
                 else Inr (binding_check package (JStr ''L3'') (get request ''approval_id'')
                        (get (dict_val payload) ''scope'')))))
      else if category = ''operational_action''
      then Inr (binding_check package (JStr ''Operational'') (get request ''action_id'') (get request ''action_scope''))
      else if category = ''necessary_uat''
      then Inr (binding_check package (JStr ''UAT'') (get request ''uat_id'') (get request ''uat_scope''))
      else Inr (binding_check package (get request ''risk_level'') (get package ''decision_id'')
             (get package ''scope_of_approval'')))"


section \<open>What a built package guarantees\<close>

lemma mapr_Inr_all: "mapr f xs = Inr ys \<Longrightarrow> x \<in> set xs \<Longrightarrow> \<exists>y. f x = Inr y \<and> y \<in> set ys"
  by (induction xs arbitrary: ys) (auto elim!: resultE)

lemma mapr_Inr_from: "mapr f xs = Inr ys \<Longrightarrow> y \<in> set ys \<Longrightarrow> \<exists>x\<in>set xs. f x = Inr y"
  by (induction xs arbitrary: ys) (auto elim!: resultE)

lemma mapr_exI: "(\<And>x. x \<in> set xs \<Longrightarrow> \<exists>y. f x = Inr y) \<Longrightarrow> \<exists>ys. mapr f xs = Inr ys"
  by (simp add: mapr_ok_iff)

lemma item_blank_Inr: "item_blank v k = Inr b \<Longrightarrow> \<exists>d s. v = JObj d \<and> map_of d k = Some (JStr s) \<and> b = (strip s = [])"
  by (auto simp: item_blank_def item_Inr_iff method_str_Inr_iff elim!: resultE)

text \<open>An accepted option is an object with a non-blank label and description.\<close>

lemma option_label_Inr:
  assumes "option_label opt = Inr l"
  obtains d label desc where "opt = JObj d" "map_of d ''label'' = Some (JStr label)"
    "map_of d ''description'' = Some (JStr desc)" "strip label \<noteq> []" "strip desc \<noteq> []" "l = JStr label"
proof -
  from assms obtain ks b1 b where b: "item_blank opt ''label'' = Inr b1"
    "(if b1 then Inr True else item_blank opt ''description'') = Inr b" "\<not> b" "item opt ''label'' = Inr l"
    unfolding option_label_def by (elim resultE) (rule that)
  then have nb: "\<not> b1" by (cases b1) simp_all
  then obtain d s where d: "opt = JObj d" "map_of d ''label'' = Some (JStr s)" "strip s \<noteq> []"
    using item_blank_Inr [OF b(1)] by blast
  moreover obtain t where "map_of d ''description'' = Some (JStr t)" "strip t \<noteq> []"
    using b(2,3) nb d(1) item_blank_Inr [of opt "''description''" b] by auto
  ultimately show thesis using that b(4) by (fastforce simp: item_Inr_iff)
qed

lemma card_reason_blank_Inr:
  "card_reason_blank a = Inr False \<Longrightarrow> nonblank (get a ''decision_id'') \<and> nonblank (get a ''why_human_input_is_required'')"
  by (auto simp: card_reason_blank_def method_str_Inr_iff elim!: resultE split: if_splits)

lemma card_payload_check_Inr:
  assumes "card_payload_check a = Inr u"
  shows "get a ''risk_level'' = JStr ''L3'' \<Longrightarrow> \<exists>h. validate_operation_payload (get a ''operation_payload'') = Inr h"
    and "get a ''risk_level'' \<noteq> JStr ''L3'' \<Longrightarrow> get a ''operation_payload'' = JNull"
  using assms by (auto simp: card_payload_check_def elim!: resultE)

lemma build_action_required_Inr:
  assumes "build_action_required args = Inr package"
  obtains a verified choices labels where "args = JObj a"
    "str_in (get a ''risk_level'') [''L2'', ''L3'', ''Operational'', ''UAT'']"
    "nonblank (get a ''decision_id'')" "nonblank (get a ''why_human_input_is_required'')"
    "verified \<noteq> []" "\<forall>s\<in>set verified. s \<noteq> []" "2 \<le> length choices" "mapr option_label choices = Inr labels"
    "get a ''recommended'' \<in> set labels" "card_payload_check a = Inr ()"
    "package = card_package a verified choices" "\<forall>k\<in>set action_required_fields. \<not> missing_field package k"
proof -
  from assms have "is_dict args" and b: "build_card (dict_val args) = Inr package"
    unfolding build_action_required_def by (elim resultE, simp)+
  then obtain a where args: "args = JObj a" by (cases args) simp_all
  from b obtain kn items verified choices blank labels u where
    k: "in_strings (get a ''risk_level'') [''L2'', ''L3'', ''Operational'', ''UAT''] = Inr kn" "kn"
    and it: "stripped_items items = Inr verified"
    and bl: "card_reason_blank a = Inr blank" "\<not> blank" "verified \<noteq> []" "2 \<le> length choices"
    and lab: "mapr option_label choices = Inr labels" "get a ''recommended'' \<in> set labels"
    and pay: "card_payload_check a = Inr u"
    and fin: "filter (missing_field (card_package a verified choices)) action_required_fields = []"
      "(Inr (card_package a verified choices) :: obj result) = Inr package"
    unfolding build_card_def args dict_val.simps by (elim resultE) (rule that)
  have risk: "str_in (get a ''risk_level'') [''L2'', ''L3'', ''Operational'', ''UAT'']"
    using k by (cases kn) (simp_all add: in_strings_True_iff)
  have nb: "nonblank (get a ''decision_id'') \<and> nonblank (get a ''why_human_input_is_required'')"
    using bl(1,2) by (intro card_reason_blank_Inr) simp
  have ver: "\<forall>s\<in>set verified. s \<noteq> []" using it by (auto simp: stripped_items_def elim!: rbind_InrE)
  show thesis
    by (rule that [OF args risk conjunct1 [OF nb] conjunct2 [OF nb] bl(3) ver bl(4) lab])
      (use pay fin in \<open>auto simp: filter_empty_conv\<close>)
qed

lemma card_package_simps:
  "get (card_package a verified choices) ''heading'' = JStr ''ACTION REQUIRED''"
  "get (card_package a verified choices) ''decision_id'' = get a ''decision_id''"
  "get (card_package a verified choices) ''risk_level'' = get a ''risk_level''"
  "get (card_package a verified choices) ''why_human_input_is_required'' = get a ''why_human_input_is_required''"
  "get (card_package a verified choices) ''what_agent_already_verified'' = JArr (map JStr verified)"
  "get (card_package a verified choices) ''options'' = JArr choices"
  "get (card_package a verified choices) ''recommended'' = get a ''recommended''"
  "get (card_package a verified choices) ''why'' = get a ''why''"
  "get (card_package a verified choices) ''impact_if_no_decision'' = get a ''impact_if_no_decision''"
  "get (card_package a verified choices) ''scope_of_approval'' = get a ''scope_of_approval''"
  "get (card_package a verified choices) ''operation_payload'' = get a ''operation_payload''"
  by (simp_all add: card_package_def)

lemma option_lines_total:
  assumes "mapr option_label choices = Inr labels"
  shows "\<exists>blocks. mapr option_lines choices = Inr blocks \<and> (\<forall>b\<in>set blocks. list_all is_str b)"
proof -
  have one: "\<exists>b. option_lines opt = Inr b \<and> list_all is_str b" if opt: "opt \<in> set choices" for opt
  proof -
    obtain l where "option_label opt = Inr l" using mapr_Inr_all [OF assms opt] by blast
    then show ?thesis
    proof (rule option_label_Inr)
      fix d label desc
      assume "opt = JObj d" "map_of d ''label'' = Some (JStr label)" "map_of d ''description'' = Some (JStr desc)"
      then show ?thesis by (simp add: option_lines_def)
    qed
  qed
  then obtain blocks where b: "mapr option_lines choices = Inr blocks" using mapr_exI [of choices option_lines] by blast
  have "list_all is_str y" if "y \<in> set blocks" for y
    using mapr_Inr_from [OF b that] one by force
  then show ?thesis using b by blast
qed

lemma labels_str: "mapr option_label choices = Inr labels \<Longrightarrow> l \<in> set labels \<Longrightarrow> is_str l"
  using mapr_Inr_from [of option_label choices labels l] by (auto elim!: option_label_Inr)

lemma list_all_concat: "(\<forall>b\<in>set bs. list_all P b) \<Longrightarrow> list_all P (concat bs)"
  by (induction bs) auto

text \<open>Everything a built package lacks to be rendered is that two of its texts are strings.\<close>

lemma built_package_lines:
  assumes "build_action_required args = Inr package"
  obtains a verified choices blocks where "args = JObj a" "package = card_package a verified choices"
    "is_str (get a ''decision_id'')" "is_str (get a ''risk_level'')" "is_str (get a ''why_human_input_is_required'')"
    "is_str (get a ''recommended'')" "list_all (\<lambda>k. truthy (get package k)) action_required_fields"
    "mapr option_lines choices = Inr blocks" "list_all is_str (concat blocks)" "card_payload_check a = Inr ()"
  using assms
proof (rule build_action_required_Inr)
  fix a verified choices labels
  assume *: "args = JObj a" "str_in (get a ''risk_level'') [''L2'', ''L3'', ''Operational'', ''UAT'']"
    "nonblank (get a ''decision_id'')" "nonblank (get a ''why_human_input_is_required'')"
    "mapr option_label choices = Inr labels" "get a ''recommended'' \<in> set labels" "card_payload_check a = Inr ()"
    "package = card_package a verified choices" "\<forall>k\<in>set action_required_fields. \<not> missing_field package k"
  obtain blocks where bl: "mapr option_lines choices = Inr blocks" "\<forall>b\<in>set blocks. list_all is_str b"
    using option_lines_total [OF *(5)] by blast
  have tr: "list_all (\<lambda>k. truthy (get package k)) action_required_fields"
    using *(9) by (auto simp: list_all_iff missing_field_def)
  have strs: "is_str (get a ''decision_id'')" "is_str (get a ''risk_level'')" "is_str (get a ''why_human_input_is_required'')"
    using *(2-4) by (simp_all add: nonblank_def str_in_def)
  show thesis
    by (rule that [OF *(1,8) strs labels_str [OF *(5,6)] tr bl(1) list_all_concat [OF bl(2)] *(7)])
qed

definition l3_lines :: "obj \<Rightarrow> json list" where
  "l3_lines a = (if get a ''risk_level'' = JStr ''L3''
     then [JStr [], JStr ''Exact operation payload:'', JStr (dumps (get a ''operation_payload''))] else [])"

lemma is_str_id: "is_str v \<Longrightarrow> JStr (str_val v) = v"
  by (cases v) simp_all

lemma render_package:
  assumes tr: "list_all (\<lambda>k. truthy (get (card_package a verified choices) k)) action_required_fields"
    and bl: "mapr option_lines choices = Inr blocks" "list_all is_str (concat blocks)" and pc: "card_payload_check a = Inr ()"
    and strs: "is_str (get a ''why_human_input_is_required'')" "is_str (get a ''recommended'')" "is_str (get a ''why'')"
      "is_str (get a ''impact_if_no_decision'')" "is_str (get a ''scope_of_approval'')"
  shows "\<exists>front. (\<forall>l\<in>set front. is_str l) \<and> front \<noteq> [] \<and> render_action_required (card_package a verified choices) =
    Inr (join [CHR 0x0A] (map str_val (front @ l3_lines a)) @ [CHR 0x0A])"
proof -
  let ?p = "card_package a verified choices"
  let ?front = "[JStr ''ACTION REQUIRED'', JStr [], JStr (''Decision ID: '' @ py_str (get ?p ''decision_id'')),
          JStr (''Risk Level: '' @ py_str (get ?p ''risk_level'')), JStr [],
          JStr ''Why human input is required:'', get ?p ''why_human_input_is_required'', JStr [],
          JStr ''What Agent already verified:'']
         @ map (\<lambda>i. JStr (''- '' @ py_str i)) (map JStr verified) @ [JStr []] @ concat blocks
         @ [JStr ''Recommended:'', get ?p ''recommended'', JStr [], JStr ''Why:'', get ?p ''why'', JStr [],
            JStr ''Impact if no decision:'', get ?p ''impact_if_no_decision'', JStr [],
            JStr ''Scope of this approval:'', get ?p ''scope_of_approval'']"
  have pl: "(if get ?p ''risk_level'' = JStr ''L3''
             then rbind (validate_operation_payload (get ?p ''operation_payload'')) (\<lambda>_.
                    Inr [JStr [], JStr ''Exact operation payload:'', JStr (dumps (get ?p ''operation_payload''))])
             else Inr []) = Inr (l3_lines a)"
    using pc unfolding card_package_simps l3_lines_def card_payload_check_def by (auto elim!: rbind_InrE)
  have fr: "list_all is_str ?front" using bl(2) strs unfolding card_package_simps by (auto simp: list_all_iff)
  have all: "list_all is_str (?front @ l3_lines a)" using fr unfolding list_all_append l3_lines_def by simp
  have it: "iter_items (get ?p ''what_agent_already_verified'') = Inr (map JStr verified)"
    "iter_items (get ?p ''options'') = Inr choices" by (simp_all add: card_package_simps)
  have "render_action_required ?p = Inr (join [CHR 0x0A] (map str_val (?front @ l3_lines a)) @ [CHR 0x0A])"
    using all unfolding render_action_required_def it pl
    by (simp only: tr bl(1) card_package_simps(1) require_simps rbind_simps join_lines_def append_assoc simp_thms)
  then show ?thesis using fr unfolding list_all_iff by blast
qed


section \<open>Properties of payloads and cards\<close>


definition sample_payload :: obj where
  "sample_payload = [(''repository'', JStr ''r''), (''project'', JStr ''p''), (''environment'', JStr ''prod''),
     (''scope'', JStr ''one deploy''), (''category'', JStr ''high_risk_operation''), (''target'', JStr ''t''),
     (''parameters'', JObj []), (''effects'', JObj [(''production'', JBool True)])]"


text \<open>
  A package that was built can be shown: when its \<open>why\<close>, impact and scope are texts,
  rendering succeeds, and for an L3 package the last lines are the exact canonical rendering
  of the operation payload, the very text whose digest the approval signs.
\<close>

theorem built_package_renders:
  assumes "build_action_required args = Inr package"
    and "is_str (get package ''why'')" and "is_str (get package ''impact_if_no_decision'')"
    and "is_str (get package ''scope_of_approval'')"
  shows "\<exists>text. render_action_required package = Inr text
    \<and> (get package ''risk_level'' = JStr ''L3'' \<longrightarrow>
        (\<exists>front h. text = front @ [CHR 0x0A] @ ''Exact operation payload:'' @ [CHR 0x0A]
            @ dumps (get package ''operation_payload'') @ [CHR 0x0A]
          \<and> validate_operation_payload (get package ''operation_payload'') = Inr h))"
  using assms(1)
proof (rule built_package_lines)
  fix a verified choices blocks
  assume *: "args = JObj a" "package = card_package a verified choices"
    "is_str (get a ''why_human_input_is_required'')" "is_str (get a ''recommended'')"
    "list_all (\<lambda>k. truthy (get package k)) action_required_fields"
    "mapr option_lines choices = Inr blocks" "list_all is_str (concat blocks)" "card_payload_check a = Inr ()"
  obtain front where f: "front \<noteq> []" and r: "render_action_required package =
      Inr (join [CHR 0x0A] (map str_val (front @ l3_lines a)) @ [CHR 0x0A])"
    using render_package [of a verified choices blocks] * assms(2-4) unfolding *(2) card_package_simps by blast
  have "\<exists>pre. join [CHR 0x0A] (map str_val (front @ l3_lines a)) @ [CHR 0x0A] =
      pre @ [CHR 0x0A] @ ''Exact operation payload:'' @ [CHR 0x0A] @ dumps (get a ''operation_payload'') @ [CHR 0x0A]"
    if "get a ''risk_level'' = JStr ''L3''"
    using that join_append [of "map str_val front" "map str_val (l3_lines a)" "[CHR 0x0A]"] f
    by (simp add: l3_lines_def)
  then show ?thesis using r card_payload_check_Inr(1) [OF *(8)] unfolding *(2) card_package_simps by auto
qed

definition sample_args :: obj where
  "sample_args = [(''decision_id'', JStr ''D-1''), (''risk_level'', JStr ''L3''), (''why_human_input_is_required'', JStr ''w''),
     (''what_agent_already_verified'', JArr [JStr ''tests'']),
     (''options'', JArr [JObj [(''label'', JStr ''A''), (''description'', JStr ''x'')], JObj [(''label'', JStr ''B''), (''description'', JStr ''y'')]]),
     (''recommended'', JStr ''A''), (''why'', JStr ''z''), (''impact_if_no_decision'', JStr ''i''),
     (''scope_of_approval'', JStr ''one deploy''), (''operation_payload'', JObj sample_payload)]"

lemma sample_payload_ok: "validate_operation_payload (JObj sample_payload) = Inr (canonical_digest (JObj sample_payload))"
proof -
  have "keys_eq sample_payload payload_fields" by (auto simp: keys_eq_def sample_payload_def payload_fields_def)
  then show ?thesis
    by (simp add: validate_operation_payload_def Let_def)
      (simp add: sample_payload_def effects_ok_def sensitive_effects_def strip_eq_Nil_iff is_space_def)
qed

lemma sample_card: "build_action_required (JObj sample_args) = Inr (card_package sample_args [''tests'']
     [JObj [(''label'', JStr ''A''), (''description'', JStr ''x'')], JObj [(''label'', JStr ''B''), (''description'', JStr ''y'')]])"
  using sample_payload_ok
  by (simp add: build_action_required_def build_card_def sample_args_def card_reason_blank_def card_payload_check_def
      keys_within_def package_parameters_def action_required_fields_def stripped_items_def option_label_def set_of_def
      hashable_def item_blank_def missing_field_def card_package_def strip_def is_space_def insert_commute)

theorem built_package_renders_witness:
  "\<exists>package text. build_action_required (JObj sample_args) = Inr package \<and> render_action_required package = Inr text"
  using built_package_renders [OF sample_card] sample_card by (auto simp: card_package_simps sample_args_def)

text \<open>
  The builder does not require \<open>why\<close> and \<open>impact_if_no_decision\<close> to be texts: a
  package whose \<open>why\<close> is a number is built, and rendering it raises a \<open>TypeError\<close>.
\<close>

theorem built_package_may_not_render:
  "\<exists>package. build_action_required (JObj (put ''why'' (JInt 1) sample_args)) = Inr package
     \<and> render_action_required package = Inl (TypeError ''sequence item: expected str instance'')"
  using sample_payload_ok
  by (simp add: build_action_required_def build_card_def sample_args_def card_reason_blank_def card_payload_check_def
      keys_within_def package_parameters_def action_required_fields_def stripped_items_def option_label_def set_of_def
      hashable_def item_blank_def missing_field_def card_package_def strip_def is_space_def insert_commute
      render_action_required_def option_lines_def join_lines_def)

end
