(* ===== verification/Fs_Snapshot.thy ===== *)
theory Fs_Snapshot
  imports Trust
begin

text \<open>
  Paths and descriptor snapshots of \<open>src/src/sddgov/fs_security.py\<close>: the lexical path checks
  every repository-relative name goes through, \<open>canonicalize_platform_path\<close>, and
  \<open>FileSetSnapshot\<close>, which reads a set of files and checks at the end of the block that
  each of them is still the one it read.

  As in the control-plane reader, a snapshot is a function of what the system calls return.
\<close>


section \<open>Paths\<close>

text \<open>
  \<open>str(PurePosixPath(p)) == p\<close>, relative, without empty, dot and dot-dot components. The
  path \<open>.\<close> itself has no components at all and passes these lexical checks.
\<close>

definition plain_components :: "string \<Rightarrow> bool" where
  "plain_components p \<longleftrightarrow> p = ''.'' \<or>
     list_all (\<lambda>c. c \<noteq> [] \<and> c \<noteq> ''.'' \<and> c \<noteq> ''..'') (split_char (CHR ''/'') p)"

definition is_absolute :: "string \<Rightarrow> bool" where
  "is_absolute p \<longleftrightarrow> starts_with ''/'' p"

definition safe_relative :: "string \<Rightarrow> bool" where
  "safe_relative p \<longleftrightarrow> p \<noteq> [] \<and> CHR 0x5C \<notin> set p \<and> CHR 0x00 \<notin> set p \<and> \<not> is_absolute p \<and> plain_components p"

text \<open>\<open>os.path.abspath\<close>: join with the working directory, then \<open>normpath\<close>.\<close>

fun norm_components :: "string list \<Rightarrow> string list \<Rightarrow> string list" where
  "norm_components acc [] = rev acc"
| "norm_components acc (c # cs) =
     (if c = [] \<or> c = ''.'' then norm_components acc cs
      else if c = ''..'' then norm_components (tl acc) cs
      else norm_components (c # acc) cs)"

definition abspath :: "string \<Rightarrow> string \<Rightarrow> string" where
  "abspath cwd p =
     (let full = (if is_absolute p then p else cwd @ ''/'' @ p);
          root = (if starts_with ''//'' full \<and> \<not> starts_with ''///'' full then ''//'' else ''/'')
      in root @ join ''/'' (norm_components [] (split_char (CHR ''/'') full)))"

definition canonicalize_platform_path :: "bool \<Rightarrow> string \<Rightarrow> string \<Rightarrow> string" where
  "canonicalize_platform_path darwin cwd p =
     (let candidate = abspath cwd p;
          parts = norm_components [] (split_char (CHR ''/'') candidate)
      in if darwin \<and> \<not> starts_with ''//'' candidate \<and> parts \<noteq> [] \<and> hd parts \<in> set [''var'', ''tmp'', ''etc'']
         then ''/private'' @ candidate else candidate)"


section \<open>Descriptor snapshots\<close>

text \<open>\<open>_file_snapshot\<close>.\<close>

definition same_file :: "os_stat \<Rightarrow> os_stat \<Rightarrow> bool" where
  "same_file a b \<longleftrightarrow> st_dev a = st_dev b \<and> st_ino a = st_ino b \<and> st_kind a = st_kind b \<and> st_perm a = st_perm b
     \<and> st_nlink a = st_nlink b \<and> st_size a = st_size b \<and> st_mtime_ns a = st_mtime_ns b \<and> st_ctime_ns a = st_ctime_ns b"

text \<open>The calls for one file: when it is read, and when the set is revalidated.\<close>

record file_calls =
  f_parents :: "os_stat result list"
  f_opened :: "os_stat result"
  f_path :: "os_stat result"
  f_chunks :: "string list result"
  f_after :: "os_stat result"
  g_chunks :: "string list result"
  g_file :: "os_stat result"
  g_path :: "os_stat result"
  g_parents :: "(os_stat result \<times> os_stat result) list"

text \<open>
  A snapshot of one root: opening the root, the calls per relative path, and the final
  comparison of the retained root with what the path reaches now.
\<close>

record snapshot =
  sn_open :: "unit result"
  sn_file :: "string \<Rightarrow> file_calls"
  sn_root_again :: "(os_stat \<times> os_stat) result"

fun bounded_read :: "nat \<Rightarrow> nat \<Rightarrow> string list \<Rightarrow> string result" where
  "bounded_read max_bytes n [] = Inr []"
| "bounded_read max_bytes n (chunk # chunks) =
     (if chunk = [] then Inr []
      else require (n + length chunk \<le> max_bytes) (ValueError ''descriptor snapshot input exceeds the bounded size'')
           (rbind (bounded_read max_bytes (n + length chunk) chunks) (\<lambda>rest. Inr (chunk @ rest))))"

definition safe_open :: "string \<Rightarrow> 'a result \<Rightarrow> 'a result" where
  "safe_open label m = (case m of
     Inl e \<Rightarrow> (if is_OSError e then Inl (ValueError (label @ '' file cannot be opened safely'')) else Inl e)
   | Inr a \<Rightarrow> Inr a)"

definition snapshot_read_body :: "string \<Rightarrow> nat \<Rightarrow> file_calls \<Rightarrow> string result" where
  "snapshot_read_body label max_bytes f =
     rbind (mapr (\<lambda>p. rbind p (\<lambda>m. require (st_kind m = Directory)
              (ValueError (label @ '' path component is not a directory'')) (Inr ()))) (f_parents f)) (\<lambda>_.
     rbind (f_opened f) (\<lambda>before.
     rbind (f_path f) (\<lambda>path_before.
     require (st_kind before = Regular \<and> st_nlink before = 1 \<and> same_file before path_before
         \<and> st_size before \<le> int max_bytes)
       (ValueError (label @ '' file cannot be read safely''))
     (rbind (rbind (f_chunks f) (bounded_read max_bytes 0)) (\<lambda>raw.
      rbind (f_after f) (\<lambda>after.
      require (same_file before after \<and> int (length raw) = st_size before)
        (ValueError (label @ '' file changed while being read''))
      (Inr raw)))))))"

definition snapshot_read :: "snapshot \<Rightarrow> string \<Rightarrow> nat \<Rightarrow> string \<Rightarrow> string result" where
  "snapshot_read sn label max_bytes path =
     require (safe_relative path) (ValueError (label @ '' path is unsafe''))
       (safe_open label (snapshot_read_body label max_bytes (sn_file sn path)))"

text \<open>Revalidation of one file that was read before.\<close>

definition revalidate_file :: "string \<Rightarrow> nat \<Rightarrow> file_calls \<Rightarrow> string \<Rightarrow> unit result" where
  "revalidate_file label max_bytes f raw =
     (case
        rbind (rbind (g_chunks f) (bounded_read max_bytes 0)) (\<lambda>again.
        rbind (g_file f) (\<lambda>current_file.
        rbind (g_path f) (\<lambda>current_path.
        rbind (f_opened f) (\<lambda>expected.
        require (again = raw \<and> same_file current_file expected \<and> same_file current_path expected)
          (ValueError (label @ '' file set changed during operation''))
        (rbind (mapr (\<lambda>(cur, opn). rbind cur (\<lambda>current. rbind opn (\<lambda>opened.
           require (st_kind current \<noteq> Symlink \<and> st_kind current = Directory \<and> same_inode current opened)
             (ValueError (label @ '' directory set changed during operation'')) (Inr ())))) (g_parents f)) (\<lambda>_. Inr ())))))) of
        Inl e \<Rightarrow> (if is_OSError e then Inl (ValueError (label @ '' file set changed during operation'')) else Inl e)
      | Inr u \<Rightarrow> Inr ())"

definition root_identity :: "string \<Rightarrow> snapshot \<Rightarrow> unit result" where
  "root_identity label sn = (case sn_root_again sn of
     Inl e \<Rightarrow> (if is_OSError e then Inl (ValueError (label @ '' changed during operation'')) else Inl e)
   | Inr (opened, current) \<Rightarrow>
       require (st_kind opened = Directory \<and> st_kind current = Directory \<and> same_inode opened current)
         (ValueError (label @ '' changed during operation'')) (Inr ()))"

definition revalidate :: "snapshot \<Rightarrow> string \<Rightarrow> nat \<Rightarrow> string list \<Rightarrow> unit result" where
  "revalidate sn label max_bytes paths =
     rbind (mapr (\<lambda>p. rbind (snapshot_read sn label max_bytes p)
                        (revalidate_file label max_bytes (sn_file sn p))) paths) (\<lambda>_.
     root_identity label sn)"

text \<open>
  \<open>with FileSetSnapshot(root, label) as s: body\<close>, where \<open>paths\<close> are the files the body
  reads: the body's exception wins, else the set is revalidated.
\<close>

definition with_snapshot :: "snapshot \<Rightarrow> string \<Rightarrow> nat \<Rightarrow> string list \<Rightarrow> 'a result \<Rightarrow> 'a result" where
  "with_snapshot sn label max_bytes paths body =
     rbind (sn_open sn) (\<lambda>_. rbind body (\<lambda>v. rbind (revalidate sn label max_bytes paths) (\<lambda>_. Inr v)))"

definition one_mib :: nat where
  "one_mib = 1048576"

definition read_repository_regular_file :: "snapshot \<Rightarrow> string \<Rightarrow> string result" where
  "read_repository_regular_file sn path =
     with_snapshot sn ''product approval repository'' one_mib [path]
       (snapshot_read sn ''product approval repository'' one_mib path)"


section \<open>What a completed snapshot guarantees\<close>

text \<open>A file that was one regular, unlinked, unchanging file from the first read to the end.\<close>

definition file_stable :: "nat \<Rightarrow> file_calls \<Rightarrow> string \<Rightarrow> bool" where
  "file_stable max_bytes f raw \<longleftrightarrow> (\<exists>before path after file again_path.
     f_opened f = Inr before \<and> f_path f = Inr path \<and> f_after f = Inr after \<and> g_file f = Inr file \<and> g_path f = Inr again_path
     \<and> st_kind before = Regular \<and> st_nlink before = 1 \<and> int (length raw) = st_size before \<and> length raw \<le> max_bytes
     \<and> same_file before path \<and> same_file before after \<and> same_file file before \<and> same_file again_path before
     \<and> rbind (f_chunks f) (bounded_read max_bytes 0) = Inr raw \<and> rbind (g_chunks f) (bounded_read max_bytes 0) = Inr raw)"

lemma snapshot_read_Inr:
  assumes "snapshot_read sn label n path = Inr raw"
  obtains before p after where "safe_relative path" "f_opened (sn_file sn path) = Inr before"
    "f_path (sn_file sn path) = Inr p" "f_after (sn_file sn path) = Inr after"
    "st_kind before = Regular" "st_nlink before = 1" "same_file before p" "st_size before \<le> int n"
    "rbind (f_chunks (sn_file sn path)) (bounded_read n 0) = Inr raw" "same_file before after" "int (length raw) = st_size before"
proof -
  from assms have safe: "safe_relative path" and b: "snapshot_read_body label n (sn_file sn path) = Inr raw"
    by (auto simp: snapshot_read_def safe_open_def split: sum.splits if_splits elim!: require_InrE)
  from b obtain us before p r after where "f_opened (sn_file sn path) = Inr before" "f_path (sn_file sn path) = Inr p"
    "st_kind before = Regular \<and> st_nlink before = 1 \<and> same_file before p \<and> st_size before \<le> int n"
    "rbind (f_chunks (sn_file sn path)) (bounded_read n 0) = Inr r" "f_after (sn_file sn path) = Inr after"
    "same_file before after \<and> int (length r) = st_size before" "(Inr r :: string result) = Inr raw"
    unfolding snapshot_read_body_def by (elim rbind_InrE [where m = "mapr _ _"] rbind_InrE [where m = "f_opened _"]
        rbind_InrE [where m = "f_path _"] require_InrE rbind_InrE [where m = "rbind _ _"] rbind_InrE [where m = "f_after _"]) (rule that)
  then show thesis using that [OF safe, of before p after] by simp
qed

lemma revalidate_file_Inr:
  assumes "revalidate_file label n f raw = Inr u"
  obtains cur p expected where "rbind (g_chunks f) (bounded_read n 0) = Inr raw" "g_file f = Inr cur" "g_path f = Inr p"
    "f_opened f = Inr expected" "same_file cur expected" "same_file p expected"
  using assms unfolding revalidate_file_def
  by (simp add: rbind_Inr_iff require_Inr_iff split: sum.splits if_splits) (elim exE conjE, metis that rbind_simps(2))

text \<open>
  C38. A snapshot block that completes read only stable files: for every path of the
  block, both before and after the work of the block the path and the descriptor were the same
  regular file with one link, mode, size and times, and its bytes at the end were the bytes
  that were used. The path itself is relative, without dot-dot, backslash or NUL.
\<close>

theorem snapshot_block_stable:
  assumes "with_snapshot sn label n paths body = Inr v" and "p \<in> set paths"
  shows "body = Inr v \<and> safe_relative p
    \<and> (\<exists>raw. snapshot_read sn label n p = Inr raw \<and> file_stable n (sn_file sn p) raw)"
proof -
  from assms(1) obtain us where b: "body = Inr v" and m: "mapr (\<lambda>p. rbind (snapshot_read sn label n p)
      (revalidate_file label n (sn_file sn p))) paths = Inr us"
    by (auto simp: with_snapshot_def revalidate_def elim!: rbind_InrE)
  then have "\<exists>u. rbind (snapshot_read sn label n p) (revalidate_file label n (sn_file sn p)) = Inr u"
    using mapr_ok_iff [of "\<lambda>p. rbind (snapshot_read sn label n p) (revalidate_file label n (sn_file sn p))" paths] assms(2) by auto
  then obtain raw u where r: "snapshot_read sn label n p = Inr raw" and g: "revalidate_file label n (sn_file sn p) raw = Inr u"
    by (auto simp: rbind_Inr_iff)
  from r have "safe_relative p \<and> file_stable n (sn_file sn p) raw"
  proof (rule snapshot_read_Inr)
    fix before q after
    assume *: "safe_relative p" "f_opened (sn_file sn p) = Inr before" "f_path (sn_file sn p) = Inr q"
      "f_after (sn_file sn p) = Inr after" "st_kind before = Regular" "st_nlink before = 1" "same_file before q"
      "st_size before \<le> int n" "rbind (f_chunks (sn_file sn p)) (bounded_read n 0) = Inr raw"
      "same_file before after" "int (length raw) = st_size before"
    from g show ?thesis
      by (rule revalidate_file_Inr) (use * in \<open>auto simp: file_stable_def\<close>)
  qed
  then show ?thesis using b r by blast
qed

definition stable_stat :: "nat \<Rightarrow> os_stat" where
  "stable_stat n = \<lparr>st_kind = Regular, st_perm = 420, st_uid = 1000, st_gid = 1000, st_dev = 1, st_ino = 9, st_nlink = 1,
     st_size = int n, st_mtime_ns = 0, st_ctime_ns = 0\<rparr>"

definition stable_file :: "string \<Rightarrow> file_calls" where
  "stable_file raw = \<lparr>f_parents = [], f_opened = Inr (stable_stat (length raw)), f_path = Inr (stable_stat (length raw)),
     f_chunks = Inr [raw], f_after = Inr (stable_stat (length raw)), g_chunks = Inr [raw], g_file = Inr (stable_stat (length raw)),
     g_path = Inr (stable_stat (length raw)), g_parents = []\<rparr>"

definition stable_snapshot :: "(string \<Rightarrow> string) \<Rightarrow> snapshot" where
  "stable_snapshot content = \<lparr>sn_open = Inr (), sn_file = (\<lambda>p. stable_file (content p)), sn_root_again = Inr (root_dir, root_dir)\<rparr>"

lemma bounded_read_one: "raw \<noteq> [] \<Longrightarrow> length raw \<le> n \<Longrightarrow> bounded_read n 0 [raw] = Inr raw"
  by simp

lemma same_file_refl [simp]: "same_file a a" "same_inode a a"
  by (simp_all add: same_file_def same_inode_def)

lemma stable_stat_simps [simp]: "st_kind (stable_stat n) = Regular" "st_nlink (stable_stat n) = 1" "st_size (stable_stat n) = int n"
  by (simp_all add: stable_stat_def)

lemma stable_snapshot_read:
  "safe_relative p \<Longrightarrow> content p \<noteq> [] \<Longrightarrow> length (content p) \<le> n \<Longrightarrow>
   snapshot_read (stable_snapshot content) label n p = Inr (content p)"
  by (simp add: snapshot_read_def stable_snapshot_def snapshot_read_body_def stable_file_def safe_open_def)

lemma stable_snapshot_block:
  assumes "\<forall>p\<in>set paths. safe_relative p \<and> content p \<noteq> [] \<and> length (content p) \<le> n" and "body = Inr v"
  shows "with_snapshot (stable_snapshot content) label n paths body = Inr v"
proof -
  have "revalidate_file label n (sn_file (stable_snapshot content) p) (content p) = Inr ()" if "p \<in> set paths" for p
    using assms(1) that by (simp add: revalidate_file_def stable_snapshot_def stable_file_def)
  then have "\<forall>p\<in>set paths. \<exists>u. rbind (snapshot_read (stable_snapshot content) label n p)
      (revalidate_file label n (sn_file (stable_snapshot content) p)) = Inr u"
    using assms(1) stable_snapshot_read [of _ content n label] by auto
  then obtain us where "mapr (\<lambda>p. rbind (snapshot_read (stable_snapshot content) label n p)
      (revalidate_file label n (sn_file (stable_snapshot content) p))) paths = Inr us"
    unfolding mapr_ok_iff [symmetric] by blast
  then show ?thesis using assms(2)
    by (simp add: with_snapshot_def revalidate_def root_identity_def)
      (simp add: stable_snapshot_def root_dir_def)
qed

theorem snapshot_block_stable_witness:
  "\<exists>raw. snapshot_read (stable_snapshot (\<lambda>_. ''x'')) ''l'' 10 ''a/b'' = Inr raw \<and> file_stable 10 (stable_file ''x'') raw"
proof -
  have safe: "safe_relative ''a/b''"
    by (simp add: safe_relative_def is_absolute_def starts_with_def plain_components_def)
  then have w: "with_snapshot (stable_snapshot (\<lambda>_. ''x'')) ''l'' 10 [''a/b''] (Inr ()) = Inr ()"
    by (intro stable_snapshot_block) simp_all
  from snapshot_block_stable [OF w, of "''a/b''"] show ?thesis by (auto simp: stable_snapshot_def)
qed

end
