(* ===== verification/Approvals.thy ===== *)
theory Approvals
  imports Governance Decision_Card Fs_Snapshot
begin

text \<open>
  Approvals of \<open>src/src/sddgov/autonomy.py\<close>: the decision store, plain-language L2 decisions,
  owner-signed L2 and L3 approval envelopes, trusted approvers and their repository binding,
  importing, re-verifying and consuming approvals, and the client side of the nonce broker.

  Everything outside the process is collected in a \<open>world\<close>: the clock, the process identity,
  what the system calls return for the control-plane documents and for the repository files
  (one snapshot per snapshot label), the output of two \<open>git\<close> commands, the Ed25519 primitive
  of the third-party \<open>cryptography\<close> package as a predicate on key, signature and message
  bytes, and the broker service as a state transformer on its own state. A world is fixed
  during one operation; two operations may run in different worlds.
\<close>


section \<open>The outside world\<close>

record 'b world =
  w_now :: int
  w_darwin :: bool
  w_posix :: bool
  w_euid :: int
  w_env_override :: bool
  w_approvers_inside :: bool
  w_domains_inside :: bool
  w_root :: string
  w_cwd :: string
  w_approvers :: load_calls
  w_domains :: load_calls
  w_runtime :: load_calls
  w_snapshot :: "string \<Rightarrow> snapshot"
  w_git_toplevel :: "(int \<times> string) option"
  w_git_remote :: "(int \<times> string) option"
  w_ed25519 :: "string \<Rightarrow> string \<Rightarrow> string \<Rightarrow> bool"
  w_broker_parents :: "os_stat result list"
  w_broker_socket :: "os_stat result"
  w_broker_group :: "int option"
  w_serve :: "string \<Rightarrow> 'b \<Rightarrow> string list result \<times> 'b"

definition load_document :: "'b world \<Rightarrow> load_calls \<Rightarrow> string \<Rightarrow> obj result" where
  "load_document w calls label = load_control_plane_json (w_posix w) (w_euid w) calls label"

text \<open>\<open>secrets.compare_digest\<close> on two strings refuses non-ASCII text.\<close>

definition is_ascii :: "string \<Rightarrow> bool" where
  "is_ascii s \<longleftrightarrow> list_all (\<lambda>c. (of_char c :: nat) < 128) s"

definition compare_digest :: "string \<Rightarrow> string \<Rightarrow> bool result" where
  "compare_digest a b = require (is_ascii a \<and> is_ascii b)
     (TypeError ''comparing strings with non-ASCII characters is not supported'') (Inr (a = b))"


section \<open>Base64 and signatures\<close>

definition b64_value :: "char \<Rightarrow> nat option" where
  "b64_value c = (let n = of_char c :: nat in
     if 65 \<le> n \<and> n \<le> 90 then Some (n - 65)
     else if 97 \<le> n \<and> n \<le> 122 then Some (n - 71)
     else if 48 \<le> n \<and> n \<le> 57 then Some (n + 4)
     else if c = CHR ''+'' then Some 62
     else if c = CHR ''/'' then Some 63 else None)"

fun b64_groups :: "nat list \<Rightarrow> string" where
  "b64_groups (a # b # c # d # rest) =
     [char_of (a * 4 + b div 16), char_of (b mod 16 * 16 + c div 4), char_of (c mod 4 * 64 + d)] @ b64_groups rest"
| "b64_groups [a, b, c] = [char_of (a * 4 + b div 16), char_of (b mod 16 * 16 + c div 4)]"
| "b64_groups [a, b] = [char_of (a * 4 + b div 16)]"
| "b64_groups _ = []"

text \<open>
  \<open>base64.b64decode(s, validate=True)\<close>: data characters, then at most two padding
  characters; the padding must complete a group of two or three data characters.
\<close>

definition b64decode :: "string \<Rightarrow> string option" where
  "b64decode s =
     (let data = takeWhile (\<lambda>c. b64_value c \<noteq> None) s;
          padding = dropWhile (\<lambda>c. b64_value c \<noteq> None) s;
          n = length data mod 4
      in if list_all (\<lambda>c. c = CHR ''='') padding \<and> length padding \<le> 2
            \<and> (n = 0 \<or> n = 2 \<and> length padding = 2 \<or> n = 3 \<and> 1 \<le> length padding)
         then Some (b64_groups (map (\<lambda>c. the (b64_value c)) data)) else None)"

text \<open>Decoding both texts and verifying; any failure is the same refusal.\<close>

definition verify_signature :: "'b world \<Rightarrow> string \<Rightarrow> string \<Rightarrow> string \<Rightarrow> bool" where
  "verify_signature w public_key signature message =
     (case (b64decode public_key, b64decode signature) of
        (Some k, Some s) \<Rightarrow> w_ed25519 w k s message | _ \<Rightarrow> False)"

definition canonical_receipt :: "obj \<Rightarrow> string" where
  "canonical_receipt receipt = canonical_bytes (JObj receipt)"

definition receipt_digest :: "obj \<Rightarrow> string" where
  "receipt_digest receipt = sha256_hex (canonical_receipt receipt)"


section \<open>Times\<close>

definition us_days :: "int \<Rightarrow> int" where
  "us_days n = n * us_day"

text \<open>\<open>_parse_time\<close>: an aware timestamp as a UTC instant; leaving the year range overflows.\<close>

definition parse_time :: "json \<Rightarrow> string \<Rightarrow> int result" where
  "parse_time v field =
     require (is_str v) (ValueError (''approval receipt '' @ field @ '' must be an RFC3339 timestamp''))
     (case parse_stamp (str_val v) of
        None \<Rightarrow> Inl (ValueError (''approval receipt '' @ field @ '' must be an RFC3339 timestamp''))
      | Some d \<Rightarrow>
          require (is_aware d) (ValueError (''approval receipt '' @ field @ '' must include a timezone''))
          (require (0 \<le> instant d \<and> instant d < max_us) (OverflowError ''date value out of range'')
            (Inr (instant d))))"


section \<open>The decision store\<close>

definition decision_row_ok :: "json \<Rightarrow> bool" where
  "decision_row_ok r \<longleftrightarrow> is_dict r \<and> nonblank (get (dict_val r) ''decision_id'')"

definition decision_store :: "store_file \<Rightarrow> obj result" where
  "decision_store f =
     rbind (read_file f (JObj [(''schema_version'', JStr ''1.0''), (''decisions'', JArr [])])) (\<lambda>data.
     require (is_dict data \<and> get (dict_val data) ''schema_version'' = JStr ''1.0''
         \<and> keys_eq (dict_val data) [''schema_version'', ''decisions''] \<and> is_list (get (dict_val data) ''decisions'')
         \<and> list_all decision_row_ok (list_val (get (dict_val data) ''decisions'')))
       (ValueError ''.sddgov/decisions.json has an invalid contract'')
       (Inr (dict_val data)))"

definition decision_rows :: "obj \<Rightarrow> json list" where
  "decision_rows data = list_val (get data ''decisions'')"

definition has_decision_id :: "json \<Rightarrow> json \<Rightarrow> bool" where
  "has_decision_id i row \<longleftrightarrow> get (dict_val row) ''decision_id'' = i"

text \<open>Appending one row under the lock, unless a row clashes.\<close>

definition append_decision ::
  "(json \<Rightarrow> bool) \<Rightarrow> exn \<Rightarrow> obj \<Rightarrow> repo \<Rightarrow> unit result \<times> repo" where
  "append_decision clash e row s =
     (case decision_store (decisions_json s) of
        Inl x \<Rightarrow> (Inl x, s)
      | Inr data \<Rightarrow>
          (if list_ex clash (decision_rows data) then (Inl e, s)
           else (Inr (), s\<lparr>decisions_json := Doc (JObj (put ''decisions'' (JArr (decision_rows data @ [JObj row])) data))\<rparr>)))"

definition find_decision :: "json \<Rightarrow> repo \<Rightarrow> obj option result" where
  "find_decision i s =
     (if \<not> truthy i then Inr None
      else rbind (decision_store (decisions_json s)) (\<lambda>data.
        Inr (map_option dict_val (find (has_decision_id i) (decision_rows data)))))"

definition project_profile :: "repo \<Rightarrow> string result" where
  "project_profile s =
     rbind (read_file (project_json s) JNull) (\<lambda>project.
     rbind (if is_dict project
            then in_strings (get (dict_val project) ''profile'') [''solo-fast'', ''team-standard'', ''regulated'']
            else Inr False) (\<lambda>ok.
     require ok (ValueError ''.sddgov/project.json has an invalid profile'')
       (Inr (str_val (get (dict_val project) ''profile'')))))"


section \<open>Plain-language L2 decisions\<close>

definition bounded_ab_card :: "obj \<Rightarrow> bool" where
  "bounded_ab_card package \<longleftrightarrow>
     (let options = list_val (get package ''options'') in
      is_list (get package ''options'') \<and> length options = 2 \<and> list_all is_dict options
      \<and> map (\<lambda>opt. get (dict_val opt) ''label'') options = [JStr ''A'', JStr ''B'']
      \<and> get package ''recommended'' = JStr ''A''
      \<and> list_all (\<lambda>opt. nonblank (get (dict_val opt) ''description'')) options)"

definition require_bounded_ab_card :: "obj \<Rightarrow> json list result" where
  "require_bounded_ab_card package =
     require (bounded_ab_card package) (ValueError ''product decision request must present one bounded A/B card'')
       (Inr (list_val (get package ''options'')))"

definition plain_request_fields :: "string list" where
  "plain_request_fields =
     [''risk_level'', ''category'', ''effects'', ''decision_id'', ''decision_scope'', ''decision_package'']"

text \<open>Any exception of building the package becomes one \<open>ValueError\<close>.\<close>

definition rebuild_package :: "json \<Rightarrow> string \<Rightarrow> obj result" where
  "rebuild_package v message = rescue (\<lambda>_. True) (ValueError message) (build_action_required v)"

definition plain_l2_request_binding ::
  "'b world \<Rightarrow> string \<Rightarrow> json \<Rightarrow> json \<Rightarrow> string \<Rightarrow> json \<Rightarrow> string result" where
  "plain_l2_request_binding w request_path decision_id scope selected_label decision_package =
     require (safe_relative request_path)
       (ValueError ''plain-language product decision request must be repository-relative'')
     (rbind (read_repository_regular_file (w_snapshot w ''product approval repository'') request_path) (\<lambda>raw.
      rbind (load_unique_json_bytes raw ''plain-language product decision request'') (\<lambda>v.
      require (is_dict v \<and> keys_eq (dict_val v) plain_request_fields \<and> get (dict_val v) ''risk_level'' = JStr ''L2''
          \<and> get (dict_val v) ''category'' = JStr ''product_decision'' \<and> get (dict_val v) ''effects'' = JObj []
          \<and> get (dict_val v) ''decision_id'' = decision_id \<and> get (dict_val v) ''decision_scope'' = scope)
        (ValueError ''plain-language product decision request is not exact'')
      (rbind (rebuild_package (get (dict_val v) ''decision_package'')
          ''plain-language product decision request has an invalid Decision Package'') (\<lambda>package.
       rbind (action_required_binding_error (dict_val v) package) (\<lambda>err.
       require (err = None) (ValueError ''plain-language product decision request is not scope-bound'')
       (rbind (require_bounded_ab_card package) (\<lambda>options.
        require (length (filter (\<lambda>opt. get (dict_val opt) ''label'' = JStr selected_label) options) = 1)
          (ValueError ''selected product decision label is not in the bounded card'')
        (rbind (if decision_package = JNull then Inr ()
                else rbind (rebuild_package decision_package ''incoming plain-language Decision Package is invalid'') (\<lambda>incoming.
                       require (py_eq (JObj incoming) (JObj package))
                         (ValueError ''incoming plain-language Decision Package differs from the approved request'')
                         (Inr ()))) (\<lambda>_.
         Inr (sha256_hex raw)))))))))))"

definition choice_prefix :: string where
  "choice_prefix = ''owner_explicit_choice:''"

definition plain_decision_row ::
  "int \<Rightarrow> string \<Rightarrow> string \<Rightarrow> string \<Rightarrow> string \<Rightarrow> string \<Rightarrow> string \<Rightarrow> digest \<Rightarrow> obj" where
  "plain_decision_row now decision_id summary scope basis profile request_path request_sha256 =
     [(''decision_id'', JStr decision_id), (''risk_level'', JStr ''L2''), (''summary'', JStr summary), (''scope'', JStr scope),
      (''basis'', JStr basis), (''status'', JStr ''approved''), (''recorded_at'', JStr (stamp now)),
      (''reopen_condition'', JStr ''scope_or_assumptions_change''), (''approval_mode'', JStr ''plain_language_owner_choice''),
      (''profile'', JStr profile), (''approved_by'', JStr ''project_owner''), (''request_path'', JStr request_path),
      (''request_sha256'', JStr request_sha256)]"

text \<open>The checks of \<open>record_decision\<close> before the store is locked: the row to append.\<close>

definition record_decision_plan ::
  "'b world \<Rightarrow> string \<Rightarrow> string \<Rightarrow> string \<Rightarrow> string \<Rightarrow> string \<Rightarrow> string \<Rightarrow> repo \<Rightarrow> (string \<times> obj) result" where
  "record_decision_plan w decision_id summary scope basis reopen_condition request_path s =
     rbind (project_profile s) (\<lambda>profile.
     require (profile = ''team-standard'')
       (ValueError ''this profile requires a signed owner L2 approval; use import-product-approval'')
     (require (list_all (\<lambda>v. strip v \<noteq> [] \<and> length (utf8 v) \<le> 4096) [decision_id, summary, scope, basis, reopen_condition])
       (ValueError ''plain-language product decision fields must be bounded text'')
     (require (starts_with choice_prefix basis \<and> strip (remove_prefix choice_prefix basis) \<noteq> [])
       (ValueError ''plain-language product decision basis must be owner_explicit_choice:<label>'')
     (require (reopen_condition = ''scope_or_assumptions_change'')
       (ValueError ''plain-language product decision reopen_condition must be scope_or_assumptions_change'')
     (rbind (plain_l2_request_binding w request_path (JStr decision_id) (JStr scope)
          (strip (remove_prefix choice_prefix basis)) JNull) (\<lambda>request_sha256.
      Inr (profile, plain_decision_row (w_now w) decision_id summary scope basis profile request_path request_sha256)))))))"

definition record_decision ::
  "'b world \<Rightarrow> string \<Rightarrow> string \<Rightarrow> string \<Rightarrow> string \<Rightarrow> string \<Rightarrow> string \<Rightarrow> repo \<Rightarrow> obj result \<times> repo" where
  "record_decision w decision_id summary scope basis reopen_condition request_path s =
     (case record_decision_plan w decision_id summary scope basis reopen_condition request_path s of
        Inl e \<Rightarrow> (Inl e, s)
      | Inr (profile, row) \<Rightarrow>
          (case append_decision (has_decision_id (JStr decision_id)) (ValueError ''product decision ID already exists'') row s of
             (Inl e, s') \<Rightarrow> (Inl e, s')
           | (Inr u, s') \<Rightarrow>
               (Inr [(''decision_id'', JStr decision_id), (''verification'', JStr ''PLAIN_LANGUAGE_DECISION_RECORDED''),
                     (''approval_mode'', JStr ''plain_language_owner_choice''), (''profile'', JStr profile)], s')))"


section \<open>Trusted approvers\<close>

definition approver_row_ok :: "json \<Rightarrow> bool" where
  "approver_row_ok r \<longleftrightarrow> is_dict r \<and> keys_eq (dict_val r) [''approver_id'', ''algorithm'', ''public_key'', ''status'']
     \<and> nonblank (get (dict_val r) ''approver_id'') \<and> get (dict_val r) ''algorithm'' = JStr ''ed25519''
     \<and> str_in (get (dict_val r) ''status'') [''active'', ''revoked''] \<and> is_str (get (dict_val r) ''public_key'')"

text \<open>
  The row loop: an invalid row or a repeated ID raises. A \<open>status\<close> that is a list or an object
  is unhashable and raises \<open>TypeError\<close> inside the same test.
\<close>

fun check_approver_rows :: "string list \<Rightarrow> json list \<Rightarrow> unit result" where
  "check_approver_rows seen [] = Inr ()"
| "check_approver_rows seen (r # rs) =
     require (\<not> (is_dict r \<and> keys_eq (dict_val r) [''approver_id'', ''algorithm'', ''public_key'', ''status'']
         \<and> nonblank (get (dict_val r) ''approver_id'') \<and> get (dict_val r) ''algorithm'' = JStr ''ed25519''
         \<and> \<not> hashable (get (dict_val r) ''status''))) (TypeError ''unhashable type'')
     (require (approver_row_ok r) (ValueError ''trusted approver record has an invalid contract'')
     (require (str_val (get (dict_val r) ''approver_id'') \<notin> set seen)
       (ValueError ''trusted approver store contains duplicate approver_id'')
     (check_approver_rows (str_val (get (dict_val r) ''approver_id'') # seen) rs)))"

definition active_match :: "string \<Rightarrow> json \<Rightarrow> bool" where
  "active_match i r \<longleftrightarrow> get (dict_val r) ''approver_id'' = JStr i \<and> get (dict_val r) ''status'' = JStr ''active''"

definition trusted_approver_store :: "'b world \<Rightarrow> obj result" where
  "trusted_approver_store w =
     rbind (trusted_approvers_path (w_env_override w) (w_approvers_inside w)) (\<lambda>_.
       load_document w (w_approvers w) ''fixed trusted approver store'')"

definition trusted_approver :: "'b world \<Rightarrow> string \<Rightarrow> obj result" where
  "trusted_approver w approver_id =
     rbind (trusted_approver_store w) (\<lambda>data.
     require (keys_eq data [''schema_version'', ''approvers''] \<and> get data ''schema_version'' = JStr ''1.0''
         \<and> is_list (get data ''approvers''))
       (ValueError ''trusted approver store is missing or invalid'')
     (rbind (check_approver_rows [] (list_val (get data ''approvers''))) (\<lambda>_.
      case filter (active_match approver_id) (list_val (get data ''approvers'')) of
        [r] \<Rightarrow> Inr (dict_val r)
      | _ \<Rightarrow> Inl (ValueError ''approval receipt signer is not a unique active trusted approver''))))"

definition binding_fields :: "string list" where
  "binding_fields = [''approver_id'', ''repository_id'', ''repository_root'', ''trust_domain'', ''status'']"

definition binding_row_shape :: "json \<Rightarrow> bool" where
  "binding_row_shape r \<longleftrightarrow> is_dict r \<and> keys_eq (dict_val r) binding_fields
     \<and> list_all (\<lambda>k. nonblank (get (dict_val r) k)) [''approver_id'', ''repository_id'', ''repository_root'', ''trust_domain'']"

fun check_binding_rows :: "string list \<Rightarrow> json list \<Rightarrow> unit result" where
  "check_binding_rows seen [] = Inr ()"
| "check_binding_rows seen (r # rs) =
     require (\<not> (binding_row_shape r \<and> \<not> hashable (get (dict_val r) ''status''))) (TypeError ''unhashable type'')
     (require (binding_row_shape r \<and> str_in (get (dict_val r) ''status'') [''active'', ''revoked'']
         \<and> str_val (get (dict_val r) ''approver_id'') \<notin> set seen)
       (ValueError ''trusted approver domain record has an invalid contract'')
     (check_binding_rows (str_val (get (dict_val r) ''approver_id'') # seen) rs))"

text \<open>\<open>_repository_identity\<close>: two \<open>git\<close> outputs and the canonical GitHub name.\<close>

definition git_value :: "(int \<times> string) option \<Rightarrow> string result" where
  "git_value out = (case out of
     None \<Rightarrow> Inl (ValueError ''repository identity is unavailable'')
   | Some (code, text) \<Rightarrow>
       require (code = 0 \<and> strip text \<noteq> []) (ValueError ''repository identity is unavailable'')
       (require (length (utf8 (strip text)) \<le> 4096 \<and> CHR 0x0A \<notin> set (strip text) \<and> CHR 0x0D \<notin> set (strip text))
         (ValueError ''repository identity output is invalid'') (Inr (strip text))))"

definition is_ascii_alnum :: "char \<Rightarrow> bool" where
  "is_ascii_alnum c = (let n = of_char c :: nat in 48 \<le> n \<and> n \<le> 57 \<or> 65 \<le> n \<and> n \<le> 90 \<or> 97 \<le> n \<and> n \<le> 122)"

definition repository_component_ok :: "string \<Rightarrow> bool" where
  "repository_component_ok c \<longleftrightarrow> c \<noteq> [] \<and> length c \<le> 100 \<and> is_ascii_alnum (hd c)
     \<and> list_all (\<lambda>x. is_ascii_alnum x \<or> x \<in> set ''_.-'') (tl c)"

definition strip_slashes :: "string \<Rightarrow> string" where
  "strip_slashes s = rev (dropWhile (\<lambda>c. c = CHR ''/'') (rev (dropWhile (\<lambda>c. c = CHR ''/'') s)))"

definition remote_repository :: "string \<Rightarrow> string" where
  "remote_repository remote =
     (if starts_with ''git@github.com:'' remote then drop (length ''git@github.com:'') remote
      else if starts_with ''https://github.com/'' remote then drop (length ''https://github.com/'') remote
      else if starts_with ''ssh://git@github.com/'' remote then drop (length ''ssh://git@github.com/'') remote
      else [])"

text \<open>\<open>Path(p).absolute()\<close> compares equal after dropping empty and dot components only.\<close>

definition double_root :: "string \<Rightarrow> bool" where
  "double_root p \<longleftrightarrow> starts_with ''//'' p \<and> \<not> starts_with ''///'' p"

definition same_path :: "string \<Rightarrow> string \<Rightarrow> bool" where
  "same_path a b \<longleftrightarrow> double_root a = double_root b \<and> path_parts a = path_parts b"

definition absolute_path :: "string \<Rightarrow> string \<Rightarrow> string" where
  "absolute_path cwd p = (if is_absolute p then p else cwd @ ''/'' @ p)"

definition repository_identity :: "'b world \<Rightarrow> string result" where
  "repository_identity w =
     rbind (git_value (w_git_toplevel w)) (\<lambda>top.
     require (same_path (absolute_path (w_cwd w) top) (canonicalize_platform_path (w_darwin w) (w_cwd w) (w_root w)))
       (ValueError ''approval root must be the exact Git worktree root'')
     (rbind (git_value (w_git_remote w)) (\<lambda>remote.
      case split_char (CHR ''/'') (strip_slashes (remove_suffix ''.git'' (remote_repository remote))) of
        [a, b] \<Rightarrow> require (repository_component_ok a \<and> repository_component_ok b)
                    (ValueError ''repository origin is not one canonical GitHub repository'')
                    (Inr (''github.com/'' @ lower a @ ''/'' @ lower b))
      | _ \<Rightarrow> Inl (ValueError ''repository origin is not one canonical GitHub repository''))))"

definition trusted_approver_domain :: "'b world \<Rightarrow> string \<Rightarrow> obj result" where
  "trusted_approver_domain w approver_id =
     rbind (trusted_approver_domains_path (w_domains_inside w)) (\<lambda>_.
     rbind (load_document w (w_domains w) ''fixed trusted approver domain store'') (\<lambda>data.
     require (keys_eq data [''schema_version'', ''bindings''] \<and> get data ''schema_version'' = JStr ''1.0''
         \<and> is_list (get data ''bindings''))
       (ValueError ''trusted approver domain store is missing or invalid'')
     (rbind (check_binding_rows [] (list_val (get data ''bindings''))) (\<lambda>_.
      case filter (active_match approver_id) (list_val (get data ''bindings'')) of
        [r] \<Rightarrow>
          (let binding = dict_val r;
               configured = str_val (get binding ''repository_root'');
               canonical = canonicalize_platform_path (w_darwin w) (w_cwd w) configured
           in require (is_absolute configured \<and> canonical = configured
                  \<and> same_path canonical (canonicalize_platform_path (w_darwin w) (w_cwd w) (w_root w)))
                (ValueError ''trusted approver is not authorized for this repository root'')
              (rbind (repository_identity w) (\<lambda>repository_id.
               require (get binding ''repository_id'' = JStr repository_id)
                 (ValueError ''trusted approver is not authorized for this repository'')
                 (Inr [(''approver_id'', get binding ''approver_id''), (''repository_id'', get binding ''repository_id''),
                       (''trust_domain'', get binding ''trust_domain''), (''status'', get binding ''status'')]))))
      | _ \<Rightarrow> Inl (ValueError ''trusted approver has no unique active trust-domain binding'')))))"


section \<open>Signed envelopes\<close>

definition envelope_shape :: "json \<Rightarrow> bool" where
  "envelope_shape v \<longleftrightarrow> is_dict v \<and> keys_eq (dict_val v) [''schema_version'', ''algorithm'', ''receipt'', ''signature'']
     \<and> get (dict_val v) ''schema_version'' = JStr ''1.0'' \<and> get (dict_val v) ''algorithm'' = JStr ''ed25519''
     \<and> is_dict (get (dict_val v) ''receipt'') \<and> is_str (get (dict_val v) ''signature'')"

definition receipt_of :: "json \<Rightarrow> obj" where
  "receipt_of v = dict_val (get (dict_val v) ''receipt'')"

definition signature_of :: "json \<Rightarrow> string" where
  "signature_of v = str_val (get (dict_val v) ''signature'')"

text \<open>The assumption rows of an L2 receipt against current repository bytes.\<close>

definition assumption_shape :: "json \<Rightarrow> bool" where
  "assumption_shape row \<longleftrightarrow> is_dict row \<and> keys_eq (dict_val row) [''path'', ''sha256'']
     \<and> nonblank (get (dict_val row) ''path'') \<and> sha256_str (get (dict_val row) ''sha256'')"

definition assumption_path_ok :: "string list \<Rightarrow> string \<Rightarrow> bool" where
  "assumption_path_ok seen p \<longleftrightarrow> CHR 0x5C \<notin> set p \<and> \<not> is_absolute p \<and> plain_components p \<and> p \<notin> set seen"

fun check_assumptions :: "snapshot \<Rightarrow> string \<Rightarrow> nat \<Rightarrow> string list \<Rightarrow> json list \<Rightarrow> json list result" where
  "check_assumptions sn label i seen [] = Inr []"
| "check_assumptions sn label i seen (row # rows) =
     require (assumption_shape row)
       (ValueError (''product approval assumptions['' @ show_nat i @ ''] is invalid''))
     (let p = str_val (get (dict_val row) ''path''); h = str_val (get (dict_val row) ''sha256'') in
      require (assumption_path_ok seen p)
        (ValueError (''product approval assumptions['' @ show_nat i @ ''] path is unsafe''))
      (rbind (snapshot_read sn label one_mib p) (\<lambda>raw.
       require (sha256_hex raw = h) (ValueError ''product approval assumption artifact changed'')
       (rbind (check_assumptions sn label (Suc i) (p # seen) rows) (\<lambda>rest.
         Inr (JObj [(''path'', JStr p), (''sha256'', JStr h)] # rest))))))"

definition assumption_paths :: "json list \<Rightarrow> string list" where
  "assumption_paths rows = map (\<lambda>r. str_val (get (dict_val r) ''path'')) rows"

text \<open>With a snapshot of the caller the files are read in it; else in a block of their own.\<close>

definition verified_assumptions_digest :: "'b world \<Rightarrow> string option \<Rightarrow> json \<Rightarrow> string result" where
  "verified_assumptions_digest w outer v =
     require (is_list v \<and> list_val v \<noteq> []) (ValueError ''product approval assumptions must be a non-empty array'')
     (case outer of
        Some label \<Rightarrow>
          rbind (check_assumptions (w_snapshot w label) label 0 [] (list_val v)) (\<lambda>ns.
            Inr (sha256_hex (canonical_bytes (JArr ns))))
      | None \<Rightarrow>
          with_snapshot (w_snapshot w ''product approval assumptions'') ''product approval assumptions'' one_mib
            (assumption_paths (list_val v))
            (rbind (check_assumptions (w_snapshot w ''product approval assumptions'') ''product approval assumptions'' 0 [] (list_val v))
              (\<lambda>ns. Inr (sha256_hex (canonical_bytes (JArr ns))))))"

definition product_receipt_fields :: "string list" where
  "product_receipt_fields =
     [''decision_id'', ''summary'', ''scope'', ''assumptions'', ''assumptions_sha256'', ''reopen_condition'', ''approved_by'',
      ''issued_at'', ''expires_at'', ''nonce'']"

text \<open>The validity window shared by the L2 and L3 receipts.\<close>

definition check_window :: "int \<Rightarrow> obj \<Rightarrow> int \<Rightarrow> string \<Rightarrow> string \<Rightarrow> unit result" where
  "check_window now receipt limit kind too_long =
     rbind (parse_time (get receipt ''issued_at'') ''issued_at'') (\<lambda>issued_at.
     rbind (parse_time (get receipt ''expires_at'') ''expires_at'') (\<lambda>expires_at.
     require (issued_at \<le> now + 5 * us_minute) (ValueError (kind @ '' issued_at is in the future''))
     (require (now < expires_at \<and> issued_at < expires_at)
       (ValueError (kind @ '' is expired or has an invalid validity window''))
     (require (expires_at - issued_at \<le> limit) (ValueError (kind @ '' validity exceeds '' @ too_long)) (Inr ())))))"

definition check_signature :: "'b world \<Rightarrow> obj \<Rightarrow> json \<Rightarrow> string \<Rightarrow> (obj \<times> string) result" where
  "check_signature w approver envelope message =
     require (verify_signature w (str_val (get approver ''public_key'')) (signature_of envelope)
         (canonical_receipt (receipt_of envelope)))
       (ValueError message)
       (Inr (receipt_of envelope, receipt_digest (receipt_of envelope)))"

definition verify_product_envelope :: "'b world \<Rightarrow> string option \<Rightarrow> json \<Rightarrow> (obj \<times> string) result" where
  "verify_product_envelope w outer envelope =
     require (envelope_shape envelope) (ValueError ''signed product approval has an invalid contract'')
     (let receipt = receipt_of envelope in
      require (keys_eq receipt product_receipt_fields
          \<and> list_all (\<lambda>k. k = ''assumptions'' \<or> nonblank (get receipt k)) product_receipt_fields)
        (ValueError ''product approval receipt payload has an invalid contract'')
      (require (get receipt ''reopen_condition'' = JStr ''scope_or_assumptions_change'')
        (ValueError ''product approval reopen_condition is unsupported; use scope_or_assumptions_change'')
      (require (sha256_str (get receipt ''assumptions_sha256''))
        (ValueError ''product approval assumptions_sha256 is invalid'')
      (rbind (verified_assumptions_digest w outer (get receipt ''assumptions'')) (\<lambda>d.
       require (JStr d = get receipt ''assumptions_sha256'')
         (ValueError ''product approval assumptions digest does not match artifacts'')
       (require (12 \<le> length (str_val (get receipt ''nonce'')))
         (ValueError ''product approval nonce must contain at least 12 characters'')
       (rbind (check_window (w_now w) receipt (us_days 366) ''product approval'' ''366 days'') (\<lambda>_.
        rbind (trusted_approver w (str_val (get receipt ''approved_by''))) (\<lambda>approver.
        rbind (trusted_approver_domain w (str_val (get receipt ''approved_by''))) (\<lambda>_.
        check_signature w approver envelope ''product approval signature verification failed''))))))))))"

definition product_decision_row :: "int \<Rightarrow> json \<Rightarrow> obj \<Rightarrow> string \<Rightarrow> obj" where
  "product_decision_row now envelope receipt receipt_sha256 =
     [(''decision_id'', get receipt ''decision_id''), (''risk_level'', JStr ''L2''), (''summary'', get receipt ''summary''),
      (''scope'', get receipt ''scope''), (''basis'', JStr ''verified owner-signed L2 product approval receipt''),
      (''status'', JStr ''approved''), (''recorded_at'', JStr (stamp now)), (''reopen_condition'', get receipt ''reopen_condition''),
      (''assumptions_sha256'', get receipt ''assumptions_sha256''), (''assumptions'', get receipt ''assumptions''),
      (''approved_by'', get receipt ''approved_by''), (''expires_at'', get receipt ''expires_at''),
      (''approval_nonce'', get receipt ''nonce''), (''receipt_sha256'', JStr receipt_sha256),
      (''signature_algorithm'', JStr ''ed25519''), (''approval_envelope'', envelope)]"

text \<open>A row clashes with a new approval that has its ID or its nonce.\<close>

definition approval_clash :: "json \<Rightarrow> json \<Rightarrow> json \<Rightarrow> bool" where
  "approval_clash i nonce row \<longleftrightarrow>
     get (dict_val row) ''decision_id'' = i \<or> get (dict_val row) ''approval_nonce'' = nonce"

definition read_envelope_file :: "'b world \<Rightarrow> string \<Rightarrow> json result" where
  "read_envelope_file w name =
     require (name \<noteq> [] \<and> name \<noteq> ''.'' \<and> name \<noteq> ''..'') (ValueError ''signed product approval path is unsafe'')
     (with_snapshot (w_snapshot w ''signed product approval envelope'') ''signed product approval envelope'' one_mib [name]
       (rbind (snapshot_read (w_snapshot w ''signed product approval envelope'') ''signed product approval envelope'' one_mib name)
         (\<lambda>raw. load_unique_json_bytes raw ''signed product approval envelope'')))"

definition import_product_approval :: "'b world \<Rightarrow> string \<Rightarrow> repo \<Rightarrow> obj result \<times> repo" where
  "import_product_approval w name s =
     (case rbind (read_envelope_file w name) (\<lambda>envelope.
             rbind (verify_product_envelope w None envelope) (\<lambda>(receipt, sha). Inr (envelope, receipt, sha))) of
        Inl e \<Rightarrow> (Inl e, s)
      | Inr (envelope, receipt, sha) \<Rightarrow>
          (case append_decision (approval_clash (get receipt ''decision_id'') (get receipt ''nonce''))
                  (ValueError ''product approval receipt or nonce was already imported'')
                  (product_decision_row (w_now w) envelope receipt sha) s of
             (Inl e, s') \<Rightarrow> (Inl e, s')
           | (Inr u, s') \<Rightarrow>
               (Inr [(''decision_id'', get receipt ''decision_id''), (''approved_by'', get receipt ''approved_by''),
                     (''expires_at'', get receipt ''expires_at''), (''assumptions_sha256'', get receipt ''assumptions_sha256''),
                     (''receipt_sha256'', JStr sha), (''verification'', JStr ''SIGNATURE_VERIFIED'')], s')))"

end
