(* ===== verification/Approval_Use.thy ===== *)
theory Approval_Use
  imports Approvals
begin

text \<open>
  Using approvals (\<open>src/src/sddgov/autonomy.py\<close>): matching a recorded L2 decision with a
  request, re-verifying a stored product decision end to end, owner-signed resolutions of
  external actions, and importing and consuming L3 operation approvals through the nonce
  broker.
\<close>


section \<open>Matching recorded L2 decisions\<close>

definition plain_row_fields :: "string list" where
  "plain_row_fields =
     [''decision_id'', ''risk_level'', ''summary'', ''scope'', ''basis'', ''status'', ''recorded_at'', ''reopen_condition'',
      ''approval_mode'', ''profile'', ''approved_by'', ''request_path'', ''request_sha256'']"

definition plain_row_ok :: "obj \<Rightarrow> json \<Rightarrow> bool" where
  "plain_row_ok decision scope \<longleftrightarrow> keys_eq decision plain_row_fields
     \<and> get decision ''risk_level'' = JStr ''L2'' \<and> get decision ''status'' = JStr ''approved''
     \<and> get decision ''approval_mode'' = JStr ''plain_language_owner_choice''
     \<and> get decision ''profile'' = JStr ''team-standard'' \<and> get decision ''approved_by'' = JStr ''project_owner''
     \<and> get decision ''reopen_condition'' = JStr ''scope_or_assumptions_change''
     \<and> nonblank scope \<and> get decision ''scope'' = scope"

text \<open>\<open>try: m except caught: return False\<close>, for a test that may raise.\<close>

definition test_or_false :: "(exn \<Rightarrow> bool) \<Rightarrow> bool result \<Rightarrow> bool result" where
  "test_or_false caught m = (case m of Inl e \<Rightarrow> (if caught e then Inr False else Inl e) | Inr b \<Rightarrow> Inr b)"

fun is_plain_match_error :: "exn \<Rightarrow> bool" where
  "is_plain_match_error (AttributeError m) = True"
| "is_plain_match_error (OSError m) = True"
| "is_plain_match_error (FileNotFoundError m) = True"
| "is_plain_match_error (ValueError m) = True"
| "is_plain_match_error (UnicodeDecodeError m) = True"
| "is_plain_match_error e = False"

definition plain_l2_approval_matches :: "'b world \<Rightarrow> repo \<Rightarrow> obj \<Rightarrow> json \<Rightarrow> json \<Rightarrow> bool result" where
  "plain_l2_approval_matches w s decision scope decision_package =
     (if \<not> plain_row_ok decision scope then Inr False
      else
        rbind (test_or_false is_ValueError
                (rbind (project_profile s) (\<lambda>profile.
                   if profile \<noteq> ''team-standard'' then Inr False
                   else rbind (parse_time (get decision ''recorded_at'') ''recorded_at'') (\<lambda>_. Inr True)))) (\<lambda>ok.
        if \<not> ok then Inr False
        else
          (let basis = get decision ''basis''; selected = strip (remove_prefix choice_prefix (str_val basis)) in
           if \<not> (is_str basis \<and> starts_with choice_prefix (str_val basis)) \<or> selected = [] then Inr False
           else if \<not> (is_str (get decision ''request_path'') \<and> sha256_str (get decision ''request_sha256'')) then Inr False
           else
             test_or_false is_plain_match_error
               (rbind (plain_l2_request_binding w (str_val (get decision ''request_path'')) (get decision ''decision_id'')
                    (get decision ''scope'') selected decision_package) (\<lambda>current.
                 Inr (JStr current = get decision ''request_sha256''))))))"

definition signed_l2_fields :: "obj \<Rightarrow> string \<Rightarrow> (string \<times> json) list" where
  "signed_l2_fields receipt receipt_sha256 =
     [(''decision_id'', get receipt ''decision_id''), (''summary'', get receipt ''summary''), (''scope'', get receipt ''scope''),
      (''reopen_condition'', get receipt ''reopen_condition''), (''assumptions_sha256'', get receipt ''assumptions_sha256''),
      (''assumptions'', get receipt ''assumptions''), (''approved_by'', get receipt ''approved_by''),
      (''expires_at'', get receipt ''expires_at''), (''approval_nonce'', get receipt ''nonce''),
      (''receipt_sha256'', JStr receipt_sha256), (''signature_algorithm'', JStr ''ed25519'')]"

definition row_carries :: "obj \<Rightarrow> (string \<times> json) list \<Rightarrow> bool" where
  "row_carries row kvs \<longleftrightarrow> list_all (\<lambda>kv. py_eq (get row (fst kv)) (snd kv)) kvs"

definition l2_approval_matches_verified :: "obj \<Rightarrow> json \<Rightarrow> obj \<Rightarrow> string \<Rightarrow> bool" where
  "l2_approval_matches_verified decision scope receipt receipt_sha256 \<longleftrightarrow>
     get decision ''risk_level'' = JStr ''L2'' \<and> get decision ''status'' = JStr ''approved'' \<and> nonblank scope
     \<and> row_carries decision (signed_l2_fields receipt receipt_sha256) \<and> get receipt ''scope'' = scope"

definition l2_approval_matches :: "'b world \<Rightarrow> repo \<Rightarrow> obj \<Rightarrow> json \<Rightarrow> bool result" where
  "l2_approval_matches w s decision scope =
     (if get decision ''approval_mode'' = JStr ''plain_language_owner_choice''
      then plain_l2_approval_matches w s decision scope JNull
      else test_or_false is_ValueError
             (rbind (verify_product_envelope w None (get decision ''approval_envelope'')) (\<lambda>(receipt, sha).
               Inr (l2_approval_matches_verified decision scope receipt sha))))"


section \<open>Re-verifying a stored product decision\<close>

text \<open>\<open>_exact_line_occurrences\<close>: \<open>bytes.splitlines\<close> breaks at CR, LF and CR LF only.\<close>

fun byte_lines_from :: "string \<Rightarrow> string \<Rightarrow> string list" where
  "byte_lines_from acc [] = (if acc = [] then [] else [rev acc])"
| "byte_lines_from acc (c # cs) =
     (if c = CHR 0x0D \<and> cs \<noteq> [] \<and> hd cs = CHR 0x0A then rev acc # byte_lines_from [] (tl cs)
      else if c = CHR 0x0A \<or> c = CHR 0x0D then rev acc # byte_lines_from [] cs
      else byte_lines_from (c # acc) cs)"

definition exact_line_occurrences :: "string list \<Rightarrow> string \<Rightarrow> nat" where
  "exact_line_occurrences artifacts marker =
     sum_list (map (\<lambda>raw. length (filter (\<lambda>l. l = marker) (byte_lines_from [] raw))) artifacts)"

definition owner_client_files :: "string list" where
  "owner_client_files = [''__init__.py'', ''autonomy.py'', ''fs_security.py'', ''governance.py'', ''owner_approval.py'',
     ''owner_cli.py'', ''owner_launcher.sh'', ''trust.py'']"

definition owner_client_identity :: "'b world \<Rightarrow> obj result" where
  "owner_client_identity w =
     (let sn = w_snapshot w ''Owner client package'' in
      rbind (with_snapshot sn ''Owner client package'' one_mib owner_client_files
        (mapr (\<lambda>name. rbind (snapshot_read sn ''Owner client package'' one_mib name) (\<lambda>raw.
           Inr (JObj [(''path'', JStr (''sddgov/'' @ name)), (''sha256'', JStr (sha256_hex raw))]))) owner_client_files)) (\<lambda>rows.
      Inr [(''version'', JStr governance_version), (''source_files'', JArr rows),
           (''source_sha256'', JStr (sha256_hex (canonical_bytes (JArr rows))))]))"

text \<open>The declared assumption paths: plain, sorted, distinct, the signed ones, and with the request.\<close>

definition declared_path_ok :: "json \<Rightarrow> bool" where
  "declared_path_ok v \<longleftrightarrow> is_str v \<and> safe_relative (str_val v)"

definition declared_paths_ok :: "json \<Rightarrow> string \<Rightarrow> obj \<Rightarrow> bool" where
  "declared_paths_ok v request_path receipt \<longleftrightarrow>
     is_list v \<and> list_val v \<noteq> [] \<and> list_all declared_path_ok (list_val v)
     \<and> sorted_wrt (<) (map str_val (list_val v))
     \<and> length (filter (\<lambda>p. p = JStr request_path) (list_val v)) = 1
     \<and> list_val v = map (\<lambda>row. get (dict_val row) ''path'') (list_val (get receipt ''assumptions''))"

definition owner_client_shape :: "json \<Rightarrow> bool" where
  "owner_client_shape v \<longleftrightarrow> is_dict v \<and> keys_eq (dict_val v) [''version'', ''source_sha256'']
     \<and> nonblank (get (dict_val v) ''version'') \<and> sha256_str (get (dict_val v) ''source_sha256'')"

definition stored_failure :: exn where
  "stored_failure = ValueError ''stored product decision failed cryptographic verification''"

text \<open>The plain-language branch, for a decision with that approval mode.\<close>

definition verify_plain_decision ::
  "'b world \<Rightarrow> repo \<Rightarrow> string \<Rightarrow> string \<Rightarrow> string \<Rightarrow> obj \<Rightarrow> obj \<Rightarrow> obj result" where
  "verify_plain_decision w s decision_id request_path raw request decision =
     rbind (if keys_eq request plain_request_fields \<and> get decision ''request_path'' = JStr request_path
               \<and> is_str (get decision ''request_sha256'')
            then rbind (compare_digest (str_val (get decision ''request_sha256'')) (sha256_hex raw)) (\<lambda>eq.
                   if eq then plain_l2_approval_matches w s decision (get request ''decision_scope'') (get request ''decision_package'')
                   else Inr False)
            else Inr False) (\<lambda>ok.
     require ok (ValueError ''stored plain-language product decision does not match the request'')
     (rbind (item (JObj decision) ''profile'') (\<lambda>profile.
      rbind (item (JObj decision) ''recorded_at'') (\<lambda>recorded_at.
       Inr [(''decision_id'', JStr decision_id), (''verification'', JStr ''PLAIN_LANGUAGE_DECISION_VERIFIED''),
            (''approval_mode'', JStr ''plain_language_owner_choice''), (''profile'', profile), (''recorded_at'', recorded_at)]))))"

text \<open>The signed branch, inside the snapshot of the repository.\<close>

definition stored_label :: string where
  "stored_label = ''stored product decision repository''"

definition verify_signed_decision ::
  "'b world \<Rightarrow> string \<Rightarrow> string \<Rightarrow> string \<Rightarrow> obj \<Rightarrow> json list \<Rightarrow> obj \<Rightarrow> obj result" where
  "verify_signed_decision w decision_id request_path raw request options decision =
     rbind (rescue (\<lambda>e. is_ValueError e) stored_failure
             (rbind (if has_key decision ''approval_envelope'' then Inr (get decision ''approval_envelope'') else Inl stored_failure)
               (verify_product_envelope w (Some stored_label)))) (\<lambda>(receipt, sha).
     require (l2_approval_matches_verified decision (get request ''decision_scope'') receipt sha) stored_failure
     (require (declared_paths_ok (get request ''assumption_paths'') request_path receipt)
       (ValueError ''stored product decision assumptions do not match the request'')
     (let request_rows = filter (\<lambda>row. get (dict_val row) ''path'' = JStr request_path) (list_val (get receipt ''assumptions'')) in
      rbind (if length request_rows = 1
             then compare_digest (str_val (get (dict_val (hd request_rows)) ''sha256'')) (sha256_hex raw) else Inr False) (\<lambda>bound.
      require bound (ValueError ''stored product decision is not bound to this exact request'')
      (rbind (if is_int (get request ''valid_days'') \<and> 1 \<le> int_val (get request ''valid_days'') \<and> int_val (get request ''valid_days'') \<le> 366
              then rbind (parse_time (get receipt ''expires_at'') ''expires_at'') (\<lambda>e.
                   rbind (parse_time (get receipt ''issued_at'') ''issued_at'') (\<lambda>i.
                   Inr (e - i = us_days (int_val (get request ''valid_days'')) \<and> py_eq (get request ''approver_id'') (get receipt ''approved_by''))))
              else Inr False) (\<lambda>valid.
       require valid (ValueError ''stored product decision signer or validity differs from request'')
       (require (owner_client_shape (get request ''owner_client''))
         (ValueError ''product decision Owner client binding is invalid'')
       (rbind (owner_client_identity w) (\<lambda>client.
        rbind (if get (dict_val (get request ''owner_client'')) ''version'' = get client ''version''
               then compare_digest (str_val (get (dict_val (get request ''owner_client'')) ''source_sha256''))
                      (str_val (get client ''source_sha256'')) else Inr False) (\<lambda>same.
        require same (ValueError ''stored product decision Owner client no longer matches the reviewed installed source'')
        (rbind (mapr (\<lambda>row. snapshot_read (w_snapshot w stored_label) stored_label one_mib (str_val (get (dict_val row) ''path'')))
                  (list_val (get receipt ''assumptions''))) (\<lambda>artifacts.
         require (exact_line_occurrences artifacts
             (utf8 (''Owner client binding: '' @ dumps (get request ''owner_client''))) = 1)
           (ValueError ''signed product decision does not bind one exact Owner client identity'')
         (require (get receipt ''summary'' = JStr (''Approved option A: '' @ str_val (get (dict_val (hd options)) ''description'')))
           (ValueError ''stored product decision summary differs from the exact request'')
         (rbind (trusted_approver_domain w (str_val (get receipt ''approved_by''))) (\<lambda>binding.
           Inr [(''decision_id'', JStr decision_id), (''approved_by'', get receipt ''approved_by''),
                (''repository_id'', get binding ''repository_id''), (''trust_domain'', get binding ''trust_domain''),
                (''expires_at'', get receipt ''expires_at''), (''receipt_sha256'', JStr sha),
                (''verification'', JStr ''SIGNATURE_ROW_AUDIENCE_AND_REQUEST_VERIFIED'')])))))))))))))))"

text \<open>The files the snapshot block reads: the request, and for a signed decision its assumptions.\<close>

definition stored_paths :: "string \<Rightarrow> repo \<Rightarrow> string \<Rightarrow> string list" where
  "stored_paths decision_id s request_path =
     request_path # (case find_decision (JStr decision_id) s of
        Inr (Some decision) \<Rightarrow>
          (if get decision ''approval_mode'' = JStr ''plain_language_owner_choice'' then []
           else assumption_paths (list_val (get (receipt_of (get decision ''approval_envelope'')) ''assumptions'')))
      | _ \<Rightarrow> [])"

definition verify_product_decision :: "'b world \<Rightarrow> string \<Rightarrow> string \<Rightarrow> repo \<Rightarrow> obj result" where
  "verify_product_decision w decision_id request_path s =
     require (safe_relative request_path) (ValueError ''product decision request must be repository-relative'')
     (with_snapshot (w_snapshot w stored_label) stored_label one_mib (stored_paths decision_id s request_path)
      (rbind (snapshot_read (w_snapshot w stored_label) stored_label one_mib request_path) (\<lambda>raw.
       rbind (load_unique_json_bytes raw ''product decision request'') (\<lambda>v.
       require (is_dict v \<and> get (dict_val v) ''risk_level'' = JStr ''L2'' \<and> get (dict_val v) ''category'' = JStr ''product_decision''
           \<and> get (dict_val v) ''effects'' = JObj [] \<and> closed_category_envelope_error (dict_val v) = None
           \<and> get (dict_val v) ''decision_id'' = JStr decision_id)
         (ValueError ''product decision request has an invalid exact L2 contract'')
       (let request = dict_val v in
        require (is_dict (get request ''decision_package''))
          (ValueError ''product decision request lacks one exact Decision Package'')
        (rbind (case build_action_required (get request ''decision_package'') of
                  Inl (AttributeError m) \<Rightarrow> Inl (AttributeError m)
                | Inl e \<Rightarrow> Inl (ValueError ''product decision request has an invalid Decision Package'')
                | Inr p \<Rightarrow> Inr p) (\<lambda>package.
         rbind (action_required_binding_error request package) (\<lambda>err.
         require (err = None) (ValueError ''product decision request package is not bound to its scope'')
         (rbind (require_bounded_ab_card package) (\<lambda>options.
          rbind (find_decision (JStr decision_id) s) (\<lambda>found.
          case found of
            None \<Rightarrow>
              rbind (project_profile s) (\<lambda>profile.
                if profile = ''team-standard'' then Inl (ValueError ''stored plain-language product decision is missing'')
                else Inl stored_failure)
          | Some decision \<Rightarrow>
              (if get decision ''approval_mode'' = JStr ''plain_language_owner_choice''
               then verify_plain_decision w s decision_id request_path raw request decision
               else verify_signed_decision w decision_id request_path raw request options decision))))))))))))"


section \<open>Owner-signed resolutions of external actions\<close>

definition resolution_receipt_fields :: "string list" where
  "resolution_receipt_fields =
     [''resolution_id'', ''action_id'', ''action_class'', ''owner'', ''scope'', ''request_sha256'', ''status'', ''evidence_sha256'',
      ''resolved_at'', ''expires_at'', ''nonce'']"

definition verify_external_action_resolution_envelope :: "'b world \<Rightarrow> json \<Rightarrow> bool \<Rightarrow> (obj \<times> string) result" where
  "verify_external_action_resolution_envelope w envelope require_fresh =
     require (envelope_shape envelope) (ValueError ''external action resolution has an invalid contract'')
     (let receipt = receipt_of envelope in
      require (keys_eq receipt resolution_receipt_fields \<and> list_all (\<lambda>k. nonblank (get receipt k)) resolution_receipt_fields)
        (ValueError ''external action resolution payload has an invalid contract'')
      (require (str_in (get receipt ''action_class'') [''operational_action'', ''necessary_uat''])
        (ValueError ''external action resolution class is invalid'')
      (require (str_in (get receipt ''status'') [''completed'', ''cancelled''])
        (ValueError ''external action resolution status is invalid'')
      (require (sha256_str (get receipt ''request_sha256''))
        (ValueError ''external action resolution request_sha256 is invalid'')
      (require (sha256_str (get receipt ''evidence_sha256''))
        (ValueError ''external action resolution evidence_sha256 is invalid'')
      (require (12 \<le> length (str_val (get receipt ''nonce'')))
        (ValueError ''external action resolution nonce must contain at least 12 characters'')
      (rbind (parse_time (get receipt ''resolved_at'') ''resolved_at'') (\<lambda>resolved_at.
       rbind (parse_time (get receipt ''expires_at'') ''expires_at'') (\<lambda>expires_at.
       require (resolved_at \<le> w_now w + 5 * us_minute)
         (ValueError ''external action resolution resolved_at is in the future'')
       (require (resolved_at < expires_at \<and> (require_fresh \<longrightarrow> w_now w < expires_at))
         (ValueError ''external action resolution is expired or invalid'')
       (require (expires_at - resolved_at \<le> us_days 7)
         (ValueError ''external action resolution validity exceeds seven days'')
       (rbind (trusted_approver w (str_val (get receipt ''owner''))) (\<lambda>approver.
         check_signature w approver envelope ''external action resolution signature verification failed'')))))))))))))"

text \<open>The call of \<open>resolve_external_action\<close> with the fields of a verified receipt.\<close>

definition resolve_with_receipt :: "int \<Rightarrow> json \<Rightarrow> obj \<Rightarrow> string \<Rightarrow> repo \<Rightarrow> obj result \<times> repo" where
  "resolve_with_receipt now envelope receipt sha s =
     resolve_external_action now (str_val (get receipt ''action_id'')) (str_val (get receipt ''action_class''))
       (str_val (get receipt ''owner'')) (str_val (get receipt ''scope'')) (str_val (get receipt ''request_sha256''))
       (str_val (get receipt ''status'')) (str_val (get receipt ''resolved_at'')) sha
       (str_val (get receipt ''evidence_sha256'')) envelope s"

definition import_external_action_resolution :: "'b world \<Rightarrow> store_file \<Rightarrow> repo \<Rightarrow> obj result \<times> repo" where
  "import_external_action_resolution w envelope_file s =
     (case rbind (read_file envelope_file JNull) (\<lambda>envelope.
             rbind (verify_external_action_resolution_envelope w envelope True) (\<lambda>(receipt, sha). Inr (envelope, receipt, sha))) of
        Inl e \<Rightarrow> (Inl e, s)
      | Inr (envelope, receipt, sha) \<Rightarrow>
          (case resolve_with_receipt (w_now w) envelope receipt sha s of
             (Inl e, s') \<Rightarrow> (Inl e, s')
           | (Inr resolved, s') \<Rightarrow>
               (Inr [(''action_id'', get resolved ''action_id''), (''action_class'', get resolved ''action_class''),
                     (''status'', get resolved ''status''), (''state_changed'', get resolved ''state_changed''),
                     (''receipt_sha256'', JStr sha), (''verification'', JStr ''SIGNATURE_VERIFIED'')], s')))"


section \<open>L3 operation approvals\<close>

definition operation_receipt_fields :: "string list" where
  "operation_receipt_fields =
     [''approval_id'', ''operation_id'', ''operation_payload'', ''summary'', ''scope'', ''approved_by'', ''issued_at'',
      ''expires_at'', ''nonce'']"

definition verify_operation_envelope :: "'b world \<Rightarrow> json \<Rightarrow> (obj \<times> string \<times> string) result" where
  "verify_operation_envelope w envelope =
     require (envelope_shape envelope) (ValueError ''signed approval receipt has an invalid contract'')
     (let receipt = receipt_of envelope in
      require (keys_eq receipt operation_receipt_fields
          \<and> list_all (\<lambda>k. k = ''operation_payload'' \<or> nonblank (get receipt k)) operation_receipt_fields)
        (ValueError ''approval receipt payload has an invalid contract'')
      (rbind (validate_operation_payload (get receipt ''operation_payload'')) (\<lambda>payload_sha256.
       require (get receipt ''scope'' = get (dict_val (get receipt ''operation_payload'')) ''scope'')
         (ValueError ''approval receipt scope does not match operation payload scope'')
       (require (12 \<le> length (str_val (get receipt ''nonce'')))
         (ValueError ''approval receipt nonce must contain at least 12 characters'')
       (rbind (check_window (w_now w) receipt (24 * us_hour) ''approval receipt'' ''24 hours'') (\<lambda>_.
        rbind (trusted_approver w (str_val (get receipt ''approved_by''))) (\<lambda>approver.
        rbind (check_signature w approver envelope ''approval receipt signature verification failed'') (\<lambda>(r, sha).
          Inr (r, sha, payload_sha256)))))))))"

definition runtime_context :: "'b world \<Rightarrow> (string \<times> json) list result" where
  "runtime_context w =
     rbind (load_document w (w_runtime w) ''L3 runtime context'') (\<lambda>data.
     require (keys_eq data [''schema_version'', ''repository'', ''project'', ''environment'']
         \<and> get data ''schema_version'' = JStr ''1.0''
         \<and> list_all (\<lambda>k. nonblank (get data k)) [''repository'', ''project'', ''environment''])
       (ValueError ''L3 runtime context has an invalid contract'')
       (Inr (map (\<lambda>k. (k, get data k)) [''repository'', ''project'', ''environment''])))"

definition require_matching_runtime_context :: "'b world \<Rightarrow> obj \<Rightarrow> unit result" where
  "require_matching_runtime_context w payload =
     rbind (runtime_context w) (\<lambda>context.
     require (list_all (\<lambda>kv. get payload (fst kv) = snd kv) context)
       (ValueError ''operation payload does not match the trusted runtime context'') (Inr ()))"

definition operation_decision_row :: "int \<Rightarrow> json \<Rightarrow> obj \<Rightarrow> string \<Rightarrow> string \<Rightarrow> obj" where
  "operation_decision_row now envelope receipt sha payload_sha =
     [(''decision_id'', get receipt ''approval_id''), (''risk_level'', JStr ''L3''), (''summary'', get receipt ''summary''),
      (''scope'', get receipt ''scope''), (''basis'', JStr ''verified owner-signed approval receipt for one concrete operation''),
      (''status'', JStr ''approved''), (''recorded_at'', JStr (stamp now)),
      (''reopen_condition'', JStr ''a different operation or changed scope requires a new signed receipt''),
      (''operation_id'', get receipt ''operation_id''), (''approved_by'', get receipt ''approved_by''),
      (''expires_at'', get receipt ''expires_at''), (''consumed_at'', JNull), (''approval_nonce'', get receipt ''nonce''),
      (''receipt_sha256'', JStr sha), (''operation_payload_sha256'', JStr payload_sha),
      (''signature_algorithm'', JStr ''ed25519''), (''approval_envelope'', envelope)]"

definition import_operation_approval :: "'b world \<Rightarrow> store_file \<Rightarrow> repo \<Rightarrow> obj result \<times> repo" where
  "import_operation_approval w envelope_file s =
     (case rbind (read_file envelope_file JNull) (\<lambda>envelope.
             rbind (verify_operation_envelope w envelope) (\<lambda>(receipt, sha, payload_sha).
             rbind (require_matching_runtime_context w (dict_val (get receipt ''operation_payload''))) (\<lambda>_.
               Inr (envelope, receipt, sha, payload_sha)))) of
        Inl e \<Rightarrow> (Inl e, s)
      | Inr (envelope, receipt, sha, payload_sha) \<Rightarrow>
          (case append_decision (approval_clash (get receipt ''approval_id'') (get receipt ''nonce''))
                  (ValueError ''approval receipt or nonce was already imported'')
                  (operation_decision_row (w_now w) envelope receipt sha payload_sha) s of
             (Inl e, s') \<Rightarrow> (Inl e, s')
           | (Inr u, s') \<Rightarrow>
               (Inr [(''approval_id'', get receipt ''approval_id''), (''operation_id'', get receipt ''operation_id''),
                     (''approved_by'', get receipt ''approved_by''), (''expires_at'', get receipt ''expires_at''),
                     (''receipt_sha256'', JStr sha), (''operation_payload_sha256'', JStr payload_sha),
                     (''verification'', JStr ''SIGNATURE_VERIFIED'')], s')))"

definition l3_approval_is_fresh :: "int \<Rightarrow> obj \<Rightarrow> json \<Rightarrow> bool" where
  "l3_approval_is_fresh now decision operation_id \<longleftrightarrow>
     get decision ''risk_level'' = JStr ''L3'' \<and> get decision ''status'' = JStr ''approved''
     \<and> py_eq (get decision ''operation_id'') operation_id \<and> get decision ''consumed_at'' = JNull
     \<and> (case parse_value (get decision ''expires_at'') of None \<Rightarrow> False | Some d \<Rightarrow> is_aware d \<and> now < instant d)"


section \<open>The broker client\<close>

definition consumed_reply :: string where
  "consumed_reply = ''CONSUMED'' @ [CHR 0x0A]"

fun receive_reply :: "string \<Rightarrow> string list \<Rightarrow> string option" where
  "receive_reply acc [] = Some acc"
| "receive_reply acc (chunk # chunks) =
     (if chunk = [] then Some acc
      else if length consumed_reply < length acc + length chunk then None
      else receive_reply (acc @ chunk) chunks)"

definition consume_request :: "string \<Rightarrow> string \<Rightarrow> string \<Rightarrow> string" where
  "consume_request nonce receipt_sha256 payload_sha256 =
     canonical_bytes (JObj [(''action'', JStr ''consume''), (''nonce'', JStr nonce), (''receipt_sha256'', JStr receipt_sha256),
       (''operation_payload_sha256'', JStr payload_sha256)]) @ [CHR 0x0A]"

text \<open>The socket and every directory above it belong to root; the socket is mode 0660 for the broker group.\<close>

definition broker_parent_ok :: "os_stat result \<Rightarrow> bool" where
  "broker_parent_ok r = (case r of Inl e \<Rightarrow> False | Inr m \<Rightarrow> st_kind m = Directory \<and> root_only m)"

definition broker_endpoint_ok :: "'b world \<Rightarrow> bool" where
  "broker_endpoint_ok w \<longleftrightarrow> w_posix w \<and> w_euid w \<noteq> 0 \<and> list_all broker_parent_ok (w_broker_parents w)
     \<and> (case (w_broker_socket w, w_broker_group w) of
          (Inr m, Some g) \<Rightarrow> st_uid m = 0 \<and> st_gid m = g \<and> st_perm m = 432 \<and> st_kind m = Socket
        | _ \<Rightarrow> False)"

definition consume_nonce_via_control_plane :: "'b world \<Rightarrow> string \<Rightarrow> string \<Rightarrow> string \<Rightarrow> 'b \<Rightarrow> bool \<times> 'b" where
  "consume_nonce_via_control_plane w nonce receipt_sha256 payload_sha256 b =
     (if \<not> broker_endpoint_ok w then (False, b)
      else (case w_serve w (consume_request nonce receipt_sha256 payload_sha256) b of
              (Inl e, b') \<Rightarrow> (False, b')
            | (Inr chunks, b') \<Rightarrow> (receive_reply [] chunks = Some consumed_reply, b')))"


section \<open>Consuming an L3 approval\<close>

datatype consumption = Runtime_Blocked | Control_Plane_Blocked | Unavailable | Consumed obj

definition signed_l3_fields :: "obj \<Rightarrow> string \<Rightarrow> string \<Rightarrow> (string \<times> json) list" where
  "signed_l3_fields receipt sha payload_sha =
     [(''decision_id'', get receipt ''approval_id''), (''summary'', get receipt ''summary''), (''scope'', get receipt ''scope''),
      (''operation_id'', get receipt ''operation_id''), (''approved_by'', get receipt ''approved_by''),
      (''expires_at'', get receipt ''expires_at''), (''approval_nonce'', get receipt ''nonce''), (''receipt_sha256'', JStr sha),
      (''operation_payload_sha256'', JStr payload_sha), (''signature_algorithm'', JStr ''ed25519'')]"

text \<open>The checks on the first row with the approval ID: the receipt and its two digests.\<close>

definition consumable :: "'b world \<Rightarrow> json \<Rightarrow> string \<Rightarrow> obj \<Rightarrow> (obj \<times> string \<times> string) option result" where
  "consumable w operation_id requested_sha row =
     (if \<not> (get row ''risk_level'' = JStr ''L3'' \<and> py_eq (get row ''operation_id'') operation_id)
          \<or> get row ''consumed_at'' \<noteq> JNull \<or> \<not> l3_approval_is_fresh (w_now w) row operation_id
      then Inr None
      else (case verify_operation_envelope w (get row ''approval_envelope'') of
              Inl e \<Rightarrow> (if is_ValueError e then Inr None else Inl e)
            | Inr (receipt, sha, payload_sha) \<Rightarrow>
                (if row_carries row (signed_l3_fields receipt sha payload_sha) \<and> payload_sha = requested_sha
                 then Inr (Some (receipt, sha, payload_sha)) else Inr None)))"

definition consume_row :: "int \<Rightarrow> obj \<Rightarrow> obj" where
  "consume_row now row = update_all [(''consumed_at'', JStr (stamp now)), (''status'', JStr ''completed'')] row"

fun update_first :: "('a \<Rightarrow> bool) \<Rightarrow> 'a \<Rightarrow> 'a list \<Rightarrow> 'a list" where
  "update_first p y [] = []"
| "update_first p y (x # xs) = (if p x then y # xs else x # update_first p y xs)"

definition consume_operation_approval ::
  "'b world \<Rightarrow> json \<Rightarrow> json \<Rightarrow> json \<Rightarrow> repo \<Rightarrow> 'b \<Rightarrow> consumption result \<times> repo \<times> 'b" where
  "consume_operation_approval w approval_id operation_id operation_payload s b =
     (case rbind (validate_operation_payload operation_payload) (\<lambda>h.
             rbind (require_matching_runtime_context w (dict_val operation_payload)) (\<lambda>_. Inr h)) of
        Inl e \<Rightarrow> ((if is_ValueError e then Inr Runtime_Blocked else Inl e), s, b)
      | Inr requested_sha \<Rightarrow>
          (case decision_store (decisions_json s) of
             Inl e \<Rightarrow> (Inl e, s, b)
           | Inr data \<Rightarrow>
               (case find (has_decision_id approval_id) (decision_rows data) of
                  None \<Rightarrow> (Inr Unavailable, s, b)
                | Some r \<Rightarrow>
                    (case consumable w operation_id requested_sha (dict_val r) of
                       Inl e \<Rightarrow> (Inl e, s, b)
                     | Inr None \<Rightarrow> (Inr Unavailable, s, b)
                     | Inr (Some (receipt, sha, payload_sha)) \<Rightarrow>
                         (case consume_nonce_via_control_plane w (str_val (get receipt ''nonce'')) sha payload_sha b of
                            (False, b') \<Rightarrow> (Inr Control_Plane_Blocked, s, b')
                          | (True, b') \<Rightarrow>
                              (let row = consume_row (w_now w) (dict_val r) in
                               (Inr (Consumed row),
                                s\<lparr>decisions_json := Doc (JObj (put ''decisions''
                                   (JArr (update_first (has_decision_id approval_id) (JObj row) (decision_rows data))) data))\<rparr>,
                                b'))))))) "

end
