(* ===== verification/Approval_Facts.thy ===== *)
theory Approval_Facts
  imports Approval_Use Action_Queue
begin

text \<open>
  What the approval operations guarantee. The decision store is an evolving store: rows are
  appended under distinct IDs and nonces, and the only change of a row is the consumption of
  an open L3 approval. From this follow the life cycle of decisions over whole histories, that
  an approval is consumed at most once, and that a receipt is imported at most once; a consumed
  approval is moreover shown to carry a verified signature of a unique active approver over the
  digest of the very payload that was requested.
\<close>


section \<open>The store as a list of rows\<close>

definition decision_rows_of :: "repo \<Rightarrow> json list" where
  "decision_rows_of s = (case decision_store (decisions_json s) of Inl e \<Rightarrow> [] | Inr data \<Rightarrow> decision_rows data)"

definition decision_id_of :: "json \<Rightarrow> json" where
  "decision_id_of r = get (dict_val r) ''decision_id''"

definition nonce_of :: "json \<Rightarrow> json" where
  "nonce_of r = get (dict_val r) ''approval_nonce''"

definition decisions_inv :: "repo \<Rightarrow> bool" where
  "decisions_inv s \<longleftrightarrow> (\<exists>data. decision_store (decisions_json s) = Inr data)
     \<and> distinct (map decision_id_of (decision_rows_of s))
     \<and> distinct (filter (\<lambda>n. n \<noteq> JNull) (map nonce_of (decision_rows_of s)))"

definition open_l3 :: "obj \<Rightarrow> bool" where
  "open_l3 row \<longleftrightarrow> get row ''risk_level'' = JStr ''L3'' \<and> get row ''status'' = JStr ''approved'' \<and> get row ''consumed_at'' = JNull"

definition decision_evolves :: "json \<Rightarrow> json \<Rightarrow> bool" where
  "decision_evolves r r' \<longleftrightarrow> r' = r \<or> open_l3 (dict_val r) \<and> (\<exists>now. r' = JObj (consume_row now (dict_val r)))"

lemma consume_row_get:
  "get (consume_row now row) k = (if k = ''status'' then JStr ''completed'' else if k = ''consumed_at'' then JStr (stamp now) else get row k)"
  by (simp add: consume_row_def)

lemma consume_row_closed: "\<not> open_l3 (consume_row now row)"
  by (simp add: open_l3_def consume_row_get)

lemma decision_evolves_trans: "decision_evolves a b \<Longrightarrow> decision_evolves b c \<Longrightarrow> decision_evolves a c"
  using consume_row_closed by (auto simp: decision_evolves_def)

lemma decision_evolves_keeps:
  "decision_evolves r r' \<Longrightarrow> k \<noteq> ''status'' \<Longrightarrow> k \<noteq> ''consumed_at'' \<Longrightarrow> get (dict_val r') k = get (dict_val r) k"
  by (auto simp: decision_evolves_def consume_row_get)

lemma decision_evolves_id: "decision_evolves r r' \<Longrightarrow> decision_id_of r' = decision_id_of r"
  by (simp add: decision_id_of_def decision_evolves_keeps)

lemma decision_evolves_nonce: "decision_evolves r r' \<Longrightarrow> nonce_of r' = nonce_of r"
  by (simp add: nonce_of_def decision_evolves_keeps)

lemma decision_evolves_ok: "decision_evolves r r' \<Longrightarrow> decision_row_ok r \<Longrightarrow> decision_row_ok r'"
  using decision_evolves_id [of r r'] by (auto simp: decision_row_ok_def decision_evolves_def decision_id_of_def)

lemma closed_row_stays: "decision_evolves r r' \<Longrightarrow> \<not> open_l3 (dict_val r) \<Longrightarrow> r' = r"
  by (simp add: decision_evolves_def)


section \<open>Reading back what was written\<close>

lemma decision_store_Inr_iff:
  "decision_store f = Inr data \<longleftrightarrow> (\<exists>v. read_file f (JObj [(''schema_version'', JStr ''1.0''), (''decisions'', JArr [])]) = Inr v
     \<and> v = JObj data \<and> get data ''schema_version'' = JStr ''1.0'' \<and> keys_eq data [''schema_version'', ''decisions'']
     \<and> is_list (get data ''decisions'') \<and> list_all decision_row_ok (decision_rows data))"
  by (auto simp: decision_store_def rbind_Inr_iff require_Inr_iff decision_rows_def is_dict_conv)

lemma decision_store_put:
  assumes "decision_store f = Inr data" and "list_all decision_row_ok rows"
  shows "decision_store (Doc (JObj (put ''decisions'' (JArr rows) data))) = Inr (put ''decisions'' (JArr rows) data)"
proof -
  have "get data ''schema_version'' = JStr ''1.0''" "keys_eq data [''schema_version'', ''decisions'']"
    using assms(1) by (auto simp: decision_store_Inr_iff)
  then show ?thesis using assms(2) keys_eq_put [of data "[''schema_version'', ''decisions'']" "''decisions''"]
    by (simp add: decision_store_Inr_iff read_file_def decision_rows_def)
qed

lemma decision_rows_put [simp]: "decision_rows (put ''decisions'' (JArr rows) data) = rows"
  by (simp add: decision_rows_def)

lemma decision_rows_ok: "decision_store f = Inr data \<Longrightarrow> list_all decision_row_ok (decision_rows data)"
  by (simp add: decision_store_Inr_iff)

lemma decision_store_missing: "decision_store Missing = Inr [(''schema_version'', JStr ''1.0''), (''decisions'', JArr [])]"
  by (simp add: decision_store_Inr_iff read_file_def decision_rows_def keys_eq_def)

lemma decisions_inv_missing: "decisions_json s = Missing \<Longrightarrow> decisions_inv s \<and> decision_rows_of s = []"
  by (simp add: decisions_inv_def decision_rows_of_def decision_store_missing decision_rows_def)

text \<open>A rewritten store with rows that only evolved, and the new ones after them.\<close>

lemma rewrite_store:
  assumes inv: "decisions_inv s" and data: "decision_store (decisions_json s) = Inr data"
    and old: "list_all2 decision_evolves (decision_rows data) rs" and new: "list_all decision_row_ok new"
    and ids: "distinct (map decision_id_of (decision_rows data @ new))"
    and nonces: "distinct (filter (\<lambda>n. n \<noteq> JNull) (map nonce_of (decision_rows data @ new)))"
    and s': "s' = s\<lparr>decisions_json := Doc (JObj (put ''decisions'' (JArr (rs @ new)) data))\<rparr>"
  shows "decisions_inv s' \<and> decision_rows_of s' = rs @ new \<and> grows decision_evolves (decision_rows_of s) (decision_rows_of s')"
proof -
  have "map decision_id_of rs = map decision_id_of (decision_rows data)"
    using old by (induction rule: list_all2_induct) (simp_all add: decision_evolves_id)
  moreover have "map nonce_of rs = map nonce_of (decision_rows data)"
    using old by (induction rule: list_all2_induct) (simp_all add: decision_evolves_nonce)
  moreover have "list_all decision_row_ok rs"
    using old decision_rows_ok [OF data]
    by (induction rule: list_all2_induct) (simp_all add: decision_evolves_ok)
  then have "decision_store (decisions_json s') = Inr (put ''decisions'' (JArr (rs @ new)) data)"
    using decision_store_put [OF data] new s' by simp
  ultimately show ?thesis
    using ids nonces grows_append [OF old] data by (simp add: decisions_inv_def decision_rows_of_def)
qed


section \<open>Appending\<close>

lemma append_decision_Inr:
  "append_decision clash e row s = (Inr u, s') \<longleftrightarrow> (\<exists>data. decision_store (decisions_json s) = Inr data
     \<and> \<not> list_ex clash (decision_rows data)
     \<and> s' = s\<lparr>decisions_json := Doc (JObj (put ''decisions'' (JArr (decision_rows data @ [JObj row])) data))\<rparr>)"
  by (auto simp: append_decision_def split: sum.splits if_splits)

lemma append_decision_Inl: "append_decision clash e row s = (Inl x, s') \<Longrightarrow> s' = s"
  by (auto simp: append_decision_def split: sum.splits if_splits)

text \<open>A row may be appended when its ID and its nonce, if it has one, are new.\<close>

lemma append_decision_keeps:
  assumes inv: "decisions_inv s" and app: "append_decision clash e row s = (Inr u, s')"
    and ok: "nonblank (get row ''decision_id'')"
    and i: "\<And>r. \<not> clash r \<Longrightarrow> decision_id_of r \<noteq> get row ''decision_id''"
    and n: "\<And>r. \<not> clash r \<Longrightarrow> get row ''approval_nonce'' \<noteq> JNull \<Longrightarrow> nonce_of r \<noteq> get row ''approval_nonce''"
  shows "decision_rows_of s' = decision_rows_of s @ [JObj row]"
    and "decisions_inv s' \<and> grows decision_evolves (decision_rows_of s) (decision_rows_of s')"
proof -
  obtain data where data: "decision_store (decisions_json s) = Inr data" and free: "\<not> list_ex clash (decision_rows data)"
    and s': "s' = s\<lparr>decisions_json := Doc (JObj (put ''decisions'' (JArr (decision_rows data @ [JObj row])) data))\<rparr>"
    using app by (auto simp: append_decision_Inr)
  have rows: "decision_rows_of s = decision_rows data" by (simp add: decision_rows_of_def data)
  have free': "\<not> clash r" if "r \<in> set (decision_rows data)" for r using free that by (auto simp: list_ex_iff)
  have new: "decision_id_of (JObj row) = get row ''decision_id''" "nonce_of (JObj row) = get row ''approval_nonce''"
    by (simp_all add: decision_id_of_def nonce_of_def)
  have "decision_id_of (JObj row) \<notin> decision_id_of ` set (decision_rows data)"
    using i free' by (fastforce simp: new)
  then have "distinct (map decision_id_of (decision_rows data @ [JObj row]))"
    using inv by (simp add: decisions_inv_def rows)
  moreover have "nonce_of (JObj row) \<noteq> JNull \<Longrightarrow> nonce_of (JObj row) \<notin> nonce_of ` set (decision_rows data)"
    using n free' by (fastforce simp: new)
  then have "distinct (filter (\<lambda>n. n \<noteq> JNull) (map nonce_of (decision_rows data @ [JObj row])))"
    using inv by (auto simp: decisions_inv_def rows)
  ultimately have "decisions_inv s' \<and> decision_rows_of s' = decision_rows data @ [JObj row]
      \<and> grows decision_evolves (decision_rows_of s) (decision_rows_of s')"
    using ok by (intro rewrite_store [OF inv data _ _ _ _ s'])
      (simp_all add: decision_row_ok_def list_all2_refl decision_evolves_def)
  then show "decision_rows_of s' = decision_rows_of s @ [JObj row]"
    and "decisions_inv s' \<and> grows decision_evolves (decision_rows_of s) (decision_rows_of s')"
    unfolding rows by (blast, blast)
qed


section \<open>The operations on the store\<close>

lemma record_decision_cases:
  assumes "record_decision w i sm sc ba rc rp s = (r, s')"
  obtains (refused) e where "r = Inl e" and "s' = s"
  | (recorded) profile row where "record_decision_plan w i sm sc ba rc rp s = Inr (profile, row)"
      and "append_decision (has_decision_id (JStr i)) (ValueError ''product decision ID already exists'') row s = (Inr (), s')"
  using assms append_decision_Inl
  by (force simp: record_decision_def split: sum.splits prod.splits)

lemma record_plan_row:
  assumes "record_decision_plan w i sm sc ba rc rp s = Inr (profile, row)"
  shows "get row ''decision_id'' = JStr i" and "strip i \<noteq> []" and "get row ''approval_nonce'' = JNull"
  using assms by (auto simp: record_decision_plan_def rbind_Inr_iff require_Inr_iff plain_decision_row_def)

lemma import_product_cases:
  assumes "import_product_approval w name s = (r, s')"
  obtains (refused) e where "r = Inl e" and "s' = s"
  | (imported) envelope receipt sha where "read_envelope_file w name = Inr envelope"
      and "verify_product_envelope w None envelope = Inr (receipt, sha)"
      and "append_decision (approval_clash (get receipt ''decision_id'') (get receipt ''nonce''))
             (ValueError ''product approval receipt or nonce was already imported'')
             (product_decision_row (w_now w) envelope receipt sha) s = (Inr (), s')"
  using assms append_decision_Inl
  by (force simp: import_product_approval_def rbind_Inr_iff split: sum.splits prod.splits)

lemma import_operation_cases:
  assumes "import_operation_approval w f s = (r, s')"
  obtains (refused) e where "r = Inl e" and "s' = s"
  | (imported) envelope receipt sha payload_sha where "read_file f JNull = Inr envelope"
      and "verify_operation_envelope w envelope = Inr (receipt, sha, payload_sha)"
      and "require_matching_runtime_context w (dict_val (get receipt ''operation_payload'')) = Inr ()"
      and "append_decision (approval_clash (get receipt ''approval_id'') (get receipt ''nonce''))
             (ValueError ''approval receipt or nonce was already imported'')
             (operation_decision_row (w_now w) envelope receipt sha payload_sha) s = (Inr (), s')"
  using assms append_decision_Inl
  by (force simp: import_operation_approval_def rbind_Inr_iff split: sum.splits prod.splits)
section \<open>What a verified envelope guarantees\<close>

lemma check_signature_Inr:
  "check_signature w approver envelope msg = Inr (receipt, sha) \<longleftrightarrow>
     verify_signature w (str_val (get approver ''public_key'')) (signature_of envelope) (canonical_receipt (receipt_of envelope))
     \<and> receipt = receipt_of envelope \<and> sha = receipt_digest (receipt_of envelope)"
  by (auto simp: check_signature_def require_Inr_iff)

text \<open>The signer is listed once, as active, in a well-formed trusted approver store.\<close>

definition unique_active_approver :: "'b world \<Rightarrow> string \<Rightarrow> obj \<Rightarrow> bool" where
  "unique_active_approver w i approver \<longleftrightarrow> (\<exists>data. trusted_approver_store w = Inr data
     \<and> (\<exists>r\<in>set (list_val (get data ''approvers'')). dict_val r = approver)
     \<and> length (filter (active_match i) (list_val (get data ''approvers''))) = 1
     \<and> get approver ''approver_id'' = JStr i \<and> get approver ''status'' = JStr ''active''
     \<and> get approver ''algorithm'' = JStr ''ed25519'')"

lemma check_approver_rows_ok: "check_approver_rows seen rs = Inr u \<Longrightarrow> r \<in> set rs \<Longrightarrow> approver_row_ok r"
  by (induction seen rs rule: check_approver_rows.induct) (auto simp: require_Inr_iff)

lemma trusted_approver_Inr:
  assumes "trusted_approver w i = Inr approver"
  shows "unique_active_approver w i approver"
proof -
  obtain data u where data: "trusted_approver_store w = Inr data"
    and rows: "check_approver_rows [] (list_val (get data ''approvers'')) = Inr u"
    and pick: "(case filter (active_match i) (list_val (get data ''approvers'')) of
        [r] \<Rightarrow> Inr (dict_val r)
      | _ \<Rightarrow> Inl (ValueError ''approval receipt signer is not a unique active trusted approver'')) = (Inr approver :: obj result)"
    using assms unfolding trusted_approver_def by (elim resultE) (rule that)
  from pick obtain r where r: "filter (active_match i) (list_val (get data ''approvers'')) = [r]" and a: "approver = dict_val r"
    by (auto split: list.splits)
  then have "r \<in> set (list_val (get data ''approvers''))" "active_match i r"
    by (auto dest: filter_eq_ConsD)
  then show ?thesis
    using data r a check_approver_rows_ok [OF rows, of r]
    by (auto simp: unique_active_approver_def active_match_def approver_row_ok_def)
qed

definition in_window :: "int \<Rightarrow> obj \<Rightarrow> int \<Rightarrow> bool" where
  "in_window now receipt limit \<longleftrightarrow> (\<exists>a b. parse_time (get receipt ''issued_at'') ''issued_at'' = Inr a
     \<and> parse_time (get receipt ''expires_at'') ''expires_at'' = Inr b \<and> a \<le> now + 5 * us_minute \<and> a < b \<and> now < b \<and> b - a \<le> limit)"

lemma check_window_Inr: "check_window now receipt limit kind msg = Inr u \<longleftrightarrow> in_window now receipt limit"
  by (auto simp: check_window_def in_window_def rbind_Inr_iff require_Inr_iff)

text \<open>An accepted L3 envelope: every field textual, the payload canonical, the signature verified.\<close>

definition operation_envelope_ok :: "'b world \<Rightarrow> json \<Rightarrow> bool" where
  "operation_envelope_ok w envelope \<longleftrightarrow> (let receipt = receipt_of envelope in
     envelope_shape envelope \<and> keys_eq receipt operation_receipt_fields
     \<and> (\<forall>k\<in>set operation_receipt_fields. k = ''operation_payload'' \<or> nonblank (get receipt k))
     \<and> validate_operation_payload (get receipt ''operation_payload'') = Inr (canonical_digest (get receipt ''operation_payload''))
     \<and> get receipt ''scope'' = get (dict_val (get receipt ''operation_payload'')) ''scope''
     \<and> 12 \<le> length (str_val (get receipt ''nonce''))
     \<and> in_window (w_now w) receipt (24 * us_hour)
     \<and> (\<exists>approver. unique_active_approver w (str_val (get receipt ''approved_by'')) approver
          \<and> verify_signature w (str_val (get approver ''public_key'')) (signature_of envelope) (canonical_receipt receipt)))"

lemma validate_payload_digest: "validate_operation_payload v = Inr h \<Longrightarrow> h = canonical_digest v"
  by (auto simp: validate_operation_payload_def rbind_Inr_iff require_Inr_iff Let_def find_raise_Inr_iff split: if_splits)

lemma verify_operation_envelope_Inr:
  assumes "verify_operation_envelope w envelope = Inr (receipt, sha, payload_sha)"
  shows "operation_envelope_ok w envelope \<and> receipt = receipt_of envelope \<and> sha = receipt_digest receipt
    \<and> payload_sha = canonical_digest (get receipt ''operation_payload'')"
proof -
  let ?r = "receipt_of envelope"
  from assms obtain h u approver c where shape: "envelope_shape envelope"
    and fields: "keys_eq ?r operation_receipt_fields
          \<and> list_all (\<lambda>k. k = ''operation_payload'' \<or> nonblank (get ?r k)) operation_receipt_fields"
    and payload: "validate_operation_payload (get ?r ''operation_payload'') = Inr h"
    and scope: "get ?r ''scope'' = get (dict_val (get ?r ''operation_payload'')) ''scope''"
    and nonce: "12 \<le> length (str_val (get ?r ''nonce''))"
    and window: "check_window (w_now w) ?r (24 * us_hour) ''approval receipt'' ''24 hours'' = Inr u"
    and approver: "trusted_approver w (str_val (get ?r ''approved_by'')) = Inr approver"
    and sig: "check_signature w approver envelope ''approval receipt signature verification failed'' = Inr c"
    and res: "(case c of (r, sha) \<Rightarrow> Inr (r, sha, h)) = (Inr (receipt, sha, payload_sha) :: (obj \<times> string \<times> string) result)"
    unfolding verify_operation_envelope_def Let_def by (elim resultE) (rule that)
  have "verify_signature w (str_val (get approver ''public_key'')) (signature_of envelope) (canonical_receipt ?r)"
    and eq: "receipt = ?r" "sha = receipt_digest ?r" "payload_sha = h"
    using sig res by (cases c; simp add: check_signature_Inr)+
  then show ?thesis
    using shape fields payload scope nonce window trusted_approver_Inr [OF approver] validate_payload_digest [OF payload]
    unfolding operation_envelope_ok_def Let_def check_window_Inr list_all_iff by blast
qed

lemma verify_product_envelope_Inr:
  assumes "verify_product_envelope w outer envelope = Inr (receipt, sha)"
  shows "receipt = receipt_of envelope \<and> sha = receipt_digest receipt \<and> in_window (w_now w) receipt (us_days 366)
    \<and> nonblank (get receipt ''decision_id'') \<and> nonblank (get receipt ''nonce'')
    \<and> (\<exists>approver. unique_active_approver w (str_val (get receipt ''approved_by'')) approver
         \<and> verify_signature w (str_val (get approver ''public_key'')) (signature_of envelope) (canonical_receipt receipt))
    \<and> (\<exists>binding. trusted_approver_domain w (str_val (get receipt ''approved_by'')) = Inr binding)
    \<and> (\<exists>d. verified_assumptions_digest w outer (get receipt ''assumptions'') = Inr d \<and> get receipt ''assumptions_sha256'' = JStr d)"
proof -
  let ?r = "receipt_of envelope"
  from assms obtain d u approver binding where
        fields: "keys_eq ?r product_receipt_fields
          \<and> list_all (\<lambda>k. k = ''assumptions'' \<or> nonblank (get ?r k)) product_receipt_fields"
    and digest: "verified_assumptions_digest w outer (get ?r ''assumptions'') = Inr d" "JStr d = get ?r ''assumptions_sha256''"
    and window: "check_window (w_now w) ?r (us_days 366) ''product approval'' ''366 days'' = Inr u"
    and approver: "trusted_approver w (str_val (get ?r ''approved_by'')) = Inr approver"
    and domain: "trusted_approver_domain w (str_val (get ?r ''approved_by'')) = Inr binding"
    and sig: "check_signature w approver envelope ''product approval signature verification failed'' = Inr (receipt, sha)"
    unfolding verify_product_envelope_def Let_def by (elim resultE) (rule that)
  have eq: "receipt = ?r" "sha = receipt_digest ?r"
    and "verify_signature w (str_val (get approver ''public_key'')) (signature_of envelope) (canonical_receipt ?r)"
    using sig by (auto simp: check_signature_Inr)
  moreover have "nonblank (get ?r ''decision_id'')" "nonblank (get ?r ''nonce'')"
    using fields by (simp_all add: product_receipt_fields_def)
  ultimately show ?thesis
    using digest(1) digest(2)[symmetric] window trusted_approver_Inr [OF approver] domain
    unfolding check_window_Inr by blast
qed
section \<open>Consumption\<close>

lemma consumable_Some:
  assumes "consumable w operation_id requested row = Inr (Some (receipt, sha, payload_sha))"
  shows "open_l3 row \<and> py_eq (get row ''operation_id'') operation_id \<and> l3_approval_is_fresh (w_now w) row operation_id
    \<and> verify_operation_envelope w (get row ''approval_envelope'') = Inr (receipt, sha, payload_sha)
    \<and> row_carries row (signed_l3_fields receipt sha payload_sha) \<and> payload_sha = requested"
  using assms
  by (auto simp: consumable_def open_l3_def l3_approval_is_fresh_def split: if_splits sum.splits prod.splits)

lemma consumable_closed: "\<not> open_l3 row \<Longrightarrow> consumable w operation_id requested row = Inr None"
  by (auto simp: consumable_def open_l3_def l3_approval_is_fresh_def)

text \<open>The call either changes nothing in the repository or marks the one open row it found.\<close>

lemma consume_cases:
  assumes "consume_operation_approval w i operation_id payload s b = (res, s', b')"
  obtains (nothing) "s' = s" and "\<And>row. res \<noteq> Inr (Consumed row)"
  | (consumed) data r receipt sha payload_sha where
      "validate_operation_payload payload = Inr payload_sha"
      and "require_matching_runtime_context w (dict_val payload) = Inr ()"
      and "decision_store (decisions_json s) = Inr data"
      and "find (has_decision_id i) (decision_rows data) = Some r"
      and "consumable w operation_id payload_sha (dict_val r) = Inr (Some (receipt, sha, payload_sha))"
      and "consume_nonce_via_control_plane w (str_val (get receipt ''nonce'')) sha payload_sha b = (True, b')"
      and "res = Inr (Consumed (consume_row (w_now w) (dict_val r)))"
      and "s' = s\<lparr>decisions_json := Doc (JObj (put ''decisions'' (JArr (update_first (has_decision_id i)
             (JObj (consume_row (w_now w) (dict_val r))) (decision_rows data))) data))\<rparr>"
proof (cases "\<exists>row. res = Inr (Consumed row)")
  case False
  then have "s' = s"
    using assms by (auto simp: consume_operation_approval_def Let_def split: sum.splits option.splits prod.splits bool.splits)
  with False show ?thesis by (intro that(1)) auto
next
  case True
  then obtain h data r receipt sha payload_sha where
      p: "rbind (validate_operation_payload payload) (\<lambda>h. rbind (require_matching_runtime_context w (dict_val payload)) (\<lambda>_. Inr h)) = Inr h"
    and d: "decision_store (decisions_json s) = Inr data" "find (has_decision_id i) (decision_rows data) = Some r"
    and c: "consumable w operation_id h (dict_val r) = Inr (Some (receipt, sha, payload_sha))"
    and n: "consume_nonce_via_control_plane w (str_val (get receipt ''nonce'')) sha payload_sha b = (True, b')"
    and e: "res = Inr (Consumed (consume_row (w_now w) (dict_val r)))"
      "s' = s\<lparr>decisions_json := Doc (JObj (put ''decisions'' (JArr (update_first (has_decision_id i)
             (JObj (consume_row (w_now w) (dict_val r))) (decision_rows data))) data))\<rparr>"
    using assms by (auto simp: consume_operation_approval_def Let_def split: sum.splits option.splits prod.splits bool.splits if_splits)
  moreover have "payload_sha = h" using consumable_Some [OF c] by blast
  ultimately show ?thesis by (intro that(2)) (auto simp: rbind_Inr_iff)
qed

lemma update_first_evolves:
  "find p rows = Some r \<Longrightarrow> ev r y \<Longrightarrow> (\<And>r. ev r r) \<Longrightarrow> list_all2 ev rows (update_first p y rows)"
  by (induction rows) (auto simp: list_all2_refl split: if_splits)

lemma update_first_mem: "find p rows = Some r \<Longrightarrow> y \<in> set (update_first p y rows)"
  by (induction rows) (auto split: if_splits)

lemma find_SomeD: "find p rows = Some r \<Longrightarrow> r \<in> set rows \<and> p r"
  by (induction rows) (auto split: if_splits)

lemma consume_keeps:
  assumes inv: "decisions_inv s" and call: "consume_operation_approval w i operation_id payload s b = (res, s', b')"
  shows "decisions_inv s' \<and> grows decision_evolves (decision_rows_of s) (decision_rows_of s')
    \<and> (\<forall>row. res = Inr (Consumed row) \<longrightarrow> JObj row \<in> set (decision_rows_of s') \<and> \<not> open_l3 row \<and> get row ''decision_id'' = i)"
  using call
proof (cases rule: consume_cases)
  case nothing
  then show ?thesis using inv by (simp add: grows_refl decision_evolves_def)
next
  case (consumed data r receipt sha payload_sha)
  let ?y = "JObj (consume_row (w_now w) (dict_val r))"
  let ?rs = "update_first (has_decision_id i) ?y (decision_rows data)"
  have r: "has_decision_id i r" using find_SomeD [OF consumed(4)] by simp
  have "open_l3 (dict_val r)" using consumable_Some [OF consumed(5)] by simp
  then have ev: "decision_evolves r ?y" by (auto simp: decision_evolves_def)
  have "decisions_inv s' \<and> decision_rows_of s' = ?rs @ [] \<and> grows decision_evolves (decision_rows_of s) (decision_rows_of s')"
    using inv consumed(3,8) update_first_evolves [of _ _ _ decision_evolves, OF consumed(4) ev]
    by (intro rewrite_store [OF inv consumed(3)])
      (simp_all add: decision_evolves_def decisions_inv_def decision_rows_of_def)
  moreover have "?y \<in> set ?rs" by (rule update_first_mem [OF consumed(4)])
  moreover have "get (consume_row (w_now w) (dict_val r)) ''decision_id'' = i"
    using r by (simp add: consume_row_get has_decision_id_def)
  ultimately show ?thesis using consumed(7) consume_row_closed by auto
qed


section \<open>Histories\<close>

text \<open>
  One step of a history over the repository and the state of the broker: an approval operation
  in some world, or any step of the governance stores.
\<close>

inductive approval_step :: "repo \<times> 'b \<Rightarrow> repo \<times> 'b \<Rightarrow> bool" where
  record_plain: "record_decision (w :: 'b world) i sm sc ba rc rp s = (r, s') \<Longrightarrow> approval_step (s, b :: 'b) (s', b)"
| import_product: "import_product_approval (w :: 'b world) name s = (r, s') \<Longrightarrow> approval_step (s, b :: 'b) (s', b)"
| import_operation: "import_operation_approval (w :: 'b world) f s = (r, s') \<Longrightarrow> approval_step (s, b :: 'b) (s', b)"
| consume: "consume_operation_approval (w :: 'b world) i op payload s b = (r, s', b') \<Longrightarrow> approval_step (s, b :: 'b) (s', b')"
| governance: "queue_step s s' \<Longrightarrow> approval_step (s, b :: 'b) (s', b)"
| broker: "approval_step (s, b :: 'b) (s, b')"
lemma init_one_decisions_frame:
  "(\<And>f s. decisions_json (upd f s) = decisions_json s) \<Longrightarrow>
   decisions_json (snd (init_one path sel upd v cs)) = decisions_json (snd cs)"
  by (cases cs) (simp add: init_one_def)

lemma init_one_decisions:
  "decisions_json (snd (init_one path decisions_json decisions_json_update v cs)) =
   (if decisions_json (snd cs) = Missing then Doc (JObj v) else decisions_json (snd cs))"
  by (cases cs) (simp add: init_one_def)

lemma init_events_decisions_frame:
  "decisions_json (snd (case cs of (created, s') \<Rightarrow>
     (if events s' = None then (created @ x, s'\<lparr>events := Some []\<rparr>) else (created, s')))) = decisions_json (snd cs)"
  by (cases cs) simp

lemma emit_event_decisions: "decisions_json (snd (emit_event now t r p s)) = decisions_json s"
  by (simp add: emit_event_def Let_def)

lemma init_project_decisions:
  "decision_store (decisions_json (snd (init_project now profile s))) = decision_store (decisions_json s)"
proof -
  let ?d = "[(''schema_version'', JStr ''1.0''), (''decisions'', JArr [])]"
  have "decisions_json (snd (init_project now profile s)) \<in> {decisions_json s,
      if decisions_json s = Missing then Doc (JObj ?d) else decisions_json s}"
    unfolding init_project_def Let_def
    by (simp add: init_one_decisions_frame init_one_decisions init_events_decisions_frame emit_event_decisions)
  moreover have "decision_store (Doc (JObj ?d)) = decision_store Missing"
    by (simp add: decision_store_def read_file_def)
  ultimately show ?thesis by (auto split: if_splits)
qed

lemma governance_decisions_frame:
  assumes "queue_step s s'"
  shows "decision_store (decisions_json s') = decision_store (decisions_json s)"
  using assms
proof cases
  case (enqueue now aid sm rk ow sc ttl ac)
  then show ?thesis by (simp add: enqueue_external_action_def emit_event_decisions split: sum.splits prod.splits enqueue_plan.splits)
next
  case (resolve now aid ac ow sc sha st ra rc ev en)
  then show ?thesis by (simp add: resolve_external_action_def emit_event_decisions split: sum.splits prod.splits option.splits)
next
  case (claim now wp agent ttl_minutes)
  then show ?thesis by (simp add: claim_work_def emit_event_decisions split: sum.splits prod.splits)
next
  case (init now profile)
  then show ?thesis by (simp add: init_project_decisions)
next
  case (event now event_type risk payload)
  then show ?thesis by (simp add: emit_event_decisions)
qed

lemma approval_step_keeps:
  assumes "approval_step c c'" and "decisions_inv (fst c)"
  shows "decisions_inv (fst c') \<and> grows decision_evolves (decision_rows_of (fst c)) (decision_rows_of (fst c'))"
  using assms
proof cases
  case (record_plain w i sm sc ba rc rp s r s' b)
  from record_plain(3) show ?thesis
  proof (cases rule: record_decision_cases)
    case (recorded profile row)
    then show ?thesis
      using append_decision_keeps(2) [OF _ recorded(2)] record_plan_row [OF recorded(1)] record_plain assms(2)
      by (simp add: has_decision_id_def decision_id_of_def)
  qed (use record_plain assms(2) in \<open>simp add: grows_refl decision_evolves_def\<close>)
next
  case (import_product w name s r s' b)
  from import_product(3) show ?thesis
  proof (cases rule: import_product_cases)
    case (imported envelope receipt sha)
    have "nonblank (get receipt ''decision_id'')"
      using verify_product_envelope_Inr [OF imported(2)] by blast
    then show ?thesis
      using append_decision_keeps(2) [OF _ imported(3)] import_product assms(2)
      by (simp add: product_decision_row_def approval_clash_def decision_id_of_def nonce_of_def)
  qed (use import_product assms(2) in \<open>simp add: grows_refl decision_evolves_def\<close>)
next
  case (import_operation w f s r s' b)
  from import_operation(3) show ?thesis
  proof (cases rule: import_operation_cases)
    case (imported envelope receipt sha payload_sha)
    have "nonblank (get receipt ''approval_id'')"
      using verify_operation_envelope_Inr [OF imported(2)] by (simp add: operation_envelope_ok_def Let_def operation_receipt_fields_def)
    then show ?thesis
      using append_decision_keeps(2) [OF _ imported(4)] import_operation assms(2)
      by (simp add: operation_decision_row_def approval_clash_def decision_id_of_def nonce_of_def)
  qed (use import_operation assms(2) in \<open>simp add: grows_refl decision_evolves_def\<close>)
next
  case (consume w i op payload s b r s' b')
  then show ?thesis using consume_keeps assms(2) by (metis fst_conv)
next
  case (governance s s' b)
  then show ?thesis using governance_decisions_frame [OF governance(3)] assms(2)
    by (simp add: decisions_inv_def decision_rows_of_def grows_refl decision_evolves_def)
next
  case (broker s b b')
  then show ?thesis using assms(2) by (simp add: grows_refl decision_evolves_def)
qed

interpretation decisions: keyed_store approval_step "\<lambda>c. decisions_inv (fst c)" "\<lambda>c. decision_rows_of (fst c)"
  decision_evolves decision_id_of
proof unfold_locales
  show "decision_evolves r r" for r by (simp add: decision_evolves_def)
  show "decision_evolves a b \<Longrightarrow> decision_evolves b c \<Longrightarrow> decision_evolves a c" for a b c by (rule decision_evolves_trans)
  show "decisions_inv (fst s) \<Longrightarrow> approval_step s s' \<Longrightarrow> decisions_inv (fst s')" for s s' :: "repo \<times> 'b"
    using approval_step_keeps by blast
  show "decisions_inv (fst s) \<Longrightarrow> approval_step s s' \<Longrightarrow>
      grows decision_evolves (decision_rows_of (fst s)) (decision_rows_of (fst s'))" for s s' :: "repo \<times> 'b"
    using approval_step_keeps by blast
  show "decision_evolves r r' \<Longrightarrow> decision_id_of r' = decision_id_of r" for r r' by (rule decision_evolves_id)
  show "decisions_inv (fst s) \<Longrightarrow> distinct (map decision_id_of (decision_rows_of (fst s)))" for s :: "repo \<times> 'b"
    by (simp add: decisions_inv_def)
qed
lemma consume_authentic:
  assumes "consume_operation_approval w i op payload s b = (Inr (Consumed row), s', b')" and "decisions_inv s"
  shows "\<exists>r\<in>set (decision_rows_of s). \<exists>envelope receipt.
     envelope = get (dict_val r) ''approval_envelope'' \<and> receipt = receipt_of envelope
     \<and> decision_id_of r = i \<and> open_l3 (dict_val r) \<and> operation_envelope_ok w envelope
     \<and> validate_operation_payload payload = Inr (canonical_digest payload)
     \<and> canonical_digest (get receipt ''operation_payload'') = canonical_digest payload
     \<and> require_matching_runtime_context w (dict_val payload) = Inr ()
     \<and> l3_approval_is_fresh (w_now w) (dict_val r) op
     \<and> row_carries (dict_val r) (signed_l3_fields receipt (receipt_digest receipt) (canonical_digest payload))
     \<and> consume_nonce_via_control_plane w (str_val (get receipt ''nonce'')) (receipt_digest receipt) (canonical_digest payload) b = (True, b')
     \<and> row = consume_row (w_now w) (dict_val r) \<and> JObj row \<in> set (decision_rows_of s')"
  using assms(1)
proof (cases rule: consume_cases)
  case nothing
  then show ?thesis by blast
next
  case (consumed data r receipt sha payload_sha)
  let ?e = "get (dict_val r) ''approval_envelope''"
  have r: "r \<in> set (decision_rows_of s)" "decision_id_of r = i"
    using find_SomeD [OF consumed(4)] consumed(3) by (simp_all add: decision_rows_of_def has_decision_id_def decision_id_of_def)
  note use = consumable_Some [OF consumed(5)]
  then have env: "operation_envelope_ok w ?e" and eqs: "receipt = receipt_of ?e" "sha = receipt_digest receipt"
    "payload_sha = canonical_digest (get receipt ''operation_payload'')"
    using verify_operation_envelope_Inr by blast+
  have sha: "payload_sha = canonical_digest payload" by (rule validate_payload_digest [OF consumed(1)])
  have row: "row = consume_row (w_now w) (dict_val r)" and mem: "JObj row \<in> set (decision_rows_of s')"
    using consumed(7) consume_keeps [OF assms(2,1)] by auto
  show ?thesis
    by (rule bexI [OF _ r(1)], rule exI [of _ ?e], rule exI [of _ "receipt_of ?e"])
      (use r(2) use env eqs sha consumed(1,2,6) row mem in simp)
qed

section \<open>Properties\<close>

text \<open>
  C6. The life cycle of decisions. Over any history of approvals, governance operations and
  broker activity, every recorded decision stays at its place; it is either unchanged or an open
  L3 approval that was consumed exactly once, which fills \<open>consumed_at\<close>, sets the status to
  completed and keeps every other field. Decision IDs and approval nonces stay unique.
\<close>

theorem decision_life_cycle:
  assumes "approval_step\<^sup>*\<^sup>* (s, b) (s', b')" and "decisions_inv s" and "n < length (decision_rows_of s)"
  shows "n < length (decision_rows_of s') \<and> decisions_inv s'
    \<and> (decision_rows_of s' ! n = decision_rows_of s ! n
       \<or> open_l3 (dict_val (decision_rows_of s ! n))
         \<and> (\<exists>now. decision_rows_of s' ! n = JObj (consume_row now (dict_val (decision_rows_of s ! n)))))"
  using decisions.reachable_row [OF assms(1)] decisions.reachable_inv [OF assms(1)] assms(2,3)
  by (simp add: decision_evolves_def)

text \<open>
  C1. At most once. When an approval was consumed, then after any history, with any clock,
  broker or request, consuming the same approval again never succeeds and never contacts the
  broker.
\<close>

theorem consumed_at_most_once:
  assumes "consume_operation_approval w i op payload s b = (Inr (Consumed row), s', b')" and "decisions_inv s"
    and "approval_step\<^sup>*\<^sup>* (s', b') (t, c)"
    and "consume_operation_approval w2 i op2 payload2 t c = (res, t', c')"
  shows "t' = t \<and> c' = c \<and> (\<forall>row'. res \<noteq> Inr (Consumed row'))"
proof -
  have row: "JObj row \<in> set (decision_rows_of s')" "\<not> open_l3 row" "get row ''decision_id'' = i" and inv: "decisions_inv s'"
    using consume_keeps [OF assms(2,1)] by auto
  have closed: "\<not> open_l3 (dict_val r)" if "r \<in> set (decision_rows_of t)" and "has_decision_id i r" for r
  proof -
    have "decision_evolves (JObj row) r"
      using decisions.reachable_key [OF assms(3), of "JObj row" r] inv row that
      by (simp add: decision_id_of_def has_decision_id_def)
    then show ?thesis using closed_row_stays row(2) by fastforce
  qed
  have none: "consumable w2 op2 h (dict_val r) = Inr None"
    if "decision_store (decisions_json t) = Inr data" "find (has_decision_id i) (decision_rows data) = Some r" for data r h
    using find_SomeD [OF that(2)] closed that(1) by (intro consumable_closed) (simp add: decision_rows_of_def)
  show ?thesis
    using assms(4) none
    by (auto simp: consume_operation_approval_def split: sum.splits option.splits if_splits)
qed

text \<open>
  C2. A consumed approval is authentic. When consumption succeeds, the requested payload is
  canonical and names the repository, project and environment of the trusted runtime context;
  the stored envelope has a signature over its canonical receipt that verifies under the key of
  the one active trusted approver it names, is inside its window of at most 24 hours and signs
  a payload with the digest of the requested one; the broker answered CONSUMED for exactly this
  nonce and these digests; and the stored row, an open L3 approval before, is now closed.
\<close>

theorem consumed_approval_authentic:
  assumes "consume_operation_approval w i op payload s b = (Inr (Consumed row), s', b')" and "decisions_inv s"
  shows "\<exists>r\<in>set (decision_rows_of s). \<exists>envelope receipt.
     envelope = get (dict_val r) ''approval_envelope'' \<and> receipt = receipt_of envelope
     \<and> decision_id_of r = i \<and> open_l3 (dict_val r) \<and> operation_envelope_ok w envelope
     \<and> validate_operation_payload payload = Inr (canonical_digest payload)
     \<and> canonical_digest (get receipt ''operation_payload'') = canonical_digest payload
     \<and> require_matching_runtime_context w (dict_val payload) = Inr ()
     \<and> l3_approval_is_fresh (w_now w) (dict_val r) op
     \<and> row_carries (dict_val r) (signed_l3_fields receipt (receipt_digest receipt) (canonical_digest payload))
     \<and> consume_nonce_via_control_plane w (str_val (get receipt ''nonce'')) (receipt_digest receipt) (canonical_digest payload) b = (True, b')
     \<and> row = consume_row (w_now w) (dict_val r) \<and> JObj row \<in> set (decision_rows_of s')"
  by (rule consume_authentic [OF assms])

text \<open>
  Replays are refused. Once a signed L3 receipt was imported, no history makes a later
  import of any envelope with the same approval ID or the same nonce succeed.
\<close>

theorem imported_receipt_not_replayed:
  assumes "import_operation_approval w f s = (Inr res, s')" and "decisions_inv s"
    and "approval_step\<^sup>*\<^sup>* (s', b) (t, c)"
    and "import_operation_approval w2 f2 t = (Inr res2, t')"
  shows "get res2 ''approval_id'' \<noteq> get res ''approval_id''
    \<and> (\<forall>e e2. f = Doc e \<longrightarrow> f2 = Doc e2 \<longrightarrow> get (receipt_of e) ''nonce'' \<noteq> get (receipt_of e2) ''nonce'')"
proof -
  obtain e receipt sha p where imp: "read_file f JNull = Inr e" "verify_operation_envelope w e = Inr (receipt, sha, p)"
    and app: "append_decision (approval_clash (get receipt ''approval_id'') (get receipt ''nonce''))
      (ValueError ''approval receipt or nonce was already imported'') (operation_decision_row (w_now w) e receipt sha p) s = (Inr (), s')"
    and id1: "get res ''approval_id'' = get receipt ''approval_id''"
    using assms(1) by (auto simp: import_operation_approval_def rbind_Inr_iff split: sum.splits prod.splits)
  obtain e2 receipt2 sha2 p2 where imp2: "read_file f2 JNull = Inr e2" "verify_operation_envelope w2 e2 = Inr (receipt2, sha2, p2)"
    and app2: "append_decision (approval_clash (get receipt2 ''approval_id'') (get receipt2 ''nonce''))
      (ValueError ''approval receipt or nonce was already imported'') (operation_decision_row (w_now w2) e2 receipt2 sha2 p2) t = (Inr (), t')"
    and id2: "get res2 ''approval_id'' = get receipt2 ''approval_id''"
    using assms(4) by (auto simp: import_operation_approval_def rbind_Inr_iff split: sum.splits prod.splits)
  let ?row = "JObj (operation_decision_row (w_now w) e receipt sha p)"
  have "nonblank (get receipt ''approval_id'')"
    using verify_operation_envelope_Inr [OF imp(2)] by (simp add: operation_envelope_ok_def Let_def operation_receipt_fields_def)
  then have rows: "decision_rows_of s' = decision_rows_of s @ [?row]" and inv: "decisions_inv s'"
    using append_decision_keeps [OF assms(2) app] by (simp_all add: operation_decision_row_def approval_clash_def decision_id_of_def nonce_of_def)
  let ?n = "length (decision_rows_of s)"
  have "?n < length (decision_rows_of t) \<and> decision_evolves ?row (decision_rows_of t ! ?n)"
    using decisions.reachable_row [OF assms(3), of ?n] inv rows by simp
  then obtain r where r: "r \<in> set (decision_rows_of t)" "decision_evolves ?row r" by (metis nth_mem)
  have "\<not> approval_clash (get receipt2 ''approval_id'') (get receipt2 ''nonce'') r"
    using app2 r(1) by (auto simp: append_decision_Inr decision_rows_of_def list_ex_iff)
  then have "get receipt ''approval_id'' \<noteq> get receipt2 ''approval_id''" "get receipt ''nonce'' \<noteq> get receipt2 ''nonce''"
    using decision_evolves_keeps [OF r(2)] by (simp_all add: approval_clash_def operation_decision_row_def)
  moreover have "receipt = receipt_of e" "receipt2 = receipt_of e2"
    using verify_operation_envelope_Inr [OF imp(2)] verify_operation_envelope_Inr [OF imp2(2)] by simp_all
  ultimately show ?thesis using id1 id2 imp(1) imp2(1) by (auto simp: read_file_def)
qed
section \<open>A concrete approval\<close>

text \<open>One approver, one runtime context, one signed receipt, and a broker that accepts every request.\<close>

definition sample_approvers :: obj where
  "sample_approvers = [(''approvers'', JArr [JObj [(''algorithm'', JStr ''ed25519''), (''approver_id'', JStr ''owner''),
     (''public_key'', JStr ''a2V5''), (''status'', JStr ''active'')]]), (''schema_version'', JStr ''1.0'')]"

definition sample_runtime :: obj where
  "sample_runtime = [(''environment'', JStr ''prod''), (''project'', JStr ''p''), (''repository'', JStr ''r''),
     (''schema_version'', JStr ''1.0'')]"

definition sample_world :: "string list world" where
  "sample_world = \<lparr>w_now = us_minute, w_darwin = False, w_posix = True, w_euid = 1000, w_env_override = False,
     w_approvers_inside = False, w_domains_inside = False, w_root = ''/r'', w_cwd = ''/r'',
     w_approvers = good_calls (canonical_bytes (JObj sample_approvers)), w_domains = good_calls [],
     w_runtime = good_calls (canonical_bytes (JObj sample_runtime)),
     w_snapshot = (\<lambda>_. undefined), w_git_toplevel = None, w_git_remote = None,
     w_ed25519 = (\<lambda>k sg m. k = ''key'' \<and> sg = ''sig''),
     w_broker_parents = [Inr root_dir], w_broker_socket = Inr (root_file\<lparr>st_kind := Socket, st_perm := 432\<rparr>), w_broker_group = Some 0,
     w_serve = (\<lambda>request log. (Inr [consumed_reply], request # log))\<rparr>"

definition sample_receipt :: obj where
  "sample_receipt = [(''approval_id'', JStr ''a1''), (''operation_id'', JStr ''o1''), (''operation_payload'', JObj sample_payload),
     (''summary'', JStr ''s''), (''scope'', JStr ''one deploy''), (''approved_by'', JStr ''owner''), (''issued_at'', JStr (stamp 0)),
     (''expires_at'', JStr (stamp us_hour)), (''nonce'', JStr ''123456789012'')]"

definition sample_envelope :: json where
  "sample_envelope = JObj [(''schema_version'', JStr ''1.0''), (''algorithm'', JStr ''ed25519''), (''receipt'', JObj sample_receipt),
     (''signature'', JStr ''c2ln'')]"

lemma parse_time_stamp: "0 \<le> t \<Longrightarrow> t < max_us \<Longrightarrow> t mod us_second = 0 \<Longrightarrow> parse_time (JStr (stamp t)) f = Inr t"
  by (simp add: parse_time_def parse_stamp_stamp is_aware_def)

lemma load_good_canonical:
  assumes "wf_json (JObj d)" and "canon (JObj d) = JObj d" and "length (canonical_bytes (JObj d)) \<le> 1000"
  shows "load_control_plane_json True 1000 (good_calls (canonical_bytes (JObj d))) label = Inr d"
  using assms by (intro load_good_calls) (simp_all add: parse_document_dumps max_control_plane_bytes_def)

lemma sample_approvers_loads: "load_control_plane_json True 1000 (good_calls (canonical_bytes (JObj sample_approvers))) label = Inr sample_approvers"
  unfolding sample_approvers_def by (rule load_good_canonical) code_simp+

lemma sample_runtime_loads: "load_control_plane_json True 1000 (good_calls (canonical_bytes (JObj sample_runtime))) label = Inr sample_runtime"
  unfolding sample_runtime_def by (rule load_good_canonical) code_simp+

lemma sample_approver: "trusted_approver sample_world ''owner'' = Inr [(''algorithm'', JStr ''ed25519''), (''approver_id'', JStr ''owner''),
     (''public_key'', JStr ''a2V5''), (''status'', JStr ''active'')]"
proof -
  have "trusted_approver_store sample_world = Inr sample_approvers"
    by (simp add: trusted_approver_store_def trusted_approvers_path_def load_document_def sample_world_def sample_approvers_loads)
  then show ?thesis
    by (simp add: trusted_approver_def sample_approvers_def active_match_def approver_row_ok_def keys_eq_def
        hashable_def insert_commute strip_eq_Nil_iff is_space_def)
qed

lemma sample_context: "require_matching_runtime_context sample_world sample_payload = Inr ()"
proof -
  have "load_document sample_world (w_runtime sample_world) label = Inr sample_runtime" for label
    by (simp add: load_document_def sample_world_def sample_runtime_loads)
  then show ?thesis
    by (simp add: require_matching_runtime_context_def runtime_context_def sample_runtime_def sample_payload_def keys_eq_def
        insert_commute strip_eq_Nil_iff is_space_def)
qed

lemma sample_signature: "verify_signature sample_world ''a2V5'' ''c2ln'' m"
proof -
  have "b64decode ''a2V5'' = Some ''key''" "b64decode ''c2ln'' = Some ''sig''" by code_simp+
  then show ?thesis by (simp add: verify_signature_def sample_world_def)
qed

lemma sample_window: "check_window us_minute sample_receipt (24 * us_hour) k m = Inr ()"
proof -
  have "parse_time (JStr (stamp 0)) f = Inr 0" "parse_time (JStr (stamp us_hour)) f = Inr us_hour" for f
    by (rule parse_time_stamp; simp add: us_defs max_us_num)+
  then show ?thesis by (simp add: check_window_def sample_receipt_def us_defs)
qed

lemma sample_envelope_verified:
  "verify_operation_envelope sample_world sample_envelope =
     Inr (sample_receipt, receipt_digest sample_receipt, canonical_digest (JObj sample_payload))"
proof -
  have parts: "envelope_shape sample_envelope" "receipt_of sample_envelope = sample_receipt" "signature_of sample_envelope = ''c2ln''"
    by (auto simp: envelope_shape_def sample_envelope_def receipt_of_def signature_of_def keys_eq_def)
  have fields: "keys_eq sample_receipt operation_receipt_fields
      \<and> list_all (\<lambda>k. k = ''operation_payload'' \<or> nonblank (get sample_receipt k)) operation_receipt_fields"
    by (simp add: keys_eq_def operation_receipt_fields_def sample_receipt_def
        stamp_nonblank [unfolded strip_eq_Nil_iff] strip_eq_Nil_iff is_space_def insert_commute)
  have get: "get sample_receipt ''operation_payload'' = JObj sample_payload" "get sample_receipt ''scope'' = JStr ''one deploy''"
    "get sample_payload ''scope'' = JStr ''one deploy''" "get sample_receipt ''nonce'' = JStr ''123456789012''"
    "get sample_receipt ''approved_by'' = JStr ''owner''" "w_now sample_world = us_minute"
    by (simp_all add: sample_receipt_def sample_payload_def sample_world_def)
  show ?thesis
    unfolding verify_operation_envelope_def Let_def parts get str_val.simps dict_val.simps
    using parts fields
    by (simp add: sample_payload_ok sample_window sample_approver check_signature_def sample_signature)
qed
text \<open>The receipt imported into an empty store, and the same approval consumed.\<close>

definition sample_l3_row :: obj where
  "sample_l3_row = operation_decision_row us_minute sample_envelope sample_receipt (receipt_digest sample_receipt)
     (canonical_digest (JObj sample_payload))"

definition sample_l3_repo :: repo where
  "sample_l3_repo = snd (import_operation_approval sample_world (Doc sample_envelope) fresh_repo)"

lemma fresh_decisions: "decisions_inv fresh_repo" "decision_rows_of fresh_repo = []"
  using decisions_inv_missing [of fresh_repo] by (simp_all add: fresh_repo_def)

lemma sample_import:
  "\<exists>res. import_operation_approval sample_world (Doc sample_envelope) fresh_repo = (Inr res, sample_l3_repo)
     \<and> get res ''approval_id'' = JStr ''a1''"
  and sample_l3_rows: "decision_rows_of sample_l3_repo = [JObj sample_l3_row]"
  and sample_l3_inv: "decisions_inv sample_l3_repo"
proof -
  have payload: "get sample_receipt ''operation_payload'' = JObj sample_payload" and i: "get sample_receipt ''approval_id'' = JStr ''a1''"
    and now: "w_now sample_world = us_minute"
    by (simp_all add: sample_receipt_def sample_world_def)
  have clash: "\<not> list_ex c (decision_rows [(''schema_version'', JStr ''1.0''), (''decisions'', JArr [])])" for c
    by (simp add: decision_rows_def)
  then obtain s' where app: "append_decision c e sample_l3_row fresh_repo = (Inr (), s')" for c e
    by (simp add: append_decision_def fresh_repo_def decision_store_missing)
  then have imp: "import_operation_approval sample_world (Doc sample_envelope) fresh_repo =
     (Inr [(''approval_id'', get sample_receipt ''approval_id''), (''operation_id'', get sample_receipt ''operation_id''),
           (''approved_by'', get sample_receipt ''approved_by''), (''expires_at'', get sample_receipt ''expires_at''),
           (''receipt_sha256'', JStr (receipt_digest sample_receipt)),
           (''operation_payload_sha256'', JStr (canonical_digest (JObj sample_payload))),
           (''verification'', JStr ''SIGNATURE_VERIFIED'')], s')"
    by (simp add: import_operation_approval_def read_file_def sample_envelope_verified payload sample_context now sample_l3_row_def [symmetric])
  then have s': "s' = sample_l3_repo" by (simp add: sample_l3_repo_def)
  show "\<exists>res. import_operation_approval sample_world (Doc sample_envelope) fresh_repo = (Inr res, sample_l3_repo)
     \<and> get res ''approval_id'' = JStr ''a1''"
    using imp s' i by simp
  have "nonblank (get sample_l3_row ''decision_id'')"
    by (simp add: sample_l3_row_def operation_decision_row_def i strip_eq_Nil_iff is_space_def)
  then show "decision_rows_of sample_l3_repo = [JObj sample_l3_row]" "decisions_inv sample_l3_repo"
    using append_decision_keeps [OF fresh_decisions(1) app [of "\<lambda>_. True"]] fresh_decisions(2) s' by auto
qed

lemma sample_consumable:
  "consumable sample_world (JStr ''o1'') (canonical_digest (JObj sample_payload)) sample_l3_row =
     Inr (Some (sample_receipt, receipt_digest sample_receipt, canonical_digest (JObj sample_payload)))"
proof -
  have "parse_stamp (stamp us_hour) = Some (DT us_hour (Some 0))"
    using parse_stamp_stamp [of us_hour] by (simp add: us_defs max_us_num)
  then have "l3_approval_is_fresh us_minute sample_l3_row (JStr ''o1'')"
    by (simp add: l3_approval_is_fresh_def sample_l3_row_def operation_decision_row_def sample_receipt_def is_aware_def us_defs)
  moreover have "get sample_l3_row ''approval_envelope'' = sample_envelope" "get sample_l3_row ''risk_level'' = JStr ''L3''"
    "get sample_l3_row ''operation_id'' = JStr ''o1''" "get sample_l3_row ''consumed_at'' = JNull"
    "w_now sample_world = us_minute"
    by (simp_all add: sample_l3_row_def operation_decision_row_def sample_receipt_def sample_world_def)
  moreover have "row_carries sample_l3_row (signed_l3_fields sample_receipt (receipt_digest sample_receipt) (canonical_digest (JObj sample_payload)))"
    by (simp add: row_carries_def signed_l3_fields_def sample_l3_row_def operation_decision_row_def sample_receipt_def)
  ultimately show ?thesis by (simp add: consumable_def sample_envelope_verified)
qed

lemma sample_consume:
  "\<exists>row s' b'. consume_operation_approval sample_world (JStr ''a1'') (JStr ''o1'') (JObj sample_payload) sample_l3_repo [] =
     (Inr (Consumed row), s', b') \<and> get row ''status'' = JStr ''completed''"
proof -
  obtain data where data: "decision_store (decisions_json sample_l3_repo) = Inr data" and rows: "decision_rows data = [JObj sample_l3_row]"
    using sample_l3_inv sample_l3_rows by (auto simp: decisions_inv_def decision_rows_of_def)
  have found: "find (has_decision_id (JStr ''a1'')) (decision_rows data) = Some (JObj sample_l3_row)"
    unfolding rows by (simp add: has_decision_id_def sample_l3_row_def operation_decision_row_def sample_receipt_def)
  have "broker_endpoint_ok sample_world"
    by (simp add: broker_endpoint_ok_def sample_world_def broker_parent_ok_def root_dir_def [THEN arg_cong [of _ _ st_kind]] root_file_def)
  then have "fst (consume_nonce_via_control_plane sample_world n h p [])" for n h p
    by (simp add: consume_nonce_via_control_plane_def sample_world_def consumed_reply_def)
  then obtain b' where "consume_nonce_via_control_plane sample_world (str_val (get sample_receipt ''nonce'')) (receipt_digest sample_receipt)
      (canonical_digest (JObj sample_payload)) [] = (True, b')"
    by (metis (full_types) prod.collapse)
  then show ?thesis
    using data found sample_consumable
    by (simp add: consume_operation_approval_def sample_payload_ok sample_context consume_row_get Let_def)
qed
theorem decision_life_cycle_witness:
  "decisions_inv sample_l3_repo \<and> decision_rows_of sample_l3_repo ! 0 = JObj sample_l3_row"
  using decision_life_cycle [of sample_l3_repo "[] :: string list" sample_l3_repo "[]" 0] sample_l3_inv sample_l3_rows by simp

theorem consumed_at_most_once_witness:
  "\<exists>row s' b'. consume_operation_approval sample_world (JStr ''a1'') (JStr ''o1'') (JObj sample_payload) sample_l3_repo [] =
     (Inr (Consumed row), s', b')
     \<and> (\<forall>row'. fst (consume_operation_approval sample_world (JStr ''a1'') (JStr ''o1'') (JObj sample_payload) s' b') \<noteq> Inr (Consumed row'))"
proof -
  obtain row s' b' where c: "consume_operation_approval sample_world (JStr ''a1'') (JStr ''o1'') (JObj sample_payload) sample_l3_repo [] =
     (Inr (Consumed row), s', b')" using sample_consume by blast
  obtain res t' c' where again: "consume_operation_approval sample_world (JStr ''a1'') (JStr ''o1'') (JObj sample_payload) s' b' = (res, t', c')"
    by (metis prod_cases3)
  show ?thesis using consumed_at_most_once [OF c sample_l3_inv rtranclp.rtrancl_refl again] c again by auto
qed

theorem consumed_approval_authentic_witness:
  "\<exists>row s' b'. consume_operation_approval sample_world (JStr ''a1'') (JStr ''o1'') (JObj sample_payload) sample_l3_repo [] =
     (Inr (Consumed row), s', b') \<and> JObj row \<in> set (decision_rows_of s')"
proof -
  obtain row s' b' where c: "consume_operation_approval sample_world (JStr ''a1'') (JStr ''o1'') (JObj sample_payload) sample_l3_repo [] =
     (Inr (Consumed row), s', b')" using sample_consume by blast
  then show ?thesis using consumed_approval_authentic [OF c sample_l3_inv] by blast
qed

text \<open>A second receipt, with another ID and nonce, can still be imported.\<close>

definition sample_receipt2 :: obj where
  "sample_receipt2 = put ''approval_id'' (JStr ''a2'') (put ''nonce'' (JStr ''210987654321'') sample_receipt)"

definition sample_envelope2 :: json where
  "sample_envelope2 = JObj (put ''receipt'' (JObj sample_receipt2) (dict_val sample_envelope))"

lemma sample_import2: "\<exists>res t. import_operation_approval sample_world (Doc sample_envelope2) sample_l3_repo = (Inr res, t)"
proof -
  have parts: "envelope_shape sample_envelope2" "receipt_of sample_envelope2 = sample_receipt2" "signature_of sample_envelope2 = ''c2ln''"
    by (auto simp: envelope_shape_def sample_envelope2_def sample_envelope_def receipt_of_def signature_of_def keys_eq_def)
  have fields: "keys_eq sample_receipt2 operation_receipt_fields
      \<and> list_all (\<lambda>k. k = ''operation_payload'' \<or> nonblank (get sample_receipt2 k)) operation_receipt_fields"
    by (simp add: keys_eq_def operation_receipt_fields_def sample_receipt2_def sample_receipt_def
        stamp_nonblank [unfolded strip_eq_Nil_iff] strip_eq_Nil_iff is_space_def insert_commute)
  have get: "get sample_receipt2 ''operation_payload'' = JObj sample_payload" "get sample_receipt2 ''scope'' = JStr ''one deploy''"
    "get sample_payload ''scope'' = JStr ''one deploy''" "get sample_receipt2 ''nonce'' = JStr ''210987654321''"
    "get sample_receipt2 ''approved_by'' = JStr ''owner''" "w_now sample_world = us_minute"
    "get sample_receipt2 ''approval_id'' = JStr ''a2''"
    by (simp_all add: sample_receipt2_def sample_receipt_def sample_payload_def sample_world_def)
  have window: "check_window us_minute sample_receipt2 (24 * us_hour) k m = Inr ()" for k m
    using sample_window [of k m] by (simp add: check_window_def sample_receipt2_def)
  have ver: "verify_operation_envelope sample_world sample_envelope2 =
     Inr (sample_receipt2, receipt_digest sample_receipt2, canonical_digest (JObj sample_payload))"
    unfolding verify_operation_envelope_def Let_def parts get str_val.simps dict_val.simps
    using parts fields by (simp add: sample_payload_ok window sample_approver check_signature_def sample_signature)
  obtain data where data: "decision_store (decisions_json sample_l3_repo) = Inr data" and rows: "decision_rows data = [JObj sample_l3_row]"
    using sample_l3_inv sample_l3_rows by (auto simp: decisions_inv_def decision_rows_of_def)
  have "\<not> list_ex (approval_clash (JStr ''a2'') (JStr ''210987654321'')) (decision_rows data)"
    unfolding rows by (simp add: approval_clash_def sample_l3_row_def operation_decision_row_def sample_receipt_def)
  then show ?thesis
    by (simp add: import_operation_approval_def read_file_def ver get sample_context append_decision_def data)
qed

theorem imported_receipt_not_replayed_witness:
  "\<exists>res t res2. import_operation_approval sample_world (Doc sample_envelope) fresh_repo = (Inr res, sample_l3_repo)
     \<and> import_operation_approval sample_world (Doc sample_envelope2) sample_l3_repo = (Inr res2, t)
     \<and> get res2 ''approval_id'' \<noteq> get res ''approval_id''"
proof -
  obtain res where one: "import_operation_approval sample_world (Doc sample_envelope) fresh_repo = (Inr res, sample_l3_repo)"
    using sample_import by blast
  obtain res2 t where two: "import_operation_approval sample_world (Doc sample_envelope2) sample_l3_repo = (Inr res2, t)"
    using sample_import2 by blast
  show ?thesis
    using imported_receipt_not_replayed [OF one fresh_decisions(1) rtranclp.rtrancl_refl [of _ "(sample_l3_repo, [])"] two] one two by blast
qed

end
