(* ===== verification/Escalation.thy ===== *)
theory Escalation
  imports Approval_Facts
begin

text \<open>
  The escalation policy of \<open>src/src/sddgov/autonomy.py\<close>: \<open>evaluate_escalation\<close> decides
  whether an agent may continue, is blocked, or must put one bounded question to a human;
  \<open>evaluate_deployment\<close> guards production deployments with it; \<open>lock_artifact\<close> and
  \<open>verify_artifact\<close> pin a release artifact. The policy is a sequence of early returns: the
  pure classification, the reuse of a recorded L2 decision, the consumption of an L3 approval
  and the final surfacing of a decision package, which may queue an external action.
\<close>


section \<open>Answers\<close>

definition checkpoint :: "string \<Rightarrow> json \<Rightarrow> obj result" where
  "checkpoint summary next_work_package =
     require (strip summary \<noteq> []) (ValueError ''checkpoint summary must not be blank'')
       (Inr [(''type'', JStr ''checkpoint''), (''summary'', JStr summary), (''requires_response'', JBool False),
             (''next_state'', JStr ''CONTINUE''), (''next_work_package'', next_work_package)])"

definition answer :: "string \<Rightarrow> string \<Rightarrow> string \<Rightarrow> obj" where
  "answer state reason next_action =
     [(''state'', JStr state), (''requires_response'', JBool False), (''reason'', JStr reason), (''next_action'', JStr next_action)]"

definition continue_with :: "string \<Rightarrow> string \<Rightarrow> obj" where
  "continue_with reason next_action = answer ''CONTINUE'' reason next_action"

definition blocked :: "string \<Rightarrow> string \<Rightarrow> obj" where
  "blocked reason next_action = answer ''BLOCKED'' reason next_action"

definition l3_required :: "string list \<Rightarrow> (string \<times> json)" where
  "l3_required risks = (''required_risk_levels'', JArr (map JStr risks))"


section \<open>Classification\<close>

definition authority_fields :: "string list" where
  "authority_fields = [''approval_id'', ''operation_id'', ''operation_payload'', ''decision_id'', ''decision_scope'', ''decision_package'']"

definition human_categories :: "string list" where
  "human_categories = [''operational_action'', ''necessary_uat'']"

text \<open>The contract of the request: its risk, category and effects.\<close>

definition check_request :: "obj \<Rightarrow> obj option result" where
  "check_request request =
     (if \<not> str_in (get request ''risk_level'') risk_levels
      then Inr (Some (blocked ''autonomy_request_has_an_invalid_contract'' ''repair_the_machine_request_before_reclassification''))
      else require (is_str (get request ''category'') \<and> get request ''category'' \<noteq> JStr []) (ValueError ''category is required'')
        (if category_of request \<notin> set known_categories
         then Inr (Some (blocked ''unrecognized_action_category'' ''classify_with_canonical_action_category_and_effects''))
         else require (has_key request ''effects'')
             (ValueError ''effects is required and must explicitly classify sensitive effects'')
           (require (is_dict (get request ''effects'')) (ValueError ''effects must be an object of known sensitive flags'')
           (require (effects_ok (dict_val (get request ''effects'')))
             (ValueError ''effects must contain only known sensitive flags set to true'') (Inr None)))))"

text \<open>The rules that refuse a combination of risk, category and effects (first match wins).\<close>

definition refuse_combination :: "string \<Rightarrow> string \<Rightarrow> obj \<Rightarrow> obj option" where
  "refuse_combination risk category effects =
     (if has_key effects ''public_publish'' \<and> category \<noteq> ''public_release''
      then Some (blocked ''public_publish_requires_canonical_public_release_category'' ''prepare_one_exact_public_release_operation''
             @ [l3_required [''L3''], (''required_category'', JStr ''public_release''), (''reality_boundary'', JBool True)])
      else if category = ''public_release'' \<and> get effects ''public_publish'' \<noteq> JBool True
      then Some (blocked ''public_release_requires_public_publish_effect'' ''declare_the_public_publish_effect''
             @ [l3_required [''L3''], (''reality_boundary'', JBool True)])
      else if category \<in> set [''merge'', ''release_readiness''] \<and> effects \<noteq> []
      then Some (blocked ''reality_effect_requires_canonical_l3_operation'' ''separate_readiness_from_the_exact_external_operation''
             @ [l3_required [''L3''], (''required_category'', JStr (if has_key effects ''public_publish'' then ''public_release'' else ''high_risk_operation'')),
                (''reality_boundary'', JBool True)])
      else if category \<in> set [''merge'', ''release_readiness''] \<and> risk \<noteq> ''L1''
      then Some (blocked (category @ ''_requires_exact_l1_without_reality_effects'') ''reclassify_the_effect_free_engineering_channel_as_l1''
             @ [l3_required [''L1''], (''reality_boundary'', JBool False)])
      else if category = ''product_decision'' \<and> risk \<noteq> ''L2''
      then Some (blocked ''product_decision_requires_exact_l2_risk'' ''reclassify_and_prepare_signed_l2_decision_package''
             @ [l3_required [''L2'']])
      else if category = ''high_risk_operation'' \<and> risk \<noteq> ''L3''
      then Some (blocked ''high_risk_operation_cannot_be_downgraded'' ''reclassify_and_prepare_exact_l3_decision_package''
             @ [l3_required [''L3'']])
      else if (category \<in> set high_risk_categories \<or> effects \<noteq> []) \<and> risk \<noteq> ''L3''
      then Some (blocked ''dangerous_action_cannot_be_downgraded'' ''reclassify_and_prepare_exact_l3_decision_package''
             @ [l3_required [''L3'']])
      else None)"

text \<open>The categories that are answered without a human: informational ones, and L0 or L1 engineering.\<close>

definition answer_without_human :: "string \<Rightarrow> string \<Rightarrow> obj \<Rightarrow> obj option" where
  "answer_without_human risk category request =
     (let unrelated = truthy (get request ''unrelated_work_exists''); forced = category \<in> set human_categories in
      if category = ''checkpoint'' then Some (continue_with ''checkpoint_is_informational'' ''continue'')
      else if category = ''integrity_mismatch''
      then Some (answer (if unrelated then ''CONTINUE'' else ''BLOCKED'') ''integrity_mismatch_requires_machine_investigation''
             (if unrelated then ''investigate_artifact_and_continue_unrelated_work'' else ''investigate_artifact'')
             @ [(''artifact_state'', JStr ''BLOCKED'')])
      else if category = ''uncertainty''
      then (if get request ''machine_verifiable'' = JBool True
            then Some (continue_with ''machine_verifiable_uncertainty_requires_investigation'' ''verify_with_repo_decisions_tests_ci_or_tools'')
            else Some (answer (if unrelated then ''CONTINUE'' else ''BLOCKED'') ''uncertainty_must_be_investigated_not_escalated''
                   (if unrelated then ''investigate_and_continue_unrelated_work''
                    else ''investigate_and_reclassify_with_one_canonical_category'')))
      else if \<not> forced \<and> category \<in> set routine_operations \<and> risk \<in> set [''L0'', ''L1'']
      then Some (continue_with ''no_human_escalation_if_machine_verifiable'' ''verify_with_repo_decisions_tests_ci_or_tools''
             @ (if category \<in> set [''merge'', ''release_readiness'']
                then [(''channel'', JStr (if category = ''release_readiness'' then ''release_readiness'' else ''development'')),
                      (''reality_boundary'', JBool False), (''owner_operations_required'', JInt 0)]
                else []))
      else if \<not> forced \<and> truthy (get request ''machine_verifiable'') \<and> risk \<in> set [''L0'', ''L1'']
      then Some (continue_with ''no_human_escalation_if_machine_verifiable'' ''verify_with_repo_decisions_tests_ci_or_tools'')
      else if risk \<in> set [''L0'', ''L1''] \<and> \<not> forced then Some (continue_with ''l0_l1_engineering_is_pre_authorized'' ''continue'')
      else None)"

definition risk_of :: "obj \<Rightarrow> string" where
  "risk_of request = str_val (get request ''risk_level'')"

definition effects_of :: "obj \<Rightarrow> obj" where
  "effects_of request = dict_val (get request ''effects'')"

definition refuse_envelope :: "obj \<Rightarrow> obj option" where
  "refuse_envelope request =
     (let risk = risk_of request; category = category_of request in
      if risk \<in> set [''L0'', ''L1''] \<and> category \<in> set routine_operations \<and> list_ex (has_key request) authority_fields
      then Some (blocked ''authority_bearing_fields_not_allowed_for_routine_action'' ''rebuild_request_with_one_exact_authority_class'')
      else (case (if risk \<in> set [''L0'', ''L1''] then l0_l1_envelope_error request else None) of
        Some e \<Rightarrow> Some (blocked e ''use_one_closed_typed_executor_contract_or_remove_executable_fields'')
      | None \<Rightarrow>
          (case closed_category_envelope_error request of
             Some e \<Rightarrow> Some (blocked e ''rebuild_request_with_one_exact_category_schema'')
           | None \<Rightarrow> None)))"

text \<open>The answer of the pure part of the policy, if it has one.\<close>

definition classify :: "obj \<Rightarrow> obj option result" where
  "classify request =
     rbind (check_request request) (\<lambda>early.
       case early of Some r \<Rightarrow> Inr (Some r)
       | None \<Rightarrow>
           (case refuse_envelope request of Some r \<Rightarrow> Inr (Some r)
            | None \<Rightarrow>
                (case refuse_combination (risk_of request) (category_of request) (effects_of request) of Some r \<Rightarrow> Inr (Some r)
                 | None \<Rightarrow> Inr (answer_without_human (risk_of request) (category_of request) request))))"
section \<open>Reusing a recorded L2 decision\<close>

definition is_plain :: "obj \<Rightarrow> bool" where
  "is_plain row \<longleftrightarrow> get row ''approval_mode'' = JStr ''plain_language_owner_choice''"

definition reuse_decision :: "'b world \<Rightarrow> obj \<Rightarrow> repo \<Rightarrow> obj option result" where
  "reuse_decision w request s =
     (if \<not> (risk_of request = ''L2'' \<and> category_of request = ''product_decision'') then Inr None
      else rbind (find_decision (get request ''decision_id'') s) (\<lambda>found.
        case found of None \<Rightarrow> Inr None
        | Some recorded \<Rightarrow>
            rbind (if is_plain recorded
                   then plain_l2_approval_matches w s recorded (get request ''decision_scope'') (get request ''decision_package'')
                   else Inr False) (\<lambda>plain.
            rbind (if plain then Inr True else l2_approval_matches w s recorded (get request ''decision_scope'')) (\<lambda>matches.
              if \<not> matches then Inr None
              else if has_key request ''decision_package'' \<and> \<not> plain
              then Inr (Some (if is_plain recorded
                     then blocked ''existing_plain_language_decision_package_changed'' ''reopen_one_bounded_product_decision''
                     else blocked ''existing_decision_reuse_must_not_include_decision_package''
                            ''remove_the_new_package_or_reopen_one_bounded_product_decision''))
              else Inr (Some (continue_with ''existing_decision_reused_without_duplicate_question'' ''continue''))))))"


section \<open>Using an L3 approval\<close>

text \<open>A consumed row was checked to carry the signed fields, so the look-ups of the answer succeed.\<close>

definition approved_answer :: "obj \<Rightarrow> obj" where
  "approved_answer row =
     continue_with ''fresh_l3_operation_approval_verified'' ''continue''
     @ [(''approval_id'', get row ''decision_id''), (''operation_id'', get row ''operation_id''),
        (''authorized_operation_payload'', get (receipt_of (get row ''approval_envelope'')) ''operation_payload''),
        (''operation_payload_sha256'', get row ''operation_payload_sha256''), (''approval_consumed'', JBool True)]"

definition runtime_blocked :: obj where
  "runtime_blocked = blocked ''l3_runtime_context_mismatch'' ''recover_independent_runtime_context_or_reissue_exact_payload''"

definition ledger_blocked :: obj where
  "ledger_blocked = blocked ''l3_external_nonce_ledger_unavailable'' ''provision_or_recover_independent_l3_control_plane''"

text \<open>
  The marker keys of the two blocked outcomes are read from the returned row as well: a stored
  row that carries such a key is reported as blocked after it was consumed.
\<close>

definition consumed_answer :: "obj \<Rightarrow> obj" where
  "consumed_answer row =
     (if truthy (get row ''_runtime_context_blocked'') then runtime_blocked
      else if truthy (get row ''_control_plane_blocked'') then ledger_blocked
      else approved_answer row)"

definition use_approval :: "'b world \<Rightarrow> obj \<Rightarrow> repo \<Rightarrow> 'b \<Rightarrow> obj option result \<times> repo \<times> 'b" where
  "use_approval w request s b =
     (if \<not> (risk_of request = ''L3'' \<and> truthy (get request ''approval_id'')) then (Inr None, s, b)
      else
        (let payload = get request ''operation_payload'' in
         case validate_operation_payload payload of
           Inl e \<Rightarrow>
             ((if is_ValueError e
               then Inr (Some (blocked ''exact_operation_payload_required'' ''prepare_canonical_operation_payload'' @ [(''detail'', JStr (exn_text e))]))
               else Inl e), s, b)
         | Inr h \<Rightarrow>
             (if get (dict_val payload) ''category'' \<noteq> get request ''category''
                 \<or> \<not> py_eq (get (dict_val payload) ''effects'') (get request ''effects'')
              then (Inr (Some (blocked ''operation_payload_does_not_match_request'' ''rebuild_exact_operation_request'')), s, b)
              else
                (case consume_operation_approval w (get request ''approval_id'') (get request ''operation_id'') payload s b of
                   (Inl e, s', b') \<Rightarrow> (Inl e, s', b')
                 | (Inr Runtime_Blocked, s', b') \<Rightarrow> (Inr (Some runtime_blocked), s', b')
                 | (Inr Control_Plane_Blocked, s', b') \<Rightarrow> (Inr (Some ledger_blocked), s', b')
                 | (Inr (Consumed row), s', b') \<Rightarrow> (Inr (Some (consumed_answer row)), s', b')
                 | (Inr Unavailable, s', b') \<Rightarrow>
                     (rbind (decision_store (decisions_json s')) (\<lambda>data.
                        if list_ex (has_decision_id (get request ''approval_id'')) (decision_rows data)
                        then Inr (Some (blocked ''l3_approval_is_unavailable_expired_or_consumed'' ''prepare_a_new_exact_operation_approval_id''))
                        else Inr None), s', b')))))"


section \<open>Surfacing a decision\<close>

definition resolution_fields :: "string list" where
  "resolution_fields = [''action_id'', ''action_class'', ''owner'', ''scope'', ''request_sha256'', ''status'']"

definition untrusted :: "string \<Rightarrow> obj" where
  "untrusted category = blocked (category @ ''_resolution_is_untrusted'') ''import_one_exact_owner_signed_resolution_receipt''"

definition closed_action :: "string \<Rightarrow> string \<Rightarrow> obj \<Rightarrow> obj" where
  "closed_action category status row =
     blocked (category @ ''_'' @ status) ''issue_a_new_bounded_request_only_if_the_need_still_exists''
     @ [(''external_action_created'', JBool False), (''action_id'', get row ''action_id'')]"

text \<open>The answer for an action that was already in the queue.\<close>

definition existing_action :: "'b world \<Rightarrow> string \<Rightarrow> bool \<Rightarrow> obj \<Rightarrow> obj result" where
  "existing_action w category unrelated row =
     (if str_in (get row ''status'') [''completed'', ''cancelled'']
      then (case verify_external_action_resolution_envelope w (get row ''resolution_envelope'') False of
              Inl e \<Rightarrow> (if is_ValueError e then Inr (untrusted category) else Inl e)
            | Inr (resolution, sha) \<Rightarrow>
                Inr (if \<not> list_all (\<lambda>k. py_eq (get resolution k) (get row k)) resolution_fields
                        \<or> get row ''resolution_receipt_sha256'' \<noteq> JStr sha
                     then untrusted category
                     else if get row ''status'' = JStr ''completed'' then continue_with (category @ ''_already_completed'') ''continue''
                     else closed_action category ''cancelled'' row))
      else if get row ''status'' = JStr ''expired'' then Inr (closed_action category ''expired'' row)
      else Inr (answer (if unrelated then ''CONTINUE'' else ''BLOCKED'') (category @ ''_already_pending'')
             (if unrelated then ''continue_unrelated_work'' else ''wait_for_existing_bounded_owner_action'')
             @ [(''external_action_created'', JBool False), (''action_id'', get row ''action_id'')]))"

definition action_required :: "obj \<Rightarrow> obj" where
  "action_required package =
     [(''state'', JStr ''ACTION_REQUIRED''), (''requires_response'', JBool True),
      (''reason'', JStr ''human_judgment_required_by_policy''), (''decision_package'', JObj package)]"

definition action_prefix :: "string \<Rightarrow> string" where
  "action_prefix category = (if category = ''operational_action'' then ''action'' else ''uat'')"

definition queue_human_action :: "'b world \<Rightarrow> obj \<Rightarrow> obj \<Rightarrow> repo \<Rightarrow> obj result \<times> repo" where
  "queue_human_action w request package s =
     (let category = category_of request; p = action_prefix category; owner = get request (p @ ''_owner'');
          unrelated = truthy (get request ''unrelated_work_exists'') in
      if \<not> nonblank owner
      then (Inr (blocked (category @ ''_owner_is_required'') ''bind_one_owner_and_bounded_scope_before_prompting''), s)
      else
        (case enqueue_external_action (w_now w) (get request (p @ ''_id'')) (get package ''why_human_input_is_required'')
                (get request ''risk_level'') owner (get request (p @ ''_scope''))
                (get_default request (p @ ''_ttl_minutes'') (JInt 1440)) (JStr category) s of
           (Inl e, s') \<Rightarrow>
             ((if is_ValueError e
               then Inr ((if starts_with ''terminal external action row'' (exn_text e) then untrusted category
                          else blocked (category @ ''_state_is_invalid'') ''repair_or_reissue_the_bounded_external_action'')
                         @ [(''detail'', JStr (exn_text e))])
               else Inl e), s')
         | (Inr row, s') \<Rightarrow>
             (if get row ''external_action_created'' \<noteq> JBool True then (existing_action w category unrelated row, s')
              else
                (Inr (if unrelated
                      then continue_with (category @ ''_blocks_only_dependent_work'') ''queue_action_required_and_continue_unrelated_work''
                           @ [(''action_required'', JObj package), (''external_action_created'', JBool True), (''action_id'', get row ''action_id'')]
                      else action_required package
                           @ [(''external_action_created'', JBool True), (''action_id'', get row ''action_id'')]), s'))))"

text \<open>Exceptions of building a package that are reported as a blocked request.\<close>

fun is_package_error :: "exn \<Rightarrow> bool" where
  "is_package_error (AttributeError m) = True"
| "is_package_error (TypeError m) = True"
| "is_package_error (ValueError m) = True"
| "is_package_error (UnicodeDecodeError m) = True"
| "is_package_error e = False"

definition invalid_package :: "string \<Rightarrow> obj" where
  "invalid_package detail =
     blocked ''decision_package_has_an_invalid_contract'' ''rebuild_one_strict_decision_package'' @ [(''detail'', JStr detail)]"

definition surface :: "'b world \<Rightarrow> obj \<Rightarrow> repo \<Rightarrow> obj result \<times> repo" where
  "surface w request s =
     (if \<not> is_dict (get request ''decision_package'')
      then (Inr (invalid_package ''a genuine escalation requires a strict decision_package''), s)
      else
        (case build_action_required (get request ''decision_package'') of
           Inl e \<Rightarrow> ((if is_package_error e then Inr (invalid_package (exn_text e)) else Inl e), s)
         | Inr package \<Rightarrow>
             (case action_required_binding_error request package of
                Inl e \<Rightarrow> (Inl e, s)
              | Inr (Some err) \<Rightarrow> (Inr (blocked err ''bind_the_package_to_the_exact_outer_request''), s)
              | Inr None \<Rightarrow>
                  (if category_of request \<in> set human_categories then queue_human_action w request package s
                   else if truthy (get request ''unrelated_work_exists'')
                   then (Inr (continue_with ''human_decision_blocks_only_dependent_work'' ''surface_action_required_and_continue_unrelated_work''
                          @ [(''action_required'', JObj package)]), s)
                   else (Inr (action_required package), s)))))"


section \<open>The policy\<close>

definition evaluate_escalation :: "'b world \<Rightarrow> obj \<Rightarrow> repo \<Rightarrow> 'b \<Rightarrow> obj result \<times> repo \<times> 'b" where
  "evaluate_escalation w request s b =
     (case classify request of
        Inl e \<Rightarrow> (Inl e, s, b)
      | Inr (Some r) \<Rightarrow> (Inr r, s, b)
      | Inr None \<Rightarrow>
          (case reuse_decision w request s of
             Inl e \<Rightarrow> (Inl e, s, b)
           | Inr (Some r) \<Rightarrow> (Inr r, s, b)
           | Inr None \<Rightarrow>
               (case use_approval w request s b of
                  (Inl e, s', b') \<Rightarrow> (Inl e, s', b')
                | (Inr (Some r), s', b') \<Rightarrow> (Inr r, s', b')
                | (Inr None, s', b') \<Rightarrow>
                    (case surface w request s' of (r, s'') \<Rightarrow> (r, s'', b')))))"


section \<open>Deployment\<close>

definition deploy_guards :: "string list" where
  "deploy_guards =
     [''all_required_checks_pass'', ''rollback_available'', ''no_unresolved_security_findings'', ''no_destructive_schema_change'',
      ''no_secret_change'', ''no_permission_boundary_change'', ''health_check_pass'', ''blast_radius_within_policy'']"

definition deployment_blocked :: "string \<Rightarrow> string \<Rightarrow> obj" where
  "deployment_blocked reason next_action = (''ok'', JBool False) # blocked reason next_action"

definition invalid_deployment_request :: obj where
  "invalid_deployment_request = deployment_blocked ''deployment_escalation_request_has_an_invalid_contract''
     ''prepare_one_exact_l3_escalation_request_object''"

fun is_deployment_error :: "exn \<Rightarrow> bool" where
  "is_deployment_error (AttributeError m) = True"
| "is_deployment_error (KeyError m) = True"
| "is_deployment_error (TypeError m) = True"
| "is_deployment_error (ValueError m) = True"
| "is_deployment_error (UnicodeDecodeError m) = True"
| "is_deployment_error e = False"

definition evaluate_deployment :: "'b world \<Rightarrow> obj \<Rightarrow> repo \<Rightarrow> 'b \<Rightarrow> obj result \<times> repo \<times> 'b" where
  "evaluate_deployment w gate s b =
     (let risk = get gate ''risk_level''; missing = filter (\<lambda>g. get gate g \<noteq> JBool True) deploy_guards;
          input = get gate ''escalation_request''; supplied_risk = get (dict_val input) ''risk_level'';
          supplied_category = get (dict_val input) ''category'' in
      if \<not> str_in risk risk_levels
      then (Inr (deployment_blocked ''deployment_gate_has_an_invalid_contract'' ''repair_the_machine_gate_before_reclassification''), s, b)
      else if missing \<noteq> []
      then (Inr (deployment_blocked ''production_guardrails_not_satisfied'' ''investigate_and_restore_machine_verifiable_guards''
              @ [(''failed_guards'', JArr (map JStr missing))]), s, b)
      else if risk \<noteq> JStr ''L3''
      then (Inr (deployment_blocked ''actual_production_deploy_requires_exact_l3_operation''
              ''prepare_release_readiness_then_one_exact_l3_deploy_operation''
              @ [l3_required [''L3''], (''reality_boundary'', JBool True)]), s, b)
      else if \<not> is_dict input then (Inr invalid_deployment_request, s, b)
      else if supplied_risk \<noteq> JNull \<and> \<not> is_str supplied_risk \<or> supplied_category \<noteq> JNull \<and> \<not> is_str supplied_category
      then (Inr invalid_deployment_request, s, b)
      else if supplied_risk \<notin> {JNull, risk} \<or> supplied_category \<notin> {JNull, JStr ''high_risk_operation''}
      then (Inr (deployment_blocked ''deployment_escalation_request_does_not_match_the_exact_l3_gate''
              ''rebuild_one_exact_l3_escalation_request_object''
              @ [l3_required [''L3''], (''required_category'', JStr ''high_risk_operation''), (''reality_boundary'', JBool True)]), s, b)
      else
        (case evaluate_escalation w (put ''category'' (JStr ''high_risk_operation'') (put ''risk_level'' risk (dict_val input))) s b of
           (Inl e, s', b') \<Rightarrow> ((if is_deployment_error e then Inr invalid_deployment_request else Inl e), s', b')
         | (Inr r, s', b') \<Rightarrow> (Inr r, s', b')))"


section \<open>Artifact locks\<close>

text \<open>An artifact as the calls see it: its name and its bytes, or no regular file.\<close>

definition lock_artifact :: "int \<Rightarrow> string \<Rightarrow> string option \<Rightarrow> string \<Rightarrow> string \<Rightarrow> obj result \<times> store_file option" where
  "lock_artifact now name bytes release_id output =
     (case bytes of
        None \<Rightarrow> (Inl (FileNotFoundError (''artifact does not exist: '' @ name)), None)
      | Some raw \<Rightarrow>
          (if strip release_id = [] then (Inl (ValueError ''release_id must not be blank''), None)
           else
             (Inr [(''ok'', JBool True), (''state'', JStr ''CONTINUE''), (''integrity'', JStr ''LOCKED''),
                   (''human_action_required'', JBool False), (''release_id'', JStr release_id), (''lock'', JStr output)],
              Some (Doc (JObj [(''schema_version'', JStr ''1.0''), (''release_id'', JStr release_id), (''artifact_name'', JStr name),
                (''size'', JInt (int (length raw))), (''sha256'', JStr (sha256_hex raw)), (''created_at'', JStr (stamp now))])))))"

definition lock_fields :: "string list" where
  "lock_fields = [''schema_version'', ''release_id'', ''artifact_name'', ''size'', ''sha256'', ''created_at'']"

definition artifact_matches :: "obj \<Rightarrow> string \<Rightarrow> string \<Rightarrow> bool" where
  "artifact_matches lock name raw \<longleftrightarrow> get lock ''artifact_name'' = JStr name
     \<and> py_eq (get lock ''size'') (JInt (int (length raw))) \<and> get lock ''sha256'' = JStr (sha256_hex raw)"

definition verify_artifact :: "string \<Rightarrow> string option \<Rightarrow> store_file \<Rightarrow> obj result" where
  "verify_artifact name bytes lock_file =
     rbind (of_option (FileNotFoundError (''artifact does not exist: '' @ name)) bytes) (\<lambda>raw.
     rbind (read_file lock_file JNull) (\<lambda>v.
     require (is_dict v) (ValueError ''artifact lock is invalid'')
     (let lock = dict_val v in
      require (keys_eq lock lock_fields \<and> get lock ''schema_version'' = JStr ''1.0'')
        (ValueError ''artifact lock has an invalid contract'')
      (Inr (if artifact_matches lock name raw
            then [(''ok'', JBool True), (''state'', JStr ''CONTINUE''), (''integrity'', JStr ''MATCH''),
                  (''human_action_required'', JBool False), (''release_id'', get lock ''release_id'')]
            else [(''ok'', JBool False), (''state'', JStr ''BLOCKED''), (''integrity'', JStr ''MISMATCH''),
                  (''human_action_required'', JBool False), (''release_id'', get lock ''release_id''),
                  (''next_action'', JStr ''stop_artifact_and_investigate'')])))))"

end
