(* ===== verification/Escalation_Facts.thy ===== *)
theory Escalation_Facts
  imports Escalation
begin

text \<open>
  What the escalation policy guarantees: an authorization in the answer means an approval was
  consumed, an agent with a dangerous request is told to continue only with such an approval
  (or with work that does not depend on it), deployments need every guard, a question put to
  a human is bound to the request, and the policy changes the stores only by the steps the
  store invariants are proved for.
\<close>

named_theorems answer_defs \<open>the shapes of the answers\<close>

lemmas [answer_defs] = answer_def continue_with_def blocked_def l3_required_def

lemma get_append: "has_key d k \<Longrightarrow> get (d @ e) k = get d k" "\<not> has_key d k \<Longrightarrow> get (d @ e) k = get e k"
  by (induction d) auto

lemma answer_state [simp]:
  "get (continue_with r n) ''state'' = JStr ''CONTINUE''" "get (blocked r n) ''state'' = JStr ''BLOCKED''"
  "get (answer st r n) ''state'' = JStr st"
  "get (continue_with r n @ e) ''state'' = JStr ''CONTINUE''" "get (blocked r n @ e) ''state'' = JStr ''BLOCKED''"
  "get (answer st r n @ e) ''state'' = JStr st" "get (deployment_blocked r n) ''state'' = JStr ''BLOCKED''"
  "get (deployment_blocked r n @ e) ''state'' = JStr ''BLOCKED''"
  "get (action_required p) ''state'' = JStr ''ACTION_REQUIRED''" "get (action_required p @ e) ''state'' = JStr ''ACTION_REQUIRED''"
  by (simp_all add: answer_defs deployment_blocked_def action_required_def)

definition continues :: "obj \<Rightarrow> bool" where
  "continues r \<longleftrightarrow> get r ''state'' = JStr ''CONTINUE''"

definition grants :: "obj \<Rightarrow> bool" where
  "grants r \<longleftrightarrow> has_key r ''approval_consumed''"

definition dangerous :: "obj \<Rightarrow> bool" where
  "dangerous request \<longleftrightarrow> category_of request \<in> set (''high_risk_operation'' # high_risk_categories) \<or> effects_of request \<noteq> []"

definition investigation :: "obj \<Rightarrow> bool" where
  "investigation request \<longleftrightarrow> category_of request \<in> set [''checkpoint'', ''integrity_mismatch'', ''uncertainty'']"

definition unrelated_work :: "obj \<Rightarrow> bool" where
  "unrelated_work request \<longleftrightarrow> truthy (get request ''unrelated_work_exists'')"

lemma action_required_package [simp]:
  "get (action_required p) ''decision_package'' = JObj p" "get (action_required p @ e) ''decision_package'' = JObj p"
  by (simp_all add: action_required_def)

lemma has_key_append [simp]: "has_key (d @ e) k \<longleftrightarrow> has_key d k \<or> has_key e k"
  by (induction d) auto

lemma answer_grants [simp]:
  "\<not> grants (continue_with r n)" "\<not> grants (blocked r n)" "\<not> grants (answer st r n)"
  "grants (continue_with r n @ e) \<longleftrightarrow> grants e" "grants (blocked r n @ e) \<longleftrightarrow> grants e"
  "grants (answer st r n @ e) \<longleftrightarrow> grants e" "\<not> grants (action_required p)" "grants (action_required p @ e) \<longleftrightarrow> grants e"
  "grants [] = False" "grants ((k, v) # e) \<longleftrightarrow> k = ''approval_consumed'' \<or> grants e"
  "grants (l3_required rs # e) \<longleftrightarrow> grants e"
  by (simp_all add: grants_def answer_defs action_required_def)

lemma answer_continues [simp]:
  "continues (continue_with r n)" "\<not> continues (blocked r n)" "continues (answer st r n) \<longleftrightarrow> st = ''CONTINUE''"
  "continues (continue_with r n @ e)" "\<not> continues (blocked r n @ e)" "continues (answer st r n @ e) \<longleftrightarrow> st = ''CONTINUE''"
  "\<not> continues (action_required p)" "\<not> continues (action_required p @ e)"
  "\<not> continues (deployment_blocked r n)" "\<not> continues (deployment_blocked r n @ e)"
  by (simp_all add: continues_def)

lemma check_request_Some: "check_request request = Inr (Some r) \<Longrightarrow> \<not> continues r \<and> \<not> grants r"
  by (auto simp: check_request_def require_Inr_iff split: if_splits)

lemma check_request_None:
  "check_request request = Inr None \<Longrightarrow> str_in (get request ''risk_level'') risk_levels \<and> category_of request \<in> set known_categories
     \<and> is_str (get request ''category'')"
  by (auto simp: check_request_def require_Inr_iff split: if_splits)

lemma refuse_envelope_Some: "refuse_envelope request = Some r \<Longrightarrow> \<not> continues r \<and> \<not> grants r"
  by (auto simp: refuse_envelope_def Let_def split: if_splits option.splits)

lemma if_SomeE: "(if b then Some x else y) = Some r \<Longrightarrow> (b \<Longrightarrow> x = r \<Longrightarrow> P) \<Longrightarrow> (\<not> b \<Longrightarrow> y = Some r \<Longrightarrow> P) \<Longrightarrow> P"
  by (simp split: if_splits)

lemma refuse_combination_Some: "refuse_combination risk category effects = Some r \<Longrightarrow> \<not> continues r \<and> \<not> grants r"
  unfolding refuse_combination_def by (elim if_SomeE) (hypsubst?, simp)+

lemma refuse_combination_None:
  assumes "refuse_combination risk category effects = None"
  shows "category \<in> set (''high_risk_operation'' # high_risk_categories) \<or> effects \<noteq> [] \<Longrightarrow> risk = ''L3''"
    and "category = ''product_decision'' \<Longrightarrow> risk = ''L2''"
  using assms by (auto simp: refuse_combination_def split: if_splits)

lemma refuse_dangerous:
  "refuse_combination (risk_of request) (category_of request) (effects_of request) = None \<Longrightarrow> dangerous request \<Longrightarrow> risk_of request = ''L3''"
  unfolding dangerous_def by (rule refuse_combination_None(1))

lemma answer_without_human_Some:
  assumes "answer_without_human risk category request = Some r"
  shows "\<not> grants r \<and> (category \<in> set [''checkpoint'', ''integrity_mismatch'', ''uncertainty''] \<or> risk \<in> set [''L0'', ''L1''])"
  using assms by (auto simp: answer_without_human_def Let_def split: if_splits)

lemma classify_Some_cases:
  assumes "classify request = Inr (Some r)"
  obtains (contract) "check_request request = Inr (Some r)" | (envelope) "refuse_envelope request = Some r"
    | (combination) "refuse_combination (risk_of request) (category_of request) (effects_of request) = Some r"
    | (human) "refuse_combination (risk_of request) (category_of request) (effects_of request) = None"
        and "answer_without_human (risk_of request) (category_of request) request = Some r"
proof -
  obtain early where early: "check_request request = Inr early"
    and rest: "(case early of Some r \<Rightarrow> Inr (Some r) | None \<Rightarrow>
       (case refuse_envelope request of Some r \<Rightarrow> Inr (Some r) | None \<Rightarrow>
         (case refuse_combination (risk_of request) (category_of request) (effects_of request) of Some r \<Rightarrow> Inr (Some r)
          | None \<Rightarrow> Inr (answer_without_human (risk_of request) (category_of request) request)))) = (Inr (Some r) :: obj option result)"
    using assms unfolding classify_def by (elim resultE) (rule that)
  then show ?thesis using that by (auto split: option.splits)
qed

lemma classify_Some:
  assumes "classify request = Inr (Some r)"
  shows "\<not> grants r \<and> (continues r \<longrightarrow> \<not> dangerous request \<or> investigation request)"
  using assms
proof (cases rule: classify_Some_cases)
  case human
  have "risk_of request \<in> set [''L0'', ''L1''] \<Longrightarrow> \<not> dangerous request"
    using refuse_dangerous [OF human(1)] by auto
  then show ?thesis using answer_without_human_Some [OF human(2)] unfolding investigation_def by blast
qed (use check_request_Some refuse_envelope_Some refuse_combination_Some in blast)+

text \<open>No early answer asks a human, and none releases a product decision.\<close>

lemma classify_state:
  assumes "classify request = Inr (Some r)"
  shows "get r ''state'' \<noteq> JStr ''ACTION_REQUIRED''"
  using assms
proof (cases rule: classify_Some_cases)
  case contract
  then show ?thesis by (auto simp: check_request_def require_Inr_iff split: if_splits)
next
  case envelope
  then show ?thesis by (auto simp: refuse_envelope_def Let_def split: if_splits option.splits)
next
  case combination
  then show ?thesis unfolding refuse_combination_def by (elim if_SomeE) (hypsubst?, simp)+
next
  case human
  then show ?thesis by (auto simp: answer_without_human_def Let_def split: if_splits)
qed

lemma classify_product:
  assumes "classify request = Inr (Some r)" and "category_of request = ''product_decision''"
  shows "\<not> continues r"
  using assms(1)
proof (cases rule: classify_Some_cases)
  case human
  then show ?thesis
    using refuse_combination_None(2) [OF human(1) assms(2)] assms(2) by (auto dest: answer_without_human_Some)
qed (use check_request_Some refuse_envelope_Some refuse_combination_Some in blast)+

lemma classify_None:
  assumes "classify request = Inr None"
  shows "str_in (get request ''risk_level'') risk_levels" and "is_str (get request ''category'')"
    and "dangerous request \<Longrightarrow> risk_of request = ''L3''" and "closed_category_envelope_error request = None"
    and "answer_without_human (risk_of request) (category_of request) request = None"
    and "category_of request = ''product_decision'' \<Longrightarrow> risk_of request = ''L2''"
proof -
  let ?risk = "risk_of request" and ?cat = "category_of request" and ?eff = "effects_of request"
  obtain early where early: "check_request request = Inr early"
    and rest: "(case early of Some r \<Rightarrow> Inr (Some r) | None \<Rightarrow>
       (case refuse_envelope request of Some r \<Rightarrow> Inr (Some r) | None \<Rightarrow>
         (case refuse_combination ?risk ?cat ?eff of Some r \<Rightarrow> Inr (Some r)
          | None \<Rightarrow> Inr (answer_without_human ?risk ?cat request)))) = (Inr None :: obj option result)"
    using assms unfolding classify_def by (elim resultE) (rule that)
  then have *: "check_request request = Inr None" "refuse_envelope request = None" "refuse_combination ?risk ?cat ?eff = None"
    "answer_without_human ?risk ?cat request = None"
    by (auto split: option.splits)
  show "str_in (get request ''risk_level'') risk_levels" and "is_str (get request ''category'')"
    using check_request_None [OF *(1)] by simp_all
  show "dangerous request \<Longrightarrow> risk_of request = ''L3''"
    by (rule refuse_dangerous [OF *(3)])
  show "closed_category_envelope_error request = None"
    using *(2) by (auto simp: refuse_envelope_def Let_def split: if_splits option.splits)
  show "answer_without_human ?risk ?cat request = None" by (rule *)
  show "?cat = ''product_decision'' \<Longrightarrow> ?risk = ''L2''" by (rule refuse_combination_None(2) [OF *(3)])
qed

lemma reuse_decision_only_l2: "risk_of request \<noteq> ''L2'' \<Longrightarrow> reuse_decision w request s = Inr None"
  by (simp add: reuse_decision_def)

lemma reuse_decision_Some:
  assumes "reuse_decision w request s = Inr (Some r)"
  shows "\<not> grants r \<and> get r ''state'' \<noteq> JStr ''ACTION_REQUIRED'' \<and> risk_of request = ''L2'' \<and> category_of request = ''product_decision''
    \<and> (\<exists>recorded. find_decision (get request ''decision_id'') s = Inr (Some recorded)
        \<and> (is_plain recorded \<and> plain_l2_approval_matches w s recorded (get request ''decision_scope'') (get request ''decision_package'') = Inr True
           \<or> l2_approval_matches w s recorded (get request ''decision_scope'') = Inr True))"
proof -
  have l2: "risk_of request = ''L2'' \<and> category_of request = ''product_decision''"
    using assms by (rule contrapos_pp) (simp add: reuse_decision_def)
  then obtain found where found: "find_decision (get request ''decision_id'') s = Inr found"
    using assms unfolding reuse_decision_def by (cases "find_decision (get request ''decision_id'') s") simp_all
  then obtain recorded where rec: "find_decision (get request ''decision_id'') s = Inr (Some recorded)"
    using assms l2 by (cases found) (simp_all add: reuse_decision_def)
  let ?plain = "if is_plain recorded then plain_l2_approval_matches w s recorded (get request ''decision_scope'') (get request ''decision_package'')
      else Inr False"
  obtain plain matches where p: "?plain = Inr plain"
    and m: "(if plain then Inr True else l2_approval_matches w s recorded (get request ''decision_scope'')) = Inr matches"
    and r: "(if \<not> matches then Inr None
              else if has_key request ''decision_package'' \<and> \<not> plain
              then Inr (Some (if is_plain recorded
                     then blocked ''existing_plain_language_decision_package_changed'' ''reopen_one_bounded_product_decision''
                     else blocked ''existing_decision_reuse_must_not_include_decision_package''
                            ''remove_the_new_package_or_reopen_one_bounded_product_decision''))
              else Inr (Some (continue_with ''existing_decision_reused_without_duplicate_question'' ''continue''))) = (Inr (Some r) :: obj option result)"
    using assms l2 rec unfolding reuse_decision_def by (simp only: if_False not_True_eq_False rbind_simps option.case simp_thms) (elim resultE, rule that)
  have "matches" "\<not> grants r \<and> get r ''state'' \<noteq> JStr ''ACTION_REQUIRED''" using r by (auto split: if_splits)
  moreover from this(1) have "is_plain recorded \<and> plain_l2_approval_matches w s recorded (get request ''decision_scope'') (get request ''decision_package'') = Inr True
      \<or> l2_approval_matches w s recorded (get request ''decision_scope'') = Inr True"
    using p m by (cases plain; cases "is_plain recorded") simp_all
  ultimately show ?thesis using l2 rec by blast
qed

text \<open>The outcomes of the L3 branch: nothing to use, an answer that is no authorization, or a consumption.\<close>

lemma blocked_answers [simp]:
  "\<not> continues runtime_blocked" "\<not> continues ledger_blocked" "\<not> grants runtime_blocked" "\<not> grants ledger_blocked"
  by (simp_all add: runtime_blocked_def ledger_blocked_def)

lemma approved_grants: "grants (approved_answer row)"
  by (simp add: approved_answer_def)

lemma approved_state [simp]: "get (approved_answer row) ''state'' = JStr ''CONTINUE''"
  by (simp add: approved_answer_def)

lemma consumed_answer_state: "get (consumed_answer row) ''state'' \<noteq> JStr ''ACTION_REQUIRED''"
  by (simp add: consumed_answer_def runtime_blocked_def ledger_blocked_def)

lemma consumed_answer_cases: "continues (consumed_answer row) \<or> grants (consumed_answer row) \<Longrightarrow> consumed_answer row = approved_answer row"
  by (simp add: consumed_answer_def split: if_splits)

lemma use_approval_cases:
  assumes "use_approval w request s b = (res, s', b')"
  obtains (skip) "res = Inr None" and "\<not> (risk_of request = ''L3'' \<and> truthy (get request ''approval_id''))" and "s' = s" and "b' = b"
  | (refused) "s' = s" and "b' = b" and "\<And>r. res = Inr (Some r) \<Longrightarrow> \<not> continues r \<and> \<not> grants r \<and> get r ''state'' \<noteq> JStr ''ACTION_REQUIRED''"
      and "res \<noteq> Inr None"
  | (used) h outcome where "validate_operation_payload (get request ''operation_payload'') = Inr h"
      and "risk_of request = ''L3''"
      and "get (dict_val (get request ''operation_payload'')) ''category'' = get request ''category''"
      and "py_eq (get (dict_val (get request ''operation_payload'')) ''effects'') (get request ''effects'')"
      and "consume_operation_approval w (get request ''approval_id'') (get request ''operation_id'') (get request ''operation_payload'') s b
         = (outcome, s', b')"
      and "\<And>r. res = Inr (Some r) \<Longrightarrow> continues r \<or> grants r \<Longrightarrow> \<exists>row. outcome = Inr (Consumed row) \<and> r = approved_answer row"
      and "res = Inr None \<Longrightarrow> outcome = Inr Unavailable"
      and "\<And>r. res = Inr (Some r) \<Longrightarrow> get r ''state'' \<noteq> JStr ''ACTION_REQUIRED''"
proof (cases "risk_of request = ''L3'' \<and> truthy (get request ''approval_id'')")
  case False
  then show ?thesis using assms by (intro that(1)) (simp_all add: use_approval_def)
next
  case on: True
  show ?thesis
  proof (cases "validate_operation_payload (get request ''operation_payload'')")
    case (Inl e)
    then show ?thesis using assms on by (intro that(2)) (auto simp: use_approval_def split: if_splits)
  next
    case (Inr h)
    obtain outcome t c where out: "consume_operation_approval w (get request ''approval_id'') (get request ''operation_id'')
        (get request ''operation_payload'') s b = (outcome, t, c)" by (metis prod_cases3)
    show ?thesis
    proof (cases "get (dict_val (get request ''operation_payload'')) ''category'' \<noteq> get request ''category''
        \<or> \<not> py_eq (get (dict_val (get request ''operation_payload'')) ''effects'') (get request ''effects'')")
      case True
      then show ?thesis using assms on Inr by (intro that(2)) (auto simp: use_approval_def Let_def)
    next
      case False
      have eq: "use_approval w request s b = (case outcome of
           Inl e \<Rightarrow> (Inl e, t, c) | Inr Runtime_Blocked \<Rightarrow> (Inr (Some runtime_blocked), t, c)
         | Inr Control_Plane_Blocked \<Rightarrow> (Inr (Some ledger_blocked), t, c)
         | Inr (Consumed row) \<Rightarrow> (Inr (Some (consumed_answer row)), t, c)
         | Inr Unavailable \<Rightarrow> (rbind (decision_store (decisions_json t)) (\<lambda>data.
              if list_ex (has_decision_id (get request ''approval_id'')) (decision_rows data)
              then Inr (Some (blocked ''l3_approval_is_unavailable_expired_or_consumed'' ''prepare_a_new_exact_operation_approval_id''))
              else Inr None), t, c))"
        using on Inr False out by (simp add: use_approval_def Let_def split: sum.splits consumption.splits)
      have st: "t = s'" "c = b'" using assms eq by (simp_all split: sum.splits consumption.splits)
      have some: "\<exists>row. outcome = Inr (Consumed row) \<and> r = approved_answer row"
        if "res = Inr (Some r)" "continues r \<or> grants r" for r
        using assms eq that consumed_answer_cases
        by (auto simp: rbind_Inr_iff split: sum.splits consumption.splits if_splits)
      have none: "res = Inr None \<Longrightarrow> outcome = Inr Unavailable"
        using assms eq by (auto split: sum.splits consumption.splits)
      have asks: "get r ''state'' \<noteq> JStr ''ACTION_REQUIRED''" if "res = Inr (Some r)" for r
        using assms eq that consumed_answer_state
        by (auto simp: rbind_Inr_iff runtime_blocked_def ledger_blocked_def split: sum.splits consumption.splits if_splits)
      show ?thesis using that(3) [OF Inr _ _ _ out [unfolded st] some none asks] on False by blast
    qed
  qed
qed
text \<open>An action row that the owner's verified, matching resolution reports as completed.\<close>

definition owner_completed :: "'b world \<Rightarrow> obj \<Rightarrow> bool" where
  "owner_completed w row \<longleftrightarrow> get row ''status'' = JStr ''completed'' \<and> (\<exists>resolution sha.
     verify_external_action_resolution_envelope w (get row ''resolution_envelope'') False = Inr (resolution, sha)
     \<and> list_all (\<lambda>k. py_eq (get resolution k) (get row k)) resolution_fields \<and> get row ''resolution_receipt_sha256'' = JStr sha)"

lemma existing_action_Inr:
  assumes "existing_action w category unrelated row = Inr r"
  shows "\<not> grants r \<and> get r ''state'' \<noteq> JStr ''ACTION_REQUIRED'' \<and> (continues r \<longrightarrow> unrelated \<or> owner_completed w row)"
proof (cases "str_in (get row ''status'') [''completed'', ''cancelled'']")
  case True
  then show ?thesis
    using assms
    by (auto simp: existing_action_def untrusted_def closed_action_def owner_completed_def split: sum.splits if_splits)
next
  case False
  then show ?thesis
    using assms by (cases "get row ''status'' = JStr ''expired''") (auto simp: existing_action_def closed_action_def split: if_splits)
qed

lemma queue_human_action_Inr:
  assumes "queue_human_action w request package s = (Inr r, s')"
  shows "\<not> grants r \<and> (continues r \<longrightarrow> unrelated_work request \<or> (\<exists>row. owner_completed w row))
    \<and> (get r ''state'' = JStr ''ACTION_REQUIRED'' \<longrightarrow> get r ''decision_package'' = JObj package)"
proof -
  let ?p = "action_prefix (category_of request)"
  obtain q t where enq: "enqueue_external_action (w_now w) (get request (?p @ ''_id'')) (get package ''why_human_input_is_required'')
     (get request ''risk_level'') (get request (?p @ ''_owner'')) (get request (?p @ ''_scope''))
     (get_default request (?p @ ''_ttl_minutes'') (JInt 1440)) (JStr (category_of request)) s = (q, t)" by (metis surj_pair)
  show ?thesis
  proof (cases "nonblank (get request (?p @ ''_owner''))")
    case False
    then show ?thesis using assms by (auto simp: queue_human_action_def Let_def)
  next
    case owner: True
    show ?thesis
    proof (cases q)
      case (Inl e)
      then show ?thesis
        using assms enq owner by (auto simp: queue_human_action_def Let_def untrusted_def split: if_splits)
    next
      case (Inr row)
      show ?thesis
      proof (cases "get row ''external_action_created'' = JBool True")
        case True
        then show ?thesis
          using assms enq owner Inr by (auto simp: queue_human_action_def Let_def unrelated_work_def split: if_splits)
      next
        case False
        then have "existing_action w (category_of request) (unrelated_work request) row = Inr r"
          using assms enq owner Inr by (simp add: queue_human_action_def Let_def unrelated_work_def)
        then show ?thesis using existing_action_Inr by blast
      qed
    qed
  qed
qed

lemma surface_Inr:
  assumes "surface w request s = (Inr r, s')"
  shows "\<not> grants r \<and> (continues r \<longrightarrow> unrelated_work request \<or> (\<exists>row. owner_completed w row) \<and> category_of request \<in> set human_categories)
    \<and> (get r ''state'' = JStr ''ACTION_REQUIRED'' \<longrightarrow> (\<exists>package. build_action_required (get request ''decision_package'') = Inr package
         \<and> action_required_binding_error request package = Inr None \<and> get r ''decision_package'' = JObj package))"
proof (cases "is_dict (get request ''decision_package'')")
  case False
  then show ?thesis using assms by (auto simp: surface_def invalid_package_def)
next
  case dict: True
  show ?thesis
  proof (cases "build_action_required (get request ''decision_package'')")
    case (Inl e)
    then show ?thesis using assms dict by (auto simp: surface_def invalid_package_def split: if_splits)
  next
    case built: (Inr package)
    show ?thesis
    proof (cases "action_required_binding_error request package")
      case (Inl e)
      then show ?thesis using assms dict built by (simp add: surface_def)
    next
      case (Inr err)
      show ?thesis
      proof (cases err)
        case (Some m)
        then show ?thesis using assms dict built Inr by (auto simp: surface_def)
      next
        case None
        then show ?thesis
          using assms dict built Inr queue_human_action_Inr [of w request package s r s']
          by (auto simp: surface_def unrelated_work_def split: if_splits)
      qed
    qed
  qed
qed

text \<open>How an answer arises: from the classification, a recorded decision, a consumption, or the package.\<close>

lemma evaluate_escalation_cases:
  assumes "evaluate_escalation w request s b = (Inr r, s', b')"
  obtains (classified) "classify request = Inr (Some r)" and "s' = s" and "b' = b"
  | (reused) "classify request = Inr None" and "reuse_decision w request s = Inr (Some r)" and "s' = s" and "b' = b"
  | (approval) "classify request = Inr None" and "reuse_decision w request s = Inr None" and "use_approval w request s b = (Inr (Some r), s', b')"
  | (surfaced) t where "classify request = Inr None" and "reuse_decision w request s = Inr None"
      and "use_approval w request s b = (Inr None, t, b')" and "surface w request t = (Inr r, s')"
proof -
  obtain res t c where u: "use_approval w request s b = (res, t, c)" by (metis prod_cases3)
  obtain q t' where sf: "surface w request t = (q, t')" by (metis surj_pair)
  show ?thesis
    using assms that u sf unfolding evaluate_escalation_def
    by (auto split: sum.splits option.splits)
qed
section \<open>The policy as a history of store steps\<close>

lemma surface_step:
  assumes "surface w request s = (res, s')" and "0 \<le> w_now w"
  shows "s' = s \<or> queue_step s s'"
proof -
  have q: "snd (queue_human_action w request package s) = s \<or> queue_step s (snd (queue_human_action w request package s))" for package
  proof -
    let ?p = "action_prefix (category_of request)"
    let ?enq = "enqueue_external_action (w_now w) (get request (?p @ ''_id'')) (get package ''why_human_input_is_required'')
       (get request ''risk_level'') (get request (?p @ ''_owner'')) (get request (?p @ ''_scope''))
       (get_default request (?p @ ''_ttl_minutes'') (JInt 1440)) (JStr (category_of request)) s"
    have "snd (queue_human_action w request package s) \<in> {s, snd ?enq}"
      by (cases ?enq) (auto simp: queue_human_action_def Let_def split: sum.splits)
    then show ?thesis using queue_step.enqueue [OF assms(2)] by auto
  qed
  have "s' = s \<or> (\<exists>package. s' = snd (queue_human_action w request package s))"
    using assms(1) unfolding surface_def
    by (simp split: if_splits sum.splits option.splits) (metis snd_conv)+
  then show ?thesis using q by blast
qed

lemma use_approval_step: "use_approval w request s b = (res, s', b') \<Longrightarrow> approval_step\<^sup>*\<^sup>* (s, b) (s', b')"
  by (erule use_approval_cases) (auto intro: approval_step.consume r_into_rtranclp)

lemma evaluate_escalation_steps:
  assumes "evaluate_escalation w request s b = (res, s', b')" and "0 \<le> w_now w"
  shows "approval_step\<^sup>*\<^sup>* (s, b) (s', b')"
proof -
  obtain q t c where u: "use_approval w request s b = (q, t, c)" by (metis prod_cases3)
  obtain q' t' where sf: "surface w request t = (q', t')" by (metis surj_pair)
  have "(s', b') \<in> {(s, b), (t, c), (t', c)}"
    using assms(1) u sf unfolding evaluate_escalation_def by (simp split: sum.splits option.splits)
  moreover have tc: "approval_step\<^sup>*\<^sup>* (s, b) (t, c)" by (rule use_approval_step [OF u])
  moreover have "approval_step\<^sup>*\<^sup>* (s, b) (t', c)"
    using surface_step [OF sf assms(2)] tc by (auto intro: rtranclp.rtrancl_into_rtrancl approval_step.governance)
  ultimately show ?thesis by auto
qed

lemma evaluate_deployment_steps:
  assumes "evaluate_deployment w gate s b = (res, s', b')" and "0 \<le> w_now w"
  shows "approval_step\<^sup>*\<^sup>* (s, b) (s', b')"
proof -
  let ?request = "put ''category'' (JStr ''high_risk_operation'') (put ''risk_level'' (get gate ''risk_level'') (dict_val (get gate ''escalation_request'')))"
  obtain q t c where e: "evaluate_escalation w ?request s b = (q, t, c)" by (metis prod_cases3)
  have "snd (evaluate_deployment w gate s b) \<in> {(s, b), (t, c)}"
    unfolding evaluate_deployment_def Let_def e by (simp split: sum.splits)
  then have "(s', b') \<in> {(s, b), (t, c)}" using assms(1) by simp
  then show ?thesis using evaluate_escalation_steps [OF e assms(2)] by auto
qed


lemma dangerous_continue:
  assumes "evaluate_escalation w request s b = (Inr r, s', b')" and "continues r" and "dangerous request"
  shows "investigation request
    \<or> risk_of request = ''L3'' \<and>
      ((\<exists>row. consume_operation_approval w (get request ''approval_id'') (get request ''operation_id'')
           (get request ''operation_payload'') s b = (Inr (Consumed row), s', b') \<and> r = approved_answer row)
       \<or> unrelated_work request
       \<or> category_of request \<in> set human_categories \<and> (\<exists>row. owner_completed w row))"
  using assms(1)
proof (cases rule: evaluate_escalation_cases)
  case classified
  then show ?thesis using classify_Some assms(2,3) by blast
next
  case reused
  then show ?thesis using classify_None(3) [OF reused(1) assms(3)] reuse_decision_only_l2 [of request w s] by simp
next
  case approval
  have l3: "risk_of request = ''L3''" by (rule classify_None(3) [OF approval(1) assms(3)])
  from approval(3) have "\<exists>row. consume_operation_approval w (get request ''approval_id'') (get request ''operation_id'')
           (get request ''operation_payload'') s b = (Inr (Consumed row), s', b') \<and> r = approved_answer row"
    by (rule use_approval_cases) (use assms(2) in blast)+
  then show ?thesis using l3 by blast
next
  case (surfaced t)
  then show ?thesis using surface_Inr [OF surfaced(4)] classify_None(3) [OF surfaced(1) assms(3)] assms(2) by blast
qed

lemma consumed_category:
  assumes "evaluate_escalation w request s b = (Inr (approved_answer row), s', b')"
  shows "get (dict_val (get request ''operation_payload'')) ''category'' = get request ''category''"
  using assms
proof (cases rule: evaluate_escalation_cases)
  case approval
  from approval(3) show ?thesis by (rule use_approval_cases) (use approved_grants in blast)+
qed (use approved_grants classify_Some reuse_decision_Some surface_Inr in blast)+

lemma reuse_decision_state: "reuse_decision w request s = Inr (Some r) \<Longrightarrow> get r ''state'' \<noteq> JStr ''ACTION_REQUIRED''"
  using reuse_decision_Some by blast

lemma use_approval_state: "use_approval w request s b = (Inr (Some r), s', b') \<Longrightarrow> get r ''state'' \<noteq> JStr ''ACTION_REQUIRED''"
  by (erule use_approval_cases) blast+

text \<open>The action queue is only touched when a human action is surfaced.\<close>

lemma use_approval_queue:
  assumes "use_approval w request s b = (res, s', b')"
  shows "external_actions s' = external_actions s" and "res = Inr None \<Longrightarrow> s' = s"
proof -
  have frame: "external_actions t = external_actions s \<and> (outcome = Inr Unavailable \<longrightarrow> t = s)"
    if "consume_operation_approval w i op payload s b = (outcome, t, c)" for i op payload outcome t c
    using that by (rule consume_cases) simp_all
  show "external_actions s' = external_actions s"
    using assms by (rule use_approval_cases) (simp_all add: frame)
  show "res = Inr None \<Longrightarrow> s' = s"
    using assms by (rule use_approval_cases) (use frame in blast)+
qed

lemma policy_queue:
  assumes "evaluate_escalation w request s b = (res, s', b') \<or> evaluate_deployment w request s b = (res, s', b')" and "0 \<le> w_now w"
  shows "queue_step s s' \<or> external_actions s' = external_actions s"
proof -
  have esc: "queue_step s t \<or> external_actions t = external_actions s" if e: "evaluate_escalation w req s b = (q, t, c)" for req q t c
  proof -
    obtain r u d where u: "use_approval w req s b = (r, u, d)" by (metis prod_cases3)
    obtain q' u' where sf: "surface w req u = (q', u')" by (metis surj_pair)
    have "t \<in> {s, u} \<or> t = u' \<and> r = Inr None"
      using e u sf unfolding evaluate_escalation_def by (simp split: sum.splits option.splits)
    then show ?thesis using use_approval_queue [OF u] surface_step [OF sf assms(2)] by auto
  qed
  let ?request = "put ''category'' (JStr ''high_risk_operation'') (put ''risk_level'' (get request ''risk_level'') (dict_val (get request ''escalation_request'')))"
  obtain q t c where e: "evaluate_escalation w ?request s b = (q, t, c)" by (metis prod_cases3)
  have "snd (evaluate_deployment w request s b) \<in> {(s, b), (t, c)}"
    unfolding evaluate_deployment_def Let_def e by (simp split: sum.splits)
  then show ?thesis using esc [OF e] esc assms(1) by auto
qed

section \<open>Properties\<close>

text \<open>
  C3. An authorization is a consumed approval. When the answer reports a consumed approval, the
  risk is L3, the approval named by the request was consumed for exactly the payload of the
  request by this evaluation, the payload has the category and the effects of the request, the
  payload handed out has its canonical digest, and the resulting state is the one consumption
  left.
\<close>

theorem authorization_is_consumed_approval:
  assumes "evaluate_escalation w request s b = (Inr r, s', b')" and "grants r" and "decisions_inv s"
  shows "\<exists>row. consume_operation_approval w (get request ''approval_id'') (get request ''operation_id'')
       (get request ''operation_payload'') s b = (Inr (Consumed row), s', b')
     \<and> r = approved_answer row \<and> risk_of request = ''L3''
     \<and> get (dict_val (get request ''operation_payload'')) ''category'' = get request ''category''
     \<and> py_eq (get (dict_val (get request ''operation_payload'')) ''effects'') (get request ''effects'')
     \<and> canonical_digest (get r ''authorized_operation_payload'') = canonical_digest (get request ''operation_payload'')"
  using assms(1)
proof (cases rule: evaluate_escalation_cases)
  case approval
  from approval(3) obtain row where
    c: "consume_operation_approval w (get request ''approval_id'') (get request ''operation_id'')
       (get request ''operation_payload'') s b = (Inr (Consumed row), s', b')"
    and r: "r = approved_answer row" "risk_of request = ''L3''"
      "get (dict_val (get request ''operation_payload'')) ''category'' = get request ''category''"
      "py_eq (get (dict_val (get request ''operation_payload'')) ''effects'') (get request ''effects'')"
    by (rule use_approval_cases) (use assms(2) in blast)+
  have "canonical_digest (get r ''authorized_operation_payload'') = canonical_digest (get request ''operation_payload'')"
    using consume_authentic [OF c assms(3)] unfolding r(1) by (auto simp: approved_answer_def answer_defs consume_row_get)
  then show ?thesis using c r by blast
qed (use assms(2) classify_Some reuse_decision_Some surface_Inr in blast)+

text \<open>
  C4. Danger needs an approval. A request with a high-risk category or any sensitive effect is
  answered CONTINUE only when an L3 approval was consumed for it, or when the answer does not
  release it: the category only asks for an investigation or records a checkpoint, the request
  declares other work that does not depend on it, or it is an operational action or acceptance
  test that the owner's signed resolution reports as completed. The declared risk is L3.
\<close>

theorem dangerous_continue_needs_approval:
  assumes "evaluate_escalation w request s b = (Inr r, s', b')" and "continues r" and "dangerous request"
  shows "investigation request
    \<or> risk_of request = ''L3'' \<and>
      ((\<exists>row. consume_operation_approval w (get request ''approval_id'') (get request ''operation_id'')
           (get request ''operation_payload'') s b = (Inr (Consumed row), s', b') \<and> r = approved_answer row)
       \<or> unrelated_work request
       \<or> category_of request \<in> set human_categories \<and> (\<exists>row. owner_completed w row))"
  by (rule dangerous_continue [OF assms])
lemma if_answerE:
  "(if c then (Inr x, s, b) else y) = (Inr r, s', b') \<Longrightarrow> continues r \<Longrightarrow> \<not> continues x
    \<Longrightarrow> (\<not> c \<Longrightarrow> y = (Inr r, s', b') \<Longrightarrow> P) \<Longrightarrow> P"
  by (simp split: if_splits)

text \<open>
  C5. Production deployments. The deployment gate answers CONTINUE only for a gate of risk L3
  in which every deployment guard is exactly true, and only when an approval of a
  \<open>high_risk_operation\<close> was consumed for its request or the request declares unrelated work.
  In every other case that returns, the answer is not CONTINUE, whatever the caller supplied.
\<close>

theorem deployment_needs_guards_and_approval:
  assumes "evaluate_deployment w gate s b = (Inr r, s', b')" and "continues r"
  shows "get gate ''risk_level'' = JStr ''L3'' \<and> (\<forall>g\<in>set deploy_guards. get gate g = JBool True)
    \<and> (let request = dict_val (get gate ''escalation_request'') in
       (\<exists>row. consume_operation_approval w (get request ''approval_id'') (get request ''operation_id'')
            (get request ''operation_payload'') s b = (Inr (Consumed row), s', b')
          \<and> r = approved_answer row
          \<and> get (dict_val (get request ''operation_payload'')) ''category'' = JStr ''high_risk_operation'')
       \<or> unrelated_work request)"
proof -
  let ?input = "get gate ''escalation_request''"
  let ?request = "put ''category'' (JStr ''high_risk_operation'') (put ''risk_level'' (get gate ''risk_level'') (dict_val ?input))"
  obtain q t c where e: "evaluate_escalation w ?request s b = (q, t, c)" by (metis prod_cases3)
  have gate: "get gate ''risk_level'' = JStr ''L3'' \<and> filter (\<lambda>g. get gate g \<noteq> JBool True) deploy_guards = []
      \<and> q = Inr r \<and> t = s' \<and> c = b'"
    using assms(1) unfolding evaluate_deployment_def Let_def e
    by (elim if_answerE [OF _ assms(2)]) (use assms(2) in \<open>auto simp: invalid_deployment_request_def split: sum.splits if_splits\<close>)
  then have ev: "evaluate_escalation w ?request s b = (Inr r, s', b')" using e by simp
  have danger: "dangerous ?request" by (simp add: dangerous_def category_of_def)
  have "\<not> investigation ?request" "category_of ?request \<notin> set human_categories"
    by (simp_all add: investigation_def category_of_def human_categories_def)
  then consider (row) row where "consume_operation_approval w (get ?request ''approval_id'') (get ?request ''operation_id'')
           (get ?request ''operation_payload'') s b = (Inr (Consumed row), s', b')" "r = approved_answer row"
    | (work) "unrelated_work ?request"
    using dangerous_continue [OF ev assms(2) danger] by blast
  then show ?thesis
  proof cases
    case row
    moreover have "get (dict_val (get ?request ''operation_payload'')) ''category'' = get ?request ''category''"
      by (rule consumed_category [OF ev [unfolded row(2)]])
    ultimately show ?thesis using gate by (auto simp: Let_def filter_empty_conv)
  next
    case work
    then show ?thesis using gate by (auto simp: Let_def filter_empty_conv unrelated_work_def)
  qed
qed

text \<open>
  Recorded product decisions. A product decision is answered CONTINUE only when its request
  declares unrelated work, or when a recorded decision was found under its ID and matches now:
  in the plain-language mode the current request file still has the recorded digest and scope,
  in the signed mode the stored envelope verifies again and its fields are those of the row.
\<close>

theorem product_decision_needs_record:
  assumes "evaluate_escalation w request s b = (Inr r, s', b')" and "continues r"
    and "category_of request = ''product_decision''"
  shows "unrelated_work request
    \<or> s' = s \<and> b' = b \<and> risk_of request = ''L2''
      \<and> (\<exists>recorded. find_decision (get request ''decision_id'') s = Inr (Some recorded)
        \<and> (is_plain recorded \<and> plain_l2_approval_matches w s recorded (get request ''decision_scope'') (get request ''decision_package'') = Inr True
           \<or> l2_approval_matches w s recorded (get request ''decision_scope'') = Inr True))"
  using assms(1)
proof (cases rule: evaluate_escalation_cases)
  case classified
  then have "False" using classify_product assms(2,3) by blast
  then show ?thesis ..
next
  case reused
  then show ?thesis using reuse_decision_Some [OF reused(2)] by simp
next
  case approval
  have "risk_of request = ''L2''" by (rule classify_None(6) [OF approval(1) assms(3)])
  with approval(3) have "False" by (simp add: use_approval_def)
  then show ?thesis ..
next
  case (surfaced t)
  then show ?thesis
    using surface_Inr [OF surfaced(4)] assms(2,3) by (auto simp: human_categories_def)
qed

text \<open>
  A question is bound to its request. When the answer asks for a human, the package it shows
  was built from the decision package of the request by the strict builder, and its risk,
  identity and scope are those the request names.
\<close>

theorem question_is_bound:
  assumes "evaluate_escalation w request s b = (Inr r, s', b')" and "get r ''state'' = JStr ''ACTION_REQUIRED''"
  shows "\<exists>package. build_action_required (get request ''decision_package'') = Inr package
    \<and> action_required_binding_error request package = Inr None \<and> get r ''decision_package'' = JObj package"
  using assms(1)
proof (cases rule: evaluate_escalation_cases)
  case (surfaced t)
  then show ?thesis using surface_Inr [OF surfaced(4)] assms(2) by blast
next
  case classified
  then show ?thesis using classify_state assms(2) by simp
next
  case reused
  then show ?thesis using reuse_decision_state [OF reused(2)] assms(2) by simp
next
  case approval
  then show ?thesis using use_approval_state [OF approval(3)] assms(2) by simp
qed

text \<open>
  The policy keeps the stores. Evaluating an escalation or a deployment is a history of the
  store operations: whatever the request, and whether the evaluation answers or raises, the
  decision store and the action queue keep their invariants and every row of either store
  evolves as its life cycle allows.
\<close>

theorem policy_keeps_stores:
  assumes "evaluate_escalation w request s b = (res, s', b') \<or> evaluate_deployment w request s b = (res, s', b')"
    and "0 \<le> w_now w" and "decisions_inv s" and "store_inv s"
  shows "decisions_inv s' \<and> store_inv s'
    \<and> grows decision_evolves (decision_rows_of s) (decision_rows_of s') \<and> grows row_evolves (rows_of s) (rows_of s')"
proof -
  have steps: "approval_step\<^sup>*\<^sup>* (s, b) (s', b')"
    using assms(1) evaluate_escalation_steps [OF _ assms(2)] evaluate_deployment_steps [OF _ assms(2)] by (elim disjE)
  have "queue_step s s' \<or> external_actions s' = external_actions s"
    by (rule policy_queue [OF assms(1,2)])
  then have "store_inv s' \<and> grows row_evolves (rows_of s) (rows_of s')"
    using queue_step_keeps [of s s'] queue_step_frame [of s' s] assms(4) by auto
  then show ?thesis using decisions.reachable_inv [OF steps] decisions.reachable_grows [OF steps] assms(3) by simp
qed

text \<open>
  Lock and verify. Verifying an artifact against the lock written for it matches; against any
  lock it matches exactly when the name, the size and the SHA-256 of the bytes are those locked,
  and otherwise the answer is a blocked mismatch.
\<close>

theorem artifact_lock_exact:
  assumes "lock_artifact now name (Some raw) release_id out = (Inr r, Some doc)"
  shows "\<exists>res. verify_artifact name' (Some raw') doc = Inr res
    \<and> (get res ''integrity'' = JStr ''MATCH'' \<longleftrightarrow> name' = name \<and> length raw' = length raw \<and> sha256_hex raw' = sha256_hex raw)
    \<and> (continues res \<longleftrightarrow> get res ''integrity'' = JStr ''MATCH'')"
proof -
  have doc: "doc = Doc (JObj [(''schema_version'', JStr ''1.0''), (''release_id'', JStr release_id), (''artifact_name'', JStr name),
                (''size'', JInt (int (length raw))), (''sha256'', JStr (sha256_hex raw)), (''created_at'', JStr (stamp now))])"
    using assms by (simp add: lock_artifact_def split: if_splits)
  show ?thesis
    unfolding doc by (auto simp: verify_artifact_def read_file_def keys_eq_def lock_fields_def artifact_matches_def continues_def Let_def)
qed

text \<open>
  An exception escapes the policy. For an L3 request whose operation payload has a list as
  its category the evaluation raises a \<open>TypeError\<close> instead of answering BLOCKED, since only
  \<open>ValueError\<close> is caught around the payload validation; nothing is changed.
\<close>

theorem unhashable_category_escapes:
  "\<exists>request e. get request ''risk_level'' = JStr ''L3'' \<and> category_of request = ''high_risk_operation''
     \<and> (\<forall>w s b. evaluate_escalation w request s b = (Inl (TypeError e), s, b))"
proof -
  let ?payload = "put ''category'' (JArr []) sample_payload"
  let ?r = "[(''risk_level'', JStr ''L3''), (''category'', JStr ''high_risk_operation''), (''effects'', JObj []),
     (''approval_id'', JStr ''a''), (''operation_payload'', JObj ?payload)]"
  have v: "validate_operation_payload (JObj ?payload) = Inl (TypeError (''unhashable type: '' @ [CHR 0x27] @ ''list'' @ [CHR 0x27]))"
    by (auto simp: validate_operation_payload_def sample_payload_def keys_eq_def payload_fields_def)
  have c: "classify ?r = Inr None"
    by (simp add: classify_def check_request_def category_of_def risk_of_def effects_of_def risk_levels_def known_categories_def
        escalation_categories_def effects_ok_def refuse_envelope_def closed_category_envelope_error_def keys_within_def closed_base_def
        category_schema_def refuse_combination_def answer_without_human_def Let_def)
  show ?thesis
    by (rule exI [of _ ?r]) (auto simp: evaluate_escalation_def c reuse_decision_def risk_of_def category_of_def use_approval_def v)
qed
section \<open>Concrete evaluations\<close>

text \<open>The request for the sample approval, and a deployment gate that carries it.\<close>

definition sample_request :: obj where
  "sample_request = [(''risk_level'', JStr ''L3''), (''category'', JStr ''high_risk_operation''), (''effects'', JObj [(''production'', JBool True)]),
     (''approval_id'', JStr ''a1''), (''operation_id'', JStr ''o1''), (''operation_payload'', JObj sample_payload)]"

definition sample_gate :: obj where
  "sample_gate = (''risk_level'', JStr ''L3'') # (''escalation_request'', JObj sample_request) # map (\<lambda>g. (g, JBool True)) deploy_guards"

lemma sample_classify: "classify sample_request = Inr None"
  by (simp add: sample_request_def classify_def check_request_def category_of_def risk_of_def effects_of_def risk_levels_def
      known_categories_def escalation_categories_def effects_ok_def sensitive_effects_def refuse_envelope_def
      closed_category_envelope_error_def keys_within_def closed_base_def category_schema_def refuse_combination_def
      answer_without_human_def human_categories_def Let_def)

lemma sample_evaluation:
  "\<exists>row s' b'. evaluate_escalation sample_world sample_request sample_l3_repo [] = (Inr (approved_answer row), s', b')"
proof -
  obtain row s' b' where c: "consume_operation_approval sample_world (JStr ''a1'') (JStr ''o1'') (JObj sample_payload) sample_l3_repo [] =
     (Inr (Consumed row), s', b')"
    using sample_consume by blast
  obtain r where r: "r \<in> set (decision_rows_of sample_l3_repo)" "row = consume_row us_minute (dict_val r)"
    using consume_authentic [OF c sample_l3_inv] by (auto simp: sample_world_def)
  then have "get row ''_runtime_context_blocked'' = JNull" "get row ''_control_plane_blocked'' = JNull"
    by (simp_all add: sample_l3_rows consume_row_get sample_l3_row_def operation_decision_row_def)
  then have "consumed_answer row = approved_answer row" by (simp add: consumed_answer_def)
  moreover have payload: "get sample_payload ''category'' = JStr ''high_risk_operation''"
    "py_eq (get sample_payload ''effects'') (JObj [(''production'', JBool True)])"
    by (simp_all add: sample_payload_def py_eq_refl)
  moreover have "use_approval sample_world sample_request sample_l3_repo [] = (Inr (Some (consumed_answer row)), s', b')"
    using c sample_payload_ok payload
    by (simp add: use_approval_def sample_request_def risk_of_def Let_def)
  moreover have "risk_of sample_request = ''L3''" by (simp add: risk_of_def sample_request_def)
  ultimately show ?thesis by (simp add: evaluate_escalation_def sample_classify reuse_decision_only_l2) blast
qed
lemma sample_deployment:
  "\<exists>row s' b'. evaluate_deployment sample_world sample_gate sample_l3_repo [] = (Inr (approved_answer row), s', b')"
proof -
  obtain row s' b' where e: "evaluate_escalation sample_world sample_request sample_l3_repo [] = (Inr (approved_answer row), s', b')"
    using sample_evaluation by blast
  have gate: "get sample_gate ''risk_level'' = JStr ''L3''" "get sample_gate ''escalation_request'' = JObj sample_request"
    "filter (\<lambda>g. get sample_gate g \<noteq> JBool True) deploy_guards = []"
    by (simp_all add: sample_gate_def deploy_guards_def)
  have "put ''category'' (JStr ''high_risk_operation'') (put ''risk_level'' (JStr ''L3'') sample_request) = sample_request"
    "get sample_request ''risk_level'' = JStr ''L3''" "get sample_request ''category'' = JStr ''high_risk_operation''"
    by (simp_all add: sample_request_def)
  then show ?thesis using e gate by (simp add: evaluate_deployment_def Let_def risk_levels_def) blast
qed

theorem authorization_is_consumed_approval_witness:
  "\<exists>r s' b'. evaluate_escalation sample_world sample_request sample_l3_repo [] = (Inr r, s', b') \<and> grants r
     \<and> canonical_digest (get r ''authorized_operation_payload'') = canonical_digest (JObj sample_payload)"
proof -
  obtain row s' b' where e: "evaluate_escalation sample_world sample_request sample_l3_repo [] = (Inr (approved_answer row), s', b')"
    using sample_evaluation by blast
  then show ?thesis
    using authorization_is_consumed_approval [OF e approved_grants sample_l3_inv] approved_grants
    by (auto simp: sample_request_def)
qed

lemma sample_continues: "continues (approved_answer row)"
  by (simp add: continues_def)

theorem dangerous_continue_needs_approval_witness:
  "\<exists>r s' b' row. evaluate_escalation sample_world sample_request sample_l3_repo [] = (Inr r, s', b') \<and> continues r
     \<and> dangerous sample_request \<and> r = approved_answer row"
proof -
  obtain row s' b' where e: "evaluate_escalation sample_world sample_request sample_l3_repo [] = (Inr (approved_answer row), s', b')"
    using sample_evaluation by blast
  have d: "dangerous sample_request" by (simp add: dangerous_def category_of_def sample_request_def)
  show ?thesis using dangerous_continue_needs_approval [OF e sample_continues d] e d sample_continues by blast
qed

theorem deployment_needs_guards_and_approval_witness:
  "\<exists>r s' b'. evaluate_deployment sample_world sample_gate sample_l3_repo [] = (Inr r, s', b') \<and> continues r
     \<and> (\<forall>g\<in>set deploy_guards. get sample_gate g = JBool True)"
proof -
  obtain row s' b' where e: "evaluate_deployment sample_world sample_gate sample_l3_repo [] = (Inr (approved_answer row), s', b')"
    using sample_deployment by blast
  then show ?thesis using deployment_needs_guards_and_approval [OF e sample_continues] sample_continues by blast
qed
text \<open>A question for an approval that does not exist yet, in a fresh repository.\<close>

definition sample_question :: obj where
  "sample_question = [(''risk_level'', JStr ''L3''), (''category'', JStr ''high_risk_operation''), (''effects'', JObj [(''production'', JBool True)]),
     (''approval_id'', JStr ''D-1''), (''operation_id'', JStr ''o1''), (''operation_payload'', JObj sample_payload),
     (''decision_package'', JObj sample_args)]"

lemma sample_question_classify: "classify sample_question = Inr None"
  by (simp add: sample_question_def classify_def check_request_def category_of_def risk_of_def effects_of_def risk_levels_def
      known_categories_def escalation_categories_def effects_ok_def sensitive_effects_def refuse_envelope_def
      closed_category_envelope_error_def keys_within_def closed_base_def category_schema_def refuse_combination_def
      answer_without_human_def human_categories_def Let_def)

lemma sample_payload_fields: "get sample_payload ''category'' = JStr ''high_risk_operation''"
    "get sample_payload ''effects'' = JObj [(''production'', JBool True)]" "get sample_payload ''scope'' = JStr ''one deploy''"
    "wf_json (JObj sample_payload)" "py_eq (JObj [(''production'', JBool True)]) (JObj [(''production'', JBool True)])"
  by (simp_all add: sample_payload_def py_eq_refl)

lemma sample_question_bound:
  "\<exists>package. build_action_required (JObj sample_args) = Inr package
     \<and> action_required_binding_error sample_question package = Inr None"
proof -
  let ?p = "card_package sample_args [''tests'']
     [JObj [(''label'', JStr ''A''), (''description'', JStr ''x'')], JObj [(''label'', JStr ''B''), (''description'', JStr ''y'')]]"
  have args: "get sample_args ''operation_payload'' = JObj sample_payload" "get sample_args ''decision_id'' = JStr ''D-1''"
    "get sample_args ''risk_level'' = JStr ''L3''" "get sample_args ''scope_of_approval'' = JStr ''one deploy''"
    by (simp_all add: sample_args_def)
  have q: "category_of sample_question = ''high_risk_operation''" "get sample_question ''operation_payload'' = JObj sample_payload"
    "get sample_question ''effects'' = JObj [(''production'', JBool True)]" "get sample_question ''approval_id'' = JStr ''D-1''"
    "get sample_question ''operation_id'' = JStr ''o1''"
    by (simp_all add: sample_question_def category_of_def)
  have "action_required_binding_error sample_question ?p = Inr None"
    unfolding action_required_binding_error_def q Let_def
    by (simp add: card_package_def args sample_payload_ok sample_payload_fields py_eq_refl [OF sample_payload_fields(4)] binding_check_def
        strip_eq_Nil_iff is_space_def)
  then show ?thesis using sample_card by blast
qed

lemma sample_asks:
  "\<exists>package. evaluate_escalation sample_world sample_question fresh_repo [] = (Inr (action_required package), fresh_repo, [])"
proof -
  obtain package where built: "build_action_required (JObj sample_args) = Inr package"
    and bound: "action_required_binding_error sample_question package = Inr None"
    using sample_question_bound by blast
  have q: "get sample_question ''operation_payload'' = JObj sample_payload" "risk_of sample_question = ''L3''"
    "get sample_question ''effects'' = JObj [(''production'', JBool True)]" "get sample_question ''approval_id'' = JStr ''D-1''"
    "get sample_question ''operation_id'' = JStr ''o1''" "get sample_question ''category'' = JStr ''high_risk_operation''"
    "get sample_question ''decision_package'' = JObj sample_args" "get sample_question ''unrelated_work_exists'' = JNull"
    "category_of sample_question \<notin> set human_categories"
    by (simp_all add: sample_question_def risk_of_def category_of_def human_categories_def)
  have store: "decision_store (decisions_json fresh_repo) = Inr [(''schema_version'', JStr ''1.0''), (''decisions'', JArr [])]"
    by (simp add: fresh_repo_def decision_store_missing)
  have "consume_operation_approval sample_world (JStr ''D-1'') (JStr ''o1'') (JObj sample_payload) fresh_repo [] = (Inr Unavailable, fresh_repo, [])"
    by (simp add: consume_operation_approval_def sample_payload_ok sample_context store decision_rows_def)
  then have "use_approval sample_world sample_question fresh_repo [] = (Inr None, fresh_repo, [])"
    by (simp add: use_approval_def Let_def q sample_payload_ok sample_payload_fields store decision_rows_def)
  moreover have "surface sample_world sample_question fresh_repo = (Inr (action_required package), fresh_repo)"
    using built bound q by (simp add: surface_def)
  ultimately show ?thesis
    by (simp add: evaluate_escalation_def sample_question_classify reuse_decision_only_l2 q) blast
qed

theorem question_is_bound_witness:
  "\<exists>r. evaluate_escalation sample_world sample_question fresh_repo [] = (Inr r, fresh_repo, [])
     \<and> get r ''state'' = JStr ''ACTION_REQUIRED''
     \<and> (\<exists>package. get r ''decision_package'' = JObj package \<and> action_required_binding_error sample_question package = Inr None)"
proof -
  obtain p where e: "evaluate_escalation sample_world sample_question fresh_repo [] = (Inr (action_required p), fresh_repo, [])"
    using sample_asks by blast
  then show ?thesis using question_is_bound [OF e] by auto
qed

theorem policy_keeps_stores_witness:
  "\<exists>r s' b'. evaluate_escalation sample_world sample_question fresh_repo [] = (Inr r, s', b') \<and> decisions_inv s' \<and> store_inv s'"
proof -
  obtain p where e: "evaluate_escalation sample_world sample_question fresh_repo [] = (Inr (action_required p), fresh_repo, [])"
    using sample_asks by blast
  have "0 \<le> w_now sample_world" by (simp add: sample_world_def us_defs)
  then show ?thesis using policy_keeps_stores [OF disjI1 [OF e] _ fresh_decisions(1) fresh_repo_store(1)] e by blast
qed

theorem artifact_lock_exact_witness:
  "\<exists>r doc res. lock_artifact 0 ''a.bin'' (Some ''x'') ''r1'' ''a.lock'' = (Inr r, Some doc)
     \<and> verify_artifact ''a.bin'' (Some ''x'') doc = Inr res \<and> continues res"
proof -
  obtain r doc where l: "lock_artifact 0 ''a.bin'' (Some ''x'') ''r1'' ''a.lock'' = (Inr r, Some doc)"
    by (simp add: lock_artifact_def strip_eq_Nil_iff is_space_def)
  then show ?thesis using artifact_lock_exact [OF l, of "''a.bin''" "''x''"] by auto
qed

text \<open>A product decision that is not recorded, with work that does not depend on it.\<close>

definition product_card :: obj where
  "product_card = [(''decision_id'', JStr ''D-1''), (''risk_level'', JStr ''L2''), (''why_human_input_is_required'', JStr ''w''),
     (''what_agent_already_verified'', JArr [JStr ''tests'']),
     (''options'', JArr [JObj [(''label'', JStr ''A''), (''description'', JStr ''x'')], JObj [(''label'', JStr ''B''), (''description'', JStr ''y'')]]),
     (''recommended'', JStr ''A''), (''why'', JStr ''z''), (''impact_if_no_decision'', JStr ''i''),
     (''scope_of_approval'', JStr ''sc'')]"

definition product_request :: obj where
  "product_request = [(''risk_level'', JStr ''L2''), (''category'', JStr ''product_decision''), (''effects'', JObj []),
     (''decision_id'', JStr ''D-1''), (''decision_scope'', JStr ''sc''), (''decision_package'', JObj product_card),
     (''unrelated_work_exists'', JBool True)]"

lemma product_evaluation:
  "\<exists>r. evaluate_escalation sample_world product_request fresh_repo [] = (Inr r, fresh_repo, []) \<and> continues r"
proof -
  have c: "classify product_request = Inr None"
    by (simp add: product_request_def classify_def check_request_def category_of_def risk_of_def effects_of_def risk_levels_def
        known_categories_def escalation_categories_def effects_ok_def sensitive_effects_def refuse_envelope_def
        closed_category_envelope_error_def keys_within_def closed_base_def category_schema_def refuse_combination_def
        answer_without_human_def human_categories_def routine_operations_def high_risk_categories_def Let_def)
  have b: "build_action_required (JObj product_card) = Inr (card_package product_card [''tests'']
     [JObj [(''label'', JStr ''A''), (''description'', JStr ''x'')], JObj [(''label'', JStr ''B''), (''description'', JStr ''y'')]])" (is "_ = Inr ?p")
    by (simp add: build_action_required_def build_card_def product_card_def card_reason_blank_def card_payload_check_def
        keys_within_def package_parameters_def action_required_fields_def stripped_items_def option_label_def set_of_def
        hashable_def item_blank_def missing_field_def card_package_def strip_def is_space_def insert_commute)
  have e: "action_required_binding_error product_request ?p = Inr None"
    by (simp add: action_required_binding_error_def category_of_def product_request_def binding_check_def card_package_def
        product_card_def strip_eq_Nil_iff is_space_def)
  have q: "risk_of product_request = ''L2''" "category_of product_request = ''product_decision''"
    "get product_request ''decision_id'' = JStr ''D-1''" "get product_request ''unrelated_work_exists'' = JBool True"
    "get product_request ''decision_package'' = JObj product_card"
    by (simp_all add: product_request_def risk_of_def category_of_def)
  have "reuse_decision sample_world product_request fresh_repo = Inr None"
    by (simp add: reuse_decision_def q find_decision_def fresh_repo_def decision_store_missing decision_rows_def)
  then show ?thesis
    by (simp add: evaluate_escalation_def c use_approval_def q surface_def b e human_categories_def)
qed

theorem product_decision_needs_record_witness:
  "\<exists>r. evaluate_escalation sample_world product_request fresh_repo [] = (Inr r, fresh_repo, []) \<and> continues r
     \<and> unrelated_work product_request"
proof -
  obtain r where e: "evaluate_escalation sample_world product_request fresh_repo [] = (Inr r, fresh_repo, [])" and c: "continues r"
    using product_evaluation by blast
  have cat: "category_of product_request = ''product_decision''" by (simp add: category_of_def product_request_def)
  have "unrelated_work product_request" by (simp add: unrelated_work_def product_request_def)
  then show ?thesis using product_decision_needs_record [OF e c cat] e c by blast
qed

end
