(* ===== verification/Broker.thy ===== *)
theory Broker
  imports Approval_Use
begin

text \<open>
  The nonce broker of \<open>src/src/sddgov/broker.py\<close>: the append-only ledger file of consumed
  nonces, the request handler, the bounded readers of the socket, the accept loop with its
  back-off, the approver store check and the readiness report.

  The ledger is the file's metadata and bytes; the lock makes an operation on it one step. What
  the kernel decides (how many bytes a write or a receive moves, errors, the clock) is an
  argument of the operation.
\<close>


section \<open>Limits\<close>

definition max_request_bytes :: nat where "max_request_bytes = 2048"

definition max_ledger_record_bytes :: nat where "max_ledger_record_bytes = 2048"

definition max_ledger_bytes :: nat where "max_ledger_bytes = 64 * 1024 * 1024"

definition ledger_warning_percent :: nat where "ledger_warning_percent = 80"

definition max_accept_failures :: nat where "max_accept_failures = 5"

text \<open>Back-off times in milliseconds.\<close>

definition initial_backoff :: nat where "initial_backoff = 100"

definition max_backoff :: nat where "max_backoff = 2000"


section \<open>Directories and the ledger file\<close>

text \<open>\<open>_root_owned_directory_errors\<close> on the directories from the root down, with their \<open>lstat\<close>.\<close>

fun directory_chain_errors :: "(string \<times> os_stat result) list \<Rightarrow> string list" where
  "directory_chain_errors [] = []"
| "directory_chain_errors ((path, r) # rest) =
     (case r of
        Inl e \<Rightarrow> [''control-plane directory is unavailable: '' @ path @ '': '' @ exn_text e]
      | Inr m \<Rightarrow>
          (if st_kind m \<noteq> Directory \<or> st_uid m \<noteq> 0 \<or> writable_by_others m
           then [''control-plane directory must be root-owned and not writable by group/other: '' @ path]
           else directory_chain_errors rest))"

definition root_owned_directory_errors :: "string \<Rightarrow> (string \<times> os_stat result) list \<Rightarrow> string list" where
  "root_owned_directory_errors path chain =
     (if \<not> is_absolute path then [''control-plane path must be absolute: '' @ path] else directory_chain_errors chain)"

record ledger =
  lf_meta :: os_stat
  lf_bytes :: string

text \<open>What one operation of the broker finds: the clock, the parent directories and the outcomes of its writes.\<close>

record broker_env =
  b_now :: int
  b_posix :: bool
  b_parent :: string
  b_chain :: "(string \<times> os_stat result) list"
  b_validate_chain :: bool
  b_expected_uid :: int
  b_new_meta :: os_stat
  b_writes :: "nat result list"
  b_fsync :: "unit result"
  b_fsync_parent :: "unit result"

definition ledger_meta_ok :: "broker_env \<Rightarrow> os_stat \<Rightarrow> bool" where
  "ledger_meta_ok env m \<longleftrightarrow> st_kind m = Regular \<and> st_nlink m = 1 \<and> st_uid m = b_expected_uid env
     \<and> st_perm m AND perm_group_other_any = 0"

definition check_ledger_meta :: "broker_env \<Rightarrow> os_stat \<Rightarrow> unit result" where
  "check_ledger_meta env m =
     require (ledger_meta_ok env m) (ValueError ''broker ledger must be a single-linked, owner-only regular file'') (Inr ())"

definition check_ledger_parents :: "broker_env \<Rightarrow> unit result" where
  "check_ledger_parents env =
     require (b_posix env) (ValueError ''L3 Broker nonce ledger requires Linux or macOS'')
     (let errors = root_owned_directory_errors (b_parent env) (b_chain env) in
      require (b_validate_chain env \<longrightarrow> errors = []) (ValueError (join ''; '' errors)) (Inr ()))"

text \<open>\<open>_open(create=False)\<close>, and \<open>_open(create=True)\<close> which creates an empty file when there is none.\<close>

definition open_ledger :: "broker_env \<Rightarrow> ledger option \<Rightarrow> ledger result" where
  "open_ledger env f =
     rbind (check_ledger_parents env) (\<lambda>_.
     rbind (of_option (FileNotFoundError ''No such file or directory'') f) (\<lambda>l.
     rbind (check_ledger_meta env (lf_meta l)) (\<lambda>_. Inr l)))"

definition open_or_create :: "broker_env \<Rightarrow> ledger option \<Rightarrow> ledger result \<times> ledger option" where
  "open_or_create env f =
     (case check_ledger_parents env of
        Inl e \<Rightarrow> (Inl e, f)
      | Inr _ \<Rightarrow>
          (case f of
             Some l \<Rightarrow> (rbind (check_ledger_meta env (lf_meta l)) (\<lambda>_. Inr l), f)
           | None \<Rightarrow>
               (let l = \<lparr>lf_meta = b_new_meta env, lf_bytes = []\<rparr> in
                (rbind (check_ledger_meta env (lf_meta l)) (\<lambda>_. rbind (b_fsync_parent env) (\<lambda>_. Inr l)), Some l))))"


section \<open>Records\<close>

text \<open>\<open>_valid_nonce_fields\<close> and \<open>_valid_ledger_record\<close>.\<close>

definition printable :: "char \<Rightarrow> bool" where
  "printable c \<longleftrightarrow> (let n = of_char c :: nat in 33 \<le> n \<and> n \<le> 126)"

definition nonce_ok :: "string \<Rightarrow> bool" where
  "nonce_ok nonce \<longleftrightarrow> 12 \<le> length nonce \<and> length nonce \<le> 256 \<and> list_all printable nonce"

definition valid_nonce_fields :: "json \<Rightarrow> bool" where
  "valid_nonce_fields v \<longleftrightarrow> is_dict v \<and> is_str (get (dict_val v) ''nonce'') \<and> nonce_ok (str_val (get (dict_val v) ''nonce''))
     \<and> sha256_str (get (dict_val v) ''receipt_sha256'') \<and> sha256_str (get (dict_val v) ''operation_payload_sha256'')"

definition ledger_fields :: "string list" where
  "ledger_fields = [''nonce'', ''receipt_sha256'', ''operation_payload_sha256'', ''consumed_at'']"

definition valid_consumed_at :: "json \<Rightarrow> bool" where
  "valid_consumed_at v \<longleftrightarrow> is_str v \<and> ends_with ''Z'' (str_val v)
     \<and> (case fromisoformat (remove_suffix ''Z'' (str_val v) @ ''+00:00'') of None \<Rightarrow> False | Some d \<Rightarrow> utcoff d = Some 0)"

definition valid_ledger_record :: "json \<Rightarrow> bool" where
  "valid_ledger_record v \<longleftrightarrow> is_dict v \<and> keys_eq (dict_val v) ledger_fields \<and> valid_nonce_fields v
     \<and> valid_consumed_at (get (dict_val v) ''consumed_at'')"

definition ledger_row :: "int \<Rightarrow> string \<Rightarrow> digest \<Rightarrow> digest \<Rightarrow> json" where
  "ledger_row now nonce receipt_sha256 payload_sha256 =
     JObj [(''nonce'', JStr nonce), (''receipt_sha256'', JStr receipt_sha256),
       (''operation_payload_sha256'', JStr payload_sha256), (''consumed_at'', JStr (stamp now))]"

definition ledger_record :: "int \<Rightarrow> string \<Rightarrow> digest \<Rightarrow> digest \<Rightarrow> string" where
  "ledger_record now nonce receipt_sha256 payload_sha256 =
     canonical_bytes (ledger_row now nonce receipt_sha256 payload_sha256) @ [CHR 0x0A]"


section \<open>Scanning\<close>

text \<open>\<open>handle.readline(n)\<close>: up to and including the first line feed, at most \<open>n\<close> bytes.\<close>

definition readline :: "nat \<Rightarrow> string \<Rightarrow> string" where
  "readline n s = take n (takeWhile (\<lambda>c. c \<noteq> CHR 0x0A) s @ (if CHR 0x0A \<in> set s then [CHR 0x0A] else []))"

definition invalid_record :: exn where
  "invalid_record = ValueError ''broker ledger contains an invalid record''"

definition read_record :: "string \<Rightarrow> string result" where
  "read_record line =
     require (length line \<le> max_ledger_record_bytes \<and> last line = CHR 0x0A) invalid_record
     (rbind (rescue is_ValueError invalid_record (loads_bytes (butlast line))) (\<lambda>row.
      require (valid_ledger_record row) invalid_record (Inr (str_val (get (dict_val row) ''nonce'')))))"

lemma readline_progress: "s \<noteq> [] \<Longrightarrow> readline (Suc n) s \<noteq> []"
  by (cases s) (auto simp: readline_def)

function scan_lines :: "string list \<Rightarrow> string \<Rightarrow> string list result" where
  "scan_lines seen s =
     (if s = [] then Inr seen
      else (let line = readline (max_ledger_record_bytes + 1) s in
            rbind (read_record line) (\<lambda>nonce.
            require (nonce \<notin> set seen) invalid_record
              (scan_lines (nonce # seen) (drop (length line) s)))))"
  by pat_completeness auto
termination
  by (relation "measure (\<lambda>(seen, s). length s)") (auto simp: readline_progress)

declare scan_lines.simps [simp del]

definition capacity_exceeded :: exn where
  "capacity_exceeded = ValueError ''broker ledger exceeds the active-epoch capacity limit; complete the controlled epoch rollover runbook''"

definition capacity_would_exceed :: exn where
  "capacity_would_exceed = ValueError ''broker ledger would exceed the active-epoch capacity limit; complete the controlled epoch rollover runbook''"

definition scan_locked :: "string \<Rightarrow> string list result" where
  "scan_locked s = require (length s < max_ledger_bytes) capacity_exceeded (scan_lines [] s)"


section \<open>Ledger operations\<close>

text \<open>
  \<open>_write_all\<close>: every \<open>os.write\<close> moves some of the remaining bytes or fails; the outcomes are
  listed in order, and a write beyond the list moves everything that is left.
\<close>

fun write_all :: "nat result list \<Rightarrow> string \<Rightarrow> string \<Rightarrow> unit result \<times> string" where
  "write_all ws [] s = (Inr (), s)"
| "write_all [] (c # cs) s = (Inr (), s @ c # cs)"
| "write_all (Inl e # ws) (c # cs) s = (Inl e, s)"
| "write_all (Inr n # ws) (c # cs) s =
     (if n = 0 then (Inl (OSError ''broker ledger write made no progress''), s)
      else write_all ws (drop n (c # cs)) (s @ take n (c # cs)))"

definition warns :: "nat \<Rightarrow> bool" where
  "warns n \<longleftrightarrow> n * 100 \<ge> max_ledger_bytes * ledger_warning_percent"

text \<open>\<open>initialize\<close> reports whether the capacity warning was logged.\<close>

definition initialize :: "broker_env \<Rightarrow> ledger option \<Rightarrow> bool result \<times> ledger option" where
  "initialize env f =
     (case open_or_create env f of
        (Inl e, f') \<Rightarrow> (Inl e, f')
      | (Inr l, f') \<Rightarrow> (rbind (scan_locked (lf_bytes l)) (\<lambda>_. Inr (warns (length (lf_bytes l)))), f'))"

definition validate_ledger :: "broker_env \<Rightarrow> ledger option \<Rightarrow> unit result" where
  "validate_ledger env f = rbind (open_ledger env f) (\<lambda>l. rbind (scan_locked (lf_bytes l)) (\<lambda>_. Inr ()))"

definition consume :: "broker_env \<Rightarrow> string \<Rightarrow> digest \<Rightarrow> digest \<Rightarrow> ledger option \<Rightarrow> bool result \<times> ledger option" where
  "consume env nonce receipt_sha256 payload_sha256 f =
     (case open_ledger env f of
        Inl e \<Rightarrow> (Inl e, f)
      | Inr l \<Rightarrow>
          (let record = ledger_record (b_now env) nonce receipt_sha256 payload_sha256 in
           if max_ledger_bytes \<le> length (lf_bytes l) + length record then (Inl capacity_would_exceed, f)
           else
             (case scan_locked (lf_bytes l) of
                Inl e \<Rightarrow> (Inl e, f)
              | Inr seen \<Rightarrow>
                  (if nonce \<in> set seen then (Inr False, f)
                   else
                     (case write_all (b_writes env) record (lf_bytes l) of
                        (r, s) \<Rightarrow> (rbind r (\<lambda>_. rbind (b_fsync env) (\<lambda>_. Inr True)), Some (l\<lparr>lf_bytes := s\<rparr>)))))))"
section \<open>Requests\<close>

definition line_feeds :: "string \<Rightarrow> nat" where
  "line_feeds s = length (filter (\<lambda>c. c = CHR 0x0A) s)"

definition one_record :: "string \<Rightarrow> bool" where
  "one_record s \<longleftrightarrow> line_feeds s = 1 \<and> last s = CHR 0x0A"

definition record_error :: exn where
  "record_error = ValueError ''broker request must be exactly one newline-terminated record''"

definition parse_request :: "string \<Rightarrow> obj result" where
  "parse_request raw =
     require (one_record raw) record_error
     (rbind (rescue is_ValueError (ValueError ''broker request must be valid UTF-8 JSON'') (loads_bytes (butlast raw))) (\<lambda>v.
      require (is_dict v) (ValueError ''broker request must be a JSON object'') (Inr (dict_val v))))"

definition ready :: string where "ready = ''READY'' @ [CHR 0x0A]"

definition rejected :: string where "rejected = ''REJECTED'' @ [CHR 0x0A]"

definition already_consumed :: string where "already_consumed = ''ALREADY_CONSUMED'' @ [CHR 0x0A]"

definition request_fields :: "string list" where
  "request_fields = [''action'', ''nonce'', ''receipt_sha256'', ''operation_payload_sha256'']"

definition handle_request :: "broker_env \<Rightarrow> string \<Rightarrow> ledger option \<Rightarrow> string result \<times> ledger option" where
  "handle_request env raw f =
     (case parse_request raw of
        Inl e \<Rightarrow> (Inl e, f)
      | Inr request \<Rightarrow>
          (if py_eq (JObj request) (JObj [(''action'', JStr ''health'')])
           then (rbind (validate_ledger env f) (\<lambda>_. Inr ready), f)
           else if \<not> keys_eq request request_fields \<or> get request ''action'' \<noteq> JStr ''consume'' then (Inr rejected, f)
           else if \<not> valid_nonce_fields (JObj request) then (Inr rejected, f)
           else (case consume env (str_val (get request ''nonce'')) (str_val (get request ''receipt_sha256''))
                        (str_val (get request ''operation_payload_sha256'')) f of
                   (r, f') \<Rightarrow> (rbind r (\<lambda>fresh. Inr (if fresh then consumed_reply else already_consumed)), f'))))"


section \<open>Bounded readers\<close>

text \<open>
  What happens at one turn of a read loop: the deadline has passed, the call fails, or it moves
  some of the bytes that are waiting. Beyond the listed turns every call moves as much as it
  may. The deadline is checked before the call.
\<close>

datatype turn = Late | Broken exn | Moves nat

definition taken :: "turn list \<Rightarrow> nat \<Rightarrow> nat" where
  "taken turns limit = (case turns of Moves n # ts \<Rightarrow> max 1 (min n limit) | _ \<Rightarrow> limit)"

lemma taken_pos: "0 < limit \<Longrightarrow> 0 < taken turns limit"
  by (auto simp: taken_def split: list.splits turn.splits)

definition turn_error :: "exn \<Rightarrow> turn list \<Rightarrow> exn option" where
  "turn_error late turns = (case turns of Late # ts \<Rightarrow> Some late | Broken e # ts \<Rightarrow> Some e | _ \<Rightarrow> None)"

definition read_late :: exn where "read_late = ValueError ''broker request exceeded the read deadline''"

function receive_from :: "turn list \<Rightarrow> string \<Rightarrow> string \<Rightarrow> string result" where
  "receive_from turns stream value =
     (if max_request_bytes < length value then Inr value
      else (case turn_error read_late turns of
        Some e \<Rightarrow> Inl e
      | None \<Rightarrow>
          (if stream = [] then Inr value
           else (let n = taken turns (min 512 (max_request_bytes + 1 - length value)) in
                 receive_from (tl turns) (drop n stream) (value @ take n stream)))))"
  by pat_completeness auto
termination
  by (relation "measure (\<lambda>(turns, stream, value). length stream)")
    (auto simp: max_request_bytes_def intro!: diff_less taken_pos)

declare receive_from.simps [simp del]

definition receive_request :: "turn list \<Rightarrow> string \<Rightarrow> string result" where
  "receive_request turns stream =
     rbind (receive_from turns stream []) (\<lambda>value.
     require (length value \<le> max_request_bytes) (ValueError ''broker request exceeds the size limit'')
     (require (one_record value) record_error (Inr value)))"

text \<open>\<open>_handle_connection\<close>: the answer it sends; only \<open>OSError\<close> and \<open>ValueError\<close> are caught.\<close>

fun is_io_or_value_error :: "exn \<Rightarrow> bool" where
  "is_io_or_value_error (OSError m) = True"
| "is_io_or_value_error (FileNotFoundError m) = True"
| "is_io_or_value_error (ValueError m) = True"
| "is_io_or_value_error (FileExistsError m) = True"
| "is_io_or_value_error (UnicodeDecodeError m) = True"
| "is_io_or_value_error e = False"

definition handle_connection :: "broker_env \<Rightarrow> turn list \<Rightarrow> string \<Rightarrow> ledger option \<Rightarrow> string result \<times> ledger option" where
  "handle_connection env turns stream f =
     (case receive_request turns stream of
        Inl e \<Rightarrow> ((if is_io_or_value_error e then Inr rejected else Inl e), f)
      | Inr raw \<Rightarrow>
          (case handle_request env raw f of
             (Inl e, f') \<Rightarrow> ((if is_io_or_value_error e then Inr rejected else Inl e), f')
           | (Inr response, f') \<Rightarrow> (Inr response, f')))"

definition health_late :: exn where "health_late = OSError ''Broker health response deadline exceeded''"

function receive_health_from :: "turn list \<Rightarrow> string \<Rightarrow> string \<Rightarrow> string result" where
  "receive_health_from turns stream response =
     (if length ready < length response then Inr response
      else (case turn_error health_late turns of
        Some e \<Rightarrow> Inl e
      | None \<Rightarrow>
          (if stream = [] then Inr response
           else (let n = taken turns (length ready + 1 - length response) in
                 receive_health_from (tl turns) (drop n stream) (response @ take n stream)))))"
  by pat_completeness auto
termination
  by (relation "measure (\<lambda>(turns, stream, response). length stream)")
    (auto intro!: diff_less taken_pos)

declare receive_health_from.simps [simp del]

definition health_request :: string where
  "health_request = canonical_bytes (JObj [(''action'', JStr ''health'')]) @ [CHR 0x0A]"

text \<open>\<open>_broker_health\<close> against the outcome of connecting and sending, and the bytes that arrive.\<close>

definition broker_health :: "unit result \<Rightarrow> turn list \<Rightarrow> string \<Rightarrow> unit result" where
  "broker_health sent turns stream =
     rbind sent (\<lambda>_.
     rbind (receive_health_from turns stream []) (\<lambda>response.
     require (response = ready) (ValueError ''L3 Broker did not return the exact health response'') (Inr ())))"


section \<open>The accept loop\<close>

text \<open>
  What \<open>server.accept\<close> does at one turn of the loop; \<open>Stop\<close> is a turn at which a shutdown was
  requested before the call.
\<close>

datatype accepting = Stop | Timed_Out | Interrupted | Accept_Error string | Connection broker_env "turn list" string

record loop_state =
  l_failures :: nat
  l_backoff :: nat
  l_sleeps :: "nat list"
  l_answers :: "string list"
  l_ledger :: "ledger option"

definition loop_reset :: "loop_state \<Rightarrow> loop_state" where
  "loop_reset s = s\<lparr>l_failures := 0, l_backoff := initial_backoff\<rparr>"

definition loop_start :: "ledger option \<Rightarrow> loop_state" where
  "loop_start f = \<lparr>l_failures = 0, l_backoff = initial_backoff, l_sleeps = [], l_answers = [], l_ledger = f\<rparr>"

definition repeated_failures :: exn where
  "repeated_failures = OSError ''L3 Broker stopped after repeated accept failures''"

definition loop_failure :: "loop_state \<Rightarrow> loop_state" where
  "loop_failure s = s\<lparr>l_failures := l_failures s + 1, l_sleeps := l_sleeps s @ [l_backoff s],
     l_backoff := min max_backoff (l_backoff s * 2)\<rparr>"

fun serve_requests :: "accepting list \<Rightarrow> loop_state \<Rightarrow> unit result \<times> loop_state" where
  "serve_requests [] s = (Inr (), s)"
| "serve_requests (Stop # es) s = (Inr (), s)"
| "serve_requests (Timed_Out # es) s = serve_requests es (loop_reset s)"
| "serve_requests (Interrupted # es) s = serve_requests es s"
| "serve_requests (Accept_Error m # es) s =
     (if max_accept_failures \<le> l_failures s + 1 then (Inl repeated_failures, s\<lparr>l_failures := l_failures s + 1\<rparr>)
      else serve_requests es (loop_failure s))"
| "serve_requests (Connection env turns stream # es) s =
     (case handle_connection env turns stream (l_ledger s) of
        (Inl e, f) \<Rightarrow> (Inl e, (loop_reset s)\<lparr>l_ledger := f\<rparr>)
      | (Inr answer, f) \<Rightarrow>
          serve_requests es ((loop_reset s)\<lparr>l_ledger := f, l_answers := l_answers s @ [answer]\<rparr>))"
section \<open>Readiness\<close>

text \<open>
  \<open>_approver_store\<close>. Whether 32 bytes are accepted as a public key is decided by the
  \<open>cryptography\<close> package; the predicate is an argument.
\<close>

definition approver_record_ok :: "json \<Rightarrow> string list \<Rightarrow> bool" where
  "approver_record_ok r seen \<longleftrightarrow> approver_row_ok r \<and> str_val (get (dict_val r) ''approver_id'') \<notin> set seen"

definition key_ok :: "(string \<Rightarrow> bool) \<Rightarrow> json \<Rightarrow> bool" where
  "key_ok public_key r \<longleftrightarrow> (case b64decode (str_val (get (dict_val r) ''public_key'')) of None \<Rightarrow> False | Some k \<Rightarrow> public_key k)"

definition id_of :: "json \<Rightarrow> string" where
  "id_of r = str_val (get (dict_val r) ''approver_id'')"

definition is_active :: "json \<Rightarrow> bool" where
  "is_active r \<longleftrightarrow> get (dict_val r) ''status'' = JStr ''active''"

text \<open>A status that cannot be hashed raises \<open>TypeError\<close> in the membership test.\<close>

definition unhashable_status :: "bool \<Rightarrow> json \<Rightarrow> bool" where
  "unhashable_status reached r \<longleftrightarrow> reached \<and> \<not> hashable (get (dict_val r) ''status'')"

definition approver_shape :: "json \<Rightarrow> bool" where
  "approver_shape r \<longleftrightarrow> is_dict r \<and> keys_eq (dict_val r) [''approver_id'', ''algorithm'', ''public_key'', ''status'']
     \<and> nonblank (get (dict_val r) ''approver_id'') \<and> get (dict_val r) ''algorithm'' = JStr ''ed25519''"

fun check_keys :: "(string \<Rightarrow> bool) \<Rightarrow> string list \<Rightarrow> json list \<Rightarrow> unit result" where
  "check_keys public_key seen [] = Inr ()"
| "check_keys public_key seen (r # rs) =
     require (\<not> unhashable_status (approver_shape r) r) (TypeError ''unhashable type'')
     (require (approver_record_ok r seen) (ValueError ''trusted approver store has an invalid record'')
     (require (key_ok public_key r) (ValueError ''trusted approver store has an invalid Ed25519 key'')
     (check_keys public_key (id_of r # seen) rs)))"

definition bound_here :: "bool \<Rightarrow> string \<Rightarrow> string \<Rightarrow> json \<Rightarrow> bool" where
  "bound_here darwin cwd root r \<longleftrightarrow>
     (let configured = str_val (get (dict_val r) ''repository_root''); canonical = canonicalize_platform_path darwin cwd configured in
      is_absolute configured \<and> canonical = configured \<and> same_path canonical (canonicalize_platform_path darwin cwd root))"

fun check_domains :: "(json \<Rightarrow> bool) \<Rightarrow> string list \<Rightarrow> json list \<Rightarrow> unit result" where
  "check_domains here seen [] = Inr ()"
| "check_domains here seen (r # rs) =
     require (\<not> unhashable_status (binding_row_shape r) r) (TypeError ''unhashable type'')
     (require (binding_row_shape r \<and> str_in (get (dict_val r) ''status'') [''active'', ''revoked''] \<and> id_of r \<notin> set seen)
       (ValueError ''trusted approver domain store has an invalid record'')
     (require (here r) (ValueError ''trusted approver domain store is not bound to this repository root'')
     (check_domains here (id_of r # seen) rs)))"

definition active_ids :: "json list \<Rightarrow> string set" where
  "active_ids rows = id_of ` set (filter is_active rows)"

definition approver_store :: "'b world \<Rightarrow> (string \<Rightarrow> bool) \<Rightarrow> obj result" where
  "approver_store w public_key =
     rbind (trusted_approvers_path (w_env_override w) (w_approvers_inside w)) (\<lambda>source.
     rbind (load_document w (w_approvers w) ''fixed trusted approver store'') (\<lambda>value.
     (let rows = list_val (get value ''approvers'') in
      require (keys_eq value [''schema_version'', ''approvers''] \<and> get value ''schema_version'' = JStr ''1.0''
          \<and> is_list (get value ''approvers'') \<and> rows \<noteq> [])
        (ValueError ''trusted approver store has an invalid contract'')
      (rbind (check_keys public_key [] rows) (\<lambda>_.
       require (filter is_active rows \<noteq> []) (ValueError ''trusted approver store has no active key'')
       (rbind (trusted_approver_domains_path (w_domains_inside w)) (\<lambda>domain_source.
        rbind (load_document w (w_domains w) ''fixed trusted approver domain store'') (\<lambda>domains.
        (let bindings = list_val (get domains ''bindings'') in
         require (keys_eq domains [''schema_version'', ''bindings''] \<and> get domains ''schema_version'' = JStr ''1.0''
             \<and> is_list (get domains ''bindings''))
           (ValueError ''trusted approver domain store has an invalid contract'')
         (rbind (check_domains (bound_here (w_darwin w) (w_cwd w) (w_root w)) [] bindings) (\<lambda>_.
          require (active_ids rows = active_ids bindings) (ValueError ''active approver keys and trust-domain bindings differ'')
            (Inr [(''path'', JStr source), (''domain_path'', JStr domain_source), (''approvers'', JInt (int (length rows))),
                  (''active'', JInt (int (length (filter is_active rows))))]))))))))))))"

text \<open>\<open>_socket_errors\<close>, from the parent chain, the socket's \<open>lstat\<close> and the group database.\<close>

definition socket_group_errors :: "int option \<Rightarrow> string \<Rightarrow> os_stat \<Rightarrow> string list" where
  "socket_group_errors gid group_name m =
     (case gid of
        None \<Rightarrow> [''L3 Broker dedicated group does not exist: '' @ group_name]
      | Some g \<Rightarrow> (if st_gid m \<noteq> g then [''L3 Broker socket must use the dedicated group '' @ group_name] else []))"

definition socket_errors :: "string \<Rightarrow> (string \<times> os_stat result) list \<Rightarrow> os_stat result \<Rightarrow> bool \<Rightarrow> int option \<Rightarrow> string \<Rightarrow> string list" where
  "socket_errors parent chain sock has_grp gid group_name =
     root_owned_directory_errors parent chain @
     (case sock of
        Inl e \<Rightarrow> [''L3 Broker socket is unavailable: '' @ exn_text e]
      | Inr m \<Rightarrow>
          (if st_kind m \<noteq> Socket \<or> st_uid m \<noteq> 0 then [''L3 Broker socket must be a root-owned Unix socket''] else [])
          @ (if st_perm m \<noteq> 432 then [''L3 Broker socket mode must be exactly 0660''] else [])
          @ (if \<not> has_grp then [''L3 Broker socket group lookup requires Linux or macOS''] else socket_group_errors gid group_name m))"

text \<open>One row of the readiness report; only \<open>OSError\<close> and \<open>ValueError\<close> become a failed check.\<close>

definition readiness_row :: "string \<Rightarrow> json result \<Rightarrow> obj result" where
  "readiness_row name outcome =
     (case outcome of
        Inr detail \<Rightarrow> Inr [(''name'', JStr name), (''ok'', JBool True), (''detail'', detail)]
      | Inl e \<Rightarrow>
          (if is_io_or_value_error e
           then Inr [(''name'', JStr name), (''ok'', JBool False), (''detail'', JStr (exn_text e))]
           else Inl e))"

definition row_ok :: "obj \<Rightarrow> bool" where
  "row_ok r \<longleftrightarrow> get r ''ok'' = JBool True"

definition broker_report :: "obj list \<Rightarrow> obj" where
  "broker_report checks =
     (let errors = map (\<lambda>r. get r ''detail'') (filter (\<lambda>r. \<not> row_ok r) checks) in
      [(''ok'', JBool (errors = [])), (''state'', JStr (if errors = [] then ''READY'' else ''NOT_READY'')),
       (''checks'', JArr (map JObj checks)), (''errors'', JArr errors),
       (''next_action'', JStr (if errors = [] then ''L3 receipts may be imported and consumed''
          else ''complete docs/L3_BROKER_OPERATIONS.md before any real L3 operation''))])"

definition broker_readiness ::
  "'b world \<Rightarrow> (string \<Rightarrow> bool) \<Rightarrow> string \<Rightarrow> string list \<Rightarrow> unit result \<Rightarrow> string \<Rightarrow> obj result" where
  "broker_readiness w public_key platform socket_problems health socket_path =
     rbind (mapr (\<lambda>(name, outcome). readiness_row name outcome)
       [(''supported_platform'', require (w_posix w \<and> platform \<in> {''linux'', ''darwin''})
            (ValueError ''L3 Broker requires Linux or macOS'') (Inr (JStr platform))),
        (''agent_identity_separation'', require (w_euid w \<noteq> 0) (ValueError ''Agent process must not run as root'')
            (Inr (JObj [(''euid'', JInt (w_euid w))]))),
        (''runtime_context'', rbind (runtime_context w) (\<lambda>c. Inr (JObj c))),
        (''trusted_approver_store'', rbind (approver_store w public_key) (\<lambda>d. Inr (JObj d))),
        (''broker_socket'', require (socket_problems = []) (ValueError (join ''; '' socket_problems))
            (rbind health (\<lambda>_. Inr (JObj [(''socket'', JStr socket_path), (''health'', JStr ''READY'')]))))])
     (\<lambda>checks. Inr (broker_report checks))"

text \<open>The refusals of \<open>serve_broker\<close> before the service starts.\<close>

definition serve_broker_checks ::
  "bool \<Rightarrow> int option \<Rightarrow> string \<Rightarrow> string \<Rightarrow> string list \<Rightarrow> int option \<Rightarrow> int result" where
  "serve_broker_checks supported euid group_name expected_group parent_errors gid =
     require supported (ValueError ''L3 Broker service requires Linux or macOS'')
     (require (euid = Some 0) (ValueError ''L3 Broker service must run as root'')
     (require (group_name = expected_group) (ValueError (''L3 Broker socket group must be '' @ expected_group @ '' on this platform''))
     (require (parent_errors = []) (ValueError (join ''; '' parent_errors))
     (of_option (ValueError (''L3 Broker group does not exist: '' @ group_name)) gid))))"

end
