(* ===== verification/Broker_Service.thy ===== *)
theory Broker_Service
  imports Broker_Facts
begin

text \<open>
  The guarantees of the nonce broker as a service (src/src/sddgov/broker.py): the accept loop of
  serve_broker never stops over a bad request, the ledger it keeps refines a set of nonces, and a
  nonce that was consumed once is never reported consumed again.
\<close>

section \<open>The accept loop\<close>

definition is_accept_error :: "accepting \<Rightarrow> bool" where
  "is_accept_error a \<longleftrightarrow> (\<exists>m. a = Accept_Error m)"

definition is_connection :: "accepting \<Rightarrow> bool" where
  "is_connection a \<longleftrightarrow> (\<exists>env turns stream. a = Connection env turns stream)"

text \<open>Accept failures in a row, with nothing but interrupted calls between them.\<close>

definition failure_run :: "nat \<Rightarrow> accepting list \<Rightarrow> bool" where
  "failure_run n run \<longleftrightarrow> length (filter is_accept_error run) = n \<and> (\<forall>a\<in>set run. is_accept_error a \<or> a = Interrupted)"

definition has_failure_run :: "nat \<Rightarrow> accepting list \<Rightarrow> bool" where
  "has_failure_run n es \<longleftrightarrow> (\<exists>pre run post. es = pre @ run @ post \<and> failure_run n run)"

definition served :: "accepting list \<Rightarrow> nat" where
  "served es = length (filter is_connection (takeWhile (\<lambda>a. a \<noteq> Stop) es))"

definition backoff_ok :: "loop_state \<Rightarrow> bool" where
  "backoff_ok s \<longleftrightarrow> l_failures s < max_accept_failures \<and> l_backoff s = initial_backoff * 2 ^ l_failures s
     \<and> (\<forall>t\<in>set (l_sleeps s). t \<le> initial_backoff * 2 ^ (max_accept_failures - 2))"

lemma has_failure_run_Cons: "has_failure_run n es \<Longrightarrow> has_failure_run n (a # es)"
  unfolding has_failure_run_def by (metis append_Cons)

lemma backoff_failure: "backoff_ok s \<Longrightarrow> \<not> max_accept_failures \<le> l_failures s + 1 \<Longrightarrow> backoff_ok (loop_failure s)"
proof -
  assume ok: "backoff_ok s" and room: "\<not> max_accept_failures \<le> l_failures s + 1"
  then have "l_failures s \<in> {0, 1, 2, 3}" by (auto simp: max_accept_failures_def)
  then show ?thesis using ok
    by (auto simp: backoff_ok_def loop_failure_def max_accept_failures_def initial_backoff_def max_backoff_def)
qed

lemma backoff_reset: "backoff_ok s \<Longrightarrow> backoff_ok (loop_reset s)"
  by (simp add: backoff_ok_def loop_reset_def max_accept_failures_def)

lemma serve_requests_run:
  assumes "\<forall>env turns stream. Connection env turns stream \<in> set es \<longrightarrow> os_errors_only env turns"
    and "backoff_ok s" and "serve_requests es s = (r, s')"
  shows "(\<forall>t\<in>set (l_sleeps s'). t \<le> initial_backoff * 2 ^ (max_accept_failures - 2))
    \<and> (r = Inr () \<and> length (l_answers s') = length (l_answers s) + served es
       \<or> r = Inl repeated_failures \<and> (has_failure_run max_accept_failures es
            \<or> (\<exists>run post. es = run @ post \<and> failure_run (max_accept_failures - l_failures s) run)))"
  using assms
proof (induction es s rule: serve_requests.induct)
  case (1 s)
  then show ?case by (auto simp: backoff_ok_def served_def)
next
  case (2 es s)
  then show ?case by (auto simp: backoff_ok_def served_def)
next
  case (3 es s)
  have "l_failures (loop_reset s) = 0" by (simp add: loop_reset_def)
  then have run: "\<exists>run post. es = run @ post \<and> failure_run (max_accept_failures - l_failures (loop_reset s)) run \<Longrightarrow>
      has_failure_run max_accept_failures (Timed_Out # es)"
    unfolding has_failure_run_def by (metis append_Cons append_Nil diff_zero)
  have "l_answers (loop_reset s) = l_answers s" "served (Timed_Out # es) = served es"
    by (simp_all add: loop_reset_def served_def is_connection_def)
  then show ?case using "3.IH" "3.prems" backoff_reset run has_failure_run_Cons by fastforce
next
  case (4 es s)
  have run: "\<exists>run' post. Interrupted # es = run' @ post \<and> failure_run n run'"
    if h: "\<exists>run post. es = run @ post \<and> failure_run n run" for n
  proof -
    from h obtain rn post where rp: "es = rn @ post" "failure_run n rn" by (elim exE conjE)
    then have "failure_run n (Interrupted # rn)" by (simp add: failure_run_def is_accept_error_def)
    then show ?thesis using rp(1) by (metis append_Cons)
  qed
  have "served (Interrupted # es) = served es" by (simp add: served_def is_connection_def)
  then show ?case using "4.IH" "4.prems" run has_failure_run_Cons by fastforce
next
  case (5 m es s)
  show ?case
  proof (cases "max_accept_failures \<le> l_failures s + 1")
    case True
    then have "max_accept_failures - l_failures s = 1" using "5.prems"(2) by (auto simp: backoff_ok_def)
    then have "failure_run (max_accept_failures - l_failures s) [Accept_Error m]"
      by (simp add: failure_run_def is_accept_error_def)
    then have "\<exists>run post. Accept_Error m # es = run @ post \<and> failure_run (max_accept_failures - l_failures s) run"
      by (intro exI [of _ "[Accept_Error m]"] exI [of _ es]) simp
    moreover have "r = Inl repeated_failures" "l_sleeps s' = l_sleeps s"
      using True "5.prems"(3) by auto
    ultimately show ?thesis using "5.prems"(2) unfolding backoff_ok_def by metis
  next
    case False
    have run: "\<exists>run' post. Accept_Error m # es = run' @ post \<and> failure_run (max_accept_failures - l_failures s) run'"
      if h: "\<exists>run post. es = run @ post \<and> failure_run (max_accept_failures - l_failures (loop_failure s)) run"
    proof -
      from h obtain rn post where rp: "es = rn @ post" "failure_run (max_accept_failures - l_failures (loop_failure s)) rn"
        by (elim exE conjE)
      then have "failure_run (max_accept_failures - l_failures s) (Accept_Error m # rn)"
        using False by (auto simp: failure_run_def is_accept_error_def loop_failure_def)
      then show ?thesis using rp(1) by (metis append_Cons)
    qed
    have count: "length (l_answers (loop_failure s)) + served es = length (l_answers s) + served (Accept_Error m # es)"
      by (simp add: loop_failure_def served_def is_connection_def)
    have rest: "serve_requests es (loop_failure s) = (r, s')" using "5.prems"(3) False by simp
    have good: "\<forall>env turns stream. Connection env turns stream \<in> set es \<longrightarrow> os_errors_only env turns" using "5.prems"(1) by simp
    note ih = "5.IH" [OF False good backoff_failure [OF "5.prems"(2) False] rest]
    from conjunct2 [OF ih] have "r = Inr () \<and> length (l_answers s') = length (l_answers (loop_failure s)) + served es
        \<or> r = Inl repeated_failures \<and> (has_failure_run max_accept_failures (Accept_Error m # es)
          \<or> (\<exists>run' post. Accept_Error m # es = run' @ post \<and> failure_run (max_accept_failures - l_failures s) run'))"
      using run has_failure_run_Cons by metis
    then show ?thesis using conjunct1 [OF ih] by (simp only: count)
  qed
next
  case (6 env turns stream es s)
  have "os_errors_only env turns" using "6.prems"(1) by simp
  then obtain a where "fst (handle_connection env turns stream (l_ledger s)) = Inr a" using connection_answered by blast
  then obtain f where h: "handle_connection env turns stream (l_ledger s) = (Inr a, f)" by (metis prod.collapse)
  let ?s = "(loop_reset s)\<lparr>l_ledger := f, l_answers := l_answers s @ [a]\<rparr>"
  have ok: "backoff_ok ?s" using backoff_reset [OF "6.prems"(2)] by (simp add: backoff_ok_def)
  have zero: "l_failures ?s = 0" by (simp add: loop_reset_def)
  have run: "\<exists>run post. es = run @ post \<and> failure_run (max_accept_failures - l_failures ?s) run \<Longrightarrow>
      has_failure_run max_accept_failures (Connection env turns stream # es)"
    unfolding has_failure_run_def zero by (metis append_Cons append_Nil diff_zero)
  have count: "length (l_answers ?s) + served es = length (l_answers s) + served (Connection env turns stream # es)"
    by (simp add: served_def is_connection_def)
  have rest: "serve_requests es ?s = (r, s')" using "6.prems"(3) h by simp
  have good: "\<forall>env turns stream. Connection env turns stream \<in> set es \<longrightarrow> os_errors_only env turns" using "6.prems"(1) by simp
  have ih: "(\<forall>t\<in>set (l_sleeps s'). t \<le> initial_backoff * 2 ^ (max_accept_failures - 2))
    \<and> (r = Inr () \<and> length (l_answers s') = length (l_answers ?s) + served es
       \<or> r = Inl repeated_failures \<and> (has_failure_run max_accept_failures es
            \<or> (\<exists>run post. es = run @ post \<and> failure_run (max_accept_failures - l_failures ?s) run)))"
    by (rule "6.IH" [OF h [symmetric] refl good ok rest])
  then have sleeps: "\<forall>t\<in>set (l_sleeps s'). t \<le> initial_backoff * 2 ^ (max_accept_failures - 2)" by (rule conjunct1)
  from ih have "r = Inr () \<and> length (l_answers s') = length (l_answers ?s) + served es
      \<or> r = Inl repeated_failures \<and> has_failure_run max_accept_failures (Connection env turns stream # es)"
    using run has_failure_run_Cons by blast
  then have "r = Inr () \<and> length (l_answers s') = length (l_answers s) + served (Connection env turns stream # es)
      \<or> r = Inl repeated_failures \<and> has_failure_run max_accept_failures (Connection env turns stream # es)"
    by (simp only: count)
  with sleeps show ?case by blast
qed

section \<open>Requests that consume a nonce\<close>

lemma reply_distinct [simp]: "consumed_reply \<noteq> ready" "consumed_reply \<noteq> rejected" "consumed_reply \<noteq> already_consumed"
  "ready \<noteq> consumed_reply" "rejected \<noteq> consumed_reply" "already_consumed \<noteq> consumed_reply"
  by (simp_all add: consumed_reply_def ready_def rejected_def already_consumed_def)

definition nonce_of :: "obj \<Rightarrow> string" where
  "nonce_of request = str_val (get request ''nonce'')"

lemma consumed_request:
  assumes "handle_request env raw f = (Inr consumed_reply, f')"
  obtains request where "parse_request raw = Inr request" and "valid_nonce_fields (JObj request)"
    and "consume env (nonce_of request) (str_val (get request ''receipt_sha256''))
           (str_val (get request ''operation_payload_sha256'')) f = (Inr True, f')"
proof (cases "parse_request raw")
  case (Inl e)
  then show ?thesis using assms by (simp add: handle_request_def)
next
  case (Inr request)
  obtain r f2 where c: "consume env (nonce_of request) (str_val (get request ''receipt_sha256''))
           (str_val (get request ''operation_payload_sha256'')) f = (r, f2)" by (metis surj_pair)
  have "valid_nonce_fields (JObj request)" "r = Inr True" "f' = f2"
    using assms Inr c unfolding nonce_of_def
    by (auto simp: handle_request_def rbind_Inr_iff split: if_splits)
  then show ?thesis using Inr c that by simp
qed

lemma request_args_ok:
  "valid_nonce_fields (JObj request) \<Longrightarrow> 0 \<le> now \<Longrightarrow> now < max_us \<Longrightarrow>
    record_args_ok now (nonce_of request) (str_val (get request ''receipt_sha256'')) (str_val (get request ''operation_payload_sha256''))"
  by (simp add: valid_nonce_fields_def record_args_ok_def nonce_of_def sha256_str_def)

text \<open>A fresh nonce is appended to the recorded ones, and the ledger can be read again.\<close>

lemma scan_locked_appended:
  assumes "scan_locked v = Inr seen" and "record_args_ok now n h p" and "n \<notin> set seen"
    and "length v + length (ledger_record now n h p) < max_ledger_bytes"
  shows "scan_locked (v @ ledger_record now n h p) = Inr (n # seen)"
  using assms scan_lines_append [of "[]" v seen] scan_own_record [of now n h p seen]
  by (simp add: scan_locked_def require_Inr_iff)

lemma consumed_is_recorded:
  assumes "consume env n h p f = (Inr True, f')" and "record_args_ok (b_now env) n h p"
  shows "recorded f' = recorded f @ [n] \<and> n \<notin> set (recorded f) \<and> below_capacity f'"
  using assms(1)
proof (cases rule: consume_ledger_cases)
  case (written l seen k)
  let ?text = "ledger_record (b_now env) n h p"
  have f': "ledger_bytes f' = lf_bytes l @ ?text" using written(5) written(6) by (simp add: ledger_bytes_def)
  then have "scan_locked (ledger_bytes f') = Inr (n # seen)"
    using scan_locked_appended [OF written(2) assms(2) written(3,4)] by simp
  moreover have "scan_locked (ledger_bytes f) = Inr seen" using written(1,2) by (simp add: ledger_bytes_def)
  ultimately show ?thesis
    using recorded_scan [of f'] recorded_scan [of f] written(3,4) f' by (simp add: below_capacity_def)
qed simp

text \<open>
  C7. A nonce is consumed once. When the broker has answered CONSUMED to a request, then after
  any further history of the ledger (restarts, requests of any content, writes cut short, flushes
  that fail) it does not answer CONSUMED to a request with the same nonce.
\<close>

theorem nonce_consumed_once:
  assumes "handle_request env raw f = (Inr consumed_reply, f1)" and "0 \<le> b_now env" and "b_now env < max_us"
    and "broker_step\<^sup>*\<^sup>* f1 f2" and "handle_request env' raw' f2 = (Inr consumed_reply, f3)"
    and "parse_request raw = Inr request" and "parse_request raw' = Inr request'"
  shows "nonce_of request' \<noteq> nonce_of request"
proof
  assume same: "nonce_of request' = nonce_of request"
  obtain h p where first: "consume env (nonce_of request) h p f = (Inr True, f1)" "record_args_ok (b_now env) (nonce_of request) h p"
    using assms(1) by (elim consumed_request) (use assms(2,3,6) request_args_ok in auto)
  obtain h' p' where second: "consume env' (nonce_of request') h' p' f2 = (Inr True, f3)"
    using assms(5) by (elim consumed_request) (use assms(7) in auto)
  have "nonce_of request \<in> set (recorded f1)" "below_capacity f1" using consumed_is_recorded [OF first] by auto
  then have "nonce_of request \<in> set (recorded f2)"
    using nonces.reachable_grows [OF assms(4)] by (auto simp: grows_eq_prefix)
  moreover have "nonce_of request' \<notin> set (recorded f2)"
    using second
  proof (cases rule: consume_ledger_cases)
    case (written l seen k)
    then show ?thesis using recorded_scan [of f2 seen] by (simp add: ledger_bytes_def)
  qed simp
  ultimately show False using same by simp
qed

section \<open>The ledger as a set of nonces\<close>

definition writes_succeed :: "broker_env \<Rightarrow> bool" where
  "writes_succeed env \<longleftrightarrow> (\<forall>w\<in>set (b_writes env). case w of Inl e \<Rightarrow> False | Inr k \<Rightarrow> 0 < k) \<and> b_fsync env = Inr ()"

lemma write_all_succeeds:
  "\<forall>w\<in>set ws. case w of Inl e \<Rightarrow> False | Inr k \<Rightarrow> 0 < k \<Longrightarrow> write_all ws v s = (Inr (), s @ v)"
proof (induction ws v s rule: write_all.induct)
  case (4 n ws c cs s)
  then show ?case by (simp flip: append_assoc take_add) (simp add: take_Cons' drop_Cons')
qed auto

lemma open_ledger_meta: "open_ledger env (Some l) = Inr l' \<Longrightarrow> lf_meta l2 = lf_meta l \<Longrightarrow> open_ledger env (Some l2) = Inr l2"
  by (auto simp: open_ledger_def rbind_Inr_iff of_option_Inr_iff check_ledger_meta_def require_Inr_iff)

lemma consume_succeeds:
  assumes "open_ledger env (Some l) = Inr l" and "writes_succeed env" and "record_args_ok (b_now env) n h p"
    and "scan_locked (lf_bytes l) = Inr seen" and "length (lf_bytes l) + max_ledger_record_bytes < max_ledger_bytes"
  obtains l' where "consume env n h p (Some l) = (Inr (n \<notin> set seen), Some l')" and "lf_meta l' = lf_meta l"
    and "length (lf_bytes l') \<le> length (lf_bytes l) + max_ledger_record_bytes"
    and "scan_locked (lf_bytes l') = Inr (if n \<in> set seen then seen else n # seen)"
proof (cases "n \<in> set seen")
  case True
  then show ?thesis
    using assms length_record [OF assms(3)] by (intro that [of l]) (simp_all add: consume_def Let_def)
next
  case False
  let ?l = "l\<lparr>lf_bytes := lf_bytes l @ ledger_record (b_now env) n h p\<rparr>"
  have room: "length (lf_bytes l) + length (ledger_record (b_now env) n h p) < max_ledger_bytes"
    using assms(5) length_record [OF assms(3)] by simp
  have w: "write_all (b_writes env) (ledger_record (b_now env) n h p) (lf_bytes l) =
      (Inr (), lf_bytes l @ ledger_record (b_now env) n h p)"
    by (rule write_all_succeeds) (use assms(2) in \<open>simp add: writes_succeed_def\<close>)
  have "consume env n h p (Some l) = (Inr True, Some ?l)"
    using assms(1,2,4) room False w by (simp add: consume_def Let_def writes_succeed_def)
  then show ?thesis
    using False length_record [OF assms(3)] scan_locked_appended [OF assms(4,3) False room]
    by (intro that [of ?l]) simp_all
qed

text \<open>Consecutive calls of \<open>consume\<close>, and what they mean on the set of the nonces consumed so far.\<close>

type_synonym consume_call = "broker_env \<times> string \<times> digest \<times> digest"

fun consume_all :: "consume_call list \<Rightarrow> ledger option \<Rightarrow> bool result list \<times> ledger option" where
  "consume_all [] f = ([], f)"
| "consume_all ((env, n, h, p) # calls) f =
     (let (r, f') = consume env n h p f; (rs, f'') = consume_all calls f' in (r # rs, f''))"

fun spend_all :: "string list \<Rightarrow> string set \<Rightarrow> bool list \<times> string set" where
  "spend_all [] spent = ([], spent)"
| "spend_all (n # ns) spent =
     (let (rs, spent') = spend_all ns (insert n spent) in ((n \<notin> spent) # rs, spent'))"

definition call_ok :: "ledger \<Rightarrow> consume_call \<Rightarrow> bool" where
  "call_ok l = (\<lambda>(env, n, h, p). open_ledger env (Some l) = Inr l \<and> writes_succeed env \<and> record_args_ok (b_now env) n h p)"

definition call_nonce :: "consume_call \<Rightarrow> string" where
  "call_nonce = (\<lambda>(env, n, h, p). n)"

lemma consume_all_spends:
  assumes "list_all (call_ok l) calls" and "scan_locked (lf_bytes l) = Inr seen"
    and "length (lf_bytes l) + length calls * max_ledger_record_bytes < max_ledger_bytes"
  shows "\<exists>l' seen'. consume_all calls (Some l) = (map Inr (fst (spend_all (map call_nonce calls) (set seen))), Some l')
    \<and> scan_locked (lf_bytes l') = Inr seen' \<and> set seen' = snd (spend_all (map call_nonce calls) (set seen))"
  using assms
proof (induction calls arbitrary: l seen)
  case Nil
  then show ?case by simp
next
  case (Cons call calls)
  obtain env n h p where call: "call = (env, n, h, p)" by (cases call)
  have pre: "open_ledger env (Some l) = Inr l" "writes_succeed env" "record_args_ok (b_now env) n h p"
    "length (lf_bytes l) + max_ledger_record_bytes < max_ledger_bytes"
    using Cons.prems(1,3) by (simp_all add: call call_ok_def)
  obtain l' where l': "consume env n h p (Some l) = (Inr (n \<notin> set seen), Some l')" "lf_meta l' = lf_meta l"
    "length (lf_bytes l') \<le> length (lf_bytes l) + max_ledger_record_bytes"
    "scan_locked (lf_bytes l') = Inr (if n \<in> set seen then seen else n # seen)"
    using consume_succeeds [OF pre(1,2,3) Cons.prems(2) pre(4)] by metis
  have "call_ok l' c" if "call_ok l c" for c
    using that open_ledger_meta [OF _ l'(2)] by (auto simp: call_ok_def)
  then have calls: "list_all (call_ok l') calls" using Cons.prems(1) by (simp add: list_all_iff)
  have room: "length (lf_bytes l') + length calls * max_ledger_record_bytes < max_ledger_bytes"
    using Cons.prems(3) l'(3) by simp
  have seen: "set (if n \<in> set seen then seen else n # seen) = insert n (set seen)" by auto
  obtain l'' seen' where rest: "consume_all calls (Some l') = (map Inr (fst (spend_all (map call_nonce calls) (insert n (set seen)))), Some l'')"
    "scan_locked (lf_bytes l'') = Inr seen'" "set seen' = snd (spend_all (map call_nonce calls) (insert n (set seen)))"
    using Cons.IH [OF calls l'(4) room] unfolding seen by blast
  have "consume_all (call # calls) (Some l) = (map Inr (fst (spend_all (map call_nonce (call # calls)) (set seen))), Some l'')"
    using l'(1) rest(1) by (simp add: call call_nonce_def split: prod.split)
  moreover have "set seen' = snd (spend_all (map call_nonce (call # calls)) (set seen))"
    using rest(3) by (simp add: call call_nonce_def split: prod.split)
  ultimately show ?case using rest(2) by blast
qed

text \<open>
  C8. The nonce ledger implements a set. Any sequence of consume calls on a readable ledger with
  room for their records, in an environment that lets the file be opened and written, answers
  what adding the nonces one by one to the set of the recorded nonces answers, and leaves a
  readable ledger that records exactly the set reached: a record is never lost, never written
  twice, and never makes the file unreadable.
\<close>

theorem ledger_refines_set:
  assumes "list_all (call_ok l) calls" and "scan_locked (lf_bytes l) = Inr seen"
    and "length (lf_bytes l) + length calls * max_ledger_record_bytes < max_ledger_bytes"
  shows "\<exists>f'. consume_all calls (Some l) = (map Inr (fst (spend_all (map call_nonce calls) (set (recorded (Some l))))), f')
    \<and> set (recorded f') = snd (spend_all (map call_nonce calls) (set (recorded (Some l))))
    \<and> distinct (recorded f')"
proof -
  have rec: "set (recorded (Some l)) = set seen"
    using recorded_scan [of "Some l" seen] assms(2) by (simp add: ledger_bytes_def)
  obtain l' seen' where run: "consume_all calls (Some l) = (map Inr (fst (spend_all (map call_nonce calls) (set seen))), Some l')"
    and scan: "scan_locked (lf_bytes l') = Inr seen'" "set seen' = snd (spend_all (map call_nonce calls) (set seen))"
    using consume_all_spends [OF assms] by blast
  have "recorded (Some l') = rev seen'" using recorded_scan [of "Some l'"] scan(1) by (simp add: ledger_bytes_def)
  moreover have "distinct (recorded (Some l'))"
    using scan_prefix_distinct [of "[]" "ledger_bytes (Some l')"] by (simp add: recorded_def)
  ultimately show ?thesis using run scan(2) by (intro exI [of _ "Some l'"]) (simp add: rec)
qed


section \<open>The size of a request\<close>

definition moves :: "turn \<Rightarrow> bool" where
  "moves t = (case t of Moves n \<Rightarrow> True | _ \<Rightarrow> False)"

lemma receive_from_Inr: "receive_from turns stream v = Inr raw \<Longrightarrow> length raw \<le> max_request_bytes \<Longrightarrow> raw = v @ stream"
proof (induction turns stream v rule: receive_from.induct)
  case (1 turns stream v)
  have short: "\<not> max_request_bytes < length v"
    using "1.prems" by (subst (asm) receive_from.simps) (auto split: if_splits)
  have going: "turn_error read_late turns = None"
    using "1.prems"(1) short by (subst (asm) receive_from.simps) (auto split: option.splits)
  show ?case
  proof (cases "stream = []")
    case True
    then show ?thesis using "1.prems"(1) short going by (subst (asm) receive_from.simps) simp
  next
    case False
    let ?n = "taken turns (min 512 (max_request_bytes + 1 - length v))"
    have "receive_from (tl turns) (drop ?n stream) (v @ take ?n stream) = Inr raw"
      using "1.prems"(1) short going False by (subst (asm) receive_from.simps) (simp add: Let_def)
    then show ?thesis using "1.IH" [OF short going False refl] "1.prems"(2) by simp
  qed
qed

lemma turn_error_moves: "list_all moves turns \<Longrightarrow> turn_error e turns = None"
  by (cases turns) (auto simp: turn_error_def moves_def split: turn.splits)

lemma list_all_tl: "list_all P xs \<Longrightarrow> list_all P (tl xs)"
  by (cases xs) simp_all

lemma receive_from_moves:
  "list_all moves turns \<Longrightarrow> length (v @ stream) \<le> max_request_bytes \<Longrightarrow> receive_from turns stream v = Inr (v @ stream)"
proof (induction turns stream v rule: receive_from.induct)
  case (1 turns stream v)
  have short: "\<not> max_request_bytes < length v" using "1.prems"(2) by simp
  have going: "turn_error read_late turns = None" by (rule turn_error_moves [OF "1.prems"(1)])
  show ?case
  proof (cases "stream = []")
    case True
    then show ?thesis using short going by (subst receive_from.simps) simp
  next
    case False
    let ?n = "taken turns (min 512 (max_request_bytes + 1 - length v))"
    have "receive_from (tl turns) (drop ?n stream) (v @ take ?n stream) = Inr (v @ stream)"
      using "1.IH" [OF short going False refl list_all_tl [OF "1.prems"(1)]] "1.prems"(2) by simp
    then show ?thesis using short going False by (subst receive_from.simps) (simp add: Let_def)
  qed
qed

text \<open>
  C11. The reader of a request is exact. What it hands on is the whole stream of the client, at
  most 2048 bytes, with one line feed, at the end; and every such stream is handed on when the
  reads move bytes, however the bytes are cut into reads.
\<close>

theorem request_bounded:
  "(receive_request turns stream = Inr raw \<longrightarrow> raw = stream \<and> length stream \<le> max_request_bytes \<and> one_record stream)
   \<and> (list_all moves turns \<and> length stream \<le> max_request_bytes \<and> one_record stream \<longrightarrow> receive_request turns stream = Inr stream)"
proof -
  have "raw = stream \<and> length stream \<le> max_request_bytes \<and> one_record stream" if "receive_request turns stream = Inr raw"
  proof -
    have "receive_from turns stream [] = Inr raw" "length raw \<le> max_request_bytes" "one_record raw"
      using that by (auto simp: receive_request_def rbind_Inr_iff require_Inr_iff)
    then show ?thesis using receive_from_Inr [of turns stream "[]" raw] by simp
  qed
  moreover have "receive_request turns stream = Inr stream"
    if "list_all moves turns \<and> length stream \<le> max_request_bytes \<and> one_record stream"
    using that receive_from_moves [of turns "[]" stream] by (simp add: receive_request_def require_def)
  ultimately show ?thesis by blast
qed

section \<open>A concrete broker\<close>

definition sample_ledger_meta :: os_stat where
  "sample_ledger_meta = \<lparr>st_kind = Regular, st_perm = 384, st_uid = 0, st_gid = 0, st_dev = 1, st_ino = 7, st_nlink = 1,
     st_size = 0, st_mtime_ns = 0, st_ctime_ns = 0\<rparr>"

definition sample_broker_env :: broker_env where
  "sample_broker_env = \<lparr>b_now = 63900000000000000, b_posix = True, b_parent = ''/var/lib/sddgov'', b_chain = [], b_validate_chain = False,
     b_expected_uid = 0, b_new_meta = sample_ledger_meta, b_writes = [Inr 100, Inr 7], b_fsync = Inr (), b_fsync_parent = Inr ()\<rparr>"

definition sample_ledger :: ledger where
  "sample_ledger = \<lparr>lf_meta = sample_ledger_meta, lf_bytes = []\<rparr>"

definition sample_sha :: string where "sample_sha = concat (replicate 16 ''07af'')"

definition sample_request :: "string \<Rightarrow> json" where
  "sample_request nonce = JObj [(''action'', JStr ''consume''), (''nonce'', JStr nonce),
     (''receipt_sha256'', JStr sample_sha), (''operation_payload_sha256'', JStr sample_sha)]"

definition sample_raw :: "string \<Rightarrow> string" where
  "sample_raw nonce = canonical_bytes (sample_request nonce) @ [CHR 0x0A]"

lemma sample_sha_ok: "is_sha256 sample_sha"
  by code_simp

lemma sample_args_ok: "nonce_ok nonce \<Longrightarrow> record_args_ok (b_now sample_broker_env) nonce sample_sha sample_sha"
  by (simp add: record_args_ok_def sample_sha_ok sample_broker_env_def max_us_def)

lemma sample_call_ok: "nonce_ok nonce \<Longrightarrow> lf_meta l = sample_ledger_meta \<Longrightarrow> call_ok l (sample_broker_env, nonce, sample_sha, sample_sha)"
  using sample_args_ok
  by (simp add: call_ok_def open_ledger_def check_ledger_parents_def check_ledger_meta_def ledger_meta_ok_def of_option_def
      require_def Let_def writes_succeed_def sample_broker_env_def sample_ledger_meta_def perm_group_other_any_def)

lemma sample_nonce_ok: "nonce_ok ''nonce-number-1''" "nonce_ok ''nonce-number-2''"
  by code_simp+
lemma canon_sample_request:
  "canon (sample_request nonce) = JObj [(''action'', JStr ''consume''), (''nonce'', JStr nonce),
     (''operation_payload_sha256'', JStr sample_sha), (''receipt_sha256'', JStr sample_sha)]"
  by (simp add: sample_request_def)

lemma sample_raw_parsed: "parse_request (sample_raw nonce) = Inr (dict_val (canon (sample_request nonce)))"
proof -
  have wf: "wf_json (sample_request nonce)" by (simp add: sample_request_def)
  have "CHR 0x0A \<notin> set (dumps (sample_request nonce))"
    by (simp add: sample_request_def dumps_JObj member_text_def dump_str_no_newline)
  then have "CHR 0x0A \<notin> set (canonical_bytes (sample_request nonce))" by (simp only: canonical_bytes_def utf8_no_newline simp_thms)
  then have "one_record (sample_raw nonce)"
    by (auto simp: one_record_def line_feeds_def sample_raw_def filter_empty_conv)
  moreover have "is_dict (canon (sample_request nonce))" by (simp add: canon_sample_request)
  ultimately show ?thesis
    using loads_bytes_canonical [OF wf] by (simp add: parse_request_def sample_raw_def require_def rescue_def)
qed
lemma sample_raw_handled:
  assumes "nonce_ok nonce"
  shows "handle_request sample_broker_env (sample_raw nonce) f =
    (case consume sample_broker_env nonce sample_sha sample_sha f of
       (r, f') \<Rightarrow> (rbind r (\<lambda>fresh. Inr (if fresh then consumed_reply else already_consumed)), f'))"
  using assms sample_sha_ok
  by (simp add: handle_request_def sample_raw_parsed canon_sample_request keys_eq_def request_fields_def insert_commute
      valid_nonce_fields_def py_eq.simps split: prod.split)

lemma sample_raw_nonce: "parse_request (sample_raw nonce) = Inr request \<Longrightarrow> nonce_of request = nonce"
  by (auto simp: sample_raw_parsed canon_sample_request nonce_of_def)

lemma sample_scan: "scan_locked (lf_bytes sample_ledger) = Inr []"
  by (simp add: scan_locked_def sample_ledger_def scan_lines.simps require_def max_ledger_bytes_def)

lemma sample_runs:
  obtains l1 l2 where "consume sample_broker_env ''nonce-number-1'' sample_sha sample_sha (Some sample_ledger) = (Inr True, Some l1)"
    and "consume sample_broker_env ''nonce-number-2'' sample_sha sample_sha (Some l1) = (Inr True, Some l2)"
proof -
  have room: "length (lf_bytes sample_ledger) + max_ledger_record_bytes < max_ledger_bytes"
    by (simp add: sample_ledger_def max_ledger_record_bytes_def max_ledger_bytes_def)
  have meta: "lf_meta sample_ledger = sample_ledger_meta" by (simp add: sample_ledger_def)
  have ok: "open_ledger sample_broker_env (Some l) = Inr l \<and> writes_succeed sample_broker_env
      \<and> record_args_ok (b_now sample_broker_env) ''nonce-number-1'' sample_sha sample_sha
      \<and> record_args_ok (b_now sample_broker_env) ''nonce-number-2'' sample_sha sample_sha" if "lf_meta l = sample_ledger_meta" for l
    using sample_call_ok [OF sample_nonce_ok(1) that] sample_call_ok [OF sample_nonce_ok(2) that] by (simp add: call_ok_def)
  obtain l1 where l1: "consume sample_broker_env ''nonce-number-1'' sample_sha sample_sha (Some sample_ledger) = (Inr True, Some l1)"
    "lf_meta l1 = sample_ledger_meta" "length (lf_bytes l1) \<le> max_ledger_record_bytes" "scan_locked (lf_bytes l1) = Inr [''nonce-number-1'']"
    by (rule consume_succeeds [of sample_broker_env sample_ledger "''nonce-number-1''" sample_sha sample_sha "[]"])
      (use ok [OF meta] sample_scan room meta in \<open>auto simp: sample_ledger_def\<close>)
  have room1: "length (lf_bytes l1) + max_ledger_record_bytes < max_ledger_bytes"
    using l1(3) by (simp add: max_ledger_record_bytes_def max_ledger_bytes_def)
  show ?thesis
    by (rule consume_succeeds [of sample_broker_env l1 "''nonce-number-2''" sample_sha sample_sha "[''nonce-number-1'']"])
      (use ok [OF l1(2)] l1(4) room1 that l1(1) in auto)
qed

lemma nonce_consumed_once_witness:
  "\<exists>f1 f3 q1 q2. handle_request sample_broker_env (sample_raw ''nonce-number-1'') (Some sample_ledger) = (Inr consumed_reply, f1)
     \<and> handle_request sample_broker_env (sample_raw ''nonce-number-2'') f1 = (Inr consumed_reply, f3)
     \<and> parse_request (sample_raw ''nonce-number-1'') = Inr q1 \<and> parse_request (sample_raw ''nonce-number-2'') = Inr q2
     \<and> nonce_of q2 \<noteq> nonce_of q1"
proof -
  obtain l1 l2 where run: "consume sample_broker_env ''nonce-number-1'' sample_sha sample_sha (Some sample_ledger) = (Inr True, Some l1)"
    "consume sample_broker_env ''nonce-number-2'' sample_sha sample_sha (Some l1) = (Inr True, Some l2)" by (rule sample_runs)
  then have first: "handle_request sample_broker_env (sample_raw ''nonce-number-1'') (Some sample_ledger) = (Inr consumed_reply, Some l1)"
    and second: "handle_request sample_broker_env (sample_raw ''nonce-number-2'') (Some l1) = (Inr consumed_reply, Some l2)"
    using sample_nonce_ok by (simp_all add: sample_raw_handled)
  have now: "0 \<le> b_now sample_broker_env" "b_now sample_broker_env < max_us" by (simp_all add: sample_broker_env_def max_us_def)
  show ?thesis
    using first second nonce_consumed_once [OF first now rtranclp.rtrancl_refl second sample_raw_parsed sample_raw_parsed]
      sample_raw_parsed by blast
qed

lemma ledger_refines_set_witness:
  "\<exists>f'. consume_all [(sample_broker_env, ''nonce-number-1'', sample_sha, sample_sha), (sample_broker_env, ''nonce-number-2'', sample_sha, sample_sha),
        (sample_broker_env, ''nonce-number-1'', sample_sha, sample_sha)] (Some sample_ledger) = ([Inr True, Inr True, Inr False], f')
     \<and> set (recorded f') = {''nonce-number-1'', ''nonce-number-2''} \<and> distinct (recorded f')"
proof -
  let ?calls = "[(sample_broker_env, ''nonce-number-1'', sample_sha, sample_sha), (sample_broker_env, ''nonce-number-2'', sample_sha, sample_sha),
        (sample_broker_env, ''nonce-number-1'', sample_sha, sample_sha)]"
  have calls: "list_all (call_ok sample_ledger) ?calls" using sample_call_ok sample_nonce_ok by (simp add: sample_ledger_def)
  have room: "length (lf_bytes sample_ledger) + length ?calls * max_ledger_record_bytes < max_ledger_bytes"
    by (simp add: sample_ledger_def max_ledger_record_bytes_def max_ledger_bytes_def)
  have empty: "recorded (Some sample_ledger) = []"
    using recorded_scan [of "Some sample_ledger"] sample_scan by (simp add: ledger_bytes_def)
  have spend: "spend_all (map call_nonce ?calls) {} = ([True, True, False], {''nonce-number-2'', ''nonce-number-1''})"
    by (simp add: call_nonce_def insert_commute)
  show ?thesis
    using ledger_refines_set [OF calls sample_scan room] unfolding empty list.set(1) spend by (simp add: insert_commute)
qed


lemma request_bounded_witness:
  "list_all moves [Moves 3, Moves 0] \<and> one_record (''a'' @ [CHR 0x0A])
    \<and> receive_request [Moves 3, Moves 0] (''a'' @ [CHR 0x0A]) = Inr (''a'' @ [CHR 0x0A])"
proof -
  have "list_all moves [Moves 3, Moves 0]" "length (''a'' @ [CHR 0x0A]) \<le> max_request_bytes" "one_record (''a'' @ [CHR 0x0A])"
    by (simp_all add: moves_def max_request_bytes_def one_record_def line_feeds_def)
  then show ?thesis using request_bounded [of "[Moves 3, Moves 0]" "''a'' @ [CHR 0x0A]"] by blast
qed

end
