(* ===== verification/Merge_Git.thy ===== *)
theory Merge_Git
  imports Approvals
begin

text \<open>
  The merge gate, first part (\<open>src/src/sddgov/merge_gate.py\<close>): what it asks \<open>git\<close> for and how
  it reads the answers. The change digest, the changed paths, the descendants of the reviewed
  commit, and the rollback record with its two proofs, that the declared commit reverts
  cleanly to the base and that the reverted tree is healthy.

  \<open>git\<close> and the other programs are outside the repository: a \<open>merge_world\<close> says what a command
  returns. The repository does not change while the gate runs, so the answers are functions of
  the arguments.
\<close>


section \<open>The outside world\<close>

text \<open>
  \<open>m_run\<close> is \<open>subprocess.run(["git", ...])\<close> in the repository (exit status, output, error
  output); \<open>m_isolated\<close> is the same in the isolated bare repository of the revert proof and
  \<open>m_drill\<close> runs the commands of the rollback drill, where \<open>None\<close> is a command that could not be
  started or timed out. \<open>m_links\<close> and \<open>m_resolve\<close> are the file system seen from the root,
  \<open>m_resolve\<close> giving the resolved path relative to the root when it is inside.
\<close>

record merge_world =
  m_now :: int
  m_posix :: bool
  m_euid :: int
  m_run :: "string list \<Rightarrow> (int \<times> string \<times> string) result"
  m_links :: "string \<Rightarrow> bool"
  m_resolve :: "string \<Rightarrow> string option"
  m_text :: "string \<Rightarrow> string result"
  m_external :: "(bool \<times> load_calls) option"
  m_policy :: "string result"
  m_ed25519 :: "string \<Rightarrow> string \<Rightarrow> string \<Rightarrow> bool"
  m_verify_dep :: "string \<Rightarrow> string list result"
  m_local_gate :: "obj result"
  m_objects_dir :: "string \<Rightarrow> bool"
  m_isolated :: "string list \<Rightarrow> (int \<times> string) option"
  m_drill :: "string list \<Rightarrow> int option"
  m_installed_before :: bool
  m_installed_after :: bool

definition git :: "merge_world \<Rightarrow> string list \<Rightarrow> string result" where
  "git w args =
     rbind (m_run w args) (\<lambda>(code, out, err).
     require (code = 0)
       (ValueError (''git '' @ join '' '' args @ '' failed: '' @ (if strip err \<noteq> [] then strip err else strip out)))
       (Inr (strip out)))"

definition git_status :: "merge_world \<Rightarrow> string list \<Rightarrow> int result" where
  "git_status w args = rbind (m_run w args) (\<lambda>(code, out, err). Inr code)"

text \<open>A call inside \<open>try ... except ValueError: return False\<close>.\<close>

definition attempt :: "'a result \<Rightarrow> ('a \<Rightarrow> bool result) \<Rightarrow> bool result" where
  "attempt m k = (case m of Inl e \<Rightarrow> (if is_ValueError e then Inr False else Inl e) | Inr a \<Rightarrow> k a)"


section \<open>The executable change\<close>

definition audit_gate_path :: string where "audit_gate_path = ''.sddgov/merge-gate.json''"

definition audit_review_prefix :: string where "audit_review_prefix = ''.sddgov/reviews/''"

definition audit_evidence_prefix :: string where "audit_evidence_prefix = ''evidence/''"

definition audit_excludes :: "string list" where
  "audit_excludes = ['':(exclude)'' @ audit_gate_path, '':(exclude)'' @ audit_review_prefix @ ''**'']"

definition rollback_audit_excludes :: "string list" where
  "rollback_audit_excludes = ('':(exclude)'' @ audit_evidence_prefix @ ''**'') # audit_excludes"

definition change_digest :: "merge_world \<Rightarrow> string \<Rightarrow> string result" where
  "change_digest w base_ref =
     rbind (git w ([''diff'', ''--binary'', base_ref @ ''...HEAD'', ''--'', ''.''] @ audit_excludes)) (\<lambda>patch.
     Inr (sha256_hex (utf8 patch)))"

definition commit_of :: "string \<Rightarrow> string" where
  "commit_of r = r @ ''^{commit}''"

definition compute_change_digest :: "merge_world \<Rightarrow> string \<Rightarrow> obj result" where
  "compute_change_digest w base_ref =
     rbind (git w [''rev-parse'', ''--verify'', commit_of base_ref]) (\<lambda>base_sha.
     rbind (git w [''rev-parse'', ''HEAD'']) (\<lambda>head_sha.
     rbind (change_digest w base_ref) (\<lambda>digest.
     Inr [(''base_ref'', JStr base_ref), (''base_sha'', JStr base_sha), (''head_sha'', JStr head_sha),
          (''change_digest'', JStr digest)])))"

text \<open>
  The NUL-delimited records of \<open>git diff --name-status -z\<close>: a status and one path, or two paths
  after a rename or copy.
\<close>

definition record_width :: "string \<Rightarrow> nat" where
  "record_width status = (if starts_with ''R'' status \<or> starts_with ''C'' status then 2 else 1)"

function name_status_paths :: "exn \<Rightarrow> string list \<Rightarrow> string list result" where
  "name_status_paths e [] = Inr []"
| "name_status_paths e (status # rest) =
     require (record_width status \<le> length rest \<and> status \<noteq> []) e
     (rbind (name_status_paths e (drop (record_width status) rest)) (\<lambda>paths.
      Inr (take (record_width status) rest @ paths)))"
  by pat_completeness auto
termination
  by (relation "measure (\<lambda>(e, fs). length fs)") auto

definition drop_last_empty :: "string list \<Rightarrow> string list" where
  "drop_last_empty fs = (if fs \<noteq> [] \<and> last fs = [] then butlast fs else fs)"

definition sorted_paths :: "exn \<Rightarrow> string \<Rightarrow> string list result" where
  "sorted_paths e out =
     rbind (name_status_paths e (drop_last_empty (split_char (CHR 0x00) out))) (\<lambda>paths. Inr (sort (remdups paths)))"

definition changed_paths :: "merge_world \<Rightarrow> string \<Rightarrow> string \<Rightarrow> string list result" where
  "changed_paths w start end_ref =
     rbind (git w [''diff'', ''-M'', ''--name-status'', ''-z'', start @ ''...'' @ end_ref])
       (sorted_paths (ValueError ''git diff produced an invalid NUL name-status record''))"

definition commit_edge_paths :: "merge_world \<Rightarrow> string \<Rightarrow> string \<Rightarrow> string list result" where
  "commit_edge_paths w parent commit =
     rbind (git w [''diff'', ''-M'', ''--name-status'', ''-z'', parent, commit, ''--''])
       (sorted_paths (ValueError ''git diff produced an invalid commit-edge record''))"


section \<open>Descendants of the reviewed commit\<close>

definition is_audit_path :: "bool \<Rightarrow> string \<Rightarrow> bool" where
  "is_audit_path include_evidence path \<longleftrightarrow> path = audit_gate_path \<or> starts_with audit_review_prefix path
     \<or> include_evidence \<and> starts_with audit_evidence_prefix path"

fun edges_audit_only :: "merge_world \<Rightarrow> bool \<Rightarrow> string \<Rightarrow> string list \<Rightarrow> bool result" where
  "edges_audit_only w ev commit [] = Inr True"
| "edges_audit_only w ev commit (parent # parents) =
     attempt (commit_edge_paths w parent commit) (\<lambda>paths.
       if list_all (is_audit_path ev) paths then edges_audit_only w ev commit parents else Inr False)"

fun commits_audit_only :: "merge_world \<Rightarrow> bool \<Rightarrow> string list \<Rightarrow> bool result" where
  "commits_audit_only w ev [] = Inr True"
| "commits_audit_only w ev (commit # commits) =
     attempt (git w [''rev-list'', ''--parents'', ''-n'', ''1'', commit]) (\<lambda>out.
       let row = words out in
       if row = [] \<or> hd row \<noteq> commit \<or> length row < 2 then Inr False
       else rbind (edges_audit_only w ev commit (tl row)) (\<lambda>ok.
            if ok then commits_audit_only w ev commits else Inr False))"

definition is_ancestor :: "merge_world \<Rightarrow> string \<Rightarrow> string \<Rightarrow> bool result" where
  "is_ancestor w older newer =
     rbind (git_status w [''merge-base'', ''--is-ancestor'', older, newer]) (\<lambda>code. Inr (code = 0))"

definition every_descendant_commit_is_audit_only :: "merge_world \<Rightarrow> string \<Rightarrow> string \<Rightarrow> bool \<Rightarrow> bool result" where
  "every_descendant_commit_is_audit_only w start_sha end_sha ev =
     rbind (is_ancestor w start_sha end_sha) (\<lambda>ok.
       if \<not> ok then Inr False
       else attempt (git w [''rev-list'', ''--reverse'', ''--topo-order'', start_sha @ ''..'' @ end_sha]) (\<lambda>out.
              commits_audit_only w ev (splitlines out)))"

definition only_audit_changes_after_review :: "merge_world \<Rightarrow> string \<Rightarrow> string \<Rightarrow> bool result" where
  "only_audit_changes_after_review w reviewed current = every_descendant_commit_is_audit_only w reviewed current False"


section \<open>The rollback record\<close>

definition is_commit_id :: "string \<Rightarrow> bool" where
  "is_commit_id s \<longleftrightarrow> length s = 40 \<and> list_all is_hex_lower s"

text \<open>One \<open>key: value\<close> line, with exactly one space after the colon and no space around the line.\<close>

definition line_key :: "string \<Rightarrow> string" where
  "line_key raw = takeWhile (\<lambda>c. c \<noteq> CHR '':'') raw"

definition line_rest :: "string \<Rightarrow> string" where
  "line_rest raw = drop 1 (dropWhile (\<lambda>c. c \<noteq> CHR '':'') raw)"

definition bad_line :: "(string \<times> string) list \<Rightarrow> string \<Rightarrow> bool" where
  "bad_line fs raw \<longleftrightarrow>
     (let key = line_key raw; v = line_rest raw in
      CHR '':'' \<notin> set raw \<or> raw \<noteq> strip raw \<or> key = [] \<or> key \<noteq> strip key \<or> key \<noteq> lower key \<or> key \<in> set (map fst fs)
      \<or> \<not> starts_with '' '' v \<or> starts_with ''  '' v \<or> drop 1 v \<noteq> strip (drop 1 v))"

fun rollback_fields :: "(string \<times> string) list \<Rightarrow> string list \<Rightarrow> (string \<times> string) list option" where
  "rollback_fields fs [] = Some fs"
| "rollback_fields fs (raw # lines) =
     (if strip raw = [] \<or> starts_with ''#'' (strip raw) then rollback_fields fs lines
      else if bad_line fs raw then None
      else rollback_fields (fs @ [(line_key raw, drop 1 (line_rest raw))]) lines)"

definition field :: "(string \<times> string) list \<Rightarrow> string \<Rightarrow> string" where
  "field fs k = (case map_of fs k of None \<Rightarrow> [] | Some v \<Rightarrow> v)"

definition has_fields :: "(string \<times> string) list \<Rightarrow> string list \<Rightarrow> bool" where
  "has_fields fs ks \<longleftrightarrow> set (map fst fs) = set ks"

definition bad_target :: "string \<Rightarrow> bool" where
  "bad_target target \<longleftrightarrow> target = [] \<or> 240 < length target
     \<or> list_ex (\<lambda>token. contains_text token (lower target)) [''todo'', ''unavailable'', ''<'', ''>'']"

definition select :: "(string \<times> string) list \<Rightarrow> string list \<Rightarrow> (string \<times> string) list" where
  "select fs ks = map (\<lambda>k. (k, field fs k)) ks"

definition fields_v2 :: "string list" where
  "fields_v2 = [''rollback_version'', ''target'', ''rollback_action'', ''rollback_ref'', ''verify_action'', ''verify_module'']"

definition fields_v3 :: "string list" where
  "fields_v3 = fields_v2 @ [''reconcile_action'', ''reconcile_agent'', ''reconcile_profile'']"

definition fields_v4 :: "string list" where
  "fields_v4 = [''rollback_version'', ''target'', ''rollback_action'', ''rollback_ref'', ''reconcile_action'', ''verify_action'']"

definition test_modules :: "string list" where "test_modules = [''pytest'', ''unittest'']"

definition bridge_comments :: "string list" where
  "bridge_comments = [''# reconcile_action: setup_agent_from_reverted_source'', ''# reconcile_agent: codex'',
     ''# reconcile_profile: team-standard'', ''# post_verify_action: doctor_and_python_module'']"

definition legacy_prefix :: string where "legacy_prefix = ''git revert --no-edit ''"

definition contract_v1 :: "bool \<Rightarrow> (string \<times> string) list \<Rightarrow> (string \<times> string) list option" where
  "contract_v1 allow_legacy_v1 fs =
     (let command = field fs ''command''; ref = drop (length legacy_prefix) command in
      if \<not> allow_legacy_v1 \<or> \<not> has_fields fs [''rollback_version'', ''target'', ''command'', ''verify''] then None
      else if \<not> (starts_with legacy_prefix command \<and> is_commit_id ref) \<or> field fs ''verify'' \<noteq> ''python -m pytest'' then None
      else Some [(''version'', ''1.0''), (''rollback_ref'', ref)])"

definition contract_v2 :: "bool \<Rightarrow> string list \<Rightarrow> (string \<times> string) list \<Rightarrow> (string \<times> string) list option" where
  "contract_v2 allow_bridge lines fs =
     (if \<not> has_fields fs fields_v2 \<or> \<not> allow_bridge then None
      else if list_ex (\<lambda>comment. count_list lines comment \<noteq> 1) bridge_comments then None
      else if field fs ''rollback_action'' \<noteq> ''git_revert'' \<or> \<not> is_commit_id (field fs ''rollback_ref'')
         \<or> field fs ''verify_action'' \<noteq> ''python_module'' \<or> field fs ''verify_module'' \<notin> set test_modules then None
      else Some [(''version'', ''2.0''), (''rollback_ref'', field fs ''rollback_ref''),
         (''reconcile_action'', ''setup_agent_from_reverted_source''), (''reconcile_agent'', ''codex''),
         (''reconcile_profile'', ''team-standard''), (''verify_action'', ''doctor_and_python_module''),
         (''verify_module'', field fs ''verify_module'')])"

definition contract_v3 :: "(string \<times> string) list \<Rightarrow> (string \<times> string) list option" where
  "contract_v3 fs =
     (if \<not> has_fields fs fields_v3 then None
      else if field fs ''rollback_action'' \<noteq> ''git_revert'' \<or> \<not> is_commit_id (field fs ''rollback_ref'')
         \<or> field fs ''reconcile_action'' \<noteq> ''setup_agent_from_reverted_source''
         \<or> field fs ''reconcile_agent'' \<notin> set [''codex'', ''hermes'']
         \<or> field fs ''reconcile_profile'' \<notin> set [''solo-fast'', ''team-standard'', ''regulated'']
         \<or> field fs ''verify_action'' \<noteq> ''doctor_and_python_module'' \<or> field fs ''verify_module'' \<notin> set test_modules then None
      else Some (select fs fields_v3))"

definition contract_v4 :: "(string \<times> string) list \<Rightarrow> (string \<times> string) list option" where
  "contract_v4 fs =
     (if field fs ''rollback_version'' \<noteq> ''4.0'' \<or> \<not> has_fields fs fields_v4 then None
      else if field fs ''rollback_action'' \<noteq> ''git_revert'' \<or> \<not> is_commit_id (field fs ''rollback_ref'')
         \<or> field fs ''reconcile_action'' \<noteq> ''assert_self_governance_deactivated''
         \<or> field fs ''verify_action'' \<noteq> ''self_governance_deactivated'' then None
      else Some ((''version'', ''4.0'') # select fs (tl fields_v4)))"

definition rollback_contract :: "bool \<Rightarrow> bool \<Rightarrow> string \<Rightarrow> (string \<times> string) list option" where
  "rollback_contract allow_legacy_v1 allow_bridge text =
     (case rollback_fields [] (splitlines text) of
        None \<Rightarrow> None
      | Some fs \<Rightarrow>
          (if bad_target (field fs ''target'') then None
           else if field fs ''rollback_version'' = ''1.0'' then contract_v1 allow_legacy_v1 fs
           else if field fs ''rollback_version'' = ''2.0'' then contract_v2 allow_bridge (splitlines text) fs
           else if field fs ''rollback_version'' = ''3.0'' then contract_v3 fs
           else contract_v4 fs))"


section \<open>The rollback proofs\<close>

definition rollback_ref_is_in_candidate_range :: "merge_world \<Rightarrow> string \<Rightarrow> string \<Rightarrow> string \<Rightarrow> bool result" where
  "rollback_ref_is_in_candidate_range w ref base_sha reviewed =
     attempt (git w [''rev-parse'', ''--verify'', commit_of ref]) (\<lambda>resolved.
       if resolved \<noteq> ref \<or> ref = base_sha then Inr False
       else rbind (is_ancestor w base_sha ref) (\<lambda>ok. if \<not> ok then Inr False else is_ancestor w ref reviewed))"

text \<open>\<open>[0-9a-f]{40,64}\n?\<close>.\<close>

definition is_tree_output :: "string \<Rightarrow> bool" where
  "is_tree_output out \<longleftrightarrow>
     (let tree = (if ends_with [CHR 0x0A] out then butlast out else out) in
      40 \<le> length tree \<and> length tree \<le> 64 \<and> list_all is_hex_lower tree)"

definition reverts_to_base :: "merge_world \<Rightarrow> string \<Rightarrow> string \<Rightarrow> string \<Rightarrow> string \<Rightarrow> bool" where
  "reverts_to_base w ref parent base_sha reviewed =
     (case m_isolated w [''init'', ''--bare'', ''--quiet'', ''--template=''] of
        None \<Rightarrow> False
      | Some (code, out) \<Rightarrow>
          (if code \<noteq> 0 then False
           else (case m_isolated w [''merge-tree'', ''--write-tree'', ''--no-messages'', ''--merge-base'', ref, reviewed, parent] of
                   None \<Rightarrow> False
                 | Some (code, out) \<Rightarrow>
                     (if code \<noteq> 0 \<or> \<not> is_tree_output out then False
                      else (case m_isolated w ([''diff'', ''--quiet'', base_sha, strip out, ''--'', ''.''] @ rollback_audit_excludes) of
                              None \<Rightarrow> False | Some (code, out) \<Rightarrow> code = 0)))))"

definition rollback_ref_is_cleanly_revertible :: "merge_world \<Rightarrow> string \<Rightarrow> string \<Rightarrow> string \<Rightarrow> bool result" where
  "rollback_ref_is_cleanly_revertible w ref base_sha reviewed =
     attempt (git w [''rev-list'', ''--parents'', ''-n'', ''1'', ref]) (\<lambda>out.
     let parents = words out in
     if length parents \<noteq> 2 \<or> parents ! 0 \<noteq> ref then Inr False
     else attempt (changed_paths w (parents ! 1) ref) (\<lambda>paths.
       if list_ex (is_audit_path True) paths then Inr False
       else rbind (every_descendant_commit_is_audit_only w ref reviewed True) (\<lambda>ok.
         if \<not> ok then Inr False
         else (case git w [''rev-parse'', ''--git-path'', ''objects''] of
                 Inl e \<Rightarrow> (if is_ValueError e \<or> is_OSError e then Inr False else Inl e)
               | Inr objects \<Rightarrow>
                   Inr (m_objects_dir w objects \<and> reverts_to_base w ref (parents ! 1) base_sha reviewed)))))"

text \<open>The drill: clone, check out, revert, and the checks of the reverted tree.\<close>

fun drill_passes :: "merge_world \<Rightarrow> string list list \<Rightarrow> bool" where
  "drill_passes w [] = True"
| "drill_passes w (command # commands) =
     (case m_drill w command of None \<Rightarrow> False | Some code \<Rightarrow> code = 0 \<and> drill_passes w commands)"

definition drill_checkout :: "string \<Rightarrow> string \<Rightarrow> string list list" where
  "drill_checkout reviewed ref =
     [[''git'', ''clone'', ''--no-local'', ''--no-checkout'', ''--quiet'', ''--template=''],
      [''git'', ''checkout'', ''--detach'', ''--quiet'', reviewed],
      [''git'', ''revert'', ''--no-commit'', ref]]"

definition drill_checks :: "string \<Rightarrow> string \<Rightarrow> string \<Rightarrow> string list list" where
  "drill_checks verify_module agent profile =
     [(if verify_module = ''pytest'' then [''python'', ''-m'', ''pytest'']
       else [''python'', ''-m'', ''unittest'', ''discover'', ''-s'', ''tests'', ''-v'']),
      [''python'', ''-m'', ''sddgov.cli'', ''setup-agent'', ''--agent'', agent, ''--profile'', profile, ''--force''],
      [''python'', ''-m'', ''sddgov.cli'', ''doctor'']]"

definition rollback_postcondition_is_green :: "merge_world \<Rightarrow> (string \<times> string) list \<Rightarrow> string \<Rightarrow> bool" where
  "rollback_postcondition_is_green w rollback reviewed =
     (let checkout = drill_checkout reviewed (field rollback ''rollback_ref'') in
      if map_of rollback ''version'' = Some ''4.0''
      then map_of rollback ''reconcile_action'' = Some ''assert_self_governance_deactivated''
        \<and> map_of rollback ''verify_action'' = Some ''self_governance_deactivated''
        \<and> map_of rollback ''rollback_ref'' \<noteq> None \<and> drill_passes w checkout
        \<and> \<not> m_installed_before w \<and> \<not> m_installed_after w
      else map_of rollback ''reconcile_action'' = Some ''setup_agent_from_reverted_source''
        \<and> map_of rollback ''verify_action'' = Some ''doctor_and_python_module''
        \<and> (\<exists>agent\<in>set [''codex'', ''hermes'']. map_of rollback ''reconcile_agent'' = Some agent)
        \<and> (\<exists>profile\<in>set [''solo-fast'', ''team-standard'', ''regulated'']. map_of rollback ''reconcile_profile'' = Some profile)
        \<and> (\<exists>m\<in>set test_modules. map_of rollback ''verify_module'' = Some m)
        \<and> map_of rollback ''rollback_ref'' \<noteq> None
        \<and> drill_passes w (checkout @ drill_checks (field rollback ''verify_module'') (field rollback ''reconcile_agent'')
              (field rollback ''reconcile_profile'')))"

end
