(* ===== verification/Merge_Gate.thy ===== *)
theory Merge_Gate
  imports Merge_Git
begin

text \<open>
  The merge gate, second part (\<open>src/src/sddgov/merge_gate.py\<close>): the signed review of protected
  files, the trust store it is checked against, and \<open>verify_merge\<close>. The strict verification of
  an evidence package (\<open>evidence.verify\<close>) and the local gate (\<open>ci_guard.run_local_gate\<close>) are
  components of their own; here they are fields of the \<open>merge_world\<close>.
\<close>


section \<open>Documents\<close>

definition load_json :: "merge_world \<Rightarrow> string \<Rightarrow> string \<Rightarrow> obj result" where
  "load_json w path label =
     rbind (case m_text w path of
              Inl e \<Rightarrow> Inl (if is_OSError e then ValueError (''invalid '' @ label @ '': '' @ exn_text e) else e)
            | Inr text \<Rightarrow>
                (case loads dict_of_pairs text of
                   Inl e \<Rightarrow> Inl (ValueError (''invalid '' @ label @ '': '' @ exn_text e))
                 | Inr v \<Rightarrow> Inr v)) (\<lambda>v.
     require (is_dict v) (ValueError (label @ '' must contain a JSON object'')) (Inr (dict_val v)))"

text \<open>Every prefix of a path, the path itself last.\<close>

definition path_prefixes :: "string list \<Rightarrow> string list" where
  "path_prefixes parts = map (\<lambda>n. join ''/'' (take (Suc n) parts)) [0..<length parts]"

definition bounded_repository_path :: "merge_world \<Rightarrow> json \<Rightarrow> string \<Rightarrow> string result" where
  "bounded_repository_path w relative label =
     require (is_str relative \<and> str_val relative \<noteq> [] \<and> CHR 0x5C \<notin> set (str_val relative)) (ValueError (label @ '' path is invalid''))
     (let p = str_val relative; parts = path_parts p in
      require (\<not> is_absolute p \<and> join ''/'' parts = p \<and> ''..'' \<notin> set parts)
        (ValueError (label @ '' path escapes or is not normalized''))
      (require (\<not> list_ex (m_links w) (path_prefixes parts)) (ValueError (label @ '' path contains a symlink''))
      (of_option (ValueError (label @ '' path escapes the repository'')) (m_resolve w p))))"

definition metadata_fields :: "string list" where
  "metadata_fields = [''schema_version'', ''base_sha'', ''head_sha'', ''risk_level'', ''builder_id'', ''change_digest'',
     ''deps'', ''rollback_path'']"

definition gate_metadata_digest :: "obj \<Rightarrow> string result" where
  "gate_metadata_digest gate =
     (let missing = filter (\<lambda>k. \<not> has_key gate k) metadata_fields in
      require (missing = []) (ValueError (''merge gate metadata is missing: '' @ join '', '' missing))
        (Inr (sha256_hex (canonical_bytes (JObj (map (\<lambda>k. (k, get gate k)) metadata_fields))))))"

definition compute_gate_metadata_digest :: "merge_world \<Rightarrow> string \<Rightarrow> obj result" where
  "compute_gate_metadata_digest w gate_path =
     rbind (load_json w gate_path gate_path) (\<lambda>gate.
     rbind (gate_metadata_digest gate) (\<lambda>digest. Inr [(''gate_metadata_digest'', JStr digest)]))"


section \<open>The review receipt\<close>

definition review_time :: "json \<Rightarrow> string \<Rightarrow> int result" where
  "review_time v field_name =
     require (is_str v) (ValueError (''review receipt '' @ field_name @ '' must be an RFC3339 timestamp''))
     (case parse_stamp (str_val v) of
        None \<Rightarrow> Inl (ValueError (''review receipt '' @ field_name @ '' must be an RFC3339 timestamp''))
      | Some d \<Rightarrow>
          require (is_aware d) (ValueError (''review receipt '' @ field_name @ '' must include a timezone''))
          (require (0 \<le> instant d \<and> instant d < max_us) (OverflowError ''date value out of range'') (Inr (instant d))))"

definition review_fields :: "string list" where
  "review_fields = [''review_id'', ''reviewer_id'', ''builder_id'', ''change_digest'', ''gate_metadata_digest'', ''verdict'',
     ''issued_at'', ''expires_at'', ''nonce'']"

definition reviewer_shape :: "json \<Rightarrow> bool" where
  "reviewer_shape r \<longleftrightarrow> is_dict r \<and> keys_eq (dict_val r) [''reviewer_id'', ''algorithm'', ''public_key'', ''status'']
     \<and> nonblank (get (dict_val r) ''reviewer_id'') \<and> get (dict_val r) ''algorithm'' = JStr ''ed25519''"

definition reviewer_of :: "json \<Rightarrow> string" where
  "reviewer_of r = str_val (get (dict_val r) ''reviewer_id'')"

text \<open>A status that cannot be hashed raises \<open>TypeError\<close> in the membership test.\<close>

fun check_reviewers :: "string list \<Rightarrow> json list \<Rightarrow> unit result" where
  "check_reviewers seen [] = Inr ()"
| "check_reviewers seen (r # rs) =
     require (reviewer_shape r \<longrightarrow> hashable (get (dict_val r) ''status'')) (TypeError ''unhashable type'')
     (require (reviewer_shape r \<and> str_in (get (dict_val r) ''status'') [''active'', ''revoked''] \<and> is_str (get (dict_val r) ''public_key''))
       (ValueError ''trusted reviewer record has an invalid contract'')
     (require (reviewer_of r \<notin> set seen) (ValueError ''trusted reviewer store contains duplicate reviewer_id'')
     (check_reviewers (reviewer_of r # seen) rs)))"

definition reviewer_store_ok :: "obj \<Rightarrow> bool" where
  "reviewer_store_ok trust \<longleftrightarrow> keys_eq trust [''schema_version'', ''reviewers''] \<and> get trust ''schema_version'' = JStr ''1.0''
     \<and> is_list (get trust ''reviewers'')"

definition active_reviewer :: "string \<Rightarrow> json \<Rightarrow> bool" where
  "active_reviewer name r \<longleftrightarrow> is_dict r \<and> get (dict_val r) ''reviewer_id'' = JStr name \<and> get (dict_val r) ''status'' = JStr ''active''"

definition review_signed :: "merge_world \<Rightarrow> json \<Rightarrow> string \<Rightarrow> obj \<Rightarrow> bool" where
  "review_signed w reviewer signature review =
     (case (b64decode (str_val (get (dict_val reviewer) ''public_key'')), b64decode signature) of
        (Some k, Some s) \<Rightarrow> m_ed25519 w k s (canonical_bytes (JObj review)) | _ \<Rightarrow> False)"

definition check_review_payload :: "obj \<Rightarrow> string \<Rightarrow> string \<Rightarrow> string \<Rightarrow> unit result" where
  "check_review_payload review builder_id digest metadata_digest =
     require (keys_eq review review_fields \<and> list_all (\<lambda>k. nonblank (get review k)) review_fields)
       (ValueError ''protected-file review payload has an invalid contract'')
     (require (get review ''builder_id'' = JStr builder_id \<and> get review ''reviewer_id'' \<noteq> JStr builder_id)
       (ValueError ''protected-file review is not independent of the Builder'')
     (require (get review ''change_digest'' = JStr digest \<and> get review ''gate_metadata_digest'' = JStr metadata_digest
         \<and> get review ''verdict'' = JStr ''approved'')
       (ValueError ''protected-file review does not approve the exact executable change'') (Inr ())))"

definition check_review_window :: "int \<Rightarrow> obj \<Rightarrow> unit result" where
  "check_review_window now review =
     rbind (review_time (get review ''issued_at'') ''issued_at'') (\<lambda>issued.
     rbind (review_time (get review ''expires_at'') ''expires_at'') (\<lambda>expires.
     require (issued \<le> now + 5 * us_minute \<and> now < expires \<and> issued < expires)
       (ValueError ''protected-file review receipt is not currently valid'')
     (require (expires - issued \<le> 24 * us_hour) (ValueError ''protected-file review validity exceeds 24 hours'') (Inr ()))))"

definition verify_review_receipt :: "merge_world \<Rightarrow> json \<Rightarrow> string \<Rightarrow> string \<Rightarrow> string \<Rightarrow> obj \<Rightarrow> obj result" where
  "verify_review_receipt w relative builder_id digest metadata_digest trust =
     rbind (bounded_repository_path w relative ''review receipt'') (\<lambda>path.
     require (take 2 (path_parts path) = [''.sddgov'', ''reviews'']) (ValueError ''review receipt must stay under .sddgov/reviews'')
     (rbind (load_json w path ''protected-file review receipt'') (\<lambda>envelope.
      require (keys_eq envelope [''schema_version'', ''algorithm'', ''review'', ''signature''] \<and> get envelope ''schema_version'' = JStr ''1.0''
          \<and> get envelope ''algorithm'' = JStr ''ed25519'' \<and> is_dict (get envelope ''review'') \<and> is_str (get envelope ''signature''))
        (ValueError ''protected-file review receipt has an invalid contract'')
      (let review = dict_val (get envelope ''review'') in
       rbind (check_review_payload review builder_id digest metadata_digest) (\<lambda>_.
       rbind (check_review_window (m_now w) review) (\<lambda>_.
       require (reviewer_store_ok trust) (ValueError ''trusted reviewer store has an invalid contract'')
       (let reviewers = list_val (get trust ''reviewers'') in
        rbind (check_reviewers [] reviewers) (\<lambda>_.
        (let matches = filter (active_reviewer (str_val (get review ''reviewer_id''))) reviewers in
         require (length matches = 1) (ValueError ''review signer is not a unique active trusted reviewer'')
         (require (review_signed w (hd matches) (str_val (get envelope ''signature'')) review)
           (ValueError ''protected-file review signature verification failed'')
         (Inr review))))))))))) "


section \<open>Protected files and the trust anchor at the base\<close>

definition first_consumer_markers :: "string list" where
  "first_consumer_markers = [''policies/protected-files.yaml'', ''.agentic-sdd-governance/policies/protected-files.yaml'',
     ''.agentic-sdd-governance/manifest.json'', ''.sddgov/project.json'', ''.sddgov/trusted-reviewers.json'',
     ''.github/workflows/governance.yml'']"

definition at_base :: "string \<Rightarrow> string \<Rightarrow> string" where
  "at_base base_ref relative = base_ref @ '':'' @ relative"

definition base_has_path :: "merge_world \<Rightarrow> string \<Rightarrow> string \<Rightarrow> bool result" where
  "base_has_path w base_ref relative =
     rbind (git_status w [''cat-file'', ''-e'', at_base base_ref relative]) (\<lambda>code. Inr (code = 0))"

definition first_consumer_base :: "merge_world \<Rightarrow> string \<Rightarrow> bool result" where
  "first_consumer_base w base_ref =
     rbind (anyr (base_has_path w base_ref) first_consumer_markers) (\<lambda>found. Inr (\<not> found))"

fun pattern_lines :: "bool \<Rightarrow> string list \<Rightarrow> string list" where
  "pattern_lines inside [] = []"
| "pattern_lines inside (raw # lines) =
     (if strip raw = ''protected:'' then pattern_lines True lines
      else if inside \<and> starts_with ''  - '' raw then strip (drop 4 raw) # pattern_lines inside lines
      else if inside \<and> raw \<noteq> [] \<and> \<not> starts_with '' '' raw then []
      else pattern_lines inside lines)"

definition parse_protected_patterns :: "string \<Rightarrow> string list result" where
  "parse_protected_patterns text =
     (let patterns = pattern_lines False (splitlines text) in
      require (patterns \<noteq> []) (ValueError ''protected-file policy contains no paths'') (Inr patterns))"

definition policy_paths :: "string list" where
  "policy_paths = [''policies/protected-files.yaml'', ''.agentic-sdd-governance/policies/protected-files.yaml'']"

text \<open>The first policy file of the base; a call that fails with \<open>ValueError\<close> moves on to the next.\<close>

fun policy_at_base :: "merge_world \<Rightarrow> string \<Rightarrow> string list \<Rightarrow> string option result" where
  "policy_at_base w base_ref [] = Inr None"
| "policy_at_base w base_ref (relative # rest) =
     (case git w [''show'', at_base base_ref relative] of
        Inl e \<Rightarrow> (if is_ValueError e then policy_at_base w base_ref rest else Inl e)
      | Inr text \<Rightarrow> Inr (Some text))"

definition protected_patterns :: "merge_world \<Rightarrow> string \<Rightarrow> string list result" where
  "protected_patterns w base_ref =
     rbind (policy_at_base w base_ref policy_paths) (\<lambda>found.
     case found of
       Some text \<Rightarrow> parse_protected_patterns text
     | None \<Rightarrow>
         rbind (first_consumer_base w base_ref) (\<lambda>first.
         require first (ValueError ''protected-file policy is required at the trusted base'')
         (rbind (m_policy w) parse_protected_patterns)))"

definition external_trusted_reviewers :: "merge_world \<Rightarrow> bool \<Rightarrow> obj result" where
  "external_trusted_reviewers w require_separate_identity =
     (case m_external w of
        None \<Rightarrow> Inl (ValueError ''trusted reviewer bootstrap requires SDDGOV_TRUSTED_REVIEWERS_FILE'')
      | Some (inside, calls) \<Rightarrow>
          require (\<not> inside) (ValueError ''out-of-band trusted reviewer store must be outside the repository'')
          (if require_separate_identity
           then load_control_plane_json (m_posix w) (m_euid w) calls ''first-consumer trusted reviewer store''
           else load_owner_controlled_json (\<not> m_posix w) (m_euid w) calls ''out-of-band trusted reviewer store''))"

definition trusted_reviewers :: "merge_world \<Rightarrow> string \<Rightarrow> obj result" where
  "trusted_reviewers w base_ref =
     (case git w [''show'', at_base base_ref ''.sddgov/trusted-reviewers.json''] of
        Inl e \<Rightarrow>
          (if is_ValueError e
           then rbind (first_consumer_base w base_ref) (\<lambda>first.
                if first then external_trusted_reviewers w True
                else Inl (ValueError ''trusted reviewer store is required at the trusted base''))
           else Inl e)
      | Inr text \<Rightarrow>
          rbind (case loads dict_of_pairs text of
                   Inl e \<Rightarrow> Inl (ValueError ''trusted reviewer store at trusted base is invalid'') | Inr v \<Rightarrow> Inr v) (\<lambda>v.
          require (is_dict v \<and> reviewer_store_ok (dict_val v))
            (ValueError ''trusted reviewer store at trusted base has an invalid contract'')
          (if list_val (get (dict_val v) ''reviewers'') \<noteq> [] then Inr (dict_val v)
           else external_trusted_reviewers w False)))"

definition is_protected :: "string \<Rightarrow> string list \<Rightarrow> bool" where
  "is_protected path patterns \<longleftrightarrow>
     list_ex (\<lambda>pattern. if ends_with ''/'' pattern then starts_with pattern path else path = pattern) patterns"


section \<open>\<open>verify_merge\<close>\<close>

definition gate_fields :: "string list" where
  "gate_fields = [''schema_version'', ''base_sha'', ''head_sha'', ''risk_level'', ''builder_id'', ''change_digest'', ''deps'',
     ''rollback_path'', ''protected_file_review'']"

definition legacy_v1_base :: string where "legacy_v1_base = ''f44cb5f4897f6c821f817fcf178581b43777163a''"

definition legacy_v1_path :: string where
  "legacy_v1_path = ''evidence/DEP-SDG-SECURITY-HARDENING-EXP8-001/rollback.md''"

definition bridge_v2_base :: string where "bridge_v2_base = ''ce08f48c5d7c4232e9c0154dabb3b43c63b920c1''"

definition bridge_v2_path :: string where
  "bridge_v2_path = ''evidence/DEP-RELEASE-READINESS-HARDENING-010/rollback.md''"

text \<open>The gate document against the repository: contract, base, reviewed head, digest.\<close>

definition check_gate :: "merge_world \<Rightarrow> string \<Rightarrow> string \<Rightarrow> string \<Rightarrow> obj \<Rightarrow> string result" where
  "check_gate w base_ref base_sha head_sha gate =
     require (keys_eq gate gate_fields \<and> get gate ''schema_version'' = JStr ''1.0'') (ValueError ''merge gate has an invalid contract'')
     (rbind (in_strings (get gate ''risk_level'') [''L0'', ''L1'', ''L2'', ''L3'']) (\<lambda>known.
      require known (ValueError ''merge gate risk_level is invalid'')
      (require (get gate ''base_sha'' = JStr base_sha) (ValueError ''merge gate base_sha does not match the trusted exact base'')
      (require (nonblank (get gate ''head_sha'')) (ValueError ''merge gate head_sha is required'')
      (rbind (only_audit_changes_after_review w (str_val (get gate ''head_sha'')) head_sha) (\<lambda>ok.
       require ok (ValueError ''merge gate head_sha is not the exact reviewed Head or has non-audit descendants'')
       (require (nonblank (get gate ''builder_id'')) (ValueError ''merge gate builder_id is required'')
       (rbind (change_digest w base_ref) (\<lambda>digest.
        require (get gate ''change_digest'' = JStr digest) (ValueError ''merge gate change_digest does not match the exact executable change'')
        (Inr digest))))))))))"

definition dep_ok :: "json \<Rightarrow> bool" where
  "dep_ok d \<longleftrightarrow> is_str d \<and> str_val d \<noteq> []"

definition dep_errors :: "merge_world \<Rightarrow> json \<Rightarrow> string list result" where
  "dep_errors w relative =
     rbind (bounded_repository_path w relative ''merge DEP'') (\<lambda>dep.
     rbind (m_verify_dep w dep) (\<lambda>errors. Inr (map (\<lambda>e. str_val relative @ '': '' @ e) errors)))"

definition check_deps :: "merge_world \<Rightarrow> obj \<Rightarrow> unit result" where
  "check_deps w gate =
     (let deps = get gate ''deps'' in
      require (is_list deps \<and> list_all dep_ok (list_val deps)) (ValueError ''merge gate deps must be a string array'')
      (require (get gate ''risk_level'' = JStr ''L0'' \<or> list_val deps \<noteq> []) (ValueError ''L1-L3 Merge requires at least one strict DEP'')
      (rbind (mapr (dep_errors w) (list_val deps)) (\<lambda>errors.
       require (concat errors = []) (ValueError (''strict DEP verification failed: '' @ join ''; '' (concat errors))) (Inr ())))))"

definition incomplete_rollback :: exn where
  "incomplete_rollback = ValueError ''rollback record is missing or incomplete''"

definition check_rollback :: "merge_world \<Rightarrow> string \<Rightarrow> bool \<Rightarrow> obj \<Rightarrow> unit result" where
  "check_rollback w base_sha run_checks gate =
     (let relative = get gate ''rollback_path''; reviewed = str_val (get gate ''head_sha'') in
      rbind (bounded_repository_path w relative ''rollback'') (\<lambda>_.
      rbind (rescue is_ValueError incomplete_rollback (git w [''show'', at_base reviewed (str_val relative)])) (\<lambda>text.
      (case rollback_contract (base_sha = legacy_v1_base \<and> str_val relative = legacy_v1_path)
              (base_sha = bridge_v2_base \<and> str_val relative = bridge_v2_path) text of
         None \<Rightarrow> Inl incomplete_rollback
       | Some rollback \<Rightarrow>
           rbind (rollback_ref_is_in_candidate_range w (field rollback ''rollback_ref'') base_sha reviewed) (\<lambda>in_range.
           require in_range incomplete_rollback
           (rbind (rollback_ref_is_cleanly_revertible w (field rollback ''rollback_ref'') base_sha reviewed) (\<lambda>clean.
            require clean incomplete_rollback
            (require (run_checks \<longrightarrow> rollback_postcondition_is_green w rollback reviewed)
              (ValueError ''rollback post-condition did not return to Green'') (Inr ())))))))))"

definition raw_paths_of :: "merge_world \<Rightarrow> string \<Rightarrow> string list result" where
  "raw_paths_of w commit =
     rbind (git w [''ls-tree'', ''-r'', ''--name-only'', commit]) (\<lambda>out.
     Inr (filter (\<lambda>path. contains_text ''/private/raw/'' (CHR ''/'' # path)) (splitlines out)))"

definition check_raw :: "merge_world \<Rightarrow> string \<Rightarrow> unit result" where
  "check_raw w base_ref =
     rbind (git w [''rev-list'', base_ref @ ''..HEAD'']) (\<lambda>out.
     rbind (mapr (raw_paths_of w) (splitlines out)) (\<lambda>raw.
     require (concat raw = []) (ValueError (''raw evidence is tracked by Git: '' @ join '', '' (sort (remdups (concat raw))))) (Inr ())))"

text \<open>The protected files of the change, and the reviewer who signed for them.\<close>

definition check_review :: "merge_world \<Rightarrow> string \<Rightarrow> string \<Rightarrow> obj \<Rightarrow> (string list \<times> json) result" where
  "check_review w base_ref digest gate =
     rbind (changed_paths w base_ref ''HEAD'') (\<lambda>changed.
     rbind (filterr (\<lambda>path. rbind (protected_patterns w base_ref) (\<lambda>ps. Inr (is_protected path ps))) changed) (\<lambda>protected.
     (let review = get gate ''protected_file_review'' in
      if protected \<noteq> []
      then require (is_str review \<and> str_val review \<noteq> [])
             (ValueError ''protected-file changes require a signed independent review receipt'')
           (rbind (gate_metadata_digest gate) (\<lambda>metadata_digest.
            rbind (trusted_reviewers w base_ref) (\<lambda>trust.
            rbind (verify_review_receipt w review (str_val (get gate ''builder_id'')) digest metadata_digest trust) (\<lambda>verified.
            Inr (protected, get verified ''reviewer_id'')))))
      else require (review = JNull) (ValueError ''protected_file_review must be null when no protected file changed'')
             (Inr (protected, JNull)))))"

definition verify_merge :: "merge_world \<Rightarrow> string \<Rightarrow> string \<Rightarrow> bool \<Rightarrow> obj result" where
  "verify_merge w base_ref gate_path run_checks =
     rbind (git w [''status'', ''--porcelain'']) (\<lambda>dirty.
     require (dirty = []) (ValueError ''merge verification requires a clean exact-HEAD worktree'')
     (rbind (git w [''rev-parse'', ''HEAD'']) (\<lambda>head_sha.
      rbind (git w [''rev-parse'', ''--verify'', commit_of base_ref]) (\<lambda>base_sha.
      rbind (load_json w gate_path gate_path) (\<lambda>gate.
      rbind (check_gate w base_ref base_sha head_sha gate) (\<lambda>digest.
      rbind (check_deps w gate) (\<lambda>_.
      rbind (check_rollback w base_sha run_checks gate) (\<lambda>_.
      rbind (check_raw w base_ref) (\<lambda>_.
      rbind (check_review w base_ref digest gate) (\<lambda>(protected, reviewer).
      rbind (if run_checks then m_local_gate w else Inr [(''ok'', JBool True), (''commands'', JArr [])]) (\<lambda>local_green.
      require (truthy (get local_green ''ok'')) (ValueError ''Local Green Gate did not pass'')
      (Inr [(''ok'', JBool True), (''state'', JStr ''MERGE_READY''), (''head_sha'', JStr head_sha), (''base_ref'', JStr base_ref),
            (''base_sha'', JStr base_sha), (''reviewed_head_sha'', get gate ''head_sha''), (''change_digest'', JStr digest),
            (''risk_level'', get gate ''risk_level''), (''deps_verified'', get gate ''deps''),
            (''protected_files_changed'', JArr (map JStr protected)), (''protected_file_reviewer'', reviewer),
            (''local_green'', JObj local_green)]))))))))))))"

end
