(* ===== verification/Merge_Facts.thy ===== *)
theory Merge_Facts
  imports Merge_Gate
begin

text \<open>
  What a \<open>MERGE_READY\<close> answer of the merge gate means (src/src/sddgov/merge_gate.py): the
  reviewed commit and its audit-only descendants, the evidence and rollback proofs, and the
  independent signed review of every protected file; and that the readers of \<open>git\<close> output and
  of the rollback record are exact.
\<close>


section \<open>Descendants that change audit files only\<close>

lemma attempt_True: "attempt m k = Inr True \<longleftrightarrow> (\<exists>a. m = Inr a \<and> k a = Inr True)"
  by (cases m) (auto simp: attempt_def)

definition edge_audit_only :: "merge_world \<Rightarrow> bool \<Rightarrow> string \<Rightarrow> string \<Rightarrow> bool" where
  "edge_audit_only w ev commit parent \<longleftrightarrow>
     (\<exists>paths. commit_edge_paths w parent commit = Inr paths \<and> (\<forall>p\<in>set paths. is_audit_path ev p))"

definition commit_audit_only :: "merge_world \<Rightarrow> bool \<Rightarrow> string \<Rightarrow> bool" where
  "commit_audit_only w ev commit \<longleftrightarrow>
     (\<exists>out parents. git w [''rev-list'', ''--parents'', ''-n'', ''1'', commit] = Inr out \<and> words out = commit # parents
        \<and> parents \<noteq> [] \<and> (\<forall>parent\<in>set parents. edge_audit_only w ev commit parent))"

definition audit_only_since :: "merge_world \<Rightarrow> bool \<Rightarrow> string \<Rightarrow> string \<Rightarrow> bool" where
  "audit_only_since w ev reviewed current \<longleftrightarrow>
     is_ancestor w reviewed current = Inr True
     \<and> (\<exists>out. git w [''rev-list'', ''--reverse'', ''--topo-order'', reviewed @ ''..'' @ current] = Inr out
          \<and> (\<forall>commit\<in>set (splitlines out). commit_audit_only w ev commit))"

lemma edges_audit_only_iff: "edges_audit_only w ev c ps = Inr True \<longleftrightarrow> (\<forall>p\<in>set ps. edge_audit_only w ev c p)"
  by (induction ps) (auto simp: attempt_True edge_audit_only_def list_all_iff)

lemma guarded_True:
  "(if b then Inr False else rbind m (\<lambda>ok. if ok then k else Inr False)) = Inr True \<longleftrightarrow> \<not> b \<and> m = Inr True \<and> k = Inr True"
  by (cases m) auto

lemma row_shape: "\<not> (row = [] \<or> hd row \<noteq> c \<or> length row < 2) \<longleftrightarrow> row = c # tl row \<and> tl row \<noteq> []"
  by (cases row) (auto simp: not_less Suc_le_eq)

lemma commit_audit_only_tl:
  "commit_audit_only w ev c \<longleftrightarrow> (\<exists>out. git w [''rev-list'', ''--parents'', ''-n'', ''1'', c] = Inr out
     \<and> (words out = c # tl (words out) \<and> tl (words out) \<noteq> []) \<and> (\<forall>parent\<in>set (tl (words out)). edge_audit_only w ev c parent))"
  unfolding commit_audit_only_def by (intro iff_exI) (metis list.sel(3))

lemma commits_audit_only_iff: "commits_audit_only w ev cs = Inr True \<longleftrightarrow> (\<forall>c\<in>set cs. commit_audit_only w ev c)"
proof (induction cs)
  case (Cons c cs)
  have "commits_audit_only w ev (c # cs) = Inr True \<longleftrightarrow> commit_audit_only w ev c \<and> commits_audit_only w ev cs = Inr True"
    unfolding commits_audit_only.simps attempt_True Let_def guarded_True row_shape edges_audit_only_iff commit_audit_only_tl
    by iprover
  then show ?case using Cons.IH by simp
qed simp

lemma every_descendant_iff: "every_descendant_commit_is_audit_only w a b ev = Inr True \<longleftrightarrow> audit_only_since w ev a b"
proof -
  have "rbind m (\<lambda>ok. if \<not> ok then Inr False else k) = Inr True \<longleftrightarrow> m = Inr True \<and> k = Inr True" for m :: "bool result" and k
    by (cases m) auto
  then show ?thesis
    by (simp only: every_descendant_commit_is_audit_only_def audit_only_since_def attempt_True commits_audit_only_iff)
qed

section \<open>The checks of \<open>verify_merge\<close>, one by one\<close>

definition dep_verified :: "merge_world \<Rightarrow> json \<Rightarrow> bool" where
  "dep_verified w d \<longleftrightarrow> (\<exists>path. bounded_repository_path w d ''merge DEP'' = Inr path \<and> m_verify_dep w path = Inr [])"

lemma dep_errors_Nil: "dep_errors w d = Inr [] \<longleftrightarrow> dep_verified w d"
  by (auto simp: dep_errors_def dep_verified_def rbind_Inr_iff)

lemma mapr_concat_Nil: "(\<exists>ys. mapr f xs = Inr ys \<and> concat ys = []) \<longleftrightarrow> (\<forall>x\<in>set xs. f x = Inr [])"
proof (induction xs)
  case (Cons x xs)
  have "(\<exists>ys. mapr f (x # xs) = Inr ys \<and> concat ys = []) \<longleftrightarrow> f x = Inr [] \<and> (\<exists>ys. mapr f xs = Inr ys \<and> concat ys = [])"
    by (auto simp: rbind_Inr_iff)
  then show ?case using Cons.IH by simp
qed simp

definition deps_verified :: "merge_world \<Rightarrow> obj \<Rightarrow> bool" where
  "deps_verified w gate \<longleftrightarrow> (get gate ''risk_level'' = JStr ''L0'' \<or> list_val (get gate ''deps'') \<noteq> [])
     \<and> (\<forall>d\<in>set (list_val (get gate ''deps'')). dep_ok d \<and> dep_verified w d)"

lemma check_deps_Inr: "check_deps w gate = Inr u \<Longrightarrow> deps_verified w gate"
proof -
  assume a: "check_deps w gate = Inr u"
  obtain errors where e: "mapr (dep_errors w) (list_val (get gate ''deps'')) = Inr errors" "concat errors = []"
    and d: "list_all dep_ok (list_val (get gate ''deps''))" "get gate ''risk_level'' = JStr ''L0'' \<or> list_val (get gate ''deps'') \<noteq> []"
    using a unfolding check_deps_def Let_def by (elim resultE conjE) (rule that)
  have "\<exists>ys. mapr (dep_errors w) (list_val (get gate ''deps'')) = Inr ys \<and> concat ys = []" using e by blast
  then show ?thesis
    using d unfolding mapr_concat_Nil dep_errors_Nil by (simp add: deps_verified_def list_all_iff)
qed

definition rollback_proved :: "merge_world \<Rightarrow> string \<Rightarrow> bool \<Rightarrow> obj \<Rightarrow> bool" where
  "rollback_proved w base_sha run_checks gate \<longleftrightarrow>
     (\<exists>text rollback. let reviewed = str_val (get gate ''head_sha''); relative = str_val (get gate ''rollback_path'') in
        git w [''show'', at_base reviewed relative] = Inr text
        \<and> rollback_contract (base_sha = legacy_v1_base \<and> relative = legacy_v1_path)
             (base_sha = bridge_v2_base \<and> relative = bridge_v2_path) text = Some rollback
        \<and> rollback_ref_is_in_candidate_range w (field rollback ''rollback_ref'') base_sha reviewed = Inr True
        \<and> rollback_ref_is_cleanly_revertible w (field rollback ''rollback_ref'') base_sha reviewed = Inr True
        \<and> (run_checks \<longrightarrow> rollback_postcondition_is_green w rollback reviewed))"

lemma check_rollback_Inr: "check_rollback w base_sha run_checks gate = Inr u \<Longrightarrow> rollback_proved w base_sha run_checks gate"
  unfolding check_rollback_def rollback_proved_def Let_def
  by (elim resultE) (auto elim!: resultE split: option.splits simp: rescue_Inr_iff)

definition gate_bound :: "merge_world \<Rightarrow> string \<Rightarrow> string \<Rightarrow> string \<Rightarrow> string \<Rightarrow> obj \<Rightarrow> bool" where
  "gate_bound w base_ref base_sha head_sha digest gate \<longleftrightarrow>
     keys_eq gate gate_fields \<and> str_in (get gate ''risk_level'') [''L0'', ''L1'', ''L2'', ''L3'']
     \<and> get gate ''base_sha'' = JStr base_sha \<and> nonblank (get gate ''builder_id'')
     \<and> change_digest w base_ref = Inr digest \<and> get gate ''change_digest'' = JStr digest
     \<and> nonblank (get gate ''head_sha'') \<and> audit_only_since w False (str_val (get gate ''head_sha'')) head_sha"

lemma check_gate_Inr: "check_gate w base_ref base_sha head_sha gate = Inr digest \<Longrightarrow> gate_bound w base_ref base_sha head_sha digest gate"
proof -
  assume a: "check_gate w base_ref base_sha head_sha gate = Inr digest"
  obtain known ok d where g: "keys_eq gate gate_fields \<and> get gate ''schema_version'' = JStr ''1.0''"
      "in_strings (get gate ''risk_level'') [''L0'', ''L1'', ''L2'', ''L3''] = Inr known" known
      "get gate ''base_sha'' = JStr base_sha" "nonblank (get gate ''head_sha'')"
      "only_audit_changes_after_review w (str_val (get gate ''head_sha'')) head_sha = Inr ok" ok
      "nonblank (get gate ''builder_id'')" "change_digest w base_ref = Inr d" "get gate ''change_digest'' = JStr d" "Inr d = (Inr digest :: string result)"
    using a unfolding check_gate_def by (elim resultE) (rule that)
  have "str_in (get gate ''risk_level'') [''L0'', ''L1'', ''L2'', ''L3'']" using g(2,3) by (simp add: in_strings_True_iff)
  moreover have "audit_only_since w False (str_val (get gate ''head_sha'')) head_sha"
    using g(6,7) by (simp add: only_audit_changes_after_review_def every_descendant_iff)
  ultimately show ?thesis
    unfolding gate_bound_def using g(1,4,5,8,9,10) g(11) by (simp only: sum.inject simp_thms)
qed

text \<open>Every tracked file of every commit of the change stays out of the raw evidence zone.\<close>

definition raw_free :: "merge_world \<Rightarrow> string \<Rightarrow> bool" where
  "raw_free w base_ref \<longleftrightarrow>
     (\<exists>out. git w [''rev-list'', base_ref @ ''..HEAD''] = Inr out \<and> (\<forall>commit\<in>set (splitlines out). raw_paths_of w commit = Inr []))"

lemma check_raw_Inr: "check_raw w base_ref = Inr u \<Longrightarrow> raw_free w base_ref"
proof -
  assume a: "check_raw w base_ref = Inr u"
  obtain out raw where r: "git w [''rev-list'', base_ref @ ''..HEAD''] = Inr out" "mapr (raw_paths_of w) (splitlines out) = Inr raw" "concat raw = []"
    using a unfolding check_raw_def by (elim resultE) (rule that)
  have "\<exists>ys. mapr (raw_paths_of w) (splitlines out) = Inr ys \<and> concat ys = []" using r(2,3) by blast
  then show ?thesis using r(1) unfolding mapr_concat_Nil raw_free_def by blast
qed

section \<open>The independent review\<close>

definition review_in_window :: "int \<Rightarrow> obj \<Rightarrow> bool" where
  "review_in_window now review \<longleftrightarrow>
     (\<exists>issued expires. review_time (get review ''issued_at'') ''issued_at'' = Inr issued
        \<and> review_time (get review ''expires_at'') ''expires_at'' = Inr expires
        \<and> issued \<le> now + 5 * us_minute \<and> now < expires \<and> issued < expires \<and> expires - issued \<le> 24 * us_hour)"

lemma check_review_window_iff: "check_review_window now review = Inr u \<longleftrightarrow> review_in_window now review"
  by (auto simp: check_review_window_def review_in_window_def rbind_Inr_iff require_Inr_iff)

text \<open>
  The envelope at a path of the repository carries a review of exactly this change and gate,
  by a reviewer who is not the builder and whose only active key in the store signed it.
\<close>

definition review_of :: "obj \<Rightarrow> obj" where
  "review_of envelope = dict_val (get envelope ''review'')"

definition independent_review :: "merge_world \<Rightarrow> json \<Rightarrow> string \<Rightarrow> string \<Rightarrow> string \<Rightarrow> obj \<Rightarrow> string \<Rightarrow> bool" where
  "independent_review w relative builder_id digest metadata_digest trust reviewer \<longleftrightarrow>
     (\<exists>path envelope row. bounded_repository_path w relative ''review receipt'' = Inr path
        \<and> take 2 (path_parts path) = [''.sddgov'', ''reviews''] \<and> load_json w path ''protected-file review receipt'' = Inr envelope
        \<and> get (review_of envelope) ''reviewer_id'' = JStr reviewer \<and> reviewer \<noteq> builder_id
        \<and> get (review_of envelope) ''builder_id'' = JStr builder_id
        \<and> get (review_of envelope) ''change_digest'' = JStr digest
        \<and> get (review_of envelope) ''gate_metadata_digest'' = JStr metadata_digest
        \<and> get (review_of envelope) ''verdict'' = JStr ''approved''
        \<and> review_in_window (m_now w) (review_of envelope)
        \<and> filter (active_reviewer reviewer) (list_val (get trust ''reviewers'')) = [row]
        \<and> review_signed w row (str_val (get envelope ''signature'')) (review_of envelope))"

lemma check_review_payload_Inr:
  "check_review_payload review builder_id digest metadata_digest = Inr u \<Longrightarrow>
    nonblank (get review ''reviewer_id'') \<and> get review ''builder_id'' = JStr builder_id \<and> get review ''reviewer_id'' \<noteq> JStr builder_id
    \<and> get review ''change_digest'' = JStr digest \<and> get review ''gate_metadata_digest'' = JStr metadata_digest
    \<and> get review ''verdict'' = JStr ''approved''"
  unfolding check_review_payload_def by (elim resultE) (simp add: review_fields_def)

lemma verify_review_receipt_Inr:
  assumes "verify_review_receipt w relative builder_id digest metadata_digest trust = Inr review"
  shows "independent_review w relative builder_id digest metadata_digest trust (str_val (get review ''reviewer_id''))
    \<and> get review ''reviewer_id'' = JStr (str_val (get review ''reviewer_id''))"
proof -
  obtain path envelope where r: "bounded_repository_path w relative ''review receipt'' = Inr path"
      "take 2 (path_parts path) = [''.sddgov'', ''reviews'']" "load_json w path ''protected-file review receipt'' = Inr envelope"
      "check_review_payload (review_of envelope) builder_id digest metadata_digest = Inr ()"
      "check_review_window (m_now w) (review_of envelope) = Inr ()"
      "length (filter (active_reviewer (str_val (get (review_of envelope) ''reviewer_id''))) (list_val (get trust ''reviewers''))) = 1"
      "review_signed w (hd (filter (active_reviewer (str_val (get (review_of envelope) ''reviewer_id''))) (list_val (get trust ''reviewers''))))
         (str_val (get envelope ''signature'')) (review_of envelope)"
      "review_of envelope = review"
    using assms unfolding verify_review_receipt_def Let_def review_of_def [symmetric]
    by (elim resultE) (auto intro: that)
  note p = check_review_payload_Inr [OF r(4)]
  obtain name where name: "get review ''reviewer_id'' = JStr name"
    using p r(8) by (cases "get review ''reviewer_id''") (auto simp: nonblank_def)
  obtain row where "filter (active_reviewer name) (list_val (get trust ''reviewers'')) = [row]"
    using r(6,8) name by (auto simp: length_Suc_conv)
  then show ?thesis
    using r p name check_review_window_iff unfolding independent_review_def by force
qed

section \<open>What \<open>MERGE_READY\<close> means\<close>

lemma verify_mergeE:
  assumes "verify_merge w base_ref gate_path run_checks = Inr report"
  obtains gate head_sha base_sha digest protected reviewer where
    "git w [''status'', ''--porcelain''] = Inr []" and "git w [''rev-parse'', ''HEAD''] = Inr head_sha"
    and "git w [''rev-parse'', ''--verify'', commit_of base_ref] = Inr base_sha" and "load_json w gate_path gate_path = Inr gate"
    and "check_gate w base_ref base_sha head_sha gate = Inr digest" and "check_deps w gate = Inr ()"
    and "check_rollback w base_sha run_checks gate = Inr ()" and "check_raw w base_ref = Inr ()"
    and "check_review w base_ref digest gate = Inr (protected, reviewer)"
    and "run_checks \<Longrightarrow> \<exists>green. m_local_gate w = Inr green \<and> truthy (get green ''ok'')"
    and "get report ''protected_file_reviewer'' = reviewer" and "get report ''reviewed_head_sha'' = get gate ''head_sha''"
proof -
  obtain dirty head_sha base_sha gate digest u1 u2 u3 review green where r: "git w [''status'', ''--porcelain''] = Inr dirty" "dirty = []"
    "git w [''rev-parse'', ''HEAD''] = Inr head_sha" "git w [''rev-parse'', ''--verify'', commit_of base_ref] = Inr base_sha"
    "load_json w gate_path gate_path = Inr gate" "check_gate w base_ref base_sha head_sha gate = Inr digest" "check_deps w gate = Inr u1"
    "check_rollback w base_sha run_checks gate = Inr u2" "check_raw w base_ref = Inr u3" "check_review w base_ref digest gate = Inr review"
    "(case review of (protected, reviewer) \<Rightarrow>
       rbind (if run_checks then m_local_gate w else Inr [(''ok'', JBool True), (''commands'', JArr [])]) (\<lambda>local_green.
       require (truthy (get local_green ''ok'')) (ValueError ''Local Green Gate did not pass'')
       (Inr [(''ok'', JBool True), (''state'', JStr ''MERGE_READY''), (''head_sha'', JStr head_sha), (''base_ref'', JStr base_ref),
            (''base_sha'', JStr base_sha), (''reviewed_head_sha'', get gate ''head_sha''), (''change_digest'', JStr digest),
            (''risk_level'', get gate ''risk_level''), (''deps_verified'', get gate ''deps''),
            (''protected_files_changed'', JArr (map JStr protected)), (''protected_file_reviewer'', reviewer),
            (''local_green'', JObj local_green)]))) = Inr report"
    using assms unfolding verify_merge_def by (elim rbind_InrE require_InrE) (rule that)
  obtain protected reviewer where review: "review = (protected, reviewer)" by (metis surj_pair)
  obtain green where g: "(if run_checks then m_local_gate w else Inr [(''ok'', JBool True), (''commands'', JArr [])]) = Inr green"
    "truthy (get green ''ok'')" "get report ''protected_file_reviewer'' = reviewer" "get report ''reviewed_head_sha'' = get gate ''head_sha''"
    using r(11) unfolding review prod.case by (elim resultE) (auto intro: that)
  show ?thesis
    by (rule that [OF r(1) [unfolded r(2)] r(3,4,5,6) _ _ _ r(10) [unfolded review] _ g(3,4)]) (use r(7,8,9) g(1,2) in auto)
qed

text \<open>
  C16. A merge that is reported ready is bound to what was reviewed. The worktree is clean, the
  gate names the commit the base reference resolves to and the digest of the executable change,
  every commit after the reviewed head touches audit files only on every one of its parent
  edges, each evidence package of the gate verifies (at least one above L0), the rollback
  record of the reviewed commit is one of the closed forms and its commit was proved to revert
  to the base, no commit of the change tracks a raw evidence file, and the local gate passed
  when it was asked for.
\<close>

theorem merge_ready_bound:
  assumes "verify_merge w base_ref gate_path run_checks = Inr report"
  shows "\<exists>gate head_sha base_sha digest. git w [''status'', ''--porcelain''] = Inr []
     \<and> git w [''rev-parse'', ''HEAD''] = Inr head_sha \<and> git w [''rev-parse'', ''--verify'', commit_of base_ref] = Inr base_sha
     \<and> load_json w gate_path gate_path = Inr gate \<and> gate_bound w base_ref base_sha head_sha digest gate
     \<and> deps_verified w gate \<and> rollback_proved w base_sha run_checks gate \<and> raw_free w base_ref
     \<and> (run_checks \<longrightarrow> (\<exists>green. m_local_gate w = Inr green \<and> truthy (get green ''ok'')))"
  using assms
proof (cases rule: verify_mergeE)
  case (1 gate head_sha base_sha digest protected reviewer)
  then show ?thesis
    using check_gate_Inr [OF 1(5)] check_deps_Inr [OF 1(6)] check_rollback_Inr [OF 1(7)] check_raw_Inr [OF 1(8)] by blast
qed

lemma filterr_pure: "filterr (\<lambda>x. Inr (f x)) xs = Inr (filter f xs)"
  by (induction xs) simp_all

text \<open>
  C17. No protected file is merged on the builder's word. When the change touches a path of the
  protected-file policy of the base, a merge that is reported ready has an independent review:
  an envelope under \<open>.sddgov/reviews\<close> that names this builder, this digest of the change and
  this digest of the gate, is inside its window of at most 24 hours, and is signed with the
  only active key that the trusted store of the base has for a reviewer other than the builder.
\<close>

theorem protected_change_reviewed:
  assumes "verify_merge w base_ref gate_path run_checks = Inr report"
    and "changed_paths w base_ref ''HEAD'' = Inr changed" and "protected_patterns w base_ref = Inr patterns"
    and "path \<in> set changed" and "is_protected path patterns"
  shows "\<exists>gate digest metadata trust reviewer. load_json w gate_path gate_path = Inr gate \<and> change_digest w base_ref = Inr digest
     \<and> gate_metadata_digest gate = Inr metadata \<and> trusted_reviewers w base_ref = Inr trust
     \<and> independent_review w (get gate ''protected_file_review'') (str_val (get gate ''builder_id'')) digest metadata trust reviewer
     \<and> get report ''protected_file_reviewer'' = JStr reviewer"
  using assms(1)
proof (cases rule: verify_mergeE)
  case (1 gate head_sha base_sha digest protected reviewer)
  have ne: "filter (\<lambda>p. is_protected p patterns) changed \<noteq> []" using assms(4,5) by (auto simp: filter_empty_conv)
  obtain metadata trust verified where v: "gate_metadata_digest gate = Inr metadata" "trusted_reviewers w base_ref = Inr trust"
    "verify_review_receipt w (get gate ''protected_file_review'') (str_val (get gate ''builder_id'')) digest metadata trust = Inr verified"
    "reviewer = get verified ''reviewer_id''"
    using 1(9) unfolding check_review_def assms(2,3) rbind_simps filterr_pure Let_def if_P [OF ne]
    by (elim resultE) (auto intro: that)
  have "change_digest w base_ref = Inr digest" using check_gate_Inr [OF 1(5)] by (simp add: gate_bound_def)
  then show ?thesis using 1(4,11) v verify_review_receipt_Inr [OF v(3)] by metis
qed

section \<open>The readers of \<open>git\<close> output\<close>

text \<open>A record of \<open>git diff --name-status -z\<close> and how it is written.\<close>

definition change_record_ok :: "string \<times> string list \<Rightarrow> bool" where
  "change_record_ok r = (case r of (status, paths) \<Rightarrow> status \<noteq> [] \<and> \<not> is_space (hd status)
     \<and> length paths = record_width status \<and> list_all (\<lambda>f. CHR 0x00 \<notin> set f) (status # paths))"

definition render_changes :: "(string \<times> string list) list \<Rightarrow> string" where
  "render_changes rs = concat (map (\<lambda>f. f @ [CHR 0x00]) (concat (map (\<lambda>(status, paths). status # paths) rs)))"

lemma split_char_sep: "c \<notin> set x \<Longrightarrow> split_char c (x @ c # rest) = x # split_char c rest"
  by (induction x) auto

lemma split_char_terminated:
  "list_all (\<lambda>f. c \<notin> set f) fs \<Longrightarrow> split_char c (concat (map (\<lambda>f. f @ [c]) fs)) = fs @ [[]]"
  by (induction fs) (simp_all add: split_char_sep)

lemma name_status_paths_records:
  "list_all change_record_ok rs \<Longrightarrow>
    name_status_paths e (concat (map (\<lambda>(status, paths). status # paths) rs)) = Inr (concat (map snd rs))"
  by (induction rs) (auto simp: change_record_ok_def require_def)

lemma strip_id: "s \<noteq> [] \<Longrightarrow> \<not> is_space (hd s) \<Longrightarrow> \<not> is_space (last s) \<Longrightarrow> strip s = s"
proof -
  assume s: "s \<noteq> []" "\<not> is_space (hd s)" "\<not> is_space (last s)"
  then have "dropWhile is_space s = s" by (cases s) simp_all
  moreover have "dropWhile is_space (rev s) = rev s" using s by (cases s rule: rev_cases) simp_all
  ultimately show ?thesis by (simp add: strip_def)
qed

lemma strip_render_changes: "list_all change_record_ok rs \<Longrightarrow> strip (render_changes rs) = render_changes rs"
proof (cases rs)
  case (Cons r rest)
  assume ok: "list_all change_record_ok rs"
  obtain status paths where r: "r = (status, paths)" by (metis surj_pair)
  have st: "status \<noteq> []" "\<not> is_space (hd status)" using ok Cons r by (simp_all add: change_record_ok_def)
  let ?fs = "concat (map (\<lambda>(status, paths). status # paths) rs)"
  have ne: "?fs \<noteq> []" using Cons r by simp
  then obtain fs f where fs: "?fs = fs @ [f]" by (metis rev_exhaust)
  have "last (render_changes rs) = CHR 0x00" by (simp add: render_changes_def fs)
  moreover have "\<not> is_space (CHR 0x00)" by (simp add: is_space_def)
  moreover have "hd (render_changes rs) = hd status" "render_changes rs \<noteq> []"
    using st(1) by (simp_all add: render_changes_def Cons r)
  ultimately show ?thesis using st(2) by (intro strip_id) simp_all
qed (simp add: render_changes_def strip_def)


section \<open>The rollback record\<close>

lemma rollback_fields_distinct: "rollback_fields fs lines = Some gs \<Longrightarrow> distinct (map fst fs) \<Longrightarrow> distinct (map fst gs)"
proof (induction fs lines rule: rollback_fields.induct)
  case (2 fs raw lines)
  show ?case
  proof (cases "strip raw = [] \<or> starts_with ''#'' (strip raw)")
    case True
    then show ?thesis using 2 by simp
  next
    case False
    then have ok: "\<not> bad_line fs raw" using "2.prems"(1) by (auto split: if_splits)
    then have "line_key raw \<notin> set (map fst fs)" by (simp add: bad_line_def Let_def)
    then show ?thesis using "2.IH"(2) [OF False ok] "2.prems" False ok by simp
  qed
qed simp

definition closed_values :: "string list" where
  "closed_values = [''1.0'', ''2.0'', ''3.0'', ''4.0'', ''git_revert'', ''setup_agent_from_reverted_source'', ''codex'', ''hermes'',
     ''solo-fast'', ''team-standard'', ''regulated'', ''doctor_and_python_module'', ''pytest'', ''unittest'',
     ''assert_self_governance_deactivated'', ''self_governance_deactivated'']"

definition closed_record :: "(string \<times> string) list \<Rightarrow> bool" where
  "closed_record rb \<longleftrightarrow> is_commit_id (field rb ''rollback_ref'')
     \<and> (\<forall>kv\<in>set rb. fst kv \<in> {''target'', ''rollback_ref''} \<or> snd kv \<in> set closed_values)"

lemma contract_v1_closed: "contract_v1 a fs = Some rb \<Longrightarrow> closed_record rb \<and> a"
  by (auto simp: contract_v1_def closed_record_def field_def closed_values_def Let_def split: if_splits)

lemma contract_v2_closed: "contract_v2 b lines fs = Some rb \<Longrightarrow> closed_record rb \<and> b"
  by (auto simp: contract_v2_def closed_record_def field_def [of "_ # _"] closed_values_def test_modules_def split: if_splits)

lemma contract_v3_closed: "contract_v3 fs = Some rb \<Longrightarrow> field fs ''rollback_version'' = ''3.0'' \<Longrightarrow> closed_record rb"
  by (auto simp: contract_v3_def closed_record_def field_def [of "_ # _"] closed_values_def test_modules_def fields_v3_def fields_v2_def
      select_def split: if_splits)

lemma contract_v4_closed: "contract_v4 fs = Some rb \<Longrightarrow> closed_record rb \<and> field fs ''rollback_version'' = ''4.0''"
  by (auto simp: contract_v4_def closed_record_def field_def [of "_ # _"] closed_values_def fields_v4_def select_def split: if_splits)

text \<open>
  No text of a rollback record becomes a command. A record that the gate accepts has no
  repeated key and a target that is not a placeholder; what is handed on to the drill is a full
  commit id and, apart from the target, values of a closed list. Without the two bootstrap
  exceptions only the declarative versions 3.0 and 4.0 are accepted.
\<close>

theorem rollback_contract_closed:
  assumes "rollback_contract allow_legacy_v1 allow_bridge text = Some rollback"
  shows "is_commit_id (field rollback ''rollback_ref'')
    \<and> (\<forall>kv\<in>set rollback. fst kv \<in> {''target'', ''rollback_ref''} \<or> snd kv \<in> set closed_values)
    \<and> (\<exists>fs. rollback_fields [] (splitlines text) = Some fs \<and> distinct (map fst fs) \<and> \<not> bad_target (field fs ''target'')
        \<and> (\<not> allow_legacy_v1 \<longrightarrow> \<not> allow_bridge \<longrightarrow> field fs ''rollback_version'' \<in> {''3.0'', ''4.0''}))"
proof -
  obtain fs where fs: "rollback_fields [] (splitlines text) = Some fs" "\<not> bad_target (field fs ''target'')"
    "(if field fs ''rollback_version'' = ''1.0'' then contract_v1 allow_legacy_v1 fs
      else if field fs ''rollback_version'' = ''2.0'' then contract_v2 allow_bridge (splitlines text) fs
      else if field fs ''rollback_version'' = ''3.0'' then contract_v3 fs else contract_v4 fs) = Some rollback"
    using assms unfolding rollback_contract_def by (auto split: option.splits if_split_asm)
  have "closed_record rollback \<and> (\<not> allow_legacy_v1 \<longrightarrow> \<not> allow_bridge \<longrightarrow> field fs ''rollback_version'' \<in> {''3.0'', ''4.0''})"
    using fs(3) contract_v1_closed [of allow_legacy_v1 fs rollback] contract_v2_closed [of allow_bridge "splitlines text" fs rollback]
      contract_v3_closed [of fs rollback] contract_v4_closed [of fs rollback]
    by (simp split: if_split_asm)
  moreover have "distinct (map fst fs)" using rollback_fields_distinct [OF fs(1)] by simp
  ultimately show ?thesis using fs(1,2) unfolding closed_record_def by blast
qed

end
