(* ===== verification/Merge_Witness.thy ===== *)
theory Merge_Witness
  imports Merge_Facts
begin

text \<open>
  A concrete merge on which the properties of the merge gate are applied: a change of one
  protected file, reviewed and signed by an independent reviewer, with a declarative rollback
  record (src/src/sddgov/merge_gate.py).
\<close>

section \<open>A concrete merge\<close>

definition sample_sha1 :: "char \<Rightarrow> string" where "sample_sha1 c = replicate 40 c"

definition sample_rollback :: string where
  "sample_rollback = concat (map (\<lambda>l. l @ [CHR 0x0A]) [''rollback_version: 4.0'', ''target: source tree'', ''rollback_action: git_revert'',
     ''rollback_ref: '' @ sample_sha1 (CHR ''b''), ''reconcile_action: assert_self_governance_deactivated'',
     ''verify_action: self_governance_deactivated''])"

definition sample_contract :: "(string \<times> string) list" where
  "sample_contract = [(''version'', ''4.0''), (''target'', ''source tree''), (''rollback_action'', ''git_revert''),
     (''rollback_ref'', sample_sha1 (CHR ''b'')), (''reconcile_action'', ''assert_self_governance_deactivated''),
     (''verify_action'', ''self_governance_deactivated'')]"

lemma sample_rollback_accepted: "rollback_contract False False (strip sample_rollback) = Some sample_contract"
  by code_simp

lemma rollback_contract_closed_witness:
  "rollback_contract False False (strip sample_rollback) = Some sample_contract \<and> is_commit_id (field sample_contract ''rollback_ref'')"
  using rollback_contract_closed [OF sample_rollback_accepted] sample_rollback_accepted by blast

definition base_id :: string where "base_id = sample_sha1 (CHR ''a'')"

definition head_id :: string where "head_id = sample_sha1 (CHR ''b'')"

definition sample_changes :: string where
  "sample_changes = ''M'' @ [CHR 0x00] @ ''src/a.py'' @ [CHR 0x00]"

definition sample_reviewers :: json where
  "sample_reviewers = JObj [(''reviewers'', JArr [JObj [(''algorithm'', JStr ''ed25519''), (''public_key'', JStr ''a2V5''),
       (''reviewer_id'', JStr ''rita''), (''status'', JStr ''active'')]]), (''schema_version'', JStr ''1.0'')]"

definition sample_git :: "(string list \<times> string) list" where
  "sample_git =
     [([''status'', ''--porcelain''], []), ([''rev-parse'', ''HEAD''], head_id),
      ([''rev-parse'', ''--verify'', ''main^{commit}''], base_id), ([''rev-parse'', ''--verify'', commit_of head_id], head_id),
      ([''merge-base'', ''--is-ancestor'', head_id, head_id], []), ([''merge-base'', ''--is-ancestor'', base_id, head_id], []),
      ([''rev-list'', ''--reverse'', ''--topo-order'', head_id @ ''..'' @ head_id], []),
      ([''diff'', ''--binary'', ''main...HEAD'', ''--'', ''.''] @ audit_excludes, ''patch''),
      ([''show'', head_id @ '':evidence/rollback.md''], sample_rollback),
      ([''rev-list'', ''--parents'', ''-n'', ''1'', head_id], head_id @ '' '' @ base_id),
      ([''diff'', ''-M'', ''--name-status'', ''-z'', base_id @ ''...'' @ head_id], sample_changes),
      ([''rev-parse'', ''--git-path'', ''objects''], ''.git/objects''), ([''rev-list'', ''main..HEAD''], head_id),
      ([''ls-tree'', ''-r'', ''--name-only'', head_id], ''src/a.py''),
      ([''diff'', ''-M'', ''--name-status'', ''-z'', ''main...HEAD''], sample_changes),
      ([''show'', ''main:policies/protected-files.yaml''], ''protected:'' @ [CHR 0x0A] @ ''  - src/a.py''),
      ([''show'', ''main:.sddgov/trusted-reviewers.json''], dumps sample_reviewers)]"

definition sample_answer :: "string list \<Rightarrow> (int \<times> string \<times> string) result" where
  "sample_answer args = (case map_of sample_git args of Some out \<Rightarrow> Inr (0, out, []) | None \<Rightarrow> Inr (1, [], ''unknown''))"

definition sample_now :: int where "sample_now = 63900000000000000"

definition patch_digest :: string where "patch_digest = sha256_hex (utf8 ''patch'')"

definition sample_gate :: json where
  "sample_gate = JObj [(''base_sha'', JStr base_id), (''builder_id'', JStr ''bob''), (''change_digest'', JStr patch_digest),
     (''deps'', JArr [JStr ''evidence/DEP-1'']), (''head_sha'', JStr head_id), (''protected_file_review'', JStr ''.sddgov/reviews/r.json''),
     (''risk_level'', JStr ''L1''), (''rollback_path'', JStr ''evidence/rollback.md''), (''schema_version'', JStr ''1.0'')]"

definition metadata_digest :: string where
  "metadata_digest = sha256_hex (canonical_bytes (JObj [(''schema_version'', JStr ''1.0''), (''base_sha'', JStr base_id),
     (''head_sha'', JStr head_id), (''risk_level'', JStr ''L1''), (''builder_id'', JStr ''bob''), (''change_digest'', JStr patch_digest),
     (''deps'', JArr [JStr ''evidence/DEP-1'']), (''rollback_path'', JStr ''evidence/rollback.md'')]))"

definition sample_review :: json where
  "sample_review = JObj [(''builder_id'', JStr ''bob''), (''change_digest'', JStr patch_digest),
     (''expires_at'', JStr (stamp (sample_now + us_hour))), (''gate_metadata_digest'', JStr metadata_digest),
     (''issued_at'', JStr (stamp sample_now)), (''nonce'', JStr ''n-1''), (''review_id'', JStr ''r-1''), (''reviewer_id'', JStr ''rita''),
     (''verdict'', JStr ''approved'')]"

definition review_envelope :: json where
  "review_envelope = JObj [(''algorithm'', JStr ''ed25519''), (''review'', sample_review), (''schema_version'', JStr ''1.0''),
     (''signature'', JStr ''c2ln'')]"

definition sample_text :: "string \<Rightarrow> string result" where
  "sample_text path = (if path = ''.sddgov/merge-gate.json'' then Inr (dumps sample_gate)
     else if path = ''.sddgov/reviews/r.json'' then Inr (dumps review_envelope) else Inl (OSError ''no such file''))"

definition sample_merge :: merge_world where
  "sample_merge = \<lparr>m_now = sample_now, m_posix = True, m_euid = 1000, m_run = sample_answer, m_links = (\<lambda>p. False), m_resolve = Some,
     m_text = sample_text, m_external = None, m_policy = Inl (OSError ''no policy''), m_ed25519 = (\<lambda>k s m. k = ''key'' \<and> s = ''sig''),
     m_verify_dep = (\<lambda>d. Inr []), m_local_gate = Inr [(''ok'', JBool True)], m_objects_dir = (\<lambda>p. True),
     m_isolated = (\<lambda>args. Some (0, if hd args = ''merge-tree'' then sample_sha1 (CHR ''c'') else [])), m_drill = (\<lambda>c. Some 0),
     m_installed_before = False, m_installed_after = False\<rparr>"

lemma sample_run: "git sample_merge args = (case map_of sample_git args of Some out \<Rightarrow> Inr (strip out)
    | None \<Rightarrow> Inl (ValueError (''git '' @ join '' '' args @ '' failed: unknown'')))"
  by (simp add: git_def sample_merge_def sample_answer_def require_def strip_def is_space_def split: option.split)

lemma sample_calls:
  "git sample_merge [''status'', ''--porcelain''] = Inr []" "git sample_merge [''rev-parse'', ''HEAD''] = Inr head_id"
  "git sample_merge [''rev-parse'', ''--verify'', commit_of ''main''] = Inr base_id"
  "git sample_merge [''show'', at_base head_id ''evidence/rollback.md''] = Inr (strip sample_rollback)"
  "check_raw sample_merge ''main'' = Inr ()" "changed_paths sample_merge ''main'' ''HEAD'' = Inr [''src/a.py'']"
  "protected_patterns sample_merge ''main'' = Inr [''src/a.py'']"
  "only_audit_changes_after_review sample_merge head_id head_id = Inr True"
  "rollback_ref_is_in_candidate_range sample_merge head_id base_id head_id = Inr True"
  "rollback_ref_is_cleanly_revertible sample_merge head_id base_id head_id = Inr True"
  by code_simp+

lemma sample_show: "git sample_merge [''show'', at_base ''main'' ''.sddgov/trusted-reviewers.json''] = Inr (strip (dumps sample_reviewers))"
  by code_simp

lemma sample_diff: "git sample_merge ([''diff'', ''--binary'', ''main...HEAD'', ''--'', ''.''] @ audit_excludes) = Inr ''patch''"
  by code_simp

lemma sample_digest: "change_digest sample_merge ''main'' = Inr patch_digest"
  using sample_diff by (simp add: change_digest_def patch_digest_def)

lemma strip_dumps_JObj: "strip (dumps (JObj d)) = dumps (JObj d)"
  by (rule strip_id) (simp_all add: dumps_JObj is_space_def)

lemma sample_docs: "wf_json sample_gate" "wf_json review_envelope" "wf_json sample_reviewers"
    "canon sample_gate = sample_gate" "canon review_envelope = review_envelope" "canon sample_reviewers = sample_reviewers"
  by (simp_all add: sample_gate_def review_envelope_def sample_review_def sample_reviewers_def)

lemma sample_loads: "loads dict_of_pairs (dumps sample_gate) = Inr sample_gate"
    "loads dict_of_pairs (dumps review_envelope) = Inr review_envelope" "loads dict_of_pairs (dumps sample_reviewers) = Inr sample_reviewers"
  using loads_dumps [of dict_of_pairs] sample_docs by (simp_all add: dict_of_pairs_distinct)

lemma sample_gate_loaded: "load_json sample_merge ''.sddgov/merge-gate.json'' label = Inr (dict_val sample_gate)"
    "load_json sample_merge ''.sddgov/reviews/r.json'' label = Inr (dict_val review_envelope)"
  by (simp_all add: load_json_def sample_merge_def sample_text_def sample_loads) (simp_all add: sample_gate_def review_envelope_def)

lemma sample_trust: "trusted_reviewers sample_merge ''main'' = Inr (dict_val sample_reviewers)"
proof -
  have "strip (dumps sample_reviewers) = dumps sample_reviewers" unfolding sample_reviewers_def by (rule strip_dumps_JObj)
  then have "loads dict_of_pairs (strip (dumps sample_reviewers)) = Inr sample_reviewers" using sample_loads(3) by simp
  then show ?thesis
    by (simp add: trusted_reviewers_def sample_show) (simp add: sample_reviewers_def reviewer_store_ok_def keys_eq_def insert_commute)
qed

lemma sample_paths: "bounded_repository_path sample_merge (JStr ''evidence/DEP-1'') label = Inr ''evidence/DEP-1''"
    "bounded_repository_path sample_merge (JStr ''evidence/rollback.md'') label = Inr ''evidence/rollback.md''"
    "bounded_repository_path sample_merge (JStr ''.sddgov/reviews/r.json'') label = Inr ''.sddgov/reviews/r.json''"
  by (simp_all add: bounded_repository_path_def path_parts_def is_absolute_def starts_with_def sample_merge_def of_option_def Let_def
      path_prefixes_def)

lemma sample_gate_checked: "check_gate sample_merge ''main'' base_id head_id (dict_val sample_gate) = Inr patch_digest"
proof -
  have "head_id \<noteq> []" "list_ex (\<lambda>c. \<not> is_space c) head_id" by code_simp+
  then have "strip head_id \<noteq> []" by (auto simp: strip_eq_Nil_iff list_ex_iff list_all_iff)
  then show ?thesis
    by (simp add: check_gate_def sample_gate_def keys_eq_def gate_fields_def insert_commute nonblank_def sample_calls sample_digest)
       (simp add: strip_def is_space_def)
qed

lemma sample_deps_checked: "check_deps sample_merge (dict_val sample_gate) = Inr ()"
  by (simp add: check_deps_def sample_gate_def dep_ok_def dep_errors_def sample_paths) (simp add: sample_merge_def)

lemma sample_rollback_checked: "check_rollback sample_merge base_id False (dict_val sample_gate) = Inr ()"
proof -
  have "base_id \<noteq> legacy_v1_base" "base_id \<noteq> bridge_v2_base" by code_simp+
  moreover have "field sample_contract ''rollback_ref'' = head_id" by (simp add: sample_contract_def field_def head_id_def)
  ultimately show ?thesis
    by (simp add: check_rollback_def sample_gate_def sample_paths sample_calls sample_rollback_accepted rescue_def)
qed

lemma sample_review_time: "0 \<le> t \<Longrightarrow> t < max_us \<Longrightarrow> review_time (JStr (stamp t)) f = Inr (t - t mod us_second)"
proof -
  assume t: "0 \<le> t" "t < max_us"
  have "0 \<le> t mod us_second" "t mod us_second \<le> t" using t(1) zmod_le_nonneg_dividend [of t us_second] by (simp_all add: us_second_def)
  then have "0 \<le> t - t mod us_second" "t - t mod us_second < max_us" using t by linarith+
  then show ?thesis using t by (simp add: review_time_def parse_stamp_stamp is_aware_def)
qed

lemma nonblank_stamp: "0 \<le> t \<Longrightarrow> t < max_us \<Longrightarrow> nonblank (JStr (stamp t))"
proof -
  assume "0 \<le> t" "t < max_us"
  then obtain body where "stamp t = body @ ''Z''" using stamp_body by metis
  then show ?thesis using strip_nonblankI [of "CHR ''Z''" "stamp t"] by (simp add: nonblank_def is_space_def)
qed

lemma nonblank_digest: "nonblank (JStr (sha256_hex s))"
proof -
  have len: "length (sha256_hex s) = 64" and hex: "list_all is_hex_lower (sha256_hex s)"
    using sha256_is_sha256 [of s] unfolding is_sha256_def by blast+
  from len have "sha256_hex s \<noteq> []" by (metis list.size(3) zero_neq_numeral)
  then have "hd (sha256_hex s) \<in> set (sha256_hex s)" by (rule hd_in_set)
  moreover from this hex have "is_hex_lower (hd (sha256_hex s))" by (simp add: list_all_iff)
  moreover have "\<forall>c\<in>set ''0123456789abcdef''. \<not> is_space c" by (simp add: is_space_def)
  ultimately have "\<not> is_space (hd (sha256_hex s))" unfolding is_hex_lower_def by metis
  with \<open>hd (sha256_hex s) \<in> set (sha256_hex s)\<close> have "strip (sha256_hex s) \<noteq> []" by (rule strip_nonblankI)
  then show ?thesis by (simp add: nonblank_def)
qed

lemma sample_review_window: "check_review_window sample_now (dict_val sample_review) = Inr ()"
  by (simp add: check_review_window_def sample_review_def sample_review_time sample_now_def us_hour_def us_minute_def us_second_def max_us_def)

lemma sample_review_verified:
  "verify_review_receipt sample_merge (JStr ''.sddgov/reviews/r.json'') ''bob'' patch_digest metadata_digest (dict_val sample_reviewers)
     = Inr (dict_val sample_review)"
proof -
  have fields: "dict_val (get (dict_val review_envelope) ''review'') = dict_val sample_review" "m_now sample_merge = sample_now"
    by (simp_all add: review_envelope_def sample_merge_def)
  have "b64decode ''a2V5'' = Some ''key''" "b64decode ''c2ln'' = Some ''sig''" by code_simp+
  then have signed: "review_signed sample_merge (hd (list_val (get (dict_val sample_reviewers) ''reviewers''))) ''c2ln'' (dict_val sample_review)"
    by (simp add: review_signed_def sample_reviewers_def sample_merge_def)
  have "list_all (\<lambda>k. nonblank (get (dict_val sample_review) k)) review_fields"
    using nonblank_stamp nonblank_digest
    by (simp add: review_fields_def sample_review_def patch_digest_def metadata_digest_def sample_now_def us_hour_def max_us_def)
       (simp add: nonblank_def strip_def is_space_def)
  then have payload: "check_review_payload (dict_val sample_review) ''bob'' patch_digest metadata_digest = Inr ()"
    by (simp add: check_review_payload_def) (simp add: sample_review_def keys_eq_def review_fields_def insert_commute)
  have row: "reviewer_shape (hd (list_val (get (dict_val sample_reviewers) ''reviewers'')))"
    by (simp add: reviewer_shape_def sample_reviewers_def keys_eq_def insert_commute nonblank_def strip_def is_space_def)
  show ?thesis
    using row signed by (simp add: verify_review_receipt_def sample_paths sample_gate_loaded fields payload sample_review_window)
      (simp add: review_envelope_def sample_reviewers_def sample_review_def keys_eq_def insert_commute path_parts_def reviewer_store_ok_def
        active_reviewer_def str_in_def hashable_def)
qed

lemma sample_metadata: "gate_metadata_digest (dict_val sample_gate) = Inr metadata_digest"
  by (simp add: gate_metadata_digest_def metadata_fields_def sample_gate_def metadata_digest_def)

lemma sample_review_checked: "check_review sample_merge ''main'' patch_digest (dict_val sample_gate) = Inr ([''src/a.py''], JStr ''rita'')"
proof -
  have gate: "get (dict_val sample_gate) ''protected_file_review'' = JStr ''.sddgov/reviews/r.json''"
      "get (dict_val sample_gate) ''builder_id'' = JStr ''bob''" by (simp_all add: sample_gate_def)
  have reviewer: "get (dict_val sample_review) ''reviewer_id'' = JStr ''rita''" by (simp add: sample_review_def)
  show ?thesis
    by (simp add: check_review_def sample_calls is_protected_def ends_with_def starts_with_def gate reviewer sample_metadata sample_trust
        sample_review_verified)
qed

lemma sample_merge_ready: "\<exists>report. verify_merge sample_merge ''main'' ''.sddgov/merge-gate.json'' False = Inr report"
  by (simp add: verify_merge_def sample_calls sample_gate_loaded sample_gate_checked sample_deps_checked sample_rollback_checked
      sample_review_checked)

lemma merge_ready_bound_witness:
  "\<exists>report gate head_sha base_sha digest. verify_merge sample_merge ''main'' ''.sddgov/merge-gate.json'' False = Inr report
     \<and> gate_bound sample_merge ''main'' base_sha head_sha digest gate \<and> rollback_proved sample_merge base_sha False gate"
proof -
  obtain report where ready: "verify_merge sample_merge ''main'' ''.sddgov/merge-gate.json'' False = Inr report"
    using sample_merge_ready by blast
  show ?thesis using merge_ready_bound [OF ready] ready by blast
qed

lemma protected_change_reviewed_witness:
  "\<exists>report gate digest metadata trust. verify_merge sample_merge ''main'' ''.sddgov/merge-gate.json'' False = Inr report
     \<and> get report ''protected_file_reviewer'' = JStr ''rita''
     \<and> independent_review sample_merge (get gate ''protected_file_review'') (str_val (get gate ''builder_id'')) digest metadata trust ''rita''"
proof -
  obtain report where ready: "verify_merge sample_merge ''main'' ''.sddgov/merge-gate.json'' False = Inr report"
    using sample_merge_ready by blast
  have rita: "get report ''protected_file_reviewer'' = JStr ''rita''"
    using ready
  proof (cases rule: verify_mergeE)
    case (1 gate head_sha base_sha digest protected reviewer)
    have g: "gate = dict_val sample_gate" using 1(4) sample_gate_loaded(1) by simp
    have "digest = patch_digest" using 1(2,3,5) g sample_calls(2,3) sample_gate_checked by simp
    then show ?thesis using 1(9,11) g sample_review_checked by simp
  qed
  have path: "''src/a.py'' \<in> set [''src/a.py'']" "is_protected ''src/a.py'' [''src/a.py'']"
    by (simp_all add: is_protected_def ends_with_def starts_with_def)
  show ?thesis
    using protected_change_reviewed [OF ready sample_calls(6,7) path] rita ready by force
qed


end
