(* ===== verification/Ci_Guard.thy ===== *)
theory Ci_Guard
  imports Decision_Card
begin

text \<open>
  The CI cost guard (\<open>src/src/sddgov/ci_guard.py\<close>): the contract document, the inspection of the
  hosted workflows, and the local gate that runs the configured commands.

  A workflow document is what the third-party YAML loader makes of its text; the loader is a
  parameter, its values are a datatype. File system calls are given by their results.
\<close>


section \<open>YAML values\<close>

text \<open>\<open>YOther\<close> is any other hashable scalar (a float, a date), with its text.\<close>

datatype yaml = YNull | YBool bool | YInt int | YStr string | YOther string | YSeq "yaml list" | YMap "(yaml \<times> yaml) list"

type_synonym ymap = "(yaml \<times> yaml) list"

definition yget :: "ymap \<Rightarrow> string \<Rightarrow> yaml" where
  "yget m k = (case map_of m (YStr k) of None \<Rightarrow> YNull | Some v \<Rightarrow> v)"

definition yhas :: "ymap \<Rightarrow> string \<Rightarrow> bool" where
  "yhas m k \<longleftrightarrow> YStr k \<in> set (map fst m)"

fun is_ystr :: "yaml \<Rightarrow> bool" where
  "is_ystr (YStr s) = True"
| "is_ystr v = False"

fun ystr :: "yaml \<Rightarrow> string" where
  "ystr (YStr s) = s"
| "ystr v = []"

fun is_ymap :: "yaml \<Rightarrow> bool" where
  "is_ymap (YMap m) = True"
| "is_ymap v = False"

fun ymap_val :: "yaml \<Rightarrow> ymap" where
  "ymap_val (YMap m) = m"
| "ymap_val v = []"

text \<open>\<open>v in {strings}\<close>: sequences and mappings are unhashable.\<close>

fun yin_strings :: "yaml \<Rightarrow> string list \<Rightarrow> bool result" where
  "yin_strings (YStr s) ss = Inr (s \<in> set ss)"
| "yin_strings (YSeq xs) ss = Inl (TypeError (''unhashable type: '' @ [CHR 0x27] @ ''list'' @ [CHR 0x27]))"
| "yin_strings (YMap m) ss = Inl (TypeError (''unhashable type: '' @ [CHR 0x27] @ ''dict'' @ [CHR 0x27]))"
| "yin_strings v ss = Inr False"


section \<open>The contract document\<close>

definition contract_path :: string where "contract_path = ''.sddgov/ci-cost-guard.json''"

text \<open>The results of the calls of \<open>_read_contract\<close>, in their order.\<close>

record contract_calls =
  cg_directories :: "unit result"
  cg_before :: "os_stat result"
  cg_opened :: "os_stat result"
  cg_bytes :: "string result"
  cg_after :: "os_stat result"
  cg_entry :: "os_stat result"
  cg_state :: "os_stat result"

definition contract_bytes :: "contract_calls \<Rightarrow> string result" where
  "contract_bytes c =
     rbind (cg_directories c) (\<lambda>_.
     rbind (cg_before c) (\<lambda>before.
     require (st_kind before = Regular \<and> st_nlink before = 1) (ValueError (contract_path @ '' must be a single-linked regular file''))
     (rbind (cg_opened c) (\<lambda>opened.
      rbind (cg_bytes c) (\<lambda>bytes.
      rbind (cg_after c) (\<lambda>after.
      require (st_kind opened = Regular \<and> same_snapshot opened before \<and> same_snapshot opened after)
        (ValueError (contract_path @ '' changed during read''))
      (rbind (cg_entry c) (\<lambda>entry.
       rbind (cg_state c) (\<lambda>state.
       require (st_kind entry = Directory \<and> same_inode entry state) (ValueError (contract_path @ '' parent changed during read''))
       (Inr bytes))))))))))"

definition read_contract :: "contract_calls \<Rightarrow> obj result" where
  "read_contract c =
     (case contract_bytes c of
        Inl (FileNotFoundError m) \<Rightarrow> Inl (FileNotFoundError (contract_path @ ''; copy templates/CI_COST_GUARD.json and customize it''))
      | Inl (OSError m) \<Rightarrow> Inl (ValueError (''unsafe '' @ contract_path @ '': '' @ m))
      | Inl e \<Rightarrow> Inl e
      | Inr bytes \<Rightarrow>
          rbind (of_option (ValueError (''unsafe '' @ contract_path @ '': invalid utf-8'')) (utf8_decode bytes)) (\<lambda>text.
          rbind (case loads dict_of_pairs text of
                   Inl e \<Rightarrow> Inl (ValueError (''invalid '' @ contract_path @ '': '' @ exn_text e)) | Inr v \<Rightarrow> Inr v) (\<lambda>v.
          require (is_dict v) (ValueError (contract_path @ '' must contain a JSON object'')) (Inr (dict_val v)))))"

definition str_list :: "json \<Rightarrow> bool" where
  "str_list v \<longleftrightarrow> is_list v \<and> list_all is_str (list_val v)"

definition str_map :: "json \<Rightarrow> bool" where
  "str_map v \<longleftrightarrow> is_dict v \<and> list_all (\<lambda>kv. is_str (snd kv)) (dict_val v)"

definition command_ok :: "json \<Rightarrow> bool" where
  "command_ok c \<longleftrightarrow> is_list c \<and> list_val c \<noteq> [] \<and> list_all (\<lambda>a. is_str a \<and> str_val a \<noteq> []) (list_val c)"

definition default_timeout :: int where "default_timeout = 600"

definition local_timeout :: "obj \<Rightarrow> json" where
  "local_timeout local_green = get_default local_green ''command_timeout_seconds'' (JInt default_timeout)"

definition local_errors :: "json \<Rightarrow> string list" where
  "local_errors v =
     (if \<not> is_dict v then [''local_green must be an object'']
      else (let local_green = dict_val v; commands = get local_green ''commands''; timeout = local_timeout local_green in
        unless (str_map (get_default local_green ''environment'' (JObj []))) ''local_green.environment must map strings to strings''
        @ (if \<not> is_list commands \<or> list_val commands = [] then [''local_green.commands must be a non-empty array'']
           else unless (list_all command_ok (list_val commands)) ''each local_green command must be a non-empty string array'')
        @ unless (is_int timeout \<and> 1 \<le> int_val timeout \<and> int_val timeout \<le> 3600)
            ''local_green.command_timeout_seconds must be an integer between 1 and 3600''))"

definition at_least :: "obj \<Rightarrow> string \<Rightarrow> int \<Rightarrow> bool" where
  "at_least hosted key minimum \<longleftrightarrow> is_int (get hosted key) \<and> minimum \<le> int_val (get hosted key)"

definition full_matrix_values :: "string list" where
  "full_matrix_values = [''manual'', ''ready_for_review'', ''manual_or_ready_for_review'', ''release'']"

definition post_merge_values :: "string list" where
  "post_merge_values = [''manual_only'', ''automatic'']"

definition hosted_errors :: "json \<Rightarrow> string list result" where
  "hosted_errors v =
     (if \<not> is_dict v then Inr [''hosted must be an object'']
      else (let hosted = dict_val v in
        rbind (in_strings (get hosted ''full_matrix'') full_matrix_values) (\<lambda>matrix.
        rbind (in_strings (get_default hosted ''post_merge_verification'' (JStr ''automatic'')) post_merge_values) (\<lambda>post_merge.
        Inr (unless (at_least hosted ''max_runs_per_work_package'' 1) ''hosted.max_runs_per_work_package must be an integer >= 1''
           @ unless (at_least hosted ''max_reruns_per_revision'' 0) ''hosted.max_reruns_per_revision must be an integer >= 0''
           @ unless (at_least hosted ''expected_minutes'' 1) ''hosted.expected_minutes must be an integer >= 1''
           @ unless matrix ''hosted.full_matrix is invalid'' @ unless post_merge ''hosted.post_merge_verification is invalid'')))))"

definition required_controls :: "string list" where
  "required_controls = [''require_concurrency'', ''cancel_in_progress'', ''require_job_timeouts'', ''require_read_only_permissions'',
     ''skip_draft_pull_requests'']"

definition exceptions_prefix :: string where
  "exceptions_prefix = ''workflow_controls.write_permission_exceptions''"

definition permission_list_ok :: "json \<Rightarrow> bool" where
  "permission_list_ok v \<longleftrightarrow> is_list v \<and> list_val v \<noteq> [] \<and> list_all nonblank (list_val v) \<and> distinct (list_val v)"

definition job_exception_errors :: "string \<Rightarrow> string \<times> json \<Rightarrow> string list" where
  "job_exception_errors workflow_name = (\<lambda>(job_name, permissions).
     if strip job_name = [] then [exceptions_prefix @ ''.'' @ workflow_name @ '' job names must be non-empty strings'']
     else unless (permission_list_ok permissions)
            (exceptions_prefix @ ''.'' @ workflow_name @ ''.'' @ job_name @ '' must be a non-empty array of unique permission names''))"

definition workflow_exception_errors :: "string \<times> json \<Rightarrow> string list" where
  "workflow_exception_errors = (\<lambda>(workflow_name, job_exceptions).
     if strip workflow_name = [] then [exceptions_prefix @ '' workflow names must be non-empty strings'']
     else if \<not> is_dict job_exceptions then [exceptions_prefix @ ''.'' @ workflow_name @ '' must be an object'']
     else if dict_val job_exceptions = [] then [exceptions_prefix @ ''.'' @ workflow_name @ '' must name at least one job'']
     else concat (map (job_exception_errors workflow_name) (dict_val job_exceptions)))"

definition exemption_errors :: "json \<Rightarrow> string list" where
  "exemption_errors exemptions =
     (if \<not> str_list exemptions then [''workflow_controls.exempt_workflows must be a string array'']
      else if list_ex (\<lambda>e. strip (str_val e) = []) (list_val exemptions)
      then [''workflow_controls.exempt_workflows must contain non-empty strings'']
      else unless (distinct (list_val exemptions)) ''workflow_controls.exempt_workflows must not contain duplicates'')"

definition sorted_strings :: "string list \<Rightarrow> string list" where
  "sorted_strings ss = sort (remdups ss)"

definition controls_errors :: "json \<Rightarrow> string list" where
  "controls_errors v =
     (if \<not> is_dict v then [''workflow_controls must be an object'']
      else (let controls = dict_val v; exemptions = get_default controls ''exempt_workflows'' (JArr []);
                exceptions = get_default controls ''write_permission_exceptions'' (JObj []) in
        concat (map (\<lambda>key. unless (is_bool (get controls key)) (''workflow_controls.'' @ key @ '' must be boolean'')) required_controls)
        @ exemption_errors exemptions
        @ (if \<not> is_dict exceptions then [exceptions_prefix @ '' must be an object'']
           else concat (map workflow_exception_errors (dict_val exceptions))
             @ (if str_list exemptions
                then map (\<lambda>name. ''exempt workflow must not declare write permission exceptions: '' @ name)
                       (sorted_strings (filter (\<lambda>name. has_key (dict_val exceptions) name) (map str_val (list_val exemptions))))
                else []))))"

definition validate_contract :: "obj \<Rightarrow> string list result" where
  "validate_contract contract =
     rbind (in_strings (get contract ''profile'') [''solo-fast'', ''team-standard'', ''regulated'']) (\<lambda>profile.
     rbind (hosted_errors (get contract ''hosted'')) (\<lambda>hosted.
     Inr (unless (get contract ''schema_version'' = JStr ''1.0'') ''CI Cost Guard schema_version must be 1.0''
        @ unless profile ''CI Cost Guard profile is invalid''
        @ local_errors (get contract ''local_green'') @ hosted @ controls_errors (get contract ''workflow_controls''))))"


section \<open>Events and permissions\<close>

definition event_mapping :: "yaml \<Rightarrow> ymap" where
  "event_mapping v =
     (case v of
        YStr s \<Rightarrow> [(YStr s, YNull)]
      | YSeq xs \<Rightarrow> (if list_all is_ystr xs then map (\<lambda>x. (x, YNull)) (remdups xs) else [])
      | YMap m \<Rightarrow> m
      | _ \<Rightarrow> [])"

text \<open>The first test raises \<open>TypeError\<close> for a permission that is a sequence or a mapping.\<close>

definition grants_more :: "string list \<Rightarrow> yaml \<times> yaml \<Rightarrow> bool result" where
  "grants_more allowed = (\<lambda>(key, permission).
     if \<not> is_ystr key then Inr True
     else rbind (yin_strings permission [''read'', ''none'']) (\<lambda>reads.
          Inr (\<not> reads \<and> \<not> (permission = YStr ''write'' \<and> ystr key \<in> set allowed))))"

definition permission_errors :: "yaml \<Rightarrow> string \<Rightarrow> bool \<Rightarrow> string list \<Rightarrow> string list result" where
  "permission_errors v label require_contents allowed =
     (if \<not> is_ymap v then Inr [label @ '' permissions must be a mapping'']
      else (let m = ymap_val v in
        rbind (mapr (grants_more allowed) m) (\<lambda>bad.
        Inr (map (\<lambda>b. label @ '' permissions must not grant write access'') (filter id bad)
           @ unless (require_contents \<longrightarrow> yget m ''contents'' = YStr ''read'') (label @ '' permissions must include contents: read'')
           @ map (\<lambda>p. label @ '' write permission exception is unused: '' @ p)
               (filter (\<lambda>p. yget m p \<noteq> YStr ''write'') (sorted_strings allowed))))))"


section \<open>The guard of draft pull requests\<close>

text \<open>\<open>s.split("&&")\<close>.\<close>

fun split_and :: "string \<Rightarrow> string \<Rightarrow> string list" where
  "split_and acc (c # d # rest) =
     (if c = CHR ''&'' \<and> d = CHR ''&'' then rev acc # split_and [] rest else split_and (c # acc) (d # rest))"
| "split_and acc [c] = [rev (c # acc)]"
| "split_and acc [] = [rev acc]"

definition is_word_char :: "char \<Rightarrow> bool" where
  "is_word_char c \<longleftrightarrow> (let n = of_char c :: nat in 65 \<le> n \<and> n \<le> 90 \<or> 97 \<le> n \<and> n \<le> 122 \<or> 48 \<le> n \<and> n \<le> 57 \<or> n = 95)"

definition is_path_segment :: "string \<Rightarrow> bool" where
  "is_path_segment s \<longleftrightarrow> s \<noteq> [] \<and> list_all is_word_char s \<and> \<not> is_digit (hd s)"

definition quoted_by :: "char \<Rightarrow> string \<Rightarrow> bool" where
  "quoted_by q s \<longleftrightarrow> 2 \<le> length s \<and> hd s = q \<and> last s = q
     \<and> list_all (\<lambda>c. c \<notin> set [q, CHR 0x5C, CHR 0x0D, CHR 0x0A]) (butlast (tl s))"

definition is_atom_literal :: "string \<Rightarrow> bool" where
  "is_atom_literal s \<longleftrightarrow> quoted_by (CHR 0x27) s \<or> quoted_by (CHR 0x22) s
     \<or> (let digits = (if starts_with ''-'' s then tl s else s) in digits \<noteq> [] \<and> list_all is_digit digits)
     \<or> s \<in> set [''true'', ''false'']"

text \<open>\<open>_SIMPLE_CONJUNCTION_ATOM.fullmatch\<close>: the path \<open>github.a.b\<close>, an operator and a literal.\<close>

definition atom_path :: "string \<Rightarrow> string" where
  "atom_path s = takeWhile (\<lambda>c. is_word_char c \<or> c = CHR ''.'') s"

definition is_simple_atom :: "string \<Rightarrow> bool" where
  "is_simple_atom s \<longleftrightarrow>
     (let path = atom_path s; rest = drop (length path) s; segments = split_char (CHR ''.'') path in
      hd segments = ''github'' \<and> tl segments \<noteq> [] \<and> list_all is_path_segment (tl segments)
      \<and> take 2 rest \<in> set [''=='', ''!=''] \<and> is_atom_literal (drop 2 rest))"

definition draft_false_atom :: string where "draft_false_atom = ''github.event.pull_request.draft==false''"

definition quoted_single :: "string \<Rightarrow> string" where "quoted_single s = CHR 0x27 # s @ [CHR 0x27]"

definition quoted_double :: "string \<Rightarrow> string" where "quoted_double s = CHR 0x22 # s @ [CHR 0x22]"

definition strip_expression :: "string \<Rightarrow> string" where
  "strip_expression s =
     (let e = strip s in
      if starts_with (CHR ''$'' # [CHR 0x7B, CHR 0x7B]) e \<and> ends_with [CHR 0x7D, CHR 0x7D] e
      then strip (drop 3 (take (length e - 2) e)) else e)"

definition compact :: "string \<Rightarrow> string" where
  "compact s = filter (\<lambda>c. \<not> is_space c) s"

definition draft_condition_is_safe :: "yaml \<Rightarrow> string list \<Rightarrow> bool" where
  "draft_condition_is_safe condition event_names \<longleftrightarrow> is_ystr condition \<and> length event_names = 1 \<and>
     (let c = compact (strip_expression (ystr condition)); event = hd event_names; atoms = split_and [] c in
      c = ''github.event_name!='' @ quoted_single event @ ''||'' @ draft_false_atom
      \<or> c = ''github.event_name!='' @ quoted_double event @ ''||'' @ draft_false_atom
      \<or> \<not> contains_text ''||'' c \<and> CHR 0x28 \<notin> set c \<and> CHR 0x29 \<notin> set c
        \<and> 2 \<le> length atoms \<and> draft_false_atom \<in> set atoms
        \<and> (''github.event_name=='' @ quoted_single event \<in> set atoms \<or> ''github.event_name=='' @ quoted_double event \<in> set atoms)
        \<and> list_all is_simple_atom atoms)"


section \<open>Inspecting a workflow\<close>

fun valid_runner :: "yaml \<Rightarrow> bool" where
  "valid_runner (YStr s) = (strip s \<noteq> [])"
| "valid_runner (YSeq xs) = (xs \<noteq> [] \<and> list_all (\<lambda>x. is_ystr x \<and> strip (ystr x) \<noteq> []) xs)"
| "valid_runner v = False"

definition enabled :: "obj \<Rightarrow> string \<Rightarrow> bool" where
  "enabled controls k = truthy (get controls k)"

definition pull_request_names :: "string list" where
  "pull_request_names = [''pull_request'', ''pull_request_target'']"

definition is_automatic :: "ymap \<Rightarrow> bool" where
  "is_automatic events \<longleftrightarrow> list_ex (yhas events) [''pull_request'', ''pull_request_target'', ''push'', ''schedule'']"

text \<open>The jobs that are mappings under a textual name.\<close>

definition jobs_of :: "yaml \<Rightarrow> (string \<times> ymap) list" where
  "jobs_of v = map (\<lambda>(k, j). (ystr k, ymap_val j)) (filter (\<lambda>(k, j). is_ystr k \<and> is_ymap j) (ymap_val v))"

definition allowed_writes :: "obj \<Rightarrow> string \<Rightarrow> string list" where
  "allowed_writes exceptions job_name =
     (let v = get_default exceptions job_name (JArr []) in if str_list v then map str_val (list_val v) else [])"

definition prefixed :: "string \<Rightarrow> string list \<Rightarrow> string list" where
  "prefixed workflow_name errors = map (\<lambda>e. workflow_name @ '': '' @ e) errors"

definition job_errors :: "ymap \<Rightarrow> yaml \<Rightarrow> string list" where
  "job_errors document v =
     unless (is_ymap (yget document ''jobs'')) ''jobs must be a mapping''
     @ unless (length (jobs_of v) = length (ymap_val v)) ''every job must be a named mapping with an explicit runner''
     @ map (\<lambda>(n, j). ''job '' @ n @ '' has an invalid runs-on value'') (filter (\<lambda>(n, j). \<not> valid_runner (yget j ''runs-on'')) (jobs_of v))"

definition job_permission_errors :: "obj \<Rightarrow> string \<times> ymap \<Rightarrow> string list result" where
  "job_permission_errors exceptions = (\<lambda>(job_name, job).
     let allowed = allowed_writes exceptions job_name in
     if yhas job ''permissions'' then permission_errors (yget job ''permissions'') (''job '' @ job_name) False allowed
     else Inr (unless (allowed = []) (''job '' @ job_name @ '' write permission exception requires an explicit permissions mapping'')))"

definition workflow_permission_errors :: "ymap \<Rightarrow> obj \<Rightarrow> obj \<Rightarrow> (string \<times> ymap) list \<Rightarrow> string list result" where
  "workflow_permission_errors document controls exceptions jobs =
     (if enabled controls ''require_read_only_permissions'' \<and> jobs \<noteq> []
      then rbind (permission_errors (yget document ''permissions'') ''default'' True []) (\<lambda>default_errors.
           rbind (mapr (job_permission_errors exceptions) jobs) (\<lambda>errors. Inr (default_errors @ concat errors)))
      else Inr [])"

definition concurrency_errors :: "ymap \<Rightarrow> obj \<Rightarrow> (string \<times> ymap) list \<Rightarrow> bool \<Rightarrow> string list" where
  "concurrency_errors document controls jobs automatic =
     (let concurrency = yget document ''concurrency''; group_name = yget (ymap_val concurrency) ''group'' in
      (if jobs \<noteq> [] \<and> enabled controls ''require_concurrency''
       then (if \<not> is_ymap concurrency then [''hosted workflow requires concurrency'']
             else unless (is_ystr group_name \<and> strip (ystr group_name) \<noteq> []) ''hosted workflow concurrency requires a non-empty group'')
       else [])
      @ unless (\<not> (automatic \<and> enabled controls ''cancel_in_progress'')
            \<or> is_ymap concurrency \<and> yget (ymap_val concurrency) ''cancel-in-progress'' = YBool True)
          ''automatic workflow must cancel stale runs'')"

definition event_types :: "yaml \<Rightarrow> yaml list" where
  "event_types config =
     (case yget (ymap_val config) ''types'' of YSeq xs \<Rightarrow> filter is_ystr xs | _ \<Rightarrow> [])"

definition draft_errors :: "ymap \<Rightarrow> obj \<Rightarrow> (string \<times> ymap) list \<Rightarrow> string list" where
  "draft_errors events controls jobs =
     (let names = filter (yhas events) pull_request_names; types = concat (map (\<lambda>n. event_types (yget events n)) names) in
      if names \<noteq> [] \<and> enabled controls ''skip_draft_pull_requests''
      then map (\<lambda>t. ''pull_request types must include '' @ t)
             (filter (\<lambda>t. YStr t \<notin> set types) [''ready_for_review'', ''converted_to_draft''])
           @ map (\<lambda>(n, j). ''pull-request job '' @ n @ '' must skip Draft PR runners with the exact guard or a stricter fail-closed conjunction'')
               (filter (\<lambda>(n, j). \<not> draft_condition_is_safe (yget j ''if'') names) jobs)
      else [])"

definition timeout_ok :: "yaml \<Rightarrow> bool" where
  "timeout_ok v = (case v of YInt n \<Rightarrow> 1 \<le> n \<and> n \<le> 360 | _ \<Rightarrow> False)"

definition timeout_errors :: "obj \<Rightarrow> (string \<times> ymap) list \<Rightarrow> string list" where
  "timeout_errors controls jobs =
     (if enabled controls ''require_job_timeouts''
      then map (\<lambda>(n, j). ''hosted job '' @ n @ '' requires timeout-minutes between 1 and 360'')
             (filter (\<lambda>(n, j). \<not> timeout_ok (yget j ''timeout-minutes'')) jobs)
      else [])"

definition workflow_report :: "string \<Rightarrow> bool \<Rightarrow> string list \<Rightarrow> obj" where
  "workflow_report workflow_name automatic job_names =
     [(''workflow'', JStr workflow_name), (''automatic'', JBool automatic), (''hosted_jobs'', JArr (map JStr (sort job_names)))]"

text \<open>
  \<open>loaded\<close> is what the YAML loader made of the source, or what it raised; only the errors of the
  YAML library are caught.
\<close>

definition inspect_workflow :: "string \<Rightarrow> yaml result \<Rightarrow> obj \<Rightarrow> obj \<Rightarrow> json \<Rightarrow> (string list \<times> obj) result" where
  "inspect_workflow workflow_name loaded controls hosted write_exceptions =
     (case loaded of
        Inl (YAMLError m) \<Rightarrow> Inr ([workflow_name @ '': workflow YAML is invalid: '' @ m], workflow_report workflow_name False [])
      | Inl e \<Rightarrow> Inl e
      | Inr document \<Rightarrow>
          (if \<not> is_ymap document
           then Inr ([workflow_name @ '': workflow must be a YAML mapping''], workflow_report workflow_name False [])
           else (let doc = ymap_val document; events = event_mapping (yget doc ''on''); automatic = is_automatic events;
                     v = yget doc ''jobs''; jobs = jobs_of v; exceptions = dict_val write_exceptions in
             rbind (workflow_permission_errors doc controls exceptions jobs) (\<lambda>permission.
             Inr (prefixed workflow_name
                    (unless (\<not> (get_default hosted ''post_merge_verification'' (JStr ''automatic'') = JStr ''manual_only'' \<and> yhas events ''push''))
                       ''manual-only post-merge verification forbids automatic push''
                     @ job_errors doc v
                     @ map (\<lambda>u. ''write permission exception references unknown job '' @ u)
                         (sorted_strings (filter (\<lambda>n. n \<notin> set (map fst jobs)) (map fst exceptions)))
                     @ permission @ concurrency_errors doc controls jobs automatic @ draft_errors events controls jobs
                     @ timeout_errors controls jobs),
                  workflow_report workflow_name automatic (map fst jobs))))))"


section \<open>The workflow files\<close>

text \<open>The calls for one file: \<open>os.stat\<close>, \<open>os.open\<close> with \<open>os.fstat\<close>, the reads, \<open>os.stat\<close> again.\<close>

record workflow_file =
  wf_name :: string
  wf_before :: "os_stat result"
  wf_opened :: "os_stat result"
  wf_bytes :: "string result"
  wf_after :: "os_stat result"

text \<open>
  The calls for the two directory components, the listing, and after the files the two pairs of
  \<open>os.stat\<close> and \<open>os.fstat\<close>. \<open>None\<close> in a component is a directory that does not exist.
\<close>

record workflow_calls =
  wc_root :: "unit result"
  wc_components :: "os_stat result list"
  wc_files :: "workflow_file list result"
  wc_again :: "(os_stat result \<times> os_stat result) list"

definition is_workflow_name :: "string \<Rightarrow> bool" where
  "is_workflow_name name \<longleftrightarrow> lower (path_suffix name) \<in> set [''.yml'', ''.yaml'']"

definition same_version :: "os_stat \<Rightarrow> os_stat \<Rightarrow> bool" where
  "same_version a b \<longleftrightarrow> st_dev a = st_dev b \<and> st_ino a = st_ino b \<and> st_size a = st_size b
     \<and> st_mtime_ns a = st_mtime_ns b \<and> st_ctime_ns a = st_ctime_ns b"

definition single_regular :: "os_stat \<Rightarrow> bool" where
  "single_regular m \<longleftrightarrow> st_kind m = Regular \<and> st_nlink m = 1"

definition workflow_text :: "workflow_file \<Rightarrow> os_stat \<Rightarrow> string result" where
  "workflow_text f before =
     rbind (wf_opened f) (\<lambda>opened.
     require (single_regular opened \<and> same_inode opened before) (ValueError ''workflow identity changed before read'')
     (rbind (wf_bytes f) (\<lambda>bytes.
      rbind (wf_after f) (\<lambda>after.
      require (single_regular after \<and> same_version after opened) (ValueError ''workflow identity changed during read'')
      (of_option (decode_error ''invalid utf-8'') (utf8_decode bytes))))))"

text \<open>One file: its text, or the message about it.\<close>

definition read_workflow :: "workflow_file \<Rightarrow> (string + string \<times> string) result" where
  "read_workflow f =
     (case rbind (wf_before f) (\<lambda>before.
             if \<not> single_regular before then Inr (Inl (wf_name f @ '': workflow must be a single-linked regular file''))
             else rbind (workflow_text f before) (\<lambda>text. Inr (Inr (wf_name f, text)))) of
        Inl e \<Rightarrow>
          (if is_OSError e \<or> is_ValueError e then Inr (Inl (wf_name f @ '': workflow file is unsafe: '' @ exn_text e)) else Inl e)
      | Inr r \<Rightarrow> Inr r)"

fun open_components :: "os_stat result list \<Rightarrow> string option" where
  "open_components [] = None"
| "open_components (Inl (FileNotFoundError m) # cs) = Some ''no GitHub Actions workflows found''"
| "open_components (Inl e # cs) = Some (''workflow directory is unsafe: '' @ exn_text e)"
| "open_components (Inr m # cs) =
     (if st_kind m \<noteq> Directory then Some ''workflow directory component must be a directory'' else open_components cs)"

text \<open>The messages collected until a call fails, and that failure.\<close>

fun recheck_components :: "(os_stat result \<times> os_stat result) list \<Rightarrow> string list \<times> exn option" where
  "recheck_components [] = ([], None)"
| "recheck_components ((current, opened) # cs) =
     (case rbind current (\<lambda>now. rbind opened (\<lambda>held. Inr (st_kind now = Directory \<and> same_inode now held))) of
        Inl e \<Rightarrow> ([], Some e)
      | Inr ok \<Rightarrow>
          (let (errors, failure) = recheck_components cs in
           (unless ok ''workflow directory changed during verification'' @ errors, failure)))"

definition boundary_error :: "exn \<Rightarrow> string" where
  "boundary_error e = ''workflow filesystem boundary is unsafe: '' @ exn_text e"

text \<open>The documents and the errors, or the exception that escapes.\<close>

definition safe_workflow_documents :: "workflow_calls \<Rightarrow> ((string \<times> string) list \<times> string list) result" where
  "safe_workflow_documents c =
     (case wc_root c of
        Inl e \<Rightarrow> (if is_OSError e then Inr ([], [boundary_error e]) else Inl e)
      | Inr _ \<Rightarrow>
          (case open_components (wc_components c) of
             Some message \<Rightarrow> Inr ([], [message])
           | None \<Rightarrow>
               (case wc_files c of
                  Inl e \<Rightarrow> (if is_OSError e then Inr ([], [boundary_error e]) else Inl e)
                | Inr files \<Rightarrow>
                    rbind (mapr read_workflow (sort_key wf_name (filter (\<lambda>f. is_workflow_name (wf_name f)) files))) (\<lambda>outcomes.
                    (let documents = concat (map (\<lambda>r. case r of Inr d \<Rightarrow> [d] | _ \<Rightarrow> []) outcomes);
                         errors = concat (map (\<lambda>r. case r of Inl m \<Rightarrow> [m] | _ \<Rightarrow> []) outcomes) in
                     case recheck_components (wc_again c) of
                       (late, None) \<Rightarrow> Inr (documents, errors @ late)
                     | (late, Some e) \<Rightarrow> (if is_OSError e then Inr (documents, errors @ late @ [boundary_error e]) else Inl e))))))"


section \<open>\<open>verify_guard\<close>\<close>

definition exempt_names :: "obj \<Rightarrow> string list" where
  "exempt_names controls =
     (let v = get_default controls ''exempt_workflows'' (JArr []) in if str_list v then map str_val (list_val v) else [])"

definition guard_controls :: "obj \<Rightarrow> obj" where
  "guard_controls contract = dict_val (get_default contract ''workflow_controls'' (JObj []))"

definition guard_hosted :: "obj \<Rightarrow> obj" where
  "guard_hosted contract = dict_val (get_default contract ''hosted'' (JObj []))"

definition guard_exceptions :: "obj \<Rightarrow> obj" where
  "guard_exceptions controls = dict_val (get_default controls ''write_permission_exceptions'' (JObj []))"

definition inspect_document :: "(string \<Rightarrow> yaml result) \<Rightarrow> obj \<Rightarrow> string \<times> string \<Rightarrow> (string list \<times> obj) result" where
  "inspect_document load contract = (\<lambda>(name, source).
     let controls = guard_controls contract; exempt = name \<in> set (exempt_names controls) in
     rbind (inspect_workflow name (load source) (if exempt then [] else controls) (guard_hosted contract)
              (if exempt then JObj [] else get_default (guard_exceptions controls) name (JObj []))) (\<lambda>(errors, report).
     Inr (errors, if exempt then put ''exempt'' (JBool True) report else report)))"

record guard_world =
  gw_project :: string
  gw_contract :: contract_calls
  gw_workflows :: workflow_calls
  gw_yaml :: "string \<Rightarrow> yaml result"

definition verify_guard :: "guard_world \<Rightarrow> obj result" where
  "verify_guard w =
     rbind (read_contract (gw_contract w)) (\<lambda>contract.
     rbind (validate_contract contract) (\<lambda>contract_errors.
     rbind (safe_workflow_documents (gw_workflows w)) (\<lambda>(documents, filesystem_errors).
     (let controls = guard_controls contract; names = map fst documents in
      rbind (mapr (inspect_document (gw_yaml w) contract) documents) (\<lambda>inspected.
      (let errors = contract_errors @ filesystem_errors
             @ unless (documents \<noteq> [] \<or> filesystem_errors \<noteq> []) ''no GitHub Actions workflows found''
             @ map (\<lambda>m. ''exempt workflows reference missing workflow '' @ m)
                 (sorted_strings (filter (\<lambda>n. n \<notin> set names) (exempt_names controls)))
             @ map (\<lambda>m. ''write permission exceptions reference missing workflow '' @ m)
                 (sorted_strings (filter (\<lambda>n. n \<notin> set names) (map fst (guard_exceptions controls))))
             @ concat (map fst inspected) in
       Inr [(''ok'', JBool (errors = [])), (''project'', JStr (gw_project w)), (''contract'', JStr contract_path),
            (''hosted_budget'', get_default contract ''hosted'' (JObj [])), (''workflows'', JArr (map (\<lambda>r. JObj (snd r)) inspected)),
            (''errors'', JArr (map JStr errors))]))))))"


section \<open>The local gate\<close>

text \<open>The calls that take the lock, and what running one command does.\<close>

record lock_calls =
  lk_uid :: "int option"
  lk_base :: "os_stat result"
  lk_directory :: "os_stat result"
  lk_opened :: "os_stat result"
  lk_path :: "os_stat result"
  lk_flock :: "unit result"
  lk_path_again :: "os_stat result"
  lk_directory_again :: "os_stat result"

definition local_gate_lock :: "lock_calls \<Rightarrow> unit result" where
  "local_gate_lock c =
     (case lk_uid c of
        None \<Rightarrow> Inl (ValueError ''Local Green serialization requires a POSIX user identity'')
      | Some uid \<Rightarrow>
          rbind (lk_base c) (\<lambda>base.
          require (st_kind base = Directory) (ValueError ''Local Green lock base must be a physical directory'')
          (rbind (lk_directory c) (\<lambda>directory.
           require (st_kind directory = Directory \<and> st_perm directory = 448 \<and> st_uid directory = uid)
             (ValueError ''Local Green lock directory must be owner-only'')
           (rbind (lk_opened c) (\<lambda>opened.
            rbind (lk_path c) (\<lambda>path.
            require (single_regular opened \<and> st_perm opened = 384 \<and> st_uid opened = uid \<and> same_inode opened path)
              (ValueError ''Local Green lock must be an owner-only regular file'')
            (rbind (lk_flock c) (\<lambda>_.
             rbind (lk_path_again c) (\<lambda>path_again.
             rbind (lk_directory_again c) (\<lambda>directory_again.
             require (same_inode opened path_again \<and> same_inode directory directory_again)
               (ValueError ''Local Green lock identity changed'') (Inr ()))))))))))))"

datatype command_outcome = Exited int json | Timed_out json | Not_started exn

text \<open>\<open>list(configured_command)\<close> and the test of its first element.\<close>

definition command_argv :: "json \<Rightarrow> json list result" where
  "command_argv configured =
     rbind (iter_items configured) (\<lambda>argv.
     require (argv \<noteq> []) (IndexError ''list index out of range'')
     (require (hashable (hd argv)) (TypeError ''unhashable type'') (Inr argv)))"

definition executed_command :: "json \<Rightarrow> json list \<Rightarrow> json list" where
  "executed_command interpreter argv =
     (if hd argv \<in> set [JStr ''python'', JStr ''python3''] then interpreter # tl argv else argv)"

definition command_result :: "json \<Rightarrow> json list \<Rightarrow> json \<Rightarrow> json \<Rightarrow> int \<Rightarrow> obj" where
  "command_result configured executed timeout duration code =
     [(''configured_command'', configured), (''executed_command'', JArr executed), (''returncode'', JInt code),
      (''duration_seconds'', duration), (''timeout_seconds'', timeout), (''timed_out'', JBool False)]"

text \<open>
  What \<open>dict.update\<close> adds: the items of a mapping, or the pairs of a sequence. The keys are
  texts, numbers or the like; the values are any.
\<close>

definition update_pair :: "json \<Rightarrow> (json \<times> json) result" where
  "update_pair v =
     rbind (iter_items v) (\<lambda>xs.
     require (length xs = 2) (ValueError ''dictionary update sequence element has a wrong length; 2 is required'')
     (require (hashable (xs ! 0)) (TypeError ''unhashable type'') (Inr (xs ! 0, xs ! 1))))"

definition environment_update :: "json \<Rightarrow> (json \<times> json) list result" where
  "environment_update v =
     (if is_dict v then Inr (map (\<lambda>(k, x). (JStr k, x)) (dict_val v)) else rbind (iter_items v) (mapr update_pair))"

text \<open>
  Commands run in order; the first failure ends the gate. \<open>run\<close> is given the argument vector; the
  process environment it uses is fixed for the gate.
\<close>

fun run_commands :: "(json list \<Rightarrow> command_outcome) \<Rightarrow> json \<Rightarrow> json \<Rightarrow> json list \<Rightarrow> obj list result" where
  "run_commands run interpreter timeout [] = Inr []"
| "run_commands run interpreter timeout (c # cs) =
     rbind (command_argv c) (\<lambda>argv.
     (case run (executed_command interpreter argv) of
        Not_started e \<Rightarrow> Inl e
      | Timed_out d \<Rightarrow>
          Inl (ValueError (''local Green Gate failed: '' @ str_val (hd argv) @ '' exceeded '' @ show_int (int_val timeout) @ '' seconds''))
      | Exited code d \<Rightarrow>
          require (code = 0) (ValueError (''local Green Gate failed: '' @ str_val (hd argv) @ '' exited '' @ show_int code))
          (rbind (run_commands run interpreter timeout cs) (\<lambda>rs.
           Inr (command_result c (executed_command interpreter argv) timeout d code # rs)))))"

text \<open>The contract is read a second time, after the guard passed; the second read is an argument of its own.\<close>

definition run_local_gate_locked ::
  "guard_world \<Rightarrow> contract_calls \<Rightarrow> json \<Rightarrow> ((json \<times> json) list \<Rightarrow> json list \<Rightarrow> command_outcome) \<Rightarrow> obj result" where
  "run_local_gate_locked w second_read interpreter run =
     rbind (verify_guard w) (\<lambda>report.
     require (get report ''ok'' = JBool True)
       (ValueError (''CI Cost Guard verification failed: '' @ join ''; '' (map str_val (list_val (get report ''errors'')))))
     (rbind (read_contract second_read) (\<lambda>contract.
      rbind (item (JObj contract) ''local_green'') (\<lambda>v.
      rbind (if is_dict v then Inr (dict_val v) else Inl (AttributeError ''get'')) (\<lambda>local_green.
      rbind (environment_update (get_default local_green ''environment'' (JObj []))) (\<lambda>environment.
      rbind (item v ''commands'') (\<lambda>commands.
      rbind (iter_items commands) (\<lambda>rows.
      rbind (run_commands (run environment) interpreter (local_timeout local_green) rows) (\<lambda>results.
      Inr [(''ok'', JBool True), (''project'', JStr (gw_project w)), (''commands'', JArr (map JObj results))])))))))))"

definition run_local_gate ::
  "lock_calls \<Rightarrow> guard_world \<Rightarrow> contract_calls \<Rightarrow> json \<Rightarrow> ((json \<times> json) list \<Rightarrow> json list \<Rightarrow> command_outcome) \<Rightarrow> obj result" where
  "run_local_gate lock w second_read interpreter run =
     rbind (local_gate_lock lock) (\<lambda>_. run_local_gate_locked w second_read interpreter run)"

end
