(* ===== verification/Ci_Facts.thy ===== *)
theory Ci_Facts
  imports Ci_Guard
begin

text \<open>
  What the CI cost guard guarantees (src/src/sddgov/ci_guard.py): the condition it accepts on a
  pull-request job really is false on a draft, a workflow without errors conforms to the
  contract, and the local gate passes only when every configured command passed.
\<close>


section \<open>The meaning of a job condition\<close>

text \<open>
  The conditions that the guard can accept, read the way the hosting service documents them:
  blanks are ignored outside single quotes, \<open>||\<close> binds weaker than \<open>&&\<close>, and an operand compares
  a context value with a literal. \<open>eq path literal\<close> says whether the two are equal in a run. A
  text of any other form has no value here.
\<close>

fun squeeze :: "bool \<Rightarrow> string \<Rightarrow> string" where
  "squeeze quoted [] = []"
| "squeeze quoted (c # cs) =
     (if c = CHR 0x27 then c # squeeze (\<not> quoted) cs
      else if \<not> quoted \<and> is_space c then squeeze quoted cs
      else c # squeeze quoted cs)"

fun split_top :: "char \<Rightarrow> bool \<Rightarrow> string \<Rightarrow> string \<Rightarrow> string list" where
  "split_top x quoted acc (c # d # rest) =
     (if \<not> quoted \<and> c = x \<and> d = x then rev acc # split_top x False [] rest
      else split_top x (quoted \<noteq> (c = CHR 0x27)) (c # acc) (d # rest))"
| "split_top x quoted acc [c] = [rev (c # acc)]"
| "split_top x quoted acc [] = [rev acc]"

definition eval_atom :: "(string \<Rightarrow> string \<Rightarrow> bool) \<Rightarrow> string \<Rightarrow> bool option" where
  "eval_atom eq s =
     (let path = atom_path s; rest = drop (length path) s in
      if take 2 rest = ''=='' then Some (eq path (drop 2 rest))
      else if take 2 rest = ''!='' then Some (\<not> eq path (drop 2 rest))
      else None)"

definition all_some :: "('a list \<Rightarrow> bool) \<Rightarrow> 'a option list \<Rightarrow> bool option" where
  "all_some p vs = (if None \<in> set vs then None else Some (p (map the vs)))"

definition eval_conjunction :: "(string \<Rightarrow> string \<Rightarrow> bool) \<Rightarrow> string \<Rightarrow> bool option" where
  "eval_conjunction eq s = all_some (list_all id) (map (eval_atom eq) (split_top (CHR ''&'') False [] s))"

definition eval_condition :: "(string \<Rightarrow> string \<Rightarrow> bool) \<Rightarrow> string \<Rightarrow> bool option" where
  "eval_condition eq s =
     all_some (list_ex id) (map (eval_conjunction eq) (split_top (CHR ''|'') False [] (squeeze False (strip_expression s))))"

lemma split_top_char:
  "c \<noteq> x \<or> quoted \<Longrightarrow> split_top x quoted acc (c # rest) = split_top x (quoted \<noteq> (c = CHR 0x27)) (c # acc) rest"
  by (cases rest) auto

lemma split_top_plain:
  "list_all (\<lambda>c. c \<noteq> x \<and> c \<noteq> CHR 0x27) u \<Longrightarrow> split_top x False acc (u @ rest) = split_top x False (rev u @ acc) rest"
  by (induction u arbitrary: acc) (simp_all add: split_top_char)

lemma split_top_inside:
  "CHR 0x27 \<notin> set u \<Longrightarrow> split_top x True acc (u @ rest) = split_top x True (rev u @ acc) rest"
  by (induction u arbitrary: acc) (auto simp add: split_top_char)

lemma split_top_quoted:
  assumes "x \<noteq> CHR 0x27" and "CHR 0x27 \<notin> set u"
  shows "split_top x False acc ((CHR 0x27 # u @ [CHR 0x27]) @ rest) = split_top x False (rev (CHR 0x27 # u @ [CHR 0x27]) @ acc) rest"
  using assms by (simp add: split_top_char split_top_inside)

lemma contains_text_iff: "contains_text p s \<longleftrightarrow> (\<exists>n\<le>length s. starts_with p (drop n s))"
  unfolding contains_text_def list_ex_iff set_upt by (metis atLeastLessThan_iff le0 less_Suc_eq_le)

lemma contains_text_Cons: "\<not> contains_text p (c # s) \<Longrightarrow> \<not> contains_text p s"
  unfolding contains_text_iff by (metis drop_Suc_Cons length_Cons not_less_eq_eq)

lemma split_top_none: "\<not> contains_text [x, x] s \<Longrightarrow> split_top x quoted acc s = [rev acc @ s]"
proof (induction x quoted acc s rule: split_top.induct)
  case (1 x quoted acc c d rest)
  have "\<not> (c = x \<and> d = x)"
  proof
    assume "c = x \<and> d = x"
    then have "starts_with [x, x] (drop 0 (c # d # rest))" by (simp add: starts_with_def)
    then have "contains_text [x, x] (c # d # rest)"
      unfolding contains_text_iff by (intro exI [of _ 0]) simp
    then show False using "1.prems" by blast
  qed
  then show ?case using "1.IH"(2) contains_text_Cons [OF "1.prems"] by auto
qed simp_all

lemma split_and_nonempty: "split_and acc s \<noteq> []"
  by (induction acc s rule: split_and.induct) auto

lemma join_split_and: "join ''&&'' (split_and acc s) = rev acc @ s"
proof (induction acc s rule: split_and.induct)
  case (1 acc c d rest)
  show ?case
  proof (cases "c = CHR ''&'' \<and> d = CHR ''&''")
    case True
    obtain y ys where "split_and [] rest = y # ys" using split_and_nonempty by (cases "split_and [] rest") auto
    then show ?thesis using True 1 by simp
  qed (use 1 in auto)
qed simp_all

definition plain_char :: "char \<Rightarrow> bool" where
  "plain_char c \<longleftrightarrow> c \<noteq> CHR ''&'' \<and> c \<noteq> CHR 0x27"

lemma split_top_plain_char:
  "list_all plain_char u \<Longrightarrow> split_top (CHR ''&'') False acc (u @ rest) = split_top (CHR ''&'') False (rev u @ acc) rest"
  by (rule split_top_plain) (simp add: list_all_iff plain_char_def)

lemma word_plain: "is_word_char c \<or> c = CHR ''.'' \<Longrightarrow> plain_char c"
  by (auto simp: plain_char_def is_word_char_def Let_def)

lemma digit_plain: "is_digit c \<Longrightarrow> plain_char c"
  by (auto simp: plain_char_def is_digit_def)

lemma simple_atom_shape:
  assumes "is_simple_atom a" and "CHR 0x22 \<notin> set a"
  obtains pre lit where "a = pre @ lit" and "list_all plain_char pre"
    and "list_all plain_char lit \<or> (\<exists>u. lit = CHR 0x27 # u @ [CHR 0x27] \<and> CHR 0x27 \<notin> set u)"
proof -
  define path where "path = atom_path a"
  define rest where "rest = drop (length path) a"
  have op: "take 2 rest = ''=='' \<or> take 2 rest = ''!=''" and lit: "is_atom_literal (drop 2 rest)"
    using assms(1) by (auto simp: is_simple_atom_def path_def rest_def Let_def)
  have a: "a = (path @ take 2 rest) @ drop 2 rest"
    by (simp add: path_def rest_def atom_path_def takeWhile_dropWhile_id dropWhile_eq_drop [symmetric])
  have "list_all plain_char path"
    unfolding path_def atom_path_def list_all_iff using word_plain by (blast dest: set_takeWhileD)
  then have pre: "list_all plain_char (path @ take 2 rest)" using op by (auto simp: plain_char_def)
  have "CHR 0x22 \<notin> set (drop 2 rest)" using assms(2) a by (metis Un_iff set_append)
  then have "\<not> quoted_by (CHR 0x22) (drop 2 rest)"
    unfolding quoted_by_def by (metis hd_in_set list.size(3) not_numeral_le_zero)
  then consider "quoted_by (CHR 0x27) (drop 2 rest)"
    | "list_all is_digit (if starts_with ''-'' (drop 2 rest) then tl (drop 2 rest) else drop 2 rest)"
    | "drop 2 rest \<in> set [''true'', ''false'']"
    using lit by (auto simp: is_atom_literal_def Let_def)
  then show ?thesis
  proof cases
    case 1
    let ?l = "drop 2 rest"
    obtain m where m: "?l = CHR 0x27 # m @ [CHR 0x27]"
    proof (cases ?l)
      case (Cons c cs)
      then have "c = CHR 0x27" "cs \<noteq> []" "last cs = CHR 0x27" using 1 by (auto simp: quoted_by_def split: if_splits)
      then have "drop 2 rest = CHR 0x27 # butlast cs @ [CHR 0x27]" using Cons append_butlast_last_id [of cs] by simp
      then show ?thesis by (rule that)
    qed (use 1 in \<open>simp add: quoted_by_def\<close>)
    then have "CHR 0x27 \<notin> set m" using 1 by (auto simp: quoted_by_def list_all_iff)
    then show ?thesis using that [OF a pre] m by blast
  next
    case 2
    have "list_all plain_char (drop 2 rest)"
    proof (cases "starts_with ''-'' (drop 2 rest)")
      case True
      then obtain cs where "drop 2 rest = CHR ''-'' # cs" by (cases "drop 2 rest") (auto simp: starts_with_def)
      then show ?thesis using 2 True digit_plain by (auto simp: list_all_iff plain_char_def [of "CHR ''-''"])
    qed (use 2 digit_plain in \<open>auto simp: list_all_iff\<close>)
    then show ?thesis using that [OF a pre] by blast
  next
    case 3
    then have "list_all plain_char (drop 2 rest)" by (auto simp: plain_char_def)
    then show ?thesis using that [OF a pre] by blast
  qed
qed

lemma split_top_atom:
  assumes "is_simple_atom a" and "CHR 0x22 \<notin> set a"
  shows "split_top (CHR ''&'') False acc (a @ rest) = split_top (CHR ''&'') False (rev a @ acc) rest"
proof -
  obtain pre lit where a: "a = pre @ lit" "list_all plain_char pre"
    and lit: "list_all plain_char lit \<or> (\<exists>u. lit = CHR 0x27 # u @ [CHR 0x27] \<and> CHR 0x27 \<notin> set u)"
    using simple_atom_shape [OF assms] by metis
  have "split_top (CHR ''&'') False acc' (lit @ rest) = split_top (CHR ''&'') False (rev lit @ acc') rest" for acc'
    using lit
  proof
    assume "\<exists>u. lit = CHR 0x27 # u @ [CHR 0x27] \<and> CHR 0x27 \<notin> set u"
    then obtain u where "lit = CHR 0x27 # u @ [CHR 0x27]" "CHR 0x27 \<notin> set u" by blast
    then show ?thesis using split_top_quoted [of "CHR ''&''" u] by simp
  qed (rule split_top_plain_char)
  then show ?thesis using split_top_plain_char [OF a(2)] a(1) by simp
qed

lemma split_top_join:
  "list_all is_simple_atom atoms \<Longrightarrow> \<forall>a\<in>set atoms. CHR 0x22 \<notin> set a \<Longrightarrow> atoms \<noteq> [] \<Longrightarrow>
    split_top (CHR ''&'') False [] (join ''&&'' atoms) = atoms"
proof (induction atoms rule: induct_list012)
  case (2 a)
  then show ?case using split_top_atom [of a "[]" "[]"] by simp
next
  case (3 a b atoms)
  then show ?case using split_top_atom [of a "[]" "''&&'' @ join ''&&'' (b # atoms)"] by simp
qed simp

lemma eval_simple_atom: "is_simple_atom a \<Longrightarrow> eval_atom eq a \<noteq> None"
  by (auto simp: is_simple_atom_def eval_atom_def Let_def)

lemma eval_draft_false: "eval_atom eq draft_false_atom = Some (eq ''github.event.pull_request.draft'' ''false'')"
  by (simp add: eval_atom_def draft_false_atom_def atom_path_def is_word_char_def)

lemma eval_conjunction_draft:
  assumes "list_all is_simple_atom (split_and [] c)" and "draft_false_atom \<in> set (split_and [] c)" and "CHR 0x22 \<notin> set c"
    and "\<not> eq ''github.event.pull_request.draft'' ''false''"
  shows "eval_conjunction eq c = Some False"
proof -
  let ?atoms = "split_and [] c"
  have c: "c = join ''&&'' ?atoms" using join_split_and [of "[]" c] by simp
  have in_join: "a \<in> set atoms \<Longrightarrow> set a \<subseteq> set (join sep atoms)" for a :: string and sep atoms
    by (induction sep atoms rule: join.induct) auto
  have "\<forall>a\<in>set ?atoms. CHR 0x22 \<notin> set a" using in_join [of _ ?atoms "''&&''"] assms(3) c by (metis subsetD)
  then have atoms: "split_top (CHR ''&'') False [] c = ?atoms"
    using split_top_join [OF assms(1)] split_and_nonempty c by metis
  have none: "None \<notin> eval_atom eq ` set ?atoms" 
  proof
    assume "None \<in> eval_atom eq ` set ?atoms"
    then obtain a where "a \<in> set ?atoms" "eval_atom eq a = None" by auto
    then show False using assms(1) eval_simple_atom [of a eq] by (simp add: list_all_iff)
  qed
  have "\<not> list_all id (map the (map (eval_atom eq) ?atoms))"
    using assms(2,4) eval_draft_false [of eq] by (auto simp: list_all_iff intro!: bexI [of _ draft_false_atom])
  with none show ?thesis by (simp add: eval_conjunction_def all_some_def atoms)
qed

definition other_event_atom :: "string \<Rightarrow> string" where
  "other_event_atom event = ''github.event_name!='' @ quoted_single event"

definition eval_atom_rest :: "string \<Rightarrow> string" where
  "eval_atom_rest s = drop (length (atom_path s)) s"

lemma exact_guard_parts:
  "\<forall>event\<in>set pull_request_names.
     split_top (CHR ''|'') False [] (''github.event_name!='' @ quoted_single event @ ''||'' @ draft_false_atom) = [other_event_atom event, draft_false_atom]
     \<and> split_top (CHR ''&'') False [] (other_event_atom event) = [other_event_atom event]
     \<and> split_top (CHR ''&'') False [] draft_false_atom = [draft_false_atom]
     \<and> atom_path (other_event_atom event) = ''github.event_name''
     \<and> eval_atom_rest (other_event_atom event) = ''!='' @ quoted_single event"
  by code_simp

lemma eval_exact_guard:
  assumes "event \<in> set pull_request_names" and "\<not> eq ''github.event.pull_request.draft'' ''false''"
    and "eq ''github.event_name'' (quoted_single event)"
  shows "all_some (list_ex id) (map (eval_conjunction eq)
      (split_top (CHR ''|'') False [] (''github.event_name!='' @ quoted_single event @ ''||'' @ draft_false_atom))) = Some False"
proof -
  note parts = bspec [OF exact_guard_parts assms(1)]
  have "eval_atom eq (other_event_atom event) = Some False"
    unfolding eval_atom_def Let_def eval_atom_rest_def [symmetric] using parts assms(3) by simp
  then have "eval_conjunction eq (other_event_atom event) = Some False"
    using parts by (simp add: eval_conjunction_def all_some_def)
  moreover have "eval_conjunction eq draft_false_atom = Some False"
    using parts eval_draft_false [of eq] assms(2) by (simp add: eval_conjunction_def all_some_def)
  ultimately show ?thesis using parts by (simp add: all_some_def)
qed

lemma set_strip: "set (strip s) \<subseteq> set s"
  unfolding strip_def by (auto dest!: set_dropWhileD)

lemma set_strip_expression: "set (strip_expression s) \<subseteq> set s"
proof -
  have "set (strip (drop 3 (take n (strip s)))) \<subseteq> set s" for n
    using set_strip [of "drop 3 (take n (strip s))"] set_drop_subset [of 3 "take n (strip s)"] set_take_subset [of n "strip s"]
      set_strip [of s] by blast
  then show ?thesis using set_strip [of s] by (simp add: strip_expression_def Let_def)
qed


definition draft_run :: "string \<Rightarrow> string \<Rightarrow> bool" where
  "draft_run path literal \<longleftrightarrow> (path = ''github.event.pull_request.draft'' \<and> literal = ''true'')
     \<or> (path = ''github.event_name'' \<and> literal = quoted_single ''pull_request'')"

definition guarded_condition :: string where
  "guarded_condition = ''github.event_name == '' @ quoted_single ''pull_request'' @ '' && github.event.pull_request.draft == false''"


text \<open>
  The condition on the literals is needed: the guard removes blanks inside quotes as well, so a
  condition on an event name with a blank passes for the exact guard of the event without it,
  while in a run its first operand is always true, and the job runs on drafts.
\<close>

definition bypassing_condition :: string where
  "bypassing_condition = ''github.event_name != '' @ quoted_single ''pull_ request'' @ '' || github.event.pull_request.draft == false''"

theorem draft_guard_bypassed:
  "draft_condition_is_safe (YStr bypassing_condition) [''pull_request''] \<and> eval_condition draft_run bypassing_condition = Some True"
  by code_simp

section \<open>A workflow without errors\<close>

lemma unless_Nil [simp]: "unless ok m = [] \<longleftrightarrow> ok"
  by (simp add: unless_def)

lemma mapr_elem: "mapr f xs = Inr ys \<Longrightarrow> x \<in> set xs \<Longrightarrow> \<exists>y\<in>set ys. f x = Inr y"
  by (induction xs arbitrary: ys) (auto simp: rbind_Inr_iff)

definition permission_row_ok :: "string list \<Rightarrow> yaml \<times> yaml \<Rightarrow> bool" where
  "permission_row_ok allowed = (\<lambda>(key, permission). is_ystr key
     \<and> (permission \<in> {YStr ''read'', YStr ''none''} \<or> permission = YStr ''write'' \<and> ystr key \<in> set allowed))"

definition permissions_ok :: "yaml \<Rightarrow> bool \<Rightarrow> string list \<Rightarrow> bool" where
  "permissions_ok v require_contents allowed \<longleftrightarrow> is_ymap v \<and> list_all (permission_row_ok allowed) (ymap_val v)
     \<and> (require_contents \<longrightarrow> yget (ymap_val v) ''contents'' = YStr ''read'')
     \<and> (\<forall>p\<in>set allowed. yget (ymap_val v) p = YStr ''write'')"

lemma grants_more_ok: "grants_more allowed r = Inr False \<Longrightarrow> permission_row_ok allowed r"
proof -
  assume a: "grants_more allowed r = Inr False"
  obtain key p where r: "r = (key, p)" by (metis surj_pair)
  have "is_ystr key" "yin_strings p [''read'', ''none''] = Inr True \<or> p = YStr ''write'' \<and> ystr key \<in> set allowed"
    using a by (auto simp: grants_more_def r rbind_Inr_iff split: if_splits)
  then show ?thesis by (cases p) (auto simp: permission_row_ok_def r)
qed

lemma permission_errors_ok: "permission_errors v label require_contents allowed = Inr [] \<Longrightarrow> permissions_ok v require_contents allowed"
proof -
  assume a: "permission_errors v label require_contents allowed = Inr []"
  have v: "is_ymap v" using a by (auto simp: permission_errors_def split: if_splits)
  obtain bad where bad: "mapr (grants_more allowed) (ymap_val v) = Inr bad" "filter id bad = []"
    and rest: "require_contents \<longrightarrow> yget (ymap_val v) ''contents'' = YStr ''read''"
      "filter (\<lambda>p. yget (ymap_val v) p \<noteq> YStr ''write'') (sorted_strings allowed) = []"
    using a v by (auto simp: permission_errors_def Let_def rbind_Inr_iff)
  have "\<forall>r\<in>set (ymap_val v). \<exists>b\<in>set bad. grants_more allowed r = Inr b"
    using mapr_elem [OF bad(1)] by blast
  moreover have "\<forall>b\<in>set bad. b = False" using bad(2) by (auto simp: filter_empty_conv)
  ultimately have "list_all (permission_row_ok allowed) (ymap_val v)"
    unfolding list_all_iff using grants_more_ok by metis
  then show ?thesis using v rest by (auto simp: permissions_ok_def sorted_strings_def filter_empty_conv)
qed

text \<open>What the contract asks of a workflow.\<close>

definition workflow_conforms :: "obj \<Rightarrow> obj \<Rightarrow> obj \<Rightarrow> ymap \<Rightarrow> bool" where
  "workflow_conforms controls hosted exceptions doc \<longleftrightarrow>
     (let events = event_mapping (yget doc ''on''); jobs = jobs_of (yget doc ''jobs''); concurrency = yget doc ''concurrency'';
          names = filter (yhas events) pull_request_names in
      is_ymap (yget doc ''jobs'') \<and> length jobs = length (ymap_val (yget doc ''jobs''))
      \<and> (\<forall>(n, j)\<in>set jobs. valid_runner (yget j ''runs-on'')
           \<and> (enabled controls ''require_job_timeouts'' \<longrightarrow> timeout_ok (yget j ''timeout-minutes''))
           \<and> (enabled controls ''require_read_only_permissions'' \<longrightarrow> yhas j ''permissions'' \<longrightarrow>
                permissions_ok (yget j ''permissions'') False (allowed_writes exceptions n))
           \<and> (enabled controls ''skip_draft_pull_requests'' \<longrightarrow> names \<noteq> [] \<longrightarrow> draft_condition_is_safe (yget j ''if'') names))
      \<and> (enabled controls ''skip_draft_pull_requests'' \<longrightarrow> names \<noteq> [] \<longrightarrow>
           (\<forall>t\<in>set [''ready_for_review'', ''converted_to_draft'']. YStr t \<in> set (concat (map (\<lambda>n. event_types (yget events n)) names))))
      \<and> (enabled controls ''require_read_only_permissions'' \<longrightarrow> jobs \<noteq> [] \<longrightarrow> permissions_ok (yget doc ''permissions'') True [])
      \<and> (enabled controls ''require_concurrency'' \<longrightarrow> jobs \<noteq> [] \<longrightarrow> is_ymap concurrency \<and> strip (ystr (yget (ymap_val concurrency) ''group'')) \<noteq> [])
      \<and> (enabled controls ''cancel_in_progress'' \<longrightarrow> is_automatic events \<longrightarrow> yget (ymap_val concurrency) ''cancel-in-progress'' = YBool True)
      \<and> \<not> (get_default hosted ''post_merge_verification'' (JStr ''automatic'') = JStr ''manual_only'' \<and> yhas events ''push''))"

lemma prefixed_Nil [simp]: "prefixed n es = [] \<longleftrightarrow> es = []"
  by (simp add: prefixed_def)

lemma filter_pair_Nil: "map f (filter (\<lambda>(n, j). \<not> P n j) xs) = [] \<longleftrightarrow> (\<forall>(n, j)\<in>set xs. P n j)"
  by (auto simp: filter_empty_conv)

lemma job_permissions_ok:
  assumes "mapr (job_permission_errors exceptions) jobs = Inr errors" and "concat errors = []" and "(n, j) \<in> set jobs" and "yhas j ''permissions''"
  shows "permissions_ok (yget j ''permissions'') False (allowed_writes exceptions n)"
proof -
  obtain es where "es \<in> set errors" "job_permission_errors exceptions (n, j) = Inr es"
    using mapr_elem [OF assms(1,3)] by blast
  moreover have "\<forall>es\<in>set errors. es = []" using assms(2) by simp
  ultimately have "job_permission_errors exceptions (n, j) = Inr []" by simp
  then show ?thesis using assms(4) permission_errors_ok by (simp add: job_permission_errors_def Let_def)
qed

lemma inspect_workflow_clean:
  assumes "inspect_workflow name loaded controls hosted write_exceptions = Inr ([], report)"
  obtains doc where "loaded = Inr (YMap doc)" and "workflow_conforms controls hosted (dict_val write_exceptions) doc"
proof (cases loaded)
  case (Inl e)
  then show ?thesis using assms by (cases e) (simp_all add: inspect_workflow_def)
next
  case (Inr v)
  then obtain doc where v: "v = YMap doc" using assms by (cases v) (auto simp: inspect_workflow_def)
  define jobs where "jobs = jobs_of (yget doc ''jobs'')"
  define events where "events = event_mapping (yget doc ''on'')"
  obtain permission where p: "workflow_permission_errors doc controls (dict_val write_exceptions) jobs = Inr permission"
    and e: "\<not> (get_default hosted ''post_merge_verification'' (JStr ''automatic'') = JStr ''manual_only'' \<and> yhas events ''push'')"
      "job_errors doc (yget doc ''jobs'') = []" "permission = []"
      "concurrency_errors doc controls jobs (is_automatic events) = []" "draft_errors events controls jobs = []" "timeout_errors controls jobs = []"
    using assms unfolding Inr v inspect_workflow_def sum.case is_ymap.simps ymap_val.simps Let_def jobs_def [symmetric] events_def [symmetric]
    by (simp add: rbind_Inr_iff)
  have jobs: "is_ymap (yget doc ''jobs'')" "length jobs = length (ymap_val (yget doc ''jobs''))"
    "\<forall>(n, j)\<in>set jobs. valid_runner (yget j ''runs-on'')"
    using e(2) unfolding job_errors_def jobs_def [symmetric] append_is_Nil_conv unless_Nil filter_pair_Nil by blast+
  have timeouts: "enabled controls ''require_job_timeouts'' \<longrightarrow> (\<forall>(n, j)\<in>set jobs. timeout_ok (yget j ''timeout-minutes''))"
    using e(6) unfolding timeout_errors_def by (simp only: filter_pair_Nil simp_thms split: if_splits)
  let ?names = "filter (yhas events) pull_request_names"
  have drafts: "enabled controls ''skip_draft_pull_requests'' \<longrightarrow> ?names \<noteq> [] \<longrightarrow>
      (\<forall>(n, j)\<in>set jobs. draft_condition_is_safe (yget j ''if'') ?names)
      \<and> (\<forall>t\<in>set [''ready_for_review'', ''converted_to_draft'']. YStr t \<in> set (concat (map (\<lambda>n. event_types (yget events n)) ?names)))"
  proof (intro impI)
    assume on: "enabled controls ''skip_draft_pull_requests''" "?names \<noteq> []"
    then have c: "?names \<noteq> [] \<and> enabled controls ''skip_draft_pull_requests''" by blast
    show "(\<forall>(n, j)\<in>set jobs. draft_condition_is_safe (yget j ''if'') ?names)
      \<and> (\<forall>t\<in>set [''ready_for_review'', ''converted_to_draft'']. YStr t \<in> set (concat (map (\<lambda>n. event_types (yget events n)) ?names)))"
      using e(5) unfolding draft_errors_def Let_def if_P [OF c] append_is_Nil_conv filter_pair_Nil
      by (simp only: map_is_Nil_conv filter_empty_conv not_not) blast
  qed
  have concurrency: "enabled controls ''require_concurrency'' \<longrightarrow> jobs \<noteq> [] \<longrightarrow>
      is_ymap (yget doc ''concurrency'') \<and> strip (ystr (yget (ymap_val (yget doc ''concurrency'')) ''group'')) \<noteq> []"
    "enabled controls ''cancel_in_progress'' \<longrightarrow> is_automatic events \<longrightarrow>
      yget (ymap_val (yget doc ''concurrency'')) ''cancel-in-progress'' = YBool True"
    using e(4) unfolding concurrency_errors_def Let_def by (auto split: if_splits)
  have permissions: "enabled controls ''require_read_only_permissions'' \<longrightarrow> jobs \<noteq> [] \<longrightarrow>
      permissions_ok (yget doc ''permissions'') True []
      \<and> (\<forall>(n, j)\<in>set jobs. yhas j ''permissions'' \<longrightarrow> permissions_ok (yget j ''permissions'') False (allowed_writes (dict_val write_exceptions) n))"
  proof (intro impI)
    assume "enabled controls ''require_read_only_permissions''" "jobs \<noteq> []"
    then obtain errors where "permission_errors (yget doc ''permissions'') ''default'' True [] = Inr []"
      "mapr (job_permission_errors (dict_val write_exceptions)) jobs = Inr errors" "concat errors = []"
      using p e(3) by (auto simp: workflow_permission_errors_def rbind_Inr_iff)
    then show "permissions_ok (yget doc ''permissions'') True []
      \<and> (\<forall>(n, j)\<in>set jobs. yhas j ''permissions'' \<longrightarrow> permissions_ok (yget j ''permissions'') False (allowed_writes (dict_val write_exceptions) n))"
      using permission_errors_ok job_permissions_ok by blast
  qed
  have rows: "valid_runner (yget j ''runs-on'')
      \<and> (enabled controls ''require_job_timeouts'' \<longrightarrow> timeout_ok (yget j ''timeout-minutes''))
      \<and> (enabled controls ''require_read_only_permissions'' \<longrightarrow> yhas j ''permissions'' \<longrightarrow>
            permissions_ok (yget j ''permissions'') False (allowed_writes (dict_val write_exceptions) n))
      \<and> (enabled controls ''skip_draft_pull_requests'' \<longrightarrow> ?names \<noteq> [] \<longrightarrow> draft_condition_is_safe (yget j ''if'') ?names)"
    if "(n, j) \<in> set jobs" for n j
  proof (intro conjI impI)
    have ne: "jobs \<noteq> []" using that by (cases jobs) simp_all
    show "valid_runner (yget j ''runs-on'')" using bspec [OF jobs(3) that] by (simp only: prod.case)
    show "timeout_ok (yget j ''timeout-minutes'')" if on: "enabled controls ''require_job_timeouts''"
      using bspec [OF mp [OF timeouts on] \<open>(n, j) \<in> set jobs\<close>] by (simp only: prod.case)
    show "permissions_ok (yget j ''permissions'') False (allowed_writes (dict_val write_exceptions) n)"
      if on: "enabled controls ''require_read_only_permissions''" and has: "yhas j ''permissions''"
      using bspec [OF conjunct2 [OF mp [OF mp [OF permissions on] ne]] \<open>(n, j) \<in> set jobs\<close>] has by (simp only: prod.case simp_thms)
    show "draft_condition_is_safe (yget j ''if'') ?names" if on: "enabled controls ''skip_draft_pull_requests''" and some: "?names \<noteq> []"
      using bspec [OF conjunct1 [OF mp [OF mp [OF drafts on] some]] \<open>(n, j) \<in> set jobs\<close>] by (simp only: prod.case)
  qed
  have "workflow_conforms controls hosted (dict_val write_exceptions) doc"
    unfolding workflow_conforms_def Let_def jobs_def [symmetric] events_def [symmetric]
  proof (intro conjI ballI impI)
    show "case r of (n, j) \<Rightarrow> valid_runner (yget j ''runs-on'')
      \<and> (enabled controls ''require_job_timeouts'' \<longrightarrow> timeout_ok (yget j ''timeout-minutes''))
      \<and> (enabled controls ''require_read_only_permissions'' \<longrightarrow> yhas j ''permissions'' \<longrightarrow>
            permissions_ok (yget j ''permissions'') False (allowed_writes (dict_val write_exceptions) n))
      \<and> (enabled controls ''skip_draft_pull_requests'' \<longrightarrow> ?names \<noteq> [] \<longrightarrow> draft_condition_is_safe (yget j ''if'') ?names)"
      if "r \<in> set jobs" for r
    proof -
      obtain n j where r: "r = (n, j)" by (metis surj_pair)
      show ?thesis unfolding r prod.case by (rule rows) (use that r in simp)
    qed
  qed (use jobs(1,2) drafts concurrency permissions e(1) in \<open>simp_all only: simp_thms\<close>)
  then show ?thesis using that Inr v by blast
qed

text \<open>
  C19. A guard that reports no error has inspected conforming workflows only. Every workflow
  document that was read and is not exempt by name loads as a mapping and conforms to the
  controls of the contract: named jobs with a runner, a timeout of 1 to 360 minutes, no write
  permission beyond the declared exceptions (each of them used), a concurrency group, stale
  runs cancelled, the draft guard on every job of a pull-request workflow, and no automatic
  push when verification after the merge is manual only.
\<close>

theorem guard_ok_conforms:
  assumes "verify_guard w = Inr report" and "get report ''ok'' = JBool True"
    and "read_contract (gw_contract w) = Inr contract"
    and "safe_workflow_documents (gw_workflows w) = Inr (documents, fs_errors)" and "(name, source) \<in> set documents"
    and "name \<notin> set (exempt_names (guard_controls contract))"
  shows "\<exists>doc. gw_yaml w source = Inr (YMap doc)
    \<and> workflow_conforms (guard_controls contract) (guard_hosted contract)
        (dict_val (get_default (guard_exceptions (guard_controls contract)) name (JObj []))) doc"
proof -
  obtain contract_errors inspected where i: "mapr (inspect_document (gw_yaml w) contract) documents = Inr inspected"
    and ok: "concat (map fst inspected) = []"
    using assms(1,2) unfolding verify_guard_def assms(3,4) rbind_simps prod.case Let_def
    by (elim resultE) (auto simp: Let_def)
  obtain r where r: "r \<in> set inspected" "inspect_document (gw_yaml w) contract (name, source) = Inr r"
    using mapr_elem [OF i assms(5)] by blast
  have "fst r = []" using r(1) ok by auto
  then obtain rep where "inspect_workflow name (gw_yaml w source) (guard_controls contract) (guard_hosted contract)
      (get_default (guard_exceptions (guard_controls contract)) name (JObj [])) = Inr ([], rep)"
    using r(2) assms(6) by (auto simp: inspect_document_def Let_def rbind_Inr_iff)
  then show ?thesis by (rule inspect_workflow_clean) blast
qed

section \<open>The local gate\<close>

definition passes :: "(json list \<Rightarrow> command_outcome) \<Rightarrow> json \<Rightarrow> json \<Rightarrow> bool" where
  "passes run interpreter c \<longleftrightarrow> (\<exists>argv d. command_argv c = Inr argv \<and> run (executed_command interpreter argv) = Exited 0 d)"

lemma run_commands_Inr:
  "run_commands run interpreter timeout cs = Inr rs \<Longrightarrow>
    list_all (passes run interpreter) cs \<and> map (\<lambda>r. get r ''configured_command'') rs = cs"
proof (induction cs arbitrary: rs)
  case (Cons c cs)
  obtain argv where argv: "command_argv c = Inr argv" using Cons.prems by (auto simp: rbind_Inr_iff)
  show ?case
  proof (cases "run (executed_command interpreter argv)")
    case (Exited code d)
    then obtain rest where "code = 0" "run_commands run interpreter timeout cs = Inr rest"
      "rs = command_result c (executed_command interpreter argv) timeout d code # rest"
      using Cons.prems argv by (auto simp: rbind_Inr_iff require_Inr_iff)
    then show ?thesis using Cons.IH argv Exited by (auto simp: passes_def command_result_def)
  qed (use Cons.prems argv in auto)
qed simp

text \<open>
  C21. The local gate is green only when the guard and every command passed. A gate that returns
  held the lock, found no guard error, and reports exactly the commands of the contract in
  their order, each of which ran and exited with status 0 (none timed out, none was skipped).
\<close>

theorem local_gate_green:
  assumes "run_local_gate lock w second_read interpreter run = Inr report"
  shows "\<exists>guard contract environment commands results. local_gate_lock lock = Inr () \<and> verify_guard w = Inr guard \<and> get guard ''ok'' = JBool True
     \<and> read_contract second_read = Inr contract
     \<and> environment_update (get_default (dict_val (get contract ''local_green'')) ''environment'' (JObj [])) = Inr environment
     \<and> iter_items (get (dict_val (get contract ''local_green'')) ''commands'') = Inr commands
     \<and> get report ''commands'' = JArr (map JObj results) \<and> map (\<lambda>r. get r ''configured_command'') results = commands
     \<and> list_all (passes (run environment) interpreter) commands"
proof -
  obtain u guard contract v local_green environment c commands results where r: "local_gate_lock lock = Inr u" "verify_guard w = Inr guard"
    "get guard ''ok'' = JBool True" "read_contract second_read = Inr contract" "item (JObj contract) ''local_green'' = Inr v"
    "(if is_dict v then Inr (dict_val v) else Inl (AttributeError ''get'')) = Inr local_green"
    "environment_update (get_default local_green ''environment'' (JObj [])) = Inr environment" "item v ''commands'' = Inr c"
    "iter_items c = Inr commands" "run_commands (run environment) interpreter (local_timeout local_green) commands = Inr results"
    "Inr [(''ok'', JBool True), (''project'', JStr (gw_project w)), (''commands'', JArr (map JObj results))] = (Inr report :: obj result)"
    using assms unfolding run_local_gate_def run_local_gate_locked_def by (elim resultE) (rule that)
  have item_get: "item (JObj d) k = Inr x \<Longrightarrow> get d k = x" for d k x by (auto simp: get_def split: option.splits)
  obtain d where "v = JObj d" using r(6) by (cases v) (auto split: if_splits)
  then have c: "get (dict_val (get contract ''local_green'')) ''commands'' = c" "local_green = dict_val (get contract ''local_green'')"
    using item_get [OF r(5)] item_get r(6,8) by simp_all
  have "get report ''commands'' = JArr (map JObj results)" using r(11) by auto
  then show ?thesis using r(1,2,3,4,7,9) run_commands_Inr [OF r(10)] c by auto
qed
section \<open>A concrete guard\<close>

definition ci_stat :: os_stat where
  "ci_stat = \<lparr>st_kind = Regular, st_perm = 420, st_uid = 1000, st_gid = 1000, st_dev = 1, st_ino = 2, st_nlink = 1, st_size = 9,
     st_mtime_ns = 4, st_ctime_ns = 4\<rparr>"

definition ci_directory :: os_stat where "ci_directory = ci_stat\<lparr>st_kind := Directory, st_perm := 448, st_ino := 3\<rparr>"

definition ci_contract :: json where
  "ci_contract = JObj [
     (''hosted'', JObj [(''expected_minutes'', JInt 5), (''full_matrix'', JStr ''release''), (''max_reruns_per_revision'', JInt 1),
        (''max_runs_per_work_package'', JInt 1), (''post_merge_verification'', JStr ''manual_only'')]),
     (''local_green'', JObj [(''commands'', JArr [JArr [JStr ''python3'', JStr ''-m'', JStr ''unittest'']]),
        (''environment'', JObj [(''PYTHONPATH'', JStr ''src'')])]),
     (''profile'', JStr ''solo-fast''), (''schema_version'', JStr ''1.0''),
     (''workflow_controls'', JObj [(''cancel_in_progress'', JBool True), (''require_concurrency'', JBool True),
        (''require_job_timeouts'', JBool True), (''require_read_only_permissions'', JBool True),
        (''skip_draft_pull_requests'', JBool True)])]"

definition ci_calls :: contract_calls where
  "ci_calls = \<lparr>cg_directories = Inr (), cg_before = Inr ci_stat, cg_opened = Inr ci_stat, cg_bytes = Inr (utf8 (dumps ci_contract)),
     cg_after = Inr ci_stat, cg_entry = Inr ci_directory, cg_state = Inr ci_directory\<rparr>"

definition ci_document :: ymap where
  "ci_document = [
     (YStr ''on'', YMap [(YStr ''pull_request'', YMap [(YStr ''types'', YSeq [YStr ''ready_for_review'', YStr ''converted_to_draft''])])]),
     (YStr ''permissions'', YMap [(YStr ''contents'', YStr ''read'')]),
     (YStr ''concurrency'', YMap [(YStr ''group'', YStr ''ci''), (YStr ''cancel-in-progress'', YBool True)]),
     (YStr ''jobs'', YMap [(YStr ''test'', YMap [(YStr ''runs-on'', YStr ''ubuntu''), (YStr ''timeout-minutes'', YInt 10),
        (YStr ''if'', YStr guarded_condition)])])]"

definition ci_workflows :: workflow_calls where
  "ci_workflows = \<lparr>wc_root = Inr (), wc_components = [Inr ci_directory, Inr ci_directory],
     wc_files = Inr [\<lparr>wf_name = ''ci.yml'', wf_before = Inr ci_stat, wf_opened = Inr ci_stat, wf_bytes = Inr ''on: x'', wf_after = Inr ci_stat\<rparr>],
     wc_again = [(Inr ci_directory, Inr ci_directory), (Inr ci_directory, Inr ci_directory)]\<rparr>"

definition ci_world :: guard_world where
  "ci_world = \<lparr>gw_project = ''p'', gw_contract = ci_calls, gw_workflows = ci_workflows,
     gw_yaml = (\<lambda>s. if s = ''on: x'' then Inr (YMap ci_document) else Inl (YAMLError ''unknown''))\<rparr>"

lemma ci_contract_read: "read_contract ci_calls = Inr (dict_val ci_contract)"
proof -
  have "loads dict_of_pairs (dumps ci_contract) = Inr ci_contract"
    using loads_dumps [of dict_of_pairs ci_contract] by (simp add: dict_of_pairs_distinct ci_contract_def)
  then show ?thesis
    by (simp add: read_contract_def contract_bytes_def ci_calls_def ci_stat_def ci_directory_def same_snapshot_def same_inode_def utf8_decode_utf8)
       (simp add: ci_contract_def)
qed

lemma ci_guard_parts:
  "validate_contract (dict_val ci_contract) = Inr []"
  "safe_workflow_documents ci_workflows = Inr ([(''ci.yml'', ''on: x'')], [])"
  "case inspect_document (gw_yaml ci_world) (dict_val ci_contract) (''ci.yml'', ''on: x'') of Inr (es, r) \<Rightarrow> es = [] | _ \<Rightarrow> False"
  "exempt_names (guard_controls (dict_val ci_contract)) = []" "guard_exceptions (guard_controls (dict_val ci_contract)) = []"
  by code_simp+

lemma ci_guard_ok: obtains report where "verify_guard ci_world = Inr report" and "get report ''ok'' = JBool True"
proof -
  obtain r where r: "inspect_document (gw_yaml ci_world) (dict_val ci_contract) (''ci.yml'', ''on: x'') = Inr ([], r)"
    using ci_guard_parts(3) by (auto split: sum.splits)
  have w: "gw_contract ci_world = ci_calls" "gw_workflows ci_world = ci_workflows" by (simp_all add: ci_world_def)
  show ?thesis
    using that by (simp add: verify_guard_def w ci_contract_read ci_guard_parts r sorted_strings_def unless_def Let_def)
qed

lemma guard_ok_conforms_witness:
  "\<exists>doc. gw_yaml ci_world ''on: x'' = Inr (YMap doc)
    \<and> workflow_conforms (guard_controls (dict_val ci_contract)) (guard_hosted (dict_val ci_contract)) [] doc"
proof (rule ci_guard_ok)
  fix report
  assume ok: "verify_guard ci_world = Inr report" "get report ''ok'' = JBool True"
  have w: "read_contract (gw_contract ci_world) = Inr (dict_val ci_contract)"
    "safe_workflow_documents (gw_workflows ci_world) = Inr ([(''ci.yml'', ''on: x'')], [])"
    using ci_contract_read ci_guard_parts(2) by (simp_all add: ci_world_def)
  have "get_default (guard_exceptions (guard_controls (dict_val ci_contract))) ''ci.yml'' (JObj []) = JObj []"
    by (simp add: ci_guard_parts)
  then show ?thesis using guard_ok_conforms [OF ok w, of "''ci.yml''" "''on: x''"] by (simp add: ci_guard_parts)
qed

definition ci_lock :: lock_calls where
  "ci_lock = \<lparr>lk_uid = Some 1000, lk_base = Inr ci_directory, lk_directory = Inr ci_directory, lk_opened = Inr (ci_stat\<lparr>st_perm := 384\<rparr>),
     lk_path = Inr (ci_stat\<lparr>st_perm := 384\<rparr>), lk_flock = Inr (), lk_path_again = Inr ci_stat, lk_directory_again = Inr ci_directory\<rparr>"

definition ci_run :: "(json \<times> json) list \<Rightarrow> json list \<Rightarrow> command_outcome" where
  "ci_run environment argv = (if argv = [JStr ''/usr/bin/python3'', JStr ''-m'', JStr ''unittest''] then Exited 0 (JInt 1) else Exited 1 (JInt 1))"

lemma local_gate_green_witness:
  "\<exists>report results commands environment. run_local_gate ci_lock ci_world ci_calls (JStr ''/usr/bin/python3'') ci_run = Inr report
     \<and> get report ''commands'' = JArr (map JObj results) \<and> map (\<lambda>r. get r ''configured_command'') results = commands
     \<and> list_all (passes (ci_run environment) (JStr ''/usr/bin/python3'')) commands"
proof (rule ci_guard_ok)
  fix report
  assume ok: "verify_guard ci_world = Inr report" "get report ''ok'' = JBool True"
  have "local_gate_lock ci_lock = Inr ()"
    by (simp add: local_gate_lock_def ci_lock_def ci_directory_def ci_stat_def single_regular_def same_inode_def)
  moreover have "item (JObj (dict_val ci_contract)) ''local_green'' = Inr (get (dict_val ci_contract) ''local_green'')"
    "is_dict (get (dict_val ci_contract) ''local_green'')"
    "item (get (dict_val ci_contract) ''local_green'') ''commands'' = Inr (JArr [JArr [JStr ''python3'', JStr ''-m'', JStr ''unittest'']])"
    "environment_update (get_default (dict_val (get (dict_val ci_contract) ''local_green'')) ''environment'' (JObj []))
       = Inr [(JStr ''PYTHONPATH'', JStr ''src'')]"
    "map_sum id (\<lambda>_. ()) (run_commands (ci_run [(JStr ''PYTHONPATH'', JStr ''src'')]) (JStr ''/usr/bin/python3'') (local_timeout (dict_val (get (dict_val ci_contract) ''local_green'')))
       [JArr [JStr ''python3'', JStr ''-m'', JStr ''unittest'']]) = Inr ()"
    by code_simp+
  ultimately obtain report' where run: "run_local_gate ci_lock ci_world ci_calls (JStr ''/usr/bin/python3'') ci_run = Inr report'"
    by (auto simp: run_local_gate_def run_local_gate_locked_def ok ci_contract_read map_sum_def split: sum.splits)
  from local_gate_green [OF run] run show ?thesis by blast
qed

end
