(* ===== verification/Regex.thy ===== *)
theory Regex
  imports Trust
begin

text \<open>
  Regular expressions with the meaning of Python's \<open>re\<close> module, for the constructs that the
  sources use: classes, sequences, ordered alternatives, greedy and reluctant repetition,
  groups, lookahead, a lookbehind of one character, word boundaries and anchors. The matcher
  lists the ways to match in the order in which backtracking tries them, so the first one is
  the match. It is proved sound and complete for a declarative relation on positions.
\<close>


section \<open>Syntax\<close>

datatype re =
    Eps
  | Cls "char \<Rightarrow> bool"
  | Cat re re
  | Alt re re
  | Rep nat "nat option" bool re
  | Cap nat re
  | Ahead bool re
  | Not_behind "char \<Rightarrow> bool"
  | Boundary
  | Text_start
  | Line_start
  | Line_end
  | Text_end
  | Very_end

text \<open>
  \<open>Rep lo hi greedy r\<close> is \<open>r{lo,hi}\<close>; \<open>Text_end\<close> is \<open>$\<close> (before a final line feed as well),
  \<open>Line_end\<close> is \<open>$\<close> under the multi-line flag and \<open>Very_end\<close> is \<open>\Z\<close>.
\<close>

definition seqs :: "re list \<Rightarrow> re" where "seqs rs = foldr Cat rs Eps"

fun alts :: "re list \<Rightarrow> re" where
  "alts [] = Cls (\<lambda>c. False)"
| "alts [r] = r"
| "alts (r # rs) = Alt r (alts rs)"

definition opt :: "re \<Rightarrow> re" where "opt r = Rep 0 (Some 1) True r"

definition star :: "re \<Rightarrow> re" where "star r = Rep 0 None True r"

definition plus :: "re \<Rightarrow> re" where "plus r = Rep 1 None True r"

text \<open>The classes \<open>[...]\<close> and \<open>[^...]\<close>, alone and together with a class like \<open>\s\<close>.\<close>

definition among :: "string \<Rightarrow> char \<Rightarrow> bool" where "among cs x \<longleftrightarrow> x \<in> set cs"

definition not_among :: "string \<Rightarrow> char \<Rightarrow> bool" where "not_among cs x \<longleftrightarrow> x \<notin> set cs"

definition either :: "(char \<Rightarrow> bool) \<Rightarrow> string \<Rightarrow> char \<Rightarrow> bool" where "either p cs x \<longleftrightarrow> p x \<or> x \<in> set cs"

definition neither :: "(char \<Rightarrow> bool) \<Rightarrow> string \<Rightarrow> char \<Rightarrow> bool" where "neither p cs x \<longleftrightarrow> \<not> p x \<and> x \<notin> set cs"

definition same_letter :: "char \<Rightarrow> char \<Rightarrow> bool" where "same_letter c x \<longleftrightarrow> lower_char x = lower_char c"

definition chr :: "char \<Rightarrow> re" where "chr c = Cls ((=) c)"

definition one_of :: "string \<Rightarrow> re" where "one_of cs = Cls (among cs)"

definition none_of :: "string \<Rightarrow> re" where "none_of cs = Cls (not_among cs)"

definition lit :: "string \<Rightarrow> re" where "lit s = seqs (map chr s)"

text \<open>The same under the flag that ignores case.\<close>

definition chr_any_case :: "char \<Rightarrow> re" where "chr_any_case c = Cls (same_letter c)"

definition lit_any_case :: "string \<Rightarrow> re" where "lit_any_case s = seqs (map chr_any_case s)"


section \<open>The matcher\<close>

text \<open>A position and the groups closed so far, the last one first.\<close>

type_synonym mstate = "nat \<times> (nat \<times> nat \<times> nat) list"

text \<open>\<open>\w\<close> on U+0000 to U+00FF.\<close>

definition is_word :: "char \<Rightarrow> bool" where
  "is_word c \<longleftrightarrow> (let n = of_char c :: nat in
     48 \<le> n \<and> n \<le> 57 \<or> 65 \<le> n \<and> n \<le> 90 \<or> n = 95 \<or> 97 \<le> n \<and> n \<le> 122
     \<or> n \<in> set [170, 178, 179, 181, 185, 186, 188, 189, 190] \<or> 192 \<le> n \<and> n \<noteq> 215 \<and> n \<noteq> 247)"

definition word_at :: "string \<Rightarrow> nat \<Rightarrow> bool" where
  "word_at s i \<longleftrightarrow> i < length s \<and> is_word (s ! i)"

definition boundary_at :: "string \<Rightarrow> nat \<Rightarrow> bool" where
  "boundary_at s i \<longleftrightarrow> (0 < i \<and> word_at s (i - 1)) \<noteq> word_at s i"

text \<open>The assertions that look at the position only.\<close>

fun holds_at :: "re \<Rightarrow> string \<Rightarrow> nat \<Rightarrow> bool" where
  "holds_at (Not_behind p) s i = (i = 0 \<or> \<not> (i - 1 < length s \<and> p (s ! (i - 1))))"
| "holds_at Boundary s i = boundary_at s i"
| "holds_at Text_start s i = (i = 0)"
| "holds_at Line_start s i = (i = 0 \<or> i - 1 < length s \<and> s ! (i - 1) = CHR 0x0A)"
| "holds_at Line_end s i = (i = length s \<or> i < length s \<and> s ! i = CHR 0x0A)"
| "holds_at Text_end s i = (i = length s \<or> Suc i = length s \<and> s ! i = CHR 0x0A)"
| "holds_at Very_end s i = (i = length s)"
| "holds_at r s i = True"

text \<open>
  A repetition goes on only when its body advanced, so the length of the text bounds the
  number of turns.
\<close>

definition advances :: "mstate \<Rightarrow> mstate \<Rightarrow> bool" where
  "advances st st' \<longleftrightarrow> fst st < fst st'"

definition one_less :: "nat option \<Rightarrow> nat option" where
  "one_less hi = map_option (\<lambda>h. h - 1) hi"

fun repeat :: "(mstate \<Rightarrow> mstate list) \<Rightarrow> nat \<Rightarrow> nat \<Rightarrow> nat option \<Rightarrow> bool \<Rightarrow> mstate \<Rightarrow> mstate list" where
  "repeat body 0 lo hi greedy st = (if lo = 0 then [st] else [])"
| "repeat body (Suc n) lo hi greedy st =
     (let further = (if hi = Some 0 then [] else concat (map (repeat body n (lo - 1) (one_less hi) greedy) (filter (advances st) (body st))));
          stop = (if lo = 0 then [st] else []) in
      if greedy then further @ stop else stop @ further)"

definition close_group :: "nat \<Rightarrow> nat \<Rightarrow> mstate \<Rightarrow> mstate" where
  "close_group n i st = (fst st, (n, i, fst st) # snd st)"

definition assertion :: "bool \<Rightarrow> mstate \<Rightarrow> mstate list" where
  "assertion ok st = (if ok then [st] else [])"

primrec run :: "re \<Rightarrow> string \<Rightarrow> mstate \<Rightarrow> mstate list" where
  "run Eps s st = [st]"
| "run (Cls p) s st = (if fst st < length s \<and> p (s ! fst st) then [(Suc (fst st), snd st)] else [])"
| "run (Cat a b) s st = concat (map (run b s) (run a s st))"
| "run (Alt a b) s st = run a s st @ run b s st"
| "run (Rep lo hi greedy r) s st = repeat (run r s) (length s) lo hi greedy st"
| "run (Cap n r) s st = map (close_group n (fst st)) (run r s st)"
| "run (Ahead positive r) s st = assertion ((run r s st \<noteq> []) = positive) st"
| "run (Not_behind p) s st = assertion (holds_at (Not_behind p) s (fst st)) st"
| "run Boundary s st = assertion (holds_at Boundary s (fst st)) st"
| "run Text_start s st = assertion (holds_at Text_start s (fst st)) st"
| "run Line_start s st = assertion (holds_at Line_start s (fst st)) st"
| "run Line_end s st = assertion (holds_at Line_end s (fst st)) st"
| "run Text_end s st = assertion (holds_at Text_end s (fst st)) st"
| "run Very_end s st = assertion (holds_at Very_end s (fst st)) st"

text \<open>A match: where it starts and ends, and its groups.\<close>

type_synonym rmatch = "nat \<times> nat \<times> (nat \<times> nat \<times> nat) list"

definition match_at :: "re \<Rightarrow> string \<Rightarrow> nat \<Rightarrow> rmatch option" where
  "match_at r s i = (case run r s (i, []) of [] \<Rightarrow> None | st # sts \<Rightarrow> Some (i, st))"

text \<open>\<open>pattern.search(s, i)\<close>, but with lookbehind over the whole text, as \<open>finditer\<close> does.\<close>

fun first_some :: "('a \<Rightarrow> 'b option) \<Rightarrow> 'a list \<Rightarrow> 'b option" where
  "first_some f [] = None"
| "first_some f (x # xs) = (case f x of None \<Rightarrow> first_some f xs | Some y \<Rightarrow> Some y)"

definition search_from :: "re \<Rightarrow> string \<Rightarrow> nat \<Rightarrow> rmatch option" where
  "search_from r s i = first_some (match_at r s) [i..<Suc (length s)]"

definition search :: "re \<Rightarrow> string \<Rightarrow> rmatch option" where
  "search r s = search_from r s 0"

definition fullmatch :: "re \<Rightarrow> string \<Rightarrow> bool" where
  "fullmatch r s \<longleftrightarrow> length s \<in> set (map fst (run r s (0, [])))"

lemma first_some_None [simp]: "first_some f xs = None \<longleftrightarrow> (\<forall>x\<in>set xs. f x = None)"
  by (induction xs) (auto split: option.splits)

lemma first_some_SomeD: "first_some f xs = Some y \<Longrightarrow> \<exists>x\<in>set xs. f x = Some y"
  by (induction xs) (auto split: option.splits)

lemma search_from_SomeD:
  "search_from r s i = Some (b, e, g) \<Longrightarrow> i \<le> b \<and> b \<le> length s \<and> (e, g) \<in> set (run r s (b, []))"
  by (auto simp: search_from_def match_at_def dest!: first_some_SomeD split: list.splits)

text \<open>
  \<open>pattern.finditer(s)\<close>. The next search starts where the match ended; after an empty match it
  starts one further (no pattern of the program matches the empty text).
\<close>

function finditer :: "re \<Rightarrow> string \<Rightarrow> nat \<Rightarrow> rmatch list" where
  "finditer r s i =
     (case search_from r s i of
        None \<Rightarrow> []
      | Some (b, e, g) \<Rightarrow> (b, e, g) # finditer r s (max (Suc b) e))"
  by pat_completeness auto

termination
  by (relation "measure (\<lambda>(r, s, i). Suc (length s) - i)") (auto dest: search_from_SomeD)

declare finditer.simps [simp del]

text \<open>\<open>match.group(n)\<close>; the last closing of the group counts.\<close>

definition group_span :: "nat \<Rightarrow> rmatch \<Rightarrow> (nat \<times> nat) option" where
  "group_span n m = map_option snd (find (\<lambda>g. fst g = n) (snd (snd m)))"

definition text_slice :: "string \<Rightarrow> nat \<Rightarrow> nat \<Rightarrow> string" where
  "text_slice s b e = take (e - b) (drop b s)"

definition group_text :: "nat \<Rightarrow> string \<Rightarrow> rmatch \<Rightarrow> string" where
  "group_text n s m = (case group_span n m of None \<Rightarrow> [] | Some (b, e) \<Rightarrow> text_slice s b e)"

text \<open>\<open>pattern.subn(replacement, s)\<close>: the new text and the number of replacements.\<close>

fun splice :: "(rmatch \<Rightarrow> string) \<Rightarrow> string \<Rightarrow> nat \<Rightarrow> rmatch list \<Rightarrow> string" where
  "splice replacement s i [] = drop i s"
| "splice replacement s i (m # ms) = text_slice s i (fst m) @ replacement m @ splice replacement s (fst (snd m)) ms"

definition subn :: "re \<Rightarrow> (string \<Rightarrow> rmatch \<Rightarrow> string) \<Rightarrow> string \<Rightarrow> string \<times> nat" where
  "subn r replacement s = (let ms = finditer r s 0 in (splice (replacement s) s 0 ms, length ms))"
section \<open>The declarative meaning\<close>

text \<open>\<open>iterates R n i j\<close>: \<open>n\<close> turns of \<open>R\<close>, each of which advances.\<close>

inductive iterates :: "(nat \<Rightarrow> nat \<Rightarrow> bool) \<Rightarrow> nat \<Rightarrow> nat \<Rightarrow> nat \<Rightarrow> bool" for R where
  iterates_0: "iterates R 0 i i"
| iterates_Suc: "R i m \<Longrightarrow> i < m \<Longrightarrow> iterates R n m j \<Longrightarrow> iterates R (Suc n) i j"

inductive_cases iterates_0E: "iterates R 0 i j"
inductive_cases iterates_SucE: "iterates R (Suc n) i j"
inductive_simps iterates_0_iff [simp]: "iterates R 0 i j"

definition at_most :: "nat \<Rightarrow> nat option \<Rightarrow> bool" where
  "at_most n hi \<longleftrightarrow> (case hi of None \<Rightarrow> True | Some h \<Rightarrow> n \<le> h)"

primrec matches :: "re \<Rightarrow> string \<Rightarrow> nat \<Rightarrow> nat \<Rightarrow> bool" where
  "matches Eps s i j \<longleftrightarrow> j = i"
| "matches (Cls p) s i j \<longleftrightarrow> i < length s \<and> p (s ! i) \<and> j = Suc i"
| "matches (Cat a b) s i j \<longleftrightarrow> (\<exists>m. matches a s i m \<and> matches b s m j)"
| "matches (Alt a b) s i j \<longleftrightarrow> matches a s i j \<or> matches b s i j"
| "matches (Rep lo hi greedy r) s i j \<longleftrightarrow> (\<exists>n. lo \<le> n \<and> at_most n hi \<and> iterates (matches r s) n i j)"
| "matches (Cap n r) s i j \<longleftrightarrow> matches r s i j"
| "matches (Ahead positive r) s i j \<longleftrightarrow> j = i \<and> (\<exists>m. matches r s i m) = positive"
| "matches (Not_behind p) s i j \<longleftrightarrow> j = i \<and> holds_at (Not_behind p) s i"
| "matches Boundary s i j \<longleftrightarrow> j = i \<and> holds_at Boundary s i"
| "matches Text_start s i j \<longleftrightarrow> j = i \<and> holds_at Text_start s i"
| "matches Line_start s i j \<longleftrightarrow> j = i \<and> holds_at Line_start s i"
| "matches Line_end s i j \<longleftrightarrow> j = i \<and> holds_at Line_end s i"
| "matches Text_end s i j \<longleftrightarrow> j = i \<and> holds_at Text_end s i"
| "matches Very_end s i j \<longleftrightarrow> j = i \<and> holds_at Very_end s i"

lemma iterates_le: "iterates R n i j \<Longrightarrow> i + n \<le> j"
  by (induction rule: iterates.induct) auto

lemma iterates_bound:
  assumes "iterates R n i j" and "\<And>a b. R a b \<Longrightarrow> b \<le> max a L"
  shows "j \<le> max i L"
  using assms(1) by (induction rule: iterates.induct) (auto dest: assms(2))

lemma matches_bound: "matches r s i j \<Longrightarrow> i \<le> j \<and> j \<le> max i (length s)"
proof (induction r arbitrary: i j)
  case (Cat a b)
  then obtain m where "matches a s i m" "matches b s m j" by auto
  then show ?case using Cat.IH(1) [of i m] Cat.IH(2) [of m j] by auto
next
  case (Rep lo hi greedy r)
  then obtain n where n: "iterates (matches r s) n i j" by auto
  have "j \<le> max i (length s)" using iterates_bound [OF n] Rep.IH by blast
  then show ?case using iterates_le [OF n] by simp
qed auto

lemma iterates_length: "iterates (matches r s) n i j \<Longrightarrow> n \<le> length s"
proof -
  assume it: "iterates (matches r s) n i j"
  have "j \<le> max i (length s)" using iterates_bound [OF it] matches_bound by blast
  moreover have "i + n \<le> j" by (rule iterates_le [OF it])
  ultimately show ?thesis by linarith
qed

text \<open>A matcher tracks a relation when it finds exactly the related positions.\<close>

definition tracks :: "(mstate \<Rightarrow> mstate list) \<Rightarrow> (nat \<Rightarrow> nat \<Rightarrow> bool) \<Rightarrow> bool" where
  "tracks f R \<longleftrightarrow> (\<forall>st j. j \<in> fst ` set (f st) \<longleftrightarrow> R (fst st) j)"

lemma tracksD: "tracks f R \<Longrightarrow> j \<in> fst ` set (f st) \<longleftrightarrow> R (fst st) j"
  unfolding tracks_def by blast

lemma tracks_assertion: "tracks (\<lambda>st. assertion (P (fst st)) st) (\<lambda>i j. j = i \<and> P i)"
  by (auto simp: tracks_def assertion_def)

lemma iterates_unfold:
  "(\<exists>n. lo \<le> n \<and> n \<le> Suc m \<and> at_most n hi \<and> iterates R n i j) \<longleftrightarrow>
     lo = 0 \<and> j = i \<or> hi \<noteq> Some 0 \<and> (\<exists>k. R i k \<and> i < k \<and> (\<exists>n. lo - 1 \<le> n \<and> n \<le> m \<and> at_most n (one_less hi) \<and> iterates R n k j))"
  (is "?l \<longleftrightarrow> ?r")
proof
  assume ?l
  then obtain n where n: "lo \<le> n" "n \<le> Suc m" "at_most n hi" "iterates R n i j" by blast
  show ?r
  proof (cases n)
    case (Suc n')
    then obtain k where "R i k" "i < k" "iterates R n' k j" using n(4) by (auto elim: iterates_SucE)
    moreover have "hi \<noteq> Some 0" "at_most n' (one_less hi)"
      using n(3) Suc by (auto simp: at_most_def one_less_def split: option.splits)
    moreover have "lo - 1 \<le> n'" "n' \<le> m" using n(1,2) Suc by simp_all
    ultimately show ?thesis by blast
  qed (use n in simp)
next
  assume ?r
  then consider "lo = 0" "j = i"
    | k n where "hi \<noteq> Some 0" "R i k" "i < k" "lo - 1 \<le> n" "n \<le> m" "at_most n (one_less hi)" "iterates R n k j" by blast
  then show ?l
  proof cases
    case 1
    have "at_most 0 hi" by (simp add: at_most_def split: option.split)
    then show ?thesis using 1 by (intro exI [of _ 0]) simp
  next
    case 2
    have "iterates R (Suc n) i j" by (rule iterates_Suc [of R, OF 2(2,3,7)])
    moreover have "at_most (Suc n) hi" using 2(1,6) by (auto simp: at_most_def one_less_def split: option.splits)
    ultimately show ?thesis using 2(4,5) by (intro exI [of _ "Suc n"]) auto
  qed
qed

lemma repeat_iterates:
  assumes "tracks f R"
  shows "j \<in> fst ` set (repeat f m lo hi greedy st) \<longleftrightarrow> (\<exists>n. lo \<le> n \<and> n \<le> m \<and> at_most n hi \<and> iterates R n (fst st) j)"
proof (induction m arbitrary: lo hi st)
  case 0
  have "at_most 0 hi" by (simp add: at_most_def split: option.split)
  then show ?case by auto
next
  case (Suc m)
  have further: "j \<in> fst ` set (concat (map (repeat f m (lo - 1) (one_less hi) greedy) (filter (advances st) (f st))))
      \<longleftrightarrow> (\<exists>k. R (fst st) k \<and> fst st < k \<and> (\<exists>n. lo - 1 \<le> n \<and> n \<le> m \<and> at_most n (one_less hi) \<and> iterates R n k j))"
  proof -
    have "j \<in> fst ` set (concat (map (repeat f m (lo - 1) (one_less hi) greedy) (filter (advances st) (f st))))
        \<longleftrightarrow> (\<exists>st'\<in>set (f st). fst st < fst st' \<and> j \<in> fst ` set (repeat f m (lo - 1) (one_less hi) greedy st'))"
      unfolding set_concat set_map set_filter advances_def by blast
    also have "\<dots> \<longleftrightarrow> (\<exists>k\<in>fst ` set (f st). fst st < k \<and> (\<exists>n. lo - 1 \<le> n \<and> n \<le> m \<and> at_most n (one_less hi) \<and> iterates R n k j))"
      unfolding Suc.IH by blast
    also have "\<dots> \<longleftrightarrow> (\<exists>k. R (fst st) k \<and> fst st < k \<and> (\<exists>n. lo - 1 \<le> n \<and> n \<le> m \<and> at_most n (one_less hi) \<and> iterates R n k j))"
      using tracksD [OF assms] by blast
    finally show ?thesis .
  qed
  define rest where "rest = concat (map (repeat f m (lo - 1) (one_less hi) greedy) (filter (advances st) (f st)))"
  have "j \<in> fst ` set (repeat f (Suc m) lo hi greedy st) \<longleftrightarrow> lo = 0 \<and> j = fst st \<or> hi \<noteq> Some 0 \<and> j \<in> fst ` set rest"
    unfolding repeat.simps Let_def rest_def [symmetric] by (cases "lo = 0"; cases "hi = Some 0"; cases greedy) (auto simp: image_Un)
  then show ?case unfolding iterates_unfold rest_def further .
qed

lemma run_tracks: "tracks (run r s) (matches r s)"
proof (induction r)
  case (Cat a b)
  show ?case unfolding tracks_def
  proof (intro allI)
    fix st j
    have "j \<in> fst ` set (run (Cat a b) s st) \<longleftrightarrow> (\<exists>st'\<in>set (run a s st). j \<in> fst ` set (run b s st'))" by auto
    also have "\<dots> \<longleftrightarrow> (\<exists>m\<in>fst ` set (run a s st). matches b s m j)" using tracksD [OF Cat.IH(2)] by blast
    also have "\<dots> \<longleftrightarrow> matches (Cat a b) s (fst st) j" unfolding matches.simps using tracksD [OF Cat.IH(1)] by blast
    finally show "j \<in> fst ` set (run (Cat a b) s st) \<longleftrightarrow> matches (Cat a b) s (fst st) j" .
  qed
next
  case (Alt a b)
  then show ?case by (auto simp: tracks_def image_Un)
next
  case (Rep lo hi greedy r)
  show ?case unfolding tracks_def
  proof (intro allI)
    fix st j
    have "j \<in> fst ` set (run (Rep lo hi greedy r) s st) \<longleftrightarrow> (\<exists>n. lo \<le> n \<and> n \<le> length s \<and> at_most n hi \<and> iterates (matches r s) n (fst st) j)"
      using repeat_iterates [OF Rep.IH] by simp
    also have "\<dots> \<longleftrightarrow> matches (Rep lo hi greedy r) s (fst st) j" using iterates_length by auto
    finally show "j \<in> fst ` set (run (Rep lo hi greedy r) s st) \<longleftrightarrow> matches (Rep lo hi greedy r) s (fst st) j" .
  qed
next
  case (Cap n r)
  have "fst ` set (run (Cap n r) s st) = fst ` set (run r s st)" for st by (simp add: image_image close_group_def)
  then show ?case using Cap by (simp add: tracks_def)
next
  case (Ahead positive r)
  have "run r s st \<noteq> [] \<longleftrightarrow> (\<exists>m. matches r s (fst st) m)" for st
    using tracksD [OF Ahead.IH, of _ st] by (cases "run r s st") auto
  then show ?case by (auto simp: tracks_def assertion_def)
qed (auto simp: tracks_def assertion_def)

lemma match_at_None_iff: "match_at r s i = None \<longleftrightarrow> (\<forall>j. \<not> matches r s i j)"
  using tracksD [OF run_tracks, of _ r s "(i, [])"] by (cases "run r s (i, [])") (auto simp: match_at_def)

text \<open>A search fails only when the text has no match at all.\<close>

lemma search_None_iff: "search r s = None \<longleftrightarrow> (\<forall>i\<le>length s. \<forall>j. \<not> matches r s i j)"
  unfolding search_def search_from_def first_some_None match_at_None_iff by (auto simp: less_Suc_eq_le)

lemma search_SomeD: "search_from r s i = Some (b, e, g) \<Longrightarrow> i \<le> b \<and> matches r s b e \<and> b \<le> e \<and> e \<le> length s"
proof -
  assume a: "search_from r s i = Some (b, e, g)"
  then have b: "i \<le> b" "b \<le> length s" "(e, g) \<in> set (run r s (b, []))" using search_from_SomeD by blast+
  have "matches r s b e" using tracksD [OF run_tracks, of e r s "(b, [])"] b(3) by force
  then show ?thesis using matches_bound [of r s b e] b by auto
qed

text \<open>The least length of a match.\<close>

primrec min_len :: "re \<Rightarrow> nat" where
  "min_len Eps = 0"
| "min_len (Cls p) = 1"
| "min_len (Cat a b) = min_len a + min_len b"
| "min_len (Alt a b) = min (min_len a) (min_len b)"
| "min_len (Rep lo hi greedy r) = lo * min_len r"
| "min_len (Cap n r) = min_len r"
| "min_len (Ahead positive r) = 0"
| "min_len (Not_behind p) = 0"
| "min_len Boundary = 0"
| "min_len Text_start = 0"
| "min_len Line_start = 0"
| "min_len Line_end = 0"
| "min_len Text_end = 0"
| "min_len Very_end = 0"

lemma matches_min_len: "matches r s i j \<Longrightarrow> i + min_len r \<le> j"
proof (induction r arbitrary: i j)
  case (Cat a b)
  then show ?case by fastforce
next
  case (Rep lo hi greedy r)
  then obtain n where n: "lo \<le> n" "iterates (matches r s) n i j" by auto
  have "i + n * min_len r \<le> j" using n(2)
    by (induction rule: iterates.induct) (use Rep.IH in \<open>fastforce+\<close>)
  moreover have "lo * min_len r \<le> n * min_len r" using n(1) by simp
  ultimately show ?case unfolding min_len.simps by (rule le_trans [OF add_left_mono, rotated])
next
  case (Alt a b)
  then show ?case by (fastforce simp: min_def)
qed auto

end
