(* ===== verification/Redaction.thy ===== *)
theory Redaction
  imports Regex Json_Text
begin

text \<open>
  The deterministic redaction of \<open>src/src/sddgov/redaction.py\<close>: its rules, \<open>redact_text\<close>, and the
  line-by-line redactor with its held private-key markers and unfinished fields. A pattern is
  the term of its regular expression, in the order of the source.
\<close>


section \<open>The patterns\<close>

definition any_char :: re where "any_char = Cls (\<lambda>c. True)"

definition not_newline :: re where "not_newline = none_of [CHR 0x0A]"

definition space :: re where "space = Cls is_space"

text \<open>\<open>[^\S\r\n]\<close>.\<close>

definition is_blank :: "char \<Rightarrow> bool" where "is_blank c \<longleftrightarrow> is_space c \<and> c \<notin> set [CHR 0x0D, CHR 0x0A]"

definition blank :: re where "blank = Cls is_blank"

definition backslash :: char where "backslash = CHR 0x5C"

definition quotes :: string where "quotes = [CHR 0x22, CHR 0x27]"

definition is_letter :: "char \<Rightarrow> bool" where
  "is_letter c \<longleftrightarrow> (let n = of_char c :: nat in 65 \<le> n \<and> n \<le> 90 \<or> 97 \<le> n \<and> n \<le> 122)"

definition is_upper_alnum :: "char \<Rightarrow> bool" where
  "is_upper_alnum c \<longleftrightarrow> (let n = of_char c :: nat in 65 \<le> n \<and> n \<le> 90 \<or> 48 \<le> n \<and> n \<le> 57)"

definition is_alnum_ascii :: "char \<Rightarrow> bool" where
  "is_alnum_ascii c \<longleftrightarrow> is_letter c \<or> is_digit c"

text \<open>\<open>r{n,m}\<close> and \<open>r{n,}\<close> over a class.\<close>

definition times :: "nat \<Rightarrow> nat option \<Rightarrow> (char \<Rightarrow> bool) \<Rightarrow> re" where
  "times lo hi p = Rep lo hi True (Cls p)"

definition provider_credential_pattern :: re where
  "provider_credential_pattern = seqs [Boundary,
     alts [seqs [alts (map lit [''AKIA'', ''ASIA'', ''AIDA'', ''AROA'', ''AIPA'', ''ANPA'', ''ANVA'', ''ASCA'']), times 16 (Some 16) is_upper_alnum],
           seqs [lit ''gh'', one_of ''pousr'', lit ''_'', times 36 (Some 255) is_alnum_ascii],
           seqs [lit ''github_pat_'', times 60 (Some 255) (either is_alnum_ascii ''_'')],
           seqs [lit ''sk-'', opt (lit ''proj-''), times 20 None (either is_alnum_ascii ''_-'')],
           seqs [lit ''sk_live_'', times 20 None is_alnum_ascii]],
     Boundary]"

text \<open>\<open>[^\r\n:;,'"]*\<close>, \<open>[^"'\r\n]*\<close>, \<open>(?:home|Users)\<close>, \<open>(?:\\|\\\\)\<close> and \<open>(?:\\{1,2}|/)\<close>.\<close>

definition path_rest :: re where "path_rest = star (none_of ([CHR 0x0D, CHR 0x0A] @ '':;,'' @ quotes))"

definition quoted_rest :: re where "quoted_rest = star (none_of (quotes @ [CHR 0x0D, CHR 0x0A]))"

definition home_or_users :: re where "home_or_users = alts [lit_any_case ''home'', lit_any_case ''Users'']"

definition backslashes :: re where "backslashes = alts [lit [backslash], lit [backslash, backslash]]"

definition slash_or_backslashes :: re where "slash_or_backslashes = alts [Rep 1 (Some 2) True (chr backslash), chr (CHR ''/'')]"

definition home_root :: re where "home_root = seqs [chr (CHR ''/''), home_or_users, chr (CHR ''/'')]"

definition tmp_root :: re where "tmp_root = seqs [chr (CHR ''/''), opt (lit_any_case ''private/''), lit_any_case ''tmp'']"

definition var_folders_root :: re where "var_folders_root = seqs [chr (CHR ''/''), opt (lit_any_case ''private/''), lit_any_case ''var/folders/'']"

definition mnt_users_root :: re where "mnt_users_root = seqs [lit_any_case ''/mnt/'', Cls is_letter, lit_any_case ''/Users/'']"

definition wsl_slash_root :: re where
  "wsl_slash_root = seqs [lit_any_case ''//wsl.localhost/'', plus (none_of [CHR ''/'', CHR 0x0D, CHR 0x0A]), lit_any_case ''/home/'']"

definition wsl_share_root :: re where
  "wsl_share_root = seqs [alts [lit [backslash, backslash], lit [backslash, backslash, backslash, backslash]],
     alts [lit_any_case ''wsl.localhost'', lit_any_case ''wsl$''], backslashes, plus (none_of [backslash, CHR 0x0D, CHR 0x0A]), backslashes,
     lit_any_case ''home'', backslashes]"

definition drive_users_root :: re where
  "drive_users_root = seqs [Cls is_letter, chr (CHR '':''), slash_or_backslashes, lit_any_case ''Users'', slash_or_backslashes]"

definition local_user_path_pattern :: re where
  "local_user_path_pattern = seqs [Not_behind is_alnum_ascii,
     alts [seqs [one_of quotes,
             alts [home_root, seqs [tmp_root, Ahead True (alts [Text_end, chr (CHR ''/''), one_of quotes])], var_folders_root, mnt_users_root,
                   wsl_slash_root, wsl_share_root, drive_users_root],
             quoted_rest, one_of quotes],
           seqs [home_root, path_rest],
           seqs [tmp_root, Ahead True (alts [Text_end, chr (CHR ''/''), Cls (either is_space ('':;,'' @ quotes))]),
             opt (seqs [chr (CHR ''/''), path_rest])],
           seqs [var_folders_root, path_rest],
           seqs [mnt_users_root, path_rest],
           seqs [wsl_slash_root, path_rest],
           seqs [wsl_share_root, path_rest],
           seqs [drive_users_root, path_rest]]]"

text \<open>\<open>-----BEGIN [^-]*(?:PRIVATE KEY|OPENSSH PRIVATE KEY)-----\<close> and the same with \<open>END\<close>.\<close>

definition key_marker :: "string \<Rightarrow> re" where
  "key_marker word = seqs [lit_any_case (''-----'' @ word @ '' ''), star (none_of ''-''),
     alts [lit_any_case ''PRIVATE KEY'', lit_any_case ''OPENSSH PRIVATE KEY''], lit ''-----'']"

definition private_key_begin :: re where "private_key_begin = key_marker ''BEGIN''"

definition private_key_end :: re where "private_key_end = key_marker ''END''"

definition private_key_marker_prefix :: re where
  "private_key_marker_prefix = alts [lit_any_case ''-----BEGIN'', lit_any_case ''-----END'']"

definition optional_quote :: re where "optional_quote = opt (one_of quotes)"

text \<open>The names of the fields, as the four field rules write them.\<close>

definition password_name :: re where
  "password_name = seqs [star (seqs [plus (Cls is_alnum_ascii), chr (CHR ''_'')]), alts [lit_any_case ''password'', lit_any_case ''passwd'']]"

definition dash :: re where "dash = opt (one_of ''_-'')"

definition secret_name :: re where
  "secret_name = seqs [star (seqs [plus (Cls is_alnum_ascii), one_of ''_-'']),
     alts [seqs [lit_any_case ''secret'', opt (seqs [dash, lit_any_case ''key''])],
           seqs [lit_any_case ''api'', dash, lit_any_case ''key''],
           seqs [lit_any_case ''access'', dash, alts [lit_any_case ''token'', lit_any_case ''key'']],
           seqs [lit_any_case ''refresh'', dash, lit_any_case ''token''],
           seqs [lit_any_case ''client'', dash, lit_any_case ''secret'']],
     star (seqs [one_of ''_-'', plus (Cls is_alnum_ascii)])]"

definition person_name :: "string \<Rightarrow> re" where
  "person_name who = seqs [Boundary, lit_any_case who, dash, alts [lit_any_case ''id'', lit_any_case ''identifier''], Boundary]"

definition assignment :: "re \<Rightarrow> re" where
  "assignment name = seqs [optional_quote, name, optional_quote, star space, one_of ''=:'', star space]"

definition field_value :: re where
  "field_value = alts
     [seqs [chr (CHR 0x22), star (alts [seqs [chr backslash, not_newline], none_of [CHR 0x22, backslash]]), chr (CHR 0x22)],
      seqs [chr (CHR 0x27), star (alts [seqs [chr backslash, not_newline], none_of [CHR 0x27, backslash]]), chr (CHR 0x27)],
      plus (Cls (neither is_space ('',;'' @ quotes)))]"

definition field_rule_pattern :: "re \<Rightarrow> re" where
  "field_rule_pattern name = Cat (Cap 1 (assignment name)) (Cap 2 field_value)"

definition line_rest :: re where "line_rest = plus (none_of [CHR 0x0D, CHR 0x0A])"

definition header_pattern :: "re \<Rightarrow> re \<Rightarrow> re" where
  "header_pattern name skipped = seqs [Line_start, Cap 1 (seqs [name, star space, chr (CHR '':''), star space]), skipped, line_rest]"

definition cookie_name :: re where "cookie_name = seqs [opt (lit_any_case ''set-''), lit_any_case ''cookie'']"

definition jwt_part :: re where "jwt_part = times 8 None (either is_alnum_ascii ''_-'')"


section \<open>The rules\<close>

text \<open>A rule: its identifier, its pattern, whether the replacement keeps group 1, and its text.\<close>

datatype rule = Rule (rule_id: string) (rule_pattern: re) (rule_keeps: bool) (rule_text: string)

definition replacement_of :: "rule \<Rightarrow> string \<Rightarrow> rmatch \<Rightarrow> string" where
  "replacement_of r s m = (if rule_keeps r then group_text 1 s m else []) @ rule_text r"

definition private_key_rule :: rule where
  "private_key_rule = Rule ''private-key'' (seqs [private_key_begin, Rep 0 None False any_char, private_key_end]) False ''[REDACTED_PRIVATE_KEY]''"

definition authorization_rule :: rule where
  "authorization_rule = Rule ''authorization'' (header_pattern (lit_any_case ''authorization'') (opt (seqs [lit_any_case ''bearer'', plus space])))
     True ''[REDACTED_AUTHORIZATION]''"

definition cookie_rule :: rule where
  "cookie_rule = Rule ''cookie'' (header_pattern cookie_name Eps) True ''[REDACTED_COOKIE]''"

definition jwt_rule :: rule where
  "jwt_rule = Rule ''jwt'' (seqs [Boundary, lit ''eyJ'', jwt_part, lit ''.'', jwt_part, lit ''.'', jwt_part, Boundary]) False ''[REDACTED_JWT]''"

definition password_rule :: rule where
  "password_rule = Rule ''password'' (field_rule_pattern password_name) True ''[REDACTED_PASSWORD]''"

definition secret_rule :: rule where
  "secret_rule = Rule ''secret-field'' (field_rule_pattern secret_name) True ''[REDACTED_SECRET]''"

definition patient_rule :: rule where
  "patient_rule = Rule ''patient-identifier'' (field_rule_pattern (person_name ''patient'')) True ''[REDACTED_PATIENT_IDENTIFIER]''"

definition customer_rule :: rule where
  "customer_rule = Rule ''customer-identifier'' (field_rule_pattern (person_name ''customer'')) True ''[REDACTED_CUSTOMER_IDENTIFIER]''"

definition home_rule :: rule where
  "home_rule = Rule ''home-path'' (seqs [Not_behind is_word, chr (CHR ''/''), alts [lit ''home'', lit ''Users''], chr (CHR ''/''),
     plus (Cls (neither is_space (''<>'' @ quotes)))]) False ''[REDACTED_HOME_PATH]''"

definition email_rule :: rule where
  "email_rule = Rule ''email'' (seqs [Boundary, plus (Cls (either is_alnum_ascii ''._%+-'')), chr (CHR ''@''),
     plus (Cls (either is_alnum_ascii ''.-'')), chr (CHR ''.''), times 2 None is_letter, Boundary]) False ''[REDACTED_EMAIL]''"

definition phone_rule :: rule where
  "phone_rule = Rule ''phone'' (seqs [Not_behind is_word, opt (chr (CHR ''+'')), Cls is_digit,
     times 7 None (either is_digit '' .()-''), Cls is_digit, Ahead False (Cls is_word)]) False ''[REDACTED_PHONE_OR_NUMBER]''"

definition card_rule :: rule where
  "card_rule = Rule ''card-like'' (seqs [Not_behind is_digit, Rep 13 (Some 19) True (seqs [Cls is_digit, opt (one_of '' -'')]), Ahead False (Cls is_digit)])
     False ''[REDACTED_CARD_OR_NUMBER]''"

definition provider_rule :: rule where
  "provider_rule = Rule ''provider-credential'' provider_credential_pattern False ''[REDACTED_PROVIDER_CREDENTIAL]''"

definition local_path_rule :: rule where
  "local_path_rule = Rule ''local-path'' local_user_path_pattern False ''[REDACTED_LOCAL_PATH]''"

definition trailing_rule :: rule where
  "trailing_rule = Rule ''trailing-whitespace'' (seqs [plus (one_of [CHR 0x20, CHR 0x09]), Ahead True (seqs [opt (chr (CHR 0x0D)), Line_end])]) False []"

definition rules :: "rule list" where
  "rules = [private_key_rule, authorization_rule, cookie_rule, jwt_rule, provider_rule, password_rule, secret_rule, patient_rule,
     customer_rule, home_rule, email_rule, phone_rule, card_rule, local_path_rule, trailing_rule]"

definition stream_rules :: "rule list" where
  "stream_rules = filter (\<lambda>r. rule_id r \<noteq> ''private-key'') rules"


section \<open>\<open>redact_text\<close>\<close>

type_synonym counts = "(string \<times> nat) list"

text \<open>\<open>total[key] = total.get(key, 0) + n\<close> for each added pair.\<close>

fun add_count :: "string \<Rightarrow> nat \<Rightarrow> counts \<Rightarrow> counts" where
  "add_count k n [] = [(k, n)]"
| "add_count k n ((k', m) # cs) = (if k' = k then (k, m + n) # cs else (k', m) # add_count k n cs)"

definition merge_counts :: "counts \<Rightarrow> counts \<Rightarrow> counts" where
  "merge_counts total_counts added = foldl (\<lambda>t (k, n). add_count k n t) total_counts added"

fun apply_rules :: "rule list \<Rightarrow> string \<Rightarrow> string \<times> counts" where
  "apply_rules [] s = (s, [])"
| "apply_rules (r # rs) s =
     (let (s', n) = subn (rule_pattern r) (replacement_of r) s; (out, cs) = apply_rules rs s' in
      (out, if n = 0 then cs else (rule_id r, n) # cs))"

definition leftover_check :: "string \<Rightarrow> unit result" where
  "leftover_check s =
     require (search provider_credential_pattern s = None) (ValueError ''unredacted known provider credential identifier'')
     (require (search local_user_path_pattern s = None) (ValueError ''unredacted absolute user workspace path'') (Inr ()))"

definition redact_text :: "string \<Rightarrow> (string \<times> counts) result" where
  "redact_text text =
     (let (out, cs) = apply_rules rules text in rbind (leftover_check out) (\<lambda>_. Inr (out, cs)))"

end
