(* ===== verification/Redaction_Stream.thy ===== *)
theory Redaction_Stream
  imports Redaction Sha256
begin

text \<open>
  The streaming redactor of \<open>src/src/sddgov/redaction.py\<close> (\<open>_StreamingTextRedactor\<close>) and the
  reader that feeds it line by line (\<open>_stream_text_at\<close>), and the report over a set of files
  (\<open>redact_files\<close>).
\<close>


section \<open>Fields that cross a line\<close>

definition carriage_return :: char where "carriage_return = CHR 0x0D"

definition newline :: char where "newline = CHR 0x0A"

text \<open>The groups \<open>tail\<close> and \<open>quote\<close> are group 1 here.\<close>

definition tail_pattern :: "string \<Rightarrow> re" where
  "tail_pattern separators = Cap 1 (seqs [star blank, opt (seqs [one_of separators, star blank]), opt (chr carriage_return), chr newline])"

definition header_start :: "re \<Rightarrow> re" where
  "header_start name = seqs [Text_start, name, tail_pattern '':'', Text_end]"

definition field_start :: "re \<Rightarrow> re" where
  "field_start name = seqs [optional_quote, name, optional_quote, tail_pattern ''=:'', Text_end]"

definition pending_authorization :: re where
  "pending_authorization = seqs [star space, opt (seqs [chr (CHR '':''), star space, opt (seqs [lit_any_case ''bearer'', star space])]), Very_end]"

definition pending_cookie :: re where
  "pending_cookie = seqs [star space, opt (seqs [chr (CHR '':''), star space]), Very_end]"

definition pending_field :: re where
  "pending_field = seqs [star space, opt (seqs [one_of ''=:'', star space]), Very_end]"

definition cross_line_field_starts :: "(string \<times> re \<times> re) list" where
  "cross_line_field_starts =
     [(''authorization'', header_start (lit_any_case ''authorization''), pending_authorization),
      (''cookie'', header_start cookie_name, pending_cookie),
      (''password'', field_start password_name, pending_field),
      (''secret-field'', field_start secret_name, pending_field),
      (''patient-identifier'', field_start (person_name ''patient''), pending_field),
      (''customer-identifier'', field_start (person_name ''customer''), pending_field)]"

definition quoted_start :: "re \<Rightarrow> re" where
  "quoted_start name = seqs [assignment name, Cap 1 (one_of quotes)]"

definition quoted_cross_line_field_starts :: "(string \<times> re) list" where
  "quoted_cross_line_field_starts =
     [(''password'', quoted_start password_name), (''secret-field'', quoted_start secret_name),
      (''patient-identifier'', quoted_start (person_name ''patient'')), (''customer-identifier'', quoted_start (person_name ''customer''))]"

definition max_redaction_file_bytes :: nat where "max_redaction_file_bytes = 10 * 1024 * 1024"

definition max_logical_line_characters :: nat where "max_logical_line_characters = 1024 * 1024"

definition max_private_key_marker_characters :: nat where "max_private_key_marker_characters = 4096"

definition max_cross_line_field_characters :: nat where "max_cross_line_field_characters = 4096"


section \<open>The redactor\<close>

record redactor =
  rd_in_private_key :: bool
  rd_marker_fragment :: string
  rd_counts :: counts
  rd_cross_line_field :: "(string \<times> string \<times> string \<times> re) option"
  rd_quoted_field :: "(string \<times> char \<times> string \<times> nat) option"

definition new_redactor :: redactor where
  "new_redactor = \<lparr>rd_in_private_key = False, rd_marker_fragment = [], rd_counts = [], rd_cross_line_field = None, rd_quoted_field = None\<rparr>"

text \<open>\<open>_closing_quote\<close>: the text from position \<open>index\<close> on.\<close>

fun closing_quote :: "char \<Rightarrow> nat \<Rightarrow> string \<Rightarrow> nat option result" where
  "closing_quote quote index [] = Inr None"
| "closing_quote quote index [c] = Inr (if c \<noteq> backslash \<and> c = quote then Some index else None)"
| "closing_quote quote index (c # d # rest) =
     (if c = backslash
      then (if d = carriage_return \<or> d = newline then Inl (ValueError ''quoted sensitive field contains an invalid line escape'')
            else closing_quote quote (index + 2) rest)
      else if c = quote then Inr (Some index)
      else closing_quote quote (index + 1) (d # rest))"

definition closing_quote_at :: "string \<Rightarrow> char \<Rightarrow> nat \<Rightarrow> nat option result" where
  "closing_quote_at text quote start = closing_quote quote start (drop start text)"

text \<open>The first match of one start pattern whose quote does not close: field start, quote and its offset.\<close>

fun first_open_quote :: "string \<Rightarrow> rmatch list \<Rightarrow> (nat \<times> char \<times> nat) option result" where
  "first_open_quote text [] = Inr None"
| "first_open_quote text (m # ms) =
     (case group_span 1 m of
        None \<Rightarrow> first_open_quote text ms
      | Some (quote_start, _) \<Rightarrow>
          rbind (closing_quote_at text (text ! quote_start) (quote_start + 1)) (\<lambda>closing.
          if closing = None then Inr (Some (fst m, text ! quote_start, quote_start - fst m)) else first_open_quote text ms))"

text \<open>\<open>min(candidates)\<close> compares the start, the rule identifier, the quote and the offset in turn.\<close>

type_synonym open_field = "nat \<times> string \<times> char \<times> nat"

definition field_before :: "open_field \<Rightarrow> open_field \<Rightarrow> bool" where
  "field_before = (\<lambda>(s, i, q, n) (s', i', q', n').
     s < s' \<or> s = s' \<and> (i < i' \<or> i = i' \<and> (q < q' \<or> q = q' \<and> n < n')))"

fun first_field :: "open_field list \<Rightarrow> open_field option" where
  "first_field [] = None"
| "first_field (f # fs) = (case first_field fs of None \<Rightarrow> Some f | Some g \<Rightarrow> Some (if field_before g f then g else f))"

definition open_field_of :: "string \<Rightarrow> string \<times> re \<Rightarrow> open_field option result" where
  "open_field_of text = (\<lambda>(rid, start).
     rbind (first_open_quote text (finditer start text 0)) (\<lambda>found.
     Inr (map_option (\<lambda>(b, quote, offset). (b, rid, quote, offset)) found)))"

definition incomplete_quoted_field :: "string \<Rightarrow> open_field option result" where
  "incomplete_quoted_field text =
     rbind (mapr (open_field_of text) quoted_cross_line_field_starts) (\<lambda>fs. Inr (first_field (concat (map (\<lambda>f. case f of None \<Rightarrow> [] | Some x \<Rightarrow> [x]) fs))))"

definition rule_by_id :: "string \<Rightarrow> rule option" where
  "rule_by_id rid = find (\<lambda>r. rule_id r = rid) stream_rules"

definition spans_lines :: "string \<Rightarrow> rmatch \<Rightarrow> bool" where
  "spans_lines s m \<longleftrightarrow> newline \<in> set (text_slice s (fst m) (fst (snd m))) \<or> carriage_return \<in> set (text_slice s (fst m) (fst (snd m)))"

definition crosses_line :: "string \<Rightarrow> string \<Rightarrow> bool" where
  "crosses_line rid candidate = (case rule_by_id rid of None \<Rightarrow> False | Some r \<Rightarrow> list_ex (spans_lines candidate) (finditer (rule_pattern r) candidate 0))"

definition field_opened_by :: "string \<Rightarrow> string \<times> re \<times> re \<Rightarrow> (string \<times> string \<times> string \<times> re) option" where
  "field_opened_by line = (\<lambda>(rid, start, pending).
     map_option (\<lambda>m. (rid, text_slice line (fst m) (fst (snd m)), group_text 1 line m, pending)) (search start line))"

text \<open>The search for a field that starts at the end of this line; without one the state stays as it is.\<close>

definition open_cross_line_field :: "redactor \<Rightarrow> string \<Rightarrow> redactor" where
  "open_cross_line_field r line =
     (case first_some (field_opened_by line) cross_line_field_starts of None \<Rightarrow> r | Some f \<Rightarrow> r\<lparr>rd_cross_line_field := Some f\<rparr>)"

definition reject_cross_line_field :: "redactor \<Rightarrow> string \<Rightarrow> redactor result" where
  "reject_cross_line_field r line =
     (case rd_cross_line_field r of
        None \<Rightarrow> Inr (open_cross_line_field r line)
      | Some (rid, held, held_tail, pending) \<Rightarrow>
          (let candidate = held @ line; tail = held_tail @ line in
           require (length candidate \<le> max_cross_line_field_characters) (ValueError ''cross-line sensitive field exceeds the streaming safety limit'')
           (require (\<not> crosses_line rid candidate) (ValueError (''cross-line sensitive field is not shareable: '' @ rid))
           (Inr (if fullmatch pending tail then r\<lparr>rd_cross_line_field := Some (rid, candidate, tail, pending)\<rparr>
                 else open_cross_line_field (r\<lparr>rd_cross_line_field := None\<rparr>) line)))))"


section \<open>Private keys\<close>

definition marker_literals :: "string list" where "marker_literals = [''-----begin'', ''-----end'']"

text \<open>The last marker that starts with the prefix, whatever its case.\<close>

definition last_marker :: "string \<Rightarrow> string \<Rightarrow> nat option" where
  "last_marker text prefix =
     (let ms = filter (\<lambda>m. lower (text_slice text (fst m) (fst (snd m))) = lower prefix) (finditer private_key_marker_prefix text 0) in
      if ms = [] then None else Some (fst (last ms)))"

text \<open>The longest proper start of a marker that ends the line and has no dash before it.\<close>

definition unfinished_marker :: "string \<Rightarrow> nat option" where
  "unfinished_marker text =
     (let logical = remove_suffix [carriage_return] (remove_suffix [newline] text) in
      first_some (\<lambda>literal. first_some (\<lambda>n.
          let start = length logical - n in
          if lower (drop start logical) = take n literal \<and> (start = 0 \<or> logical ! (start - 1) \<noteq> CHR ''-'') then Some start else None)
        (rev [1..<Suc (min (length literal - 1) (length logical))])) marker_literals)"

definition hold_incomplete_marker :: "string \<Rightarrow> string \<Rightarrow> (string \<times> string) result" where
  "hold_incomplete_marker text prefix =
     (let held = (\<lambda>marker. require (length text - marker \<le> max_private_key_marker_characters)
             (ValueError ''private key marker exceeds the streaming safety limit'') (Inr (take marker text, drop marker text))) in
      case last_marker text prefix of
        Some marker \<Rightarrow> (if contains_text ''-----'' (drop (marker + length prefix) text) then Inr (text, []) else held marker)
      | None \<Rightarrow> (case unfinished_marker text of None \<Rightarrow> Inr (text, []) | Some marker \<Rightarrow> held marker))"

definition count_key :: "redactor \<Rightarrow> redactor" where
  "count_key r = r\<lparr>rd_counts := add_count ''private-key'' 1 (rd_counts r)\<rparr>"

lemma key_marker_nonempty: "1 \<le> min_len private_key_begin" "1 \<le> min_len private_key_end"
  by code_simp+

lemma search_key_end: "search private_key_end s = Some (b, e, g) \<Longrightarrow> 0 < e \<and> e \<le> length s"
  using search_SomeD [of private_key_end s 0 b e g] matches_min_len [of private_key_end s b e] key_marker_nonempty by (auto simp: search_def)

lemma search_key_begin: "search private_key_begin s = Some (b, e, g) \<Longrightarrow> 0 < e \<and> e \<le> length s"
  using search_SomeD [of private_key_begin s 0 b e g] matches_min_len [of private_key_begin s b e] key_marker_nonempty by (auto simp: search_def)

text \<open>The loop of \<open>_private_keys\<close> over what remains of the text.\<close>

function key_loop :: "redactor \<Rightarrow> string \<Rightarrow> string \<Rightarrow> (string \<times> redactor) result" where
  "key_loop r out remaining =
     (if remaining = [] then Inr (out, r)
      else if rd_in_private_key r
      then (case search private_key_end remaining of
              None \<Rightarrow> rbind (hold_incomplete_marker remaining ''-----END'') (\<lambda>(safe, fragment). Inr (out, r\<lparr>rd_marker_fragment := fragment\<rparr>))
            | Some (b, e, g) \<Rightarrow> key_loop (r\<lparr>rd_in_private_key := False\<rparr>) out (drop e remaining))
      else (case search private_key_begin remaining of
              None \<Rightarrow> rbind (hold_incomplete_marker remaining ''-----BEGIN'') (\<lambda>(safe, fragment). Inr (out @ safe, r\<lparr>rd_marker_fragment := fragment\<rparr>))
            | Some (b, e, g) \<Rightarrow>
                (case search private_key_end (drop e remaining) of
                   None \<Rightarrow> Inr (out @ take b remaining @ ''[REDACTED_PRIVATE_KEY]'', (count_key r)\<lparr>rd_in_private_key := True\<rparr>)
                 | Some (b', e', g') \<Rightarrow> key_loop (count_key r) (out @ take b remaining @ ''[REDACTED_PRIVATE_KEY]'') (drop e' (drop e remaining)))))"
  by pat_completeness auto

termination
  by (relation "measure (\<lambda>(r, out, remaining). length remaining)") (auto dest: search_key_end search_key_begin)

declare key_loop.simps [simp del]

definition strip_line_end :: "string \<Rightarrow> string" where
  "strip_line_end s = rev (dropWhile (\<lambda>c. c = carriage_return \<or> c = newline) (rev s))"

definition private_keys :: "redactor \<Rightarrow> string \<Rightarrow> (string \<times> redactor) result" where
  "private_keys r text =
     (let carried = rd_marker_fragment r; r' = r\<lparr>rd_marker_fragment := []\<rparr>; logical = strip_line_end carried in
      if ends_with [newline] carried \<or> ends_with [carriage_return] carried
      then (if list_ex (\<lambda>literal. contains_text literal (lower logical)) marker_literals then key_loop r' [] (carried @ text)
            else if list_ex (\<lambda>literal. starts_with (lower (take (length literal) (logical @ text))) literal) marker_literals
            then Inl (ValueError ''private key marker is split across a logical-line boundary'')
            else key_loop r' carried text)
      else key_loop r' [] (carried @ text))"


section \<open>One line\<close>

definition apply_stream_rules :: "redactor \<Rightarrow> string \<Rightarrow> (string \<times> redactor) result" where
  "apply_stream_rules r text =
     (let (cleaned, cs) = apply_rules stream_rules text in
      rbind (leftover_check cleaned) (\<lambda>_. Inr (cleaned, r\<lparr>rd_counts := merge_counts (rd_counts r) cs\<rparr>)))"

definition clean :: "redactor \<Rightarrow> string \<Rightarrow> (string \<times> redactor) result" where
  "clean r text = rbind (private_keys r text) (\<lambda>(t, r'). apply_stream_rules r' t)"

text \<open>What \<open>_quoted_sensitive_fields\<close> does: it is done, or redacts a rest of the line after the closed field.\<close>

datatype line_step = Done string redactor | Again string redactor string

definition quoted_limit :: exn where
  "quoted_limit = ValueError ''quoted sensitive field exceeds the streaming safety limit''"

definition quoted_sensitive_fields :: "redactor \<Rightarrow> string \<Rightarrow> line_step result" where
  "quoted_sensitive_fields r text =
     (case rd_quoted_field r of
        Some (rid, quote, held, offset) \<Rightarrow>
          (let candidate = held @ text in
           rbind (closing_quote_at candidate quote (offset + 1)) (\<lambda>closing.
           case closing of
             None \<Rightarrow> require (length candidate \<le> max_cross_line_field_characters) quoted_limit
               (Inr (Done [] (r\<lparr>rd_quoted_field := Some (rid, quote, candidate, offset)\<rparr>)))
           | Some i \<Rightarrow> require (i + 1 \<le> max_cross_line_field_characters) quoted_limit
               (rbind (clean (r\<lparr>rd_quoted_field := None\<rparr>) (take (i + 1) candidate)) (\<lambda>(out, r').
                Inr (Again out r' (drop (i + 1) candidate))))))
      | None \<Rightarrow>
          rbind (incomplete_quoted_field text) (\<lambda>incomplete.
          case incomplete of
            None \<Rightarrow> rbind (clean r text) (\<lambda>(out, r'). Inr (Done out r'))
          | Some (start, rid, quote, offset) \<Rightarrow>
              require (length text - start \<le> max_cross_line_field_characters) quoted_limit
              (rbind (clean (r\<lparr>rd_quoted_field := Some (rid, quote, drop start text, offset)\<rparr>) (take start text)) (\<lambda>(out, r').
               Inr (Done out r')))))"

text \<open>\<open>redact_line\<close> with a bound on the nested calls; \<open>None\<close> when the bound is too small.\<close>

fun redact_line :: "nat \<Rightarrow> redactor \<Rightarrow> string \<Rightarrow> (string \<times> redactor) result option" where
  "redact_line 0 r line = None"
| "redact_line (Suc n) r line =
     (case rbind (reject_cross_line_field r line) (\<lambda>r'. quoted_sensitive_fields r' line) of
        Inl e \<Rightarrow> Some (Inl e)
      | Inr (Done out r') \<Rightarrow> Some (Inr (out, r'))
      | Inr (Again out r' rest) \<Rightarrow>
          map_option (\<lambda>res. rbind res (\<lambda>(out', r''). Inr (out @ out', r''))) (redact_line n r' rest))"

definition finish :: "redactor \<Rightarrow> (string \<times> redactor) result" where
  "finish r =
     require (rd_quoted_field r = None) (ValueError ''unterminated quoted sensitive field in redaction source'')
     (require (\<not> rd_in_private_key r) (ValueError ''unterminated private key block in redaction source'')
      (let trailing = rd_marker_fragment r; r' = r\<lparr>rd_marker_fragment := []\<rparr> in
       if trailing = [] then Inr ([], r') else apply_stream_rules r' trailing))"

section \<open>The reader\<close>

text \<open>\<open>decoder.decode(chunk, final=False)\<close>: the text and the bytes of an unfinished character.\<close>

fun decode_some :: "string \<Rightarrow> (string \<times> string) option" where
  "decode_some [] = Some ([], [])"
| "decode_some (b # bs) = (let n = of_char b :: nat in
     if n < 128 then map_option (\<lambda>(t, r). (b # t, r)) (decode_some bs)
     else if n = 194 \<or> n = 195
     then (case bs of
             [] \<Rightarrow> Some ([], [b])
           | c # cs \<Rightarrow> (let m = of_char c :: nat in
               if 128 \<le> m \<and> m < 192
               then map_option (\<lambda>(t, r). (char_of ((n - 192) * 64 + (m - 128)) # t, r)) (decode_some cs)
               else None))
     else None)"

definition redact :: "redactor \<Rightarrow> string \<Rightarrow> (string \<times> redactor) result" where
  "redact r line = (case redact_line 2 r line of Some x \<Rightarrow> x | None \<Rightarrow> Inl (RuntimeError ''maximum recursion depth exceeded''))"

definition source_too_large :: "string \<Rightarrow> exn" where
  "source_too_large name = ValueError (''redaction source exceeds '' @ show_nat max_redaction_file_bytes @ '' bytes: '' @ name
     @ ''; collect a bounded excerpt or summary'')"

definition line_too_long :: "string \<Rightarrow> exn" where
  "line_too_long name = ValueError (''redaction source has a logical line exceeding '' @ show_nat max_logical_line_characters
     @ '' characters: '' @ name)"

definition undecodable :: exn where "undecodable = UnicodeDecodeError ''invalid utf-8''"

text \<open>The inner loop: complete lines are redacted, the rest stays pending.\<close>

function drain :: "string \<Rightarrow> redactor \<Rightarrow> string \<Rightarrow> string \<Rightarrow> (redactor \<times> string \<times> string) result" where
  "drain name r out pending =
     (if newline \<in> set pending
      then (let content = takeWhile (\<lambda>c. c \<noteq> newline) pending in
        require (length content \<le> max_logical_line_characters) (line_too_long name)
        (rbind (redact r (content @ [newline])) (\<lambda>(published, r').
         drain name r' (out @ published) (drop (Suc (length content)) pending))))
      else require (length pending \<le> max_logical_line_characters) (line_too_long name) (Inr (r, out, pending)))"
  by pat_completeness auto

termination
  by (relation "measure (\<lambda>(name, r, out, pending). length pending)") (auto simp: in_set_conv_decomp)

declare drain.simps [simp del]

record stream =
  st_source :: string
  st_undecoded :: string
  st_pending :: string
  st_redactor :: redactor
  st_published :: string

definition new_stream :: stream where
  "new_stream = \<lparr>st_source = [], st_undecoded = [], st_pending = [], st_redactor = new_redactor, st_published = []\<rparr>"

definition take_chunk :: "string \<Rightarrow> stream \<Rightarrow> string \<Rightarrow> stream result" where
  "take_chunk name st chunk =
     (let source = st_source st @ chunk in
      require (length source \<le> max_redaction_file_bytes) (source_too_large name)
      (rbind (of_option undecodable (decode_some (st_undecoded st @ chunk))) (\<lambda>(text, rest).
       rbind (drain name (st_redactor st) (st_published st) (st_pending st @ text)) (\<lambda>(r, out, pending).
       Inr (st\<lparr>st_source := source, st_undecoded := rest, st_pending := pending, st_redactor := r, st_published := out\<rparr>)))))"

fun take_chunks :: "string \<Rightarrow> stream \<Rightarrow> string result list \<Rightarrow> stream result" where
  "take_chunks name st [] = Inr st"
| "take_chunks name st (Inl e # reads) = Inl e"
| "take_chunks name st (Inr chunk # reads) = rbind (take_chunk name st chunk) (\<lambda>st'. take_chunks name st' reads)"

text \<open>The end of the source: the last line without a line feed, then what the redactor still holds.\<close>

definition end_of_stream :: "string \<Rightarrow> stream \<Rightarrow> (string \<times> counts) result" where
  "end_of_stream name st =
     require (st_undecoded st = []) undecodable
     (require (length (st_pending st) \<le> max_logical_line_characters) (line_too_long name)
     (rbind (if st_pending st = [] then Inr ([], st_redactor st) else redact (st_redactor st) (st_pending st)) (\<lambda>(published, r).
      rbind (finish r) (\<lambda>(trailing, r').
      Inr (st_published st @ published @ trailing, rd_counts r')))))"

text \<open>The digest and size of the source, the published bytes, their digest and size, and the counts.\<close>

record stream_result =
  sr_source_sha256 :: string
  sr_source_size :: nat
  sr_output :: string
  sr_output_sha256 :: string
  sr_output_size :: nat
  sr_counts :: counts

definition stream_result_of :: "string \<Rightarrow> string \<Rightarrow> counts \<Rightarrow> stream_result" where
  "stream_result_of source out cs =
     \<lparr>sr_source_sha256 = sha256_hex source, sr_source_size = length source, sr_output = utf8 out,
      sr_output_sha256 = sha256_hex (utf8 out), sr_output_size = length (utf8 out), sr_counts = cs\<rparr>"

definition stream_text :: "string \<Rightarrow> string result list \<Rightarrow> stream_result result" where
  "stream_text name reads =
     rbind (take_chunks name new_stream reads) (\<lambda>st.
     rbind (end_of_stream name st) (\<lambda>(out, cs). Inr (stream_result_of (st_source st) out cs)))"

end
