(* ===== verification/Dep_Files.thy ===== *)
theory Dep_Files
  imports Fs_Snapshot Redaction_Stream
begin

text \<open>
  The file layer of a debug evidence package (DEP), \<open>src/src/sddgov/evidence.py\<close>: walking a
  directory path or an evidence zone component by component, reading one regular file through
  a retained directory, the digest that binds the control documents, and the checks of one
  artifact path and of one zone listing.

  As in \<^verbatim>\<open>Trust\<close>, a routine is a function of what its system calls return, in the order
  in which it makes them; two calls on one name may disagree.
\<close>


section \<open>Constants\<close>

definition collectors :: "string list" where
  "collectors = [''browser-console'', ''browser-har'', ''playwright-trace'', ''flutter-log'',
     ''android-logcat'', ''supabase-log'', ''docker-log'', ''terminal'', ''git'']"

definition phases :: "string list" where
  "phases = [''red'', ''evidence'', ''fix'', ''green'', ''proof'']"

definition manifest_schema_version :: string where "manifest_schema_version = ''1.1''"

definition legacy_manifest_schema_version :: string where "legacy_manifest_schema_version = ''1.0''"

definition max_dep_control_file_bytes :: nat where "max_dep_control_file_bytes = 1024 * 1024"

definition max_dep_artifact_bytes :: nat where "max_dep_artifact_bytes = max_redaction_file_bytes"

definition text_suffixes :: "string list" where
  "text_suffixes = [''.txt'', ''.log'', ''.json'', ''.jsonl'', ''.yaml'', ''.yml'', ''.xml'', ''.md'',
     ''.csv'', ''.tsv'', ''.html'', ''.js'', ''.ts'', ''.dart'', ''.sh'']"

definition raw_zone :: string where "raw_zone = ''private/raw''"

definition shareable_zone :: string where "shareable_zone = ''shareable/artifacts''"

text \<open>\<open>REQUIRED_DOCS[phase]\<close>.\<close>

definition required_docs :: "string \<Rightarrow> string list" where
  "required_docs phase =
     (if phase = ''red'' then [''reproduction.md'']
      else if phase = ''evidence'' then [''reproduction.md'', ''redaction-report.json'']
      else if phase = ''fix'' then
        [''reproduction.md'', ''root-cause-hypothesis.md'', ''fix-scope.md'', ''redaction-report.json'']
      else if phase = ''green'' then
        [''reproduction.md'', ''root-cause-hypothesis.md'', ''fix-scope.md'', ''regression-evidence.md'',
         ''verification.md'', ''redaction-report.json'']
      else
        [''reproduction.md'', ''root-cause-hypothesis.md'', ''fix-scope.md'', ''regression-evidence.md'',
         ''verification.md'', ''rollback.md'', ''redaction-report.json''])"


section \<open>Walking directories\<close>

text \<open>
  What \<open>os.open\<close> with \<open>O_NOFOLLOW\<close> does: a descriptor, \<open>ENOENT\<close>, \<open>ELOOP\<close> (the name is a
  symbolic link), or another error with its message.
\<close>

datatype opened = Opened | Missing string | Loop string | Fails string

fun open_result :: "opened \<Rightarrow> unit result" where
  "open_result Opened = Inr ()"
| "open_result (Missing m) = Inl (FileNotFoundError m)"
| "open_result (Loop m) = Inl (OSError m)"
| "open_result (Fails m) = Inl (OSError m)"

text \<open>
  The calls for one component: \<open>os.open\<close>, after \<open>ENOENT\<close> the \<open>os.mkdir\<close> and the second
  \<open>os.open\<close>, the \<open>os.fstat\<close> of the descriptor, and at the end of the walk \<open>os.stat\<close> of the name
  and \<open>os.fstat\<close> of the descriptor.
\<close>

record component_calls =
  cc_open :: opened
  cc_mkdir :: "unit result"
  cc_reopen :: opened
  cc_metadata :: "os_stat result"
  cc_current :: "os_stat result"
  cc_opened :: "os_stat result"

text \<open>A fault is an exception, with the flag whether \<open>on_change\<close> is called before it is raised.\<close>

type_synonym fault = "bool \<times> exn"

fun first_fault :: "('a \<Rightarrow> fault option) \<Rightarrow> 'a list \<Rightarrow> fault option" where
  "first_fault f [] = None"
| "first_fault f (x # xs) = (case f x of None \<Rightarrow> first_fault f xs | Some e \<Rightarrow> Some e)"

definition open_component :: "bool \<Rightarrow> exn \<Rightarrow> component_calls \<Rightarrow> fault option" where
  "open_component create unsafe c = (case cc_open c of
     Opened \<Rightarrow> None
   | Missing m \<Rightarrow>
       (if create
        then (case rbind (cc_mkdir c) (\<lambda>_. open_result (cc_reopen c)) of Inl e \<Rightarrow> Some (False, e) | Inr _ \<Rightarrow> None)
        else Some (False, FileNotFoundError m))
   | Loop m \<Rightarrow> Some (True, unsafe)
   | Fails m \<Rightarrow> Some (True, unsafe))"

definition enter_component :: "bool \<Rightarrow> exn \<Rightarrow> exn \<Rightarrow> component_calls \<Rightarrow> fault option" where
  "enter_component create unsafe not_directory c = (case open_component create unsafe c of
     Some e \<Rightarrow> Some e
   | None \<Rightarrow> (case cc_metadata c of
       Inl e \<Rightarrow> Some (False, e)
     | Inr metadata \<Rightarrow> (if st_kind metadata = Directory then None else Some (False, not_directory))))"

definition leave_component :: "exn \<Rightarrow> component_calls \<Rightarrow> fault option" where
  "leave_component changed c = (case cc_current c of
     Inl e \<Rightarrow> Some (True, changed)
   | Inr current \<Rightarrow> (case cc_opened c of
       Inl e \<Rightarrow> Some (False, e)
     | Inr opened \<Rightarrow>
         (if st_kind current = Directory \<and> same_inode current opened then None else Some (True, changed))))"

text \<open>
  \<open>_opened_directory_path\<close> around a block that reads and changes a state: \<open>on_change\<close> runs when
  the walk meets an unsafe component, when the block raises and when the path has changed
  after the block; its own exceptions never replace the primary one. \<open>on_commit\<close> runs last,
  and its exception is the one the caller sees.
\<close>

record path_calls =
  pc_anchor :: "unit result"
  pc_component :: "nat \<Rightarrow> component_calls"

definition components_of :: "(nat \<Rightarrow> component_calls) \<Rightarrow> string \<Rightarrow> component_calls list" where
  "components_of calls path = map calls [0..<length (path_parts path)]"

definition enter_path :: "bool \<Rightarrow> string \<Rightarrow> path_calls \<Rightarrow> fault option" where
  "enter_path create candidate calls =
     (if ''..'' \<in> set (path_parts candidate) then Some (False, ValueError ''directory path is not normalized'')
      else case pc_anchor calls of
        Inl e \<Rightarrow> Some (False, e)
      | Inr _ \<Rightarrow> first_fault
          (enter_component create
            (ValueError (''directory path cannot be opened safely: '' @ candidate))
            (ValueError (''directory path component is unsafe: '' @ candidate)))
          (components_of (pc_component calls) candidate))"

definition leave_path :: "string \<Rightarrow> path_calls \<Rightarrow> fault option" where
  "leave_path candidate calls =
     first_fault (leave_component (ValueError (''directory path changed during operation: '' @ candidate)))
       (components_of (pc_component calls) candidate)"

definition raise_fault :: "('s \<Rightarrow> 's) \<Rightarrow> fault \<Rightarrow> 's \<Rightarrow> 's \<times> 'a result" where
  "raise_fault on_change fault s = (if fst fault then on_change s else s, Inl (snd fault))"

definition opened_directory_path ::
  "bool \<Rightarrow> string \<Rightarrow> path_calls \<Rightarrow> ('s \<Rightarrow> 's) \<Rightarrow> ('s \<Rightarrow> 's \<times> unit result) \<Rightarrow> ('s \<Rightarrow> 's \<times> 'a result) \<Rightarrow> 's \<Rightarrow> 's \<times> 'a result"
where
  "opened_directory_path create candidate calls on_change on_commit body s =
     (case enter_path create candidate calls of
        Some fault \<Rightarrow> raise_fault on_change fault s
      | None \<Rightarrow>
     (case body s of
        (s1, Inl primary) \<Rightarrow> (on_change s1, Inl primary)
      | (s1, Inr a) \<Rightarrow>
     (case leave_path candidate calls of
        Some fault \<Rightarrow> raise_fault on_change fault s1
      | None \<Rightarrow> (case on_commit s1 of (s2, c) \<Rightarrow> (s2, rbind c (\<lambda>_. Inr a))))))"

definition opened_dep_root ::
  "string \<Rightarrow> path_calls \<Rightarrow> ('s \<Rightarrow> 's) \<Rightarrow> ('s \<Rightarrow> 's \<times> unit result) \<Rightarrow> ('s \<Rightarrow> 's \<times> 'a result) \<Rightarrow> 's \<Rightarrow> 's \<times> 'a result" where
  "opened_dep_root dep calls on_change on_commit body s =
     (case opened_directory_path False dep calls on_change on_commit body s of
        (s', Inl (FileNotFoundError m)) \<Rightarrow> (s', Inl (ValueError ''DEP root must be an existing safe directory path''))
      | r \<Rightarrow> r)"

text \<open>
  \<open>_opened_zone_at\<close> on one of the two zones, without an \<open>on_change\<close> callback. Entering and
  leaving are separate, since the artifact check enters and leaves by hand.
\<close>

definition enter_zone :: "bool \<Rightarrow> string \<Rightarrow> (nat \<Rightarrow> component_calls) \<Rightarrow> unit result" where
  "enter_zone create zone calls =
     require (\<not> is_absolute zone \<and> ''..'' \<notin> set (path_parts zone))
       (ValueError (''evidence zone is not normalized: '' @ zone))
     (case first_fault
        (enter_component create
          (ValueError (''evidence zone cannot be opened safely: '' @ zone))
          (ValueError (''evidence zone component is not a directory: '' @ zone)))
        (components_of calls zone) of
       Some (_, e) \<Rightarrow> Inl e
     | None \<Rightarrow> Inr ())"

definition leave_zone :: "string \<Rightarrow> (nat \<Rightarrow> component_calls) \<Rightarrow> unit result" where
  "leave_zone zone calls =
     (case first_fault
        (leave_component (ValueError (''evidence zone changed during operation: '' @ zone)))
        (components_of calls zone) of
       Some (_, e) \<Rightarrow> Inl e
     | None \<Rightarrow> Inr ())"

definition opened_zone_at :: "bool \<Rightarrow> string \<Rightarrow> (nat \<Rightarrow> component_calls) \<Rightarrow> 'a result \<Rightarrow> 'a result" where
  "opened_zone_at create zone calls body =
     rbind (enter_zone create zone calls) (\<lambda>_.
     rbind body (\<lambda>a.
     rbind (leave_zone zone calls) (\<lambda>_. Inr a)))"

section \<open>Reading one regular file\<close>

text \<open>
  The calls of \<open>_read_regular_bytes_at\<close>: \<open>os.open\<close>, \<open>os.fstat\<close>, the \<open>os.read\<close> calls (an empty
  chunk, or the end of the list, is the end of the file), and after it \<open>os.fstat\<close> and \<open>os.stat\<close>.
\<close>

record read_calls =
  rc_open :: opened
  rc_metadata :: "os_stat result"
  rc_chunks :: "string result list"
  rc_final :: "os_stat result"
  rc_name :: "os_stat result"

definition too_large :: "string \<Rightarrow> nat \<Rightarrow> exn" where
  "too_large label max_bytes =
     ValueError (label @ '' exceeds '' @ show_nat max_bytes @ '' bytes; collect a bounded excerpt or summary'')"

fun read_bounded :: "string \<Rightarrow> nat \<Rightarrow> nat \<Rightarrow> string result list \<Rightarrow> string result" where
  "read_bounded label max_bytes observed [] = Inr []"
| "read_bounded label max_bytes observed (Inl e # chunks) = Inl e"
| "read_bounded label max_bytes observed (Inr chunk # chunks) =
     (if chunk = [] then Inr []
      else require (observed + length chunk \<le> max_bytes) (too_large label max_bytes)
             (rbind (read_bounded label max_bytes (observed + length chunk) chunks) (\<lambda>rest. Inr (chunk @ rest))))"

definition read_opened :: "read_calls \<Rightarrow> string \<Rightarrow> nat \<Rightarrow> (string \<times> os_stat) result" where
  "read_opened c label max_bytes =
     rbind (rc_metadata c) (\<lambda>metadata.
     require (st_kind metadata = Regular) (ValueError (label @ '' must be a regular file''))
     (require (st_nlink metadata = 1) (ValueError (label @ '' must not be hard-linked''))
     (require (st_size metadata \<le> int max_bytes) (too_large label max_bytes)
     (rbind (read_bounded label max_bytes 0 (rc_chunks c)) (\<lambda>raw.
      rbind (rc_final c) (\<lambda>final_descriptor.
      rbind (rescue is_OSError (ValueError (label @ '' changed during read'')) (rc_name c)) (\<lambda>final_name.
      require (same_snapshot final_descriptor metadata \<and> same_snapshot final_name metadata
          \<and> st_kind final_name = Regular)
        (ValueError (label @ '' changed during read''))
      (Inr (raw, final_descriptor)))))))))"

definition read_regular_bytes_at :: "read_calls \<Rightarrow> string \<Rightarrow> string \<Rightarrow> nat \<Rightarrow> (string \<times> os_stat) result" where
  "read_regular_bytes_at c name label max_bytes =
     require (name \<noteq> [] \<and> path_name name = name) (ValueError (label @ '' has an invalid filename''))
     (case rc_open c of
        Missing m \<Rightarrow> Inl (FileNotFoundError m)
      | Loop m \<Rightarrow> Inl (ValueError (label @ '' must not be a symlink''))
      | Fails m \<Rightarrow> Inl (ValueError (label @ '' cannot be opened safely: '' @ m))
      | Opened \<Rightarrow> read_opened c label max_bytes)"

definition read_regular_bytes :: "path_calls \<Rightarrow> read_calls \<Rightarrow> string \<Rightarrow> string \<Rightarrow> string \<Rightarrow> nat \<Rightarrow> string result" where
  "read_regular_bytes calls c parent name label max_bytes =
     snd (opened_directory_path False parent calls id (\<lambda>s. (s, Inr ()))
            (\<lambda>s. (s, rbind (read_regular_bytes_at c name label max_bytes) (\<lambda>(raw, _). Inr raw))) ())"

text \<open>\<open>(st_dev, st_ino)\<close> and the longer identity of a control document.\<close>

definition inode_of :: "os_stat \<Rightarrow> int \<times> int" where
  "inode_of m = (st_dev m, st_ino m)"

definition identity_of :: "os_stat \<Rightarrow> int \<times> int \<times> int \<times> int" where
  "identity_of m = (st_dev m, st_ino m, st_size m, st_mtime_ns m)"

definition require_regular_snapshot_at ::
  "read_calls \<Rightarrow> string \<Rightarrow> int \<times> int \<Rightarrow> nat \<Rightarrow> digest \<Rightarrow> string \<Rightarrow> nat \<Rightarrow> unit result" where
  "require_regular_snapshot_at c name identity count digest label max_bytes =
     rbind (read_regular_bytes_at c name label max_bytes) (\<lambda>(raw, metadata).
     require (inode_of metadata = identity \<and> st_size metadata = int count \<and> length raw = count \<and> sha256_hex raw = digest)
       (ValueError (label @ '' changed before transaction commit: '' @ name)) (Inr ()))"

definition load_at :: "read_calls \<Rightarrow> string \<Rightarrow> json result" where
  "load_at c name =
     rbind (read_regular_bytes_at c name (''machine-readable document '' @ name) max_dep_control_file_bytes) (\<lambda>(raw, _).
     loads_bytes raw)"


section \<open>The control snapshot\<close>

definition control_document :: "string \<Rightarrow> string \<Rightarrow> string" where
  "control_document name document =
     utf8 name @ [CHR 0x00] @ map char_of (be_bytes 8 (int (length document))) @ document"

definition control_preimage :: "string \<Rightarrow> string \<Rightarrow> string" where
  "control_preimage summary manifest =
     ''SDDGOV-DEP-CONTROL-SNAPSHOT-v1'' @ [CHR 0x00] @ control_document ''summary.yaml'' summary
       @ control_document ''manifest.json'' manifest"

definition control_snapshot_digest :: "string \<Rightarrow> string \<Rightarrow> digest" where
  "control_snapshot_digest summary manifest = sha256_hex (control_preimage summary manifest)"


section \<open>Artifacts\<close>

definition is_har :: "json \<Rightarrow> bool" where
  "is_har parsed \<longleftrightarrow> is_dict parsed \<and> is_dict (get (dict_val parsed) ''log'')
     \<and> is_list (get (dict_val (get (dict_val parsed) ''log'')) ''entries'')"

definition artifact_media_type :: "string \<Rightarrow> string \<Rightarrow> string" where
  "artifact_media_type suffix raw =
     (let normalized = lower suffix;
          parsed = (case loads_bytes raw of Inl _ \<Rightarrow> JNull | Inr v \<Rightarrow> v) in
      if normalized = ''.har'' \<or> is_har parsed then ''application/har+json''
      else if normalized = ''.json'' \<and> parsed \<noteq> JNull then ''application/json''
      else if normalized \<in> set text_suffixes then
        (case utf8_decode raw of None \<Rightarrow> ''application/octet-stream'' | Some _ \<Rightarrow> ''text/plain; charset=utf-8'')
      else ''application/octet-stream'')"

text \<open>
  \<open>links\<close> answers \<open>is_symlink\<close> for a path below the DEP root. The last test of the source,
  \<open>relative_to\<close>, cannot fail: the candidate is the root joined with relative parts.
\<close>

fun no_links :: "(string \<Rightarrow> bool result) \<Rightarrow> string \<Rightarrow> string list \<Rightarrow> string list \<Rightarrow> unit result" where
  "no_links links path current [] = Inr ()"
| "no_links links path current (part # parts) =
     rbind (links (join ''/'' (current @ [part]))) (\<lambda>link.
     require (\<not> link) (ValueError (''artifact path contains a symlink: '' @ path))
       (no_links links path (current @ [part]) parts))"

definition manifest_artifact_path :: "(string \<Rightarrow> bool result) \<Rightarrow> json \<Rightarrow> string \<Rightarrow> string result" where
  "manifest_artifact_path links value zone =
     require (is_str value \<and> str_val value \<noteq> [] \<and> CHR 0x5C \<notin> set (str_val value))
       (ValueError (''artifact path is invalid for '' @ zone))
     (let path = str_val value; parts = path_parts path in
      require (\<not> is_absolute path \<and> join ''/'' parts = path \<and> ''..'' \<notin> set parts
          \<and> take (length (path_parts zone)) parts = path_parts zone \<and> butlast parts = path_parts zone)
        (ValueError (''artifact path escapes or is not normalized for '' @ zone @ '': '' @ path))
      (rbind (no_links links path [] parts) (\<lambda>_. Inr path)))"

text \<open>One name of a zone: its registered path, or the error reported for it.\<close>

definition zone_entry :: "(string \<Rightarrow> os_stat result) \<Rightarrow> string \<Rightarrow> string \<Rightarrow> string + string" where
  "zone_entry stats zone name =
     (let relative = zone @ ''/'' @ name in
      if name = [] \<or> path_name name \<noteq> name then Inl (''artifact filename is not normalized: '' @ relative)
      else case stats name of
        Inl e \<Rightarrow> Inl (''artifact cannot be inspected safely: '' @ relative @ '': '' @ exn_text e)
      | Inr metadata \<Rightarrow>
          (if st_kind metadata = Symlink then Inl (''artifact path contains a symlink: '' @ relative)
           else if st_kind metadata \<noteq> Regular then Inl (''artifact path is not a regular file: '' @ relative)
           else if st_nlink metadata \<noteq> 1 then Inl (''artifact path must not be hard-linked: '' @ relative)
           else Inr relative))"

definition actual_zone_files_at ::
  "(string \<Rightarrow> os_stat result) \<Rightarrow> string list \<Rightarrow> string \<Rightarrow> string list \<times> string list" where
  "actual_zone_files_at stats listing zone =
     (let entries = map (zone_entry stats zone) listing in
      (concat (map (\<lambda>e. case e of Inl _ \<Rightarrow> [] | Inr path \<Rightarrow> [path]) entries),
       concat (map (\<lambda>e. case e of Inl error \<Rightarrow> [error] | Inr _ \<Rightarrow> []) entries)))"

end
