(* ===== verification/Dep_Verify.thy ===== *)
theory Dep_Verify
  imports Dep_Files
begin

text \<open>
  The verification of a DEP: \<open>_verify_manifest_artifacts\<close>, \<open>_verify_redaction_associations\<close>,
  \<open>_verify_open\<close> and \<open>verify\<close> of \<open>src/src/sddgov/evidence.py\<close>. A check appends messages to a
  list of errors; a value of an unexpected shape may also raise, which ends the verification
  with the exception.
\<close>


section \<open>Values of unexpected shape\<close>

text \<open>\<open>v.get(k, default)\<close>: only a dictionary has the method.\<close>

definition method_get :: "json \<Rightarrow> string \<Rightarrow> json \<Rightarrow> json result" where
  "method_get v k fallback = (case v of
     JObj d \<Rightarrow> Inr (get_default d k fallback)
   | _ \<Rightarrow> Inl (AttributeError (CHR 0x27 # type_name v @ CHR 0x27 # '' object has no attribute '' @ [CHR 0x27] @ ''get'' @ [CHR 0x27])))"

text \<open>\<open>name in v\<close>: a key of a dictionary, an element of a list, a part of a string.\<close>

definition contains_name :: "json \<Rightarrow> string \<Rightarrow> bool result" where
  "contains_name v name = (case v of
     JObj d \<Rightarrow> Inr (has_key d name)
   | JArr xs \<Rightarrow> Inr (JStr name \<in> set xs)
   | JStr s \<Rightarrow> Inr (contains_text name s)
   | _ \<Rightarrow> Inl (TypeError (''argument of type '' @ CHR 0x27 # type_name v @ CHR 0x27 # '' is not iterable'')))"

definition unhashable :: "json \<Rightarrow> exn" where
  "unhashable v = TypeError (''unhashable type: '' @ CHR 0x27 # type_name v @ [CHR 0x27])"

text \<open>
  A loop over the rows of an array: the step sees the index, the row and a state, and returns
  the messages it appends with the new state.
\<close>

fun each_row :: "(nat \<Rightarrow> 'a \<Rightarrow> 's \<Rightarrow> (string list \<times> 's) result) \<Rightarrow> nat \<Rightarrow> 'a list \<Rightarrow> 's \<Rightarrow> (string list \<times> 's) result" where
  "each_row step i [] s = Inr ([], s)"
| "each_row step i (x # xs) s =
     rbind (step i x s) (\<lambda>(es, s1).
     rbind (each_row step (Suc i) xs s1) (\<lambda>(fs, s2). Inr (es @ fs, s2)))"

definition indexed :: "string \<Rightarrow> nat \<Rightarrow> string" where
  "indexed label i = label @ ''['' @ show_nat i @ '']''"

text \<open>\<open>except FileNotFoundError\<close> and \<open>except ValueError\<close> around a read: the messages, or the exception.\<close>

definition read_errors :: "'a result \<Rightarrow> string list \<Rightarrow> ('a \<Rightarrow> string list result) \<Rightarrow> string list result" where
  "read_errors m missing k = (case m of
     Inr a \<Rightarrow> k a
   | Inl e \<Rightarrow> (case e of
       FileNotFoundError _ \<Rightarrow> Inr missing
     | _ \<Rightarrow> (if is_ValueError e then Inr [exn_text e] else Inl e)))"


section \<open>Manifest artifacts\<close>

text \<open>
  One zone as the artifact check sees it: its components, the reads of its files, the listing
  and the status of each name.
\<close>

record zone_view =
  zv_components :: "nat \<Rightarrow> component_calls"
  zv_files :: "string \<Rightarrow> read_calls"
  zv_listing :: "string list result"
  zv_stats :: "string \<Rightarrow> os_stat result"

definition raw_row_fields :: "string list" where
  "raw_row_fields = [''collector'', ''path'', ''source_suffix'', ''media_type'', ''sha256'', ''size'',
     ''collected_at'', ''shareable'']"

definition shareable_row_fields :: "string list" where
  "shareable_row_fields = [''path'', ''sha256'', ''size'', ''shareable'']"

definition media_types :: "string list" where
  "media_types = [''application/har+json'', ''application/json'', ''application/octet-stream'',
     ''text/plain; charset=utf-8'']"

definition suffix_of :: "string \<Rightarrow> string" where
  "suffix_of path = lower (path_suffix (path_name path))"

definition raw_field_errors :: "string \<Rightarrow> obj \<Rightarrow> string list result" where
  "raw_field_errors label row =
     rbind (in_strings (get row ''collector'') collectors) (\<lambda>collector_ok.
     rbind (in_strings (get row ''media_type'') media_types) (\<lambda>media_ok.
     Inr (unless collector_ok (label @ '' has an unsupported collector'')
       @ unless (get row ''source_suffix'' = JStr (suffix_of (py_str (get_default row ''path'' (JStr [])))))
           (label @ '' source_suffix does not match its immutable path'')
       @ unless media_ok (label @ '' media_type is invalid'')
       @ unless (nonblank (get row ''collected_at'')) (label @ '' collected_at is invalid''))))"

definition row_field_errors :: "bool \<Rightarrow> string \<Rightarrow> obj \<Rightarrow> string list result" where
  "row_field_errors raw label row =
     rbind (if raw then raw_field_errors label row else Inr []) (\<lambda>es.
     Inr (es
       @ unless (get row ''shareable'' = JBool (\<not> raw)) (label @ '' shareable flag is invalid'')
       @ unless (is_int (get row ''size'') \<and> 0 \<le> int_val (get row ''size'')) (label @ '' size is invalid'')
       @ unless (sha256_str (get row ''sha256'')) (label @ '' sha256 is invalid'')))"

text \<open>A file that was read, against its row. The legacy label of a JSON text is accepted.\<close>

definition legacy_json_label :: "obj \<Rightarrow> obj \<Rightarrow> string \<Rightarrow> bool" where
  "legacy_json_label manifest row detected \<longleftrightarrow>
     get manifest ''schema_version'' = JStr legacy_manifest_schema_version
     \<and> get row ''source_suffix'' = JStr ''.json'' \<and> get row ''media_type'' = JStr ''text/plain; charset=utf-8''
     \<and> detected = ''application/json''"

definition artifact_errors :: "bool \<Rightarrow> obj \<Rightarrow> obj \<Rightarrow> string \<Rightarrow> string \<times> os_stat \<Rightarrow> string list result" where
  "artifact_errors raw manifest row relative = (\<lambda>(artifact, metadata).
     rbind (if raw
            then rbind (method_str ''lower'' (get_default row ''source_suffix'' (JStr []))) (\<lambda>suffix.
              let detected = artifact_media_type suffix artifact in
              Inr (unless (get row ''media_type'' = JStr detected \<or> legacy_json_label manifest row detected)
                (''artifact media_type mismatch: '' @ relative)))
            else Inr []) (\<lambda>media.
     Inr ((case num_of (get row ''size'') of None \<Rightarrow> []
           | Some n \<Rightarrow> unless (st_size metadata = n) (''artifact size mismatch: '' @ relative))
       @ unless (is_str (get row ''sha256'') \<longrightarrow> sha256_hex artifact = str_val (get row ''sha256''))
           (''artifact sha256 mismatch: '' @ relative)
       @ media)))"

text \<open>The absence of private files is accepted in portable mode.\<close>

definition missing_artifact :: "bool \<Rightarrow> bool \<Rightarrow> string \<Rightarrow> string list" where
  "missing_artifact portable raw message = unless (portable \<and> raw) message"

definition row_artifact ::
  "bool \<Rightarrow> bool \<Rightarrow> (string \<Rightarrow> read_calls) option \<Rightarrow> obj \<Rightarrow> obj \<Rightarrow> string \<Rightarrow> string list result" where
  "row_artifact portable raw files manifest row relative =
     (let missing = missing_artifact portable raw (''missing artifact: '' @ relative) in
      case files of
        None \<Rightarrow> Inr missing
      | Some read \<Rightarrow>
          read_errors (read_regular_bytes_at (read (path_name relative)) (path_name relative)
              (''artifact '' @ relative) max_dep_artifact_bytes) missing
            (artifact_errors raw manifest row relative))"

definition manifest_row ::
  "bool \<Rightarrow> bool \<Rightarrow> (string \<Rightarrow> bool result) \<Rightarrow> string \<Rightarrow> (string \<Rightarrow> read_calls) option \<Rightarrow> obj \<Rightarrow>
     nat \<Rightarrow> json \<Rightarrow> string list \<Rightarrow> (string list \<times> string list) result" where
  "manifest_row portable raw links zone files manifest i row expected =
     (let label = indexed (''manifest '' @ (if raw then ''raw'' else ''shareable'')) i;
          d = dict_val row in
      if \<not> (is_dict row \<and> keys_eq d (if raw then raw_row_fields else shareable_row_fields))
      then Inr ([label @ '' has an invalid contract''], expected)
      else rbind (row_field_errors raw label d) (\<lambda>es.
        case manifest_artifact_path links (get d ''path'') zone of
          Inl e \<Rightarrow> (if is_ValueError e then Inr (es @ [exn_text e], expected) else Inl e)
        | Inr relative \<Rightarrow>
            (if relative \<in> set expected then Inr (es @ [''duplicate manifest artifact path: '' @ relative], expected)
             else rbind (row_artifact portable raw files manifest d relative) (\<lambda>fs.
               Inr (es @ fs, expected @ [relative])))))"

definition listing_errors :: "string \<Rightarrow> zone_view \<Rightarrow> string list \<Rightarrow> string list \<Rightarrow> string list" where
  "listing_errors zone z expected listing =
     (let (actual, zone_errors) = actual_zone_files_at (zv_stats z) listing zone;
          extras = sort (remdups (filter (\<lambda>path. path \<notin> set expected) actual)) in
      zone_errors @ unless (extras = []) (''unregistered artifacts in '' @ zone @ '': '' @ join '', '' extras))"

text \<open>
  The zone is left in a \<open>finally\<close> block, so a change of its path replaces any other exception.
\<close>

definition manifest_zone ::
  "bool \<Rightarrow> bool \<Rightarrow> (string \<Rightarrow> bool result) \<Rightarrow> string \<Rightarrow> zone_view \<Rightarrow> obj \<Rightarrow> string list result" where
  "manifest_zone portable raw links zone z manifest =
     (let kind = (if raw then ''raw'' else ''shareable'') in
      case get manifest kind of
        JArr rows \<Rightarrow>
          (case enter_zone False zone (zv_components z) of
             Inl (FileNotFoundError _) \<Rightarrow>
               rbind (each_row (manifest_row portable raw links zone None manifest) 0 rows []) (\<lambda>(es, _).
               Inr (missing_artifact portable raw (''missing artifact zone: '' @ zone) @ es))
           | Inl e \<Rightarrow> Inl e
           | Inr _ \<Rightarrow>
               rbind (leave_zone zone (zv_components z)) (\<lambda>_.
               rbind (each_row (manifest_row portable raw links zone (Some (zv_files z)) manifest) 0 rows []) (\<lambda>(es, expected).
               rbind (zv_listing z) (\<lambda>listing.
               Inr (es @ listing_errors zone z expected listing)))))
      | _ \<Rightarrow> Inr [''manifest '' @ kind @ '' must be an array''])"

definition verify_manifest_artifacts ::
  "bool \<Rightarrow> (string \<Rightarrow> bool result) \<Rightarrow> zone_view \<Rightarrow> zone_view \<Rightarrow> obj \<Rightarrow> string list result" where
  "verify_manifest_artifacts portable links raw_view shareable_view manifest =
     rbind (manifest_zone portable True links raw_zone raw_view manifest) (\<lambda>es.
     rbind (manifest_zone portable False links shareable_zone shareable_view manifest) (\<lambda>fs.
     Inr (es @ fs)))"

section \<open>Redaction associations\<close>

text \<open>One file of a zone, opened and read on its own.\<close>

record zone_read =
  zr_components :: "nat \<Rightarrow> component_calls"
  zr_file :: read_calls

definition read_zone_text :: "string \<Rightarrow> zone_read \<Rightarrow> string \<Rightarrow> string \<Rightarrow> string result" where
  "read_zone_text zone r name label =
     rbind (opened_zone_at False zone (zr_components r)
       (read_regular_bytes_at (zr_file r) name label max_dep_artifact_bytes)) (\<lambda>(raw, _). decode_utf8 raw)"

text \<open>\<open>{Path(row["path"]).name: row for row in rows if ...}\<close>: the last row of a name counts.\<close>

definition row_pairs :: "json \<Rightarrow> (string \<times> obj) list" where
  "row_pairs row = (if is_dict row \<and> is_str (get (dict_val row) ''path'')
     then [(path_name (str_val (get (dict_val row) ''path'')), dict_val row)] else [])"

definition rows_by_name :: "json list \<Rightarrow> (string \<times> obj) list" where
  "rows_by_name rows = rev (concat (map row_pairs rows))"

text \<open>\<open>isinstance(v, str) and v and Path(v).name == v\<close>.\<close>

definition plain_name :: "json \<Rightarrow> bool" where
  "plain_name v \<longleftrightarrow> is_str v \<and> str_val v \<noteq> [] \<and> path_name (str_val v) = str_val v"

definition is_har_row :: "obj \<Rightarrow> bool" where
  "is_har_row row \<longleftrightarrow> get row ''collector'' = JStr ''browser-har'' \<or> get row ''media_type'' = JStr ''application/har+json''"

definition valid_redactions :: "json \<Rightarrow> bool" where
  "valid_redactions v \<longleftrightarrow> is_dict v
     \<and> list_all (\<lambda>(k, n). k \<noteq> [] \<and> is_int n \<and> 1 \<le> int_val n) (dict_val v)"

definition add_redactions :: "obj \<Rightarrow> obj \<Rightarrow> obj" where
  "add_redactions redactions totals =
     foldl (\<lambda>t (k, n). put k (JInt (int_val (get_default t k (JInt 0)) + int_val n)) t) totals redactions"

definition counts_json :: "counts \<Rightarrow> json" where
  "counts_json cs = JObj (map (\<lambda>(k, n). (k, JInt (int n))) cs)"

text \<open>
  The text of one output is rescanned and compared with the redaction of the raw file. A read
  that finds no file says nothing here: the artifact check reports it.
\<close>

definition source_errors :: "zone_read \<Rightarrow> string \<Rightarrow> string \<Rightarrow> string \<Rightarrow> json \<Rightarrow> string list result" where
  "source_errors r name label output_text redactions =
     (case read_zone_text raw_zone r name (label @ '' raw source'') of
        Inl (UnicodeDecodeError _) \<Rightarrow> Inr [label @ '' raw text is not valid UTF-8'']
      | m \<Rightarrow> read_errors m [] (\<lambda>raw_text.
          rbind (redact_text raw_text) (\<lambda>(expected_output, expected_redactions).
          Inr (unless (output_text = expected_output) (label @ '' output is not the deterministic redaction of source'')
            @ unless (py_eq redactions (counts_json expected_redactions))
                (label @ '' redaction counts do not match recalculation'')))))"

definition output_errors :: "zone_read \<Rightarrow> zone_read \<Rightarrow> string \<Rightarrow> string \<Rightarrow> string \<Rightarrow> json \<Rightarrow> string list result" where
  "output_errors out_read raw_read output_name raw_name label redactions =
     (case read_zone_text shareable_zone out_read output_name (label @ '' shareable output'') of
        Inl (UnicodeDecodeError _) \<Rightarrow> Inr [label @ '' shareable text is not valid UTF-8'']
      | m \<Rightarrow> read_errors m [] (\<lambda>output_text.
          rbind (redact_text output_text) (\<lambda>(rescanned, _).
          rbind (source_errors raw_read raw_name label output_text redactions) (\<lambda>es.
          Inr (unless (rescanned = output_text) (label @ '' shareable output still matches redaction rules'') @ es)))))"

text \<open>What the association stage reads: the path checks, and per output the two files.\<close>

record association_view =
  av_links :: "string \<Rightarrow> bool result"
  av_output :: "string \<Rightarrow> zone_read"
  av_source :: "string \<Rightarrow> zone_read"

definition content_errors :: "association_view \<Rightarrow> string \<Rightarrow> obj \<Rightarrow> obj \<Rightarrow> json \<Rightarrow> string list result" where
  "content_errors v label raw shareable redactions =
     (case rbind (manifest_artifact_path (av_links v) (get raw ''path'') raw_zone) (\<lambda>raw_path.
           rbind (manifest_artifact_path (av_links v) (get shareable ''path'') shareable_zone) (\<lambda>output_path.
           Inr (path_name raw_path, path_name output_path))) of
        Inl e \<Rightarrow> (if is_ValueError e then Inr [] else Inl e)
      | Inr (raw_name, output_name) \<Rightarrow>
          (if lower (path_suffix output_name) \<in> set text_suffixes
           then output_errors (av_output v output_name) (av_source v raw_name) output_name raw_name label redactions
           else Inr []))"

record associations =
  as_sources :: "string list"
  as_outputs :: "string list"
  as_totals :: obj

definition report_file_fields :: "string list" where
  "report_file_fields = [''source'', ''output'', ''source_sha256'', ''source_size'', ''output_sha256'',
     ''output_size'', ''redactions'']"

definition type_errors :: "string \<Rightarrow> string \<Rightarrow> string \<Rightarrow> string list" where
  "type_errors label source output =
     unless (lower (path_suffix source) \<in> set text_suffixes)
       (label @ '' source type is not eligible for deterministic redaction'')
     @ unless (lower (path_suffix output) \<in> set text_suffixes)
       (label @ '' output type is not eligible for deterministic redaction'')
     @ unless (lower (path_suffix source) = lower (path_suffix output)) (label @ '' source and output types do not match'')"

definition digest_errors :: "string \<Rightarrow> obj \<Rightarrow> obj \<Rightarrow> obj \<Rightarrow> string list" where
  "digest_errors label row raw shareable =
     concat (map (\<lambda>(report_key, manifest_key, manifest_row).
         unless (py_eq (get row report_key) (get manifest_row manifest_key))
           (label @ '' '' @ report_key @ '' does not match manifest''))
       [(''source_sha256'', ''sha256'', raw), (''source_size'', ''size'', raw),
        (''output_sha256'', ''sha256'', shareable), (''output_size'', ''size'', shareable)])"

definition file_row ::
  "association_view \<Rightarrow> (string \<times> obj) list \<Rightarrow> (string \<times> obj) list \<Rightarrow> nat \<Rightarrow> json \<Rightarrow> associations \<Rightarrow>
     (string list \<times> associations) result" where
  "file_row v raw_rows shareable_rows i row a =
     (let label = indexed ''redaction report files'' i;
          d = dict_val row; source = str_val (get d ''source''); output = str_val (get d ''output'') in
      if \<not> (is_dict row \<and> keys_eq d report_file_fields) then Inr ([label @ '' has an invalid contract''], a)
      else if \<not> (plain_name (get d ''source'') \<and> plain_name (get d ''output''))
      then Inr ([label @ '' contains an invalid source or output name''], a)
      else if source \<in> set (as_sources a) \<or> output \<in> set (as_outputs a)
      then Inr ([label @ '' duplicates a source or output association''], a)
      else
        let a1 = a\<lparr>as_sources := as_sources a @ [source], as_outputs := as_outputs a @ [output]\<rparr>;
            es = type_errors label source output in
        case (map_of raw_rows source, map_of shareable_rows output) of
          (Some raw, Some shareable) \<Rightarrow>
            let redactions = get d ''redactions'';
                fs = es @ unless (\<not> is_har_row raw) (label @ '' HAR evidence must remain blocked'')
                  @ digest_errors label d raw shareable
                  @ unless (valid_redactions redactions) (label @ '' redactions are invalid'');
                a2 = (if valid_redactions redactions
                      then a1\<lparr>as_totals := add_redactions (dict_val redactions) (as_totals a)\<rparr> else a1) in
            rbind (content_errors v label raw shareable redactions) (\<lambda>gs. Inr (fs @ gs, a2))
        | _ \<Rightarrow> Inr (es @ [label @ '' is not fully associated with manifest artifacts''], a1))"

definition blocked_fields :: "string list" where
  "blocked_fields = [''file'', ''reason'', ''sha256'', ''size'']"

definition har_reason :: string where "har_reason = ''har_requires_dedicated_body_stripping''"

definition blocked_row ::
  "(string \<times> obj) list \<Rightarrow> string list \<Rightarrow> nat \<Rightarrow> json \<Rightarrow> string list \<Rightarrow> (string list \<times> string list) result" where
  "blocked_row raw_rows sources i row seen =
     (let label = indexed ''redaction report blocked'' i; d = dict_val row; source = str_val (get d ''file'') in
      if \<not> (is_dict row \<and> keys_eq d blocked_fields) then Inr ([label @ '' has an invalid contract''], seen)
      else if \<not> (plain_name (get d ''file'') \<and> nonblank (get d ''reason''))
      then Inr ([label @ '' contains an invalid file or reason''], seen)
      else if source \<in> set sources \<or> source \<in> set seen
      then Inr ([label @ '' duplicates or overlaps a raw association''], seen)
      else (case map_of raw_rows source of
          None \<Rightarrow> Inr ([label @ '' is not associated with a manifest raw artifact''], seen @ [source])
        | Some raw \<Rightarrow> Inr (
            unless (py_eq (get d ''sha256'') (get raw ''sha256'')) (label @ '' sha256 does not match manifest'')
            @ unless (py_eq (get d ''size'') (get raw ''size'')) (label @ '' size does not match manifest'')
            @ unless (is_har_row raw \<longrightarrow> get d ''reason'' = JStr har_reason) (label @ '' HAR block reason is invalid''),
            seen @ [source])))"

definition report_fields :: "string list" where
  "report_fields = [''schema_version'', ''files'', ''blocked'', ''totals'', ''dep_id'', ''generated_at'']"

definition no_associations :: associations where
  "no_associations = \<lparr>as_sources = [], as_outputs = [], as_totals = []\<rparr>"

definition association_errors ::
  "association_view \<Rightarrow> json list \<Rightarrow> json list \<Rightarrow> json list \<Rightarrow> json list \<Rightarrow> obj \<Rightarrow> string list result" where
  "association_errors v raws shareables files blocked report =
     (let raw_rows = rows_by_name raws; shareable_rows = rows_by_name shareables in
      rbind (each_row (file_row v raw_rows shareable_rows) 0 files no_associations) (\<lambda>(es, a).
      rbind (each_row (blocked_row raw_rows (as_sources a)) 0 blocked []) (\<lambda>(fs, seen_blocked).
      Inr (es @ fs
        @ unless (set (as_sources a) \<union> set seen_blocked = fst ` set raw_rows)
            ''redaction report does not cover every raw artifact exactly once''
        @ unless (set (as_outputs a) = fst ` set shareable_rows)
            ''redaction report does not cover every shareable artifact''
        @ unless (py_eq (get report ''totals'') (JObj (as_totals a)))
            ''redaction report totals do not match file associations''))))"

definition verify_redaction_associations :: "association_view \<Rightarrow> obj \<Rightarrow> obj \<Rightarrow> string list result" where
  "verify_redaction_associations v manifest report =
     (if \<not> (keys_eq report report_fields \<and> get report ''schema_version'' = JStr ''1.0'')
      then Inr [''redaction report has an invalid contract'']
      else
        let es = unless (py_eq (get report ''dep_id'') (get manifest ''dep_id''))
              ''redaction report dep_id does not match manifest'' in
        if \<not> is_list (get report ''files'') then Inr (es @ [''redaction report files must be an array''])
        else if \<not> is_list (get report ''blocked'') then Inr (es @ [''redaction report blocked must be an array''])
        else
          rbind (iter_items (get_default manifest ''raw'' (JArr []))) (\<lambda>raws.
          rbind (iter_items (get_default manifest ''shareable'' (JArr []))) (\<lambda>shareables.
          rbind (association_errors v raws shareables (list_val (get report ''files'')) (list_val (get report ''blocked'')) report)
            (\<lambda>fs. Inr (es @ fs)))))"

section \<open>The verification of an opened package\<close>

text \<open>
  What one verification reads below the retained root, in the order of the code; the two
  control documents, the required documents, the report, the associations and the two zones
  are read at different moments, so nothing relates their answers.
\<close>

record dep_view =
  dv_listing :: "string list result"
  dv_control :: "string \<Rightarrow> read_calls"
  dv_document :: "string \<Rightarrow> read_calls"
  dv_report :: read_calls
  dv_associations :: association_view
  dv_links :: "string \<Rightarrow> bool result"
  dv_raw :: zone_view
  dv_shareable :: zone_view

definition residue_prefixes :: "string list" where
  "residue_prefixes = [''.sddgov.attachment-stage-'', ''.sddgov.attachment-claim-'', ''.sddgov.control-stage-'',
     ''.sddgov.control-new-'', ''.sddgov.control-old-'', ''.sddgov.redaction-stage-'', ''.sddgov.redaction-claim-'']"

definition is_residue :: "string \<Rightarrow> bool" where
  "is_residue name \<longleftrightarrow>
     starts_with ''.attach-'' name \<and> contains_text ''.pending-'' name
     \<or> list_ex (\<lambda>p. starts_with p name) residue_prefixes
     \<or> starts_with ''.redact-pending-'' name
     \<or> list_ex (\<lambda>m. contains_text m name) [''.control-pending-'', ''.cleanup-pending-'']"

definition residue_errors :: "string list \<Rightarrow> string list" where
  "residue_errors listing = map (\<lambda>name. ''pending Evidence transaction residue: '' @ name) (filter is_residue listing)"

text \<open>A control document: its bytes (or the override) and its identity, or the error.\<close>

type_synonym identity = "int \<times> int \<times> int \<times> int"

definition read_control ::
  "dep_view \<Rightarrow> (string \<Rightarrow> string option) \<Rightarrow> string \<Rightarrow> (string + string \<times> identity) result" where
  "read_control v overrides name =
     (case read_regular_bytes_at (dv_control v name) name name max_dep_control_file_bytes of
        Inr (document, metadata) \<Rightarrow>
          Inr (Inr (case overrides name of None \<Rightarrow> document | Some b \<Rightarrow> b, identity_of metadata))
      | Inl (FileNotFoundError _) \<Rightarrow> Inr (Inl (''missing '' @ name))
      | Inl e \<Rightarrow> (if is_ValueError e then Inr (Inl (exn_text e)) else Inl e))"

text \<open>\<open>decode("utf-8", errors="ignore")\<close>: bytes that do not decode are skipped.\<close>

fun utf8_ignore :: "string \<Rightarrow> string" where
  "utf8_ignore [] = []"
| "utf8_ignore (a # s) =
     (case utf8_decode [a] of
        Some t \<Rightarrow> t @ utf8_ignore s
      | None \<Rightarrow> (case s of
          [] \<Rightarrow> []
        | b # r \<Rightarrow> (case utf8_decode [a, b] of Some t \<Rightarrow> t @ utf8_ignore r | None \<Rightarrow> utf8_ignore s)))"

definition lstrip :: "string \<Rightarrow> string" where
  "lstrip s = dropWhile is_space s"

definition is_completed :: "string \<Rightarrow> bool" where
  "is_completed content \<longleftrightarrow> list_ex
     (\<lambda>line. \<not> contains_text ''TODO'' line \<and> \<not> contains_text ''<!--'' line \<and> \<not> contains_text ''-->'' line)
     (filter (\<lambda>line. strip line \<noteq> [] \<and> \<not> starts_with ''#'' (lstrip line)) (splitlines content))"

definition document_errors :: "dep_view \<Rightarrow> string \<Rightarrow> string list result" where
  "document_errors v name =
     read_errors (read_regular_bytes_at (dv_document v name) name name max_dep_control_file_bytes)
       [''missing '' @ name]
       (\<lambda>(document, _). Inr (unless (ends_with ''.md'' name \<longrightarrow> is_completed (utf8_ignore document))
          (''template not completed: '' @ name)))"

definition summary_fields :: "string list" where
  "summary_fields = [''dep_id'', ''issue'', ''risk_level'', ''workflow'', ''expected_behavior'', ''actual_behavior'', ''environment'']"

text \<open>
  The schema validation is the \<^verbatim>\<open>jsonschema\<close> library applied to a bundled schema: it
  yields messages or raises.
\<close>

type_synonym schema_check = "json \<Rightarrow> string list result"

definition schema_errors :: "schema_check \<Rightarrow> json \<Rightarrow> string list result" where
  "schema_errors validate summary = (case validate summary of
     Inr es \<Rightarrow> Inr (map (\<lambda>e. ''summary schema: '' @ e) es)
   | Inl e \<Rightarrow> (if is_OSError e \<or> is_ValueError e then Inr [''summary schema unavailable: '' @ exn_text e] else Inl e))"

definition missing_fields :: "json \<Rightarrow> string list result" where
  "missing_fields summary =
     rbind (filterr (\<lambda>field. rbind (contains_name summary field) (\<lambda>b. Inr (\<not> b))) summary_fields) (\<lambda>missing.
     Inr (map (\<lambda>field. ''summary missing '' @ field) missing))"

definition manifest_fields :: "string list" where
  "manifest_fields = [''schema_version'', ''dep_id'', ''raw'', ''shareable'']"

definition root_contract_errors :: "json \<Rightarrow> string list result" where
  "root_contract_errors manifest =
     rbind (set_of manifest) (\<lambda>fields.
     rbind (if set fields \<noteq> JStr ` set manifest_fields then Inr False
            else rbind (method_get manifest ''schema_version'' JNull) (\<lambda>version.
              in_strings version [legacy_manifest_schema_version, manifest_schema_version])) (\<lambda>ok.
     Inr (unless ok ''manifest has an invalid root contract'')))"

definition dep_id_errors :: "json \<Rightarrow> json \<Rightarrow> string list result" where
  "dep_id_errors summary manifest =
     rbind (method_get manifest ''dep_id'' JNull) (\<lambda>a.
     rbind (method_get summary ''dep_id'' JNull) (\<lambda>b.
     Inr (unless (py_eq a b) ''manifest dep_id does not match summary'')))"

definition workflow_member :: "json \<Rightarrow> string \<Rightarrow> json result" where
  "workflow_member summary name =
     rbind (method_get summary ''workflow'' (JObj [])) (\<lambda>workflow. method_get workflow name JNull)"

definition phase_index :: "string \<Rightarrow> nat" where
  "phase_index phase = length (takeWhile (\<lambda>p. p \<noteq> phase) phases)"

definition history_of :: "json \<Rightarrow> json list" where
  "history_of history = map (\<lambda>item. get (dict_val item) ''phase'') (filter is_dict (list_val history))"

definition history_errors :: "string \<Rightarrow> json \<Rightarrow> string list" where
  "history_errors phase history =
     (let expected_history = take (Suc (phase_index phase)) phases in
      unless (is_list history \<and> history_of history = map JStr expected_history
          \<and> length (list_val history) = length expected_history)
        (''workflow history must be the exact phase prefix: '' @ join '' -> '' expected_history))"

text \<open>
  The report of the evidence stage: \<open>None\<close> when it is missing or invalid, and also when its
  text is the JSON literal \<open>null\<close>.
\<close>

definition report_stage :: "dep_view \<Rightarrow> (string list \<times> json) result" where
  "report_stage v = (case load_at (dv_report v) ''redaction-report.json'' of
     Inr report \<Rightarrow> Inr ([], report)
   | Inl (FileNotFoundError _) \<Rightarrow> Inr ([], JNull)
   | Inl e \<Rightarrow> (if is_OSError e \<or> is_ValueError e then Inr ([''invalid redaction report: '' @ exn_text e], JNull)
             else Inl e))"

definition report_errors :: "dep_view \<Rightarrow> json \<Rightarrow> json \<Rightarrow> string list result" where
  "report_errors v manifest report =
     (if report = JNull then Inr []
      else
        rbind (method_get report ''blocked'' JNull) (\<lambda>blocked.
        rbind (method_get manifest ''shareable'' JNull) (\<lambda>shareable.
        rbind (verify_redaction_associations (dv_associations v) (dict_val manifest) (dict_val report)) (\<lambda>es.
        Inr (unless (\<not> truthy blocked) ''redaction report contains blocked artifacts requiring manual review''
          @ unless (truthy shareable) ''no shareable redacted evidence'' @ es)))))"

definition evidence_stage :: "dep_view \<Rightarrow> bool \<Rightarrow> json \<Rightarrow> string list result" where
  "evidence_stage v portable manifest =
     rbind (method_get manifest ''raw'' JNull) (\<lambda>raw.
     rbind (report_stage v) (\<lambda>(load_errors, report).
     rbind (report_errors v manifest report) (\<lambda>es.
     rbind (verify_manifest_artifacts portable (dv_links v) (dv_raw v) (dv_shareable v) (dict_val manifest)) (\<lambda>fs.
     Inr (unless (truthy raw) ''no collected evidence'' @ load_errors @ es @ fs)))))"

text \<open>
  Attachments of the summary. \<open>str(path).startswith("private/")\<close> holds of strings only: the
  rendering of any other value starts differently.
\<close>

definition private_reference :: "json \<Rightarrow> bool" where
  "private_reference attachment \<longleftrightarrow> is_dict attachment
     \<and> is_str (get_default (dict_val attachment) ''path'' (JStr []))
     \<and> starts_with ''private/'' (str_val (get_default (dict_val attachment) ''path'' (JStr [])))"

text \<open>\<open>{row.get("path"): row for row in rows if isinstance(row, dict)}\<close> and its lookup.\<close>

definition rows_by_path :: "json list \<Rightarrow> (json \<times> obj) list result" where
  "rows_by_path rows =
     rbind (mapr (\<lambda>row. let path = get (dict_val row) ''path'' in
         require (hashable path) (unhashable path) (Inr (path, dict_val row))) (filter is_dict rows)) (\<lambda>pairs.
     Inr (rev pairs))"

definition lookup_path :: "(json \<times> obj) list \<Rightarrow> json \<Rightarrow> obj option result" where
  "lookup_path rows path =
     require (hashable path) (unhashable path) (Inr (map_option snd (find (\<lambda>(p, _). py_eq p path) rows)))"

definition binding_error :: string where
  "binding_error = ''summary attachment is not bound to a matching shareable artifact''"

definition attachment_error :: "(json \<times> obj) list \<Rightarrow> json \<Rightarrow> string list result" where
  "attachment_error rows attachment =
     (if is_dict attachment
      then rbind (lookup_path rows (get (dict_val attachment) ''path'')) (\<lambda>registered.
        Inr (unless (case registered of None \<Rightarrow> False
               | Some row \<Rightarrow> py_eq (get row ''sha256'') (get (dict_val attachment) ''sha256'')) binding_error))
      else Inr [])"

definition attachments_errors :: "json \<Rightarrow> json \<Rightarrow> string list result" where
  "attachments_errors summary manifest =
     rbind (method_get summary ''attachments'' (JArr [])) (\<lambda>listed.
     rbind (iter_items listed) (\<lambda>attachments.
     rbind (method_get manifest ''shareable'' (JArr [])) (\<lambda>shareable.
     rbind (iter_items shareable) (\<lambda>rows.
     rbind (rows_by_path rows) (\<lambda>by_path.
     rbind (mapr (attachment_error by_path) attachments) (\<lambda>es.
     Inr (unless (\<not> list_ex private_reference attachments)
            ''summary attachments must never reference private/raw evidence''
       @ concat es)))))))"

text \<open>\<open>_verify_open\<close> returns the errors, both documents, their identities and the digest.\<close>

record verification =
  vr_errors :: "string list"
  vr_summary :: "json option"
  vr_manifest :: "json option"
  vr_identities :: "(string \<times> identity) list"
  vr_digest :: "digest option"

text \<open>The checks that follow a valid phase.\<close>

definition phase_errors :: "dep_view \<Rightarrow> bool \<Rightarrow> bool \<Rightarrow> json \<Rightarrow> json \<Rightarrow> string \<Rightarrow> string list result" where
  "phase_errors v strict portable summary manifest phase =
     rbind (workflow_member summary ''history'') (\<lambda>history.
     rbind (mapr (document_errors v) (required_docs (if strict then ''proof'' else phase))) (\<lambda>docs.
     rbind (if phase \<noteq> ''red'' \<or> strict then evidence_stage v portable manifest else Inr []) (\<lambda>es.
     rbind (attachments_errors summary manifest) (\<lambda>fs.
     Inr (history_errors phase history
       @ unless (strict \<longrightarrow> phase = ''proof'') (''strict verification requires proof phase, found '' @ phase)
       @ concat docs @ es @ fs)))))"

definition content_checks :: "schema_check \<Rightarrow> dep_view \<Rightarrow> bool \<Rightarrow> bool \<Rightarrow> json \<Rightarrow> json \<Rightarrow> string list result" where
  "content_checks validate v strict portable summary manifest =
     rbind (schema_errors validate summary) (\<lambda>schema.
     rbind (missing_fields summary) (\<lambda>missing.
     rbind (root_contract_errors manifest) (\<lambda>root.
     rbind (dep_id_errors summary manifest) (\<lambda>dep_id.
     rbind (workflow_member summary ''phase'') (\<lambda>phase.
     rbind (if str_in phase phases then phase_errors v strict portable summary manifest (str_val phase)
            else Inr [''invalid workflow phase'']) (\<lambda>rest.
     Inr (schema @ missing @ root @ dep_id @ rest)))))))"

definition verify_open ::
  "schema_check \<Rightarrow> dep_view \<Rightarrow> bool \<Rightarrow> bool \<Rightarrow> (string \<Rightarrow> string option) \<Rightarrow> verification result" where
  "verify_open validate v strict portable overrides =
     rbind (dv_listing v) (\<lambda>listing.
     rbind (read_control v overrides ''summary.yaml'') (\<lambda>summary_read.
     rbind (read_control v overrides ''manifest.json'') (\<lambda>manifest_read.
     let early = residue_errors listing
           @ unless (portable \<longrightarrow> strict) ''portable verification requires strict mode''
           @ concat (map (case_sum (\<lambda>e. [e]) (\<lambda>_. [])) [summary_read, manifest_read]);
         identities = concat (map (\<lambda>(name, r). case_sum (\<lambda>_. []) (\<lambda>(_, ids). [(name, ids)]) r)
           [(''summary.yaml'', summary_read), (''manifest.json'', manifest_read)]) in
     case (summary_read, manifest_read) of
       (Inr (summary_bytes, _), Inr (manifest_bytes, _)) \<Rightarrow>
         if early \<noteq> [] then Inr \<lparr>vr_errors = early, vr_summary = None, vr_manifest = None,
             vr_identities = identities, vr_digest = None\<rparr>
         else
           let snapshot_digest = control_snapshot_digest summary_bytes manifest_bytes in
           case rbind (loads_bytes summary_bytes) (\<lambda>summary.
                rbind (loads_bytes manifest_bytes) (\<lambda>manifest. Inr (summary, manifest))) of
             Inl e \<Rightarrow> Inr \<lparr>vr_errors = [''invalid machine-readable document: '' @ exn_text e], vr_summary = None,
                 vr_manifest = None, vr_identities = identities, vr_digest = Some snapshot_digest\<rparr>
           | Inr (summary, manifest) \<Rightarrow>
               rbind (content_checks validate v strict portable summary manifest) (\<lambda>errors.
               Inr \<lparr>vr_errors = errors, vr_summary = Some summary, vr_manifest = Some manifest,
                 vr_identities = identities, vr_digest = Some snapshot_digest\<rparr>)
     | _ \<Rightarrow> Inr \<lparr>vr_errors = early, vr_summary = None, vr_manifest = None,
             vr_identities = identities, vr_digest = None\<rparr>)))"

text \<open>\<open>verify\<close>: the root is opened around it; an \<open>OSError\<close> or a \<open>ValueError\<close> is one error.\<close>

definition verify :: "schema_check \<Rightarrow> string \<Rightarrow> path_calls \<Rightarrow> dep_view \<Rightarrow> bool \<Rightarrow> bool \<Rightarrow> string list result" where
  "verify validate dep calls v strict portable =
     (case snd (opened_dep_root dep calls id (\<lambda>s. (s, Inr ()))
         (\<lambda>s. (s, verify_open validate v strict portable (\<lambda>_. None))) ()) of
        Inr vr \<Rightarrow> Inr (vr_errors vr)
      | Inl e \<Rightarrow> (if is_OSError e \<or> is_ValueError e
          then Inr [''Evidence filesystem boundary changed or is unsafe: '' @ exn_text e] else Inl e))"

text \<open>\<open>_require_control_snapshot\<close>: before an attachment is published.\<close>

definition require_control_document :: "read_calls \<Rightarrow> (string \<times> identity) list \<Rightarrow> string \<Rightarrow> string result" where
  "require_control_document c identities name =
     (let changed = ValueError (''verified control document changed: '' @ name) in
      rbind (rescue (\<lambda>e. is_OSError e \<or> is_ValueError e) changed
          (read_regular_bytes_at c name (''verified control document '' @ name) max_dep_control_file_bytes)) (\<lambda>(raw, metadata).
      require (st_kind metadata = Regular \<and> Some (identity_of metadata) = map_of identities name) changed (Inr raw)))"

definition require_control_snapshot ::
  "(string \<Rightarrow> read_calls) \<Rightarrow> (string \<times> identity) list \<Rightarrow> digest \<Rightarrow> unit result" where
  "require_control_snapshot reads identities expected_digest =
     rbind (require_control_document (reads ''summary.yaml'') identities ''summary.yaml'') (\<lambda>summary.
     rbind (require_control_document (reads ''manifest.json'') identities ''manifest.json'') (\<lambda>manifest.
     require (control_snapshot_digest summary manifest = expected_digest)
       (ValueError ''verified control document bytes changed'') (Inr ())))"

end
