(* ===== verification/Redaction_Facts.thy ===== *)
theory Redaction_Facts
  imports Redaction_Stream
begin

text \<open>
  What the redaction guarantees (src/src/sddgov/redaction.py): a redacted text holds no
  provider credential and no absolute user path, the redaction of a line ends after at most one
  nested call, and the reader's result depends on the bytes of the source only, not on how
  \<open>os.read\<close> cuts them.
\<close>


section \<open>Reading patterns declaratively\<close>

lemma matches_seqs [simp]:
  "matches (seqs []) s i j \<longleftrightarrow> j = i"
  "matches (seqs (r # rs)) s i j \<longleftrightarrow> (\<exists>m. matches r s i m \<and> matches (seqs rs) s m j)"
  by (simp_all add: seqs_def)

lemma matches_alts [simp]: "matches (alts rs) s i j \<longleftrightarrow> (\<exists>r\<in>set rs. matches r s i j)"
  by (induction rs rule: alts.induct) auto

lemma matches_pair: "matches a s i m \<Longrightarrow> matches b s m j \<Longrightarrow> matches (seqs [a, b]) s i j"
  by auto

lemma matches_branch: "matches r s i j \<Longrightarrow> r \<in> set rs \<Longrightarrow> matches (alts rs) s i j"
  by auto

lemma matches_lit:
  assumes "take (length w) (drop i s) = w" and "i \<le> length s"
  shows "matches (lit w) s i (i + length w)"
  using assms
proof (induction w arbitrary: i)
  case Nil
  then show ?case by (simp add: lit_def)
next
  case (Cons c w)
  then have i: "i < length s" by (cases "i = length s") auto
  then have d: "drop i s = s ! i # drop (Suc i) s" by (simp add: Cons_nth_drop_Suc)
  then have "s ! i = c" "take (length w) (drop (Suc i) s) = w" using Cons.prems(1) by simp_all
  moreover from this have "matches (lit w) s (Suc i) (Suc i + length w)" using Cons.IH [of "Suc i"] i by simp
  ultimately show ?case using i by (auto simp: lit_def chr_def)
qed

lemma matches_lit_any_case:
  assumes "map lower_char (take (length w) (drop i s)) = map lower_char w" and "i \<le> length s"
  shows "matches (lit_any_case w) s i (i + length w)"
  using assms
proof (induction w arbitrary: i)
  case Nil
  then show ?case by (simp add: lit_any_case_def)
next
  case (Cons c w)
  then have i: "i < length s" by (cases "i = length s") auto
  then have d: "drop i s = s ! i # drop (Suc i) s" by (simp add: Cons_nth_drop_Suc)
  then have "lower_char (s ! i) = lower_char c" "map lower_char (take (length w) (drop (Suc i) s)) = map lower_char w"
    using Cons.prems(1) by simp_all
  moreover from this have "matches (lit_any_case w) s (Suc i) (Suc i + length w)" using Cons.IH [of "Suc i"] i by simp
  ultimately show ?case using i by (auto simp: lit_any_case_def chr_any_case_def same_letter_def)
qed

lemma matches_times:
  assumes "lo \<le> n" and "at_most n hi" and "i + n \<le> length s" and "\<forall>k. i \<le> k \<and> k < i + n \<longrightarrow> p (s ! k)"
  shows "matches (times lo hi p) s i (i + n)"
proof -
  have "iterates (matches (Cls p) s) n i (i + n)" using assms(3,4)
  proof (induction n arbitrary: i)
    case 0
    then show ?case by simp
  next
    case (Suc n)
    have "iterates (matches (Cls p) s) n (Suc i) (Suc i + n)" using Suc.IH [of "Suc i"] Suc.prems by (simp del: matches.simps)
    moreover have "matches (Cls p) s i (Suc i)" using Suc.prems by auto
    ultimately show ?case using iterates_Suc [of "matches (Cls p) s" i "Suc i" n "Suc i + n"] by (simp del: matches.simps)
  qed
  then show ?thesis using assms(1,2) by (auto simp: times_def)
qed

lemma matches_nothing: "matches (star r) s i i" "matches (opt r) s i i"
  by (auto simp: star_def opt_def at_most_def intro!: exI [of _ 0])

text \<open>A run of the class from position \<open>i\<close> to \<open>j\<close>.\<close>

definition run_of :: "(char \<Rightarrow> bool) \<Rightarrow> string \<Rightarrow> nat \<Rightarrow> nat \<Rightarrow> bool" where
  "run_of p s i j \<longleftrightarrow> i \<le> j \<and> j \<le> length s \<and> (\<forall>k. i \<le> k \<and> k < j \<longrightarrow> p (s ! k))"

lemma matches_run_of: "run_of p s i j \<Longrightarrow> lo \<le> j - i \<Longrightarrow> at_most (j - i) hi \<Longrightarrow> matches (times lo hi p) s i j"
  using matches_times [of lo "j - i" hi i s p] by (simp add: run_of_def)

definition text_at :: "string \<Rightarrow> nat \<Rightarrow> string \<Rightarrow> bool" where
  "text_at s i w \<longleftrightarrow> i \<le> length s \<and> take (length w) (drop i s) = w"


section \<open>No credential and no user path is left\<close>

text \<open>
  The credentials that the rules name, spelled out: a fixed start, then a number of characters
  of a class. The starts are those of access key identifiers, of the tokens of the hosting
  service in their two forms, and of two kinds of secret keys.
\<close>

definition key_starts :: "string list" where
  "key_starts = [''AKIA'', ''ASIA'', ''AIDA'', ''AROA'', ''AIPA'', ''ANPA'', ''ANVA'', ''ASCA'']"

type_synonym shape = "string \<times> nat \<times> nat option \<times> (char \<Rightarrow> bool)"

definition credential_shapes :: "shape list" where
  "credential_shapes = map (\<lambda>w. (w, 16, Some 16, is_upper_alnum)) key_starts
     @ map (\<lambda>c. (''gh'' @ [c] @ ''_'', 36, Some 255, is_alnum_ascii)) ''pousr''
     @ [(''github_pat_'', 60, Some 255, either is_alnum_ascii ''_''), (''sk-'', 20, None, either is_alnum_ascii ''_-''),
        (''sk_live_'', 20, None, is_alnum_ascii)]"

definition has_shape :: "string \<Rightarrow> nat \<Rightarrow> nat \<Rightarrow> shape \<Rightarrow> bool" where
  "has_shape s i j = (\<lambda>(w, lo, hi, p). text_at s i w \<and> run_of p s (i + length w) j \<and> lo \<le> j - (i + length w) \<and> at_most (j - (i + length w)) hi)"

definition credential_at :: "string \<Rightarrow> nat \<Rightarrow> nat \<Rightarrow> bool" where
  "credential_at s i j \<longleftrightarrow> boundary_at s i \<and> boundary_at s j \<and> list_ex (has_shape s i j) credential_shapes"

text \<open>A home directory of a Unix system, whatever its case, where no letter or digit stands before it.\<close>

definition user_path_at :: "string \<Rightarrow> nat \<Rightarrow> bool" where
  "user_path_at s i \<longleftrightarrow> (i = 0 \<or> \<not> is_alnum_ascii (s ! (i - 1))) \<and>
     (\<exists>w\<in>set [''home'', ''Users'']. i + length w + 1 < length s \<and> s ! i = CHR ''/'' \<and> s ! (i + length w + 1) = CHR ''/''
        \<and> lower (take (length w) (drop (i + 1) s)) = lower w)"

lemma has_shape_matches: "has_shape s i j (w, lo, hi, p) \<Longrightarrow> matches (seqs [lit w, times lo hi p]) s i j"
  using matches_lit [of w i s] matches_run_of [of p s "i + length w" j lo hi] by (auto simp: has_shape_def text_at_def)

lemma matches_lit_append: "matches (lit (u @ v)) s i j \<longleftrightarrow> (\<exists>m. matches (lit u) s i m \<and> matches (lit v) s m j)"
  by (induction u arbitrary: i) (auto simp: lit_def)

lemma matches_token:
  assumes "matches (seqs [lit (''gh'' @ [c] @ ''_''), r]) s i j" and "c \<in> set cs"
  shows "matches (seqs [lit ''gh'', one_of cs, lit ''_'', r]) s i j"
proof -
  have "matches (lit [c]) s a b \<Longrightarrow> matches (one_of cs) s a b" for a b
    using assms(2) by (auto simp: lit_def chr_def one_of_def among_def)
  then show ?thesis using assms(1) unfolding matches_seqs matches_lit_append by blast
qed

lemma matches_optional: "matches (seqs [a, b]) s i j \<Longrightarrow> matches (seqs [a, opt r, b]) s i j"
  using matches_nothing(2) unfolding matches_seqs by blast

lemma matches_one_start: "matches (seqs [lit w, r]) s i j \<Longrightarrow> w \<in> set ws \<Longrightarrow> matches (seqs [alts (map lit ws), r]) s i j"
  by auto

lemma credential_matches:
  assumes "credential_at s i j"
  shows "matches provider_credential_pattern s i j"
proof -
  obtain w lo hi p where shape: "(w, lo, hi, p) \<in> set credential_shapes" and has: "has_shape s i j (w, lo, hi, p)"
    using assms unfolding credential_at_def list_ex_iff by (metis prod_cases4)
  note m = has_shape_matches [OF has]
  let ?keys = "seqs [alts (map lit key_starts), times 16 (Some 16) is_upper_alnum]"
  let ?token = "seqs [lit ''gh'', one_of ''pousr'', lit ''_'', times 36 (Some 255) is_alnum_ascii]"
  let ?pat = "seqs [lit ''github_pat_'', times 60 (Some 255) (either is_alnum_ascii ''_'')]"
  let ?sk = "seqs [lit ''sk-'', opt (lit ''proj-''), times 20 None (either is_alnum_ascii ''_-'')]"
  let ?live = "seqs [lit ''sk_live_'', times 20 None is_alnum_ascii]"
  have "(w, lo, hi, p) \<in> (\<lambda>w. (w, 16, Some 16, is_upper_alnum)) ` set key_starts
      \<or> (w, lo, hi, p) \<in> (\<lambda>c. (''gh'' @ [c] @ ''_'', 36, Some 255, is_alnum_ascii)) ` set ''pousr''
      \<or> (w, lo, hi, p) = (''github_pat_'', 60, Some 255, either is_alnum_ascii ''_'')
      \<or> (w, lo, hi, p) = (''sk-'', 20, None, either is_alnum_ascii ''_-'')
      \<or> (w, lo, hi, p) = (''sk_live_'', 20, None, is_alnum_ascii)"
    using shape unfolding credential_shapes_def set_append set_map Un_iff by (elim disjE) simp_all
  then consider "w \<in> set key_starts" "(lo, hi, p) = (16, Some 16, is_upper_alnum)"
    | c where "c \<in> set ''pousr''" "(w, lo, hi, p) = (''gh'' @ [c] @ ''_'', 36, Some 255, is_alnum_ascii)"
    | "(w, lo, hi, p) = (''github_pat_'', 60, Some 255, either is_alnum_ascii ''_'')"
    | "(w, lo, hi, p) = (''sk-'', 20, None, either is_alnum_ascii ''_-'')"
    | "(w, lo, hi, p) = (''sk_live_'', 20, None, is_alnum_ascii)"
  proof (elim disjE imageE)
    fix w'
    assume "(w, lo, hi, p) = (w', 16, Some 16, is_upper_alnum)" "w' \<in> set key_starts"
    then show thesis using that(1) by simp
  next
    fix c
    assume c: "(w, lo, hi, p) = (''gh'' @ [c] @ ''_'', 36, Some 255, is_alnum_ascii)" "c \<in> set ''pousr''"
    show thesis by (rule that(2) [OF c(2,1)])
  qed (use that(3-5) in \<open>simp only:\<close>)+
  then have "\<exists>r\<in>set [?keys, ?token, ?pat, ?sk, ?live]. matches r s i j"
  proof cases
    case 1
    then have "matches ?keys s i j" using matches_one_start [of w] m by blast
    then show ?thesis by (meson list.set_intros)
  next
    case (2 c)
    then have "matches ?token s i j" using matches_token [of c] m by blast
    then show ?thesis by (meson list.set_intros)
  next
    case 3
    then have "matches ?pat s i j" using m by blast
    then show ?thesis by (meson list.set_intros)
  next
    case 4
    then have "matches ?sk s i j" using matches_optional m by blast
    then show ?thesis by (meson list.set_intros)
  next
    case 5
    then have "matches ?live s i j" using m by blast
    then show ?thesis by (meson list.set_intros)
  qed
  then have "matches (alts [?keys, ?token, ?pat, ?sk, ?live]) s i j" unfolding matches_alts .
  moreover have "matches Boundary s i i" "matches Boundary s j j" using assms by (auto simp: credential_at_def)
  ultimately show ?thesis unfolding provider_credential_pattern_def key_starts_def matches_seqs by blast
qed

lemma user_path_matches:
  assumes "user_path_at s i"
  shows "\<exists>j. matches local_user_path_pattern s i j"
proof -
  obtain w where w: "w \<in> set [''home'', ''Users'']" "i + length w + 1 < length s" "s ! i = CHR ''/''" "s ! (i + length w + 1) = CHR ''/''"
    and same: "lower (take (length w) (drop (i + 1) s)) = lower w" and start: "i = 0 \<or> \<not> is_alnum_ascii (s ! (i - 1))"
    using assms unfolding user_path_at_def by blast
  have "matches (lit_any_case w) s (i + 1) (i + 1 + length w)"
    using w(2) same by (intro matches_lit_any_case) (simp_all add: lower_def)
  then have "matches home_or_users s (i + 1) (i + 1 + length w)" using w(1) by (auto simp: home_or_users_def)
  then have "matches home_root s i (i + length w + 2)" using w(2-4) by (auto simp: home_root_def chr_def)
  then have "matches (seqs [home_root, path_rest]) s i (i + length w + 2)"
    unfolding matches_seqs path_rest_def using matches_nothing(1) by blast
  moreover have "matches (Not_behind is_alnum_ascii) s i i" using start by auto
  ultimately show ?thesis
    unfolding local_user_path_pattern_def
    by (intro exI) (rule matches_pair, assumption, rule matches_branch, assumption, rule list.set_intros(2), rule list.set_intros(1))
qed

lemma leftover_check_clean:
  assumes "leftover_check s = Inr u"
  shows "\<not> credential_at s i j" and "\<not> user_path_at s i"
proof -
  have "search provider_credential_pattern s = None" "search local_user_path_pattern s = None"
    using assms by (auto simp: leftover_check_def require_Inr_iff)
  then have none: "i \<le> length s \<Longrightarrow> \<not> matches provider_credential_pattern s i j" "i \<le> length s \<Longrightarrow> \<not> matches local_user_path_pattern s i k" for k
    unfolding search_None_iff by blast+
  show "\<not> credential_at s i j"
  proof
    assume c: "credential_at s i j"
    then have "i \<le> length s" by (auto simp: credential_at_def list_ex_iff has_shape_def text_at_def)
    then show False using credential_matches [OF c] none(1) by blast
  qed
  show "\<not> user_path_at s i"
  proof
    assume u: "user_path_at s i"
    then have "i \<le> length s" by (auto simp: user_path_at_def)
    then show False using user_path_matches [OF u] none(2) by blast
  qed
qed

text \<open>
  C28. A redacted text is clean. What \<open>redact_text\<close> returns holds no provider credential between
  word boundaries (an access key identifier, a token of the hosting service, a secret key) and
  no absolute path into a home directory, at no position and in no case of its letters.
\<close>

theorem redacted_text_clean:
  assumes "redact_text text = Inr (out, found)"
  shows "\<not> credential_at out i j \<and> \<not> user_path_at out i"
  using assms leftover_check_clean [of out]
  by (auto simp: redact_text_def rbind_Inr_iff split: prod.splits)

lemma redacted_text_clean_witness:
  "redact_text ''/home/a'' = Inr (''[REDACTED_HOME_PATH]'', [(''home-path'', 1)]) \<and> user_path_at ''/home/a'' 0
     \<and> \<not> user_path_at ''[REDACTED_HOME_PATH]'' 0"
proof -
  have r: "redact_text ''/home/a'' = Inr (''[REDACTED_HOME_PATH]'', [(''home-path'', 1)])" by code_simp
  moreover have "user_path_at ''/home/a'' 0" by code_simp
  ultimately show ?thesis using redacted_text_clean [OF r, of 0] by blast
qed

section \<open>One line ends after one nested call\<close>

lemma open_cross_quoted [simp]: "rd_quoted_field (open_cross_line_field r line) = rd_quoted_field r"
  by (simp add: open_cross_line_field_def split: option.split)

lemma reject_cross_quoted: "reject_cross_line_field r line = Inr r' \<Longrightarrow> rd_quoted_field r' = rd_quoted_field r"
  by (auto simp: reject_cross_line_field_def Let_def require_Inr_iff split: option.splits)

lemma key_loop_quoted: "key_loop r out remaining = Inr (t, r') \<Longrightarrow> rd_quoted_field r' = rd_quoted_field r"
proof (induction r out remaining rule: key_loop.induct)
  case (1 r out remaining)
  show ?case using "1.prems" "1.IH" unfolding key_loop.simps [of r out remaining]
    by (auto simp: rbind_Inr_iff count_key_def split: if_splits option.splits prod.splits)
qed

lemma clean_quoted: "clean r text = Inr (t, r') \<Longrightarrow> rd_quoted_field r' = rd_quoted_field r"
proof -
  have keys: "private_keys r text = Inr (u, r1) \<Longrightarrow> rd_quoted_field r1 = rd_quoted_field r" for u r1
    by (auto simp: private_keys_def Let_def dest!: key_loop_quoted split: if_splits)
  have rules: "apply_stream_rules r1 u = Inr (t, r') \<Longrightarrow> rd_quoted_field r' = rd_quoted_field r1" for u r1
    by (auto simp: apply_stream_rules_def rbind_Inr_iff split: prod.splits)
  assume "clean r text = Inr (t, r')"
  then show ?thesis using keys rules by (auto simp: clean_def rbind_Inr_iff)
qed

lemma again_closes_field: "quoted_sensitive_fields r text = Inr (Again out r' rest) \<Longrightarrow> rd_quoted_field r \<noteq> None \<and> rd_quoted_field r' = None"
  by (auto simp: quoted_sensitive_fields_def rbind_Inr_iff require_Inr_iff Let_def dest!: clean_quoted split: option.splits prod.splits)

lemma no_field_is_done: "rd_quoted_field r = None \<Longrightarrow> quoted_sensitive_fields r text \<noteq> Inr (Again out r' rest)"
  using again_closes_field by blast

text \<open>
  C30. The redaction of a line terminates: \<open>redact_line\<close> and \<open>_quoted_sensitive_fields\<close> call each
  other, but in whatever state the redactor is and whatever the line holds, the nested call
  starts without an open field and does not call again, so two activations always suffice.
\<close>

theorem redact_line_terminates: "\<exists>result. redact_line (Suc (Suc n)) r line = Some result"
proof -
  have one: "redact_line (Suc k) r' rest \<noteq> None" if "rd_quoted_field r' = None" for k r' rest
  proof (cases "rbind (reject_cross_line_field r' rest) (\<lambda>r''. quoted_sensitive_fields r'' rest)")
    case (Inr step)
    then obtain r'' where r'': "reject_cross_line_field r' rest = Inr r''" "quoted_sensitive_fields r'' rest = Inr step"
      by (auto simp: rbind_Inr_iff)
    then have "rd_quoted_field r'' = None" using reject_cross_quoted that by metis
    note r''(2) this
    then show ?thesis using no_field_is_done Inr by (cases step) auto
  qed simp
  show ?thesis
  proof (cases "rbind (reject_cross_line_field r line) (\<lambda>r''. quoted_sensitive_fields r'' line)")
    case (Inr step)
    then show ?thesis
    proof (cases step)
      case (Again out r' rest)
      then have "rd_quoted_field r' = None" using Inr again_closes_field by (auto simp: rbind_Inr_iff)
      then show ?thesis using one [of r' n rest] Inr Again by (auto simp del: redact_line.simps(2) simp: redact_line.simps(2) [of "Suc n"])
    qed simp
  qed simp
qed

section \<open>The reader does not depend on the chunks\<close>

text \<open>The reference: the whole source at once, line by line.\<close>

fun lines_from :: "string \<Rightarrow> string \<Rightarrow> string list" where
  "lines_from acc [] = (if acc = [] then [] else [rev acc])"
| "lines_from acc (c # cs) = (if c = newline then rev (c # acc) # lines_from [] cs else lines_from (c # acc) cs)"

definition content_of :: "string \<Rightarrow> string" where
  "content_of line = takeWhile (\<lambda>c. c \<noteq> newline) line"

fun redact_lines :: "redactor \<Rightarrow> string \<Rightarrow> string list \<Rightarrow> (redactor \<times> string) result" where
  "redact_lines r out [] = Inr (r, out)"
| "redact_lines r out (l # ls) = rbind (redact r l) (\<lambda>(published, r'). redact_lines r' (out @ published) ls)"

definition redact_source :: "string \<Rightarrow> string \<Rightarrow> stream_result result" where
  "redact_source name bytes =
     require (length bytes \<le> max_redaction_file_bytes) (source_too_large name)
     (rbind (of_option undecodable (utf8_decode bytes)) (\<lambda>text.
      require (list_all (\<lambda>l. length (content_of l) \<le> max_logical_line_characters) (lines_from [] text)) (line_too_long name)
      (rbind (redact_lines new_redactor [] (lines_from [] text)) (\<lambda>(r, out).
       rbind (finish r) (\<lambda>(trailing, r').
       Inr (stream_result_of bytes (out @ trailing) (rd_counts r')))))))"

lemma decode_some_append:
  "decode_some (a @ b) = (case decode_some a of None \<Rightarrow> None
     | Some (t, r) \<Rightarrow> map_option (\<lambda>(t', r'). (t @ t', r')) (decode_some (r @ b)))"
proof (induction a rule: decode_some.induct)
  case 1
  then show ?case by (cases "decode_some b") auto
next
  case (2 b' bs)
  consider (ascii) "(of_char b' :: nat) < 128" | (lead) "of_char b' = (194 :: nat) \<or> of_char b' = (195 :: nat)"
    | (bad) "\<not> (of_char b' :: nat) < 128" "of_char b' \<noteq> (194 :: nat)" "of_char b' \<noteq> (195 :: nat)" by blast
  then show ?case
  proof cases
    case ascii
    then show ?thesis using 2(1) [OF refl] by (auto simp: Let_def option.map_comp comp_def case_prod_unfold split: option.splits)
  next
    case lead
    show ?thesis
    proof (cases bs)
      case Nil
      have "decode_some [b'] = Some ([], [b'])" using lead by auto
      then show ?thesis using Nil by (cases "decode_some (b' # b)") auto
    next
      case (Cons c cs)
      then show ?thesis
        using 2(2) [OF refl _ lead Cons refl] lead
        by (auto simp: Let_def option.map_comp comp_def case_prod_unfold split: option.splits)
    qed
  next
    case bad
    then show ?thesis by (simp add: Let_def)
  qed
qed

lemma decode_some_utf8: "utf8_decode s = (case decode_some s of Some (t, []) \<Rightarrow> Some t | _ \<Rightarrow> None)"
proof (induction s rule: utf8_decode.induct)
  case (2 b bs)
  consider (ascii) "(of_char b :: nat) < 128" | (lead) "of_char b = (194 :: nat) \<or> of_char b = (195 :: nat)"
    | (bad) "\<not> (of_char b :: nat) < 128" "of_char b \<noteq> (194 :: nat)" "of_char b \<noteq> (195 :: nat)" by blast
  then show ?case
  proof cases
    case ascii
    then show ?thesis using 2(1) [OF refl] by (auto simp: Let_def split: option.splits prod.splits list.splits)
  next
    case lead
    show ?thesis
    proof (cases bs)
      case Nil
      then show ?thesis using lead by (auto simp: Let_def)
    next
      case (Cons c cs)
      have big: "\<not> (of_char b :: nat) < 128" using lead by auto
      show ?thesis
      proof (cases "128 \<le> (of_char c :: nat) \<and> of_char c < (192 :: nat)")
        case True
        have ih: "utf8_decode cs = (case decode_some cs of Some (t, []) \<Rightarrow> Some t | _ \<Rightarrow> None)"
          by (rule 2(2) [OF refl big lead Cons refl True])
        show ?thesis
        proof (cases "decode_some cs")
          case None
          then show ?thesis using big lead Cons True ih by (simp only: utf8_decode.simps decode_some.simps Let_def if_False if_True simp_thms list.case option.case option.map)
        next
          case (Some tr)
          obtain t r where "tr = (t, r)" by (metis surj_pair)
          then show ?thesis using big lead Cons True ih Some by (cases r) (simp_all add: Let_def)
        qed
      next
        case False
        then show ?thesis using big lead unfolding Cons utf8_decode.simps decode_some.simps Let_def list.case by (simp only: if_False if_True option.case)
      qed
    qed
  next
    case bad
    then show ?thesis by (simp add: Let_def)
  qed
qed simp

text \<open>Bytes that were left undecoded are still left when nothing follows.\<close>

lemma decode_some_rest: "decode_some s = Some (t, r) \<Longrightarrow> decode_some r = Some ([], r)"
proof -
  assume a: "decode_some s = Some (t, r)"
  have "decode_some s = map_option (\<lambda>(t', r'). (t @ t', r')) (decode_some r)"
    using decode_some_append [of s "[]"] a by simp
  then show ?thesis using a by (cases "decode_some r") auto
qed

lemma lines_from_split:
  "lines_from acc s = (if newline \<in> set s
     then (rev acc @ takeWhile (\<lambda>c. c \<noteq> newline) s @ [newline]) # lines_from [] (drop (Suc (length (takeWhile (\<lambda>c. c \<noteq> newline) s))) s)
     else if acc = [] \<and> s = [] then [] else [rev acc @ s])"
proof (induction s arbitrary: acc)
  case (Cons c cs)
  show ?case
  proof (cases "c = newline")
    case False
    then show ?thesis using Cons.IH [of "c # acc"] by (simp del: lines_from.simps(1))
  qed simp
qed simp

text \<open>Complete lines of a text and what follows the last of them.\<close>

definition partial_line :: "string \<Rightarrow> string" where
  "partial_line s = rev (takeWhile (\<lambda>c. c \<noteq> newline) (rev s))"

definition complete_lines :: "string \<Rightarrow> string list" where
  "complete_lines s = lines_from [] (take (length s - length (partial_line s)) s)"
lemma first_line:
  assumes "newline \<in> set p"
  shows "takeWhile (\<lambda>c. c \<noteq> newline) (p @ q) = takeWhile (\<lambda>c. c \<noteq> newline) p"
    and "drop (Suc (length (takeWhile (\<lambda>c. c \<noteq> newline) p))) (p @ q) = drop (Suc (length (takeWhile (\<lambda>c. c \<noteq> newline) p))) p @ q"
proof -
  obtain a b where "p = a @ newline # b" "newline \<notin> set a" using split_list_first [OF assms] by blast
  moreover from this have "takeWhile (\<lambda>c. c \<noteq> newline) p = a"
    by (simp, subst takeWhile_append2) auto
  moreover have "takeWhile (\<lambda>c. c \<noteq> newline) (a @ newline # b @ q) = a"
    using \<open>newline \<notin> set a\<close> by (subst takeWhile_append2) auto
  ultimately show "takeWhile (\<lambda>c. c \<noteq> newline) (p @ q) = takeWhile (\<lambda>c. c \<noteq> newline) p"
    "drop (Suc (length (takeWhile (\<lambda>c. c \<noteq> newline) p))) (p @ q) = drop (Suc (length (takeWhile (\<lambda>c. c \<noteq> newline) p))) p @ q"
    by simp_all
qed

lemma drain_line:
  "newline \<in> set p \<Longrightarrow> drain name r out p = require (length (takeWhile (\<lambda>c. c \<noteq> newline) p) \<le> max_logical_line_characters) (line_too_long name)
     (rbind (redact r (takeWhile (\<lambda>c. c \<noteq> newline) p @ [newline])) (\<lambda>(published, r').
      drain name r' (out @ published) (drop (Suc (length (takeWhile (\<lambda>c. c \<noteq> newline) p))) p)))"
  by (subst drain.simps) (simp add: Let_def)

lemma drain_line_append:
  assumes "newline \<in> set p"
  shows "drain name r out (p @ q) = require (length (takeWhile (\<lambda>c. c \<noteq> newline) p) \<le> max_logical_line_characters) (line_too_long name)
     (rbind (redact r (takeWhile (\<lambda>c. c \<noteq> newline) p @ [newline])) (\<lambda>(published, r').
      drain name r' (out @ published) (drop (Suc (length (takeWhile (\<lambda>c. c \<noteq> newline) p))) p @ q)))"
proof -
  have "newline \<in> set (p @ q)" using assms by simp
  from drain_line [OF this] show ?thesis unfolding first_line [OF assms] .
qed

lemma drain_rest:
  "newline \<notin> set p \<Longrightarrow> drain name r out p = require (length p \<le> max_logical_line_characters) (line_too_long name) (Inr (r, out, p))"
  by (subst drain.simps) simp

lemma drain_append:
  assumes "drain name r out p = Inr (r', out', p')"
  shows "drain name r out (p @ q) = drain name r' out' (p' @ q)" and "newline \<notin> set p'"
proof -
  have "drain name r out (p @ q) = drain name r' out' (p' @ q) \<and> newline \<notin> set p'"
    using assms
  proof (induction name r out p rule: drain.induct)
    case (1 name r out p)
    show ?case
    proof (cases "newline \<in> set p")
      case False
      then show ?thesis using "1.prems" by (auto simp: drain_rest require_Inr_iff)
    next
      case True
      let ?c = "takeWhile (\<lambda>c. c \<noteq> newline) p"
      obtain published r1 where step: "length ?c \<le> max_logical_line_characters" "redact r (?c @ [newline]) = Inr (published, r1)"
        "drain name r1 (out @ published) (drop (Suc (length ?c)) p) = Inr (r', out', p')"
        using "1.prems" unfolding drain_line [OF True] by (auto simp: require_Inr_iff rbind_Inr_iff)
      have "drain name r out (p @ q) = drain name r1 (out @ published) (drop (Suc (length ?c)) p @ q)"
        unfolding drain_line_append [OF True] using step(1,2) by simp
      then show ?thesis using "1.IH" [OF True refl step(3)] by simp
    qed
  qed
  then show "drain name r out (p @ q) = drain name r' out' (p' @ q)" "newline \<notin> set p'" by blast+
qed

lemma drain_prefix: "drain name r out (p @ q) = Inr x \<Longrightarrow> \<exists>y. drain name r out p = Inr y"
proof (induction name r out p rule: drain.induct)
  case (1 name r out p)
  let ?c = "takeWhile (\<lambda>c. c \<noteq> newline) p"
  show ?case
  proof (cases "newline \<in> set p")
    case True
    obtain published r1 where step: "length ?c \<le> max_logical_line_characters" "redact r (?c @ [newline]) = Inr (published, r1)"
      "drain name r1 (out @ published) (drop (Suc (length ?c)) p @ q) = Inr x"
      using "1.prems" unfolding drain_line_append [OF True] by (auto simp: require_Inr_iff rbind_Inr_iff)
    have "\<exists>y. drain name r1 (out @ published) (drop (Suc (length ?c)) p) = Inr y"
      using "1.IH" [OF True refl step(3)] by simp
    then show ?thesis using step(1,2) by (simp add: drain_line [OF True])
  next
    case False
    have "length p \<le> max_logical_line_characters"
    proof (cases "newline \<in> set q")
      case True
      then have "takeWhile (\<lambda>c. c \<noteq> newline) (p @ q) = p @ takeWhile (\<lambda>c. c \<noteq> newline) q"
        using False by (auto intro!: takeWhile_append2)
      then show ?thesis using "1.prems" True drain_line [of "p @ q"] by (auto simp: require_Inr_iff)
    next
      case no: False
      then show ?thesis using "1.prems" False drain_rest [of "p @ q"] by (auto simp: require_Inr_iff)
    qed
    then show ?thesis using drain_rest [OF False] by simp
  qed
qed

lemma drain_Inr: "drain name r out p = Inr (r', out', p') \<Longrightarrow> newline \<notin> set p' \<and> length p' \<le> max_logical_line_characters"
proof (induction name r out p rule: drain.induct)
  case (1 name r out p)
  show ?case
  proof (cases "newline \<in> set p")
    case True
    obtain published r1 where step: "drain name r1 (out @ published) (drop (Suc (length (takeWhile (\<lambda>c. c \<noteq> newline) p))) p) = Inr (r', out', p')"
      using "1.prems" unfolding drain_line [OF True] by (auto simp: require_Inr_iff rbind_Inr_iff)
    show ?thesis using "1.IH" [OF True refl step] .
  next
    case False
    then show ?thesis using "1.prems" by (auto simp: drain_rest require_Inr_iff)
  qed
qed

definition conclude :: "string \<Rightarrow> redactor \<times> string \<times> string \<Rightarrow> (redactor \<times> string) result" where
  "conclude name = (\<lambda>(r, out, p).
     require (length p \<le> max_logical_line_characters) (line_too_long name)
     (rbind (if p = [] then Inr ([], r) else redact r p) (\<lambda>(published, r'). Inr (r', out @ published))))"

lemma drain_conclude:
  "rbind (drain name r out s) (conclude name) = Inr x \<longleftrightarrow>
    list_all (\<lambda>l. length (content_of l) \<le> max_logical_line_characters) (lines_from [] s) \<and> redact_lines r out (lines_from [] s) = Inr x"
proof (induction name r out s rule: drain.induct)
  case (1 name r out s)
  let ?c = "takeWhile (\<lambda>c. c \<noteq> newline) s"
  show ?case
  proof (cases "newline \<in> set s")
    case True
    have lines: "lines_from [] s = (?c @ [newline]) # lines_from [] (drop (Suc (length ?c)) s)"
      using lines_from_split [of "[]" s] True by simp
    have c: "content_of (?c @ [newline]) = ?c" unfolding content_of_def by (subst takeWhile_append2) (auto dest: set_takeWhileD)
    have ih: "redact r (?c @ [newline]) = Inr (published, r1) \<Longrightarrow>
        rbind (drain name r1 (out @ published) (drop (Suc (length ?c)) s)) (conclude name) = Inr x \<longleftrightarrow>
        list_all (\<lambda>l. length (content_of l) \<le> max_logical_line_characters) (lines_from [] (drop (Suc (length ?c)) s))
        \<and> redact_lines r1 (out @ published) (lines_from [] (drop (Suc (length ?c)) s)) = Inr x" for published r1
      using "1.IH" [OF True refl] by simp
    have "rbind (drain name r out s) (conclude name) = Inr x \<longleftrightarrow> length ?c \<le> max_logical_line_characters
        \<and> (\<exists>published r1. redact r (?c @ [newline]) = Inr (published, r1)
            \<and> rbind (drain name r1 (out @ published) (drop (Suc (length ?c)) s)) (conclude name) = Inr x)"
      unfolding drain_line [OF True] by (auto simp: require_Inr_iff rbind_Inr_iff)
    then show ?thesis using ih unfolding lines by (auto simp: c rbind_Inr_iff)
  next
    case False
    then have c: "content_of s = s" unfolding content_of_def by (auto intro: takeWhile_eq_all_conv [THEN iffD2])
    show ?thesis
    proof (cases "s = []")
      case True
      then show ?thesis by (auto simp: drain_rest conclude_def)
    next
      case False
      then have "lines_from [] s = [s]" using lines_from_split [of "[]" s] \<open>newline \<notin> set s\<close> by simp
      then show ?thesis using False drain_rest [OF \<open>newline \<notin> set s\<close>]
        by (auto simp: conclude_def require_Inr_iff rbind_Inr_iff c)
    qed
  qed
qed

lemma take_chunks_exact:
  assumes "newline \<notin> set (st_pending st)" and "length (st_pending st) \<le> max_logical_line_characters"
    and "decode_some (st_undecoded st) = Some ([], st_undecoded st)" and "length (st_source st) \<le> max_redaction_file_bytes"
  shows "take_chunks name st (map Inr chunks) = Inr st' \<longleftrightarrow>
     length (st_source st @ concat chunks) \<le> max_redaction_file_bytes
     \<and> (\<exists>tx rest r out pending. decode_some (st_undecoded st @ concat chunks) = Some (tx, rest)
          \<and> drain name (st_redactor st) (st_published st) (st_pending st @ tx) = Inr (r, out, pending)
          \<and> st' = \<lparr>st_source = st_source st @ concat chunks, st_undecoded = rest, st_pending = pending, st_redactor = r, st_published = out\<rparr>)"
  using assms
proof (induction chunks arbitrary: st)
  case Nil
  have "drain name (st_redactor st) (st_published st) (st_pending st) = Inr (st_redactor st, st_published st, st_pending st)"
    using Nil.prems(1,2) by (subst drain.simps) simp
  then show ?case using Nil.prems(3,4) by auto
next
  case (Cons c cs)
  have decode: "decode_some (st_undecoded st @ concat (c # cs)) = (case decode_some (st_undecoded st @ c) of None \<Rightarrow> None
      | Some (t, r) \<Rightarrow> map_option (\<lambda>(t', r'). (t @ t', r')) (decode_some (r @ concat cs)))"
    using decode_some_append [of "st_undecoded st @ c" "concat cs"] by simp
  have step: "take_chunk name st c = Inr st1 \<Longrightarrow> take_chunks name st1 (map Inr cs) = Inr st' \<longleftrightarrow>
       length (st_source st1 @ concat cs) \<le> max_redaction_file_bytes
       \<and> (\<exists>tx rest r out pending. decode_some (st_undecoded st1 @ concat cs) = Some (tx, rest)
            \<and> drain name (st_redactor st1) (st_published st1) (st_pending st1 @ tx) = Inr (r, out, pending)
            \<and> st' = \<lparr>st_source = st_source st1 @ concat cs, st_undecoded = rest, st_pending = pending, st_redactor = r, st_published = out\<rparr>)" for st1
  proof (rule Cons.IH)
    assume "take_chunk name st c = Inr st1"
    then obtain tx rest r out pending where one: "length (st_source st @ c) \<le> max_redaction_file_bytes"
      "decode_some (st_undecoded st @ c) = Some (tx, rest)"
      "drain name (st_redactor st) (st_published st) (st_pending st @ tx) = Inr (r, out, pending)"
      "st1 = st\<lparr>st_source := st_source st @ c, st_undecoded := rest, st_pending := pending, st_redactor := r, st_published := out\<rparr>"
      by (auto simp: take_chunk_def Let_def require_Inr_iff rbind_Inr_iff of_option_Inr_iff)
    show "newline \<notin> set (st_pending st1)" "length (st_pending st1) \<le> max_logical_line_characters"
      using drain_Inr [OF one(3)] one(4) by simp_all
    show "decode_some (st_undecoded st1) = Some ([], st_undecoded st1)" using decode_some_rest [OF one(2)] one(4) by simp
    show "length (st_source st1) \<le> max_redaction_file_bytes" using one(1,4) by simp
  qed
  show ?case (is "?l \<longleftrightarrow> ?r")
  proof
    assume ?l
    then obtain st1 where st1: "take_chunk name st c = Inr st1" "take_chunks name st1 (map Inr cs) = Inr st'" by (auto simp: rbind_Inr_iff)
    then obtain tx rest r out pending where one: "decode_some (st_undecoded st @ c) = Some (tx, rest)"
      "drain name (st_redactor st) (st_published st) (st_pending st @ tx) = Inr (r, out, pending)"
      "st1 = st\<lparr>st_source := st_source st @ c, st_undecoded := rest, st_pending := pending, st_redactor := r, st_published := out\<rparr>"
      by (auto simp: take_chunk_def Let_def require_Inr_iff rbind_Inr_iff of_option_Inr_iff)
    show ?r
      using step [OF st1(1)] st1(2) one(3) decode one(1) drain_append(1) [OF one(2)] by auto
  next
    assume ?r
    then obtain tx rest r out pending where all: "length (st_source st @ c @ concat cs) \<le> max_redaction_file_bytes"
      "decode_some (st_undecoded st @ concat (c # cs)) = Some (tx, rest)"
      "drain name (st_redactor st) (st_published st) (st_pending st @ tx) = Inr (r, out, pending)"
      "st' = \<lparr>st_source = st_source st @ c @ concat cs, st_undecoded = rest, st_pending = pending, st_redactor = r, st_published = out\<rparr>"
      by auto
    obtain t1 r1 where t1: "decode_some (st_undecoded st @ c) = Some (t1, r1)"
      using all(2) unfolding decode by (cases "decode_some (st_undecoded st @ c)") auto
    obtain t2 where t2: "decode_some (r1 @ concat cs) = Some (t2, rest)" "tx = t1 @ t2"
      using all(2) unfolding decode t1 by auto
    obtain r' out' p' where d1: "drain name (st_redactor st) (st_published st) (st_pending st @ t1) = Inr (r', out', p')"
      using drain_prefix [of name _ _ "st_pending st @ t1" t2] all(3) t2(2) by fastforce
    define st1 where "st1 = st\<lparr>st_source := st_source st @ c, st_undecoded := r1, st_pending := p', st_redactor := r', st_published := out'\<rparr>"
    have "take_chunk name st c = Inr st1" using all(1) t1 d1 by (simp add: take_chunk_def st1_def Let_def)
    moreover have "take_chunks name st1 (map Inr cs) = Inr st'"
      unfolding step [OF calculation] using all t2 drain_append(1) [OF d1, of t2] by (simp add: st1_def)
    ultimately show ?l by simp
  qed
qed

text \<open>
  C29. The redaction of a file depends on its bytes only. However the reads cut the source, the
  streaming reader returns exactly what redacting the whole source line by line returns: the
  same published bytes, the same digests and sizes of source and output and the same counts,
  and it refuses exactly the same sources (an undecodable one included).
\<close>

theorem stream_text_exact: "stream_text name (map Inr chunks) = Inr result \<longleftrightarrow> redact_source name (concat chunks) = Inr result"
proof -
  have chunks: "take_chunks name new_stream (map Inr chunks) = Inr st' \<longleftrightarrow> length (concat chunks) \<le> max_redaction_file_bytes
     \<and> (\<exists>tx rest r out pending. decode_some (concat chunks) = Some (tx, rest)
          \<and> drain name new_redactor [] tx = Inr (r, out, pending)
          \<and> st' = \<lparr>st_source = concat chunks, st_undecoded = rest, st_pending = pending, st_redactor = r, st_published = out\<rparr>)" for st'
    using take_chunks_exact [of new_stream] by (simp add: new_stream_def)
  have reader: "end_of_stream name \<lparr>st_source = source, st_undecoded = rest, st_pending = pending, st_redactor = r, st_published = out\<rparr> = Inr (shown, cs)
      \<longleftrightarrow> rest = [] \<and> (\<exists>r' out' trailing r''. conclude name (r, out, pending) = Inr (r', out') \<and> finish r' = Inr (trailing, r'')
          \<and> shown = out' @ trailing \<and> cs = rd_counts r'')" for source rest pending r out shown cs
    by (fastforce simp: end_of_stream_def conclude_def require_Inr_iff rbind_Inr_iff split: if_splits)
  have "stream_text name (map Inr chunks) = Inr result \<longleftrightarrow> (\<exists>st' shown cs. take_chunks name new_stream (map Inr chunks) = Inr st'
      \<and> end_of_stream name st' = Inr (shown, cs) \<and> result = stream_result_of (st_source st') shown cs)"
    by (auto simp: stream_text_def rbind_Inr_iff)
  also have "\<dots> \<longleftrightarrow> length (concat chunks) \<le> max_redaction_file_bytes
      \<and> (\<exists>tx r out pending shown cs. decode_some (concat chunks) = Some (tx, []) \<and> drain name new_redactor [] tx = Inr (r, out, pending)
          \<and> (\<exists>r' out' trailing r''. conclude name (r, out, pending) = Inr (r', out') \<and> finish r' = Inr (trailing, r'')
             \<and> shown = out' @ trailing \<and> cs = rd_counts r'') \<and> result = stream_result_of (concat chunks) shown cs)"
    (is "?l \<longleftrightarrow> ?r")
  proof
    assume ?l
    then obtain st' shown cs where st': "take_chunks name new_stream (map Inr chunks) = Inr st'" "end_of_stream name st' = Inr (shown, cs)"
      "result = stream_result_of (st_source st') shown cs" by blast
    then obtain tx rest r out pending where parts: "length (concat chunks) \<le> max_redaction_file_bytes" "decode_some (concat chunks) = Some (tx, rest)"
      "drain name new_redactor [] tx = Inr (r, out, pending)"
      and eq: "st' = \<lparr>st_source = concat chunks, st_undecoded = rest, st_pending = pending, st_redactor = r, st_published = out\<rparr>"
      unfolding chunks by blast
    show ?r using parts st'(2,3) unfolding eq reader by auto
  next
    assume ?r
    then obtain tx r out pending shown cs where parts: "length (concat chunks) \<le> max_redaction_file_bytes" "decode_some (concat chunks) = Some (tx, [])"
      "drain name new_redactor [] tx = Inr (r, out, pending)"
      "end_of_stream name \<lparr>st_source = concat chunks, st_undecoded = [], st_pending = pending, st_redactor = r, st_published = out\<rparr> = Inr (shown, cs)"
      "result = stream_result_of (concat chunks) shown cs" unfolding reader by blast
    moreover have "take_chunks name new_stream (map Inr chunks)
        = Inr \<lparr>st_source = concat chunks, st_undecoded = [], st_pending = pending, st_redactor = r, st_published = out\<rparr>"
      unfolding chunks using parts(1-3) by blast
    ultimately show ?l by (metis stream.select_convs(1))
  qed
  also have "\<dots> \<longleftrightarrow> length (concat chunks) \<le> max_redaction_file_bytes
     \<and> (\<exists>tx r out trailing r'. decode_some (concat chunks) = Some (tx, [])
          \<and> rbind (drain name new_redactor [] tx) (conclude name) = Inr (r, out) \<and> finish r = Inr (trailing, r')
          \<and> result = stream_result_of (concat chunks) (out @ trailing) (rd_counts r'))"
    unfolding rbind_Inr_iff by (metis (no_types, lifting) surj_pair)
  also have "\<dots> \<longleftrightarrow> redact_source name (concat chunks) = Inr result"
    unfolding drain_conclude redact_source_def decode_some_utf8 [of "concat chunks"]
    by (auto simp: require_Inr_iff rbind_Inr_iff of_option_Inr_iff split: option.splits list.splits)
  finally show ?thesis .
qed

end
