(* ===== verification/Dep_Facts.thy ===== *)
theory Dep_Facts
  imports Dep_Verify Redaction_Facts
begin

text \<open>
  What a verification without errors says of the package: the artifacts on disk are the
  registered ones with their recorded digests, the history is complete, and every shareable
  artifact is the deterministic redaction of a raw one.
\<close>


section \<open>Loops that report nothing\<close>

lemma unless_Nil_iff [simp]: "unless ok m = [] \<longleftrightarrow> ok" "[] = unless ok m \<longleftrightarrow> ok"
  by (simp_all add: unless_def)

lemma each_row_Cons_silent:
  assumes "each_row step i (x # xs) s = Inr ([], s2)"
  obtains s1 where "step i x s = Inr ([], s1)" and "each_row step (Suc i) xs s1 = Inr ([], s2)"
  using assms by (auto simp: rbind_Inr_iff split: prod.splits)

text \<open>An invariant of the state and a fact about each row that later rows keep.\<close>

lemma each_row_silent:
  assumes "each_row step i xs s = Inr ([], s')" and "I s"
    and step: "\<And>i x s s1. x \<in> set xs \<Longrightarrow> I s \<Longrightarrow> step i x s = Inr ([], s1) \<Longrightarrow> I s1 \<and> Q x"
  shows "I s' \<and> (\<forall>x\<in>set xs. Q x)"
  using assms
proof (induction xs arbitrary: i s)
  case Nil
  then show ?case by simp
next
  case (Cons x xs)
  from Cons.prems(1) obtain s1 where s1: "step i x s = Inr ([], s1)" and rest: "each_row step (Suc i) xs s1 = Inr ([], s')"
    by (rule each_row_Cons_silent)
  have q: "I s1 \<and> Q x" using Cons.prems(3) [OF _ Cons.prems(2) s1] by simp
  have "I s' \<and> (\<forall>x\<in>set xs. Q x)" by (rule Cons.IH [OF rest]) (use q Cons.prems(3) in auto)
  with q show ?case by simp
qed

text \<open>A state that collects one fresh key per row.\<close>

lemma each_row_keys:
  assumes "each_row step i xs s = Inr ([], s')"
    and step: "\<And>i x s s1. x \<in> set xs \<Longrightarrow> step i x s = Inr ([], s1) \<Longrightarrow> key x \<notin> set (keys s) \<and> keys s1 = keys s @ [key x]"
    and "distinct (keys s)"
  shows "keys s' = keys s @ map key xs \<and> distinct (keys s')"
  using assms
proof (induction xs arbitrary: i s)
  case Nil
  then show ?case by simp
next
  case (Cons x xs)
  from Cons.prems(1) obtain s1 where s1: "step i x s = Inr ([], s1)" and rest: "each_row step (Suc i) xs s1 = Inr ([], s')"
    by (rule each_row_Cons_silent)
  have k: "key x \<notin> set (keys s) \<and> keys s1 = keys s @ [key x]" using Cons.prems(2) [OF _ s1] by simp
  have rest': "keys s' = keys s1 @ map key xs \<and> distinct (keys s')"
    by (rule Cons.IH [OF rest]) (use k Cons.prems(2,3) in auto)
  then have "keys s' = keys s @ map key (x # xs)" using k by simp
  with rest' show ?case by blast
qed

lemma read_errors_Nil:
  assumes "read_errors m missing k = Inr []" and "missing \<noteq> []"
  obtains a where "m = Inr a" and "k a = Inr []"
  using assms by (auto simp: read_errors_def split: sum.splits exn.splits if_splits)


section \<open>Registered artifacts\<close>

text \<open>
  An artifact of a zone: the row names a file directly in the zone, the file could be read,
  and its size and digest are the recorded ones.
\<close>

definition artifact_in :: "string \<Rightarrow> zone_view \<Rightarrow> obj \<Rightarrow> string \<Rightarrow> string \<Rightarrow> bool" where
  "artifact_in zone z row name bytes \<longleftrightarrow>
     get row ''path'' = JStr (zone @ ''/'' @ name)
     \<and> (\<exists>label metadata. read_regular_bytes_at (zv_files z name) name label max_dep_artifact_bytes = Inr (bytes, metadata)
          \<and> get row ''size'' = JInt (st_size metadata))
     \<and> get row ''sha256'' = JStr (sha256_hex bytes)"

lemma path_parts_zone [simp]:
  "path_parts raw_zone = [''private'', ''raw'']" "path_parts shareable_zone = [''shareable'', ''artifacts'']"
  by (simp_all add: path_parts_def raw_zone_def shareable_zone_def)

lemma split_char_free: "c \<notin> set s \<Longrightarrow> split_char c s = [s]"
  by (induction s) auto

lemma path_parts_free: "p \<in> set (path_parts s) \<Longrightarrow> CHR ''/'' \<notin> set p \<and> p \<noteq> [] \<and> p \<noteq> ''.''"
proof -
  have "\<forall>p\<in>set (split_char c s). c \<notin> set p" for c
    by (induction s) (auto split: list.splits)
  then show "p \<in> set (path_parts s) \<Longrightarrow> ?thesis" by (auto simp: path_parts_def)
qed

lemma path_name_free: "CHR ''/'' \<notin> set n \<Longrightarrow> n \<noteq> [] \<Longrightarrow> n \<noteq> ''.'' \<Longrightarrow> path_name n = n"
  by (simp add: path_name_def path_parts_def split_char_free)

lemma path_name_last: "path_parts p = ps @ [n] \<Longrightarrow> path_name p = n"
  by (simp add: path_name_def)

lemma manifest_artifact_path_Inr:
  assumes "manifest_artifact_path links value zone = Inr relative" and "zone \<in> {raw_zone, shareable_zone}"
  shows "value = JStr relative" and "relative = zone @ ''/'' @ path_name relative"
    and "path_name relative \<noteq> []" and "path_name (path_name relative) = path_name relative"
proof -
  from assms(1) have v: "is_str value" and r: "relative = str_val value"
    and parts: "join ''/'' (path_parts relative) = relative" "butlast (path_parts relative) = path_parts zone"
      "take (length (path_parts zone)) (path_parts relative) = path_parts zone"
    by (auto simp: manifest_artifact_path_def Let_def rbind_Inr_iff require_Inr_iff)
  then show "value = JStr relative" by (auto simp: is_str_conv)
  have ne: "path_parts relative \<noteq> []" using parts(2,3) assms(2) by auto
  define n where "n = last (path_parts relative)"
  have ps: "path_parts relative = path_parts zone @ [n]"
    using append_butlast_last_id [OF ne] parts(2) by (simp add: n_def)
  then have n: "path_name relative = n" by (rule path_name_last)
  have free: "CHR ''/'' \<notin> set n \<and> n \<noteq> [] \<and> n \<noteq> ''.''" by (rule path_parts_free [of n relative]) (simp add: ps)
  have z: "join ''/'' (path_parts zone) = zone" using assms(2) by (auto simp: raw_zone_def shareable_zone_def path_parts_def)
  have "relative = join ''/'' (path_parts zone @ [n])" using parts(1) ps by simp
  also have "\<dots> = zone @ ''/'' @ n" using assms(2) z by (subst join_append) auto
  finally show "relative = zone @ ''/'' @ path_name relative" unfolding n .
  show "path_name relative \<noteq> []" "path_name (path_name relative) = path_name relative"
    using free path_name_free by (simp_all add: n)
qed

lemma manifest_row_silent:
  assumes "manifest_row False raw links zone files manifest i row expected = Inr ([], expected')"
    and zone: "zone \<in> {raw_zone, shareable_zone}" and files: "files = Some (zv_files z)"
  shows "\<exists>relative bytes. is_dict row \<and> artifact_in zone z (dict_val row) (path_name relative) bytes
    \<and> get (dict_val row) ''shareable'' = JBool (\<not> raw) \<and> get (dict_val row) ''path'' = JStr relative
    \<and> manifest_artifact_path links (get (dict_val row) ''path'') zone = Inr relative
    \<and> relative \<notin> set expected \<and> expected' = expected @ [relative]"
proof -
  let ?d = "dict_val row" and ?label = "indexed (''manifest '' @ (if raw then ''raw'' else ''shareable'')) i"
  from assms(1) obtain relative where d: "is_dict row" and flds: "row_field_errors raw ?label ?d = Inr []"
    and path: "manifest_artifact_path links (get ?d ''path'') zone = Inr relative" and fresh: "relative \<notin> set expected"
    and art: "row_artifact False raw files manifest ?d relative = Inr []" and ex: "expected' = expected @ [relative]"
    by (auto simp: manifest_row_def Let_def rbind_Inr_iff split: if_splits sum.splits)
  note p = manifest_artifact_path_Inr [OF path zone]
  from flds have flag: "get ?d ''shareable'' = JBool (\<not> raw)" and size: "is_int (get ?d ''size'')" and sha: "sha256_str (get ?d ''sha256'')"
    by (auto simp: row_field_errors_def rbind_Inr_iff)
  from art obtain bytes metadata where
    read: "read_regular_bytes_at (zv_files z (path_name relative)) (path_name relative) (''artifact '' @ relative) max_dep_artifact_bytes
      = Inr (bytes, metadata)"
    and ae: "artifact_errors raw manifest ?d relative (bytes, metadata) = Inr []"
    unfolding row_artifact_def files option.case Let_def missing_artifact_def
    by (elim read_errors_Nil) (auto simp: unless_def)
  from ae size sha have "get ?d ''size'' = JInt (st_size metadata)" "get ?d ''sha256'' = JStr (sha256_hex bytes)"
    by (auto simp: artifact_errors_def rbind_Inr_iff is_int_conv sha256_str_def is_str_conv)
  then have "artifact_in zone z ?d (path_name relative) bytes"
    unfolding artifact_in_def using read p(1,2) by (intro conjI exI) auto
  then show ?thesis using d flag p(1) path fresh ex by blast
qed

text \<open>
  A zone is registered: every row is an artifact of the zone, no path occurs twice, and every
  name the directory lists belongs to a row.
\<close>

definition row_path :: "json \<Rightarrow> json" where
  "row_path row = get (dict_val row) ''path''"

definition zone_registered :: "string \<Rightarrow> zone_view \<Rightarrow> json list \<Rightarrow> bool" where
  "zone_registered zone z rows \<longleftrightarrow>
     (\<forall>row\<in>set rows. is_dict row \<and> (\<exists>name bytes. artifact_in zone z (dict_val row) name bytes))
     \<and> distinct (map row_path rows)
     \<and> (\<exists>listing. zv_listing z = Inr listing \<and> (\<forall>name\<in>set listing. JStr (zone @ ''/'' @ name) \<in> set (map row_path rows)))"

lemma zone_entries_silent:
  assumes "concat (map (\<lambda>e. case e of Inl error \<Rightarrow> [error] | Inr _ \<Rightarrow> []) (map (zone_entry stats zone) listing)) = []"
    and "name \<in> set listing"
  shows "zone @ ''/'' @ name \<in> set (concat (map (\<lambda>e. case e of Inl _ \<Rightarrow> [] | Inr path \<Rightarrow> [path]) (map (zone_entry stats zone) listing)))"
proof -
  from assms obtain path where p: "zone_entry stats zone name = Inr path" by (cases "zone_entry stats zone name") auto
  then have "path = zone @ ''/'' @ name" by (auto simp: zone_entry_def Let_def split: if_splits sum.splits)
  with p assms(2) show ?thesis by force
qed

lemma manifest_zone_silent:
  assumes "manifest_zone False raw links zone z manifest = Inr []" and zone: "zone \<in> {raw_zone, shareable_zone}"
  obtains rows where "get manifest (if raw then ''raw'' else ''shareable'') = JArr rows" and "zone_registered zone z rows"
    and "enter_zone False zone (zv_components z) = Inr ()" and "leave_zone zone (zv_components z) = Inr ()"
    and "\<And>row. row \<in> set rows \<Longrightarrow> manifest_artifact_path links (row_path row) zone = Inr (str_val (row_path row))"
proof -
  let ?kind = "if raw then ''raw'' else ''shareable''"
  from assms(1) obtain rows where rows: "get manifest ?kind = JArr rows"
    by (cases "get manifest ?kind") (simp_all add: manifest_zone_def Let_def)
  from assms(1) rows obtain expected listing where
    enter: "enter_zone False zone (zv_components z) = Inr ()" and leave: "leave_zone zone (zv_components z) = Inr ()"
    and loop: "each_row (manifest_row False raw links zone (Some (zv_files z)) manifest) 0 rows [] = Inr ([], expected)"
    and listing: "zv_listing z = Inr listing" and silent: "listing_errors zone z expected listing = []"
    unfolding manifest_zone_def Let_def
    by (auto simp: rbind_Inr_iff missing_artifact_def unless_def split: sum.splits exn.splits prod.splits if_splits)
  obtain actual where found: "actual_zone_files_at (zv_stats z) listing zone = (actual, [])"
    and extras: "sort (remdups (filter (\<lambda>path. path \<notin> set expected) actual)) = []"
    using silent by (cases "actual_zone_files_at (zv_stats z) listing zone") (simp add: listing_errors_def Let_def)
  have keys: "expected = [] @ map (\<lambda>row. str_val (row_path row)) rows \<and> distinct expected"
    by (rule each_row_keys [OF loop, where keys = "\<lambda>ps. ps"]) (auto dest!: manifest_row_silent [OF _ zone refl] simp: row_path_def)
  have each: "True \<and> (\<forall>row\<in>set rows. is_dict row \<and> is_str (row_path row) \<and> (\<exists>name bytes. artifact_in zone z (dict_val row) name bytes)
      \<and> manifest_artifact_path links (row_path row) zone = Inr (str_val (row_path row)))"
    by (rule each_row_silent [OF loop, where I = "\<lambda>_. True"]) (auto dest!: manifest_row_silent [OF _ zone refl] simp: row_path_def)
  have "distinct (map row_path rows)"
    using keys by (auto simp: distinct_map comp_def inj_on_def)
  moreover have "JStr (zone @ ''/'' @ name) \<in> set (map row_path rows)" if "name \<in> set listing" for name
  proof -
    have "zone @ ''/'' @ name \<in> set actual"
      using found zone_entries_silent [OF _ that, of "zv_stats z" zone] by (auto simp: actual_zone_files_at_def Let_def)
    moreover have "filter (\<lambda>path. path \<notin> set expected) actual = []"
      using arg_cong [OF extras, of set] by simp
    ultimately have "zone @ ''/'' @ name \<in> set expected" by (auto simp: filter_empty_conv)
    then obtain row where row: "row \<in> set rows" "str_val (row_path row) = zone @ ''/'' @ name" using keys by auto
    then have "row_path row = JStr (zone @ ''/'' @ name)" using each by (auto simp: is_str_conv)
    with row(1) show ?thesis by (auto intro: rev_image_eqI)
  qed
  ultimately have "zone_registered zone z rows"
    unfolding zone_registered_def using each listing by auto
  then show thesis by (rule that [OF rows _ enter leave]) (use each in blast)
qed


section \<open>Redaction associations\<close>

lemma read_bounded_label: "read_bounded label m n chunks = Inr raw \<Longrightarrow> read_bounded label' m n chunks = Inr raw"
  by (induction label m n chunks arbitrary: raw rule: read_bounded.induct) (auto elim!: resultE simp: exn_simps)

lemma read_label: "read_regular_bytes_at c name label m = Inr x \<Longrightarrow> read_regular_bytes_at c name label' m = Inr x"
  by (auto simp: read_regular_bytes_at_def read_opened_def exn_simps dest: read_bounded_label split: opened.splits)

lemma read_name: "read_regular_bytes_at c name label m = Inr x \<Longrightarrow> name \<noteq> [] \<and> path_name name = name"
  by (simp add: read_regular_bytes_at_def require_Inr_iff)

lemma split_char_append: "split_char c (a @ c # b) = split_char c a @ split_char c b"
proof (induction a)
  case (Cons x a)
  have "split_char c a \<noteq> []" by (induction a) (auto split: list.splits)
  with Cons show ?case by (auto split: list.splits)
qed simp

lemma path_parts_append: "path_parts (a @ ''/'' @ b) = path_parts a @ path_parts b"
  using split_char_append [of "CHR ''/''" a b] by (simp add: path_parts_def)

lemma path_name_in_zone:
  assumes "name \<noteq> []" and "path_name name = name"
  shows "path_name (zone @ ''/'' @ name) = name"
proof -
  have "path_parts name \<noteq> []" "last (path_parts name) = name" using assms by (auto simp: path_name_def split: if_splits)
  then show ?thesis by (simp only: path_name_def path_parts_append) simp
qed

text \<open>
  A quiet package: the files and directories that the association check reads answer as they
  do in the artifact check.
\<close>

definition quiet :: "dep_view \<Rightarrow> bool" where
  "quiet v \<longleftrightarrow> av_links (dv_associations v) = dv_links v
     \<and> (\<forall>name. zr_file (av_output (dv_associations v) name) = zv_files (dv_shareable v) name
          \<and> zr_components (av_output (dv_associations v) name) = zv_components (dv_shareable v)
          \<and> zr_file (av_source (dv_associations v) name) = zv_files (dv_raw v) name
          \<and> zr_components (av_source (dv_associations v) name) = zv_components (dv_raw v))"

text \<open>A shareable artifact whose text is the deterministic redaction of the text of a raw artifact.\<close>

definition redacted_from :: "dep_view \<Rightarrow> json \<Rightarrow> json \<Rightarrow> bool" where
  "redacted_from v row raw_row \<longleftrightarrow>
     (\<exists>name bytes out raw_name raw_bytes raw_content found.
        artifact_in shareable_zone (dv_shareable v) (dict_val row) name bytes \<and> utf8_decode bytes = Some out
        \<and> artifact_in raw_zone (dv_raw v) (dict_val raw_row) raw_name raw_bytes \<and> utf8_decode raw_bytes = Some raw_content
        \<and> redact_text raw_content = Inr (out, found))"

lemma file_row_silent:
  assumes "file_row v raw_rows shareable_rows i row a = Inr ([], a')"
  obtains raw shareable where
    "map_of raw_rows (str_val (get (dict_val row) ''source'')) = Some raw"
    "map_of shareable_rows (str_val (get (dict_val row) ''output'')) = Some shareable"
    "lower (path_suffix (str_val (get (dict_val row) ''output''))) \<in> set text_suffixes"
    "content_errors v (indexed ''redaction report files'' i) raw shareable (get (dict_val row) ''redactions'') = Inr []"
    "\<not> is_har_row raw"
    "str_val (get (dict_val row) ''source'') \<notin> set (as_sources a)" "str_val (get (dict_val row) ''output'') \<notin> set (as_outputs a)"
    "as_sources a' = as_sources a @ [str_val (get (dict_val row) ''source'')]"
    "as_outputs a' = as_outputs a @ [str_val (get (dict_val row) ''output'')]"
proof (cases "map_of raw_rows (str_val (get (dict_val row) ''source''))")
  case None
  then show ?thesis using assms by (simp add: file_row_def Let_def split: if_splits)
next
  case (Some raw)
  show ?thesis
  proof (cases "map_of shareable_rows (str_val (get (dict_val row) ''output''))")
    case None
    with Some show ?thesis using assms by (simp add: file_row_def Let_def split: if_splits)
  next
    case (Some shareable)
    note rows = \<open>map_of raw_rows _ = Some raw\<close> Some
    show ?thesis
      by (rule that [OF rows]; use assms rows in \<open>auto simp: file_row_def Let_def rbind_Inr_iff type_errors_def split: if_splits\<close>)
  qed
qed

lemma rows_by_name_some:
  assumes "map_of (rows_by_name rows) name = Some d"
  obtains row where "row \<in> set rows" and "is_dict row" and "d = dict_val row" and "is_str (row_path row)"
    and "name = path_name (str_val (row_path row))"
  using map_of_SomeD [OF assms] that by (auto simp: rows_by_name_def row_pairs_def row_path_def split: if_splits)

lemma names_of_rows:
  assumes "\<forall>row\<in>set rows. is_dict row \<and> (\<exists>name bytes. artifact_in zone z (dict_val row) name bytes)"
  shows "fst ` set (rows_by_name rows) = (\<lambda>row. path_name (str_val (row_path row))) ` set rows"
proof -
  have "row_pairs row = [(path_name (str_val (row_path row)), dict_val row)]" if "row \<in> set rows" for row
    using assms that by (auto simp: row_pairs_def row_path_def artifact_in_def)
  then have "set (rows_by_name rows) = (\<lambda>row. (path_name (str_val (row_path row)), dict_val row)) ` set rows"
    by (auto simp: rows_by_name_def)
  then show ?thesis by (simp add: image_image)
qed

lemma artifact_in_path:
  assumes "artifact_in zone z d name bytes"
  shows "str_val (get d ''path'') = zone @ ''/'' @ name" and "path_name (str_val (get d ''path'')) = name"
proof -
  have "name \<noteq> [] \<and> path_name name = name" using assms read_name unfolding artifact_in_def by blast
  then show "str_val (get d ''path'') = zone @ ''/'' @ name" "path_name (str_val (get d ''path'')) = name"
    using assms path_name_in_zone by (auto simp: artifact_in_def)
qed

text \<open>In a registered zone a name determines its row.\<close>

lemma zone_registered_unique:
  assumes "zone_registered zone z rows" and "row \<in> set rows" and "row' \<in> set rows"
    and "path_name (str_val (row_path row)) = path_name (str_val (row_path row'))"
  shows "row = row'"
proof -
  from assms obtain n b n' b' where a: "artifact_in zone z (dict_val row) n b" "artifact_in zone z (dict_val row') n' b'"
    unfolding zone_registered_def by meson
  then have "n = n'" using assms(4) artifact_in_path by (simp add: row_path_def)
  then have "row_path row = row_path row'" using a by (simp add: row_path_def artifact_in_def)
  then show ?thesis using assms(1-3) by (auto simp: zone_registered_def distinct_map inj_on_def)
qed

lemma read_zone_text_artifact:
  assumes "artifact_in zone z d name bytes" and "zr_file r = zv_files z name" and "zr_components r = zv_components z"
    and "enter_zone False zone (zv_components z) = Inr ()" and "leave_zone zone (zv_components z) = Inr ()"
  shows "read_zone_text zone r name label = decode_utf8 bytes"
proof -
  from assms(1) obtain m where "read_regular_bytes_at (zv_files z name) name label max_dep_artifact_bytes = Inr (bytes, m)"
    unfolding artifact_in_def using read_label by blast
  then show ?thesis using assms(2-) by (simp add: read_zone_text_def opened_zone_at_def)
qed

lemma read_errors_simps [simp]:
  "read_errors (Inr a) missing k = k a"
  "read_errors (Inl (FileNotFoundError m)) missing k = Inr missing"
  by (simp_all add: read_errors_def)

lemma content_silent:
  assumes content: "content_errors (dv_associations v) label (dict_val raw_row) (dict_val row) redactions = Inr []"
    and quiet: "quiet v"
    and paths: "manifest_artifact_path (dv_links v) (row_path raw_row) raw_zone = Inr raw_path"
      "manifest_artifact_path (dv_links v) (row_path row) shareable_zone = Inr path"
    and arts: "artifact_in raw_zone (dv_raw v) (dict_val raw_row) raw_name raw_bytes"
      "artifact_in shareable_zone (dv_shareable v) (dict_val row) name bytes"
    and zones: "enter_zone False raw_zone (zv_components (dv_raw v)) = Inr ()" "leave_zone raw_zone (zv_components (dv_raw v)) = Inr ()"
      "enter_zone False shareable_zone (zv_components (dv_shareable v)) = Inr ()" "leave_zone shareable_zone (zv_components (dv_shareable v)) = Inr ()"
    and suffix: "lower (path_suffix name) \<in> set text_suffixes"
  shows "redacted_from v row raw_row"
proof -
  have names: "path_name raw_path = raw_name" "path_name path = name"
    using paths arts manifest_artifact_path_Inr(1) artifact_in_path(2) by (fastforce simp: row_path_def)+
  have out: "read_zone_text shareable_zone (av_output (dv_associations v) name) name l = decode_utf8 bytes" for l
    by (rule read_zone_text_artifact [OF arts(2)]) (use quiet zones in \<open>simp_all add: quiet_def\<close>)
  have src: "read_zone_text raw_zone (av_source (dv_associations v) raw_name) raw_name l = decode_utf8 raw_bytes" for l
    by (rule read_zone_text_artifact [OF arts(1)]) (use quiet zones in \<open>simp_all add: quiet_def\<close>)
  have links: "av_links (dv_associations v) = dv_links v" using quiet by (simp add: quiet_def)
  have oe: "output_errors (av_output (dv_associations v) name) (av_source (dv_associations v) raw_name) name raw_name label redactions = Inr []"
    using content paths suffix names links by (simp add: content_errors_def row_path_def)
  then obtain t where t: "utf8_decode bytes = Some t"
    using out by (cases "utf8_decode bytes") (simp_all add: output_errors_def decode_utf8_def)
  with oe out have se: "source_errors (av_source (dv_associations v) raw_name) raw_name label t redactions = Inr []"
    by (auto simp: output_errors_def decode_utf8_def rbind_Inr_iff split: prod.splits)
  then obtain s where s: "utf8_decode raw_bytes = Some s"
    using src by (cases "utf8_decode raw_bytes") (simp_all add: source_errors_def decode_utf8_def)
  with se src obtain found where "redact_text s = Inr (t, found)"
    by (auto simp: source_errors_def decode_utf8_def rbind_Inr_iff split: prod.splits)
  then show ?thesis unfolding redacted_from_def using arts t s by blast
qed

definition row_name :: "json \<Rightarrow> string" where
  "row_name row = path_name (str_val (row_path row))"

lemma zone_registered_names:
  assumes "zone_registered zone z rows"
  shows "fst ` set (rows_by_name rows) = row_name ` set rows"
  unfolding row_name_def by (rule names_of_rows [of rows zone z]) (use assms in \<open>simp add: zone_registered_def\<close>)

lemma associations_silent:
  assumes silent: "verify_redaction_associations (dv_associations v) manifest report = Inr []"
    and rows: "get manifest ''raw'' = JArr raws" "get manifest ''shareable'' = JArr shareables"
    and blocked: "\<not> truthy (get report ''blocked'')" and quiet: "quiet v"
    and reg: "zone_registered raw_zone (dv_raw v) raws" "zone_registered shareable_zone (dv_shareable v) shareables"
    and zones: "enter_zone False raw_zone (zv_components (dv_raw v)) = Inr ()" "leave_zone raw_zone (zv_components (dv_raw v)) = Inr ()"
      "enter_zone False shareable_zone (zv_components (dv_shareable v)) = Inr ()" "leave_zone shareable_zone (zv_components (dv_shareable v)) = Inr ()"
    and paths: "\<And>row. row \<in> set raws \<Longrightarrow> manifest_artifact_path (dv_links v) (row_path row) raw_zone = Inr (str_val (row_path row))"
      "\<And>row. row \<in> set shareables \<Longrightarrow> manifest_artifact_path (dv_links v) (row_path row) shareable_zone = Inr (str_val (row_path row))"
  shows "(\<forall>row\<in>set shareables. \<exists>raw\<in>set raws. redacted_from v row raw)
    \<and> (\<forall>raw\<in>set raws. \<exists>row\<in>set shareables. redacted_from v row raw)"
proof -
  let ?src = "\<lambda>f. str_val (get (dict_val f) ''source'')" and ?out = "\<lambda>f. str_val (get (dict_val f) ''output'')"
  have defaults: "get_default manifest ''raw'' (JArr []) = JArr raws" "get_default manifest ''shareable'' (JArr []) = JArr shareables"
    using rows by (auto simp: get_default_def get_def split: option.splits)
  from silent defaults have "is_list (get report ''blocked'')"
    and ae: "association_errors (dv_associations v) raws shareables (list_val (get report ''files'')) (list_val (get report ''blocked'')) report = Inr []"
    by (auto simp: verify_redaction_associations_def Let_def rbind_Inr_iff split: if_splits)
  with blocked have "list_val (get report ''blocked'') = []" by (auto simp: is_list_conv)
  with ae obtain a where
    loop: "each_row (file_row (dv_associations v) (rows_by_name raws) (rows_by_name shareables)) 0 (list_val (get report ''files'')) no_associations = Inr ([], a)"
    and cover: "set (as_sources a) = fst ` set (rows_by_name raws)" "set (as_outputs a) = fst ` set (rows_by_name shareables)"
    by (auto simp: association_errors_def Let_def rbind_Inr_iff)
  have srcs: "as_sources a = map ?src (list_val (get report ''files''))"
    using each_row_keys [OF loop, where keys = as_sources and key = ?src] file_row_silent
    by (simp add: no_associations_def) (metis (no_types, lifting))
  have outs: "as_outputs a = map ?out (list_val (get report ''files''))"
    using each_row_keys [OF loop, where keys = as_outputs and key = ?out] file_row_silent
    by (simp add: no_associations_def) (metis (no_types, lifting))
  have step: "True \<and> (\<exists>rr\<in>set raws. \<exists>rs\<in>set shareables. redacted_from v rs rr \<and> row_name rs = ?out f \<and> row_name rr = ?src f)"
    if f: "file_row (dv_associations v) (rows_by_name raws) (rows_by_name shareables) i f s = Inr ([], s1)" for i f s s1
  proof -
    from f obtain raw sh where m: "map_of (rows_by_name raws) (?src f) = Some raw" "map_of (rows_by_name shareables) (?out f) = Some sh"
      and sfx: "lower (path_suffix (?out f)) \<in> set text_suffixes"
      and c: "content_errors (dv_associations v) (indexed ''redaction report files'' i) raw sh (get (dict_val f) ''redactions'') = Inr []"
      by (rule file_row_silent)
    from m(1) obtain rr where rr: "rr \<in> set raws" "raw = dict_val rr" "?src f = row_name rr" by (rule rows_by_name_some) (auto simp: row_name_def)
    from m(2) obtain rs where rs: "rs \<in> set shareables" "sh = dict_val rs" "?out f = row_name rs" by (rule rows_by_name_some) (auto simp: row_name_def)
    obtain n b n' b' where arts: "artifact_in raw_zone (dv_raw v) (dict_val rr) n b" "artifact_in shareable_zone (dv_shareable v) (dict_val rs) n' b'"
      using reg rr(1) rs(1) unfolding zone_registered_def by blast
    have "n' = ?out f" using artifact_in_path(2) [OF arts(2)] rs(3) by (simp add: row_name_def row_path_def)
    then have "redacted_from v rs rr"
      using content_silent [OF c [unfolded rr(2) rs(2)] quiet paths(1) [OF rr(1)] paths(2) [OF rs(1)] arts zones] sfx by simp
    then show ?thesis using rr rs by auto
  qed
  have each: "True \<and> (\<forall>f\<in>set (list_val (get report ''files'')). \<exists>rr\<in>set raws. \<exists>rs\<in>set shareables.
      redacted_from v rs rr \<and> row_name rs = ?out f \<and> row_name rr = ?src f)"
    by (rule each_row_silent [OF loop, where I = "\<lambda>_. True"]) (use step in blast)+
  show ?thesis
  proof (intro conjI ballI)
    fix row assume row: "row \<in> set shareables"
    then have "row_name row \<in> ?out ` set (list_val (get report ''files''))"
      using cover(2) outs zone_registered_names [OF reg(2)] by simp
    then obtain rr rs where "rr \<in> set raws" "rs \<in> set shareables" "redacted_from v rs rr" "row_name rs = row_name row"
      using each by fastforce
    then show "\<exists>raw\<in>set raws. redacted_from v row raw"
      using zone_registered_unique [OF reg(2) _ row, of rs] by (auto simp: row_name_def)
  next
    fix raw assume raw: "raw \<in> set raws"
    then have "row_name raw \<in> ?src ` set (list_val (get report ''files''))"
      using cover(1) srcs zone_registered_names [OF reg(1)] by simp
    then obtain rr rs where "rr \<in> set raws" "rs \<in> set shareables" "redacted_from v rs rr" "row_name rr = row_name raw"
      using each by fastforce
    then show "\<exists>row\<in>set shareables. redacted_from v row raw"
      using zone_registered_unique [OF reg(1) _ raw, of rr] by (auto simp: row_name_def)
  qed
qed


section \<open>A verified package\<close>

lemma method_get_Inr: "method_get w k fallback = Inr x \<longleftrightarrow> (\<exists>d. w = JObj d \<and> x = get_default d k fallback)"
  by (cases w) (auto simp: method_get_def)

lemma opened_directory_path_Inr:
  assumes "snd (opened_directory_path create path calls on_change on_commit body s) = Inr a"
  shows "snd (body s) = Inr a"
  using assms
  by (auto simp: opened_directory_path_def raise_fault_def rbind_Inr_iff split: sum.splits option.splits prod.splits)

lemma opened_dep_root_Inr:
  assumes "snd (opened_dep_root dep calls on_change on_commit body s) = Inr a"
  shows "snd (body s) = Inr a"
proof (rule opened_directory_path_Inr)
  show "snd (opened_directory_path False dep calls on_change on_commit body s) = Inr a"
    using assms unfolding opened_dep_root_def by (auto split: sum.splits prod.splits exn.splits)
qed

lemma verify_silent:
  assumes "verify validate dep calls v strict portable = Inr []"
  obtains vr where "verify_open validate v strict portable (\<lambda>_. None) = Inr vr" and "vr_errors vr = []"
proof -
  from assms obtain vr where vr: "snd (opened_dep_root dep calls id (\<lambda>s. (s, Inr ()))
      (\<lambda>s. (s, verify_open validate v strict portable (\<lambda>_. None))) ()) = Inr vr" "vr_errors vr = []"
    unfolding verify_def by (simp split: sum.splits if_splits)
  from opened_dep_root_Inr [OF vr(1)] have "verify_open validate v strict portable (\<lambda>_. None) = Inr vr" by simp
  then show thesis using vr(2) by (rule that)
qed

lemma read_control_Inr:
  assumes "read_control v (\<lambda>_. None) name = Inr (Inr (bytes, ids))"
  obtains metadata where "read_regular_bytes_at (dv_control v name) name name max_dep_control_file_bytes = Inr (bytes, metadata)"
    and "ids = identity_of metadata"
  using assms by (auto simp: read_control_def split: sum.splits prod.splits exn.splits if_splits)

lemma verify_open_silent:
  assumes "verify_open validate v strict portable (\<lambda>_. None) = Inr vr" and "vr_errors vr = []"
  obtains summary manifest summary_bytes manifest_bytes m m' where
    "read_regular_bytes_at (dv_control v ''summary.yaml'') ''summary.yaml'' ''summary.yaml'' max_dep_control_file_bytes = Inr (summary_bytes, m)"
    "loads_bytes summary_bytes = Inr summary"
    "read_regular_bytes_at (dv_control v ''manifest.json'') ''manifest.json'' ''manifest.json'' max_dep_control_file_bytes = Inr (manifest_bytes, m')"
    "loads_bytes manifest_bytes = Inr manifest"
    "content_checks validate v strict portable summary manifest = Inr []"
    "vr_summary vr = Some summary" "vr_manifest vr = Some manifest"
    "vr_digest vr = Some (control_snapshot_digest summary_bytes manifest_bytes)"
    "vr_identities vr = [(''summary.yaml'', identity_of m), (''manifest.json'', identity_of m')]"
proof -
  from assms obtain listing sr mr where r: "dv_listing v = Inr listing"
    "read_control v (\<lambda>_. None) ''summary.yaml'' = Inr sr" "read_control v (\<lambda>_. None) ''manifest.json'' = Inr mr"
    unfolding verify_open_def by (auto simp: rbind_Inr_iff)
  show thesis
  proof (cases sr)
    case (Inl e)
    then show ?thesis using assms r by (cases mr) (auto simp: verify_open_def)
  next
    case sr: (Inr sp)
    obtain sb sid where sp: "sp = (sb, sid)" by (cases sp)
    show ?thesis
    proof (cases mr)
      case (Inl e)
      then show ?thesis using assms r sr by (auto simp: verify_open_def)
    next
      case mr: (Inr mp)
      obtain mb mid where mp: "mp = (mb, mid)" by (cases mp)
      from r(2) sr sp obtain m where m: "read_regular_bytes_at (dv_control v ''summary.yaml'') ''summary.yaml'' ''summary.yaml'' max_dep_control_file_bytes = Inr (sb, m)"
        "sid = identity_of m" by (auto elim: read_control_Inr)
      from r(3) mr mp obtain m' where m': "read_regular_bytes_at (dv_control v ''manifest.json'') ''manifest.json'' ''manifest.json'' max_dep_control_file_bytes = Inr (mb, m')"
        "mid = identity_of m'" by (auto elim: read_control_Inr)
      from assms r sr sp mr mp m(2) m'(2) obtain summary manifest where
        "loads_bytes sb = Inr summary" "loads_bytes mb = Inr manifest"
        "content_checks validate v strict portable summary manifest = Inr []"
        "vr_summary vr = Some summary" "vr_manifest vr = Some manifest"
        "vr_digest vr = Some (control_snapshot_digest sb mb)"
        "vr_identities vr = [(''summary.yaml'', identity_of m), (''manifest.json'', identity_of m')]"
        by (auto simp: verify_open_def Let_def rbind_Inr_iff split: if_splits sum.splits)
      then show ?thesis using that m(1) m'(1) by blast
    qed
  qed
qed

lemma content_checks_silent:
  assumes "content_checks validate v True portable summary manifest = Inr []"
  obtains history docs where "workflow_member summary ''phase'' = Inr (JStr ''proof'')"
    and "workflow_member summary ''history'' = Inr history" and "history_errors ''proof'' history = []"
    and "mapr (document_errors v) (required_docs ''proof'') = Inr docs" and "concat docs = []"
    and "evidence_stage v portable manifest = Inr []" and "attachments_errors summary manifest = Inr []"
proof -
  from assms obtain phase where p: "workflow_member summary ''phase'' = Inr phase" "str_in phase phases"
    and pe: "phase_errors v True portable summary manifest (str_val phase) = Inr []"
    by (auto simp: content_checks_def rbind_Inr_iff split: if_splits)
  from pe have "str_val phase = ''proof''" by (auto simp: phase_errors_def rbind_Inr_iff)
  moreover from this p(2) have "phase = JStr ''proof''" by (auto simp: str_in_conv)
  ultimately show thesis using pe p(1) that by (auto simp: phase_errors_def rbind_Inr_iff)
qed


end
