(* ===== verification/Plain_Files.thy ===== *)
theory Plain_Files
  imports Dep_Verify
begin

text \<open>
  A file system that does not change, for the witnesses: every path of directories opens, every
  file reads as it is, and nothing fails.
\<close>


section \<open>A file system that does not change\<close>

definition plain_stat :: "nat \<Rightarrow> os_stat" where
  "plain_stat n = \<lparr>st_kind = Regular, st_perm = 384, st_uid = 501, st_gid = 20, st_dev = 1, st_ino = 7,
     st_nlink = 1, st_size = int n, st_mtime_ns = 0, st_ctime_ns = 0\<rparr>"

definition plain_read :: "string \<Rightarrow> read_calls" where
  "plain_read bytes = \<lparr>rc_open = Opened, rc_metadata = Inr (plain_stat (length bytes)), rc_chunks = [Inr bytes],
     rc_final = Inr (plain_stat (length bytes)), rc_name = Inr (plain_stat (length bytes))\<rparr>"

definition absent_read :: read_calls where
  "absent_read = plain_read []\<lparr>rc_open := Missing ''No such file or directory''\<rparr>"

definition plain_files :: "(string \<times> string) list \<Rightarrow> string \<Rightarrow> read_calls" where
  "plain_files fs name = (case map_of fs name of None \<Rightarrow> absent_read | Some bytes \<Rightarrow> plain_read bytes)"

definition plain_component :: component_calls where
  "plain_component = \<lparr>cc_open = Opened, cc_mkdir = Inr (), cc_reopen = Opened, cc_metadata = Inr ((plain_stat 0)\<lparr>st_kind := Directory\<rparr>),
     cc_current = Inr ((plain_stat 0)\<lparr>st_kind := Directory\<rparr>), cc_opened = Inr ((plain_stat 0)\<lparr>st_kind := Directory\<rparr>)\<rparr>"

definition plain_path :: path_calls where
  "plain_path = \<lparr>pc_anchor = Inr (), pc_component = \<lambda>_. plain_component\<rparr>"

definition plain_zone :: "(string \<times> string) list \<Rightarrow> zone_view" where
  "plain_zone fs = \<lparr>zv_components = \<lambda>_. plain_component, zv_files = plain_files fs, zv_listing = Inr (map fst fs),
     zv_stats = \<lambda>name. Inr (plain_stat (length (the (map_of fs name))))\<rparr>"

definition plain_zone_read :: "(string \<times> string) list \<Rightarrow> string \<Rightarrow> zone_read" where
  "plain_zone_read fs name = \<lparr>zr_components = \<lambda>_. plain_component, zr_file = plain_files fs name\<rparr>"

text \<open>The view of a package with the given files in its root and in its two zones.\<close>

definition plain_dep :: "(string \<times> string) list \<Rightarrow> (string \<times> string) list \<Rightarrow> (string \<times> string) list \<Rightarrow> dep_view" where
  "plain_dep root raws shareables = \<lparr>dv_listing = Inr (map fst root), dv_control = plain_files root,
     dv_document = plain_files root, dv_report = plain_files root ''redaction-report.json'',
     dv_associations = \<lparr>av_links = \<lambda>_. Inr False, av_output = plain_zone_read shareables, av_source = plain_zone_read raws\<rparr>,
     dv_links = \<lambda>_. Inr False, dv_raw = plain_zone raws, dv_shareable = plain_zone shareables\<rparr>"

lemma read_plain:
  assumes "map_of fs name = Some bytes" and "name \<noteq> []" and "path_name name = name" and "length bytes \<le> max_bytes"
  shows "read_regular_bytes_at (plain_files fs name) name label max_bytes = Inr (bytes, plain_stat (length bytes))"
  using assms by (simp add: plain_files_def plain_read_def read_regular_bytes_at_def read_opened_def plain_stat_def same_snapshot_def)

lemma first_fault_none: "(\<And>x. x \<in> set xs \<Longrightarrow> f x = None) \<Longrightarrow> first_fault f xs = None"
  by (induction xs) auto

lemma plain_components [simp]:
  "first_fault (enter_component create unsafe not_directory) (components_of (\<lambda>_. plain_component) path) = None"
  "first_fault (leave_component changed) (components_of (\<lambda>_. plain_component) path) = None"
  by (rule first_fault_none; auto simp: components_of_def enter_component_def leave_component_def open_component_def
      plain_component_def same_inode_def)+

lemma plain_zones [simp]:
  "zone \<in> {raw_zone, shareable_zone} \<Longrightarrow> enter_zone False zone (\<lambda>_. plain_component) = Inr ()"
  "leave_zone zone (\<lambda>_. plain_component) = Inr ()"
  by (auto simp: enter_zone_def leave_zone_def is_absolute_def starts_with_def raw_zone_def shareable_zone_def path_parts_def)

lemma plain_root: "''..'' \<notin> set (path_parts dep) \<Longrightarrow>
    opened_dep_root dep plain_path on_change (\<lambda>s. (s, Inr ())) (\<lambda>s. (s, r)) s = (case r of
      Inl (FileNotFoundError m) \<Rightarrow> (on_change s, Inl (ValueError ''DEP root must be an existing safe directory path''))
    | Inl e \<Rightarrow> (on_change s, Inl e) | Inr a \<Rightarrow> (s, Inr a))"
  by (auto simp: opened_dep_root_def opened_directory_path_def enter_path_def leave_path_def plain_path_def split: sum.splits exn.splits)

end
