(* ===== verification/Dep_Witness.thy ===== *)
theory Dep_Witness
  imports Dep_Facts Plain_Files
begin

text \<open>
  A concrete package in the proof phase, with one raw artifact and its redaction. It passes strict
  verification, and so does the same package when its shareable artifact leaks a path into a home
  directory and its report is the JSON literal \<open>null\<close>.
\<close>


section \<open>The size of a rendering\<close>

fun text_weight :: "json \<Rightarrow> nat" where
  "text_weight JNull = 4"
| "text_weight (JBool b) = 5"
| "text_weight (JInt i) = length (show_int i)"
| "text_weight (JStr s) = 6 * length s + 2"
| "text_weight (JArr xs) = 2 + sum_list (map (\<lambda>v. text_weight v + 1) xs)"
| "text_weight (JObj d) = 2 + sum_list (map (\<lambda>kv. 6 * length (fst kv) + 4 + text_weight (snd kv)) d)"

lemma length_join: "length (join sep xs) \<le> sum_list (map (\<lambda>x. length x + length sep) xs)"
  by (induction sep xs rule: join.induct) auto

lemma length_escape_char: "length (escape_char c) \<le> 6"
  by (simp add: escape_char_def hex4_def)

lemma length_any_dump_str: "length (dump_str s) \<le> 6 * length s + 2"
proof -
  have "length (concat (map escape_char s)) \<le> 6 * length s"
  proof (induction s)
    case (Cons c s)
    then show ?case using length_escape_char [of c] by simp
  qed simp
  then show ?thesis by (simp add: dump_str_def)
qed

lemma sum_list_sort_key: "sum_list (map f (sort_key k xs)) = (sum_list (map f xs) :: nat)"
proof (induction xs)
  case (Cons x xs)
  have "sum_list (map f (insort_key k x ys)) = f x + sum_list (map f ys)" for ys by (induction ys) auto
  then show ?case using Cons by simp
qed simp

lemma length_dumps: "length (dumps v) \<le> text_weight v"
proof (induction v rule: dumps.induct)
  case (5 xs)
  have "length (join '','' (map dumps xs)) \<le> sum_list (map (\<lambda>x. length (dumps x) + 1) xs)"
    using length_join [of "'',''" "map dumps xs"] by (simp add: comp_def)
  also have "\<dots> \<le> sum_list (map (\<lambda>v. text_weight v + 1) xs)"
    by (intro sum_list_mono) (use 5 in simp)
  finally show ?case by simp
next
  case (6 d)
  let ?f = "\<lambda>kv. (fst kv, dump_str (fst kv) @ '':'' @ dumps (snd kv))"
  have "length (join '','' (map snd (sort_key fst (map ?f d))))
      \<le> sum_list (map (\<lambda>p. length (snd p) + 1) (sort_key fst (map ?f d)))"
    using length_join [of "'',''" "map snd (sort_key fst (map ?f d))"] by (simp add: comp_def)
  also have "\<dots> = sum_list (map (\<lambda>p. length (snd p) + 1) (map ?f d))" by (rule sum_list_sort_key)
  also have "\<dots> = sum_list (map (\<lambda>kv. length (dump_str (fst kv)) + length (dumps (snd kv)) + 2) d)" by (simp add: comp_def)
  also have "\<dots> \<le> sum_list (map (\<lambda>kv. 6 * length (fst kv) + 4 + text_weight (snd kv)) d)"
  proof (rule sum_list_mono)
    fix kv assume "kv \<in> set d"
    then have "length (dumps (snd kv)) \<le> text_weight (snd kv)" using 6 by simp
    then show "length (dump_str (fst kv)) + length (dumps (snd kv)) + 2 \<le> 6 * length (fst kv) + 4 + text_weight (snd kv)"
      using length_any_dump_str [of "fst kv"] by linarith
  qed
  finally show ?case by simp
qed (use length_any_dump_str in auto)

lemma length_canonical: "2 * text_weight v \<le> n \<Longrightarrow> length (canonical_bytes v) \<le> n"
  using length_utf8 [of "dumps v"] length_dumps [of v] by (simp add: canonical_bytes_def)

lemma plain_dep_quiet: "quiet (plain_dep root raws shareables)"
  by (simp add: quiet_def plain_dep_def plain_zone_def plain_zone_read_def)


section \<open>A finished package\<close>

definition raw_bytes :: string where "raw_bytes = ''hi''"

definition leaked_bytes :: string where "leaked_bytes = ''/home/a''"

definition artifact_name :: string where "artifact_name = ''terminal--a.txt''"

definition sample_raw_row :: "digest \<Rightarrow> int \<Rightarrow> obj" where
  "sample_raw_row h n = [(''collected_at'', JStr ''2026-01-01T00:00:00Z''), (''collector'', JStr ''terminal''),
     (''media_type'', JStr ''text/plain; charset=utf-8''), (''path'', JStr ''private/raw/terminal--a.txt''),
     (''sha256'', JStr h), (''shareable'', JBool False), (''size'', JInt n), (''source_suffix'', JStr ''.txt'')]"

definition sample_shareable_row :: "digest \<Rightarrow> int \<Rightarrow> obj" where
  "sample_shareable_row h n = [(''path'', JStr ''shareable/artifacts/terminal--a.txt''), (''sha256'', JStr h),
     (''shareable'', JBool True), (''size'', JInt n)]"

definition sample_manifest :: "digest \<Rightarrow> digest \<Rightarrow> int \<Rightarrow> int \<Rightarrow> obj" where
  "sample_manifest h k n m = [(''dep_id'', JStr ''DEP-1''), (''raw'', JArr [JObj (sample_raw_row h n)]),
     (''schema_version'', JStr ''1.1''), (''shareable'', JArr [JObj (sample_shareable_row k m)])]"

definition sample_summary :: obj where
  "sample_summary = [(''actual_behavior'', JStr ''a''), (''attachments'', JArr []), (''dep_id'', JStr ''DEP-1''), (''environment'', JObj []),
     (''expected_behavior'', JStr ''b''), (''issue'', JStr ''1''), (''risk_level'', JStr ''L1''),
     (''workflow'', JObj [(''history'', JArr (map (\<lambda>p. JObj [(''phase'', JStr p)]) phases)), (''phase'', JStr ''proof'')])]"

definition sample_file_row :: "digest \<Rightarrow> digest \<Rightarrow> int \<Rightarrow> int \<Rightarrow> obj" where
  "sample_file_row h k n m = [(''output'', JStr artifact_name), (''output_sha256'', JStr k), (''output_size'', JInt m),
     (''redactions'', JObj []), (''source'', JStr artifact_name), (''source_sha256'', JStr h), (''source_size'', JInt n)]"

definition sample_report :: "digest \<Rightarrow> digest \<Rightarrow> int \<Rightarrow> int \<Rightarrow> obj" where
  "sample_report h k n m = [(''blocked'', JArr []), (''dep_id'', JStr ''DEP-1''),
     (''files'', JArr [JObj (sample_file_row h k n m)]),
     (''generated_at'', JStr ''2026-01-01T00:00:00Z''), (''schema_version'', JStr ''1.0''), (''totals'', JObj [])]"

lemma sample_canon:
  "canon (JObj (sample_manifest h k n m)) = JObj (sample_manifest h k n m)"
  "canon (JObj sample_summary) = JObj sample_summary"
  "canon (JObj (sample_report h k n m)) = JObj (sample_report h k n m)"
  by code_simp+

lemma sample_wf:
  "wf_json (JObj (sample_manifest h k n m))" "wf_json (JObj sample_summary)" "wf_json (JObj (sample_report h k n m))"
  by (simp_all add: sample_manifest_def sample_summary_def sample_report_def sample_file_row_def sample_raw_row_def sample_shareable_row_def phases_def)

text \<open>The package, for the text of the shareable artifact and of the report.\<close>

definition package_manifest :: "string \<Rightarrow> obj" where
  "package_manifest out = sample_manifest (sha256_hex raw_bytes) (sha256_hex out) (int (length raw_bytes)) (int (length out))"

definition package_root :: "string \<Rightarrow> string \<Rightarrow> (string \<times> string) list" where
  "package_root out report = [(''summary.yaml'', canonical_bytes (JObj sample_summary)),
     (''manifest.json'', canonical_bytes (JObj (package_manifest out))), (''redaction-report.json'', report),
     (''reproduction.md'', ''done''), (''root-cause-hypothesis.md'', ''done''), (''fix-scope.md'', ''done''),
     (''regression-evidence.md'', ''done''), (''verification.md'', ''done''), (''rollback.md'', ''done'')]"

definition package :: "string \<Rightarrow> string \<Rightarrow> dep_view" where
  "package out report = plain_dep (package_root out report) [(artifact_name, raw_bytes)] [(artifact_name, out)]"

definition no_schema_errors :: schema_check where
  "no_schema_errors summary = Inr []"

lemma plain_names: "path_name ''summary.yaml'' = ''summary.yaml''" "path_name ''manifest.json'' = ''manifest.json''"
  "path_name ''redaction-report.json'' = ''redaction-report.json''" "path_name ''reproduction.md'' = ''reproduction.md''"
  "path_name ''root-cause-hypothesis.md'' = ''root-cause-hypothesis.md''" "path_name ''fix-scope.md'' = ''fix-scope.md''"
  "path_name ''regression-evidence.md'' = ''regression-evidence.md''" "path_name ''verification.md'' = ''verification.md''"
  "path_name ''rollback.md'' = ''rollback.md''" "path_name artifact_name = artifact_name" "artifact_name \<noteq> []"
  "path_name ''private/raw/terminal--a.txt'' = artifact_name" "path_name ''shareable/artifacts/terminal--a.txt'' = artifact_name"
  by code_simp+

lemma package_listing: "residue_errors (map fst (package_root out report)) = []"
proof -
  have "residue_errors (map fst (package_root out report)) = residue_errors [''summary.yaml'', ''manifest.json'', ''redaction-report.json'',
      ''reproduction.md'', ''root-cause-hypothesis.md'', ''fix-scope.md'', ''regression-evidence.md'', ''verification.md'', ''rollback.md'']"
    by (simp add: package_root_def)
  also have "\<dots> = []" by code_simp
  finally show ?thesis .
qed

lemma length_show_small: "n < 100 \<Longrightarrow> length (show_int (int n)) \<le> 2"
proof -
  assume "n < 100"
  then have "n div 10 < 10" by simp
  then have "length (show_nat (n div 10)) = 1" by (simp add: show_nat.simps [of "n div 10"])
  then show ?thesis by (simp add: show_int_def show_nat.simps [of n])
qed

lemma canonical_bounds:
  assumes "length out \<le> 20"
  shows "length (canonical_bytes (JObj sample_summary)) \<le> max_dep_control_file_bytes"
    and "length (canonical_bytes (JObj (package_manifest out))) \<le> max_dep_control_file_bytes"
proof -
  have "2 * text_weight (JObj sample_summary) \<le> max_dep_control_file_bytes"
    by (simp add: sample_summary_def phases_def max_dep_control_file_bytes_def)
  then show "length (canonical_bytes (JObj sample_summary)) \<le> max_dep_control_file_bytes" by (rule length_canonical)
  have "length (show_int (int (length raw_bytes))) \<le> 2" "length (show_int (int (length out))) \<le> 2"
    using assms by (intro length_show_small; simp add: raw_bytes_def)+
  then have "2 * text_weight (JObj (package_manifest out)) \<le> max_dep_control_file_bytes"
    by (simp add: package_manifest_def sample_manifest_def sample_raw_row_def sample_shareable_row_def max_dep_control_file_bytes_def)
  then show "length (canonical_bytes (JObj (package_manifest out))) \<le> max_dep_control_file_bytes" by (rule length_canonical)
qed

lemma package_controls:
  assumes "length out \<le> 20"
  shows "read_control (package out report) (\<lambda>_. None) ''summary.yaml''
      = Inr (Inr (canonical_bytes (JObj sample_summary), identity_of (plain_stat (length (canonical_bytes (JObj sample_summary))))))"
    and "read_control (package out report) (\<lambda>_. None) ''manifest.json''
      = Inr (Inr (canonical_bytes (JObj (package_manifest out)), identity_of (plain_stat (length (canonical_bytes (JObj (package_manifest out)))))))"
proof -
  have m: "map_of (package_root out report) ''summary.yaml'' = Some (canonical_bytes (JObj sample_summary))"
    "map_of (package_root out report) ''manifest.json'' = Some (canonical_bytes (JObj (package_manifest out)))"
    by (simp_all add: package_root_def)
  have "dv_control (package out report) = plain_files (package_root out report)" by (simp add: package_def plain_dep_def)
  then show "read_control (package out report) (\<lambda>_. None) ''summary.yaml''
      = Inr (Inr (canonical_bytes (JObj sample_summary), identity_of (plain_stat (length (canonical_bytes (JObj sample_summary))))))"
    "read_control (package out report) (\<lambda>_. None) ''manifest.json''
      = Inr (Inr (canonical_bytes (JObj (package_manifest out)), identity_of (plain_stat (length (canonical_bytes (JObj (package_manifest out)))))))"
    using read_plain [OF m(1)] read_plain [OF m(2)] canonical_bounds [OF assms] plain_names(1,2)
    by (simp_all add: read_control_def)
qed

lemma package_documents:
  assumes "length out \<le> 20" and "length report \<le> max_dep_control_file_bytes"
  shows "mapr (document_errors (package out report)) (required_docs ''proof'') = Inr [[], [], [], [], [], [], []]"
proof -
  have finished: "is_completed (utf8_ignore ''done'')" by code_simp
  have bound: "length ''done'' \<le> max_dep_control_file_bytes" by (simp add: max_dep_control_file_bytes_def)
  have dv: "dv_document (package out report) = plain_files (package_root out report)" by (simp add: package_def plain_dep_def)
  have md: "document_errors (package out report) name = Inr []"
    if "map_of (package_root out report) name = Some ''done''" "name \<noteq> []" "path_name name = name" for name
    using read_plain [OF that bound] finished by (simp add: document_errors_def dv)
  have rep: "document_errors (package out report) ''redaction-report.json'' = Inr []"
  proof -
    have "map_of (package_root out report) ''redaction-report.json'' = Some report" by (simp add: package_root_def)
    moreover have "\<not> ends_with ''.md'' ''redaction-report.json''" by code_simp
    ultimately show ?thesis using read_plain [OF _ _ plain_names(3) assms(2)] by (simp add: document_errors_def dv)
  qed
  show ?thesis
    by (simp add: required_docs_def rep md plain_names package_root_def)
qed

text \<open>Both zones of the package pass the artifact check.\<close>

lemma artifact_links: "no_links (\<lambda>_. Inr False) path current parts = Inr ()"
  by (induction parts arbitrary: current) auto

lemma package_paths:
  "manifest_artifact_path (\<lambda>_. Inr False) (JStr ''private/raw/terminal--a.txt'') raw_zone = Inr ''private/raw/terminal--a.txt''"
  "manifest_artifact_path (\<lambda>_. Inr False) (JStr ''shareable/artifacts/terminal--a.txt'') shareable_zone = Inr ''shareable/artifacts/terminal--a.txt''"
  by code_simp+

lemma plain_listing:
  "listing_errors raw_zone (plain_zone [(artifact_name, b)]) [''private/raw/terminal--a.txt''] [artifact_name] = []"
  "listing_errors shareable_zone (plain_zone [(artifact_name, b)]) [''shareable/artifacts/terminal--a.txt''] [artifact_name] = []"
  by (simp_all add: listing_errors_def actual_zone_files_at_def zone_entry_def plain_zone_def plain_stat_def plain_names)
    (simp_all add: raw_zone_def shareable_zone_def artifact_name_def)

lemma raw_media: "artifact_media_type ''.txt'' raw_bytes = ''text/plain; charset=utf-8''"
  by code_simp

lemma package_raw_row:
  "manifest_row False True (\<lambda>_. Inr False) raw_zone (Some (plain_files [(artifact_name, raw_bytes)])) manifest 0
     (JObj (sample_raw_row (sha256_hex raw_bytes) (int (length raw_bytes)))) [] = Inr ([], [''private/raw/terminal--a.txt''])"
proof -
  have suffix: "suffix_of (py_str (JStr ''private/raw/terminal--a.txt'')) = ''.txt''" by code_simp
  have read: "read_regular_bytes_at (plain_files [(artifact_name, raw_bytes)] artifact_name) artifact_name label max_dep_artifact_bytes
      = Inr (raw_bytes, plain_stat (length raw_bytes))" for label
    by (rule read_plain) (simp_all add: plain_names raw_bytes_def max_dep_artifact_bytes_def max_redaction_file_bytes_def)
  have flds: "row_field_errors True label (sample_raw_row (sha256_hex raw_bytes) (int (length raw_bytes))) = Inr []" for label
    using suffix
    by (simp add: row_field_errors_def raw_field_errors_def sample_raw_row_def collectors_def media_types_def nonblank_def strip_def is_space_def)
  have art: "row_artifact False True (Some (plain_files [(artifact_name, raw_bytes)])) manifest
      (sample_raw_row (sha256_hex raw_bytes) (int (length raw_bytes))) ''private/raw/terminal--a.txt'' = Inr []"
    by (simp add: row_artifact_def plain_names read artifact_errors_def)
      (simp add: sample_raw_row_def raw_media plain_stat_def)
  show ?thesis
    by (simp add: manifest_row_def Let_def flds art)
      (simp add: sample_raw_row_def package_paths keys_eq_def raw_row_fields_def insert_commute flds [unfolded sample_raw_row_def]
        art [unfolded sample_raw_row_def])
qed

lemma package_shareable_row:
  assumes "length out \<le> 20"
  shows "manifest_row False False (\<lambda>_. Inr False) shareable_zone (Some (plain_files [(artifact_name, out)])) manifest 0
     (JObj (sample_shareable_row (sha256_hex out) (int (length out)))) [] = Inr ([], [''shareable/artifacts/terminal--a.txt''])"
proof -
  have read: "read_regular_bytes_at (plain_files [(artifact_name, out)] artifact_name) artifact_name label max_dep_artifact_bytes
      = Inr (out, plain_stat (length out))" for label
    by (rule read_plain) (use assms in \<open>simp_all add: plain_names max_dep_artifact_bytes_def max_redaction_file_bytes_def\<close>)
  have flds: "row_field_errors False label (sample_shareable_row (sha256_hex out) (int (length out))) = Inr []" for label
    by (simp add: row_field_errors_def sample_shareable_row_def)
  have art: "row_artifact False False (Some (plain_files [(artifact_name, out)])) manifest
      (sample_shareable_row (sha256_hex out) (int (length out))) ''shareable/artifacts/terminal--a.txt'' = Inr []"
    by (simp add: row_artifact_def plain_names read artifact_errors_def)
      (simp add: sample_shareable_row_def plain_stat_def)
  show ?thesis
    by (simp add: manifest_row_def Let_def flds art)
      (simp add: sample_shareable_row_def package_paths keys_eq_def shareable_row_fields_def insert_commute
        flds [unfolded sample_shareable_row_def] art [unfolded sample_shareable_row_def])
qed

lemma package_artifacts:
  assumes "length out \<le> 20"
  shows "verify_manifest_artifacts False (dv_links (package out report)) (dv_raw (package out report))
     (dv_shareable (package out report)) (package_manifest out) = Inr []"
proof -
  have raw: "manifest_zone False True (\<lambda>_. Inr False) raw_zone (plain_zone [(artifact_name, raw_bytes)]) (package_manifest out) = Inr []"
  proof -
    have row: "get (package_manifest out) ''raw'' = JArr [JObj (sample_raw_row (sha256_hex raw_bytes) (int (length raw_bytes)))]"
      by (simp add: package_manifest_def sample_manifest_def)
    have "zv_components (plain_zone [(artifact_name, raw_bytes)]) = (\<lambda>_. plain_component)"
      "zv_files (plain_zone [(artifact_name, raw_bytes)]) = plain_files [(artifact_name, raw_bytes)]"
      "zv_listing (plain_zone [(artifact_name, raw_bytes)]) = Inr [artifact_name]" by (simp_all add: plain_zone_def)
    then show ?thesis using row by (simp add: manifest_zone_def package_raw_row plain_listing)
  qed
  have shareable: "manifest_zone False False (\<lambda>_. Inr False) shareable_zone (plain_zone [(artifact_name, out)]) (package_manifest out) = Inr []"
  proof -
    have row: "get (package_manifest out) ''shareable'' = JArr [JObj (sample_shareable_row (sha256_hex out) (int (length out)))]"
      by (simp add: package_manifest_def sample_manifest_def)
    have "zv_components (plain_zone [(artifact_name, out)]) = (\<lambda>_. plain_component)"
      "zv_files (plain_zone [(artifact_name, out)]) = plain_files [(artifact_name, out)]"
      "zv_listing (plain_zone [(artifact_name, out)]) = Inr [artifact_name]" by (simp_all add: plain_zone_def)
    then show ?thesis using row by (simp add: manifest_zone_def package_shareable_row [OF assms] plain_listing)
  qed
  show ?thesis using raw shareable by (simp add: verify_manifest_artifacts_def package_def plain_dep_def)
qed

lemma package_report_read:
  assumes "length report \<le> max_dep_control_file_bytes" and "loads_bytes report = Inr value"
  shows "report_stage (package out report) = Inr ([], value)"
proof -
  have dv: "dv_report (package out report) = plain_files (package_root out report) ''redaction-report.json''"
    by (simp add: package_def plain_dep_def)
  have "map_of (package_root out report) ''redaction-report.json'' = Some report" by (simp add: package_root_def)
  from read_plain [OF this _ plain_names(3) assms(1)] assms(2) show ?thesis
    by (simp add: report_stage_def load_at_def dv)
qed

text \<open>The checks of the two control documents, once the evidence stage is silent.\<close>

lemma package_contents:
  assumes "length out \<le> 20" and "length report \<le> max_dep_control_file_bytes"
    and "evidence_stage (package out report) False (JObj (package_manifest out)) = Inr []"
  shows "content_checks no_schema_errors (package out report) True False (JObj sample_summary) (JObj (package_manifest out)) = Inr []"
proof -
  have wf: "workflow_member (JObj sample_summary) ''phase'' = Inr (JStr ''proof'')"
    "workflow_member (JObj sample_summary) ''history'' = Inr (JArr (map (\<lambda>p. JObj [(''phase'', JStr p)]) phases))"
    by (simp_all add: workflow_member_def method_get_def sample_summary_def)
  have hist: "history_errors ''proof'' (JArr (map (\<lambda>p. JObj [(''phase'', JStr p)]) phases)) = []" by code_simp
  have miss: "missing_fields (JObj sample_summary) = Inr []" by code_simp
  have root: "root_contract_errors (JObj (package_manifest out)) = Inr []"
    by (simp add: root_contract_errors_def set_of_def hashable_def method_get_def package_manifest_def sample_manifest_def
        manifest_fields_def legacy_manifest_schema_version_def manifest_schema_version_def insert_commute)
  have dep: "dep_id_errors (JObj sample_summary) (JObj (package_manifest out)) = Inr []"
    by (simp add: dep_id_errors_def method_get_def package_manifest_def sample_manifest_def sample_summary_def)
  have att: "attachments_errors (JObj sample_summary) (JObj (package_manifest out)) = Inr []"
    by (simp add: attachments_errors_def method_get_def package_manifest_def sample_manifest_def sample_summary_def
        rows_by_path_def hashable_def sample_shareable_row_def Let_def)
  have "phase_errors (package out report) True False (JObj sample_summary) (JObj (package_manifest out)) ''proof'' = Inr []"
    using package_documents [OF assms(1,2)] assms(3)
    by (simp add: phase_errors_def wf hist att)
  moreover have "str_in (JStr ''proof'') phases" by (simp add: phases_def)
  ultimately show ?thesis
    by (simp add: content_checks_def schema_errors_def no_schema_errors_def miss root dep wf)
qed

lemma package_verified:
  assumes "length out \<le> 20" and "length report \<le> max_dep_control_file_bytes"
    and "evidence_stage (package out report) False (JObj (package_manifest out)) = Inr []"
  shows "verify no_schema_errors ''/evidence/DEP-1'' plain_path (package out report) True False = Inr []"
proof -
  have loads: "loads_bytes (canonical_bytes (JObj sample_summary)) = Inr (JObj sample_summary)"
    "loads_bytes (canonical_bytes (JObj (package_manifest out))) = Inr (JObj (package_manifest out))"
    using sample_canon sample_wf by (simp_all add: loads_bytes_canonical package_manifest_def)
  have "dv_listing (package out report) = Inr (map fst (package_root out report))" by (simp add: package_def plain_dep_def)
  then obtain vr where vr: "verify_open no_schema_errors (package out report) True False (\<lambda>_. None) = Inr vr" "vr_errors vr = []"
    by (simp add: verify_open_def package_controls [OF assms(1)] package_listing loads package_contents [OF assms])
  have "''..'' \<notin> set (path_parts ''/evidence/DEP-1'')" by code_simp
  from plain_root [OF this, of id "Inr vr" "()"] vr show ?thesis by (simp add: verify_def)
qed

text \<open>The complete package.\<close>

definition good_report :: string where
  "good_report = canonical_bytes (JObj (sample_report (sha256_hex raw_bytes) (sha256_hex raw_bytes)
     (int (length raw_bytes)) (int (length raw_bytes))))"

lemma good_report_facts:
  "length good_report \<le> max_dep_control_file_bytes"
  "loads_bytes good_report = Inr (JObj (sample_report (sha256_hex raw_bytes) (sha256_hex raw_bytes)
     (int (length raw_bytes)) (int (length raw_bytes))))"
proof -
  let ?r = "sample_report (sha256_hex raw_bytes) (sha256_hex raw_bytes) (int (length raw_bytes)) (int (length raw_bytes))"
  have "length (show_int (int (length raw_bytes))) \<le> 2" by (intro length_show_small) (simp add: raw_bytes_def)
  then have "2 * text_weight (JObj ?r) \<le> max_dep_control_file_bytes"
    by (simp add: sample_report_def sample_file_row_def artifact_name_def max_dep_control_file_bytes_def)
  then show "length good_report \<le> max_dep_control_file_bytes" unfolding good_report_def by (rule length_canonical)
  show "loads_bytes good_report = Inr (JObj ?r)"
    unfolding good_report_def using sample_canon(3) sample_wf(3) by (simp only: loads_bytes_canonical)
qed

lemma redaction_of_raw: "redact_text raw_bytes = Inr (raw_bytes, [])" "utf8_decode raw_bytes = Some raw_bytes"
  by code_simp+


text \<open>The associations of the complete package.\<close>

lemma plain_artifact:
  assumes "get d ''path'' = JStr (zone @ ''/'' @ artifact_name)" and "get d ''size'' = JInt (int (length raw_bytes))"
    and "get d ''sha256'' = JStr (sha256_hex raw_bytes)"
  shows "artifact_in zone (plain_zone [(artifact_name, raw_bytes)]) d artifact_name raw_bytes"
proof -
  have "read_regular_bytes_at (plain_files [(artifact_name, raw_bytes)] artifact_name) artifact_name [] max_dep_artifact_bytes
      = Inr (raw_bytes, plain_stat (length raw_bytes))"
    by (rule read_plain) (simp_all add: plain_names raw_bytes_def max_dep_artifact_bytes_def max_redaction_file_bytes_def)
  then show ?thesis using assms unfolding artifact_in_def by (force simp: plain_zone_def plain_stat_def)
qed

lemma plain_texts:
  "read_zone_text shareable_zone (plain_zone_read [(artifact_name, raw_bytes)] artifact_name) artifact_name label = Inr raw_bytes"
  "read_zone_text raw_zone (plain_zone_read [(artifact_name, raw_bytes)] artifact_name) artifact_name label = Inr raw_bytes"
proof -
  have "artifact_in shareable_zone (plain_zone [(artifact_name, raw_bytes)])
      (sample_shareable_row (sha256_hex raw_bytes) (int (length raw_bytes))) artifact_name raw_bytes"
    by (rule plain_artifact) (simp_all add: sample_shareable_row_def shareable_zone_def artifact_name_def)
  from read_zone_text_artifact [OF this, of "plain_zone_read [(artifact_name, raw_bytes)] artifact_name"] redaction_of_raw(2)
  show "read_zone_text shareable_zone (plain_zone_read [(artifact_name, raw_bytes)] artifact_name) artifact_name label = Inr raw_bytes"
    by (simp add: plain_zone_def plain_zone_read_def decode_utf8_def)
  have "artifact_in raw_zone (plain_zone [(artifact_name, raw_bytes)])
      (sample_raw_row (sha256_hex raw_bytes) (int (length raw_bytes))) artifact_name raw_bytes"
    by (rule plain_artifact) (simp_all add: sample_raw_row_def raw_zone_def artifact_name_def)
  from read_zone_text_artifact [OF this, of "plain_zone_read [(artifact_name, raw_bytes)] artifact_name"] redaction_of_raw(2)
  show "read_zone_text raw_zone (plain_zone_read [(artifact_name, raw_bytes)] artifact_name) artifact_name label = Inr raw_bytes"
    by (simp add: plain_zone_def plain_zone_read_def decode_utf8_def)
qed

lemma package_views:
  "av_links (dv_associations (package raw_bytes report)) = (\<lambda>_. Inr False)"
  "av_output (dv_associations (package raw_bytes report)) = plain_zone_read [(artifact_name, raw_bytes)]"
  "av_source (dv_associations (package raw_bytes report)) = plain_zone_read [(artifact_name, raw_bytes)]"
  by (simp_all add: package_def plain_dep_def)

lemma text_artifact: "lower (path_suffix artifact_name) \<in> set text_suffixes"
  by code_simp

lemma package_content:
  "content_errors (dv_associations (package raw_bytes report)) label (sample_raw_row h n) (sample_shareable_row k m) (JObj []) = Inr []"
proof -
  have eq: "py_eq (JObj []) (counts_json [])" by code_simp
  have "get (sample_raw_row h n) ''path'' = JStr ''private/raw/terminal--a.txt''"
    "get (sample_shareable_row k m) ''path'' = JStr ''shareable/artifacts/terminal--a.txt''"
    by (simp_all add: sample_raw_row_def sample_shareable_row_def)
  then show ?thesis
    by (simp add: content_errors_def package_views package_paths plain_names text_artifact output_errors_def plain_texts
        source_errors_def redaction_of_raw eq)
qed

lemma sample_names:
  "map_of (rows_by_name [JObj (sample_raw_row h n)]) artifact_name = Some (sample_raw_row h n)"
  "map_of (rows_by_name [JObj (sample_shareable_row k m)]) artifact_name = Some (sample_shareable_row k m)"
  "fst ` set (rows_by_name [JObj (sample_raw_row h n)]) = {artifact_name}"
  "fst ` set (rows_by_name [JObj (sample_shareable_row k m)]) = {artifact_name}"
  by (simp_all add: rows_by_name_def row_pairs_def sample_raw_row_def sample_shareable_row_def plain_names)

lemma package_file_row:
  "file_row (dv_associations (package raw_bytes report)) (rows_by_name [JObj (sample_raw_row h n)])
     (rows_by_name [JObj (sample_shareable_row k m)]) 0 (JObj (sample_file_row h k n m)) no_associations
     = Inr ([], \<lparr>as_sources = [artifact_name], as_outputs = [artifact_name], as_totals = []\<rparr>)"
proof -
  have har: "\<not> is_har_row (sample_raw_row h n)" by (simp add: is_har_row_def sample_raw_row_def)
  have digests: "digest_errors label (sample_file_row h k n m) (sample_raw_row h n) (sample_shareable_row k m) = []" for label
    by (simp add: digest_errors_def sample_file_row_def sample_raw_row_def sample_shareable_row_def)
  have ok: "valid_redactions (JObj [])" "add_redactions [] [] = []" by code_simp+
  have row: "keys_eq (sample_file_row h k n m) report_file_fields" "get (sample_file_row h k n m) ''source'' = JStr artifact_name"
    "get (sample_file_row h k n m) ''output'' = JStr artifact_name" "get (sample_file_row h k n m) ''redactions'' = JObj []"
    by (simp_all add: sample_file_row_def keys_eq_def report_file_fields_def insert_commute)
  show ?thesis
    using text_artifact package_content
    by (simp add: file_row_def Let_def row plain_name_def plain_names sample_names har digests ok no_associations_def type_errors_def)
qed

lemma package_associations:
  "verify_redaction_associations (dv_associations (package raw_bytes report)) (sample_manifest h k n m) (sample_report h k n m) = Inr []"
proof -
  have r: "get (sample_report h k n m) ''schema_version'' = JStr ''1.0''" "get (sample_report h k n m) ''dep_id'' = JStr ''DEP-1''"
    "get (sample_report h k n m) ''files'' = JArr [JObj (sample_file_row h k n m)]" "get (sample_report h k n m) ''blocked'' = JArr []"
    "get (sample_report h k n m) ''totals'' = JObj []" "keys_eq (sample_report h k n m) report_fields"
    by (simp_all add: sample_report_def keys_eq_def report_fields_def insert_commute)
  have m: "get_default (sample_manifest h k n m) ''raw'' (JArr []) = JArr [JObj (sample_raw_row h n)]"
    "get_default (sample_manifest h k n m) ''shareable'' (JArr []) = JArr [JObj (sample_shareable_row k m)]"
    "get (sample_manifest h k n m) ''dep_id'' = JStr ''DEP-1''"
    by (simp_all add: sample_manifest_def)
  have "association_errors (dv_associations (package raw_bytes report)) [JObj (sample_raw_row h n)] [JObj (sample_shareable_row k m)]
      [JObj (sample_file_row h k n m)] [] (sample_report h k n m) = Inr []"
    by (simp add: association_errors_def Let_def package_file_row sample_names r py_eq.simps)
  then show ?thesis by (simp add: verify_redaction_associations_def r m)
qed

lemma package_evidence: "evidence_stage (package raw_bytes good_report) False (JObj (package_manifest raw_bytes)) = Inr []"
proof -
  let ?r = "sample_report (sha256_hex raw_bytes) (sha256_hex raw_bytes) (int (length raw_bytes)) (int (length raw_bytes))"
  have m: "get_default (package_manifest raw_bytes) ''raw'' JNull = JArr [JObj (sample_raw_row (sha256_hex raw_bytes) (int (length raw_bytes)))]"
    "get_default (package_manifest raw_bytes) ''shareable'' JNull = JArr [JObj (sample_shareable_row (sha256_hex raw_bytes) (int (length raw_bytes)))]"
    by (simp_all add: package_manifest_def sample_manifest_def)
  have "get_default ?r ''blocked'' JNull = JArr []" by (simp add: sample_report_def)
  moreover have "verify_redaction_associations (dv_associations (package raw_bytes good_report)) (package_manifest raw_bytes) ?r = Inr []"
    unfolding package_manifest_def by (rule package_associations)
  ultimately have "report_errors (package raw_bytes good_report) (JObj (package_manifest raw_bytes)) (JObj ?r) = Inr []"
    by (simp add: report_errors_def method_get_def m)
  moreover have "length raw_bytes \<le> 20" by (simp add: raw_bytes_def)
  ultimately show ?thesis
    using package_artifacts package_report_read [OF good_report_facts]
    by (simp add: evidence_stage_def method_get_def m)
qed


text \<open>
  C27. A redaction report that is the JSON literal \<open>null\<close> switches the redaction checks off: the
  package whose shareable artifact is the absolute path of a home directory, unredacted, passes
  strict verification without an error.
\<close>

theorem null_report_hides_leak:
  "verify no_schema_errors ''/evidence/DEP-1'' plain_path (package leaked_bytes ''null'') True False = Inr []
     \<and> user_path_at leaked_bytes 0"
proof
  have null: "loads_bytes ''null'' = Inr JNull" by code_simp
  have short: "length leaked_bytes \<le> 20" "length ''null'' \<le> max_dep_control_file_bytes"
    by (simp_all add: leaked_bytes_def max_dep_control_file_bytes_def)
  have raw: "get_default (package_manifest leaked_bytes) ''raw'' JNull
      = JArr [JObj (sample_raw_row (sha256_hex raw_bytes) (int (length raw_bytes)))]"
    by (simp add: package_manifest_def sample_manifest_def)
  have "evidence_stage (package leaked_bytes ''null'') False (JObj (package_manifest leaked_bytes)) = Inr []"
    using package_report_read [OF short(2) null] package_artifacts [OF short(1)]
    by (simp add: evidence_stage_def report_errors_def method_get_def raw)
  then show "verify no_schema_errors ''/evidence/DEP-1'' plain_path (package leaked_bytes ''null'') True False = Inr []"
    by (rule package_verified [OF short])
  show "user_path_at leaked_bytes 0" by code_simp
qed

end
