(* ===== verification/Effects.thy ===== *)
theory Effects
  imports Prelude
begin

text \<open>
  Actions: code that reads and changes a state and may raise. The combinators are the control
  structures of the sources: sequencing, \<open>raise\<close>, \<open>try ... except\<close>, \<open>try ... finally\<close> and a
  guard; a state that was changed before an exception stays changed.
\<close>

type_synonym ('s, 'a) act = "'s \<Rightarrow> 's \<times> 'a result"

definition done_with :: "'a \<Rightarrow> ('s, 'a) act" where
  "done_with a s = (s, Inr a)"

definition raising :: "exn \<Rightarrow> ('s, 'a) act" where
  "raising e s = (s, Inl e)"

definition lifted :: "'a result \<Rightarrow> ('s, 'a) act" where
  "lifted r s = (s, r)"

definition andthen :: "('s, 'a) act \<Rightarrow> ('a \<Rightarrow> ('s, 'b) act) \<Rightarrow> ('s, 'b) act" where
  "andthen m k s = (case m s of (s1, Inl e) \<Rightarrow> (s1, Inl e) | (s1, Inr a) \<Rightarrow> k a s1)"

definition guarded :: "bool \<Rightarrow> exn \<Rightarrow> ('s, 'a) act \<Rightarrow> ('s, 'a) act" where
  "guarded ok e m = (if ok then m else raising e)"

text \<open>\<open>try: m except: h\<close>, where the handler may raise again.\<close>

definition catching :: "('s, 'a) act \<Rightarrow> (exn \<Rightarrow> ('s, 'a) act) \<Rightarrow> ('s, 'a) act" where
  "catching m h s = (case m s of (s1, Inl e) \<Rightarrow> h e s1 | (s1, Inr a) \<Rightarrow> (s1, Inr a))"

text \<open>\<open>try: m finally: f\<close>: an exception of \<open>f\<close> replaces the outcome of \<open>m\<close>.\<close>

definition ensuring :: "('s, 'a) act \<Rightarrow> ('s, unit) act \<Rightarrow> ('s, 'a) act" where
  "ensuring m f s = (case m s of (s1, r) \<Rightarrow>
     (case f s1 of (s2, Inl e) \<Rightarrow> (s2, Inl e) | (s2, Inr _) \<Rightarrow> (s2, r)))"

text \<open>The outcome of \<open>m\<close> as a value, for handlers that look at the exception.\<close>

definition attempt :: "('s, 'a) act \<Rightarrow> ('s, 'a result) act" where
  "attempt m s = (case m s of (s1, r) \<Rightarrow> (s1, Inr r))"

lemma act_simps [simp]:
  "done_with a s = (s, Inr a)" "raising e s = (s, Inl e)" "lifted r s = (s, r)"
  by (simp_all add: done_with_def raising_def lifted_def)


section \<open>Weakest preconditions\<close>

text \<open>
  \<open>wp m Q X s\<close>: run from \<open>s\<close>, \<open>m\<close> ends in a state with \<open>Q\<close> when it returns and with \<open>X\<close> when
  it raises. The rules follow the control structures, so a proof about a routine walks through
  its text.
\<close>

definition wp :: "('s, 'a) act \<Rightarrow> ('a \<Rightarrow> 's \<Rightarrow> bool) \<Rightarrow> (exn \<Rightarrow> 's \<Rightarrow> bool) \<Rightarrow> 's \<Rightarrow> bool" where
  "wp m Q X s \<longleftrightarrow> (case m s of (s1, Inl e) \<Rightarrow> X e s1 | (s1, Inr a) \<Rightarrow> Q a s1)"

named_theorems wp_simps \<open>weakest preconditions of the control structures\<close>

lemma wp_simple [wp_simps]:
  "wp (done_with a) Q X = Q a" "wp (raising e) Q X = X e"
  "wp (guarded ok e m) Q X = (if ok then wp m Q X else X e)"
  "wp (catching m h) Q X = wp m Q (\<lambda>e. wp (h e) Q X)"
  "wp (ensuring m f) Q X = wp m (\<lambda>a. wp f (\<lambda>_. Q a) X) (\<lambda>e. wp f (\<lambda>_. X e) X)"
  by (auto simp: fun_eq_iff wp_def guarded_def catching_def ensuring_def split: prod.splits sum.splits)

lemma wp_andthen [wp_simps]: "wp (andthen m k) Q X = wp m (\<lambda>a. wp (k a) Q X) X"
  by (auto simp: fun_eq_iff wp_def andthen_def split: prod.splits sum.splits)

lemma wp_attempt [wp_simps]: "wp (attempt m) Q X = wp m (\<lambda>a. Q (Inr a)) (\<lambda>e. Q (Inl e))"
  by (auto simp: fun_eq_iff wp_def attempt_def split: prod.splits sum.splits)

lemma wp_lifted [wp_simps]: "wp (lifted r) Q X = (case r of Inl e \<Rightarrow> X e | Inr a \<Rightarrow> Q a)"
  by (simp add: fun_eq_iff wp_def split: sum.splits)

lemma wp_mono: "wp m Q X s \<Longrightarrow> (\<And>a s. Q a s \<Longrightarrow> Q' a s) \<Longrightarrow> (\<And>e s. X e s \<Longrightarrow> X' e s) \<Longrightarrow> wp m Q' X' s"
  by (auto simp: wp_def split: prod.splits sum.splits)

lemma wp_run: "wp m Q X s \<Longrightarrow> m s = (s1, r) \<Longrightarrow> (case r of Inl e \<Rightarrow> X e s1 | Inr a \<Rightarrow> Q a s1)"
  by (simp add: wp_def split: sum.splits)

end
