(* ===== verification/Dir_World.thy ===== *)
theory Dir_World
  imports Effects Trust
begin

text \<open>
  One directory of a file system that the program shares with other processes. Names lead to
  files, a file is known by its device and inode number. Every system call takes a turn: first
  the other processes may do anything to the directory, then the call happens, or fails with an
  \<open>OSError\<close>, in which case it may or may not have taken effect. Reads and writes may be short.

  File identities are never reused while the program runs; the sources see to it by keeping a
  duplicate descriptor of a staged file until a private link pins it.
\<close>


section \<open>The directory\<close>

type_synonym ident = "int \<times> int"

record inode =
  i_kind :: file_kind
  i_perm :: nat
  i_uid :: int
  i_gid :: int
  i_nlink :: int
  i_mtime :: int
  i_ctime :: int
  i_bytes :: string

record disk =
  d_names :: "string \<Rightarrow> ident option"
  d_inodes :: "ident \<Rightarrow> inode option"

text \<open>
  What happens at one system call: the steps of the other processes, a fault with its message,
  whether a faulty call took effect, and the number of bytes that a read or write transfers.
\<close>

record turn =
  t_foreign :: "disk \<Rightarrow> disk"
  t_fault :: "string option"
  t_effect :: bool
  t_limit :: nat

text \<open>
  The trace records what the program itself did: files it created, files it wrote, names it
  removed with the file they led to, and files it read with their bytes.
\<close>

datatype event = Created ident | Wrote ident | Removed ident | Observed ident string

record world =
  w_disk :: disk
  w_turns :: "nat \<Rightarrow> turn"
  w_tokens :: "nat \<Rightarrow> string"
  w_fresh :: "nat \<Rightarrow> ident"
  w_umask :: "nat \<Rightarrow> nat"
  w_owner :: "int \<times> int"
  w_rename_supported :: bool
  w_clock :: nat
  w_drawn :: nat
  w_made :: nat
  w_cell :: "string \<Rightarrow> bool"
  w_trace :: "event list"

type_synonym 'a effect = "int \<Rightarrow> nat \<Rightarrow> disk \<Rightarrow> disk \<times> event list \<times> 'a result"

definition syscall :: "'a effect \<Rightarrow> (world, 'a) act" where
  "syscall f w =
     (let t = w_turns w (w_clock w); d = t_foreign t (w_disk w); (d', es, r) = f (int (w_clock w)) (t_limit t) d;
          w1 = w\<lparr>w_clock := w_clock w + 1\<rparr> in
      case t_fault t of
        None \<Rightarrow> (w1\<lparr>w_disk := d', w_trace := w_trace w @ es\<rparr>, r)
      | Some m \<Rightarrow>
          (if t_effect t then (w1\<lparr>w_disk := d', w_trace := w_trace w @ es\<rparr>, Inl (OSError m))
           else (w1\<lparr>w_disk := d\<rparr>, Inl (OSError m))))"

definition stat_of :: "ident \<Rightarrow> inode \<Rightarrow> os_stat" where
  "stat_of i n = \<lparr>st_kind = i_kind n, st_perm = i_perm n, st_uid = i_uid n, st_gid = i_gid n, st_dev = fst i, st_ino = snd i,
     st_nlink = i_nlink n, st_size = int (length (i_bytes n)), st_mtime_ns = i_mtime n, st_ctime_ns = i_ctime n\<rparr>"

definition missing :: "string \<Rightarrow> exn" where "missing name = FileNotFoundError (''No such file or directory: '' @ name)"

definition existing :: "string \<Rightarrow> exn" where "existing name = FileExistsError (''File exists: '' @ name)"

definition bad_descriptor :: exn where "bad_descriptor = OSError ''Bad file descriptor''"

text \<open>The file a name leads to.\<close>

definition child :: "disk \<Rightarrow> string \<Rightarrow> (ident \<times> inode) option" where
  "child d name = (case d_names d name of None \<Rightarrow> None | Some i \<Rightarrow> map_option (\<lambda>n. (i, n)) (d_inodes d i))"

definition set_name :: "string \<Rightarrow> ident option \<Rightarrow> disk \<Rightarrow> disk" where
  "set_name name i d = d\<lparr>d_names := (d_names d)(name := i)\<rparr>"

definition set_inode :: "ident \<Rightarrow> inode \<Rightarrow> disk \<Rightarrow> disk" where
  "set_inode i n d = d\<lparr>d_inodes := (d_inodes d)(i := Some n)\<rparr>"


section \<open>System calls\<close>

definition os_stat_at :: "string \<Rightarrow> (world, os_stat) act" where
  "os_stat_at name = syscall (\<lambda>now limit d. (d, [], case child d name of
     None \<Rightarrow> Inl (missing name) | Some (i, n) \<Rightarrow> Inr (stat_of i n)))"

definition os_fstat :: "ident \<Rightarrow> (world, os_stat) act" where
  "os_fstat i = syscall (\<lambda>now limit d. (d, [], case d_inodes d i of
     None \<Rightarrow> Inl bad_descriptor | Some n \<Rightarrow> Inr (stat_of i n)))"

text \<open>\<open>os.open\<close> for reading with \<open>O_NOFOLLOW\<close>; the descriptor is the file.\<close>

definition os_open_read :: "string \<Rightarrow> (world, ident) act" where
  "os_open_read name = syscall (\<lambda>now limit d. (d, [], case child d name of
     None \<Rightarrow> Inl (missing name)
   | Some (i, n) \<Rightarrow> (if i_kind n = Symlink then Inl (OSError ''Too many levels of symbolic links'') else Inr i)))"

text \<open>\<open>os.read\<close> at an offset: empty only at the end of the file.\<close>

definition os_read :: "ident \<Rightarrow> nat \<Rightarrow> (world, string) act" where
  "os_read i offset = syscall (\<lambda>now limit d. (d, [], case d_inodes d i of
     None \<Rightarrow> Inl bad_descriptor
   | Some n \<Rightarrow> Inr (take (min (Suc limit) (1024 * 1024)) (drop offset (i_bytes n)))))"

text \<open>\<open>os.open\<close> with \<open>O_CREAT | O_EXCL\<close>.\<close>

definition fresh_identity :: "(world, ident) act" where
  "fresh_identity w = (w\<lparr>w_made := w_made w + 1\<rparr>, Inr (w_fresh w (w_made w)))"

definition os_create :: "string \<Rightarrow> nat \<Rightarrow> (world, ident) act" where
  "os_create name mode w = andthen fresh_identity (\<lambda>i. syscall (\<lambda>now limit d.
     if d_names d name \<noteq> None then (d, [], Inl (existing name))
     else if d_inodes d i \<noteq> None then (d, [], Inl (OSError ''No space left on device''))
     else (set_name name (Some i) (set_inode i \<lparr>i_kind = Regular, i_perm = w_umask w mode, i_uid = fst (w_owner w),
             i_gid = snd (w_owner w), i_nlink = 1, i_mtime = now, i_ctime = now, i_bytes = []\<rparr> d), [Created i], Inr i))) w"

text \<open>\<open>os.write\<close> at an offset; the number of bytes that were written.\<close>

definition overwrite :: "nat \<Rightarrow> string \<Rightarrow> string \<Rightarrow> string" where
  "overwrite offset new old = take offset (old @ replicate offset (CHR 0x00)) @ new @ drop (offset + length new) old"

definition os_write :: "ident \<Rightarrow> nat \<Rightarrow> string \<Rightarrow> (world, nat) act" where
  "os_write i offset data = syscall (\<lambda>now limit d. case d_inodes d i of
     None \<Rightarrow> (d, [], Inl bad_descriptor)
   | Some n \<Rightarrow> (let chunk = take limit data in
       (set_inode i (n\<lparr>i_bytes := overwrite offset chunk (i_bytes n), i_mtime := now, i_ctime := now\<rparr>) d,
        [Wrote i], Inr (length chunk))))"

definition os_fchmod :: "ident \<Rightarrow> nat \<Rightarrow> (world, unit) act" where
  "os_fchmod i mode = syscall (\<lambda>now limit d. case d_inodes d i of
     None \<Rightarrow> (d, [], Inl bad_descriptor)
   | Some n \<Rightarrow> (set_inode i (n\<lparr>i_perm := mode, i_ctime := now\<rparr>) d, [Wrote i], Inr ()))"

text \<open>\<open>os.fsync\<close>, \<open>os.close\<close> and \<open>os.dup\<close> do not change the directory, but may fail.\<close>

definition os_sync :: "(world, unit) act" where
  "os_sync = syscall (\<lambda>now limit d. (d, [], Inr ()))"

definition os_close :: "(world, unit) act" where
  "os_close = syscall (\<lambda>now limit d. (d, [], Inr ()))"

definition os_dup :: "(world, unit) act" where
  "os_dup = syscall (\<lambda>now limit d. (d, [], Inr ()))"

text \<open>\<open>os.link\<close> never replaces a name.\<close>

definition os_link :: "string \<Rightarrow> string \<Rightarrow> (world, unit) act" where
  "os_link source destination = syscall (\<lambda>now limit d. case child d source of
     None \<Rightarrow> (d, [], Inl (missing source))
   | Some (i, n) \<Rightarrow>
       (if d_names d destination \<noteq> None then (d, [], Inl (existing destination))
        else (set_name destination (Some i) (set_inode i (n\<lparr>i_nlink := i_nlink n + 1, i_ctime := now\<rparr>) d), [], Inr ())))"

definition os_unlink :: "string \<Rightarrow> (world, unit) act" where
  "os_unlink name = syscall (\<lambda>now limit d. case child d name of
     None \<Rightarrow> (d, [], Inl (missing name))
   | Some (i, n) \<Rightarrow>
       (if i_kind n = Directory then (d, [], Inl (OSError ''Is a directory''))
        else (set_name name None (set_inode i (n\<lparr>i_nlink := i_nlink n - 1, i_ctime := now\<rparr>) d), [Removed i], Inr ())))"

text \<open>\<open>renameat2(RENAME_NOREPLACE)\<close> or \<open>renameatx_np(RENAME_EXCL)\<close> within the directory.\<close>

definition os_rename_exclusive :: "string \<Rightarrow> string \<Rightarrow> (world, unit) act" where
  "os_rename_exclusive source destination = syscall (\<lambda>now limit d. case child d source of
     None \<Rightarrow> (d, [], Inl (missing source))
   | Some (i, n) \<Rightarrow>
       (if d_names d destination \<noteq> None then (d, [], Inl (existing destination))
        else (set_name source None (set_name destination (Some i) (set_inode i (n\<lparr>i_ctime := now\<rparr>) d)), [], Inr ())))"

text \<open>\<open>secrets.token_hex\<close> and \<open>uuid4\<close>: the next token.\<close>

definition draw_token :: "(world, string) act" where
  "draw_token w = (w\<lparr>w_drawn := w_drawn w + 1\<rparr>, Inr (w_tokens w (w_drawn w)))"

text \<open>A note in the trace of what a read returned; the program does not see it.\<close>

definition note_read :: "ident \<Rightarrow> string \<Rightarrow> (world, unit) act" where
  "note_read i bytes w = (w\<lparr>w_trace := w_trace w @ [Observed i bytes]\<rparr>, Inr ())"


section \<open>The shared routines\<close>

definition exclusive_rename_at :: "string \<Rightarrow> string \<Rightarrow> (world, unit) act" where
  "exclusive_rename_at source destination w =
     (if source = [] \<or> destination = [] \<or> CHR ''/'' \<in> set source \<or> CHR ''/'' \<in> set destination
      then (w, Inl (ValueError ''exclusive rename requires single path components''))
      else if \<not> w_rename_supported w
      then (w, Inl (RuntimeError ''exclusive descriptor-relative rename requires Linux or macOS''))
      else os_rename_exclusive source destination w)"

end
