(* ===== verification/Owned_Files.thy ===== *)
theory Owned_Files
  imports Dir_World Sha256
begin

text \<open>
  \<open>remove_owned_at\<close> of \<open>src/src/sddgov/fs_security.py\<close>: the removal of one file that the caller
  owns, by claiming its name under an unguessable private name first.
\<close>


section \<open>Removing an owned file\<close>

definition not_reserved :: "string \<Rightarrow> exn" where
  "not_reserved label = ValueError (label @ '' cleanup could not reserve a private generation'')"

definition cleanup_pending :: "string \<Rightarrow> string" where
  "cleanup_pending token = ''.sddgov.cleanup-pending-'' @ token"

text \<open>The claim: the new private name, or \<open>None\<close> when there is no such file.\<close>

fun reserve_claim :: "nat \<Rightarrow> string \<Rightarrow> string \<Rightarrow> (world, string option) act" where
  "reserve_claim 0 name label = raising (not_reserved label)"
| "reserve_claim (Suc n) name label =
     andthen draw_token (\<lambda>token.
     andthen (attempt (exclusive_rename_at name (cleanup_pending token))) (\<lambda>r.
     case r of
       Inr _ \<Rightarrow> done_with (Some (cleanup_pending token))
     | Inl (FileNotFoundError _) \<Rightarrow> done_with None
     | Inl (FileExistsError _) \<Rightarrow> reserve_claim n name label
     | Inl (OSError _) \<Rightarrow> raising (not_reserved label)
     | Inl (RuntimeError _) \<Rightarrow> raising (not_reserved label)
     | Inl e \<Rightarrow> raising e))"

text \<open>\<open>restore_claim\<close>: the file goes back to its name unless a later writer holds it.\<close>

definition restore_claim :: "string \<Rightarrow> string \<Rightarrow> string \<Rightarrow> exn option \<Rightarrow> (world, unit) act" where
  "restore_claim pending name label primary =
     andthen (attempt (exclusive_rename_at pending name)) (\<lambda>r.
     case r of
       Inr _ \<Rightarrow> done_with ()
     | Inl (FileNotFoundError _) \<Rightarrow> done_with ()
     | Inl (FileExistsError _) \<Rightarrow> raising (case primary of Some p \<Rightarrow> p
         | None \<Rightarrow> ValueError (label @ '' changed during cleanup; preserved pending generation '' @ pending))
     | Inl (OSError _) \<Rightarrow> raising (case primary of Some p \<Rightarrow> p
         | None \<Rightarrow> ValueError (label @ '' cleanup could not restore the original name; preserved pending generation '' @ pending))
     | Inl (RuntimeError _) \<Rightarrow> raising (case primary of Some p \<Rightarrow> p
         | None \<Rightarrow> ValueError (label @ '' cleanup could not restore the original name; preserved pending generation '' @ pending))
     | Inl e \<Rightarrow> raising e)"

text \<open>
  The read loop of the content check: it stops when the file is longer than expected, before
  the last chunk goes into the digest.
\<close>

function read_owned :: "ident \<Rightarrow> nat \<Rightarrow> string \<Rightarrow> (world, string \<times> nat) act" where
  "read_owned i expected_size digested w =
     (case os_read i (length digested) w of
        (w1, Inl e) \<Rightarrow> (w1, Inl e)
      | (w1, Inr chunk) \<Rightarrow>
          (if chunk = [] then (w1, Inr (digested, length digested))
           else if length digested + length chunk > expected_size
           then (w1, Inr (digested, length digested + length chunk))
           else read_owned i expected_size (digested @ chunk) w1))"
  by pat_completeness auto
termination
  by (relation "measure (\<lambda>(i, n, digested, w). n - length digested)") (auto simp: not_less intro!: diff_less_mono2 simp flip: length_greater_0_conv)

declare read_owned.simps [simp del]

text \<open>
  Every caller passes both an expected size and a digest or neither. \<open>inode_pair\<close> is
  \<open>(st_dev, st_ino)\<close>.
\<close>

definition inode_pair :: "os_stat \<Rightarrow> ident" where
  "inode_pair m = (st_dev m, st_ino m)"

definition compare_content :: "ident \<Rightarrow> ident \<Rightarrow> nat \<times> digest \<Rightarrow> (world, bool) act" where
  "compare_content i expected_identity expected =
     andthen (os_fstat i) (\<lambda>opened.
     andthen (read_owned i (fst expected) []) (\<lambda>content.
     andthen (os_fstat i) (\<lambda>final.
     andthen (note_read i (fst content)) (\<lambda>_.
     done_with (st_kind opened = Regular \<and> inode_pair opened = expected_identity \<and> same_snapshot opened final
       \<and> snd content = fst expected \<and> sha256_hex (fst content) = snd expected)))))"

definition content_matches :: "string \<Rightarrow> ident \<Rightarrow> nat \<times> digest \<Rightarrow> (world, bool) act" where
  "content_matches pending expected_identity expected =
     andthen (os_open_read pending) (\<lambda>i.
     andthen (catching (compare_content i expected_identity expected)
       (\<lambda>primary. andthen (attempt os_close) (\<lambda>_. raising primary))) (\<lambda>owned.
     andthen os_close (\<lambda>_. done_with owned)))"

definition unlink_claim :: "string \<Rightarrow> (world, unit) act" where
  "unlink_claim pending =
     andthen (attempt (os_unlink pending)) (\<lambda>r.
     case r of
       Inr _ \<Rightarrow> done_with ()
     | Inl (FileNotFoundError _) \<Rightarrow> done_with ()
     | Inl e \<Rightarrow> andthen (attempt (os_stat_at pending)) (\<lambda>s.
         case s of
           Inl (FileNotFoundError _) \<Rightarrow> done_with ()
         | Inl f \<Rightarrow> raising f
         | Inr _ \<Rightarrow> raising e))"

definition owns_claim ::
  "string \<Rightarrow> string \<Rightarrow> ident \<Rightarrow> string \<Rightarrow> (nat \<times> digest) option \<Rightarrow> os_stat \<Rightarrow> (world, bool) act" where
  "owns_claim pending name expected_identity label expected metadata =
     (if st_kind metadata = Regular \<and> inode_pair metadata = expected_identity
      then (case expected of
          None \<Rightarrow> done_with True
        | Some content \<Rightarrow> catching (content_matches pending expected_identity content)
            (\<lambda>primary. andthen (restore_claim pending name label (Some primary)) (\<lambda>_. raising primary)))
      else done_with False)"

definition settle_claim :: "string \<Rightarrow> string \<Rightarrow> string \<Rightarrow> bool \<Rightarrow> (world, bool) act" where
  "settle_claim pending name label owned =
     andthen (if owned then unlink_claim pending else restore_claim pending name label None) (\<lambda>_.
     andthen os_sync (\<lambda>_. done_with owned))"

definition remove_claimed ::
  "string \<Rightarrow> string \<Rightarrow> ident \<Rightarrow> string \<Rightarrow> (nat \<times> digest) option \<Rightarrow> (world, bool) act" where
  "remove_claimed pending name expected_identity label expected =
     andthen (attempt (os_stat_at pending)) (\<lambda>r.
     case r of
       Inl (FileNotFoundError _) \<Rightarrow> done_with False
     | Inl primary \<Rightarrow> andthen (restore_claim pending name label (Some primary)) (\<lambda>_. raising primary)
     | Inr metadata \<Rightarrow>
         andthen (owns_claim pending name expected_identity label expected metadata) (settle_claim pending name label))"

definition remove_owned_at :: "string \<Rightarrow> ident \<Rightarrow> string \<Rightarrow> (nat \<times> digest) option \<Rightarrow> (world, bool) act" where
  "remove_owned_at name expected_identity label expected =
     andthen (reserve_claim 16 name label) (\<lambda>claim.
     case claim of
       None \<Rightarrow> done_with False
     | Some pending \<Rightarrow> remove_claimed pending name expected_identity label expected)"


section \<open>Private names and the trace\<close>

text \<open>
  A private name ends in one of the tokens; the other processes cannot guess it. In a calm
  world they leave private names alone, whatever else they do.
\<close>

definition private_name :: "world \<Rightarrow> string \<Rightarrow> bool" where
  "private_name w name \<longleftrightarrow> (\<exists>k p. name = p @ w_tokens w k)"

lemma private_name_tokens: "w_tokens w' = w_tokens w \<Longrightarrow> private_name w' = private_name w"
  by (simp add: private_name_def fun_eq_iff)

definition calm :: "world \<Rightarrow> bool" where
  "calm w \<longleftrightarrow> (\<forall>k d name. private_name w name \<longrightarrow> d_names (t_foreign (w_turns w k) d) name = d_names d name)"

text \<open>
  A policy: a file may be removed when the caller owns it, when the program created it (if the
  policy says so), or when the program read it and its bytes have one of the digests; only
  created files are written.
\<close>

record policy =
  p_owned :: "ident set"
  p_created :: bool
  p_digests :: "digest set"

definition may_remove :: "policy \<Rightarrow> event list \<Rightarrow> ident \<Rightarrow> bool" where
  "may_remove P tr i \<longleftrightarrow> i \<in> p_owned P \<or> p_created P \<and> Created i \<in> set tr
     \<or> (\<exists>bytes. Observed i bytes \<in> set tr \<and> sha256_hex bytes \<in> p_digests P)"

definition careful :: "policy \<Rightarrow> event list \<Rightarrow> bool" where
  "careful P tr \<longleftrightarrow> (\<forall>i. (Removed i \<in> set tr \<longrightarrow> may_remove P tr i) \<and> (Wrote i \<in> set tr \<longrightarrow> Created i \<in> set tr))"

declare split_paired_All [simp del] split_paired_Ex [simp del]

lemma may_remove_mono: "may_remove P tr i \<Longrightarrow> may_remove P (tr @ es) i"
  by (auto simp: may_remove_def)

lemma careful_append:
  assumes "careful P tr"
    and "\<And>i. Removed i \<in> set es \<Longrightarrow> may_remove P (tr @ es) i" and "\<And>i. Wrote i \<in> set es \<Longrightarrow> Created i \<in> set (tr @ es)"
  shows "careful P (tr @ es)"
  using assms unfolding careful_def by (auto intro: may_remove_mono)

text \<open>
  The assertion of the proofs: the files \<open>M\<close> were created, the files \<open>C\<close> may be removed, and each
  private name of \<open>H\<close> leads where \<open>H\<close> says.
\<close>

definition tidy :: "policy \<Rightarrow> ident set \<Rightarrow> ident set \<Rightarrow> (string \<times> ident option) set \<Rightarrow> world \<Rightarrow> bool" where
  "tidy P M C H w \<longleftrightarrow> calm w \<and> careful P (w_trace w) \<and> (\<forall>i\<in>M. Created i \<in> set (w_trace w))
     \<and> (\<forall>i\<in>C. may_remove P (w_trace w) i)
     \<and> (\<forall>(name, x)\<in>H. private_name w name \<and> d_names (w_disk w) name = x)"

lemma tidy_mono: "tidy P M C H w \<Longrightarrow> M' \<subseteq> M \<Longrightarrow> C' \<subseteq> C \<Longrightarrow> H' \<subseteq> H \<Longrightarrow> tidy P M' C' H' w"
  by (auto simp: tidy_def)

text \<open>
  A system call keeps the assertion when its effect leaves the held names alone and its events
  are allowed.
\<close>

definition effect_ok ::
  "policy \<Rightarrow> ident set \<Rightarrow> ident set \<Rightarrow> (string \<times> ident option) set \<Rightarrow> disk \<Rightarrow> disk \<Rightarrow> event list \<Rightarrow> bool" where
  "effect_ok P M C H d d' es \<longleftrightarrow> (\<forall>(name, x)\<in>H. d_names d' name = d_names d name)
     \<and> (\<forall>i. Removed i \<in> set es \<longrightarrow> i \<in> p_owned P \<or> p_created P \<and> i \<in> M \<or> i \<in> C) \<and> (\<forall>i. Wrote i \<in> set es \<longrightarrow> i \<in> M \<or> Created i \<in> set es)"

lemma silent_ok [simp]: "effect_ok P M C H d d []"
  by (auto simp: effect_ok_def)

lemma tidy_effect:
  assumes t: "tidy P M C H0 w" and sub: "H \<subseteq> H0" and ok: "effect_ok P M C H (t_foreign (w_turns w (w_clock w)) (w_disk w)) d' es"
    and w': "w_turns w' = w_turns w" "w_tokens w' = w_tokens w" "w_disk w' = d'" "w_trace w' = w_trace w @ es"
  shows "tidy P M C H w'"
proof -
  have calm: "calm w" and names: "\<And>name x. (name, x) \<in> H \<Longrightarrow> private_name w name \<and> d_names (w_disk w) name = x"
    using t sub by (auto simp: tidy_def)
  have priv: "private_name w' name = private_name w name" for name using w' by (simp add: private_name_def)
  then have "calm w'" using calm w' by (simp add: calm_def)
  moreover have "d_names d' name = x" if "(name, x) \<in> H" for name x
    using names [OF that] calm ok that by (fastforce simp: calm_def effect_ok_def)
  moreover have "careful P (w_trace w')" unfolding w'(4)
  proof (rule careful_append)
    show "careful P (w_trace w)" using t by (simp add: tidy_def)
    fix i
    show "may_remove P (w_trace w @ es) i" if "Removed i \<in> set es"
    proof -
      from ok that have "i \<in> p_owned P \<or> p_created P \<and> i \<in> M \<or> i \<in> C" by (simp add: effect_ok_def)
      then have "may_remove P (w_trace w) i" using t by (auto simp: tidy_def) (auto simp: may_remove_def)
      then show ?thesis by (rule may_remove_mono)
    qed
    show "Created i \<in> set (w_trace w @ es)" if "Wrote i \<in> set es"
      using t ok that unfolding tidy_def effect_ok_def set_append Un_iff by blast
  qed
  ultimately show ?thesis using t priv w' names by (auto simp: tidy_def intro: may_remove_mono)
qed

lemma wp_syscall:
  assumes t: "tidy P M C H0 w" and sub: "H \<subseteq> H0"
    and ok: "\<And>d' es r now limit d. f now limit d = (d', es, r) \<Longrightarrow> \<forall>(name, x)\<in>H0. d_names d name = x \<Longrightarrow> effect_ok P M C H d d' es"
    and X: "\<And>m w'. tidy P M C H w' \<Longrightarrow> X (OSError m) w'"
    and Q: "\<And>d' es r now limit d w'. f now limit d = (d', es, r) \<Longrightarrow> \<forall>(name, x)\<in>H0. d_names d name = x
      \<Longrightarrow> tidy P M C H w' \<Longrightarrow> w_disk w' = d' \<Longrightarrow> set es \<subseteq> set (w_trace w') \<Longrightarrow> w_tokens w' = w_tokens w
      \<Longrightarrow> (case r of Inl e \<Rightarrow> X e w' | Inr a \<Rightarrow> Q a w')"
  shows "wp (syscall f) Q X w"
proof -
  let ?t = "w_turns w (w_clock w)" let ?d = "t_foreign ?t (w_disk w)"
  obtain d' es r where f: "f (int (w_clock w)) (t_limit ?t) ?d = (d', es, r)" by (metis prod_cases3)
  have held: "\<forall>(name, x)\<in>H0. d_names ?d name = x" using t by (fastforce simp: tidy_def calm_def)
  note eff = tidy_effect [OF t sub] and call = ok [OF f held] and ret = Q [OF f held]
  show ?thesis
  proof (cases "t_fault ?t")
    case None
    then show ?thesis using f eff [OF call] ret by (simp add: wp_def syscall_def Let_def split: sum.splits)
  next
    case (Some m)
    then show ?thesis using f eff [OF call] eff [OF silent_ok] X by (simp add: wp_def syscall_def Let_def)
  qed
qed



section \<open>The calls\<close>

lemma wp_silent:
  assumes "tidy P M C H w" and "\<And>now limit d. \<exists>r. f now limit d = (d, [], r)"
    and "\<And>e w'. tidy P M C H w' \<Longrightarrow> X e w'"
    and "\<And>now limit d r w'. f now limit d = (d, [], r) \<Longrightarrow> \<forall>(name, x)\<in>H. d_names d name = x \<Longrightarrow> tidy P M C H w'
      \<Longrightarrow> (case r of Inl e \<Rightarrow> True | Inr a \<Rightarrow> Q a w')"
  shows "wp (syscall f) Q X w"
proof (rule wp_syscall [OF assms(1) subset_refl])
  fix d' es r now limit d
  assume f: "f now limit d = (d', es, r)"
  then have d': "d' = d" "es = []" using assms(2) [of now limit d] by auto
  then show "effect_ok P M C H d d' es" by simp
  fix w' assume H: "\<forall>(name, x)\<in>H. d_names d name = x" and t: "tidy P M C H w'"
  from assms(4) [OF f [unfolded d'] H t] assms(3) [OF t] show "case r of Inl e \<Rightarrow> X e w' | Inr a \<Rightarrow> Q a w'"
    by (cases r) auto
qed (rule assms(3))

lemma inode_pair_stat [simp]: "inode_pair (stat_of i n) = i"
  by (simp add: inode_pair_def stat_of_def)

lemma stat_of_fields [simp]:
  "st_kind (stat_of i n) = i_kind n" "st_nlink (stat_of i n) = i_nlink n" "st_size (stat_of i n) = int (length (i_bytes n))"
  "st_perm (stat_of i n) = i_perm n" "st_uid (stat_of i n) = i_uid n" "st_gid (stat_of i n) = i_gid n"
  by (simp_all add: stat_of_def)

lemma wp_stat:
  assumes "tidy P M C H w"
    and "\<And>m w'. tidy P M C H w' \<Longrightarrow> (\<And>x. (name, x) \<in> H \<Longrightarrow> x = Some (inode_pair m)) \<Longrightarrow> Q m w'"
    and "\<And>e w'. tidy P M C H w' \<Longrightarrow> X e w'"
  shows "wp (os_stat_at name) Q X w"
  unfolding os_stat_at_def
  by (rule wp_silent [OF assms(1)]) (auto simp: child_def split: option.splits sum.splits intro!: assms(2,3))

lemma wp_fstat:
  assumes "tidy P M C H w"
    and "\<And>m w'. tidy P M C H w' \<Longrightarrow> inode_pair m = i \<Longrightarrow> Q m w'" and "\<And>e w'. tidy P M C H w' \<Longrightarrow> X e w'"
  shows "wp (os_fstat i) Q X w"
  unfolding os_fstat_def
  by (rule wp_silent [OF assms(1)]) (auto split: option.splits sum.splits intro!: assms(2,3))

lemma wp_open_read:
  assumes "tidy P M C H w"
    and "\<And>i w'. tidy P M C H w' \<Longrightarrow> (\<And>x. (name, x) \<in> H \<Longrightarrow> x = Some i) \<Longrightarrow> Q i w'"
    and "\<And>e w'. tidy P M C H w' \<Longrightarrow> X e w'"
  shows "wp (os_open_read name) Q X w"
  unfolding os_open_read_def
  by (rule wp_silent [OF assms(1)]) (auto simp: child_def split: option.splits sum.splits if_splits intro!: assms(2,3))

lemma wp_read:
  assumes "tidy P M C H w" and "\<And>c w'. tidy P M C H w' \<Longrightarrow> Q c w'" and "\<And>e w'. tidy P M C H w' \<Longrightarrow> X e w'"
  shows "wp (os_read i offset) Q X w"
  unfolding os_read_def
  by (rule wp_silent [OF assms(1)]) (auto split: option.splits sum.splits intro!: assms(2,3))

lemma wp_sync:
  assumes "tidy P M C H w" and "\<And>w'. tidy P M C H w' \<Longrightarrow> Q () w'" and "\<And>e w'. tidy P M C H w' \<Longrightarrow> X e w'"
  shows "wp os_sync Q X w" "wp os_close Q X w" "wp os_dup Q X w"
  unfolding os_sync_def os_close_def os_dup_def
  by (rule wp_silent [OF assms(1)]; auto split: sum.splits intro!: assms(2,3))+

lemma wp_write:
  assumes "tidy P M C H w" and "i \<in> M"
    and "\<And>k w'. tidy P M C H w' \<Longrightarrow> Q k w'" and "\<And>e w'. tidy P M C H w' \<Longrightarrow> X e w'"
  shows "wp (os_write i offset new) Q X w"
  unfolding os_write_def
  by (rule wp_syscall [OF assms(1) subset_refl])
    (use assms(2) in \<open>auto simp: effect_ok_def set_inode_def Let_def split: option.splits sum.splits intro!: assms(3,4)\<close>)

lemma wp_fchmod:
  assumes "tidy P M C H w" and "i \<in> M"
    and "\<And>w'. tidy P M C H w' \<Longrightarrow> Q () w'" and "\<And>e w'. tidy P M C H w' \<Longrightarrow> X e w'"
  shows "wp (os_fchmod i mode) Q X w"
  unfolding os_fchmod_def
  by (rule wp_syscall [OF assms(1) subset_refl])
    (use assms(2) in \<open>auto simp: effect_ok_def set_inode_def split: option.splits sum.splits intro!: assms(3,4)\<close>)

text \<open>A created file is known to be created.\<close>

lemma tidy_created: "tidy P M C H w \<Longrightarrow> Created i \<in> set (w_trace w) \<Longrightarrow> tidy P (insert i M) C H w"
  by (simp add: tidy_def)

lemma tidy_made [simp]: "tidy P M C H (w\<lparr>w_made := k\<rparr>) = tidy P M C H w"
  "tidy P M C H (w\<lparr>w_drawn := k\<rparr>) = tidy P M C H w" "tidy P M C H (w\<lparr>w_cell := c\<rparr>) = tidy P M C H w"
  by (simp_all add: tidy_def calm_def private_name_def)

lemma wp_create:
  assumes t: "tidy P M C H w" and name: "\<And>x. (name, x) \<notin> H"
    and Q: "\<And>i w'. tidy P (insert i M) C H w' \<Longrightarrow> Q i w'" and X: "\<And>e w'. tidy P M C H w' \<Longrightarrow> X e w'"
  shows "wp (os_create name mode) Q X w"
proof -
  let ?w = "w\<lparr>w_made := w_made w + 1\<rparr>"
  have "wp (syscall (\<lambda>now limit d.
     if d_names d name \<noteq> None then (d, [], Inl (existing name))
     else if d_inodes d i \<noteq> None then (d, [], Inl (OSError ''No space left on device''))
     else (set_name name (Some i) (set_inode i \<lparr>i_kind = Regular, i_perm = w_umask w mode, i_uid = fst (w_owner w),
             i_gid = snd (w_owner w), i_nlink = 1, i_mtime = now, i_ctime = now, i_bytes = []\<rparr> d), [Created i], Inr i))) Q X ?w" for i
    by (rule wp_syscall [of P M C H ?w H]) (use t name in
      \<open>auto simp: effect_ok_def set_name_def set_inode_def tidy_created split: if_splits sum.splits intro!: Q X\<close>)
  then show ?thesis by (simp add: os_create_def wp_def andthen_def fresh_identity_def)
qed

lemma wp_note:
  assumes "tidy P M C H w"
    and "\<And>w'. tidy P M (C \<union> (if sha256_hex bytes \<in> p_digests P then {i} else {})) H w' \<Longrightarrow> Q () w'"
  shows "wp (note_read i bytes) Q X w"
proof -
  let ?w = "w\<lparr>w_trace := w_trace w @ [Observed i bytes]\<rparr>"
  have "careful P (w_trace w @ [Observed i bytes])"
    by (rule careful_append) (use assms(1) in \<open>auto simp: tidy_def\<close>)
  then have "tidy P M (C \<union> (if sha256_hex bytes \<in> p_digests P then {i} else {})) H ?w"
    using assms(1) by (auto simp: tidy_def calm_def private_name_def intro: may_remove_mono) (auto simp: may_remove_def)
  from assms(2) [OF this] show ?thesis by (simp add: wp_def note_read_def)
qed

lemma wp_token:
  assumes "tidy P M C H w" and "\<And>token w'. tidy P M C H w' \<Longrightarrow> (\<And>p. private_name w' (p @ token)) \<Longrightarrow> Q token w'"
  shows "wp draw_token Q X w"
  unfolding wp_def draw_token_def using assms(1) by (simp, intro assms(2)) (auto simp: private_name_def)

lemma wp_link:
  assumes "tidy P M C H w" and "\<And>x. (destination, x) \<notin> H"
    and "\<And>w'. tidy P M C H w' \<Longrightarrow> Q () w'" and "\<And>e w'. tidy P M C H w' \<Longrightarrow> X e w'"
  shows "wp (os_link source destination) Q X w"
  unfolding os_link_def
  by (rule wp_syscall [OF assms(1) subset_refl])
    (use assms(2) in \<open>auto simp: effect_ok_def set_name_def set_inode_def split: option.splits sum.splits if_splits
       intro!: assms(3,4)\<close>)

lemma wp_unlink:
  assumes "tidy P M C {(name, Some i)} w" and "i \<in> p_owned P \<or> p_created P \<and> i \<in> M \<or> i \<in> C"
    and "\<And>w'. tidy P M C {} w' \<Longrightarrow> Q () w'" and "\<And>e w'. tidy P M C {} w' \<Longrightarrow> X e w'"
  shows "wp (os_unlink name) Q X w"
  unfolding os_unlink_def
  by (rule wp_syscall [OF assms(1) empty_subsetI])
    (use assms(2) in \<open>auto simp: effect_ok_def child_def split: option.splits sum.splits if_splits intro!: assms(3,4)\<close>)

lemma tidy_hold: "tidy P M C {} w \<Longrightarrow> d_names (w_disk w) name = x \<Longrightarrow> private_name w name \<Longrightarrow> tidy P M C {(name, x)} w"
  by (simp add: tidy_def)

text \<open>After a rename the private destination leads to some file, which no other process changes.\<close>

lemma wp_rename:
  assumes "tidy P M C {} w"
    and "\<And>w'. tidy P M C {} w' \<Longrightarrow> \<exists>i. d_names (w_disk w') destination = Some i
      \<Longrightarrow> w_tokens w' = w_tokens w \<Longrightarrow> Q () w'"
    and "\<And>e w'. tidy P M C {} w' \<Longrightarrow> X e w'"
  shows "wp (exclusive_rename_at source destination) Q X w"
proof -
  have "wp (os_rename_exclusive source destination) Q X w"
    unfolding os_rename_exclusive_def
    by (rule wp_syscall [OF assms(1) empty_subsetI])
      (auto simp: effect_ok_def child_def set_name_def set_inode_def split: option.splits sum.splits if_splits
        intro!: assms(2,3) dest!: sym [of _ "w_disk _"])
  then show ?thesis using assms(3) [OF assms(1)] by (auto simp: wp_def exclusive_rename_at_def split: prod.splits sum.splits)
qed



section \<open>The removal keeps the policy\<close>

lemma tidy_forget: "tidy P M C H w \<Longrightarrow> tidy P M C {} w"
  by (rule tidy_mono) auto

lemma tidy_known: "tidy P M (C \<union> C') H w \<Longrightarrow> tidy P M C {} w"
  by (rule tidy_mono) auto

lemma wp_reserve:
  assumes "tidy P M C {} w"
    and "\<And>w'. tidy P M C {} w' \<Longrightarrow> Q None w'" and "\<And>pending i w'. tidy P M C {(pending, Some i)} w' \<Longrightarrow> Q (Some pending) w'"
    and "\<And>e w'. tidy P M C {} w' \<Longrightarrow> X e w'"
  shows "wp (reserve_claim n name label) Q X w"
  using assms(1)
proof (induction n arbitrary: w)
  case (Suc n)
  show ?case
    unfolding reserve_claim.simps wp_simps
  proof (rule wp_token [OF Suc.prems])
    fix token w1
    assume t: "tidy P M C {} w1" and pn: "\<And>p. private_name w1 (p @ token)"
    have held: "tidy P M C {(cleanup_pending token, Some i)} w2"
      if "tidy P M C {} w2" "d_names (w_disk w2) (cleanup_pending token) = Some i" "w_tokens w2 = w_tokens w1" for i w2
    proof (rule tidy_hold [OF that(1,2)])
      show "private_name w2 (cleanup_pending token)"
        unfolding private_name_tokens [OF that(3)] cleanup_pending_def by (rule pn)
    qed
    show "wp (exclusive_rename_at name (cleanup_pending token))
       (\<lambda>a. wp (case Inr a of
          Inl (FileNotFoundError _) \<Rightarrow> done_with None | Inl (FileExistsError _) \<Rightarrow> reserve_claim n name label
        | Inl (OSError _) \<Rightarrow> raising (not_reserved label) | Inl (RuntimeError _) \<Rightarrow> raising (not_reserved label)
        | Inl e \<Rightarrow> raising e | Inr _ \<Rightarrow> done_with (Some (cleanup_pending token))) Q X)
       (\<lambda>e. wp (case Inl e of
          Inl (FileNotFoundError _) \<Rightarrow> done_with None | Inl (FileExistsError _) \<Rightarrow> reserve_claim n name label
        | Inl (OSError _) \<Rightarrow> raising (not_reserved label) | Inl (RuntimeError _) \<Rightarrow> raising (not_reserved label)
        | Inl e \<Rightarrow> raising e | Inr _ \<Rightarrow> done_with (Some (cleanup_pending token))) Q X) w1"
      by (rule wp_rename [OF t]) (auto simp: wp_simps split: exn.splits intro: assms(2,4) Suc.IH assms(3) [OF held])
  qed
qed (simp add: wp_simps assms(4))

lemma wp_restore:
  assumes "tidy P M C {} w" and "\<And>w'. tidy P M C {} w' \<Longrightarrow> Q () w'" and "\<And>e w'. tidy P M C {} w' \<Longrightarrow> X e w'"
  shows "wp (restore_claim pending name label primary) Q X w"
  unfolding restore_claim_def wp_simps
  by (rule wp_rename [OF assms(1)]) (auto simp: wp_simps split: exn.splits intro: assms(2,3))

lemma read_owned_step: "read_owned i n digested = andthen (os_read i (length digested)) (\<lambda>chunk.
    if chunk = [] then done_with (digested, length digested)
    else if length digested + length chunk > n then done_with (digested, length digested + length chunk)
    else read_owned i n (digested @ chunk))"
  by (rule ext, subst read_owned.simps) (simp add: andthen_def split: prod.splits sum.splits)

lemma wp_read_owned:
  assumes "tidy P M C H w" and "\<And>r w'. tidy P M C H w' \<Longrightarrow> Q r w'" and "\<And>e w'. tidy P M C H w' \<Longrightarrow> X e w'"
  shows "wp (read_owned i n digested) Q X w"
  using assms(1)
proof (induction "n - length digested" arbitrary: digested w rule: less_induct)
  case less
  have "wp (read_owned i n (digested @ chunk)) Q X w1"
    if "tidy P M C H w1" "chunk \<noteq> []" "length digested + length chunk \<le> n" for chunk w1
    by (rule less(1)) (use that in \<open>cases chunk; simp\<close>)+
  then show ?case
    unfolding read_owned_step [of i n digested] wp_simps
    by (intro wp_read [OF less(2)]) (auto simp: wp_simps assms(2,3))
qed

lemma wp_compare:
  assumes t: "tidy P M C H w"
    and Q: "\<And>owned w'. (owned \<Longrightarrow> snd expected \<in> p_digests P \<Longrightarrow> tidy P M (insert i C) H w')
      \<Longrightarrow> tidy P M C H w' \<Longrightarrow> Q owned w'"
    and X: "\<And>e w'. tidy P M C H w' \<Longrightarrow> X e w'"
  shows "wp (compare_content i expected_identity expected) Q X w"
proof -
  have noted: "wp (note_read i bytes) (\<lambda>_. Q (c \<and> sha256_hex bytes = snd expected)) X w'" if "tidy P M C H w'" for c bytes w'
    by (rule wp_note [OF that], rule Q) (auto split: if_splits elim: tidy_mono)
  show ?thesis
    unfolding compare_content_def wp_simps conj_assoc [symmetric]
    by (rule wp_fstat [OF t], erule wp_read_owned, erule wp_fstat, erule noted) (erule X)+
qed

lemma wp_content:
  assumes t: "tidy P M C {(pending, Some i)} w"
    and Q: "\<And>owned w'. (owned \<Longrightarrow> snd expected \<in> p_digests P \<Longrightarrow> tidy P M (insert i C) {(pending, Some i)} w')
      \<Longrightarrow> tidy P M C {(pending, Some i)} w' \<Longrightarrow> Q owned w'"
    and X: "\<And>e w'. tidy P M C {} w' \<Longrightarrow> X e w'"
  shows "wp (content_matches pending expected_identity expected) Q X w"
proof -
  have close: "wp os_close (\<lambda>_. Q owned) X w'"
    if "owned \<Longrightarrow> snd expected \<in> p_digests P \<Longrightarrow> tidy P M (insert i C) {(pending, Some i)} w'" "tidy P M C {(pending, Some i)} w'" for owned w'
  proof (cases "owned \<and> snd expected \<in> p_digests P")
    case True
    show ?thesis by (rule wp_sync [OF that(1)]) (use True in \<open>auto intro!: Q X elim: tidy_mono\<close>)
  next
    case False
    show ?thesis by (rule wp_sync [OF that(2)]) (use False in \<open>auto intro!: Q X elim: tidy_mono\<close>)
  qed
  have fail: "wp os_close (\<lambda>_. X primary) (\<lambda>_. X primary) w'" if "tidy P M C {(pending, Some i)} w'" for primary w'
    by (rule wp_sync [OF that]) (auto intro: X tidy_forget)
  show ?thesis
    unfolding content_matches_def wp_simps
    by (rule wp_open_read [OF t]) (auto intro!: wp_compare close fail intro: X tidy_forget)
qed
definition removable :: "policy \<Rightarrow> ident set \<Rightarrow> ident set \<Rightarrow> ident \<Rightarrow> bool" where
  "removable P M C i \<longleftrightarrow> i \<in> p_owned P \<or> p_created P \<and> i \<in> M \<or> i \<in> C"

lemma wp_unlink_claim:
  assumes t: "tidy P M C {(pending, Some i)} w" and i: "removable P M C i"
    and Q: "\<And>w'. tidy P M C {} w' \<Longrightarrow> Q () w'" and X: "\<And>e w'. tidy P M C {} w' \<Longrightarrow> X e w'"
  shows "wp (unlink_claim pending) Q X w"
proof -
  have retry: "wp (os_stat_at pending) (\<lambda>_. wp (raising e) Q X) (\<lambda>f. wp (case f of FileNotFoundError _ \<Rightarrow> done_with ()
      | f \<Rightarrow> raising f) Q X) w'" if "tidy P M C {} w'" for e w'
    by (rule wp_stat [OF that]) (auto simp: wp_simps split: exn.splits intro: Q X)
  show ?thesis
    unfolding unlink_claim_def wp_simps
    by (rule wp_unlink [OF t i [unfolded removable_def]])
      (auto simp: wp_andthen wp_attempt wp_simple(1) split: exn.splits intro!: retry Q)
qed

lemma wp_settle:
  assumes t: "tidy P M C {(pending, Some i)} w" and i: "owned \<Longrightarrow> removable P M C i"
    and Q: "\<And>r w'. tidy P M C {} w' \<Longrightarrow> Q r w'" and X: "\<And>e w'. tidy P M C {} w' \<Longrightarrow> X e w'"
  shows "wp (settle_claim pending name label owned) Q X w"
proof -
  have sync: "wp os_sync (\<lambda>_. Q owned) X w'" if "tidy P M C {} w'" for w'
    by (rule wp_sync [OF that]) (auto intro: Q X)
  then show ?thesis
    unfolding settle_claim_def wp_simps
    using wp_unlink_claim [OF t i, of "\<lambda>_. wp os_sync (\<lambda>_. Q owned) X" X]
      wp_restore [OF tidy_forget [OF t], of "\<lambda>_. wp os_sync (\<lambda>_. Q owned) X" X] X
    by (cases owned) simp_all
qed

lemma wp_owns:
  assumes t: "tidy P M C {(pending, Some i)} w"
    and own: "removable P M C expected_identity \<or> (\<exists>n dg. expected = Some (n, dg) \<and> dg \<in> p_digests P)"
    and m: "inode_pair m = i"
    and Q: "\<And>owned C' w'. tidy P M C' {(pending, Some i)} w' \<Longrightarrow> (owned \<Longrightarrow> removable P M C' i) \<Longrightarrow> C \<subseteq> C' \<Longrightarrow> Q owned w'"
    and X: "\<And>e w'. tidy P M C {} w' \<Longrightarrow> X e w'"
  shows "wp (owns_claim pending name expected_identity label expected m) Q X w"
proof -
  have restore: "wp (restore_claim pending name label (Some primary)) (\<lambda>_. X primary) X w'" if "tidy P M C {} w'" for primary w'
    by (rule wp_restore [OF that]) (auto intro: X)
  show ?thesis
  proof (cases "st_kind m = Regular \<and> inode_pair m = expected_identity")
    case False
    then show ?thesis using Q [OF t, of False] by (auto simp: owns_claim_def wp_simps)
  next
    case True
    then have id: "expected_identity = i" using m by simp
    show ?thesis
    proof (cases expected)
      case None
      then show ?thesis using True Q [OF t, of True] own id by (simp add: owns_claim_def wp_simps)
    next
      case (Some content)
      have "wp (content_matches pending expected_identity content) Q (\<lambda>e. wp (restore_claim pending name label (Some e)) (\<lambda>_. X e) X) w"
      proof (rule wp_content [OF t _ restore])
        fix owned w'
        assume known: "owned \<Longrightarrow> snd content \<in> p_digests P \<Longrightarrow> tidy P M (insert i C) {(pending, Some i)} w'"
          and t': "tidy P M C {(pending, Some i)} w'"
        show "Q owned w'"
        proof (cases "owned \<and> snd content \<in> p_digests P")
          case True
          show ?thesis by (rule Q [OF known]) (use True in \<open>auto simp: removable_def\<close>)
        next
          case False
          show ?thesis by (rule Q [OF t']) (use False own id Some in auto)
        qed
      qed
      then show ?thesis using True Some by (simp add: owns_claim_def wp_simps)
    qed
  qed
qed

lemma wp_remove_claimed:
  assumes t: "tidy P M C {(pending, Some i)} w"
    and own: "removable P M C expected_identity \<or> (\<exists>n dg. expected = Some (n, dg) \<and> dg \<in> p_digests P)"
    and Q: "\<And>r w'. tidy P M C {} w' \<Longrightarrow> Q r w'" and X: "\<And>e w'. tidy P M C {} w' \<Longrightarrow> X e w'"
  shows "wp (remove_claimed pending name expected_identity label expected) Q X w"
proof -
  have restore: "wp (restore_claim pending name label (Some primary)) (\<lambda>_. X primary) X w'" if "tidy P M C {} w'" for primary w'
    by (rule wp_restore [OF that]) (auto intro: X)
  have settle: "wp (settle_claim pending name label owned) Q X w'"
    if "tidy P M C' {(pending, Some i)} w'" "owned \<Longrightarrow> removable P M C' i" "C \<subseteq> C'" for owned C' w'
    by (rule wp_settle [OF that(1,2)]) (use that(3) in \<open>auto intro!: Q X elim: tidy_mono\<close>)
  show ?thesis
    unfolding remove_claimed_def wp_simps
    by (rule wp_stat [OF t])
      (auto simp: wp_simps split: exn.splits intro!: restore Q wp_owns [OF _ own _ settle] X intro: tidy_forget)
qed
lemma wp_remove_owned:
  assumes t: "tidy P M C {} w"
    and own: "removable P M C expected_identity \<or> (\<exists>n dg. expected = Some (n, dg) \<and> dg \<in> p_digests P)"
    and Q: "\<And>r w'. tidy P M C {} w' \<Longrightarrow> Q r w'" and X: "\<And>e w'. tidy P M C {} w' \<Longrightarrow> X e w'"
  shows "wp (remove_owned_at name expected_identity label expected) Q X w"
  unfolding remove_owned_at_def wp_simps
  by (rule wp_reserve [OF t]) (auto simp: wp_simps intro: Q X wp_remove_claimed [OF _ own])

lemma remove_owned_careful:
  assumes "calm w" and "w_trace w = []" and "remove_owned_at name identity label expected w = (w', r)"
    and "identity \<in> p_owned P \<or> (\<exists>n dg. expected = Some (n, dg) \<and> dg \<in> p_digests P)"
  shows "careful P (w_trace w')"
proof -
  have "tidy P {} {} {} w" using assms(1,2) by (simp add: tidy_def careful_def)
  from wp_remove_owned [OF this, of identity expected "\<lambda>_ w'. careful P (w_trace w')" "\<lambda>_ w'. careful P (w_trace w')"] assms(4)
  have "wp (remove_owned_at name identity label expected) (\<lambda>_ w'. careful P (w_trace w')) (\<lambda>_ w'. careful P (w_trace w')) w"
    by (auto simp: removable_def tidy_def)
  from wp_run [OF this assms(3)] show ?thesis by (simp split: sum.splits)
qed

text \<open>
  Whatever the other processes and the faults of the system calls do, as long as they leave
  private names alone, a removal removes only the file with the given identity, and, when the
  caller gives a digest, only after it has read the file and found the digest.
\<close>

theorem removes_only_owned_file:
  assumes "calm w" and "w_trace w = []" and "remove_owned_at name identity label expected w = (w', r)"
    and "Removed i \<in> set (w_trace w')"
  shows "i = identity \<and> (case expected of None \<Rightarrow> True
    | Some (n, dg) \<Rightarrow> \<exists>bytes. Observed i bytes \<in> set (w_trace w') \<and> sha256_hex bytes = dg)"
proof -
  have "careful \<lparr>p_owned = {identity}, p_created = False, p_digests = {}\<rparr> (w_trace w')"
    by (rule remove_owned_careful [OF assms(1-3)]) simp
  moreover have "careful \<lparr>p_owned = {}, p_created = False, p_digests = {dg}\<rparr> (w_trace w')" if "expected = Some (n, dg)" for n dg
    by (rule remove_owned_careful [OF assms(1-3)]) (simp add: that)
  ultimately show ?thesis using assms(4) by (auto simp: careful_def may_remove_def split: option.splits)
qed


section \<open>When nothing interferes\<close>

definition quiet_world :: "world \<Rightarrow> bool" where
  "quiet_world w \<longleftrightarrow> w_rename_supported w \<and> (\<forall>k. t_fault (w_turns w k) = None \<and> t_foreign (w_turns w k) = id)"

text \<open>A quiet world with the disk \<open>d\<close>.\<close>

definition at_disk :: "disk \<Rightarrow> world \<Rightarrow> bool" where
  "at_disk d w \<longleftrightarrow> quiet_world w \<and> w_disk w = d"

lemma at_syscall:
  assumes "at_disk d w" and "\<And>now limit. \<exists>d' es r. f now limit d = (d', es, r) \<and> (\<forall>w'. at_disk d' w' \<longrightarrow> w_tokens w' = w_tokens w
     \<longrightarrow> w_drawn w' = w_drawn w \<longrightarrow> (case r of Inl e \<Rightarrow> X e w' | Inr a \<Rightarrow> Q a w'))"
  shows "wp (syscall f) Q X w"
proof -
  obtain d' es r where f: "f (int (w_clock w)) (t_limit (w_turns w (w_clock w))) d = (d', es, r)"
    and Q: "at_disk d' w' \<Longrightarrow> w_tokens w' = w_tokens w \<Longrightarrow> w_drawn w' = w_drawn w \<Longrightarrow> (case r of Inl e \<Rightarrow> X e w' | Inr a \<Rightarrow> Q a w')" for w'
    using assms(2) by blast
  then show ?thesis using assms(1) by (auto simp: wp_def syscall_def Let_def at_disk_def quiet_world_def split: sum.splits)
qed

lemma at_stat:
  assumes "at_disk d w" and "child d name = Some (i, n)" and "\<And>w'. at_disk d w' \<Longrightarrow> Q (stat_of i n) w'"
  shows "wp (os_stat_at name) Q X w"
  unfolding os_stat_at_def by (rule at_syscall [OF assms(1)]) (simp add: assms(2,3))

lemma at_fstat:
  assumes "at_disk d w" and "d_inodes d i = Some n" and "\<And>w'. at_disk d w' \<Longrightarrow> Q (stat_of i n) w'"
  shows "wp (os_fstat i) Q X w"
  unfolding os_fstat_def by (rule at_syscall [OF assms(1)]) (simp add: assms(2,3))

lemma at_open:
  assumes "at_disk d w" and "child d name = Some (i, n)" and "i_kind n \<noteq> Symlink" and "\<And>w'. at_disk d w' \<Longrightarrow> Q i w'"
  shows "wp (os_open_read name) Q X w"
  unfolding os_open_read_def by (rule at_syscall [OF assms(1)]) (simp add: assms(2-4))

lemma at_sync:
  assumes "at_disk d w" and "\<And>w'. at_disk d w' \<Longrightarrow> Q () w'"
  shows "wp os_sync Q X w" "wp os_close Q X w" "wp os_dup Q X w"
  unfolding os_sync_def os_close_def os_dup_def by (rule at_syscall [OF assms(1)]; simp add: assms(2))+

lemma at_note:
  assumes "at_disk d w" and "\<And>w'. at_disk d w' \<Longrightarrow> Q () w'"
  shows "wp (note_read i bytes) Q X w"
  using assms by (simp add: wp_def note_read_def at_disk_def quiet_world_def)

lemma at_read:
  assumes "at_disk d w" and "d_inodes d i = Some n"
    and "\<And>k w'. at_disk d w' \<Longrightarrow> 0 < k \<Longrightarrow> Q (take k (drop offset (i_bytes n))) w'"
  shows "wp (os_read i offset) Q X w"
  unfolding os_read_def by (rule at_syscall [OF assms(1)]) (simp add: assms(2,3))

text \<open>A rename, up to the time of the change.\<close>

definition renamed :: "string \<Rightarrow> string \<Rightarrow> ident \<Rightarrow> inode \<Rightarrow> disk \<Rightarrow> int \<Rightarrow> disk" where
  "renamed source destination i n d now = set_name source None (set_name destination (Some i) (set_inode i (n\<lparr>i_ctime := now\<rparr>) d))"

lemma at_rename:
  assumes "at_disk d w" and "child d source = Some (i, n)" and "d_names d destination = None"
    and "source \<noteq> []" "destination \<noteq> []" "CHR ''/'' \<notin> set source" "CHR ''/'' \<notin> set destination"
    and "\<And>now w'. at_disk (renamed source destination i n d now) w' \<Longrightarrow> Q () w'"
  shows "wp (exclusive_rename_at source destination) Q X w"
proof -
  have "wp (os_rename_exclusive source destination) Q X w"
    unfolding os_rename_exclusive_def
    by (rule at_syscall [OF assms(1)]) (use assms(2,3) in \<open>simp add: assms(8) [unfolded renamed_def]\<close>)
  then show ?thesis using assms(1,4-7) by (simp add: wp_def exclusive_rename_at_def at_disk_def quiet_world_def)
qed

lemma at_unlink:
  assumes "at_disk d w" and "child d name = Some (i, n)" and "i_kind n \<noteq> Directory"
    and "\<And>now w'. at_disk (set_name name None (set_inode i (n\<lparr>i_nlink := i_nlink n - 1, i_ctime := now\<rparr>) d)) w' \<Longrightarrow> Q () w'"
  shows "wp (os_unlink name) Q X w"
  unfolding os_unlink_def by (rule at_syscall [OF assms(1)]) (simp add: assms(2-4))

lemma at_read_owned:
  assumes "at_disk d w" and "d_inodes d i = Some n" and "digested = take (length digested) (i_bytes n)" and "length digested \<le> expected_size"
    and "\<And>content w'. at_disk d w' \<Longrightarrow> (snd content = expected_size \<longleftrightarrow> length (i_bytes n) = expected_size)
      \<Longrightarrow> (snd content = expected_size \<Longrightarrow> fst content = i_bytes n) \<Longrightarrow> Q content w'"
  shows "wp (read_owned i expected_size digested) Q X w"
  using assms(1,3,4)
proof (induction "expected_size - length digested" arbitrary: digested w rule: less_induct)
  case less
  let ?rest = "drop (length digested) (i_bytes n)"
  have len: "length digested \<le> length (i_bytes n)"
    using arg_cong [OF less.prems(2), of length] by simp
  show ?case
    unfolding read_owned_step [of i expected_size digested] wp_simps
  proof (rule at_read [OF less.prems(1) assms(2)])
    fix k :: nat and w1 assume w1: "at_disk d w1" and k: "0 < k"
    show "wp (if take k ?rest = [] then done_with (digested, length digested)
       else if length digested + length (take k ?rest) > expected_size then done_with (digested, length digested + length (take k ?rest))
       else read_owned i expected_size (digested @ take k ?rest)) Q X w1"
    proof (cases "take k ?rest = []")
      case True
      then have "?rest = []" using k by simp
      then have "i_bytes n = digested" using less.prems(2) by (metis append_Nil2 append_take_drop_id)
      then show ?thesis using True assms(5) [OF w1] by (simp add: wp_simps)
    next
      case False
      then have pos: "0 < length (take k ?rest)" by simp
      show ?thesis
      proof (cases "length digested + length (take k ?rest) > expected_size")
        case True
        then have "Q (digested, length digested + length (take k ?rest)) w1"
          using len by (intro assms(5) [OF w1]) (auto simp: min_def split: if_splits)
        then show ?thesis using False True by (simp only: wp_simps if_True if_False)
      next
        case small: False
        have "wp (read_owned i expected_size (digested @ take k ?rest)) Q X w1"
        proof (rule less.hyps)
          show "digested @ take k ?rest = take (length (digested @ take k ?rest)) (i_bytes n)"
            unfolding length_append take_add less.prems(2) [symmetric] by (simp add: min_def)
        qed (use pos small w1 in auto)
        then show ?thesis using False small by simp
      qed
    qed
  qed
qed

text \<open>The file a removal is for.\<close>

definition expected_file :: "ident \<Rightarrow> (nat \<times> digest) option \<Rightarrow> ident \<Rightarrow> inode \<Rightarrow> bool" where
  "expected_file identity expected i n \<longleftrightarrow> i_kind n = Regular \<and> i = identity
     \<and> (case expected of None \<Rightarrow> True | Some (count, dg) \<Rightarrow> length (i_bytes n) = count \<and> sha256_hex (i_bytes n) = dg)"

lemma same_snapshot_refl [simp]: "same_snapshot m m"
  by (simp add: same_snapshot_def)

lemma at_compare:
  assumes "at_disk d w" and "d_inodes d i = Some n" and "\<And>w'. at_disk d w' \<Longrightarrow> Q (expected_file identity (Some expected) i n) w'"
  shows "wp (compare_content i identity expected) Q X w"
proof -
  have fin: "Q (st_kind (stat_of i n) = Regular \<and> inode_pair (stat_of i n) = identity \<and> same_snapshot (stat_of i n) (stat_of i n)
      \<and> snd content = fst expected \<and> sha256_hex (fst content) = snd expected) w'"
    if "snd content = fst expected \<longleftrightarrow> length (i_bytes n) = fst expected" "snd content = fst expected \<Longrightarrow> fst content = i_bytes n"
      "at_disk d w'" for content w'
  proof -
    have "(st_kind (stat_of i n) = Regular \<and> inode_pair (stat_of i n) = identity \<and> same_snapshot (stat_of i n) (stat_of i n)
      \<and> snd content = fst expected \<and> sha256_hex (fst content) = snd expected) = expected_file identity (Some expected) i n"
      using that(1,2) by (auto simp: expected_file_def split: prod.splits)
    then show ?thesis using assms(3) [OF that(3)] by simp
  qed
  show ?thesis
    unfolding compare_content_def wp_simps
    by (rule at_fstat [OF assms(1,2)], rule at_read_owned [OF _ assms(2)], assumption, simp, simp,
      rule at_fstat [OF _ assms(2)], assumption, erule at_note, rule fin)
qed

lemma at_content:
  assumes "at_disk d w" and "child d pending = Some (i, n)" and "i_kind n \<noteq> Symlink"
    and "\<And>w'. at_disk d w' \<Longrightarrow> Q (expected_file identity (Some expected) i n) w'"
  shows "wp (content_matches pending identity expected) Q X w"
proof -
  have n: "d_inodes d i = Some n" using assms(2) by (auto simp: child_def split: option.splits)
  show ?thesis
    unfolding content_matches_def wp_simps
    by (rule at_open [OF assms(1-3)], erule at_compare [OF _ n], erule at_sync, rule assms(4))
qed

lemma at_owns:
  assumes "at_disk d w" and "child d pending = Some (i, n)"
    and "\<And>w'. at_disk d w' \<Longrightarrow> Q (expected_file identity expected i n) w'"
  shows "wp (owns_claim pending name identity label expected (stat_of i n)) Q X w"
proof (cases "i_kind n = Regular \<and> i = identity")
  case True
  show ?thesis
  proof (cases expected)
    case (Some content)
    have "wp (content_matches pending identity content) Q (\<lambda>e. wp (restore_claim pending name label (Some e)) (\<lambda>_. X e) X) w"
      by (rule at_content [OF assms(1,2)]) (use True Some assms(3) in auto)
    then show ?thesis using True Some by (simp add: owns_claim_def wp_simps)
  qed (use True assms in \<open>simp add: owns_claim_def wp_simps expected_file_def\<close>)
next
  case False
  then show ?thesis using assms(1,3) by (auto simp: owns_claim_def wp_simps expected_file_def)
qed

text \<open>The names and the contents, without the times and link counts.\<close>

definition contents :: "disk \<Rightarrow> ident \<Rightarrow> string option" where
  "contents d i = map_option i_bytes (d_inodes d i)"

definition component :: "string \<Rightarrow> bool" where
  "component name \<longleftrightarrow> name \<noteq> [] \<and> CHR ''/'' \<notin> set name"

lemma child_renamed [simp]:
  "source \<noteq> destination \<Longrightarrow> child (renamed source destination i n d now) destination = Some (i, n\<lparr>i_ctime := now\<rparr>)"
  by (simp add: child_def renamed_def set_name_def set_inode_def)

lemma names_renamed [simp]: "d_names (renamed source destination i n d now) = (d_names d)(destination := Some i, source := None)"
  by (simp add: renamed_def set_name_def set_inode_def)

lemma contents_renamed [simp]:
  "d_inodes d i = Some n \<Longrightarrow> contents (renamed source destination i n d now) = contents d"
  by (auto simp: contents_def renamed_def set_name_def set_inode_def fun_eq_iff)

lemma expected_renamed [simp]: "expected_file identity expected i (n\<lparr>i_ctime := now\<rparr>) = expected_file identity expected i n"
  by (simp add: expected_file_def split: option.splits)

lemma at_reserve:
  assumes "at_disk d w" and "child d name = Some (i, n)" and "pending = cleanup_pending (w_tokens w (w_drawn w))"
    and "d_names d pending = None" and "component name" and "component pending"
    and "\<And>now w'. at_disk (renamed name pending i n d now) w' \<Longrightarrow> Q (Some pending) w'"
  shows "wp (reserve_claim (Suc k) name label) Q X w"
proof -
  let ?w = "w\<lparr>w_drawn := w_drawn w + 1\<rparr>"
  have w: "at_disk d ?w" using assms(1) by (simp add: at_disk_def quiet_world_def)
  let ?Q = "\<lambda>_ :: unit. wp (done_with (Some pending)) Q X"
  have "wp (exclusive_rename_at name pending) ?Q Z ?w" for Z
    by (rule at_rename [OF w assms(2,4)]) (use assms(5-7) in \<open>simp_all add: component_def wp_simps\<close>)
  then show ?thesis
    unfolding reserve_claim.simps wp_simps wp_def [of draw_token] draw_token_def prod.case sum.case assms(3) [symmetric]
    by simp
qed

lemma at_settle:
  assumes "at_disk d1 w" and "d1 = renamed name pending i n d now" and "child d name = Some (i, n)"
    and "d_names d pending = None" and "component name" and "component pending" and "name \<noteq> pending"
    and "own \<Longrightarrow> i_kind n = Regular"
    and "\<And>w'. d_names (w_disk w') = (if own then (d_names d)(name := None) else d_names d) \<Longrightarrow>
      contents (w_disk w') = contents d \<Longrightarrow> Q own w'"
  shows "wp (settle_claim pending name label own) Q X w"
proof -
  have n: "d_names d name = Some i" "d_inodes d i = Some n" using assms(3) by (auto simp: child_def split: option.splits)
  have c: "child d1 pending = Some (i, n\<lparr>i_ctime := now\<rparr>)" using assms(2,7) by simp
  have n1: "d_inodes d1 i = Some (n\<lparr>i_ctime := now\<rparr>)" using assms(2) by (simp add: renamed_def set_name_def set_inode_def)
  have contents1: "contents d1 = contents d" using assms(2) n(2) by simp
  show ?thesis
  proof (cases own)
    case True
    have "wp (os_unlink pending) (\<lambda>_. wp os_sync (\<lambda>_. Q own) X) Z w" for Z
    proof (rule at_unlink [OF assms(1) c])
      fix now' w1
      assume w1: "at_disk (set_name pending None (set_inode i
        (n\<lparr>i_ctime := now\<rparr>\<lparr>i_nlink := i_nlink (n\<lparr>i_ctime := now\<rparr>) - 1, i_ctime := now'\<rparr>) d1)) w1"
      show "wp os_sync (\<lambda>_. Q own) X w1"
      proof (rule at_sync [OF w1], rule assms(9))
        fix w2 assume w2: "at_disk (set_name pending None (set_inode i
          (n\<lparr>i_ctime := now\<rparr>\<lparr>i_nlink := i_nlink (n\<lparr>i_ctime := now\<rparr>) - 1, i_ctime := now'\<rparr>) d1)) w2"
        show "d_names (w_disk w2) = (if own then (d_names d)(name := None) else d_names d)"
          using w2 True assms(2,4) by (auto simp: at_disk_def set_name_def set_inode_def fun_eq_iff)
        show "contents (w_disk w2) = contents d"
          using w2 n n1 contents1 by (auto simp: at_disk_def set_name_def set_inode_def contents_def fun_eq_iff)
      qed
    qed (use assms(8) True in simp)
    then show ?thesis using True by (simp add: settle_claim_def unlink_claim_def wp_simps)
  next
    case False
    have "wp (exclusive_rename_at pending name) (\<lambda>_. wp os_sync (\<lambda>_. Q own) X) Z w" for Z
    proof (rule at_rename [OF assms(1) c])
      fix now' w1 assume w1: "at_disk (renamed pending name i (n\<lparr>i_ctime := now\<rparr>) d1 now') w1"
      show "wp os_sync (\<lambda>_. Q own) X w1"
      proof (rule at_sync [OF w1], rule assms(9))
        fix w2 assume w2: "at_disk (renamed pending name i (n\<lparr>i_ctime := now\<rparr>) d1 now') w2"
        show "d_names (w_disk w2) = (if own then (d_names d)(name := None) else d_names d)"
          using w2 False n assms(2,4) by (auto simp: at_disk_def fun_eq_iff)
        show "contents (w_disk w2) = contents d" using w2 n1 contents1 by (simp add: at_disk_def)
      qed
    qed (use assms(2,5-7) in \<open>simp_all add: component_def\<close>)
    then show ?thesis using False by (simp add: settle_claim_def restore_claim_def wp_simps)
  qed
qed

text \<open>
  C25. When nothing interferes, a removal does exactly what it says, however the reads are cut: it
  removes the name and answers true when the name leads to the regular file with the given
  identity and, if given, the size and the digest; otherwise it answers false and every name
  leads where it led. No file loses or changes its bytes.
\<close>

theorem removal_exact:
  assumes "quiet_world w" and "child (w_disk w) name = Some (i, n)" and "component name"
    and "d_names (w_disk w) (cleanup_pending (w_tokens w (w_drawn w))) = None"
    and "component (w_tokens w (w_drawn w))"
    and "remove_owned_at name identity label expected w = (w', r)"
  shows "r = Inr (expected_file identity expected i n)
    \<and> d_names (w_disk w') = (if expected_file identity expected i n then (d_names (w_disk w))(name := None) else d_names (w_disk w))
    \<and> contents (w_disk w') = contents (w_disk w)"
proof -
  define d pending own where defs: "d = w_disk w" "pending = cleanup_pending (w_tokens w (w_drawn w))"
    "own = expected_file identity expected i n"
  define after where "after = (if own then (d_names d)(name := None) else d_names d)"
  have d: "d_names d name = Some i" "d_inodes d i = Some n" "d_names d pending = None"
    using assms(2,4) by (auto simp: child_def defs split: option.splits)
  then have distinct: "name \<noteq> pending" by auto
  have component: "component pending" using assms(5) by (simp add: defs cleanup_pending_def component_def)
  let ?Q = "\<lambda>r w'. r = own \<and> d_names (w_disk w') = after \<and> contents (w_disk w') = contents d"
  let ?X = "\<lambda>e w'. False"
  have "wp (remove_owned_at name identity label expected) ?Q ?X w"
    unfolding remove_owned_at_def wp_simps numeral_eq_Suc
  proof (rule at_reserve [OF _ assms(2) defs(2) d(3) [unfolded defs(1)] assms(3)])
    fix now w1 assume w1: "at_disk (renamed name pending i n (w_disk w) now) w1"
    have "wp (settle_claim pending name label own) ?Q ?X w2" if "at_disk (renamed name pending i n d now) w2" for w2
      by (rule at_settle [OF that refl]) (use assms(2,3) d distinct component in \<open>auto simp: defs after_def expected_file_def\<close>)
    then have "wp (owns_claim pending name identity label expected (stat_of i (n\<lparr>i_ctime := now\<rparr>)))
        (\<lambda>owned. wp (settle_claim pending name label owned) ?Q ?X) ?X w3" if "at_disk (renamed name pending i n d now) w3" for w3
      by (intro at_owns [OF that]) (simp_all add: distinct defs(3))
    then show "wp (case Some pending of None \<Rightarrow> done_with False
        | Some pending \<Rightarrow> remove_claimed pending name identity label expected) ?Q ?X w1"
      unfolding option.case remove_claimed_def wp_simps sum.case
      by (intro at_stat [OF w1]) (simp_all add: distinct defs(1))
  qed (use assms(1) component in \<open>simp_all add: at_disk_def\<close>)
  from wp_run [OF this assms(6)] show ?thesis by (simp add: defs after_def split: sum.splits)
qed

section \<open>Samples\<close>

text \<open>A directory with one file; another process puts a file of its own in its place while it is removed.\<close>

definition sample_inode :: "string \<Rightarrow> inode" where
  "sample_inode bytes = \<lparr>i_kind = Regular, i_perm = 384, i_uid = 501, i_gid = 20, i_nlink = 1, i_mtime = 0, i_ctime = 0, i_bytes = bytes\<rparr>"

definition sample_disk :: disk where
  "sample_disk = \<lparr>d_names = [''doc'' \<mapsto> (1, 7)], d_inodes = [(1, 7) \<mapsto> sample_inode ''old'', (1, 9) \<mapsto> sample_inode ''new'']\<rparr>"

definition quiet_turn :: turn where
  "quiet_turn = \<lparr>t_foreign = id, t_fault = None, t_effect = True, t_limit = 0\<rparr>"

definition sample_world :: "(nat \<Rightarrow> turn) \<Rightarrow> world" where
  "sample_world turns = \<lparr>w_disk = sample_disk, w_turns = turns, w_tokens = \<lambda>_. ''7f3a'', w_fresh = \<lambda>k. (2, int k),
     w_umask = id, w_owner = (501, 20), w_rename_supported = True, w_clock = 0, w_drawn = 0, w_made = 0, w_cell = \<lambda>_. False, w_trace = []\<rparr>"

definition busy_turn :: turn where
  "busy_turn = quiet_turn\<lparr>t_foreign := set_name ''doc'' (Some (1, 9))\<rparr>"

definition busy_world :: world where
  "busy_world = sample_world (\<lambda>k. if k = 1 then busy_turn else quiet_turn)"

lemma busy_calm: "calm busy_world"
proof -
  have "''doc'' \<noteq> p @ ''7f3a''" for p by (cases p; cases "tl p"; auto)
  then show ?thesis
  by (auto simp: calm_def private_name_def busy_world_def sample_world_def busy_turn_def quiet_turn_def set_name_def)
qed

lemmas reserve_16 = reserve_claim.simps(2) [of 15, unfolded Suc_numeral add_num_simps]

lemmas run_defs = remove_owned_at_def reserve_16 andthen_def draw_token_def attempt_def exclusive_rename_at_def
  os_rename_exclusive_def syscall_def child_def set_name_def set_inode_def remove_claimed_def os_stat_at_def owns_claim_def
  content_matches_def compare_content_def os_open_read_def catching_def os_fstat_def read_owned_step os_read_def note_read_def
  settle_claim_def unlink_claim_def os_unlink_def os_sync_def os_close_def stat_of_def inode_pair_def same_snapshot_def

lemma busy_run: "set (w_trace (fst (remove_owned_at ''doc'' (1, 7) ''file'' (Some (3, sha256_hex ''old'')) busy_world)))
   = {Observed (1, 7) ''old'', Removed (1, 7)}"
  by (simp add: run_defs busy_world_def sample_world_def quiet_turn_def busy_turn_def sample_disk_def sample_inode_def cleanup_pending_def Let_def)

lemma removes_only_owned_file_witness:
  "\<exists>bytes. Observed (1, 7) bytes \<in> set (w_trace (fst (remove_owned_at ''doc'' (1, 7) ''file'' (Some (3, sha256_hex ''old'')) busy_world)))
     \<and> sha256_hex bytes = sha256_hex ''old''"
proof -
  obtain w' r where run: "remove_owned_at ''doc'' (1, 7) ''file'' (Some (3, sha256_hex ''old'')) busy_world = (w', r)" by fastforce
  have empty: "w_trace busy_world = []" by (simp add: busy_world_def sample_world_def)
  have removed: "Removed (1, 7) \<in> set (w_trace w')" using busy_run unfolding run by simp
  from removes_only_owned_file [OF busy_calm empty run removed] show ?thesis unfolding run by simp
qed

lemma removal_exact_witness:
  "d_names (w_disk (fst (remove_owned_at ''doc'' (1, 7) ''file'' (Some (3, sha256_hex ''old'')) (sample_world (\<lambda>_. quiet_turn))))) ''doc'' = None"
proof -
  let ?w = "sample_world (\<lambda>_. quiet_turn)"
  obtain w' r where run: "remove_owned_at ''doc'' (1, 7) ''file'' (Some (3, sha256_hex ''old'')) ?w = (w', r)" by fastforce
  have "quiet_world ?w" by (simp add: quiet_world_def sample_world_def quiet_turn_def)
  moreover have "child (w_disk ?w) ''doc'' = Some ((1, 7), sample_inode ''old'')" by (simp add: sample_world_def sample_disk_def child_def)
  moreover have "component ''doc''" "component (w_tokens ?w (w_drawn ?w))" by (simp_all add: component_def sample_world_def)
  moreover have "d_names (w_disk ?w) (cleanup_pending (w_tokens ?w (w_drawn ?w))) = None"
    by (simp add: sample_world_def sample_disk_def cleanup_pending_def)
  moreover have "expected_file (1, 7) (Some (3, sha256_hex ''old'')) (1, 7) (sample_inode ''old'')"
    by (simp add: expected_file_def sample_inode_def)
  ultimately have "d_names (w_disk w') = (d_names (w_disk ?w))(''doc'' := None)" using removal_exact [OF _ _ _ _ _ run] by simp
  then show ?thesis unfolding run by simp
qed

end
