(* ===== verification/Dep_Transaction.thy ===== *)
theory Dep_Transaction
  imports Effects Plain_Files
begin

text \<open>
  \<open>_MutationTransaction\<close> of \<open>src/src/sddgov/evidence.py\<close>: the rollback, finalize and verify
  callbacks that a mutation of a package registers, and their settlement by the directory lease
  of \<open>_opened_directory_path\<close>.
\<close>


section \<open>The transaction\<close>

text \<open>The callbacks are actions on the world; the retained descriptors are counted.\<close>

record 'w transaction =
  t_rollback :: "('w, unit) act list"
  t_finalize :: "('w, unit) act list"
  t_verify :: "('w, unit) act list"
  t_directories :: nat
  t_finished :: bool

definition new_transaction :: "'w transaction" where
  "new_transaction = \<lparr>t_rollback = [], t_finalize = [], t_verify = [], t_directories = 0, t_finished = False\<rparr>"

definition finished_error :: exn where
  "finished_error = RuntimeError ''mutation transaction is already finished''"

definition retain_directory :: "'w transaction \<Rightarrow> unit result \<Rightarrow> 'w transaction result" where
  "retain_directory t duplicated =
     require (\<not> t_finished t) finished_error
     (rbind duplicated (\<lambda>_. Inr (t\<lparr>t_directories := t_directories t + 1\<rparr>)))"

definition add_callbacks ::
  "'w transaction \<Rightarrow> ('w, unit) act \<Rightarrow> ('w, unit) act option \<Rightarrow> ('w, unit) act option \<Rightarrow> 'w transaction result" where
  "add_callbacks t rollback finalize check =
     require (\<not> t_finished t) finished_error
     (Inr (t\<lparr>t_rollback := t_rollback t @ [rollback],
             t_finalize := t_finalize t @ (case finalize of None \<Rightarrow> [] | Some f \<Rightarrow> [f]),
             t_verify := t_verify t @ (case check of None \<Rightarrow> [] | Some f \<Rightarrow> [f])\<rparr>))"

text \<open>Every callback runs; the first exception is the one that is reported.\<close>

fun run_all :: "('w, unit) act list \<Rightarrow> 'w \<Rightarrow> 'w \<times> exn option" where
  "run_all [] w = (w, None)"
| "run_all (f # fs) w =
     (case f w of (w1, r) \<Rightarrow> (case run_all fs w1 of (w2, later) \<Rightarrow>
        (w2, case r of Inl e \<Rightarrow> Some e | Inr _ \<Rightarrow> later)))"

text \<open>The verify callbacks stop at the first exception.\<close>

fun run_until :: "('w, unit) act list \<Rightarrow> 'w \<Rightarrow> 'w \<times> exn option" where
  "run_until [] w = (w, None)"
| "run_until (f # fs) w = (case f w of (w1, Inl e) \<Rightarrow> (w1, Some e) | (w1, Inr _) \<Rightarrow> run_until fs w1)"

definition settled :: "'w transaction \<Rightarrow> 'w transaction" where
  "settled t = t\<lparr>t_rollback := [], t_finalize := [], t_verify := [], t_directories := 0, t_finished := True\<rparr>"

definition raise_first :: "exn option \<Rightarrow> unit result" where
  "raise_first e = (case e of None \<Rightarrow> Inr () | Some x \<Rightarrow> Inl x)"

definition txn_rollback :: "('w \<times> 'w transaction, unit) act" where
  "txn_rollback = (\<lambda>(w, t).
     if t_finished t then ((w, t), Inr ())
     else case run_all (rev (t_rollback t)) w of (w1, cleanup_error) \<Rightarrow> ((w1, settled t), raise_first cleanup_error))"

text \<open>\<open>try: self.rollback() except ...: raise error from cleanup_error\<close>, then \<open>raise error\<close>.\<close>

definition rollback_and_raise :: "exn \<Rightarrow> ('w \<times> 'w transaction, unit) act" where
  "rollback_and_raise e s = (fst (txn_rollback s), Inl e)"

definition txn_finalize :: "('w \<times> 'w transaction, unit) act" where
  "txn_finalize = (\<lambda>(w, t).
     if t_finished t then ((w, t), Inr ())
     else case run_until (t_verify t) w of
       (w1, Some verify_error) \<Rightarrow> rollback_and_raise verify_error (w1, t)
     | (w1, None) \<Rightarrow> (case run_all (t_finalize t) w1 of
         (w2, Some finalize_error) \<Rightarrow> rollback_and_raise finalize_error (w2, t)
       | (w2, None) \<Rightarrow> ((w2, settled t), Inr ())))"

text \<open>A mutation of a package: the block under the lease of its root directory.\<close>

definition mutation ::
  "string \<Rightarrow> path_calls \<Rightarrow> ('w \<times> 'w transaction, 'a) act \<Rightarrow> 'w \<Rightarrow> ('w \<times> 'w transaction) \<times> 'a result" where
  "mutation dep calls body w =
     opened_dep_root dep calls (\<lambda>s. fst (txn_rollback s)) txn_finalize body (w, new_transaction)"


section \<open>All or nothing\<close>

text \<open>What settlement did to the world: verified and finalized, or every rollback callback ran.\<close>

definition committed :: "'w transaction \<Rightarrow> 'w \<Rightarrow> 'w \<Rightarrow> bool" where
  "committed t w w' \<longleftrightarrow> (\<exists>w1. run_until (t_verify t) w = (w1, None) \<and> run_all (t_finalize t) w1 = (w', None))"

definition rolled_back :: "'w transaction \<Rightarrow> 'w \<Rightarrow> bool" where
  "rolled_back t w' \<longleftrightarrow> (\<exists>w1. w' = fst (run_all (rev (t_rollback t)) w1))"

lemma settled_finished [simp]: "t_finished (settled t)"
  by (simp add: settled_def)

lemma txn_rollback_open:
  assumes "\<not> t_finished t"
  shows "rolled_back t (fst (fst (txn_rollback (w, t))))" and "t_finished (snd (fst (txn_rollback (w, t))))"
  using assms by (auto simp: txn_rollback_def rolled_back_def split: prod.splits intro: exI [of _ w])

lemma txn_finalize_open:
  assumes "\<not> t_finished t" and "txn_finalize (w, t) = ((w', t'), r)"
  shows "t_finished t'" and "r = Inr () \<Longrightarrow> committed t w w'" and "r \<noteq> Inr () \<Longrightarrow> rolled_back t w'"
  using assms
  by (auto simp: txn_finalize_def rollback_and_raise_def txn_rollback_def committed_def rolled_back_def
      split: prod.splits option.splits if_splits) (metis fst_conv)+

text \<open>
  The only exception that leaves a lease without settling it is a failing \<open>os.fstat\<close> of a
  descriptor that is still open, at the end of the walk.
\<close>

definition fstat_succeeds :: "path_calls \<Rightarrow> bool" where
  "fstat_succeeds calls \<longleftrightarrow> (\<forall>i. \<exists>m. cc_opened (pc_component calls i) = Inr m)"

lemma leave_notifies:
  assumes "fstat_succeeds calls" and "leave_path path calls = Some fault"
  shows "fst fault"
proof -
  have ok: "cc_opened (pc_component calls i) \<noteq> Inl x" for i x
    using assms(1) by (metis fstat_succeeds_def sum.distinct(1))
  have "fst fault" if "first_fault (leave_component changed) (map (pc_component calls) is) = Some fault" for changed "is"
    using that
    by (induction "is") (auto simp: leave_component_def ok split: sum.splits if_splits option.splits)
  then show ?thesis using assms(2) by (simp add: leave_path_def components_of_def)
qed

lemma opened_directory_path_settles:
  assumes run: "opened_directory_path create path calls (\<lambda>s. fst (txn_rollback s)) txn_finalize body (w, new_transaction) = ((w', t'), r)"
    and fstat: "fstat_succeeds calls"
    and body: "body (w, new_transaction) = ((w1, t1), r1)" and open1: "\<not> t_finished t1"
  shows "case r of Inr a \<Rightarrow> r1 = Inr a \<and> committed t1 w1 w' | Inl e \<Rightarrow> w' = w \<or> rolled_back t1 w'"
proof (cases "enter_path create path calls")
  case (Some fault)
  have "fst (txn_rollback (w, new_transaction)) = (w, settled new_transaction)"
    by (simp add: txn_rollback_def new_transaction_def)
  with Some run show ?thesis by (auto simp: opened_directory_path_def raise_fault_def split: if_splits)
next
  case entered: None
  note rolled = txn_rollback_open(1) [OF open1, of w1]
  show ?thesis
  proof (cases r1)
    case (Inl e)
    with entered run body have "r = Inl e" "fst (txn_rollback (w1, t1)) = (w', t')" by (simp_all add: opened_directory_path_def)
    then show ?thesis using rolled by simp
  next
    case (Inr a)
    show ?thesis
    proof (cases "leave_path path calls")
      case (Some fault)
      from leave_notifies [OF fstat this] Some entered Inr run body
      have "r = Inl (snd fault)" "fst (txn_rollback (w1, t1)) = (w', t')" by (simp_all add: opened_directory_path_def raise_fault_def)
      then show ?thesis using rolled by simp
    next
      case None
      obtain s c where c: "txn_finalize (w1, t1) = (s, c)" by fastforce
      with None entered Inr run body have s: "s = (w', t')" "r = rbind c (\<lambda>_. Inr a)" by (simp_all add: opened_directory_path_def)
      show ?thesis using txn_finalize_open(2,3) [OF open1 c [unfolded s(1)]] Inr s(2) by (cases c) auto
    qed
  qed
qed

text \<open>
  C26. A mutation of a package is all or nothing. When the block returns, every verification
  callback had passed and every finalization had run; whenever the mutation raises, be it from
  the block, from the lease of the directory path, from a verification or from a finalization,
  either the block was never entered or all rollback callbacks ran, last registered first.
\<close>

theorem mutation_settles:
  assumes "mutation dep calls body w = ((w', t'), r)" and "fstat_succeeds calls"
    and "body (w, new_transaction) = ((w1, t1), r1)" and "\<not> t_finished t1"
  shows "case r of Inr a \<Rightarrow> r1 = Inr a \<and> committed t1 w1 w' | Inl e \<Rightarrow> w' = w \<or> rolled_back t1 w'"
proof -
  obtain r0 where r0: "opened_directory_path False dep calls (\<lambda>s. fst (txn_rollback s)) txn_finalize body (w, new_transaction) = ((w', t'), r0)"
    and r: "r = r0 \<or> ((\<exists>e. r0 = Inl e) \<and> (\<exists>e. r = Inl e))"
    using assms(1) unfolding mutation_def opened_dep_root_def by (auto split: prod.splits sum.splits exn.splits)
  from opened_directory_path_settles [OF r0 assms(2-4)] r show ?thesis by auto
qed
text \<open>
  A body that writes a file, registers its removal and a verification that refuses, over a world
  that is the list of the events: the mutation raises what the verification raised, and the
  removal has happened.
\<close>

definition happens :: "string \<Rightarrow> (string list, unit) act" where
  "happens name w = (w @ [name], Inr ())"

definition refused :: "(string list, unit) act" where
  "refused w = (w, Inl (ValueError ''artifact changed''))"

definition sample_transaction :: "string list transaction" where
  "sample_transaction = new_transaction\<lparr>t_rollback := [happens ''removed''], t_verify := [refused]\<rparr>"

definition sample_mutation :: "(string list \<times> string list transaction, unit) act" where
  "sample_mutation = (\<lambda>(w, t). case add_callbacks t (happens ''removed'') None (Some refused) of
     Inl e \<Rightarrow> ((w, t), Inl e) | Inr t1 \<Rightarrow> ((fst (happens ''written'' w), t1), Inr ()))"

lemma mutation_settles_witness:
  "mutation ''/evidence/DEP-1'' plain_path sample_mutation []
     = (([''written'', ''removed''], settled sample_transaction), Inl (ValueError ''artifact changed''))
   \<and> rolled_back sample_transaction [''written'', ''removed'']"
proof -
  have dots: "''..'' \<notin> set (path_parts ''/evidence/DEP-1'')" by code_simp
  have body: "sample_mutation ([], new_transaction) = (([''written''], sample_transaction), Inr ())"
    by (simp add: sample_mutation_def sample_transaction_def add_callbacks_def new_transaction_def happens_def)
  have settle: "txn_finalize ([''written''], sample_transaction)
     = (([''written'', ''removed''], settled sample_transaction), Inl (ValueError ''artifact changed''))"
    by (simp add: txn_finalize_def rollback_and_raise_def txn_rollback_def sample_transaction_def new_transaction_def
        refused_def happens_def)
  have "enter_path False ''/evidence/DEP-1'' plain_path = None" "leave_path ''/evidence/DEP-1'' plain_path = None"
    by (simp_all add: enter_path_def leave_path_def plain_path_def dots)
  then have run: "mutation ''/evidence/DEP-1'' plain_path sample_mutation []
     = (([''written'', ''removed''], settled sample_transaction), Inl (ValueError ''artifact changed''))"
    by (simp add: mutation_def opened_dep_root_def opened_directory_path_def body settle rbind_def)
  have "fstat_succeeds plain_path" by (simp add: fstat_succeeds_def plain_path_def plain_component_def)
  from mutation_settles [OF run this body] run show ?thesis by (simp add: sample_transaction_def new_transaction_def)
qed

end
