(* ===== verification/Dep_Publish.thy ===== *)
theory Dep_Publish
  imports Owned_Files Dep_Transaction
begin

text \<open>
  The publication of one control document or artifact in a directory that other processes write
  to as well: \<open>_read_regular_bytes_at\<close>, \<open>_require_regular_snapshot_at\<close>, \<open>_write_bytes_at\<close> and
  \<open>_save_at\<close> of \<open>src/src/sddgov/evidence.py\<close>, as sequences of system calls on the directory.
\<close>


section \<open>Reading\<close>

text \<open>
  \<open>read_regular_bytes_at\<close> of the theory \<open>Dep_Files\<close> is this routine as a function of the results
  of its calls; here the calls are made one by one.
\<close>

function read_bounded_at :: "ident \<Rightarrow> string \<Rightarrow> nat \<Rightarrow> string \<Rightarrow> (world, string) act" where
  "read_bounded_at i label max_bytes observed w =
     (case os_read i (length observed) w of
        (w1, Inl e) \<Rightarrow> (w1, Inl e)
      | (w1, Inr chunk) \<Rightarrow>
          (if chunk = [] then (w1, Inr observed)
           else if length observed + length chunk > max_bytes then (w1, Inl (too_large label max_bytes))
           else read_bounded_at i label max_bytes (observed @ chunk) w1))"
  by pat_completeness auto
termination
  by (relation "measure (\<lambda>(i, label, n, observed, w). n - length observed)")
    (auto simp: not_less intro!: diff_less_mono2 simp flip: length_greater_0_conv)

declare read_bounded_at.simps [simp del]

lemma read_bounded_step: "read_bounded_at i label n observed = andthen (os_read i (length observed)) (\<lambda>chunk.
    if chunk = [] then done_with observed
    else if length observed + length chunk > n then raising (too_large label n)
    else read_bounded_at i label n (observed @ chunk))"
  by (rule ext, subst read_bounded_at.simps) (simp add: andthen_def split: prod.splits sum.splits)

definition eloop :: string where
  "eloop = ''Too many levels of symbolic links''"

definition open_error :: "string \<Rightarrow> exn \<Rightarrow> exn" where
  "open_error label e = (case e of
       FileNotFoundError m \<Rightarrow> e
     | OSError m \<Rightarrow> if m = eloop then ValueError (label @ '' must not be a symlink'')
         else ValueError (label @ '' cannot be opened safely: '' @ m)
     | FileExistsError m \<Rightarrow> ValueError (label @ '' cannot be opened safely: '' @ m)
     | _ \<Rightarrow> e)"

definition changed_during_read :: "string \<Rightarrow> exn" where
  "changed_during_read label = ValueError (label @ '' changed during read'')"

definition read_descriptor :: "ident \<Rightarrow> string \<Rightarrow> string \<Rightarrow> nat \<Rightarrow> (world, string \<times> os_stat) act" where
  "read_descriptor i name label max_bytes =
     andthen (os_fstat i) (\<lambda>metadata.
     guarded (st_kind metadata = Regular) (ValueError (label @ '' must be a regular file''))
     (guarded (st_nlink metadata = 1) (ValueError (label @ '' must not be hard-linked''))
     (guarded (st_size metadata \<le> int max_bytes) (too_large label max_bytes)
     (andthen (read_bounded_at i label max_bytes []) (\<lambda>raw.
      andthen (os_fstat i) (\<lambda>final_descriptor.
      andthen (catching (os_stat_at name) (\<lambda>e. raising (if is_OSError e then changed_during_read label else e))) (\<lambda>final_name.
      guarded (same_snapshot final_descriptor metadata \<and> same_snapshot final_name metadata \<and> st_kind final_name = Regular)
        (changed_during_read label)
      (andthen (note_read i raw) (\<lambda>_. done_with (raw, final_descriptor))))))))))"

definition read_at :: "string \<Rightarrow> string \<Rightarrow> nat \<Rightarrow> (world, string \<times> os_stat) act" where
  "read_at name label max_bytes =
     guarded (name \<noteq> [] \<and> path_name name = name) (ValueError (label @ '' has an invalid filename''))
     (andthen (catching (os_open_read name) (\<lambda>e. raising (open_error label e))) (\<lambda>i.
      ensuring (read_descriptor i name label max_bytes) os_close))"

definition require_snapshot_at :: "string \<Rightarrow> ident \<Rightarrow> nat \<Rightarrow> digest \<Rightarrow> string \<Rightarrow> nat \<Rightarrow> (world, unit) act" where
  "require_snapshot_at name identity count digest label max_bytes =
     andthen (read_at name label max_bytes) (\<lambda>(raw, metadata).
     guarded (inode_pair metadata = identity \<and> st_size metadata = int count \<and> length raw = count \<and> sha256_hex raw = digest)
       (ValueError (label @ '' changed before transaction commit: '' @ name)) (done_with ()))"

section \<open>The state of a publication\<close>

text \<open>
  The locals that the error path looks at. \<open>old_claim_exists\<close> is shared with the callbacks and
  lives in the cell of the world named by the claim.
\<close>

record frame =
  f_open :: bool
  f_guard :: bool
  f_staged :: "ident option"
  f_verified :: bool
  f_old :: "ident option"
  f_published :: bool
  f_committed :: bool
  f_temporary :: string
  f_claim :: string

type_synonym publication = "(world \<times> world transaction) \<times> frame"

definition in_world :: "(world, 'a) act \<Rightarrow> (publication, 'a) act" where
  "in_world m = (\<lambda>((w, t), f). case m w of (w1, r) \<Rightarrow> (((w1, t), f), r))"

definition set_frame :: "(frame \<Rightarrow> frame) \<Rightarrow> (publication, unit) act" where
  "set_frame g = (\<lambda>(s, f). ((s, g f), Inr ()))"

definition with_frame :: "(frame \<Rightarrow> (publication, 'a) act) \<Rightarrow> (publication, 'a) act" where
  "with_frame k s = k (snd s) s"

definition in_transaction :: "((world \<times> world transaction), 'a) act \<Rightarrow> (publication, 'a) act" where
  "in_transaction m = (\<lambda>(s, f). case m s of (s1, r) \<Rightarrow> ((s1, f), r))"

definition set_cell :: "string \<Rightarrow> bool \<Rightarrow> (world, unit) act" where
  "set_cell name b w = (w\<lparr>w_cell := (w_cell w)(name := b)\<rparr>, Inr ())"

definition get_cell :: "string \<Rightarrow> (world, bool) act" where
  "get_cell name w = (w, Inr (w_cell w name))"

text \<open>The expected snapshot: device, inode, size and modification time, and the digest.\<close>

type_synonym expected = "(int \<times> int \<times> int \<times> int) \<times> digest"

definition expected_pair :: "expected \<Rightarrow> ident" where
  "expected_pair e = (case e of ((dev, ino, _, _), _) \<Rightarrow> (dev, ino))"

definition expected_content :: "expected \<Rightarrow> nat \<times> digest" where
  "expected_content e = (case e of ((_, _, count, _), dg) \<Rightarrow> (nat count, dg))"

definition matches_expected :: "string \<times> os_stat \<Rightarrow> expected \<Rightarrow> bool" where
  "matches_expected observed e = (case observed of (raw, metadata) \<Rightarrow> identity_of metadata = fst e \<and> sha256_hex raw = snd e)"

definition changed_before :: "string \<Rightarrow> string \<Rightarrow> exn" where
  "changed_before label name = ValueError (label @ '' changed before publication: '' @ name)"


section \<open>The steps\<close>

text \<open>The checks before anything is written.\<close>

definition destination_stat :: "string \<Rightarrow> (world, os_stat option) act" where
  "destination_stat name =
     andthen (attempt (os_stat_at name)) (\<lambda>r.
     case r of Inr m \<Rightarrow> done_with (Some m) | Inl (FileNotFoundError _) \<Rightarrow> done_with None | Inl e \<Rightarrow> raising e)"

definition check_destination :: "string \<Rightarrow> string \<Rightarrow> expected option \<Rightarrow> bool \<Rightarrow> (world, unit) act" where
  "check_destination name label expected must_not_exist =
     guarded (name \<noteq> [] \<and> path_name name = name) (ValueError (label @ '' has an invalid filename''))
     (andthen (destination_stat name) (\<lambda>current.
      guarded (case current of None \<Rightarrow> True | Some m \<Rightarrow> st_kind m \<noteq> Symlink)
        (ValueError (label @ '' must not be a symlink: '' @ name))
      (guarded (case current of None \<Rightarrow> True | Some m \<Rightarrow> st_kind m = Regular \<and> st_nlink m = 1)
        (ValueError (label @ '' must be a single-linked regular file: '' @ name))
      (guarded (\<not> (must_not_exist \<and> current \<noteq> None)) (FileExistsError (label @ '' already exists: '' @ name))
      (case expected of
         None \<Rightarrow> done_with ()
       | Some e \<Rightarrow>
           guarded (current \<noteq> None) (changed_before label name)
           (andthen (read_at name label max_dep_control_file_bytes) (\<lambda>observed.
            guarded (matches_expected observed e) (changed_before label name) (done_with ()))))))))"

text \<open>\<open>require_exact\<close>\<close>

definition require_exact :: "string \<Rightarrow> ident \<Rightarrow> nat \<times> digest \<Rightarrow> string \<Rightarrow> string \<Rightarrow> string \<Rightarrow> (world, ident) act" where
  "require_exact candidate identity content candidate_label label name =
     andthen (read_at candidate candidate_label (fst content)) (\<lambda>(raw, metadata).
     guarded (inode_pair metadata = identity \<and> st_size metadata = int (fst content) \<and> sha256_hex raw = snd content)
       (changed_before label name) (done_with (inode_pair metadata)))"

text \<open>\<open>discard_old_claim\<close> and \<open>restore_old_claim\<close>\<close>

definition discard_old_claim :: "string \<Rightarrow> ident \<Rightarrow> string \<Rightarrow> nat \<times> digest \<Rightarrow> (world, unit) act" where
  "discard_old_claim old_claim old label content =
     andthen (remove_owned_at old_claim old label (Some content)) (\<lambda>removed.
     guarded removed (ValueError (label @ '' predecessor claim changed during cleanup''))
     (set_cell old_claim False))"

definition restore_predecessor :: "string \<Rightarrow> string \<Rightarrow> string \<Rightarrow> ident \<Rightarrow> nat \<times> digest \<Rightarrow> (world, unit) act" where
  "restore_predecessor name old_claim label old content =
     andthen (require_snapshot_at old_claim old (fst content) (snd content) (label @ '' predecessor claim'')
       max_dep_control_file_bytes) (\<lambda>_.
     andthen (attempt (os_link old_claim name)) (\<lambda>r.
     case r of
       Inl (FileExistsError _) \<Rightarrow> discard_old_claim old_claim old label content
     | Inl e \<Rightarrow> raising e
     | Inr _ \<Rightarrow> andthen (discard_old_claim old_claim old label content) (\<lambda>_.
         require_snapshot_at name old (fst content) (snd content) label max_dep_control_file_bytes)))"

definition restore_old_claim ::
  "string \<Rightarrow> string \<Rightarrow> string \<Rightarrow> ident option \<Rightarrow> expected option \<Rightarrow> (world, unit) act" where
  "restore_old_claim name old_claim label old expected =
     andthen (get_cell old_claim) (\<lambda>exists.
     if \<not> exists then done_with ()
     else case (old, expected) of
       (Some i, Some e) \<Rightarrow> restore_predecessor name old_claim label i (expected_content e)
     | _ \<Rightarrow> raising (ValueError (label @ '' predecessor claim is incomplete'')))"

text \<open>\<open>while view: ... os.write\<close>\<close>

function write_all :: "ident \<Rightarrow> string \<Rightarrow> nat \<Rightarrow> string \<Rightarrow> (world, unit) act" where
  "write_all i label offset view w =
     (if view = [] then (w, Inr ())
      else case os_write i offset view w of
        (w1, Inl e) \<Rightarrow> (w1, Inl e)
      | (w1, Inr written) \<Rightarrow>
          (if written = 0 then (w1, Inl (OSError (label @ '' write made no progress'')))
           else write_all i label (offset + written) (drop written view) w1))"
  by pat_completeness auto
termination
  by (relation "measure (\<lambda>(i, label, offset, view, w). length view)") auto

declare write_all.simps [simp del]

lemma write_all_step: "write_all i label offset view = (if view = [] then done_with () else
    andthen (os_write i offset view) (\<lambda>written.
      if written = 0 then raising (OSError (label @ '' write made no progress''))
      else write_all i label (offset + written) (drop written view)))"
  by (rule ext, subst write_all.simps) (simp add: andthen_def split: prod.splits sum.splits)


section \<open>The publication\<close>

record request =
  r_name :: string
  r_label :: string
  r_encoded :: string
  r_expected :: "expected option"
  r_must_not_exist :: bool

definition new_content :: "request \<Rightarrow> nat \<times> digest" where
  "new_content r = (length (r_encoded r), sha256_hex (r_encoded r))"

text \<open>The staging file is written and checked; a duplicate descriptor keeps its inode.\<close>

definition fill_staged :: "request \<Rightarrow> string \<Rightarrow> ident \<Rightarrow> os_stat \<Rightarrow> (publication, unit) act" where
  "fill_staged r temporary i opened =
     andthen (set_frame (\<lambda>f. f\<lparr>f_staged := Some (inode_pair opened)\<rparr>)) (\<lambda>_.
     guarded (st_kind opened = Regular \<and> st_nlink opened = 1)
       (ValueError (r_label r @ '' staging file is unsafe: '' @ r_name r))
     (andthen (in_world (write_all i (r_label r @ '' staging'') 0 (r_encoded r))) (\<lambda>_.
      andthen (in_world os_sync) (\<lambda>_.
      andthen (in_world (os_fstat i)) (\<lambda>final_fd.
      andthen (in_world (os_stat_at temporary)) (\<lambda>final_path.
      guarded (st_kind final_path = Regular \<and> st_nlink final_path = 1 \<and> inode_pair final_fd = inode_pair opened
          \<and> inode_pair final_path = inode_pair opened \<and> st_size final_fd = int (length (r_encoded r)))
        (ValueError (r_label r @ '' staging file changed during write: '' @ r_name r))
      (andthen (in_world os_dup) (\<lambda>_.
       andthen (set_frame (\<lambda>f. f\<lparr>f_guard := True, f_open := False\<rparr>)) (\<lambda>_.
       andthen (in_world os_close) (\<lambda>_. in_world os_sync))))))))))"

definition stage_document :: "request \<Rightarrow> string \<Rightarrow> (publication, ident) act" where
  "stage_document r temporary =
     andthen (in_world (os_create temporary 384)) (\<lambda>i.
     andthen (set_frame (\<lambda>f. f\<lparr>f_open := True\<rparr>)) (\<lambda>_.
     andthen (in_world (os_fstat i)) (\<lambda>opened.
     andthen (fill_staged r temporary i opened) (\<lambda>_. done_with (inode_pair opened)))))"

definition close_quietly :: "(world, unit) act" where
  "close_quietly = catching os_close (\<lambda>e. if is_OSError e then done_with () else raising e)"

text \<open>A private link pins the staged file; the temporary name goes.\<close>

definition claim_staged :: "request \<Rightarrow> string \<Rightarrow> string \<Rightarrow> ident \<Rightarrow> (publication, unit) act" where
  "claim_staged r temporary claim identity =
     andthen (in_world (os_link temporary claim)) (\<lambda>_.
     andthen (set_frame (\<lambda>f. f\<lparr>f_guard := False\<rparr>)) (\<lambda>_.
     andthen (in_world close_quietly) (\<lambda>_.
     andthen (in_world (remove_owned_at temporary identity (r_label r @ '' staging file'') (Some (new_content r)))) (\<lambda>removed.
     guarded removed (ValueError (r_label r @ '' staging file changed before cleanup: '' @ r_name r))
     (andthen (set_frame (\<lambda>f. f\<lparr>f_temporary := []\<rparr>)) (\<lambda>_.
      andthen (in_world (require_exact claim identity (new_content r) (r_label r @ '' claimed staging file'') (r_label r) (r_name r)))
        (\<lambda>_. set_frame (\<lambda>f. f\<lparr>f_verified := True\<rparr>))))))))"

text \<open>The predecessor keeps a private link before its name goes.\<close>

definition claim_predecessor :: "request \<Rightarrow> string \<Rightarrow> expected \<Rightarrow> (publication, unit) act" where
  "claim_predecessor r old_claim e =
     andthen (in_world (os_link (r_name r) old_claim)) (\<lambda>_.
     andthen (in_world (set_cell old_claim True)) (\<lambda>_.
     andthen (in_world (remove_owned_at (r_name r) (expected_pair e) (r_label r) (Some (expected_content e)))) (\<lambda>_.
     andthen (in_world (read_at old_claim (r_label r) max_dep_control_file_bytes)) (\<lambda>observed.
     andthen (set_frame (\<lambda>f. f\<lparr>f_old := Some (inode_pair (snd observed))\<rparr>)) (\<lambda>_.
     if matches_expected observed e then done_with ()
     else andthen (in_world (restore_old_claim (r_name r) old_claim (r_label r) (Some (inode_pair (snd observed))) (Some e)))
       (\<lambda>_. raising (changed_before (r_label r) (r_name r))))))))"

definition link_error :: "request \<Rightarrow> exn \<Rightarrow> exn" where
  "link_error r e = (case e of
       FileExistsError _ \<Rightarrow>
         (if r_expected r \<noteq> None then ValueError (r_label r @ '' received a later writer before publication: '' @ r_name r)
          else if r_must_not_exist r then FileExistsError (r_label r @ '' already exists: '' @ r_name r)
          else FileExistsError (r_label r @ '' received an unexpected writer: '' @ r_name r))
     | _ \<Rightarrow> e)"

definition publish_staged :: "request \<Rightarrow> string \<Rightarrow> ident \<Rightarrow> (publication, ident) act" where
  "publish_staged r claim identity =
     andthen (in_world (catching (os_link claim (r_name r)) (\<lambda>e. raising (link_error r e)))) (\<lambda>_.
     andthen (set_frame (\<lambda>f. f\<lparr>f_published := True\<rparr>)) (\<lambda>_.
     andthen (in_world (remove_owned_at claim identity (r_label r @ '' claimed staging file'') (Some (new_content r)))) (\<lambda>removed.
     guarded removed (ValueError (r_label r @ '' staging claim changed before cleanup: '' @ r_name r))
     (andthen (set_frame (\<lambda>f. f\<lparr>f_claim := []\<rparr>)) (\<lambda>_.
      andthen (in_world (require_exact (r_name r) identity (new_content r) (r_label r) (r_label r) (r_name r))) (\<lambda>_.
      andthen (in_world os_sync) (\<lambda>_.
      in_world (require_exact (r_name r) identity (new_content r) (r_label r) (r_label r) (r_name r)))))))))"

text \<open>The callbacks of the transaction.\<close>

definition rollback_publication :: "request \<Rightarrow> string \<Rightarrow> ident \<Rightarrow> ident option \<Rightarrow> (world, unit) act" where
  "rollback_publication r old_claim new_identity old =
     andthen (remove_owned_at (r_name r) new_identity (r_label r) (Some (new_content r))) (\<lambda>_.
     if r_expected r \<noteq> None then restore_old_claim (r_name r) old_claim (r_label r) old (r_expected r) else done_with ())"

definition verify_publication :: "request \<Rightarrow> ident \<Rightarrow> (world, unit) act" where
  "verify_publication r new_identity =
     require_snapshot_at (r_name r) new_identity (fst (new_content r)) (snd (new_content r)) (r_label r) max_dep_control_file_bytes"

definition remove_predecessor :: "request \<Rightarrow> string \<Rightarrow> ident \<Rightarrow> expected \<Rightarrow> (world, unit) act" where
  "remove_predecessor r old_claim i e =
     andthen (attempt (remove_owned_at old_claim i (r_label r) (Some (expected_content e)))) (\<lambda>outcome.
     case outcome of
       Inr removed \<Rightarrow> guarded removed (ValueError (r_label r @ '' predecessor claim changed before finalization''))
         (set_cell old_claim False)
     | Inl failure \<Rightarrow> andthen (attempt (os_stat_at old_claim)) (\<lambda>s.
         case s of
           Inl (FileNotFoundError _) \<Rightarrow> set_cell old_claim False
         | Inl x \<Rightarrow> raising x
         | Inr _ \<Rightarrow> raising failure))"

definition finalize_predecessor :: "request \<Rightarrow> string \<Rightarrow> ident option \<Rightarrow> expected \<Rightarrow> (world, unit) act" where
  "finalize_predecessor r old_claim old e =
     andthen (get_cell old_claim) (\<lambda>exists.
     case old of
       Some i \<Rightarrow> if exists then remove_predecessor r old_claim i e else done_with ()
     | None \<Rightarrow> done_with ())"

definition retain_at :: "(world \<times> world transaction, unit) act" where
  "retain_at = (\<lambda>(w, t).
     if t_finished t then ((w, t), Inl finished_error)
     else case os_dup w of (w1, duplicated) \<Rightarrow> (case retain_directory t duplicated of
       Inl e \<Rightarrow> ((w1, t), Inl e) | Inr t1 \<Rightarrow> ((w1, t1), Inr ())))"

definition add_at ::
  "(world, unit) act \<Rightarrow> (world, unit) act option \<Rightarrow> (world, unit) act option \<Rightarrow> (world \<times> world transaction, unit) act" where
  "add_at rollback finalize check = (\<lambda>(w, t). case add_callbacks t rollback finalize check of
     Inl e \<Rightarrow> ((w, t), Inl e) | Inr t1 \<Rightarrow> ((w, t1), Inr ()))"

definition register_publication :: "request \<Rightarrow> string \<Rightarrow> ident \<Rightarrow> bool \<Rightarrow> (publication, unit) act" where
  "register_publication r old_claim new_identity owned_transaction =
     andthen (in_transaction retain_at) (\<lambda>_.
     with_frame (\<lambda>f.
     andthen (in_transaction (add_at (rollback_publication r old_claim new_identity (f_old f))
       (map_option (finalize_predecessor r old_claim (f_old f)) (r_expected r)) (Some (verify_publication r new_identity)))) (\<lambda>_.
     if owned_transaction then in_transaction txn_finalize else done_with ())))"

text \<open>The body of the \<open>try\<close> block; \<open>has_transaction\<close> says whether there is a transaction.\<close>

definition publish_document :: "request \<Rightarrow> bool \<Rightarrow> bool \<Rightarrow> string \<Rightarrow> string \<Rightarrow> string \<Rightarrow> (publication, unit) act" where
  "publish_document r has_transaction owned_transaction temporary claim old_claim =
     andthen (stage_document r temporary) (\<lambda>identity.
     andthen (claim_staged r temporary claim identity) (\<lambda>_.
     andthen (case r_expected r of None \<Rightarrow> done_with () | Some e \<Rightarrow> claim_predecessor r old_claim e) (\<lambda>_.
     andthen (publish_staged r claim identity) (\<lambda>new_identity.
     andthen (if has_transaction then register_publication r old_claim new_identity owned_transaction else done_with ()) (\<lambda>_.
     set_frame (\<lambda>f. f\<lparr>f_committed := True\<rparr>))))))"


section \<open>The error path\<close>

text \<open>
  The handler reports the primary exception, whatever the cleanup steps raise. Each step looks
  at the locals as they are.
\<close>

definition quietly :: "(publication, 'a) act \<Rightarrow> (publication, unit) act" where
  "quietly m = andthen (attempt m) (\<lambda>_. done_with ())"

definition staged_content :: "request \<Rightarrow> frame \<Rightarrow> (nat \<times> digest) option" where
  "staged_content r f = (if f_verified f then Some (new_content r) else None)"

definition close_descriptor :: "(publication, unit) act" where
  "close_descriptor = with_frame (\<lambda>f.
     if f_open f then andthen (set_frame (\<lambda>f. f\<lparr>f_open := False\<rparr>)) (\<lambda>_. quietly (in_world os_close)) else done_with ())"

definition withdraw_published :: "request \<Rightarrow> (publication, unit) act" where
  "withdraw_published r = with_frame (\<lambda>f.
     case f_staged f of
       Some i \<Rightarrow> if f_published f \<and> \<not> f_committed f
         then quietly (in_world (remove_owned_at (r_name r) i (r_label r) (Some (new_content r)))) else done_with ()
     | None \<Rightarrow> done_with ())"

definition restore_at_error :: "request \<Rightarrow> string \<Rightarrow> (publication, unit) act" where
  "restore_at_error r old_claim = with_frame (\<lambda>f.
     if r_expected r \<noteq> None
     then quietly (in_world (restore_old_claim (r_name r) old_claim (r_label r) (f_old f) (r_expected r))) else done_with ())"

definition close_guard :: "(publication, unit) act" where
  "close_guard = with_frame (\<lambda>f.
     if f_guard f then andthen (set_frame (\<lambda>f. f\<lparr>f_guard := False\<rparr>)) (\<lambda>_. in_world close_quietly) else done_with ())"

definition remove_temporary :: "request \<Rightarrow> (publication, unit) act" where
  "remove_temporary r = with_frame (\<lambda>f.
     case f_staged f of
       Some i \<Rightarrow> if f_temporary f \<noteq> [] then quietly
         (andthen (in_world (remove_owned_at (f_temporary f) i (r_label r @ '' staging file'') (staged_content r f))) (\<lambda>removed.
          guarded removed (ValueError (r_label r @ '' staging file changed during cleanup''))
          (set_frame (\<lambda>f. f\<lparr>f_temporary := []\<rparr>)))) else done_with ()
     | None \<Rightarrow> done_with ())"

definition remove_staged_claim :: "request \<Rightarrow> (publication, unit) act" where
  "remove_staged_claim r = with_frame (\<lambda>f.
     case f_staged f of
       Some i \<Rightarrow> if f_claim f \<noteq> [] then quietly
         (andthen (in_world (remove_owned_at (f_claim f) i (r_label r @ '' staging claim'') (staged_content r f))) (\<lambda>removed.
          guarded removed (ValueError (r_label r @ '' staging claim changed during cleanup''))
          (set_frame (\<lambda>f. f\<lparr>f_claim := []\<rparr>)))) else done_with ()
     | None \<Rightarrow> done_with ())"

definition clean_up :: "request \<Rightarrow> string \<Rightarrow> exn \<Rightarrow> (publication, unit) act" where
  "clean_up r old_claim primary =
     andthen close_descriptor (\<lambda>_.
     andthen (withdraw_published r) (\<lambda>_.
     andthen (restore_at_error r old_claim) (\<lambda>_.
     andthen close_guard (\<lambda>_.
     andthen (remove_temporary r) (\<lambda>_.
     andthen (remove_staged_claim r) (\<lambda>_. raising primary))))))"

text \<open>The \<open>finally\<close> block.\<close>

definition sweep :: "request \<Rightarrow> string \<Rightarrow> string \<Rightarrow> ident \<Rightarrow> (publication, unit) act" where
  "sweep r name label i =
     (if name = [] then done_with ()
      else catching (andthen (in_world (remove_owned_at name i (r_label r @ label) (Some (new_content r)))) (\<lambda>_. done_with ()))
        (\<lambda>e. if is_OSError e \<or> is_ValueError e then done_with () else raising e))"

definition sweep_residue :: "request \<Rightarrow> (publication, unit) act" where
  "sweep_residue r = with_frame (\<lambda>f.
     case f_staged f of
       Some i \<Rightarrow> andthen (sweep r (f_temporary f) '' staging file'' i) (\<lambda>_. sweep r (f_claim f) '' claimed staging file'' i)
     | None \<Rightarrow> done_with ())"

definition new_frame :: "string \<Rightarrow> string \<Rightarrow> frame" where
  "new_frame temporary claim = \<lparr>f_open = False, f_guard = False, f_staged = None, f_verified = False, f_old = None,
     f_published = False, f_committed = False, f_temporary = temporary, f_claim = claim\<rparr>"

definition run_publication :: "request \<Rightarrow> bool \<Rightarrow> bool \<Rightarrow> string \<Rightarrow> string \<Rightarrow> string \<Rightarrow> (world \<times> world transaction, unit) act" where
  "run_publication r has_transaction owned_transaction temporary claim old_claim s =
     (case ensuring (catching (publish_document r has_transaction owned_transaction temporary claim old_claim) (clean_up r old_claim))
         (sweep_residue r) (s, new_frame temporary claim) of ((s1, _), res) \<Rightarrow> (s1, res))"

definition on_world :: "(world, 'a) act \<Rightarrow> (world \<times> world transaction, 'a) act" where
  "on_world m = (\<lambda>(w, t). case m w of (w1, r) \<Rightarrow> ((w1, t), r))"

definition publish_in :: "request \<Rightarrow> bool \<Rightarrow> bool \<Rightarrow> (world \<times> world transaction, unit) act" where
  "publish_in r has_transaction owned_transaction =
     andthen (on_world (check_destination (r_name r) (r_label r) (r_expected r) (r_must_not_exist r))) (\<lambda>_.
     andthen (on_world draw_token) (\<lambda>a.
     andthen (on_world draw_token) (\<lambda>b.
     andthen (on_world draw_token) (\<lambda>c.
     andthen (on_world (set_cell (''.sddgov.control-old-'' @ c) False)) (\<lambda>_.
     run_publication r has_transaction owned_transaction
       (''.sddgov.control-stage-'' @ a) (''.sddgov.control-new-'' @ b) (''.sddgov.control-old-'' @ c))))))"

text \<open>
  With a transaction of the caller the callbacks go there; without one, a publication that
  replaces a document makes its own and settles it.
\<close>

definition write_bytes_at :: "request \<Rightarrow> bool \<Rightarrow> (world \<times> world transaction, unit) act" where
  "write_bytes_at r given = (\<lambda>(w, t).
     if given then publish_in r True False (w, t)
     else if r_expected r \<noteq> None
     then (case publish_in r True True (w, new_transaction) of ((w1, _), res) \<Rightarrow> ((w1, t), res))
     else publish_in r False False (w, t))"

end
