(* ===== verification/Publish_Facts.thy ===== *)
theory Publish_Facts
  imports Dep_Publish
begin

text \<open>
  A publication and the callbacks it leaves behind keep to the policy: whatever other processes
  and faults do, the only files that are removed are files the publication created, and files
  whose bytes it read and found to be those of the expected predecessor.
\<close>


section \<open>Routines that keep to the policy\<close>

text \<open>On the world: the routine may rely on the files \<open>I\<close> having been created.\<close>

definition spares :: "policy \<Rightarrow> ident set \<Rightarrow> (world, 'a) act \<Rightarrow> bool" where
  "spares P I m \<longleftrightarrow> (\<forall>M w. I \<subseteq> M \<longrightarrow> tidy P M {} {} w \<longrightarrow> wp m (\<lambda>_. tidy P M {} {}) (\<lambda>_. tidy P M {} {}) w)"

named_theorems spare \<open>routines that keep to the policy\<close>

lemma spares_mono: "spares P I m \<Longrightarrow> I \<subseteq> J \<Longrightarrow> spares P J m"
  by (auto simp: spares_def)

lemma spares_simple [spare]: "spares P I (done_with a)" "spares P I (raising e)"
  by (simp_all add: spares_def wp_simps)

lemma spares_wp:
  assumes "spares P I m" and "I \<subseteq> M" and "tidy P M {} {} w"
    and "\<And>a w'. tidy P M {} {} w' \<Longrightarrow> Q a w'" and "\<And>e w'. tidy P M {} {} w' \<Longrightarrow> X e w'"
  shows "wp m Q X w"
proof -
  have "wp m (\<lambda>_. tidy P M {} {}) (\<lambda>_. tidy P M {} {}) w" using assms(1-3) by (simp add: spares_def)
  then show ?thesis by (rule wp_mono) (auto intro: assms(4,5))
qed

lemma sparesI: "(\<And>M w. I \<subseteq> M \<Longrightarrow> tidy P M {} {} w \<Longrightarrow> wp m (\<lambda>_. tidy P M {} {}) (\<lambda>_. tidy P M {} {}) w) \<Longrightarrow> spares P I m"
  by (simp add: spares_def)

lemma spares_andthen [spare]: "spares P I m \<Longrightarrow> (\<And>a. spares P I (k a)) \<Longrightarrow> spares P I (andthen m k)"
  by (rule sparesI, unfold wp_simps) (rule spares_wp, assumption+, rule spares_wp)

lemma spares_guarded [spare]: "spares P I m \<Longrightarrow> spares P I (guarded ok e m)"
  by (simp add: spares_def wp_simps)

lemma spares_catching [spare]: "spares P I m \<Longrightarrow> (\<And>e. spares P I (h e)) \<Longrightarrow> spares P I (catching m h)"
  by (rule sparesI, unfold wp_simps) (rule spares_wp, assumption+, rule spares_wp)

lemma spares_ensuring [spare]: "spares P I m \<Longrightarrow> spares P I f \<Longrightarrow> spares P I (ensuring m f)"
  by (rule sparesI, unfold wp_simps) (rule spares_wp, assumption+, (rule spares_wp, assumption+)+)

lemma spares_attempt [spare]: "spares P I m \<Longrightarrow> spares P I (attempt m)"
  by (simp add: spares_def wp_simps)

lemma spares_calls [spare]:
  "spares P I (os_stat_at name)" "spares P I (os_fstat i)" "spares P I (os_open_read name)" "spares P I (os_read i n)"
  "spares P I os_sync" "spares P I os_close" "spares P I os_dup" "spares P I (os_link a b)" "spares P I draw_token"
  unfolding spares_def
  by (auto intro: wp_stat wp_fstat wp_open_read wp_read wp_sync wp_link wp_token)

lemma spares_note [spare]: "spares P I (note_read i bytes)"
  unfolding spares_def by (auto intro!: wp_note elim: tidy_mono)

lemma spares_cell [spare]: "spares P I (set_cell name b)" "spares P I (get_cell name)"
  by (simp_all add: spares_def wp_def set_cell_def get_cell_def)

lemma spares_write [spare]: "i \<in> I \<Longrightarrow> spares P I (os_write i offset new)"
  unfolding spares_def by (auto intro!: wp_write)

lemma spares_remove [spare]:
  "p_created P \<and> i \<in> I \<or> (\<exists>n dg. expected = Some (n, dg) \<and> dg \<in> p_digests P) \<Longrightarrow> spares P I (remove_owned_at name i label expected)"
  unfolding spares_def removable_def by (intro allI impI wp_remove_owned) (auto simp: removable_def)

lemma spares_read_bounded [spare]: "spares P I (read_bounded_at i label n observed)"
proof -
  have "wp (read_bounded_at i label n observed) (\<lambda>_. tidy P M {} {}) (\<lambda>_. tidy P M {} {}) w" if "tidy P M {} {} w" for M w
    using that
  proof (induction "n - length observed" arbitrary: observed w rule: less_induct)
    case less
    have "wp (read_bounded_at i label n (observed @ chunk)) (\<lambda>_. tidy P M {} {}) (\<lambda>_. tidy P M {} {}) w1"
      if "tidy P M {} {} w1" "chunk \<noteq> []" "length observed + length chunk \<le> n" for chunk w1
      by (rule less(1)) (use that in \<open>cases chunk; simp\<close>)+
    then show ?case
      unfolding read_bounded_step [of i label n observed] wp_simps
      by (intro wp_read [OF less(2)]) (auto simp: wp_simps)
  qed
  then show ?thesis by (simp add: spares_def)
qed

lemma spares_write_all [spare]: "i \<in> I \<Longrightarrow> spares P I (write_all i label offset view)"
proof (induction "length view" arbitrary: offset view rule: less_induct)
  case less
  have "spares P I (write_all i label (offset + k) (drop k view))" if "view \<noteq> []" "0 < k" for k
    by (rule less(1)) (use that less(2) in simp_all)
  then show ?case
    unfolding write_all_step [of i label offset view] using less(2) by (auto intro!: spare)
qed


section \<open>The routines\<close>

text \<open>The policy of one publication.\<close>

definition publication_policy :: "expected option \<Rightarrow> policy" where
  "publication_policy expected = \<lparr>p_owned = {}, p_created = True,
     p_digests = (case expected of None \<Rightarrow> {} | Some (_, dg) \<Rightarrow> {dg})\<rparr>"

lemma policy_created [simp]: "p_created (publication_policy expected)" "p_owned (publication_policy expected) = {}"
  by (simp_all add: publication_policy_def)

lemma spares_predecessor [spare]:
  "expected = Some e \<Longrightarrow> spares (publication_policy expected) I (remove_owned_at name i label (Some (expected_content e)))"
  by (rule spares_remove) (auto simp: publication_policy_def expected_content_def split: prod.splits)

lemma spares_read_at [spare]: "spares P I (read_at name label n)"
  unfolding read_at_def read_descriptor_def by (intro spare)

lemma spares_require [spare]:
  "spares P I (require_snapshot_at name identity count dg label n)" "spares P I (require_exact candidate identity content clabel label name)"
  unfolding require_snapshot_at_def require_exact_def by (auto intro!: spare split: prod.splits)

lemma spares_check [spare]: "spares P I (check_destination name label expected must_not_exist)"
  unfolding check_destination_def destination_stat_def by (auto intro!: spare split: sum.splits exn.splits option.splits)

lemma spares_restore [spare]: "spares (publication_policy expected) I (restore_old_claim name old_claim label old expected)"
  unfolding restore_old_claim_def restore_predecessor_def discard_old_claim_def
  by (auto intro!: spare split: sum.splits exn.splits option.splits)

lemma spares_close [spare]: "spares P I close_quietly"
  unfolding close_quietly_def by (auto intro!: spare)

lemma spares_callbacks:
  assumes "new_identity \<in> I" and "P = publication_policy (r_expected r)"
  shows "spares P I (rollback_publication r old_claim new_identity old)" "spares P I (verify_publication r new_identity)"
    and "r_expected r = Some e \<Longrightarrow> spares P I (finalize_predecessor r old_claim old e)"
proof -
  have "spares P I (remove_owned_at (r_name r) new_identity (r_label r) (Some (new_content r)))"
    by (rule spares_remove) (use assms in simp)
  then show "spares P I (rollback_publication r old_claim new_identity old)"
    using assms(2) unfolding rollback_publication_def by (auto intro!: spare)
  show "spares P I (verify_publication r new_identity)" unfolding verify_publication_def by (intro spare)
  show "spares P I (finalize_predecessor r old_claim old e)" if "r_expected r = Some e"
    unfolding finalize_predecessor_def remove_predecessor_def assms(2)
    by (auto intro!: spare that split: sum.splits exn.splits option.splits)
qed


section \<open>Publications that keep to the policy\<close>

definition callbacks :: "'w transaction \<Rightarrow> ('w, unit) act set" where
  "callbacks t = set (t_rollback t) \<union> set (t_finalize t) \<union> set (t_verify t)"

text \<open>
  The files \<open>M\<close> were created, the staged file among them, and the registered callbacks keep to
  the policy.
\<close>

definition orderly :: "policy \<Rightarrow> ident set \<Rightarrow> publication \<Rightarrow> bool" where
  "orderly P M = (\<lambda>((w, t), f). tidy P M {} {} w \<and> (\<forall>cb\<in>callbacks t. spares P M cb) \<and> set_option (f_staged f) \<subseteq> M)"

definition keeps :: "policy \<Rightarrow> ident set \<Rightarrow> (publication, 'a) act \<Rightarrow> bool" where
  "keeps P I m \<longleftrightarrow> (\<forall>M s. I \<subseteq> M \<longrightarrow> orderly P M s \<longrightarrow> wp m (\<lambda>_. orderly P M) (\<lambda>_. orderly P M) s)"

named_theorems keep \<open>publication steps that keep to the policy\<close>

lemma keepsI: "(\<And>M s. I \<subseteq> M \<Longrightarrow> orderly P M s \<Longrightarrow> wp m (\<lambda>_. orderly P M) (\<lambda>_. orderly P M) s) \<Longrightarrow> keeps P I m"
  by (simp add: keeps_def)

lemma keeps_wp:
  assumes "keeps P I m" and "I \<subseteq> M" and "orderly P M s"
    and "\<And>a s'. orderly P M s' \<Longrightarrow> Q a s'" and "\<And>e s'. orderly P M s' \<Longrightarrow> X e s'"
  shows "wp m Q X s"
proof -
  have "wp m (\<lambda>_. orderly P M) (\<lambda>_. orderly P M) s" using assms(1-3) unfolding keeps_def by blast
  then show ?thesis by (rule wp_mono) (auto intro: assms(4,5))
qed

lemma keeps_simple [keep]: "keeps P I (done_with a)" "keeps P I (raising e)"
  by (simp_all add: keeps_def wp_simps)

lemma keeps_andthen [keep]: "keeps P I m \<Longrightarrow> (\<And>a. keeps P I (k a)) \<Longrightarrow> keeps P I (andthen m k)"
  by (rule keepsI, unfold wp_simps) (rule keeps_wp, assumption+, rule keeps_wp)

lemma keeps_guarded [keep]: "keeps P I m \<Longrightarrow> keeps P I (guarded ok e m)"
  by (simp add: keeps_def wp_simps)

lemma keeps_attempt [keep]: "keeps P I m \<Longrightarrow> keeps P I (attempt m)"
  by (simp add: keeps_def wp_simps)

lemma keeps_catching [keep]: "keeps P I m \<Longrightarrow> (\<And>e. keeps P I (h e)) \<Longrightarrow> keeps P I (catching m h)"
  by (rule keepsI, unfold wp_simps) (rule keeps_wp, assumption+, rule keeps_wp)

lemma wp_in_world: "wp (in_world m) Q X s =
    wp m (\<lambda>a w. Q a ((w, snd (fst s)), snd s)) (\<lambda>e w. X e ((w, snd (fst s)), snd s)) (fst (fst s))"
  by (auto simp: wp_def in_world_def split: prod.splits sum.splits)

lemma keeps_in_world [keep]: "spares P I m \<Longrightarrow> keeps P I (in_world m)"
  by (rule keepsI, unfold wp_in_world, rule spares_wp) (auto simp: orderly_def)

lemma wp_set_frame: "wp (set_frame g) Q X s = Q () (fst s, g (snd s))"
  by (auto simp: wp_def set_frame_def split: prod.splits)

lemma keeps_set_frame [keep]: "(\<And>f. set_option (f_staged (g f)) \<subseteq> I \<union> set_option (f_staged f)) \<Longrightarrow> keeps P I (set_frame g)"
  by (rule keepsI) (fastforce simp: wp_def set_frame_def orderly_def)

lemma keeps_with_frame [keep]: "(\<And>f. keeps P (I \<union> set_option (f_staged f)) (k f)) \<Longrightarrow> keeps P I (with_frame k)"
  by (auto simp: keeps_def with_frame_def wp_def orderly_def)



text \<open>The transaction: registering callbacks and settling.\<close>

lemma wp_in_transaction: "wp (in_transaction m) Q X s = wp m (\<lambda>a s1. Q a (s1, snd s)) (\<lambda>e s1. X e (s1, snd s)) (fst s)"
  by (auto simp: wp_def in_transaction_def split: prod.splits sum.splits)

lemma keeps_retain [keep]: "keeps P I (in_transaction retain_at)"
proof (rule keepsI)
  fix M s assume "orderly P M s"
  then obtain w t f where s: "s = ((w, t), f)" and w: "tidy P M {} {} w"
    and cb: "\<forall>cb\<in>callbacks t. spares P M cb" "set_option (f_staged f) \<subseteq> M" by (auto simp: orderly_def)
  have "wp os_dup (\<lambda>_. tidy P M {} {}) (\<lambda>_. tidy P M {} {}) w" by (rule wp_sync [OF w])
  then show "wp (in_transaction retain_at) (\<lambda>_. orderly P M) (\<lambda>_. orderly P M) s"
    unfolding wp_in_transaction using cb w by (auto simp: s wp_def retain_at_def retain_directory_def require_def rbind_Inr_iff orderly_def callbacks_def
        split: prod.splits sum.splits)
qed

lemma keeps_add [keep]:
  assumes "\<And>cb. cb \<in> {rollback} \<union> set_option fin \<union> set_option check \<Longrightarrow> spares P I cb"
  shows "keeps P I (in_transaction (add_at rollback fin check))"
proof (rule keepsI)
  fix M s assume M: "I \<subseteq> M" "orderly P M s"
  have "spares P M cb" if "cb \<in> {rollback} \<union> set_option fin \<union> set_option check" for cb
    by (rule spares_mono [OF assms [OF that] M(1)])
  then show "wp (in_transaction (add_at rollback fin check)) (\<lambda>_. orderly P M) (\<lambda>_. orderly P M) s"
    unfolding wp_in_transaction using M(2) by (auto simp: wp_def add_at_def add_callbacks_def require_def orderly_def callbacks_def
        split: prod.splits sum.splits option.splits)
qed

lemma run_all_tidy: "(\<And>cb. cb \<in> set fs \<Longrightarrow> spares P M cb) \<Longrightarrow> tidy P M {} {} w \<Longrightarrow> tidy P M {} {} (fst (run_all fs w))"
proof (induction fs arbitrary: w)
  case (Cons f fs)
  have "tidy P M {} {} (fst (f w))"
    using spares_wp [OF Cons.prems(1) subset_refl Cons.prems(2), of f "\<lambda>_. tidy P M {} {}" "\<lambda>_. tidy P M {} {}"]
    by (auto simp: wp_def split: prod.splits sum.splits)
  then show ?case using Cons by (auto split: prod.splits) (metis fst_conv)
qed simp

lemma run_until_tidy: "(\<And>cb. cb \<in> set fs \<Longrightarrow> spares P M cb) \<Longrightarrow> tidy P M {} {} w \<Longrightarrow> tidy P M {} {} (fst (run_until fs w))"
proof (induction fs arbitrary: w)
  case (Cons f fs)
  have "tidy P M {} {} (fst (f w))"
    using spares_wp [OF Cons.prems(1) subset_refl Cons.prems(2), of f "\<lambda>_. tidy P M {} {}" "\<lambda>_. tidy P M {} {}"]
    by (auto simp: wp_def split: prod.splits sum.splits)
  then show ?case using Cons by (auto split: prod.splits sum.splits)
qed simp

lemma settle_tidy:
  assumes "tidy P M {} {} w" and "\<And>cb. cb \<in> callbacks t \<Longrightarrow> spares P M cb"
  shows "tidy P M {} {} (fst (fst (txn_rollback (w, t))))" "tidy P M {} {} (fst (fst (txn_finalize (w, t))))"
proof -
  have roll: "tidy P M {} {} (fst (fst (txn_rollback (w1, t))))" if "tidy P M {} {} w1" for w1
    using run_all_tidy [of "rev (t_rollback t)", OF _ that] that assms(2)
    by (auto simp: txn_rollback_def callbacks_def split: prod.splits)
  then show "tidy P M {} {} (fst (fst (txn_rollback (w, t))))" using assms(1) .
  obtain w1 v where w1: "run_until (t_verify t) w = (w1, v)" by fastforce
  obtain w2 x where w2: "run_all (t_finalize t) w1 = (w2, x)" by fastforce
  have "tidy P M {} {} (fst (run_until (t_verify t) w))"
    by (rule run_until_tidy [OF _ assms(1)]) (simp add: assms(2) callbacks_def)
  then have t1: "tidy P M {} {} w1" using w1 by simp
  have "tidy P M {} {} (fst (run_all (t_finalize t) w1))"
    by (rule run_all_tidy [OF _ t1]) (simp add: assms(2) callbacks_def)
  then have t2: "tidy P M {} {} w2" using w2 by simp
  show "tidy P M {} {} (fst (fst (txn_finalize (w, t))))"
    using assms(1) t2 roll [OF t1] roll [OF t2]
    by (simp add: txn_finalize_def rollback_and_raise_def w1 w2 split: option.splits)
qed

lemma settle_callbacks:
  "callbacks (snd (fst (txn_finalize (w, t)))) \<subseteq> callbacks t"
  by (auto simp: txn_finalize_def rollback_and_raise_def txn_rollback_def settled_def callbacks_def split: prod.splits option.splits)

lemma keeps_finalize [keep]: "keeps P I (in_transaction txn_finalize)"
proof (rule keepsI)
  fix M s assume "orderly P M s"
  then obtain w t f where s: "s = ((w, t), f)" and w: "tidy P M {} {} w"
    and cb: "\<And>cb. cb \<in> callbacks t \<Longrightarrow> spares P M cb" and f: "set_option (f_staged f) \<subseteq> M" by (auto simp: orderly_def)
  obtain w1 t1 res where run: "txn_finalize (w, t) = ((w1, t1), res)" by (metis prod.collapse)
  have "tidy P M {} {} w1" using settle_tidy(2) [of P M w t, OF w cb] run by simp
  moreover have "callbacks t1 \<subseteq> callbacks t" using settle_callbacks [of w t] run by simp
  ultimately show "wp (in_transaction txn_finalize) (\<lambda>_. orderly P M) (\<lambda>_. orderly P M) s"
    unfolding wp_in_transaction using cb f by (auto simp: s wp_def run orderly_def split: sum.splits)
qed


section \<open>The steps of a publication\<close>

abbreviation policy_of :: "request \<Rightarrow> policy" where
  "policy_of r \<equiv> publication_policy (r_expected r)"

lemma spares_created: "i \<in> I \<Longrightarrow> spares (publication_policy expected) I (remove_owned_at name i label content)"
  by (rule spares_remove) simp

lemma keeps_claim_staged [keep]: "identity \<in> I \<Longrightarrow> keeps (policy_of r) I (claim_staged r temporary claim identity)"
  unfolding claim_staged_def by (intro keep spare spares_created) auto

lemma keeps_claim_predecessor [keep]: "r_expected r = Some e \<Longrightarrow> keeps (policy_of r) I (claim_predecessor r old_claim e)"
  unfolding claim_predecessor_def using spares_restore [of "Some e"] by (auto intro!: keep spare)

lemma keeps_publish_staged [keep]: "identity \<in> I \<Longrightarrow> keeps (policy_of r) I (publish_staged r claim identity)"
  unfolding publish_staged_def by (intro keep spare spares_created) auto

lemma keeps_register [keep]: "new_identity \<in> I \<Longrightarrow> keeps (policy_of r) I (register_publication r old_claim new_identity own)"
  unfolding register_publication_def by (auto intro!: keep spares_callbacks)

lemma keeps_quietly [keep]: "keeps P I m \<Longrightarrow> keeps P I (quietly m)"
  unfolding quietly_def by (intro keep)

lemma keeps_clean_up [keep]: "keeps (policy_of r) I (clean_up r old_claim primary)"
  unfolding clean_up_def close_descriptor_def withdraw_published_def restore_at_error_def close_guard_def
    remove_temporary_def remove_staged_claim_def
  by (auto intro!: keep spare spares_created split: option.splits)

lemma keeps_sweep [keep]: "keeps (policy_of r) I (sweep_residue r)"
  unfolding sweep_residue_def sweep_def by (auto intro!: keep spare spares_created split: option.splits)

text \<open>The staging step is the one that creates a file.\<close>

lemma orderly_created:
  "orderly P M ((w, t), f) \<Longrightarrow> tidy P (insert i M) {} {} w' \<Longrightarrow> f_staged f' = f_staged f \<Longrightarrow> orderly P (insert i M) ((w', t), f')"
  by (auto simp: orderly_def intro: spares_mono)

lemma keeps_fill [keep]: "i \<in> I \<Longrightarrow> inode_pair opened \<in> I \<Longrightarrow> keeps P I (fill_staged r temporary i opened)"
  unfolding fill_staged_def by (intro keep spare) auto

lemma wp_stage:
  assumes o: "orderly P M s"
    and Q: "\<And>i M' s'. M \<subseteq> M' \<Longrightarrow> i \<in> M' \<Longrightarrow> orderly P M' s' \<Longrightarrow> Q i s'"
    and X: "\<And>e M' s'. M \<subseteq> M' \<Longrightarrow> orderly P M' s' \<Longrightarrow> X e s'"
  shows "wp (stage_document r temporary) Q X s"
proof -
  obtain w t f where s: "s = ((w, t), f)" and w: "tidy P M {} {} w" using o by (cases s) (auto simp: orderly_def)
  have fill: "wp (fill_staged r temporary i opened) (\<lambda>_. Q (inode_pair opened)) X ((w2, t), f\<lparr>f_open := True\<rparr>)"
    if "tidy P (insert i M) {} {} w2" "inode_pair opened = i" for i opened w2
  proof (rule keeps_wp [OF keeps_fill subset_refl])
    show "orderly P (insert i M) ((w2, t), f\<lparr>f_open := True\<rparr>)"
      using o that(1) by (auto simp: s orderly_def intro: spares_mono)
  qed (use that(2) in \<open>auto intro: Q X\<close>)
  have fstat: "wp (os_fstat i) (\<lambda>opened w2. wp (fill_staged r temporary i opened) (\<lambda>_. Q (inode_pair opened)) X ((w2, t), f\<lparr>f_open := True\<rparr>))
      (\<lambda>e w2. X e ((w2, t), f\<lparr>f_open := True\<rparr>)) w1" if "tidy P (insert i M) {} {} w1" for i w1
    by (rule wp_fstat [OF that]) (auto intro: fill X [OF _ orderly_created [OF o [unfolded s]]])
  show ?thesis
    unfolding stage_document_def wp_simps wp_in_world wp_set_frame s fst_conv snd_conv
    by (rule wp_create [OF w]) (use fstat o in \<open>auto simp: s orderly_def intro: X [of M]\<close>)
qed

text \<open>The values a step returns.\<close>

definition returns :: "('s, 'a) act \<Rightarrow> 'a \<Rightarrow> bool" where
  "returns m a \<longleftrightarrow> (\<exists>s s'. m s = (s', Inr a))"

lemma returns_andthen: "returns (andthen m k) b \<Longrightarrow> \<exists>a. returns m a \<and> returns (k a) b"
  unfolding returns_def andthen_def by (fastforce split: prod.splits sum.splits)

lemma returns_guarded: "returns (guarded ok e m) a \<Longrightarrow> ok \<and> returns m a"
  by (auto simp: returns_def guarded_def raising_def split: if_splits)

lemma returns_in_world: "returns (in_world m) a \<Longrightarrow> returns m a"
  unfolding returns_def in_world_def by (fastforce split: prod.splits)

lemma returns_require_exact: "returns (require_exact candidate identity content clabel label name) a \<Longrightarrow> a = identity"
  unfolding require_exact_def
  by (drule returns_andthen) (auto dest!: returns_guarded simp: returns_def [of "done_with _"] split: prod.splits)

lemma returns_publish_staged: "returns (publish_staged r claim identity) a \<Longrightarrow> a = identity"
  unfolding publish_staged_def
  by (auto dest!: returns_andthen returns_guarded returns_in_world dest: returns_require_exact)

lemma wp_returns: "wp m Q X s \<Longrightarrow> wp m (\<lambda>a s'. returns m a \<and> Q a s') X s"
proof -
  assume wp: "wp m Q X s"
  obtain s1 res where run: "m s = (s1, res)" by fastforce
  then show ?thesis using wp by (cases res) (auto simp: wp_def returns_def simp del: split_paired_Ex)
qed

lemma keeps_returned:
  assumes "keeps P I m" and "\<And>a. returns m a \<Longrightarrow> keeps P I (k a)"
  shows "keeps P I (andthen m k)"
proof (rule keepsI)
  fix M s assume s: "I \<subseteq> M" "orderly P M s"
  then have "wp m (\<lambda>_. orderly P M) (\<lambda>_. orderly P M) s" using assms(1) unfolding keeps_def by blast
  then have "wp m (\<lambda>a s'. returns m a \<and> orderly P M s') (\<lambda>_. orderly P M) s"
    by (rule wp_returns)
  then show "wp (andthen m k) (\<lambda>_. orderly P M) (\<lambda>_. orderly P M) s"
    unfolding wp_simps by (rule wp_mono) (auto intro: keeps_wp [OF assms(2) s(1)])
qed

text \<open>What follows the staging.\<close>

definition after_staging :: "request \<Rightarrow> bool \<Rightarrow> bool \<Rightarrow> string \<Rightarrow> string \<Rightarrow> string \<Rightarrow> ident \<Rightarrow> (publication, unit) act" where
  "after_staging r has_transaction own temporary claim old_claim identity =
     andthen (claim_staged r temporary claim identity) (\<lambda>_.
     andthen (case r_expected r of None \<Rightarrow> done_with () | Some e \<Rightarrow> claim_predecessor r old_claim e) (\<lambda>_.
     andthen (publish_staged r claim identity) (\<lambda>new_identity.
     andthen (if has_transaction then register_publication r old_claim new_identity own else done_with ()) (\<lambda>_.
     set_frame (\<lambda>f. f\<lparr>f_committed := True\<rparr>)))))"

lemma keeps_after_staging: "keeps (policy_of r) {identity} (after_staging r has_transaction own temporary claim old_claim identity)"
proof -
  have "keeps (policy_of r) {identity} (case r_expected r of None \<Rightarrow> done_with () | Some e \<Rightarrow> claim_predecessor r old_claim e)"
    using keeps_claim_predecessor keeps_simple(1) by (cases "r_expected r") auto
  then show ?thesis
    unfolding after_staging_def
    by (intro keeps_andthen keeps_returned keeps_claim_staged keeps_publish_staged)
      (auto dest!: returns_publish_staged intro!: keep)
qed

lemma wp_publish:
  assumes o: "orderly (policy_of r) M s"
    and Q: "\<And>M' s'. M \<subseteq> M' \<Longrightarrow> orderly (policy_of r) M' s' \<Longrightarrow> Q () s'"
    and X: "\<And>e M' s'. M \<subseteq> M' \<Longrightarrow> orderly (policy_of r) M' s' \<Longrightarrow> X e s'"
  shows "wp (publish_document r has_transaction own temporary claim old_claim) Q X s"
  unfolding publish_document_def after_staging_def [symmetric] wp_simps
proof (rule wp_stage [OF o])
  fix i M' s' assume "M \<subseteq> M'" "i \<in> M'" "orderly (policy_of r) M' s'"
  then show "wp (after_staging r has_transaction own temporary claim old_claim i) Q X s'"
    by (intro keeps_wp [OF keeps_after_staging]) (auto intro: Q X)
qed (rule X)


section \<open>The whole publication\<close>

definition ready :: "policy \<Rightarrow> ident set \<Rightarrow> world \<times> world transaction \<Rightarrow> bool" where
  "ready P M = (\<lambda>(w, t). tidy P M {} {} w \<and> (\<forall>cb\<in>callbacks t. spares P M cb))"

lemma orderly_ready: "orderly P M s \<Longrightarrow> ready P M (fst s)"
  by (cases s) (auto simp: orderly_def ready_def)

lemma ready_run_publication:
  assumes "ready (policy_of r) M s"
  shows "\<exists>M'. ready (policy_of r) M' (fst (run_publication r has_transaction own temporary claim old_claim s))"
proof -
  let ?P = "policy_of r" and ?s = "(s, new_frame temporary claim)"
  let ?some = "\<lambda>s'. \<exists>M'. orderly ?P M' s'"
  have s: "orderly ?P M ?s" using assms by (cases s) (simp add: orderly_def ready_def new_frame_def)
  have sweep: "wp (sweep_residue r) (\<lambda>_. ?some) (\<lambda>_. ?some) s'" if "orderly ?P M' s'" for M' s'
    by (rule keeps_wp [OF keeps_sweep empty_subsetI that]) blast+
  have clean: "wp (clean_up r old_claim e) (\<lambda>_ s'. wp (sweep_residue r) (\<lambda>_. ?some) (\<lambda>_. ?some) s')
      (\<lambda>_ s'. wp (sweep_residue r) (\<lambda>_. ?some) (\<lambda>_. ?some) s') s'" if "orderly ?P M' s'" for e M' s'
    by (rule keeps_wp [OF keeps_clean_up empty_subsetI that]) (erule sweep)+
  have "wp (ensuring (catching (publish_document r has_transaction own temporary claim old_claim) (clean_up r old_claim))
      (sweep_residue r)) (\<lambda>_. ?some) (\<lambda>_. ?some) ?s"
    unfolding wp_simps by (rule wp_publish [OF s]) (erule sweep, erule clean)
  then show ?thesis
    unfolding wp_def run_publication_def by (fastforce split: prod.splits sum.splits dest: orderly_ready)
qed

lemma wp_on_world: "wp (on_world m) Q X s = wp m (\<lambda>a w. Q a (w, snd s)) (\<lambda>e w. X e (w, snd s)) (fst s)"
  by (auto simp: wp_def on_world_def split: prod.splits sum.splits)

lemma ready_publish_in:
  assumes "ready (policy_of r) M s"
  shows "\<exists>M'. ready (policy_of r) M' (fst (publish_in r has_transaction own s))"
proof -
  let ?P = "policy_of r" and ?some = "\<lambda>s'. \<exists>M'. ready (policy_of r) M' s'"
  obtain w t where s: "s = (w, t)" by fastforce
  have cb: "\<forall>cb\<in>callbacks t. spares ?P M cb" and w: "tidy ?P M {} {} w" using assms by (auto simp: s ready_def)
  have step: "wp (on_world m) Q (\<lambda>_. ?some) (w', t)" if "spares ?P {} m" "tidy ?P M {} {} w'"
    "\<And>a w''. tidy ?P M {} {} w'' \<Longrightarrow> Q a (w'', t)" for m :: "(world, 'b) act" and Q w'
    unfolding wp_on_world fst_conv snd_conv
    by (rule spares_wp [OF that(1) empty_subsetI that(2) that(3)]) (use cb in \<open>auto simp: ready_def\<close>)
  have run: "wp (run_publication r has_transaction own a b c) (\<lambda>_. ?some) (\<lambda>_. ?some) (w', t)" if "tidy ?P M {} {} w'" for a b c w'
  proof -
    obtain s1 res where "run_publication r has_transaction own a b c (w', t) = (s1, res)" by fastforce
    moreover have "ready ?P M (w', t)" using that cb by (simp add: ready_def)
    ultimately show ?thesis using ready_run_publication [of r M "(w', t)" has_transaction own a b c]
      by (simp add: wp_def split: sum.splits)
  qed
  have "wp (publish_in r has_transaction own) (\<lambda>_. ?some) (\<lambda>_. ?some) s"
    unfolding publish_in_def wp_simps s
    by (rule step [OF spares_check w], (rule step [OF spares_calls(9)], assumption)+, rule step [OF spares_cell(1)], assumption, erule run)
  then show ?thesis unfolding wp_def by (auto split: prod.splits sum.splits)
qed

lemma ready_write_bytes:
  assumes "tidy (policy_of r) {} {} {} w" and "callbacks t = {}"
  shows "\<exists>M'. ready (policy_of r) M' (fst (write_bytes_at r given (w, t)))"
proof -
  have t: "ready (policy_of r) {} (w, t)" and new: "ready (policy_of r) {} (w, new_transaction)"
    using assms by (simp_all add: ready_def callbacks_def new_transaction_def)
  have "\<exists>M'. ready (policy_of r) M' (w1, t)" if "publish_in r True True (w, new_transaction) = ((w1, t1), res)" for w1 t1 res
    using ready_publish_in [OF new, of True True] that assms(2) by (auto simp: ready_def)
  then show ?thesis
    using ready_publish_in [OF t] by (auto simp: write_bytes_at_def split: prod.splits)
qed

text \<open>
  C23. A publication removes nothing that is not its own. Whatever other processes and faults do
  to the directory, as long as the private names are left alone, every file removed by
  \<open>_write_bytes_at\<close>, on every success and error path and by the rollback or the finalization of
  its transaction afterwards, was created by it or was read by it and had the digest of the
  expected predecessor; and it writes only to files it created.
\<close>

theorem publication_spares_others:
  assumes "calm w" and "w_trace w = []" and "write_bytes_at r given (w, new_transaction) = (s1, res)"
    and "s2 \<in> {s1, fst (txn_rollback s1), fst (txn_finalize s1)}"
  shows "(Removed i \<in> set (w_trace (fst s2)) \<longrightarrow> Created i \<in> set (w_trace (fst s2))
       \<or> (\<exists>bytes k. Observed i bytes \<in> set (w_trace (fst s2)) \<and> r_expected r = Some (k, sha256_hex bytes)))
    \<and> (Wrote i \<in> set (w_trace (fst s2)) \<longrightarrow> Created i \<in> set (w_trace (fst s2)))"
proof -
  have "tidy (policy_of r) {} {} {} w" using assms(1,2) by (simp add: tidy_def careful_def)
  then obtain M where "ready (policy_of r) M s1"
    using ready_write_bytes [of r w new_transaction given] assms(3) by (auto simp: callbacks_def new_transaction_def)
  then obtain w1 t1 where s1: "s1 = (w1, t1)" and w1: "tidy (policy_of r) M {} {} w1"
    and cb: "\<And>cb. cb \<in> callbacks t1 \<Longrightarrow> spares (policy_of r) M cb" by (cases s1) (auto simp: ready_def)
  have "tidy (policy_of r) M {} {} (fst s2)"
    using assms(4) w1 settle_tidy [of _ M w1 t1, OF w1 cb] by (auto simp: s1)
  then have "careful (policy_of r) (w_trace (fst s2))" by (simp add: tidy_def)
  then have "(Removed i \<in> set (w_trace (fst s2)) \<longrightarrow> may_remove (policy_of r) (w_trace (fst s2)) i)
      \<and> (Wrote i \<in> set (w_trace (fst s2)) \<longrightarrow> Created i \<in> set (w_trace (fst s2)))"
    unfolding careful_def by blast
  then show ?thesis by (auto simp: may_remove_def publication_policy_def split: option.splits)
qed


section \<open>A sample\<close>

text \<open>
  A publication whose write fails while another process changes the directory: the staging file
  is gone again.
\<close>

definition faulty_turn :: turn where
  "faulty_turn = quiet_turn\<lparr>t_fault := Some ''Input/output error''\<rparr>"

definition sample_request :: request where
  "sample_request = \<lparr>r_name = ''new'', r_label = ''summary'', r_encoded = ''text'', r_expected = None, r_must_not_exist = True\<rparr>"

definition faulty_world :: world where
  "faulty_world = sample_world (\<lambda>k. if k = 3 then faulty_turn else busy_turn)"

lemma faulty_calm: "calm faulty_world"
proof -
  have "''doc'' \<noteq> p @ ''7f3a''" for p by (cases p; cases "tl p"; auto)
  then show ?thesis
    by (auto simp: calm_def private_name_def faulty_world_def sample_world_def faulty_turn_def busy_turn_def quiet_turn_def set_name_def)
qed

lemmas publication_defs = write_bytes_at_def publish_in_def on_world_def check_destination_def destination_stat_def
  guarded_def set_cell_def run_publication_def ensuring_def publish_document_def stage_document_def in_world_def set_frame_def
  fill_staged_def write_all_step os_create_def fresh_identity_def os_write_def raising_def clean_up_def close_descriptor_def
  with_frame_def quietly_def withdraw_published_def restore_at_error_def close_guard_def remove_temporary_def
  remove_staged_claim_def sweep_residue_def sweep_def new_frame_def staged_content_def overwrite_def

lemma faulty_run:
  "snd (write_bytes_at sample_request False (faulty_world, new_transaction)) = Inl (OSError ''Input/output error'')"
  "set (w_trace (fst (fst (write_bytes_at sample_request False (faulty_world, new_transaction)))))
     = {Created (2, 0), Wrote (2, 0), Removed (2, 0)}"
proof -
  have name: "path_name ''new'' = ''new''" by code_simp
  show "snd (write_bytes_at sample_request False (faulty_world, new_transaction)) = Inl (OSError ''Input/output error'')"
    and "set (w_trace (fst (fst (write_bytes_at sample_request False (faulty_world, new_transaction)))))
     = {Created (2, 0), Wrote (2, 0), Removed (2, 0)}"
    by (simp_all add: publication_defs run_defs sample_request_def faulty_world_def sample_world_def quiet_turn_def busy_turn_def
        faulty_turn_def sample_disk_def sample_inode_def cleanup_pending_def Let_def name missing_def existing_def)
qed

lemma publication_spares_others_witness:
  "Removed (2, 0) \<in> set (w_trace (fst (fst (write_bytes_at sample_request False (faulty_world, new_transaction)))))
   \<and> Created (2, 0) \<in> set (w_trace (fst (fst (write_bytes_at sample_request False (faulty_world, new_transaction)))))"
proof -
  let ?run = "write_bytes_at sample_request False (faulty_world, new_transaction)"
  have empty: "w_trace faulty_world = []" by (simp add: faulty_world_def sample_world_def)
  have run: "?run = (fst ?run, snd ?run)" by simp
  have "fst ?run \<in> {fst ?run, fst (txn_rollback (fst ?run)), fst (txn_finalize (fst ?run))}" by simp
  note kept = publication_spares_others [OF faulty_calm empty run this, of "(2, 0)"]
  have none: "r_expected sample_request = None" by (simp add: sample_request_def)
  have "Removed (2, 0) \<in> set (w_trace (fst (fst ?run)))" unfolding faulty_run(2) by simp
  with kept none show ?thesis by simp
qed


text \<open>A world in which exactly one system call fails, and a request that replaces the file.\<close>

definition long_turn :: turn where "long_turn = quiet_turn\<lparr>t_limit := 7\<rparr>"
definition broken_turn :: turn where "broken_turn = long_turn\<lparr>t_fault := Some ''Input/output error'', t_effect := False\<rparr>"

definition one_fault :: "nat \<Rightarrow> world" where
  "one_fault at = sample_world (\<lambda>k. if k = at then broken_turn else long_turn)"

definition replacing_request :: request where
  "replacing_request = \<lparr>r_name = ''doc'', r_label = ''summary'', r_encoded = ''text'',
     r_expected = Some ((1, 7, 3, 0), sha256_hex ''old''), r_must_not_exist = False\<rparr>"


end
