(* ===== verification/Runner_Contract.thy ===== *)
theory Runner_Contract
  imports Approvals
begin

text \<open>
  The trusted runner of \<open>src/src/sddgov/trusted_runner.py\<close>: its fixed contract, the strict JSON
  reader, the stable file reader, the bootstrap document and the descriptor that an approved
  operation is bound to.

  What the system calls return is a parameter, one record per routine that makes them. Paths
  are the strings that \<open>expanduser\<close> and \<open>absolute\<close> make of them.
\<close>


section \<open>Failures\<close>

text \<open>
  \<open>TrustedRunnerViolation\<close> with its reason code, its subclass \<open>_ChildRunFailure\<close> with the state of
  the descriptors, and every other exception.
\<close>

datatype stop = Violation string | Child_Failure string bool | Raised exn

type_synonym 'a run = "stop + 'a"

definition sbind :: "'a run \<Rightarrow> ('a \<Rightarrow> 'b run) \<Rightarrow> 'b run" where
  "sbind m f = (case m of Inl e \<Rightarrow> Inl e | Inr a \<Rightarrow> f a)"

definition demand :: "bool \<Rightarrow> string \<Rightarrow> 'a run \<Rightarrow> 'a run" where
  "demand ok reason k = (if ok then k else Inl (Violation reason))"

definition raw :: "'a result \<Rightarrow> 'a run" where
  "raw m = (case m of Inl e \<Rightarrow> Inl (Raised e) | Inr a \<Rightarrow> Inr a)"

text \<open>\<open>try: m except classes: raise TrustedRunnerViolation(reason)\<close>\<close>

definition denying :: "(exn \<Rightarrow> bool) \<Rightarrow> string \<Rightarrow> 'a result \<Rightarrow> 'a run" where
  "denying caught reason m = (case m of
     Inl e \<Rightarrow> (if caught e then Inl (Violation reason) else Inl (Raised e)) | Inr a \<Rightarrow> Inr a)"

lemma run_simps [simp]:
  "sbind (Inl e) f = Inl e" "sbind (Inr a) f = f a" "demand True reason k = k" "demand False reason k = Inl (Violation reason)"
  "raw (Inl x) = Inl (Raised x)" "raw (Inr c) = Inr c" "denying caught reason (Inr d) = Inr d"
  by (simp_all add: sbind_def demand_def raw_def denying_def)

lemma sbind_Inr_iff: "sbind m f = Inr b \<longleftrightarrow> (\<exists>a. m = Inr a \<and> f a = Inr b)"
  by (cases m) auto

lemma demand_Inr_iff: "demand ok reason k = Inr a \<longleftrightarrow> ok \<and> k = Inr a"
  by (simp add: demand_def)

lemma raw_Inr_iff: "raw m = Inr a \<longleftrightarrow> m = Inr a"
  by (cases m) auto

lemma denying_Inr_iff: "denying c reason m = Inr a \<longleftrightarrow> m = Inr a"
  by (auto simp: denying_def split: sum.splits)

lemmas run_Inr_iff = sbind_Inr_iff demand_Inr_iff raw_Inr_iff denying_Inr_iff

lemma sbind_InrE: "sbind m f = Inr b \<Longrightarrow> (\<And>a. m = Inr a \<Longrightarrow> f a = Inr b \<Longrightarrow> P) \<Longrightarrow> P"
  by (auto simp: sbind_Inr_iff)

lemma demand_InrE: "demand ok reason k = Inr a \<Longrightarrow> (ok \<Longrightarrow> k = Inr a \<Longrightarrow> P) \<Longrightarrow> P"
  by (simp add: demand_Inr_iff)

lemma raw_InrE: "raw m = Inr a \<Longrightarrow> (m = Inr a \<Longrightarrow> P) \<Longrightarrow> P"
  by (simp add: raw_Inr_iff)

lemmas runE = sbind_InrE demand_InrE raw_InrE


section \<open>The fixed contract\<close>

definition runner_action_id :: string where "runner_action_id = ''AF25-HERMES-OPENAI-API-LIVE-UAT-L3-001''"

definition official_endpoint :: string where "official_endpoint = ''https://api.openai.com/v1''"

definition managed_paths :: "string list" where
  "managed_paths = [''agent/relay_llm.py'', ''agent/auxiliary_client.py'', ''hermes_cli/auth.py'',
     ''gateway/platforms/api_server.py'', ''agent/transports/codex.py'']"

definition source_manifest_path :: string where "source_manifest_path = ''.agent-factory/source-tree-manifest.json''"

definition original_source_prefix :: string where "original_source_prefix = ''.agent-factory/original/''"

definition expected_containment_profile :: obj where
  "expected_containment_profile =
     [(''contract_version'', JStr ''0.1''), (''hermes_version'', JStr ''0.20.4''),
      (''source_revision'', JStr ''f43eabee5f36e11448086ee8ee17c499958e81bf''),
      (''source_hashes'', JObj
        [(''agent/auxiliary_client.py'', JStr ''ecd2bfa8eda3669637e2817691daf72d81b4abcac0f9b9f5a486d7cd6c3aba24''),
         (''agent/relay_llm.py'', JStr ''02d7d287b9a314592dd6247baf40aa09e442aaab60f1ade6c5edbc9eaef6b9e3''),
         (''agent/transports/codex.py'', JStr ''b91f9e2679a17cdfc74d565ee2190afbc81ca73aaa35adbff9c37ae3d2807b0e''),
         (''gateway/platforms/api_server.py'', JStr ''204fa3e857dc50c032e084f2e8ebd864ea3ebbac80891f65ad85760e92edfeda''),
         (''hermes_cli/auth.py'', JStr ''59801d820f0106cf9342f6b80558b6c0a683bee5985c75944bb7ca8705a6fa7c'')]),
      (''provider'', JStr ''openai-api''), (''model'', JStr ''gpt-5.6-sol''), (''max_inference_calls'', JInt 1),
      (''max_output_tokens'', JInt 1000)]"

definition expected_route_profile :: obj where
  "expected_route_profile =
     [(''contract_version'', JStr ''0.1''),
      (''containment_profile_hash'', JStr ''sha256:9f276ddbe0a6fc57e662ebc8dc7fe6542dea7d6af9b34f5ceec977114510d2de''),
      (''hermes_version'', JStr ''0.20.4''), (''source_revision'', JStr ''f43eabee5f36e11448086ee8ee17c499958e81bf''),
      (''source_tree_hash'', JStr ''sha256:3865fb7970e7f2ee2c0eb963654755fa72b785a5fe970a79cd51adc93e7647c8''),
      (''provider'', JStr ''openai-api''), (''model'', JStr ''gpt-5.6-sol''), (''endpoint'', JStr ''https://api.openai.com/v1''),
      (''access_method'', JStr ''api''), (''credential_env_var'', JStr ''OPENAI_API_KEY''), (''max_input_bytes'', JInt 4096),
      (''max_output_tokens'', JInt 1000), (''max_inference_calls'', JInt 1), (''cost_control_mode'', JStr ''metered_hard_cap''),
      (''max_cost_usd'', JStr ''0.25''), (''maximum_cost_usd'', JStr ''0.05048''), (''input_price_per_million_usd'', JStr ''5''),
      (''output_price_per_million_usd'', JStr ''30''), (''price_snapshot_date'', JStr ''2026-08-23''), (''offline_only'', JBool True)]"

definition runner_request_limit :: nat where "runner_request_limit = 128 * 1024"
definition max_secret_bytes :: nat where "max_secret_bytes = 512"
definition max_child_artifact_bytes :: nat where "max_child_artifact_bytes = 1024 * 1024"
definition max_input_bytes :: nat where "max_input_bytes = 4096"
definition max_output_tokens :: int where "max_output_tokens = 1000"
definition max_inference_calls :: int where "max_inference_calls = 1"
definition max_cost_text :: string where "max_cost_text = ''0.25''"
definition max_duration_seconds :: int where "max_duration_seconds = 120"

definition tagged_sha256 :: "string \<Rightarrow> string" where
  "tagged_sha256 bytes = ''sha256:'' @ sha256_hex bytes"

definition canonical_hash :: "json \<Rightarrow> string" where
  "canonical_hash v = tagged_sha256 (canonical_bytes v)"

text \<open>\<open>_SHA256.fullmatch\<close>\<close>

definition is_tagged_sha256 :: "string \<Rightarrow> bool" where
  "is_tagged_sha256 s \<longleftrightarrow> starts_with ''sha256:'' s \<and> is_sha256 (drop 7 s)"

definition require_sha256 :: "json \<Rightarrow> string \<Rightarrow> string run" where
  "require_sha256 v label = demand (is_str v \<and> is_tagged_sha256 (str_val v)) (label @ ''_invalid'') (Inr (str_val v))"


section \<open>Strict JSON\<close>

fun no_duplicates_from :: "obj \<Rightarrow> (string \<times> json) list \<Rightarrow> obj result" where
  "no_duplicates_from seen [] = Inr seen"
| "no_duplicates_from seen ((k, v) # ps) =
     (if has_key seen k then Inl (RuntimeError ''json_duplicate_key_denied'') else no_duplicates_from (seen @ [(k, v)]) ps)"

definition no_duplicate_object :: "(string \<times> json) list \<Rightarrow> obj result" where
  "no_duplicate_object ps = no_duplicates_from [] ps"

text \<open>
  \<open>json.loads(raw.decode("utf-8"), object_pairs_hook=_no_duplicate_object)\<close>. The hook's violation
  is the only \<open>RuntimeError\<close> of the loader.
\<close>

definition load_no_duplicates :: "string \<Rightarrow> string \<Rightarrow> json run" where
  "load_no_duplicates bytes reason = (case utf8_decode bytes of
     None \<Rightarrow> Inl (Violation reason)
   | Some text \<Rightarrow> (case loads no_duplicate_object text of
       Inr v \<Rightarrow> Inr v
     | Inl (RuntimeError m) \<Rightarrow> Inl (Violation m)
     | Inl e \<Rightarrow> Inl (Violation reason)))"

definition strict_json_bytes :: "string \<Rightarrow> string \<Rightarrow> obj run" where
  "strict_json_bytes bytes label =
     sbind (load_no_duplicates bytes (label @ ''_invalid'')) (\<lambda>v.
     demand (is_dict v) (label @ ''_invalid'') (Inr (dict_val v)))"


section \<open>The stable reader\<close>

text \<open>What the calls of \<open>_stable_read_regular\<close> return.\<close>

record stable_calls =
  sc_before :: "os_stat result"
  sc_open :: "unit result"
  sc_opened :: "os_stat result"
  sc_chunks :: "string result list"
  sc_after :: "os_stat result"
  sc_path :: "os_stat result"

text \<open>The reads with a limit; a read returns at most what was asked for.\<close>

fun read_limited :: "nat option \<Rightarrow> nat \<Rightarrow> string result list \<Rightarrow> string result" where
  "read_limited limit done [] = Inr []"
| "read_limited limit done (r # rs) =
     (if (case limit of None \<Rightarrow> False | Some n \<Rightarrow> n \<le> done) then Inr []
      else rbind r (\<lambda>c.
        let chunk = take (case limit of None \<Rightarrow> 1024 * 1024 | Some n \<Rightarrow> min (64 * 1024) (n - done)) c in
        if chunk = [] then Inr []
        else rbind (read_limited limit (done + length chunk) rs) (\<lambda>rest. Inr (chunk @ rest))))"

definition same_generation :: "os_stat \<Rightarrow> os_stat \<Rightarrow> bool" where
  "same_generation a b \<longleftrightarrow> st_dev a = st_dev b \<and> st_ino a = st_ino b \<and> st_kind a = st_kind b \<and> st_perm a = st_perm b
     \<and> st_size a = st_size b \<and> st_mtime_ns a = st_mtime_ns b \<and> st_ctime_ns a = st_ctime_ns b"

definition check_opened :: "string \<Rightarrow> int option \<Rightarrow> nat option \<Rightarrow> os_stat \<Rightarrow> os_stat \<Rightarrow> unit run" where
  "check_opened label expected_uid expected_mode before opened =
     demand (same_inode before opened) (label @ ''_identity_changed'')
     (demand (st_kind opened = Regular \<and> st_nlink opened = 1) (label @ ''_not_private_regular'')
     (demand (case expected_uid of None \<Rightarrow> True | Some u \<Rightarrow> st_uid opened = u) (label @ ''_owner_invalid'')
     (demand (case expected_mode of None \<Rightarrow> True | Some p \<Rightarrow> st_perm opened = p) (label @ ''_permissions_invalid'')
     (Inr ()))))"

definition stable_read_regular ::
  "stable_calls \<Rightarrow> string \<Rightarrow> int option \<Rightarrow> nat option \<Rightarrow> nat option \<Rightarrow> (string \<times> os_stat) run" where
  "stable_read_regular c label expected_uid expected_mode maximum_bytes =
     sbind (denying is_OSError (label @ ''_unavailable'') (sc_before c)) (\<lambda>before.
     demand (st_kind before = Regular) (label @ ''_not_private_regular'')
     (sbind (denying is_OSError (label @ ''_unavailable'') (sc_open c)) (\<lambda>_.
     sbind (raw (sc_opened c)) (\<lambda>opened.
     sbind (check_opened label expected_uid expected_mode before opened) (\<lambda>_.
     sbind (raw (read_limited (map_option Suc maximum_bytes) 0 (sc_chunks c))) (\<lambda>bytes.
     sbind (raw (sc_after c)) (\<lambda>after_fd.
     sbind (denying is_OSError (label @ ''_identity_changed'') (sc_path c)) (\<lambda>after_path.
     demand (same_generation opened after_fd \<and> same_generation opened after_path) (label @ ''_identity_changed'')
     (demand (case maximum_bytes of None \<Rightarrow> True | Some n \<Rightarrow> length bytes \<le> n) (label @ ''_too_large'')
     (demand (int (length bytes) = st_size opened) (label @ ''_read_incomplete'')
     (Inr (bytes, opened))))))))))))"

definition private_directory :: "os_stat result \<Rightarrow> string result \<Rightarrow> string \<Rightarrow> int \<Rightarrow> string run" where
  "private_directory lstat resolved label expected_uid =
     sbind (denying is_OSError (label @ ''_unavailable'') lstat) (\<lambda>m.
     demand (st_kind m = Directory \<and> st_uid m = expected_uid \<and> st_perm m = 448) (label @ ''_invalid'') (raw resolved))"


section \<open>The bootstrap document\<close>

record bootstrap =
  b_runner_id :: string
  b_mode :: string
  b_service_uid :: int
  b_clients :: "int list"
  b_state_root :: string
  b_trusted_approvers_file :: string
  b_result_private_key :: string
  b_result_public_key :: string
  b_runtime_executable :: string
  b_runtime_sha256 :: string
  b_runtime_argv :: "string list"
  b_credential_ref :: string
  b_credential_path :: string
  b_credential_sha256 :: string
  b_credential_binding_hash :: string
  b_isolation_parent :: string
  b_bootstrap_path :: string

definition bootstrap_fields :: "string list" where
  "bootstrap_fields =
     [''schema_version'', ''runner_id'', ''mode'', ''service_uid'', ''allowed_client_uids'', ''state_root'',
      ''trusted_approvers_file'', ''result_private_key'', ''result_public_key'', ''runtime_executable'', ''runtime_sha256'',
      ''runtime_argv'', ''credential_ref'', ''credential_path'', ''credential_sha256'', ''credential_binding_hash'',
      ''isolation_parent'']"

definition placeholders :: "string list" where
  "placeholders = map (\<lambda>name. CHR 0x7B # name @ [CHR 0x7D]) [''bundle_fd_path'', ''hermes_home'', ''input_path'', ''result_path'']"

definition natural :: "json \<Rightarrow> bool" where
  "natural v \<longleftrightarrow> is_int v \<and> 0 \<le> int_val v"

definition uid_policy_ok :: "json \<Rightarrow> json \<Rightarrow> bool" where
  "uid_policy_ok service clients \<longleftrightarrow> natural service \<and> is_list clients \<and> list_val clients \<noteq> []
     \<and> list_all natural (list_val clients) \<and> distinct (map int_val (list_val clients))"

definition argv_value_ok :: "string \<Rightarrow> bool" where
  "argv_value_ok v \<longleftrightarrow> \<not> (CHR 0x7B \<in> set v \<or> CHR 0x7D \<in> set v) \<or> v \<in> set placeholders"

text \<open>\<open>Path(v).expanduser().absolute()\<close>; a path that is no string raises \<open>TypeError\<close>.\<close>

definition path_field :: "(string \<Rightarrow> string) \<Rightarrow> obj \<Rightarrow> string \<Rightarrow> string run" where
  "path_field expand d k = (case get d k of
     JStr s \<Rightarrow> Inr (expand s)
   | _ \<Rightarrow> Inl (Raised (TypeError ''argument should be a str or an os.PathLike object'')))"

text \<open>The checks of the document, and the record it becomes.\<close>

definition check_bootstrap :: "obj \<Rightarrow> unit run" where
  "check_bootstrap d =
     demand (keys_eq d bootstrap_fields \<and> get d ''schema_version'' = JStr ''0.1'') ''runner_bootstrap_contract_invalid''
     (demand (nonblank (get d ''runner_id'')) ''runner_id_invalid''
     (sbind (raw (in_strings (get d ''mode'') [''production'', ''rehearsal''])) (\<lambda>known.
     demand known ''runner_mode_invalid''
     (demand (uid_policy_ok (get d ''service_uid'') (get d ''allowed_client_uids'')) ''runner_uid_policy_invalid''
     (demand (is_list (get d ''runtime_argv'') \<and> list_val (get d ''runtime_argv'') \<noteq> []
         \<and> list_all (\<lambda>v. is_str v \<and> str_val v \<noteq> []) (list_val (get d ''runtime_argv''))) ''runtime_argv_invalid''
     (demand (list_all (argv_value_ok \<circ> str_val) (list_val (get d ''runtime_argv''))) ''runtime_argv_placeholder_invalid''
     (demand (is_str (get d ''credential_ref'') \<and> starts_with ''secret-ref://'' (str_val (get d ''credential_ref''))) ''credential_ref_invalid''
     (sbind (require_sha256 (get d ''runtime_sha256'') ''runtime_sha256'') (\<lambda>_.
     sbind (require_sha256 (get d ''credential_sha256'') ''credential_sha256'') (\<lambda>_.
     sbind (require_sha256 (get d ''credential_binding_hash'') ''credential_binding_hash'') (\<lambda>_.
     demand (is_str (get d ''result_public_key'') \<and> (case b64decode (str_val (get d ''result_public_key'')) of
         None \<Rightarrow> False | Some k \<Rightarrow> length k = 32)) ''result_public_key_invalid''
     (Inr ()))))))))))))"

definition bootstrap_of :: "(string \<Rightarrow> string) \<Rightarrow> string \<Rightarrow> obj \<Rightarrow> bootstrap run" where
  "bootstrap_of expand path d =
     sbind (path_field expand d ''state_root'') (\<lambda>state_root.
     sbind (path_field expand d ''trusted_approvers_file'') (\<lambda>approvers.
     sbind (path_field expand d ''result_private_key'') (\<lambda>key.
     sbind (path_field expand d ''runtime_executable'') (\<lambda>runtime.
     sbind (path_field expand d ''credential_path'') (\<lambda>credential.
     sbind (path_field expand d ''isolation_parent'') (\<lambda>isolation.
     Inr \<lparr>b_runner_id = str_val (get d ''runner_id''), b_mode = str_val (get d ''mode''),
          b_service_uid = int_val (get d ''service_uid''), b_clients = map int_val (list_val (get d ''allowed_client_uids'')),
          b_state_root = state_root, b_trusted_approvers_file = approvers, b_result_private_key = key,
          b_result_public_key = str_val (get d ''result_public_key''), b_runtime_executable = runtime,
          b_runtime_sha256 = str_val (get d ''runtime_sha256''), b_runtime_argv = map str_val (list_val (get d ''runtime_argv'')),
          b_credential_ref = str_val (get d ''credential_ref''), b_credential_path = credential,
          b_credential_sha256 = str_val (get d ''credential_sha256''),
          b_credential_binding_hash = str_val (get d ''credential_binding_hash''), b_isolation_parent = isolation,
          b_bootstrap_path = path\<rparr>))))))"

text \<open>
  \<open>_validate\<close>. Production mode is refused before its own checks are reached, so those are not
  modelled.
\<close>

record validate_calls =
  vc_euid :: int
  vc_state_root :: "os_stat result"
  vc_state_root_resolved :: "string result"
  vc_approvers :: stable_calls
  vc_key :: stable_calls
  vc_credential :: "os_stat result"
  vc_isolation :: "os_stat result"
  vc_isolation_resolved :: "string result"
  vc_runtime :: stable_calls

definition runtime_allowed :: "int \<Rightarrow> os_stat \<Rightarrow> bool" where
  "runtime_allowed uid m \<longleftrightarrow> (st_uid m = 0 \<or> st_uid m = uid) \<and> \<not> writable_by_others m"

definition verify_runtime :: "bootstrap \<Rightarrow> int \<Rightarrow> stable_calls \<Rightarrow> unit run" where
  "verify_runtime b uid c =
     sbind (stable_read_regular c ''runtime_executable'' None None None) (\<lambda>(bytes, info).
     demand (runtime_allowed uid info) ''runtime_executable_permissions_invalid''
     (demand (tagged_sha256 bytes = b_runtime_sha256 b) ''runtime_executable_hash_mismatch'' (Inr ())))"

definition credential_binding :: "bootstrap \<Rightarrow> string" where
  "credential_binding b = canonical_hash (JObj [(''runner_id'', JStr (b_runner_id b)), (''credential_ref'', JStr (b_credential_ref b)),
     (''credential_sha256'', JStr (b_credential_sha256 b))])"

definition validate_bootstrap :: "validate_calls \<Rightarrow> bootstrap \<Rightarrow> bootstrap run" where
  "validate_bootstrap c b =
     demand (b_service_uid b = vc_euid c) ''runner_service_uid_mismatch''
     (demand (b_mode b \<noteq> ''production'') ''production_cgroup_containment_required''
     (sbind (private_directory (vc_state_root c) (vc_state_root_resolved c) ''runner_state_root'' (vc_euid c)) (\<lambda>_.
     sbind (stable_read_regular (vc_approvers c) ''trusted_approvers'' (Some (vc_euid c)) (Some 384) (Some (64 * 1024))) (\<lambda>_.
     sbind (stable_read_regular (vc_key c) ''result_private_key'' (Some (vc_euid c)) (Some 384) (Some 32)) (\<lambda>_.
     sbind (denying is_OSError ''credential_source_unavailable'' (vc_credential c)) (\<lambda>m.
     demand (st_kind m = Regular \<and> st_uid m = vc_euid c \<and> st_nlink m = 1 \<and> st_perm m = 384) ''credential_source_metadata_invalid''
     (sbind (private_directory (vc_isolation c) (vc_isolation_resolved c) ''isolation_parent'' (vc_euid c)) (\<lambda>isolation.
     sbind (verify_runtime b (vc_euid c) (vc_runtime c)) (\<lambda>_.
     demand (b_credential_binding_hash b = credential_binding b) ''credential_binding_invalid''
     (Inr (b\<lparr>b_isolation_parent := isolation\<rparr>)))))))))))"

definition load_bootstrap :: "(string \<Rightarrow> string) \<Rightarrow> string \<Rightarrow> stable_calls \<Rightarrow> validate_calls \<Rightarrow> bootstrap run" where
  "load_bootstrap expand path document c =
     sbind (stable_read_regular document ''runner_bootstrap'' (Some (vc_euid c)) (Some 384) (Some (64 * 1024))) (\<lambda>(bytes, _).
     sbind (strict_json_bytes bytes ''runner_bootstrap'') (\<lambda>d.
     sbind (check_bootstrap d) (\<lambda>_.
     sbind (bootstrap_of expand (expand path) d) (\<lambda>b.
     validate_bootstrap c b))))"


section \<open>The descriptor\<close>

definition authority_hash :: "bootstrap \<Rightarrow> stable_calls \<Rightarrow> string run" where
  "authority_hash b c =
     sbind (stable_read_regular c ''trusted_approvers'' (Some (b_service_uid b)) (Some 384) (Some (64 * 1024))) (\<lambda>(bytes, _).
     sbind (strict_json_bytes bytes ''trusted_approvers'') (\<lambda>d. Inr (canonical_hash (JObj d))))"

definition runtime_identity :: "bootstrap \<Rightarrow> string" where
  "runtime_identity b = canonical_hash (JObj [(''runtime_sha256'', JStr (b_runtime_sha256 b)),
     (''runtime_argv'', JArr (map JStr (b_runtime_argv b)))])"

definition isolation_policy :: "bootstrap \<Rightarrow> string" where
  "isolation_policy b = canonical_hash (JObj [(''mode'', JStr (b_mode b)),
     (''isolation_parent_binding'', JStr (tagged_sha256 (utf8 (b_isolation_parent b)))),
     (''max_duration_seconds'', JInt max_duration_seconds), (''cleanup'', JStr ''term-kill-zeroize-unlink-rmtree-v1'')])"

definition launch_contract :: "bootstrap \<Rightarrow> string" where
  "launch_contract b = canonical_hash (JObj [(''runtime_identity_hash'', JStr (runtime_identity b)),
     (''isolation_policy_hash'', JStr (isolation_policy b)), (''provider'', JStr ''openai-api''), (''model'', JStr ''gpt-5.6-sol''),
     (''endpoint'', JStr official_endpoint), (''max_input_bytes'', JInt (int max_input_bytes)),
     (''max_output_tokens'', JInt max_output_tokens), (''max_inference_calls'', JInt max_inference_calls),
     (''max_cost_usd'', JStr max_cost_text), (''max_duration_seconds'', JInt max_duration_seconds)])"

definition runner_identity :: "bootstrap \<Rightarrow> string" where
  "runner_identity b = canonical_hash (JObj [(''contract_version'', JStr ''0.1''), (''runner_id'', JStr (b_runner_id b)),
     (''service_uid'', JInt (b_service_uid b)), (''result_public_key'', JStr (b_result_public_key b))])"

definition descriptor :: "bootstrap \<Rightarrow> stable_calls \<Rightarrow> obj run" where
  "descriptor b c = sbind (authority_hash b c) (\<lambda>authority. Inr
     [(''contract_version'', JStr ''0.2''), (''runner_identity_hash'', JStr (runner_identity b)),
      (''approval_authority_identity_hash'', JStr authority), (''credential_binding_hash'', JStr (b_credential_binding_hash b)),
      (''runtime_identity_hash'', JStr (runtime_identity b)), (''isolation_policy_hash'', JStr (isolation_policy b)),
      (''launch_contract_hash'', JStr (launch_contract b)), (''approval_protocol'', JStr ''sddgov-ed25519-exact-operation-v1''),
      (''credential_protocol'', JStr ''sealed-secret-fd-v1'')])"

definition describe_bootstrap :: "(string \<Rightarrow> string) \<Rightarrow> string \<Rightarrow> stable_calls \<Rightarrow> validate_calls \<Rightarrow> stable_calls \<Rightarrow> obj run" where
  "describe_bootstrap expand path document c authority =
     sbind (load_bootstrap expand path document c) (\<lambda>b. descriptor b authority)"

end
