(* ===== verification/Runner_Request.thy ===== *)
theory Runner_Request
  imports Runner_Contract
begin

text \<open>
  \<open>TrustedRunner._validate_request\<close> of \<open>src/src/sddgov/trusted_runner.py\<close>: the exact operation, its
  capsule and its approval envelope.
\<close>


section \<open>The request\<close>

definition approval_operation_payload :: "obj \<Rightarrow> string \<Rightarrow> string \<Rightarrow> json" where
  "approval_operation_payload operation operation_id plan_hash = JObj
     [(''repository'', JStr ''zycaskevin/Agent-Factory-core''), (''project'', JStr ''Agent Factory''),
      (''environment'', JStr (if get operation ''rehearsal_only'' = JBool True then ''synthetic-offline-rehearsal'' else ''production'')),
      (''scope'', JStr operation_id), (''category'', JStr ''high_risk_operation''), (''target'', JStr ''external-trusted-runner''),
      (''parameters'', JObj
        [(''action_id'', get operation ''action_id''), (''operation_id'', JStr operation_id), (''plan_hash'', JStr plan_hash),
         (''sealed_bundle_hash'', get operation ''sealed_bundle_hash''), (''route_profile_hash'', get operation ''route_profile_hash''),
         (''containment_profile_hash'', get operation ''containment_profile_hash''), (''provider'', get operation ''provider''),
         (''model'', get operation ''model''), (''output_limit'', get operation ''max_output_tokens''),
         (''call_limit'', get operation ''max_inference_calls''), (''cost_limit_usd'', get operation ''max_cost_usd''),
         (''duration_limit_seconds'', get operation ''max_duration_seconds'')]),
      (''effects'', JObj [(''high_privilege'', JBool True)])]"

record validated =
  v_request :: obj
  v_operation :: obj
  v_operation_id :: string
  v_plan_hash :: string
  v_approval_id :: string
  v_envelope :: json
  v_payload :: string

definition runner_request_fields :: "string list" where
  "runner_request_fields =
     [''schema_version'', ''operation'', ''capsule'', ''sealed_bundle_delivery'', ''approval_required'', ''credential_delivery'',
      ''approval_id'', ''approval_envelope'', ''input_payload_b64'']"

definition operation_fields :: "string list" where
  "operation_fields =
     [''contract_version'', ''action_id'', ''credential_ref'', ''input_payload_hash'', ''launch_contract_hash'',
      ''sealed_bundle_hash'', ''sealed_bundle_size_bytes'', ''sealed_bundle_entry_count'', ''source_tree_hash'',
      ''managed_hashes'', ''external_bindings'', ''route_profile_hash'', ''containment_profile_hash'', ''route_profile'',
      ''containment_profile'', ''provider'', ''model'', ''endpoint'', ''max_input_bytes'', ''max_output_tokens'',
      ''max_inference_calls'', ''max_cost_usd'', ''max_duration_seconds'', ''gate_mode'', ''rehearsal_only'', ''tool_policy'',
      ''approval_subagents'', ''auxiliary_inference'', ''promotion'', ''gate_enforce'', ''deployment'',
      ''external_trusted_runner_required'', ''operation_id'']"

definition expected_values :: "bootstrap \<Rightarrow> json \<Rightarrow> (string \<times> json) list" where
  "expected_values b launch =
     [(''action_id'', JStr runner_action_id), (''credential_ref'', JStr (b_credential_ref b)), (''launch_contract_hash'', launch),
      (''provider'', JStr ''openai-api''), (''model'', JStr ''gpt-5.6-sol''), (''endpoint'', JStr official_endpoint),
      (''max_input_bytes'', JInt (int max_input_bytes)), (''max_output_tokens'', JInt max_output_tokens),
      (''max_inference_calls'', JInt max_inference_calls), (''max_cost_usd'', JStr max_cost_text),
      (''max_duration_seconds'', JInt max_duration_seconds), (''gate_mode'', JStr ''shadow''),
      (''rehearsal_only'', JBool (b_mode b = ''rehearsal'')), (''tool_policy'', JStr ''zero''), (''approval_subagents'', JStr ''denied''),
      (''auxiliary_inference'', JStr ''denied''), (''promotion'', JBool False), (''gate_enforce'', JBool False),
      (''deployment'', JBool False), (''external_trusted_runner_required'', JBool True)]"

definition source_hash_ok :: "json \<Rightarrow> bool" where
  "source_hash_ok v \<longleftrightarrow> is_str v \<and> is_sha256 (str_val v)"

definition containment_ok :: "bootstrap \<Rightarrow> obj \<Rightarrow> bool" where
  "containment_ok b operation \<longleftrightarrow>
     (let profile = get operation ''containment_profile''; hashes = get (dict_val profile) ''source_hashes'' in
      is_dict profile \<and> keys_eq (dict_val profile) (map fst expected_containment_profile)
      \<and> py_eq profile (JObj (put ''source_hashes'' hashes expected_containment_profile))
      \<and> is_dict hashes \<and> keys_eq (dict_val hashes) managed_paths \<and> list_all (\<lambda>kv. source_hash_ok (snd kv)) (dict_val hashes)
      \<and> get operation ''containment_profile_hash'' = JStr (canonical_hash profile)
      \<and> \<not> (b_mode b = ''production'' \<and> \<not> py_eq profile (JObj expected_containment_profile)))"

definition route_ok :: "bootstrap \<Rightarrow> obj \<Rightarrow> bool" where
  "route_ok b operation \<longleftrightarrow>
     (let profile = get operation ''route_profile'' in
      is_dict profile \<and> keys_eq (dict_val profile) (map fst expected_route_profile)
      \<and> py_eq profile (JObj (put ''source_tree_hash'' (get operation ''source_tree_hash'')
           (put ''containment_profile_hash'' (get operation ''containment_profile_hash'') expected_route_profile)))
      \<and> get operation ''route_profile_hash'' = JStr (canonical_hash profile)
      \<and> py_eq (get (dict_val profile) ''containment_profile_hash'') (get operation ''containment_profile_hash'')
      \<and> py_eq (get (dict_val profile) ''source_tree_hash'') (get operation ''source_tree_hash'')
      \<and> \<not> (b_mode b = ''production'' \<and> \<not> py_eq profile (JObj expected_route_profile)))"

definition digest_fields :: "string list" where
  "digest_fields = [''input_payload_hash'', ''launch_contract_hash'', ''sealed_bundle_hash'', ''source_tree_hash'',
     ''route_profile_hash'', ''containment_profile_hash'']"

fun require_digests :: "(string \<times> json) list \<Rightarrow> unit run" where
  "require_digests [] = Inr ()"
| "require_digests ((label, v) # rows) = sbind (require_sha256 v label) (\<lambda>_. require_digests rows)"

definition positive :: "json \<Rightarrow> bool" where
  "positive v \<longleftrightarrow> is_int v \<and> 0 < int_val v"

definition managed_label :: "string \<Rightarrow> string" where
  "managed_label path = (let h = tagged_sha256 (utf8 path) in ''managed_hash_'' @ drop (length h - 8) h)"

text \<open>The policy, the profiles, the bindings and the digests of the operation.\<close>

definition check_operation :: "bootstrap \<Rightarrow> stable_calls \<Rightarrow> stable_calls \<Rightarrow> obj \<Rightarrow> unit run" where
  "check_operation b first second operation =
     demand (keys_eq operation operation_fields \<and> get operation ''contract_version'' = JStr ''0.3'') ''operation_contract_invalid''
     (sbind (descriptor b first) (\<lambda>described.
     demand (list_all (\<lambda>kv. py_eq (get operation (fst kv)) (snd kv)) (expected_values b (get described ''launch_contract_hash'')))
       ''operation_policy_mismatch''
     (demand (containment_ok b operation) ''containment_profile_binding_mismatch''
     (demand (route_ok b operation) ''route_profile_binding_mismatch''
     (sbind (descriptor b second) (\<lambda>bindings.
     demand (py_eq (get operation ''external_bindings'') (JObj bindings)) ''operation_external_bindings_mismatch''
     (sbind (require_digests (map (\<lambda>k. (k, get operation k)) digest_fields)) (\<lambda>_.
     demand (positive (get operation ''sealed_bundle_size_bytes'') \<and> positive (get operation ''sealed_bundle_entry_count''))
       ''sealed_bundle_shape_invalid''
     (demand (is_dict (get operation ''managed_hashes'') \<and> keys_eq (dict_val (get operation ''managed_hashes'')) managed_paths)
       ''managed_hashes_invalid''
     (require_digests (map (\<lambda>kv. (managed_label (fst kv), snd kv)) (dict_val (get operation ''managed_hashes'')))))))))))))"

definition input_payload :: "obj \<Rightarrow> obj \<Rightarrow> string run" where
  "input_payload request operation =
     (case (case get request ''input_payload_b64'' of JStr s \<Rightarrow> b64decode s | _ \<Rightarrow> None) of
        None \<Rightarrow> Inl (Violation ''input_payload_invalid'')
      | Some payload \<Rightarrow>
          demand (payload \<noteq> [] \<and> length payload \<le> max_input_bytes) ''input_payload_size_invalid''
          (demand (get operation ''input_payload_hash'' = JStr (tagged_sha256 payload)) ''input_payload_hash_mismatch''
          (Inr payload)))"

definition plan_hash_of :: "obj \<Rightarrow> string" where
  "plan_hash_of operation = canonical_hash (JObj (filter (\<lambda>kv. fst kv \<noteq> ''operation_id'') operation))"

definition operation_id_of :: "string \<Rightarrow> string" where
  "operation_id_of plan_hash = runner_action_id @ ''@'' @ drop 7 plan_hash"

definition capsule_fields :: "string list" where
  "capsule_fields =
     [''contract_version'', ''operation_id'', ''plan_hash'', ''sealed_bundle_hash'', ''external_bindings_hash'',
      ''environment_hash'', ''rehearsal_only'', ''credential_material_included'', ''authorization_consumed'',
      ''launch_permitted'', ''runtime_started'', ''inference_applied'', ''promotion_applied'', ''gate_enforce_applied'',
      ''deployment_applied'']"

definition capsule_flags :: "string list" where
  "capsule_flags = [''credential_material_included'', ''authorization_consumed'', ''launch_permitted'', ''runtime_started'',
     ''inference_applied'', ''promotion_applied'', ''gate_enforce_applied'', ''deployment_applied'']"

definition capsule_ok :: "obj \<Rightarrow> obj \<Rightarrow> string \<Rightarrow> string \<Rightarrow> bool" where
  "capsule_ok capsule operation operation_id plan_hash \<longleftrightarrow>
     keys_eq capsule capsule_fields \<and> get capsule ''contract_version'' = JStr ''0.3''
     \<and> get capsule ''operation_id'' = JStr operation_id \<and> get capsule ''plan_hash'' = JStr plan_hash
     \<and> py_eq (get capsule ''sealed_bundle_hash'') (get operation ''sealed_bundle_hash'')
     \<and> get capsule ''external_bindings_hash'' = JStr (canonical_hash (get operation ''external_bindings''))
     \<and> py_eq (get capsule ''rehearsal_only'') (get operation ''rehearsal_only'')
     \<and> list_all (\<lambda>k. get capsule k = JBool False) capsule_flags"

definition receipt_ok :: "obj \<Rightarrow> json \<Rightarrow> json \<Rightarrow> string \<Rightarrow> string \<Rightarrow> bool" where
  "receipt_ok operation envelope approval_id operation_id plan_hash \<longleftrightarrow>
     (let receipt = get (dict_val envelope) ''receipt'' in
      is_dict receipt \<and> py_eq (get (dict_val receipt) ''approval_id'') approval_id
      \<and> get (dict_val receipt) ''operation_id'' = JStr operation_id \<and> get (dict_val receipt) ''scope'' = JStr operation_id
      \<and> py_eq (get (dict_val receipt) ''operation_payload'') (approval_operation_payload operation operation_id plan_hash))"

definition validate_request :: "bootstrap \<Rightarrow> stable_calls \<Rightarrow> stable_calls \<Rightarrow> obj \<Rightarrow> validated run" where
  "validate_request b first second request =
     demand (keys_eq request runner_request_fields \<and> get request ''schema_version'' = JStr ''0.1'') ''runner_request_contract_invalid''
     (demand (get request ''sealed_bundle_delivery'' = JStr ''inherited-sealed-fd'' \<and> get request ''approval_required'' = JBool True
         \<and> get request ''credential_delivery'' = JStr ''external-runner-private-fd'') ''runner_request_delivery_invalid''
     (demand (is_dict (get request ''operation'') \<and> is_dict (get request ''capsule'')) ''runner_request_contract_invalid''
     (let operation = dict_val (get request ''operation''); capsule = dict_val (get request ''capsule'') in
      sbind (check_operation b first second operation) (\<lambda>_.
      sbind (input_payload request operation) (\<lambda>payload.
      demand (is_str (get operation ''operation_id'')) ''operation_id_invalid''
      (let plan_hash = plan_hash_of operation; operation_id = operation_id_of plan_hash in
       demand (get operation ''operation_id'' = JStr operation_id) ''operation_id_mismatch''
       (demand (capsule_ok capsule operation operation_id plan_hash) ''capsule_contract_mismatch''
       (sbind (require_sha256 (get capsule ''environment_hash'') ''environment_hash'') (\<lambda>_.
        demand (nonblank (get request ''approval_id'') \<and> is_dict (get request ''approval_envelope'')) ''approval_envelope_invalid''
        (demand (receipt_ok operation (get request ''approval_envelope'') (get request ''approval_id'') operation_id plan_hash)
          ''approval_operation_mismatch''
        (Inr \<lparr>v_request = request, v_operation = operation, v_operation_id = operation_id, v_plan_hash = plan_hash,
              v_approval_id = str_val (get request ''approval_id''), v_envelope = get request ''approval_envelope'',
              v_payload = payload\<rparr>)))))))))))"

end
