(* ===== verification/Runner_Bundle.thy ===== *)
theory Runner_Bundle
  imports Runner_Request
begin

text \<open>
  \<open>TrustedRunner._verify_bundle\<close> of \<open>src/src/sddgov/trusted_runner.py\<close>: the sealed memory file that
  holds the sources, its archive, and the manifest the archive has to agree with entry by entry.

  The calls on the descriptor and what \<open>zipfile\<close> reads are parameters.
\<close>


section \<open>The archive\<close>

record zip_entry =
  z_name :: string
  z_compress_type :: nat
  z_flag_bits :: nat
  z_file_size :: int

text \<open>Errors of \<open>zipfile\<close>: its own \<open>BadZipFile\<close>, or any other exception.\<close>

datatype archive_error = Bad_Zip_File | Archive_Raised exn

type_synonym 'a archive_result = "archive_error + 'a"

text \<open>An archive is its directory and the content of each entry.\<close>

type_synonym archive = "(zip_entry \<times> string archive_result) list"

text \<open>\<open>archive.read(name)\<close> reads the last entry of that name.\<close>

definition archive_read :: "archive \<Rightarrow> string \<Rightarrow> string archive_result" where
  "archive_read a name = (case find (\<lambda>e. z_name (fst e) = name) (rev a) of
     None \<Rightarrow> Inl (Archive_Raised (KeyError name))
   | Some e \<Rightarrow> snd e)"

fun is_key_or_os :: "exn \<Rightarrow> bool" where
  "is_key_or_os (KeyError m) = True"
| "is_key_or_os e = is_OSError e"

text \<open>\<open>except (KeyError, OSError, zipfile.BadZipFile)\<close> around the whole block\<close>

definition unzipped :: "'a archive_result \<Rightarrow> 'a run" where
  "unzipped m = (case m of
     Inl Bad_Zip_File \<Rightarrow> Inl (Violation ''sealed_bundle_zip_invalid'')
   | Inl (Archive_Raised e) \<Rightarrow> (if is_key_or_os e then Inl (Violation ''sealed_bundle_zip_invalid'') else Inl (Raised e))
   | Inr a \<Rightarrow> Inr a)"

definition zipped :: "'a result \<Rightarrow> 'a run" where
  "zipped m = denying is_key_or_os ''sealed_bundle_zip_invalid'' m"

lemma unzipped_Inr_iff: "unzipped m = Inr a \<longleftrightarrow> m = Inr a"
  by (auto simp: unzipped_def split: sum.splits archive_error.splits)

lemma zipped_Inr_iff: "zipped r = Inr b \<longleftrightarrow> r = Inr b"
  by (simp add: zipped_def denying_Inr_iff)

lemma zipped_InrE: "unzipped m = Inr a \<Longrightarrow> (m = Inr a \<Longrightarrow> P) \<Longrightarrow> P" "zipped r = Inr b \<Longrightarrow> (r = Inr b \<Longrightarrow> Q) \<Longrightarrow> Q"
  by (simp_all add: zipped_Inr_iff unzipped_Inr_iff)


section \<open>The entries\<close>

definition relative_name :: "string \<Rightarrow> bool" where
  "relative_name name \<longleftrightarrow> name \<noteq> [] \<and> CHR 0x00 \<notin> set name \<and> CHR 0x5C \<notin> set name \<and> \<not> is_absolute name
     \<and> ''..'' \<notin> set (path_parts name)"

definition plain_entry :: "zip_entry \<Rightarrow> bool" where
  "plain_entry e \<longleftrightarrow> \<not> ends_with ''/'' (z_name e) \<and> z_compress_type e = 0 \<and> \<not> odd (z_flag_bits e)"

fun check_entries :: "int \<Rightarrow> zip_entry list \<Rightarrow> int run" where
  "check_entries acc [] = Inr acc"
| "check_entries acc (e # es) =
     demand (relative_name (z_name e)) ''sealed_bundle_path_invalid''
     (demand (plain_entry e) ''sealed_bundle_entry_invalid''
     (check_entries (acc + z_file_size e) es))"

text \<open>
  The manifest is read under a handler of its own: a missing entry, text that is not UTF-8 and
  malformed JSON deny the manifest, a broken archive denies the archive.
\<close>

definition read_manifest :: "archive \<Rightarrow> (string \<times> json) run" where
  "read_manifest a = (case archive_read a source_manifest_path of
     Inl (Archive_Raised (KeyError k)) \<Rightarrow> Inl (Violation ''source_tree_manifest_invalid'')
   | r \<Rightarrow> sbind (unzipped r) (\<lambda>bytes.
       sbind (load_no_duplicates bytes ''source_tree_manifest_invalid'') (\<lambda>manifest. Inr (bytes, manifest))))"


section \<open>The manifest\<close>

definition source_fields :: "string list" where
  "source_fields = [''path'', ''kind'', ''mode'', ''value_hash'']"

definition source_path_ok :: "string list \<Rightarrow> json \<Rightarrow> bool" where
  "source_path_ok seen v \<longleftrightarrow> is_str v \<and> relative_name (str_val v) \<and> str_val v \<noteq> ''.agent-factory''
     \<and> \<not> starts_with ''.agent-factory/'' (str_val v) \<and> str_val v \<notin> set seen"

text \<open>\<open>kind\<close> and \<open>mode\<close> are looked up in sets, which raises for a list or a dict.\<close>

definition kind_ok :: "json \<Rightarrow> json \<Rightarrow> bool result" where
  "kind_ok kind mode =
     rbind (in_strings kind [''file'', ''symlink'']) (\<lambda>known.
       if \<not> known then Inr False
       else if kind = JStr ''file'' then in_strings mode [''100644'', ''100755'']
       else Inr (mode = JStr ''120000''))"

text \<open>\<open>operation["containment_profile"]["source_hashes"][path]\<close>\<close>

definition contained_hash :: "obj \<Rightarrow> string \<Rightarrow> json result" where
  "contained_hash operation path =
     rbind (item (JObj operation) ''containment_profile'') (\<lambda>profile.
     rbind (item profile ''source_hashes'') (\<lambda>hashes. item hashes path))"

definition original_name :: "string \<Rightarrow> string" where
  "original_name path = (if path \<in> set managed_paths then original_source_prefix @ path else path)"

definition source_content_matches :: "archive \<Rightarrow> string \<Rightarrow> string \<Rightarrow> unit run" where
  "source_content_matches a name value_hash =
     demand (name \<in> (z_name \<circ> fst) ` set a) ''source_tree_content_mismatch''
     (sbind (unzipped (archive_read a name)) (\<lambda>bytes.
     demand (tagged_sha256 bytes = value_hash) ''source_tree_content_mismatch'' (Inr ())))"

definition check_source :: "archive \<Rightarrow> obj \<Rightarrow> string list \<Rightarrow> json \<Rightarrow> string run" where
  "check_source a operation seen entry =
     demand (is_dict entry \<and> keys_eq (dict_val entry) source_fields) ''source_tree_manifest_invalid''
     (let d = dict_val entry; path = get d ''path'' in
      demand (source_path_ok seen path) ''source_tree_manifest_invalid''
      (sbind (raw (kind_ok (get d ''kind'') (get d ''mode''))) (\<lambda>ok.
       demand ok ''source_tree_manifest_invalid''
       (sbind (require_sha256 (get d ''value_hash'') ''source_tree_value_hash'') (\<lambda>value_hash.
       sbind (if str_val path \<in> set managed_paths
              then sbind (zipped (contained_hash operation (str_val path))) (\<lambda>expected.
                demand (expected = JStr (remove_prefix ''sha256:'' value_hash)) ''containment_source_hash_mismatch'' (Inr ()))
              else Inr ()) (\<lambda>_.
       sbind (source_content_matches a (original_name (str_val path)) value_hash) (\<lambda>_. Inr (str_val path))))))))"

text \<open>The names the archive has to have, in the order the loop meets them.\<close>

definition names_of_source :: "string \<Rightarrow> string list" where
  "names_of_source path = (if path \<in> set managed_paths then [path, original_source_prefix @ path] else [path])"

fun check_sources :: "archive \<Rightarrow> obj \<Rightarrow> string list \<Rightarrow> json list \<Rightarrow> string list run" where
  "check_sources a operation seen [] = Inr seen"
| "check_sources a operation seen (e # es) =
     sbind (check_source a operation seen e) (\<lambda>path. check_sources a operation (seen @ [path]) es)"

definition expected_names :: "string list \<Rightarrow> string list" where
  "expected_names paths = source_manifest_path # concat (map names_of_source paths)"

fun check_managed :: "archive \<Rightarrow> (string \<times> json) list \<Rightarrow> unit run" where
  "check_managed a [] = Inr ()"
| "check_managed a ((name, expected) # rows) =
     sbind (unzipped (archive_read a name)) (\<lambda>bytes.
     demand (expected = JStr (tagged_sha256 bytes)) ''managed_bundle_hash_mismatch'' (check_managed a rows))"

definition managed_items :: "obj \<Rightarrow> (string \<times> json) list result" where
  "managed_items operation = rbind (item (JObj operation) ''managed_hashes'') (\<lambda>v.
     case v of JObj d \<Rightarrow> Inr d | _ \<Rightarrow> Inl (AttributeError ''object has no attribute items''))"

definition check_archive :: "archive \<Rightarrow> int \<Rightarrow> obj \<Rightarrow> unit run" where
  "check_archive a limit operation =
     (let entries = map fst a; names = map z_name entries in
      sbind (zipped (item (JObj operation) ''sealed_bundle_entry_count'')) (\<lambda>count.
      demand (py_eq (JInt (int (length entries))) count) ''sealed_bundle_entry_count_mismatch''
      (demand (distinct names) ''sealed_bundle_duplicate_entry''
      (sbind (check_entries 0 entries) (\<lambda>uncompressed.
      demand (uncompressed \<le> limit) ''sealed_bundle_size_amplification''
      (sbind (read_manifest a) (\<lambda>(bytes, manifest).
      demand (is_list manifest \<and> list_val manifest \<noteq> [] \<and> bytes = canonical_bytes manifest) ''source_tree_manifest_invalid''
      (sbind (check_sources a operation [] (list_val manifest)) (\<lambda>paths.
      sbind (if set names = set (expected_names paths) then zipped (item (JObj operation) ''source_tree_hash'') else Inr JNull) (\<lambda>tree.
      demand (set names = set (expected_names paths) \<and> tree = JStr (canonical_hash manifest)) ''source_tree_binding_mismatch''
      (sbind (zipped (managed_items operation)) (\<lambda>managed. check_managed a managed)))))))))))) "


section \<open>The sealed file\<close>

record bundle_calls =
  bc_before :: "os_stat result"
  bc_seals :: "nat result"
  bc_link :: "string result"
  bc_chunks :: "string result list"
  bc_after :: "os_stat result"
  bc_dup :: "unit result"
  bc_archive :: "archive archive_result"

definition required_seals :: nat where "required_seals = 1 + 2 + 4 + 8"

text \<open>A loop that reads a known number of bytes; an empty answer before the end is refused.\<close>

fun read_exactly :: "string \<Rightarrow> nat \<Rightarrow> nat \<Rightarrow> string result list \<Rightarrow> string run" where
  "read_exactly reason limit left [] = (if left = 0 then Inr [] else Inl (Violation reason))"
| "read_exactly reason limit left (r # rs) =
     (if left = 0 then Inr []
      else sbind (raw r) (\<lambda>c.
        let chunk = take (min limit left) c in
        demand (chunk \<noteq> []) reason
        (sbind (read_exactly reason limit (left - length chunk) rs) (\<lambda>rest. Inr (chunk @ rest)))))"

lemma read_exactly_length: "read_exactly reason limit left rs = Inr bytes \<Longrightarrow> length bytes = left"
proof (induction rs arbitrary: left bytes)
  case (Cons r rs)
  then show ?case by (fastforce simp: Let_def elim!: runE split: if_splits)
qed (simp split: if_splits)

definition verify_bundle :: "bundle_calls \<Rightarrow> obj \<Rightarrow> unit run" where
  "verify_bundle c operation =
     sbind (denying is_OSError ''sealed_bundle_fd_invalid'' (bc_before c)) (\<lambda>before.
     sbind (denying is_OSError ''sealed_bundle_fd_invalid'' (bc_seals c)) (\<lambda>seals.
     sbind (denying is_OSError ''sealed_bundle_fd_invalid'' (bc_link c)) (\<lambda>link.
     demand (st_kind before = Regular \<and> contains ''memfd:'' link) ''sealed_bundle_not_memfd''
     (demand (and seals required_seals = required_seals) ''sealed_bundle_seals_missing''
     (sbind (raw (item (JObj operation) ''sealed_bundle_size_bytes'')) (\<lambda>size.
     demand (py_eq (JInt (st_size before)) size) ''sealed_bundle_size_mismatch''
     (sbind (read_exactly ''sealed_bundle_read_incomplete'' (1024 * 1024) (nat (st_size before)) (bc_chunks c)) (\<lambda>bytes.
     sbind (raw (bc_after c)) (\<lambda>after.
     demand (same_inode before after \<and> st_size before = st_size after) ''sealed_bundle_identity_mismatch''
     (sbind (raw (item (JObj operation) ''sealed_bundle_hash'')) (\<lambda>digest.
     demand (digest = JStr (tagged_sha256 bytes)) ''sealed_bundle_identity_mismatch''
     (sbind (raw (bc_dup c)) (\<lambda>_.
     sbind (unzipped (bc_archive c)) (\<lambda>a. check_archive a (st_size before) operation))))))))))))))"

end
