(* ===== verification/Runner_Approval.thy ===== *)
theory Runner_Approval
  imports Runner_Bundle Escalation_Facts
begin

text \<open>
  Consuming the approval of an exact operation (\<open>src/src/sddgov/trusted_runner.py\<close>): the lock,
  the two readings of the approval authority, the private envelope file, and the import and
  evaluation by the escalation policy. The two policy calls run in worlds of their own.
\<close>


section \<open>Writing a private file\<close>

text \<open>
  The calls of \<open>_write_private\<close> and of the envelope writer. The outcome is paired with the bytes
  in the file, which stays when a later call fails.
\<close>

record write_calls =
  wr_open :: "unit result"
  wr_writes :: "nat result list"
  wr_fsync :: "unit result"
  wr_close :: "unit result"

function put_bytes :: "stop \<Rightarrow> string \<Rightarrow> nat result list \<Rightarrow> string \<Rightarrow> unit run \<times> string" where
  "put_bytes stalled bytes rs file =
     (if bytes = [] then (Inr (), file)
      else case rs of
        [] \<Rightarrow> (Inl stalled, file)
      | Inl e # _ \<Rightarrow> (Inl (Raised e), file)
      | Inr n # rest \<Rightarrow>
          if n = 0 then (Inl stalled, file)
          else put_bytes stalled (drop n bytes) rest (file @ take n bytes))"
  by pat_completeness auto
termination
  by (relation "measure (\<lambda>(stalled, bytes, rs, file). length rs)") auto

declare put_bytes.simps [simp del]

definition create_private :: "string \<Rightarrow> write_calls \<Rightarrow> string \<Rightarrow> unit run \<times> string option" where
  "create_private stalled c bytes = (case wr_open c of
     Inl e \<Rightarrow> (Inl (Raised e), None)
   | Inr _ \<Rightarrow> (case put_bytes (Raised (OSError stalled)) bytes (wr_writes c) [] of (r, file) \<Rightarrow>
       (sbind (raw (wr_close c)) (\<lambda>_. sbind r (\<lambda>_. raw (wr_fsync c))), Some file)))"

definition write_private :: "write_calls \<Rightarrow> string \<Rightarrow> unit run \<times> string option" where
  "write_private c bytes = create_private ''private write made no progress'' c bytes"

lemma put_bytes_all: "put_bytes stgot1ed bytes rs got = (Inr (), got1) \<Longrightarrow> got1 = got @ bytes"
proof (induction rs arbitrary: bytes got)
  case Nil
  then show ?case by (simp add: put_bytes.simps [of stgot1ed bytes "[]"] split: if_splits)
next
  case (Cons r rs)
  show ?case
  proof (cases "bytes = []")
    case False
    then obtain n where "put_bytes stgot1ed (drop n bytes) rs (got @ take n bytes) = (Inr (), got1)"
      using Cons.prems by (simp add: put_bytes.simps [of stgot1ed bytes "r # rs"] split: sum.splits if_splits)
    then show ?thesis using Cons.IH by fastforce
  qed (use Cons.prems in \<open>simp add: put_bytes.simps\<close>)
qed

lemma create_private_all: "create_private stalled c bytes = (Inr (), file) \<Longrightarrow> file = Some bytes"
  by (auto simp: create_private_def sbind_Inr_iff split: sum.splits prod.splits dest: put_bytes_all)


section \<open>The lock\<close>

record approval_lock_calls =
  al_mkdir :: "unit result"
  al_lstat :: "os_stat result"
  al_resolved :: "string result"
  al_open :: "unit result"
  al_fstat :: "os_stat result"
  al_flock :: "unit result"
  al_release :: "unit result"

definition private_lock_file :: "int \<Rightarrow> os_stat \<Rightarrow> bool" where
  "private_lock_file uid m \<longleftrightarrow> st_kind m = Regular \<and> st_uid m = uid \<and> st_nlink m = 1 \<and> st_perm m = 384"

definition take_approval_lock :: "bootstrap \<Rightarrow> approval_lock_calls \<Rightarrow> unit run" where
  "take_approval_lock b c =
     sbind (raw (al_mkdir c)) (\<lambda>_.
     sbind (private_directory (al_lstat c) (al_resolved c) ''approval_state_directory'' (b_service_uid b)) (\<lambda>_.
     sbind (denying is_OSError ''approval_lock_unavailable'' (al_open c)) (\<lambda>_.
     sbind (denying is_OSError ''approval_lock_unavailable'' (al_fstat c)) (\<lambda>m.
     demand (private_lock_file (b_service_uid b) m) ''approval_lock_not_private_regular''
     (denying is_OSError ''approval_lock_unavailable'' (al_flock c))))))"


section \<open>Consumption\<close>

record approval_calls =
  ap_lock :: approval_lock_calls
  ap_authority :: stable_calls
  ap_fixed :: load_calls
  ap_write :: write_calls
  ap_unlink :: "unit result"
  ap_again :: stable_calls

definition expected_authority :: "obj \<Rightarrow> json result" where
  "expected_authority operation =
     rbind (item (JObj operation) ''external_bindings'') (\<lambda>v. item v ''approval_authority_identity_hash'')"

definition payload_of :: "validated \<Rightarrow> json" where
  "payload_of v = approval_operation_payload (v_operation v) (v_operation_id v) (v_plan_hash v)"

definition decision_request :: "validated \<Rightarrow> obj" where
  "decision_request v =
     [(''risk_level'', JStr ''L3''), (''category'', JStr ''high_risk_operation''),
      (''effects'', JObj [(''high_privilege'', JBool True)]), (''operation_id'', JStr (v_operation_id v)),
      (''approval_id'', JStr (v_approval_id v)), (''operation_payload'', payload_of v),
      (''decision_package'', JObj
        [(''decision_id'', JStr (v_approval_id v)), (''risk_level'', JStr ''L3''),
         (''why_human_input_is_required'', JStr ''The exact operation may read one secret and perform one metered inference.''),
         (''what_agent_already_verified'', JArr
           [JStr ''The sealed bundle and external Runner bindings match the exact operation'',
            JStr ''The Runner owns credential access, child lifetime, and rollback'']),
         (''options'', JArr
           [JObj [(''label'', JStr ''approve''), (''description'', JStr ''Run exactly this one-use operation.'')],
            JObj [(''label'', JStr ''deny''), (''description'', JStr ''Keep the operation blocked.'')]]),
         (''recommended'', JStr ''approve''), (''why'', JStr ''Only an exact signed receipt can cross the trusted boundary.''),
         (''impact_if_no_decision'', JStr ''No credential is opened and no child starts.''),
         (''scope_of_approval'', JStr (v_operation_id v)), (''operation_payload'', payload_of v)])]"

definition expected_answer :: "validated \<Rightarrow> obj" where
  "expected_answer v =
     [(''state'', JStr ''CONTINUE''), (''requires_response'', JBool False), (''reason'', JStr ''fresh_l3_operation_approval_verified''),
      (''next_action'', JStr ''continue''), (''approval_id'', JStr (v_approval_id v)), (''operation_id'', JStr (v_operation_id v)),
      (''authorized_operation_payload'', payload_of v),
      (''operation_payload_sha256'', JStr (sha256_hex (canonical_bytes (payload_of v)))), (''approval_consumed'', JBool True)]"

fun is_policy_error :: "exn \<Rightarrow> bool" where
  "is_policy_error (FileNotFoundError m) = True"
| "is_policy_error e = is_ValueError e"

text \<open>What \<open>json.loads\<close> finds in the file the envelope was written to.\<close>

definition stored_json :: "string option \<Rightarrow> store_file" where
  "stored_json file = (case file of None \<Rightarrow> Missing | Some bytes \<Rightarrow>
     (case loads_bytes bytes of Inl e \<Rightarrow> Malformed | Inr v \<Rightarrow> Doc v))"

text \<open>The two readings of the authority before anything is written.\<close>

definition check_authority :: "'b world \<Rightarrow> approval_calls \<Rightarrow> bootstrap \<Rightarrow> obj \<Rightarrow> json run" where
  "check_authority w c b operation =
     sbind (authority_hash b (ap_authority c)) (\<lambda>authority.
     sbind (raw (expected_authority operation)) (\<lambda>expected.
     demand (expected = JStr authority) ''approval_authority_identity_changed''
     (sbind (denying (\<lambda>e. is_ValueError e \<or> is_OSError e) ''approval_verification_failed''
         (load_document w (ap_fixed c) ''fixed trusted approver store'')) (\<lambda>fixed_authority.
      demand (canonical_hash (JObj fixed_authority) = authority) ''approval_authority_identity_changed'' (Inr expected)))))"

text \<open>\<open>import_operation_approval\<close> in world \<open>w\<close>, then \<open>evaluate_escalation\<close> in world \<open>u\<close>.\<close>

definition import_and_evaluate ::
  "'b world \<Rightarrow> 'b world \<Rightarrow> store_file \<Rightarrow> obj \<Rightarrow> repo \<Rightarrow> 'b \<Rightarrow> obj result \<times> repo \<times> 'b" where
  "import_and_evaluate w u envelope request s d = (case import_operation_approval w envelope s of
     (Inl e, s1) \<Rightarrow> (Inl e, s1, d)
   | (Inr _, s1) \<Rightarrow> evaluate_escalation u request s1 d)"

definition unlinked :: "unit result \<Rightarrow> unit result" where
  "unlinked r = (case r of Inl (FileNotFoundError m) \<Rightarrow> Inr () | _ \<Rightarrow> r)"

type_synonym 'b consumption_state = "repo \<times> 'b \<times> string option"

definition check_answer :: "approval_calls \<Rightarrow> bootstrap \<Rightarrow> validated \<Rightarrow> json \<Rightarrow> obj \<Rightarrow> unit run" where
  "check_answer c b v expected reply =
     sbind (authority_hash b (ap_again c)) (\<lambda>again.
     demand (expected = JStr again) ''approval_authority_identity_changed''
     (demand (py_eq (JObj reply) (JObj (expected_answer v))) ''approval_not_consumed'' (Inr ())))"

definition consume_locked ::
  "'b world \<Rightarrow> 'b world \<Rightarrow> approval_calls \<Rightarrow> bootstrap \<Rightarrow> validated \<Rightarrow> repo \<Rightarrow> 'b \<Rightarrow> unit run \<times> 'b consumption_state" where
  "consume_locked w u c b v s d = (case check_authority w c b (v_operation v) of
     Inl e \<Rightarrow> (Inl e, s, d, None)
   | Inr expected \<Rightarrow>
       (case create_private ''approval write made no progress'' (ap_write c) (canonical_bytes (v_envelope v)) of
          (Inl e, file) \<Rightarrow> (Inl e, s, d, file)
        | (Inr _, file) \<Rightarrow>
            (case import_and_evaluate w u (stored_json file) (decision_request v) s d of (r, s1, d1) \<Rightarrow>
              (case unlinked (ap_unlink c) of
                 Inl e \<Rightarrow> (Inl (Raised e), s1, d1, file)
               | Inr _ \<Rightarrow> (sbind (denying is_policy_error ''approval_verification_failed'' r) (check_answer c b v expected), s1, d1, None)))))"

definition consume_approval ::
  "'b world \<Rightarrow> 'b world \<Rightarrow> approval_calls \<Rightarrow> bootstrap \<Rightarrow> validated \<Rightarrow> repo \<Rightarrow> 'b \<Rightarrow> unit run \<times> 'b consumption_state" where
  "consume_approval w u c b v s d = (case take_approval_lock b (ap_lock c) of
     Inl e \<Rightarrow> (Inl e, s, d, None)
   | Inr _ \<Rightarrow> (case consume_locked w u c b v s d of (r, st) \<Rightarrow>
       (case al_release (ap_lock c) of Inl e \<Rightarrow> (Inl (Raised e), st) | Inr _ \<Rightarrow> (r, st))))"


section \<open>What a consumption shows\<close>

lemma py_eq_member:
  assumes "py_eq (JObj a) (JObj b)" and "has_key a k"
  shows "py_eq (get a k) (get b k)"
proof -
  obtain v where v: "map_of a k = Some v" using assms(2) by (auto simp: has_key_map_of)
  then have "(k, v) \<in> set a" by (rule map_of_SomeD)
  then show ?thesis using assms(1) v by (force simp: py_eq.simps get_def split: option.splits)
qed

end
