(* ===== verification/Runner_Child.thy ===== *)
theory Runner_Child
  imports Runner_Approval
begin

text \<open>
  The child of the trusted runner (\<open>src/src/sddgov/trusted_runner.py\<close>): opening the credential,
  starting the runtime with a fixed command line and environment, waiting for it, and reading
  its result; and the launcher the child begins in (\<open>src/src/sddgov/_trusted_exec.py\<close>).

  Closing a descriptor that was only read succeeds; the closes that \<open>_run_child\<close> watches are
  parameters. A buffer that is overwritten with zeros is a string of zeros.
\<close>


section \<open>The credential\<close>

record secret_calls =
  sec_before :: "os_stat result"
  sec_open :: "unit result"
  sec_opened :: "os_stat result"
  sec_reads :: "string result list"
  sec_after :: "os_stat result"
  sec_path :: "os_stat result"

definition os_error_denied :: "string \<Rightarrow> 'a run \<Rightarrow> 'a run" where
  "os_error_denied reason m = (case m of
     Inl (Raised e) \<Rightarrow> (if is_OSError e then Inl (Violation reason) else Inl (Raised e)) | _ \<Rightarrow> m)"

lemma os_error_denied_Inr_iff: "os_error_denied reason m = Inr a \<longleftrightarrow> m = Inr a"
  by (auto simp: os_error_denied_def split: sum.splits stop.splits)

definition secret_file_ok :: "int \<Rightarrow> nat \<Rightarrow> os_stat \<Rightarrow> os_stat \<Rightarrow> bool" where
  "secret_file_ok uid limit before opened \<longleftrightarrow> same_inode before opened \<and> st_kind opened = Regular \<and> st_nlink opened = 1
     \<and> st_uid opened = uid \<and> st_perm opened = 384 \<and> 0 < st_size opened \<and> st_size opened \<le> int limit"

definition stable_read_secret :: "secret_calls \<Rightarrow> int \<Rightarrow> nat \<Rightarrow> string run" where
  "stable_read_secret c uid limit = os_error_denied ''credential_source_unavailable''
     (sbind (raw (sec_before c)) (\<lambda>before.
      demand (st_kind before = Regular) ''credential_source_not_private_regular''
      (sbind (raw (sec_open c)) (\<lambda>_.
       sbind (raw (sec_opened c)) (\<lambda>opened.
       demand (secret_file_ok uid limit before opened) ''credential_source_metadata_invalid''
       (sbind (read_exactly ''credential_source_read_incomplete'' limit (nat (st_size opened)) (sec_reads c)) (\<lambda>bytes.
        sbind (raw (sec_after c)) (\<lambda>after_fd.
        sbind (raw (sec_path c)) (\<lambda>after_path.
        demand (same_generation opened after_fd \<and> same_generation opened after_path) ''credential_source_identity_changed''
        (Inr bytes))))))))))"

definition credential_shape :: "string \<Rightarrow> bool" where
  "credential_shape bytes \<longleftrightarrow> 20 \<le> length bytes \<and> starts_with ''sk-'' bytes
     \<and> list_all (\<lambda>c. 33 \<le> (of_char c :: nat) \<and> (of_char c :: nat) \<le> 126) bytes"

definition open_credential :: "bootstrap \<Rightarrow> secret_calls \<Rightarrow> string run" where
  "open_credential b c =
     sbind (stable_read_secret c (b_service_uid b) max_secret_bytes) (\<lambda>bytes.
     demand (tagged_sha256 bytes = b_credential_sha256 b) ''credential_source_hash_mismatch''
     (demand (credential_shape bytes) ''credential_shape_invalid'' (Inr bytes)))"


section \<open>Starting the child\<close>

text \<open>\<open>child.wait(timeout)\<close>: the return code, the end of the time, or an exception.\<close>

datatype waited = Exited int | Still_Running | Wait_Failed exn

record child_calls =
  ch_home :: "unit result"
  ch_input :: write_calls
  ch_launcher :: "string result"
  ch_python :: string
  ch_environ :: "string \<Rightarrow> string option"
  ch_stdout :: "nat result"
  ch_stderr :: "nat result"
  ch_pipe :: "(nat \<times> nat) result"
  ch_pipe_writes :: "nat result list"
  ch_close_fails :: "string list"
  ch_spawn :: "unit result"
  ch_wait :: waited
  ch_term :: "unit result"
  ch_term_wait :: waited
  ch_kill :: "unit result"
  ch_kill_wait :: waited
  ch_elapsed_ms :: int
  ch_stdout_read :: stable_calls
  ch_stderr_read :: stable_calls
  ch_result_read :: stable_calls

text \<open>What a child process is started with.\<close>

record launch =
  l_argv :: "string list"
  l_cwd :: string
  l_environment :: "(string \<times> string) list"
  l_pass_fds :: "nat list"
  l_pipe :: string

definition fd_path :: "nat \<Rightarrow> string" where
  "fd_path fd = ''/proc/self/fd/'' @ show_nat fd"

definition placeholder_values :: "string \<Rightarrow> nat \<Rightarrow> (string \<times> string) list" where
  "placeholder_values root bundle_fd =
     zip placeholders [fd_path bundle_fd, root @ ''/hermes-home'', root @ ''/input.bin'', root @ ''/result.json'']"

definition substitute :: "(string \<times> string) list \<Rightarrow> string \<Rightarrow> string" where
  "substitute values v = (case map_of values v of None \<Rightarrow> v | Some x \<Rightarrow> x)"

definition child_argv :: "bootstrap \<Rightarrow> child_calls \<Rightarrow> string \<Rightarrow> string \<Rightarrow> nat \<Rightarrow> nat \<Rightarrow> string list" where
  "child_argv b c launcher root bundle_fd secret_fd =
     [ch_python c, ''-I'', launcher, show_nat max_child_artifact_bytes, show_nat max_secret_bytes, show_nat secret_fd,
      b_runtime_executable b] @ map (substitute (placeholder_values root bundle_fd)) (b_runtime_argv b)"

definition inherited_names :: "string list" where
  "inherited_names = [''LANG'', ''LC_ALL'', ''SSL_CERT_DIR'', ''SSL_CERT_FILE'']"

definition inherited :: "(string \<Rightarrow> string option) \<Rightarrow> (string \<times> string) list" where
  "inherited environ = concat (map (\<lambda>n. case environ n of Some v \<Rightarrow> (if v = [] then [] else [(n, v)]) | None \<Rightarrow> []) inherited_names)"

definition fixed_environment :: "string \<Rightarrow> nat \<Rightarrow> (string \<times> string) list" where
  "fixed_environment root bundle_fd =
     [(''PYTHONPATH'', fd_path bundle_fd), (''PYTHONDONTWRITEBYTECODE'', ''1''), (''PYTHONUNBUFFERED'', ''1''),
      (''HERMES_HOME'', root @ ''/hermes-home''), (''AGENT_FACTORY_HERMES_CONTAINMENT'', ''1''),
      (''AGENT_FACTORY_ALLOWED_PROVIDER'', ''openai-api''), (''AGENT_FACTORY_ALLOWED_MODEL'', ''gpt-5.6-sol''),
      (''AGENT_FACTORY_MAX_INFERENCE_CALLS'', show_int max_inference_calls),
      (''AGENT_FACTORY_MAX_OUTPUT_TOKENS'', show_int max_output_tokens),
      (''AGENT_FACTORY_MAX_INPUT_BYTES'', show_nat max_input_bytes), (''AGENT_FACTORY_ALLOWED_BASE_URL'', official_endpoint),
      (''OPENAI_BASE_URL'', official_endpoint), (''HERMES_INFERENCE_PROVIDER'', ''openai-api''), (''HERMES_MODEL'', ''gpt-5.6-sol''),
      (''HERMES_MAX_TOKENS'', show_int max_output_tokens), (''AGENT_FACTORY_INPUT_PATH'', root @ ''/input.bin''),
      (''AGENT_FACTORY_RESULT_PATH'', root @ ''/result.json'')]"

definition child_environment :: "bootstrap \<Rightarrow> child_calls \<Rightarrow> string \<Rightarrow> nat \<Rightarrow> (string \<times> string) list" where
  "child_environment b c root bundle_fd = inherited (ch_environ c) @ fixed_environment root bundle_fd
     @ (if b_mode b = ''rehearsal'' then [(''AGENT_FACTORY_OFFLINE_ONLY'', ''1'')] else [])"


section \<open>Waiting\<close>

text \<open>
  The state of the attempt: the error that ended it, the descriptors it still owns, whether a
  close has failed, what was launched, and how the wait ended.
\<close>

record child_attempt =
  at_error :: "stop option"
  at_owned :: "string list"
  at_close_failed :: bool
  at_launch :: "launch option"
  at_timed_out :: bool
  at_return_code :: "int option"

definition ended :: "stop option \<Rightarrow> string list \<Rightarrow> bool \<Rightarrow> launch option \<Rightarrow> bool \<Rightarrow> int option \<Rightarrow> child_attempt" where
  "ended e owned failed l timed_out code =
     \<lparr>at_error = e, at_owned = owned, at_close_failed = failed, at_launch = l, at_timed_out = timed_out, at_return_code = code\<rparr>"

definition time_expired :: stop where
  "time_expired = Raised (RuntimeError ''TimeoutExpired'')"

text \<open>The wait, \<open>SIGTERM\<close> and the second wait, \<open>SIGKILL\<close> and the last one.\<close>

definition wait_child :: "child_calls \<Rightarrow> stop option \<times> bool \<times> int option" where
  "wait_child c = (case ch_wait c of
     Exited n \<Rightarrow> (None, False, Some n)
   | Wait_Failed e \<Rightarrow> (Some (Raised e), False, None)
   | Still_Running \<Rightarrow> (case ch_term c of
       Inl e \<Rightarrow> (Some (Raised e), True, None)
     | Inr _ \<Rightarrow> (case ch_term_wait c of
         Exited n \<Rightarrow> (None, True, Some n)
       | Wait_Failed e \<Rightarrow> (Some (Raised e), True, None)
       | Still_Running \<Rightarrow> (case ch_kill c of
           Inl e \<Rightarrow> (Some (Raised e), True, None)
         | Inr _ \<Rightarrow> (case ch_kill_wait c of
             Exited n \<Rightarrow> (None, True, Some n)
           | Wait_Failed e \<Rightarrow> (Some (Raised e), True, None)
           | Still_Running \<Rightarrow> (Some time_expired, True, None))))))"

text \<open>Writing the secret into the pipe.\<close>

definition fill_pipe :: "string \<Rightarrow> nat result list \<Rightarrow> unit run" where
  "fill_pipe secret rs = fst (put_bytes (Violation ''credential_pipe_write_failed'') secret rs [])"

text \<open>
  The part of \<open>_run_child\<close> under \<open>try\<close>. The closing of the write end is watched: when it fails the
  child is not started.
\<close>

definition start_child :: "bootstrap \<Rightarrow> child_calls \<Rightarrow> string \<Rightarrow> string \<Rightarrow> nat \<Rightarrow> nat \<Rightarrow> string \<Rightarrow> child_attempt" where
  "start_child b c launcher root bundle_fd secret_fd secret =
     (let owned = [''stdout'', ''stderr'', ''secret_read''];
          l = \<lparr>l_argv = child_argv b c launcher root bundle_fd secret_fd, l_cwd = root,
               l_environment = child_environment b c root bundle_fd, l_pass_fds = [bundle_fd, secret_fd], l_pipe = secret\<rparr>
      in if ''secret_write'' \<in> set (ch_close_fails c)
         then ended (Some (Child_Failure ''descriptor_cleanup_failed'' False)) owned True None False None
         else (case ch_spawn c of
             Inl e \<Rightarrow> ended (Some (Raised e)) owned False None False None
           | Inr _ \<Rightarrow> (case wait_child c of (e, timed_out, code) \<Rightarrow> ended e owned False (Some l) timed_out code)))"

definition attempt_child :: "bootstrap \<Rightarrow> child_calls \<Rightarrow> string \<Rightarrow> string \<Rightarrow> nat \<Rightarrow> string \<Rightarrow> child_attempt" where
  "attempt_child b c launcher root bundle_fd secret = (case ch_stdout c of
     Inl e \<Rightarrow> ended (Some (Raised e)) [] False None False None
   | Inr _ \<Rightarrow> (case ch_stderr c of
       Inl e \<Rightarrow> ended (Some (Raised e)) [''stdout''] False None False None
     | Inr _ \<Rightarrow> (case ch_pipe c of
         Inl e \<Rightarrow> ended (Some (Raised e)) [''stdout'', ''stderr''] False None False None
       | Inr (secret_fd, _) \<Rightarrow> (case fill_pipe secret (ch_pipe_writes c) of
           Inl e \<Rightarrow> ended (Some e) [''stdout'', ''stderr'', ''secret_read'', ''secret_write''] False None False None
         | Inr _ \<Rightarrow> start_child b c launcher root bundle_fd secret_fd secret))))"

text \<open>The \<open>finally\<close> clause and the checks after it.\<close>

definition all_closed :: "child_calls \<Rightarrow> child_attempt \<Rightarrow> bool" where
  "all_closed c a \<longleftrightarrow> \<not> at_close_failed a \<and> set (at_owned a) \<inter> set (ch_close_fails c) = {}"

fun child_failure :: "stop \<Rightarrow> bool \<Rightarrow> stop" where
  "child_failure (Violation reason) closed = Child_Failure reason closed"
| "child_failure (Child_Failure reason open_ok) closed = Child_Failure reason (closed \<and> open_ok)"
| "child_failure (Raised e) closed = Child_Failure ''unexpected_error'' closed"

definition settle_attempt :: "child_calls \<Rightarrow> child_attempt \<Rightarrow> int run" where
  "settle_attempt c a = (case at_error a of
     Some e \<Rightarrow> Inl (child_failure e (all_closed c a))
   | None \<Rightarrow>
       (if \<not> all_closed c a then Inl (Child_Failure ''descriptor_cleanup_failed'' False)
        else (case at_return_code a of None \<Rightarrow> Inl (Child_Failure ''unexpected_error'' True) | Some n \<Rightarrow> Inr n)))"


section \<open>Costs\<close>

text \<open>
  \<open>Decimal(text)\<close>: white space around it and underscores are dropped. A number is a sign, the
  digits and a power of ten; the constructor refuses what it cannot hold exactly.
\<close>

datatype decimal = Not_Finite | Number (negative: bool) (coefficient: nat) (exponent: int)

definition max_exponent :: int where "max_exponent = 999999999999999999"
definition min_exponent :: int where "min_exponent = - 1999999999999999997"

text \<open>A sign, and the rest of the text.\<close>

fun signed_text :: "string \<Rightarrow> bool \<times> string" where
  "signed_text (c # s) = (if c = CHR ''-'' then (True, s) else if c = CHR ''+'' then (False, s) else (False, c # s))"
| "signed_text [] = (False, [])"

definition exponent_of :: "string \<Rightarrow> int option" where
  "exponent_of s = (case s of
     [] \<Rightarrow> Some 0
   | e # rest \<Rightarrow> (if e \<noteq> CHR ''e'' \<and> e \<noteq> CHR ''E'' then None
       else (case signed_text rest of (neg, ds) \<Rightarrow>
         (if ds \<noteq> [] \<and> list_all is_digit ds
          then Some (if neg then - int (digits_val ds) else int (digits_val ds)) else None))))"

definition exactly_held :: "nat \<Rightarrow> int \<Rightarrow> bool" where
  "exactly_held n e \<longleftrightarrow> min_exponent \<le> e
     \<and> (if n = 0 then e \<le> max_exponent else e + int (length (show_nat n)) - 1 \<le> max_exponent)"

definition special_decimal :: "string \<Rightarrow> bool" where
  "special_decimal s \<longleftrightarrow> (let t = lower s in t = ''inf'' \<or> t = ''infinity''
     \<or> starts_with ''nan'' t \<and> list_all is_digit (drop 3 t) \<or> starts_with ''snan'' t \<and> list_all is_digit (drop 4 t))"

definition decimal_of :: "string \<Rightarrow> decimal option" where
  "decimal_of text =
     (case signed_text (filter (\<lambda>c. c \<noteq> CHR ''_'') (strip text)) of (neg, s) \<Rightarrow>
       (let whole = takeWhile is_digit s; after_whole = dropWhile is_digit s;
            pointed = (case after_whole of c # r \<Rightarrow> c = CHR ''.'' | [] \<Rightarrow> False);
            frac = (if pointed then takeWhile is_digit (tl after_whole) else []);
            rest = (if pointed then dropWhile is_digit (tl after_whole) else after_whole)
        in if special_decimal s then Some Not_Finite
           else if whole @ frac = [] then None
           else (case exponent_of rest of
               None \<Rightarrow> None
             | Some e \<Rightarrow> (let n = digits_val (whole @ frac); x = e - int (length frac) in
                 if exactly_held n x then Some (Number neg n x) else None))))"

text \<open>\<open>cost < 0 or cost > Decimal("0.25")\<close>\<close>

definition within_budget :: "decimal \<Rightarrow> bool" where
  "within_budget d = (case d of
     Not_Finite \<Rightarrow> False
   | Number neg n e \<Rightarrow> n = 0 \<or> \<not> neg \<and>
       (if 0 \<le> e then 4 * n * 10 ^ nat e \<le> 1 else 4 * n \<le> 10 ^ nat (- e)))"

text \<open>\<open>format(cost, "f")\<close> of a cost within the budget\<close>

definition fixed_point :: "bool \<Rightarrow> nat \<Rightarrow> nat \<Rightarrow> string" where
  "fixed_point neg n places =
     (let ds = show_nat n; padded = replicate (Suc places - length ds) (CHR ''0'') @ ds; k = length padded - places in
      (if neg then ''-'' else []) @ take k padded @ (if places = 0 then [] else CHR ''.'' # drop k padded))"

definition format_cost :: "decimal \<Rightarrow> string" where
  "format_cost d = (case d of
     Not_Finite \<Rightarrow> []
   | Number neg n e \<Rightarrow> fixed_point neg n (nat (- e)))"

text \<open>\<open>str(value)\<close> of a JSON value, as far as \<open>Decimal\<close> can accept it.\<close>

fun cost_text :: "json \<Rightarrow> string option" where
  "cost_text (JStr s) = Some s"
| "cost_text (JInt i) = Some (show_int i)"
| "cost_text v = None"

section \<open>The child's result\<close>

definition child_result_fields :: "string list" where
  "child_result_fields = [''contract_version'', ''outcome'', ''inference_applied'', ''input_tokens'', ''output_tokens'', ''cost_usd'']"

definition usage_ok :: "json \<Rightarrow> bool" where
  "usage_ok v \<longleftrightarrow> v = JNull \<or> natural v"

definition cost_of :: "json \<Rightarrow> decimal option run" where
  "cost_of v = (if v = JNull then Inr None
     else (case Option.bind (cost_text v) decimal_of of
         None \<Rightarrow> Inl (Violation ''child_result_usage_invalid'')
       | Some d \<Rightarrow> Inr (Some d)))"

definition check_child_result :: "bootstrap \<Rightarrow> obj \<Rightarrow> obj run" where
  "check_child_result b r =
     demand (keys_eq r child_result_fields \<and> get r ''contract_version'' = JStr ''0.1'') ''child_result_contract_invalid''
     (sbind (raw (in_strings (get r ''outcome'') [''completed'', ''stopped_fail_closed''])) (\<lambda>known.
     demand known ''child_result_outcome_invalid''
     (demand (is_bool (get r ''inference_applied'')) ''child_result_usage_invalid''
     (demand (usage_ok (get r ''input_tokens'') \<and> usage_ok (get r ''output_tokens'')) ''child_result_usage_invalid''
     (sbind (cost_of (get r ''cost_usd'')) (\<lambda>cost.
     demand ((case cost of None \<Rightarrow> True | Some d \<Rightarrow> within_budget d)
         \<and> (get r ''output_tokens'' = JNull \<or> int_val (get r ''output_tokens'') \<le> max_output_tokens)) ''child_result_budget_exceeded''
     (demand (\<not> (b_mode b = ''rehearsal'' \<and> get r ''inference_applied'' = JBool True)) ''rehearsal_inference_denied''
     (Inr [(''child_outcome'', get r ''outcome''), (''inference_applied'', get r ''inference_applied''),
           (''input_tokens'', get r ''input_tokens''), (''output_tokens'', get r ''output_tokens''),
           (''cost_usd'', case cost of None \<Rightarrow> JNull | Some d \<Rightarrow> JStr (format_cost d))]))))))))"

definition observed :: "bool \<Rightarrow> int \<Rightarrow> string \<Rightarrow> string \<Rightarrow> int \<Rightarrow> obj" where
  "observed timed_out code out err elapsed =
     [(''runtime_started'', JBool True), (''timed_out'', JBool timed_out), (''return_code'', JInt code),
      (''stdout_hash'', JStr (tagged_sha256 out)), (''stderr_hash'', JStr (tagged_sha256 err)),
      (''duration_ms'', JInt (max 0 elapsed)), (''descriptors_closed'', JBool True), (''inference_applied'', JBool False),
      (''input_tokens'', JNull), (''output_tokens'', JNull), (''cost_usd'', JNull),
      (''child_outcome'', JStr (if timed_out then ''timed_out'' else ''failed''))]"

text \<open>After the descriptors are closed: the output files, and the result of a child that exited with 0.\<close>

definition observe_child :: "bootstrap \<Rightarrow> child_calls \<Rightarrow> bool \<Rightarrow> int \<Rightarrow> obj run" where
  "observe_child b c timed_out code =
     sbind (stable_read_regular (ch_stdout_read c) ''child_stdout'' (Some (b_service_uid b)) (Some 384) (Some max_child_artifact_bytes)) (\<lambda>(out, _).
     sbind (stable_read_regular (ch_stderr_read c) ''child_stderr'' (Some (b_service_uid b)) (Some 384) (Some max_child_artifact_bytes)) (\<lambda>(err, _).
     let observation = observed timed_out code out err (ch_elapsed_ms c) in
     if timed_out \<or> code \<noteq> 0 then Inr observation
     else sbind (stable_read_regular (ch_result_read c) ''child_result'' (Some (b_service_uid b)) (Some 384) (Some (64 * 1024))) (\<lambda>(bytes, _).
       sbind (strict_json_bytes bytes ''child_result'') (\<lambda>r.
       sbind (check_child_result b r) (\<lambda>usage. Inr (update_all usage observation))))))"

text \<open>\<open>_run_child\<close>: what was launched, when anything was, and the observation.\<close>

definition run_child :: "bootstrap \<Rightarrow> child_calls \<Rightarrow> validated \<Rightarrow> nat \<Rightarrow> string \<Rightarrow> string \<Rightarrow> launch option \<times> obj run" where
  "run_child b c v bundle_fd secret root =
     (case sbind (raw (ch_home c)) (\<lambda>_. sbind (fst (write_private (ch_input c) (v_payload v))) (\<lambda>_. raw (ch_launcher c))) of
        Inl e \<Rightarrow> (None, Inl e)
      | Inr launcher \<Rightarrow>
          (let a = attempt_child b c launcher root bundle_fd secret in
           (at_launch a, sbind (settle_attempt c a) (\<lambda>code. observe_child b c (at_timed_out a) code))))"


section \<open>The launcher\<close>

text \<open>\<open>int(text)\<close>: white space around it, a sign, digits with single underscores between them.\<close>

fun digits_grouped :: "string \<Rightarrow> bool" where
  "digits_grouped [] = False"
| "digits_grouped [c] = is_digit c"
| "digits_grouped (c # d # s) = (is_digit c \<and> (if d = CHR ''_'' then digits_grouped s else digits_grouped (d # s)))"

definition int_of_text :: "string \<Rightarrow> int option" where
  "int_of_text text = (case signed_text (strip text) of (neg, s) \<Rightarrow>
     (if digits_grouped s
      then (let n = int (digits_val (filter (\<lambda>c. c \<noteq> CHR ''_'') s)) in Some (if neg then - n else n)) else None))"

datatype launched = Exit int | Launch_Raised exn | Exec string "string list" "(string \<times> string) list"

text \<open>The reads from the secret's descriptor, until the end or one byte past the limit.\<close>

fun read_secret_fd :: "nat \<Rightarrow> string \<Rightarrow> string result list \<Rightarrow> string result" where
  "read_secret_fd limit acc [] = Inr acc"
| "read_secret_fd limit acc (r # rs) =
     (if limit < length acc then Inr acc
      else rbind r (\<lambda>c. let chunk = take (limit + 1 - length acc) c in
        if chunk = [] then Inr acc else read_secret_fd limit (acc @ chunk) rs))"

record exec_calls =
  ex_reads :: "string result list"
  ex_core_limit :: "unit result"
  ex_file_limit :: "unit result"

definition set_env :: "string \<Rightarrow> string \<Rightarrow> (string \<times> string) list \<Rightarrow> (string \<times> string) list" where
  "set_env k v env = filter (\<lambda>kv. fst kv \<noteq> k) env @ [(k, v)]"

text \<open>\<open>main\<close> with \<open>sys.argv = launcher # args\<close>; \<open>execve\<close> does not return.\<close>

definition trusted_exec :: "exec_calls \<Rightarrow> string list \<Rightarrow> (string \<times> string) list \<Rightarrow> launched" where
  "trusted_exec c args env = (case args of
     file_size # secret_size # fd # executable # rest \<Rightarrow>
       (case (int_of_text file_size, int_of_text secret_size, int_of_text fd) of
          (Some f, Some n, Some d) \<Rightarrow>
            (if f \<le> 0 \<or> n \<le> 0 \<or> d < 0 \<or> \<not> is_absolute executable then Exit 64
             else (case read_secret_fd (nat n) [] (ex_reads c) of
                 Inl e \<Rightarrow> Launch_Raised e
               | Inr secret \<Rightarrow>
                   (if secret = [] \<or> nat n < length secret then Exit 65
                    else (case rbind (ex_core_limit c) (\<lambda>_. ex_file_limit c) of
                        Inl e \<Rightarrow> Launch_Raised e
                      | Inr _ \<Rightarrow> Exec executable (executable # rest) (set_env ''OPENAI_API_KEY'' secret env)))))
        | _ \<Rightarrow> Exit 64)
   | _ \<Rightarrow> Exit 64)"

end
