(* ===== verification/Runner_Execute.thy ===== *)
theory Runner_Execute
  imports Runner_Child
begin

text \<open>
  \<open>TrustedRunner.execute\<close>, the signed result, and the connection that serves one request
  (\<open>src/src/sddgov/trusted_runner.py\<close>).

  Ed25519 is a parameter: the public key of a private key, and the signature of a message.
\<close>


section \<open>Signing\<close>

record signing =
  sg_key :: stable_calls
  sg_public :: "string \<Rightarrow> string"
  sg_sign :: "string \<Rightarrow> string \<Rightarrow> string"

definition b64_char :: "nat \<Rightarrow> char" where
  "b64_char n = (if n < 26 then char_of (n + 65) else if n < 52 then char_of (n + 71) else if n < 62 then char_of (n - 4)
     else if n = 62 then CHR ''+'' else CHR ''/'')"

fun b64encode :: "string \<Rightarrow> string" where
  "b64encode (a # b # c # rest) = (let x = of_char a; y = of_char b; z = of_char c :: nat in
     map b64_char [x div 4, x mod 4 * 16 + y div 16, y mod 16 * 4 + z div 64, z mod 64] @ b64encode rest)"
| "b64encode [a, b] = (let x = of_char a; y = of_char b :: nat in
     map b64_char [x div 4, x mod 4 * 16 + y div 16, y mod 16 * 4] @ ''='')"
| "b64encode [a] = (let x = of_char a :: nat in map b64_char [x div 4, x mod 4 * 16] @ ''=='')"
| "b64encode [] = []"

definition sign_result :: "bootstrap \<Rightarrow> signing \<Rightarrow> obj \<Rightarrow> obj run" where
  "sign_result b g result =
     sbind (stable_read_regular (sg_key g) ''result_private_key'' (Some (b_service_uid b)) (Some 384) (Some 32)) (\<lambda>(key, _).
     demand (length key = 32) ''result_private_key_invalid''
     (case b64decode (b_result_public_key b) of
        None \<Rightarrow> Inl (Violation ''result_signing_key_invalid'')
      | Some public \<Rightarrow>
          demand (sg_public g key = public) ''result_signing_key_mismatch''
          (Inr [(''schema_version'', JStr ''0.1''), (''algorithm'', JStr ''ed25519''), (''result'', JObj result),
                (''signature'', JStr (b64encode (sg_sign g key (canonical_bytes (JObj result)))))])))"


section \<open>One execution\<close>

definition initial_result :: "bootstrap \<Rightarrow> obj" where
  "initial_result b =
     [(''contract_version'', JStr ''0.1''), (''runner_id'', JStr (b_runner_id b)), (''operation_id'', JNull), (''plan_hash'', JNull),
      (''outcome'', JStr ''stopped_fail_closed''), (''reason'', JStr ''request_not_validated''), (''approval_consumed'', JBool False),
      (''credential_material_opened'', JBool False), (''runtime_started'', JBool False), (''inference_applied'', JBool False),
      (''timed_out'', JBool False), (''return_code'', JNull), (''input_tokens'', JNull), (''output_tokens'', JNull),
      (''cost_usd'', JNull), (''stdout_hash'', JNull), (''stderr_hash'', JNull), (''duration_ms'', JInt 0),
      (''credential_material_zeroized'', JBool True), (''isolation_root_removed'', JBool True), (''descriptors_closed'', JBool True),
      (''promotion_applied'', JBool False), (''gate_enforce_applied'', JBool False), (''deployment_applied'', JBool False)]"

text \<open>Everything outside that one execution meets, and the state it leaves.\<close>

record 'b execution =
  x_import :: "'b world"
  x_evaluate :: "'b world"
  x_first :: stable_calls
  x_second :: stable_calls
  x_bundle :: bundle_calls
  x_approval :: approval_calls
  x_bundle_again :: bundle_calls
  x_runtime :: stable_calls
  x_secret :: secret_calls
  x_mkdtemp :: "string result"
  x_chmod :: "unit result"
  x_child :: child_calls
  x_rmtree :: "unit result"
  x_exists :: bool
  x_signing :: signing

record 'b progress =
  pr_result :: obj
  pr_secret :: "string option"
  pr_root :: "string option"
  pr_launch :: "launch option"
  pr_envelope :: "string option"
  pr_repo :: repo
  pr_broker :: 'b

definition start_progress :: "bootstrap \<Rightarrow> repo \<Rightarrow> 'b \<Rightarrow> 'b progress" where
  "start_progress b s d = \<lparr>pr_result = initial_result b, pr_secret = None, pr_root = None, pr_launch = None, pr_envelope = None,
     pr_repo = s, pr_broker = d\<rparr>"

definition mark :: "string \<Rightarrow> json \<Rightarrow> 'b progress \<Rightarrow> 'b progress" where
  "mark k v p = p\<lparr>pr_result := put k v (pr_result p)\<rparr>"

text \<open>What the observation makes of the outcome and the reason.\<close>

definition concluded :: "obj \<Rightarrow> (string \<times> json) list" where
  "concluded observation =
     (if truthy (get observation ''timed_out'') then [(''reason'', JStr ''child_timeout'')]
      else if get observation ''return_code'' \<noteq> JInt 0 then [(''reason'', JStr ''child_failed'')]
      else if get observation ''child_outcome'' \<noteq> JStr ''completed'' then [(''reason'', JStr ''child_stopped_fail_closed'')]
      else [(''outcome'', JStr ''completed''), (''reason'', JStr ''exact_operation_completed'')])"

text \<open>The isolated run, after the credential is open.\<close>

definition run_isolated ::
  "'b execution \<Rightarrow> bootstrap \<Rightarrow> validated \<Rightarrow> nat \<Rightarrow> string \<Rightarrow> 'b progress \<Rightarrow> stop option \<times> 'b progress" where
  "run_isolated x b v bundle_fd secret p = (case x_mkdtemp x of
     Inl e \<Rightarrow> (Some (Raised e), p)
   | Inr root \<Rightarrow>
       (let p1 = p\<lparr>pr_root := Some root\<rparr> in
        case x_chmod x of
          Inl e \<Rightarrow> (Some (Raised e), p1)
        | Inr _ \<Rightarrow>
            (case run_child b (x_child x) v bundle_fd secret root of
               (l, Inl e) \<Rightarrow> (Some e, p1\<lparr>pr_launch := l\<rparr>)
             | (l, Inr observation) \<Rightarrow>
                 (None, p1\<lparr>pr_launch := l, pr_result := update_all (concluded observation) (update_all observation (pr_result p1))\<rparr>))))"

text \<open>After the approval: the bundle once more, the runtime, and the credential.\<close>

definition open_checked :: "'b execution \<Rightarrow> bootstrap \<Rightarrow> validated \<Rightarrow> string run" where
  "open_checked x b v =
     sbind (verify_bundle (x_bundle_again x) (v_operation v)) (\<lambda>_.
     sbind (verify_runtime b (b_service_uid b) (x_runtime x)) (\<lambda>_.
     open_credential b (x_secret x)))"

definition run_validated ::
  "'b execution \<Rightarrow> bootstrap \<Rightarrow> validated \<Rightarrow> nat \<Rightarrow> 'b progress \<Rightarrow> stop option \<times> 'b progress" where
  "run_validated x b v bundle_fd p0 =
     (let p = mark ''plan_hash'' (JStr (v_plan_hash v)) (mark ''operation_id'' (JStr (v_operation_id v)) p0) in
      case verify_bundle (x_bundle x) (v_operation v) of
        Inl e \<Rightarrow> (Some e, p)
      | Inr _ \<Rightarrow>
          (case consume_approval (x_import x) (x_evaluate x) (x_approval x) b v (pr_repo p) (pr_broker p) of (r, s1, d1, file) \<Rightarrow>
            (let p1 = p\<lparr>pr_repo := s1, pr_broker := d1, pr_envelope := file\<rparr> in
             case r of
               Inl e \<Rightarrow> (Some e, p1)
             | Inr _ \<Rightarrow>
                 (let p2 = mark ''approval_consumed'' (JBool True) p1 in
                  case open_checked x b v of
                    Inl e \<Rightarrow> (Some e, p2)
                  | Inr secret \<Rightarrow>
                      run_isolated x b v bundle_fd secret
                        (mark ''credential_material_opened'' (JBool True) (p2\<lparr>pr_secret := Some secret\<rparr>))))))"

definition allowed_peer :: "bootstrap \<Rightarrow> int \<Rightarrow> bool" where
  "allowed_peer b peer \<longleftrightarrow> peer \<in> set (b_clients b)"

definition separated :: "bootstrap \<Rightarrow> int \<Rightarrow> bool" where
  "separated b peer \<longleftrightarrow> \<not> (b_mode b = ''production'' \<and> peer = b_service_uid b)"

definition run_request ::
  "'b execution \<Rightarrow> bootstrap \<Rightarrow> obj \<Rightarrow> nat \<Rightarrow> int \<Rightarrow> 'b progress \<Rightarrow> stop option \<times> 'b progress" where
  "run_request x b request bundle_fd peer p =
     (if \<not> allowed_peer b peer then (Some (Violation ''runner_peer_uid_denied''), p)
      else if \<not> separated b peer then (Some (Violation ''production_uid_separation_required''), p)
      else (case validate_request b (x_first x) (x_second x) request of
          Inl e \<Rightarrow> (Some e, p)
        | Inr v \<Rightarrow> run_validated x b v bundle_fd p))"

text \<open>The handlers.\<close>

fun report :: "stop option \<Rightarrow> 'b progress \<Rightarrow> 'b progress" where
  "report None p = p"
| "report (Some (Violation reason)) p = mark ''reason'' (JStr reason) p"
| "report (Some (Child_Failure reason closed)) p = mark ''descriptors_closed'' (JBool closed) (mark ''reason'' (JStr reason) p)"
| "report (Some (Raised e)) p = mark ''reason'' (JStr ''unexpected_error'') p"

text \<open>The \<open>finally\<close> clause: zeroing, removing the isolation root, and the last word on the outcome.\<close>

definition zeroed :: "string \<Rightarrow> string" where
  "zeroed secret = replicate (length secret) (CHR 0x00)"

definition zeroize :: "'b progress \<Rightarrow> 'b progress" where
  "zeroize p = (case pr_secret p of None \<Rightarrow> p | Some secret \<Rightarrow>
     mark ''credential_material_zeroized'' (JBool (list_all (\<lambda>c. c = CHR 0x00) (zeroed secret))) (p\<lparr>pr_secret := Some (zeroed secret)\<rparr>))"

definition remove_root :: "'b execution \<Rightarrow> 'b progress \<Rightarrow> exn option \<times> 'b progress" where
  "remove_root x p = (case pr_root p of None \<Rightarrow> (None, p) | Some root \<Rightarrow>
     (case x_rmtree x of
        Inl e \<Rightarrow> (if is_OSError e then (None, mark ''isolation_root_removed'' (JBool False) p) else (Some e, p))
      | Inr _ \<Rightarrow> (None, mark ''isolation_root_removed'' (JBool (\<not> x_exists x)) p)))"

definition rollback_complete :: "obj \<Rightarrow> bool" where
  "rollback_complete r \<longleftrightarrow> truthy (get r ''credential_material_zeroized'') \<and> truthy (get r ''isolation_root_removed'')"

definition require_rollback :: "'b progress \<Rightarrow> 'b progress" where
  "require_rollback p = (if rollback_complete (pr_result p) then p
     else mark ''reason'' (JStr ''rollback_incomplete'') (mark ''outcome'' (JStr ''stopped_fail_closed'') p))"

definition wind_up :: "'b execution \<Rightarrow> stop option \<times> 'b progress \<Rightarrow> exn option \<times> 'b progress" where
  "wind_up x ep = (case remove_root x (zeroize (report (fst ep) (snd ep))) of
     (Some e, p) \<Rightarrow> (Some e, p) | (None, p) \<Rightarrow> (None, require_rollback p))"

text \<open>\<open>execute\<close>: the signed envelope, and the state with the result that was signed.\<close>

definition execute_steps :: "'b execution \<Rightarrow> bootstrap \<Rightarrow> obj \<Rightarrow> nat \<Rightarrow> int \<Rightarrow> repo \<Rightarrow> 'b \<Rightarrow> exn option \<times> 'b progress" where
  "execute_steps x b request bundle_fd peer s d = wind_up x (run_request x b request bundle_fd peer (start_progress b s d))"

definition execute :: "'b execution \<Rightarrow> bootstrap \<Rightarrow> obj \<Rightarrow> nat \<Rightarrow> int \<Rightarrow> repo \<Rightarrow> 'b \<Rightarrow> obj run \<times> 'b progress" where
  "execute x b request bundle_fd peer s d = (case execute_steps x b request bundle_fd peer s d of
     (Some e, p) \<Rightarrow> (Inl (Raised e), p)
   | (None, p) \<Rightarrow> (sign_result b (x_signing x) (pr_result p), p))"


section \<open>The connection\<close>

text \<open>One message: its bytes, the ancillary data with their kinds, and the truncation flags.\<close>

record message =
  ms_bytes :: string
  ms_ancillary :: "(bool \<times> string) list"
  ms_truncated :: bool

record receive_calls =
  rc_seqpacket :: bool
  rc_peercred :: bool
  rc_peer_uid :: "int result"
  rc_message :: "message result"

text \<open>\<open>array("i")\<close> of the whole items of the data: four bytes each, in the order of the machine.\<close>

definition fd_of_bytes :: "char \<Rightarrow> char \<Rightarrow> char \<Rightarrow> char \<Rightarrow> int" where
  "fd_of_bytes a b c d = signed_take_bit 31
     (of_char a + 256 * of_char b + 65536 * of_char c + 16777216 * of_char d)"

fun fds_of :: "string \<Rightarrow> int list" where
  "fds_of (a # b # c # d # rest) = fd_of_bytes a b c d # fds_of rest"
| "fds_of _ = []"

text \<open>\<open>_receive_one\<close>, with the descriptors it received and those it closed again.\<close>

definition received_fds :: "message \<Rightarrow> int list" where
  "received_fds m = concat (map (\<lambda>(rights, bytes). if rights then fds_of bytes else []) (ms_ancillary m))"

definition receive_one :: "receive_calls \<Rightarrow> (obj \<times> int \<times> int) run \<times> int list" where
  "receive_one c =
     (case demand (rc_seqpacket c) ''runner_socket_type_invalid''
           (demand (rc_peercred c) ''runner_peer_credentials_unsupported''
           (sbind (raw (rc_peer_uid c)) (\<lambda>uid. sbind (raw (rc_message c)) (\<lambda>m. Inr (uid, m))))) of
        Inl e \<Rightarrow> (Inl e, [])
      | Inr (uid, m) \<Rightarrow>
          (if ms_truncated m \<or> runner_request_limit < length (ms_bytes m) then (Inl (Violation ''runner_request_too_large''), [])
           else (case received_fds m of
               [fd] \<Rightarrow> (case strict_json_bytes (ms_bytes m) ''runner_request'' of
                   Inl e \<Rightarrow> (Inl e, [fd])
                 | Inr request \<Rightarrow> (Inr (request, fd, uid), []))
             | fds \<Rightarrow> (Inl (Violation ''runner_bundle_fd_count_invalid''), fds))))"

text \<open>\<open>serve_connected_socket\<close>: the exit code, the bytes that were sent, and the closed descriptors.\<close>

record 'b served_connection =
  sv_exit :: "int run"
  sv_sent :: "string option"
  sv_closed :: "int list"
  sv_progress :: "'b progress option"

definition send_envelope :: "unit result \<Rightarrow> obj \<Rightarrow> int run \<times> string option" where
  "send_envelope sendall envelope =
     (let bytes = canonical_bytes (JObj envelope) in
      if runner_request_limit < length bytes then (Inl (Violation ''runner_result_too_large''), None)
      else (case sendall of Inl e \<Rightarrow> (Inl (Raised e), None)
        | Inr _ \<Rightarrow> (Inr (if get (dict_val (get envelope ''result'')) ''outcome'' = JStr ''completed'' then 0 else 2), Some bytes)))"

definition serve_connected ::
  "(string \<Rightarrow> string) \<Rightarrow> string \<Rightarrow> stable_calls \<Rightarrow> validate_calls \<Rightarrow> receive_calls \<Rightarrow> 'b execution \<Rightarrow> unit result
   \<Rightarrow> repo \<Rightarrow> 'b \<Rightarrow> 'b served_connection" where
  "serve_connected expand path document vc rc x sendall s d = (case load_bootstrap expand path document vc of
     Inl e \<Rightarrow> \<lparr>sv_exit = Inl e, sv_sent = None, sv_closed = [], sv_progress = None\<rparr>
   | Inr b \<Rightarrow> (case receive_one rc of
       (Inl e, closed) \<Rightarrow> \<lparr>sv_exit = Inl e, sv_sent = None, sv_closed = closed, sv_progress = None\<rparr>
     | (Inr (request, fd, uid), _) \<Rightarrow> (case execute x b request (nat fd) uid s d of
         (Inl e, p) \<Rightarrow> \<lparr>sv_exit = Inl e, sv_sent = None, sv_closed = [fd], sv_progress = Some p\<rparr>
       | (Inr envelope, p) \<Rightarrow> (case send_envelope sendall envelope of (code, sent) \<Rightarrow>
           \<lparr>sv_exit = code, sv_sent = sent, sv_closed = [fd], sv_progress = Some p\<rparr>))))"

end
