(* ===== verification/Runner_Facts.thy ===== *)
theory Runner_Facts
  imports Runner_Execute
begin

text \<open>
  What one execution of the trusted runner guarantees: which requests open the credential and
  which are reported as completed, what is bound to what, and that no secret and no isolation
  root are left.
\<close>


section \<open>The request\<close>

text \<open>An operation is what its identifier says: the action and the hash of every other field.\<close>

definition exact_operation :: "bootstrap \<Rightarrow> validated \<Rightarrow> bool" where
  "exact_operation b v \<longleftrightarrow> get (v_operation v) ''operation_id'' = JStr (v_operation_id v)
     \<and> v_operation_id v = operation_id_of (v_plan_hash v) \<and> v_plan_hash v = plan_hash_of (v_operation v)
     \<and> get (v_operation v) ''credential_ref'' = JStr (b_credential_ref b)
     \<and> get (v_operation v) ''provider'' = JStr ''openai-api'' \<and> get (v_operation v) ''endpoint'' = JStr official_endpoint
     \<and> get (v_operation v) ''input_payload_hash'' = JStr (tagged_sha256 (v_payload v))
     \<and> v_payload v \<noteq> [] \<and> length (v_payload v) \<le> max_input_bytes
     \<and> receipt_ok (v_operation v) (v_envelope v) (JStr (v_approval_id v)) (v_operation_id v) (v_plan_hash v)"

lemma input_payload_Inr:
  "input_payload request operation = Inr payload \<Longrightarrow> payload \<noteq> [] \<and> length payload \<le> max_input_bytes
     \<and> get operation ''input_payload_hash'' = JStr (tagged_sha256 payload)"
  by (auto simp: input_payload_def demand_Inr_iff split: option.splits json.splits)

lemma check_operation_Inr:
  assumes "check_operation b c1 c2 operation = Inr u"
  shows "get operation ''credential_ref'' = JStr (b_credential_ref b) \<and> get operation ''provider'' = JStr ''openai-api''
    \<and> get operation ''endpoint'' = JStr official_endpoint"
proof -
  obtain launch where "list_all (\<lambda>kv. py_eq (get operation (fst kv)) (snd kv)) (expected_values b launch)"
    using assms unfolding check_operation_def by (elim runE) blast
  then show ?thesis by (simp add: expected_values_def)
qed

lemma validate_request_Inr:
  assumes "validate_request b c1 c2 request = Inr v"
  shows "exact_operation b v"
proof -
  let ?o = "dict_val (get request ''operation'')"
  let ?h = "plan_hash_of ?o"
  let ?v = "\<lambda>payload. \<lparr>v_request = request, v_operation = ?o, v_operation_id = operation_id_of ?h, v_plan_hash = ?h,
      v_approval_id = str_val (get request ''approval_id''), v_envelope = get request ''approval_envelope'', v_payload = payload\<rparr>"
  from assms obtain u payload where checked: "check_operation b c1 c2 ?o = Inr u" and payload: "input_payload request ?o = Inr payload"
    and i: "get ?o ''operation_id'' = JStr (operation_id_of ?h)" and a: "nonblank (get request ''approval_id'')"
    and r: "receipt_ok ?o (get request ''approval_envelope'') (get request ''approval_id'') (operation_id_of ?h) ?h"
    and v: "v = ?v payload"
    unfolding validate_request_def Let_def by (elim runE) blast
  have "JStr (str_val (get request ''approval_id'')) = get request ''approval_id''"
    using a by (cases "get request ''approval_id''") (simp_all add: nonblank_def)
  then show ?thesis using check_operation_Inr [OF checked] input_payload_Inr [OF payload] i r by (simp add: exact_operation_def v)
qed


section \<open>The approval\<close>

lemma decision_request_fields [simp]:
  "get (decision_request v) ''approval_id'' = JStr (v_approval_id v)" "get (decision_request v) ''operation_id'' = JStr (v_operation_id v)"
  "get (decision_request v) ''operation_payload'' = payload_of v" "get (decision_request v) ''unrelated_work_exists'' = JNull"
  "category_of (decision_request v) = ''high_risk_operation''"
  by (simp_all add: decision_request_def category_of_def)

lemma decision_request_dangerous: "dangerous (decision_request v)" "\<not> investigation (decision_request v)" "\<not> unrelated_work (decision_request v)"
  by (simp_all add: dangerous_def investigation_def unrelated_work_def)

lemma expected_answer_continues: "py_eq (JObj r) (JObj (expected_answer v)) \<Longrightarrow> continues r"
proof -
  assume e: "py_eq (JObj r) (JObj (expected_answer v))"
  then have "has_key r ''state''" by (auto simp: py_eq.simps has_key_def expected_answer_def)
  then have "py_eq (get r ''state'') (get (expected_answer v) ''state'')" by (rule py_eq_member [OF e])
  then show ?thesis by (simp add: continues_def expected_answer_def)
qed

text \<open>The one approval that was used, in the stores left by the import.\<close>

definition approval_used :: "'b execution \<Rightarrow> validated \<Rightarrow> repo \<Rightarrow> 'b \<Rightarrow> repo \<Rightarrow> 'b \<Rightarrow> bool" where
  "approval_used x v s d s2 d2 \<longleftrightarrow> (\<exists>r s1 row.
     import_operation_approval (x_import x) (stored_json (Some (canonical_bytes (v_envelope v)))) s = (Inr r, s1)
     \<and> consume_operation_approval (x_evaluate x) (JStr (v_approval_id v)) (JStr (v_operation_id v)) (payload_of v) s1 d
       = (Inr (Consumed row), s2, d2)
     \<and> py_eq (JObj (approved_answer row)) (JObj (expected_answer v)))"

lemma consume_locked_Inr:
  assumes "consume_locked (x_import x) (x_evaluate x) c b v s d = (Inr u, s2, d2, left)"
  shows "approval_used x v s d s2 d2 \<and> left = None"
proof -
  obtain expected where checked: "check_authority (x_import x) c b (v_operation v) = Inr expected"
    using assms unfolding consume_locked_def by (cases "check_authority (x_import x) c b (v_operation v)") simp_all
  obtain w stored where written: "create_private ''approval write made no progress'' (ap_write c) (canonical_bytes (v_envelope v)) = (w, stored)"
    by (cases "create_private ''approval write made no progress'' (ap_write c) (canonical_bytes (v_envelope v))")
  have "w = Inr ()" using assms checked written unfolding consume_locked_def by (cases w) simp_all
  then have stored: "stored = Some (canonical_bytes (v_envelope v))" using written create_private_all by simp
  obtain r s1 d1 where both: "import_and_evaluate (x_import x) (x_evaluate x) (stored_json stored) (decision_request v) s d = (r, s1, d1)"
    by (rule prod_cases3)
  have tail: "(case unlinked (ap_unlink c) of
       Inl e \<Rightarrow> (Inl (Raised e), s1, d1, stored)
     | Inr _ \<Rightarrow> (sbind (denying is_policy_error ''approval_verification_failed'' r) (check_answer c b v expected), s1, d1, None))
     = (Inr u, s2, d2, left)"
    using assms checked written both \<open>w = Inr ()\<close> unfolding consume_locked_def by simp
  then obtain reply where reply: "r = Inr reply" "py_eq (JObj reply) (JObj (expected_answer v))" and s: "s1 = s2" "d1 = d2" "left = None"
    by (auto simp: run_Inr_iff check_answer_def split: sum.splits)
  obtain i s0 where imp: "import_operation_approval (x_import x) (stored_json stored) s = (Inr i, s0)"
    and eval: "evaluate_escalation (x_evaluate x) (decision_request v) s0 d = (Inr reply, s2, d2)"
    using both reply(1) s unfolding import_and_evaluate_def by (auto split: prod.splits sum.splits)
  have "\<exists>row. consume_operation_approval (x_evaluate x) (JStr (v_approval_id v)) (JStr (v_operation_id v)) (payload_of v) s0 d
      = (Inr (Consumed row), s2, d2) \<and> reply = approved_answer row"
    using dangerous_continue [OF eval expected_answer_continues [OF reply(2)] decision_request_dangerous(1)]
      decision_request_dangerous(2,3) by (simp add: human_categories_def)
  then show ?thesis using imp reply(2) s(3) unfolding approval_used_def stored by blast
qed

lemma consume_approval_Inr:
  assumes "consume_approval (x_import x) (x_evaluate x) c b v s d = (Inr u, s2, d2, left)"
  shows "approval_used x v s d s2 d2 \<and> left = None"
proof -
  obtain r st where l: "consume_locked (x_import x) (x_evaluate x) c b v s d = (r, st)" by (rule prod.exhaust)
  then have "(r, st) = (Inr u, s2, d2, left)"
    using assms unfolding consume_approval_def by (auto split: sum.splits)
  then show ?thesis using consume_locked_Inr l by simp
qed


section \<open>The result of one execution\<close>

text \<open>Everything that has to hold before the secret is read.\<close>

definition authorized :: "'b execution \<Rightarrow> bootstrap \<Rightarrow> obj \<Rightarrow> int \<Rightarrow> repo \<Rightarrow> 'b \<Rightarrow> validated \<Rightarrow> string \<Rightarrow> repo \<Rightarrow> 'b \<Rightarrow> bool" where
  "authorized x b request peer s d v secret s2 d2 \<longleftrightarrow> allowed_peer b peer \<and> separated b peer
     \<and> validate_request b (x_first x) (x_second x) request = Inr v
     \<and> verify_bundle (x_bundle x) (v_operation v) = Inr ()
     \<and> consume_approval (x_import x) (x_evaluate x) (x_approval x) b v s d = (Inr (), s2, d2, None)
     \<and> open_checked x b v = Inr secret"

lemma get_mark [simp]: "get (pr_result (mark k v p)) k' = (if k' = k then v else get (pr_result p) k')"
  by (simp add: mark_def)

lemma mark_fields [simp]:
  "pr_secret (mark k v p) = pr_secret p" "pr_root (mark k v p) = pr_root p" "pr_launch (mark k v p) = pr_launch p"
  "pr_repo (mark k v p) = pr_repo p" "pr_broker (mark k v p) = pr_broker p" "pr_envelope (mark k v p) = pr_envelope p"
  by (simp_all add: mark_def)

lemma get_report:
  "k \<notin> {''reason'', ''descriptors_closed''} \<Longrightarrow> get (pr_result (report e p)) k = get (pr_result p) k"
  by (cases "(e, p)" rule: report.cases) auto

lemma report_keeps [simp]: "pr_secret (report e p) = pr_secret p" "pr_root (report e p) = pr_root p" "pr_launch (report e p) = pr_launch p"
  by (cases "(e, p)" rule: report.cases; simp)+

lemma get_zeroize: "k \<noteq> ''credential_material_zeroized'' \<Longrightarrow> get (pr_result (zeroize p)) k = get (pr_result p) k"
  by (simp add: zeroize_def split: option.split)

lemma zeroize_fields [simp]: "pr_root (zeroize p) = pr_root p" "pr_launch (zeroize p) = pr_launch p"
  "pr_secret (zeroize p) = map_option zeroed (pr_secret p)"
  by (simp_all add: zeroize_def split: option.split)

lemma get_remove_root: "k \<noteq> ''isolation_root_removed'' \<Longrightarrow> get (pr_result (snd (remove_root x p))) k = get (pr_result p) k"
  by (simp add: remove_root_def split: option.split sum.split)

lemma remove_root_fields [simp]: "pr_launch (snd (remove_root x p)) = pr_launch p" "pr_secret (snd (remove_root x p)) = pr_secret p"
  by (simp_all add: remove_root_def split: option.split sum.split)

lemma get_require_rollback: "k \<notin> {''reason'', ''outcome''} \<Longrightarrow> get (pr_result (require_rollback p)) k = get (pr_result p) k"
  by (simp add: require_rollback_def)

lemma require_rollback_fields [simp]: "pr_launch (require_rollback p) = pr_launch p" "pr_secret (require_rollback p) = pr_secret p"
  by (simp_all add: require_rollback_def)

lemma get_finish:
  "k \<notin> {''reason'', ''descriptors_closed'', ''credential_material_zeroized'', ''isolation_root_removed'', ''outcome''}
   \<Longrightarrow> get (pr_result (snd (wind_up x ep))) k = get (pr_result (snd ep)) k"
  using get_remove_root [of k x "zeroize (report (fst ep) (snd ep))"] get_zeroize [of k "report (fst ep) (snd ep)"]
  by (auto simp: wind_up_def get_require_rollback get_report split: prod.split option.split)

lemma finish_fields:
  "pr_launch (snd (wind_up x ep)) = pr_launch (snd ep)" "pr_secret (snd (wind_up x ep)) = map_option zeroed (pr_secret (snd ep))"
proof -
  let ?z = "zeroize (report (fst ep) (snd ep))"
  obtain e q where r: "remove_root x ?z = (e, q)" by (rule prod.exhaust)
  have q: "pr_launch q = pr_launch (snd ep)" "pr_secret q = map_option zeroed (pr_secret (snd ep))"
    using remove_root_fields [of x ?z, unfolded r] by simp_all
  show "pr_launch (snd (wind_up x ep)) = pr_launch (snd ep)" "pr_secret (snd (wind_up x ep)) = map_option zeroed (pr_secret (snd ep))"
    using q by (simp_all add: wind_up_def r split: option.split)
qed

lemma execute_progress: "snd (execute x b request fd peer s d) = snd (execute_steps x b request fd peer s d)"
  by (simp add: execute_def split: prod.split option.split)


section \<open>The fields of the observation\<close>

definition observation_fields :: "string list" where
  "observation_fields = [''runtime_started'', ''timed_out'', ''return_code'', ''stdout_hash'', ''stderr_hash'', ''duration_ms'',
     ''descriptors_closed'', ''inference_applied'', ''input_tokens'', ''output_tokens'', ''cost_usd'', ''child_outcome'']"

lemma check_child_result_fields: "check_child_result b r = Inr usage \<Longrightarrow> set (map fst usage) \<subseteq> set observation_fields"
  by (auto simp: check_child_result_def observation_fields_def elim!: runE)

lemma observed_fields: "set (map fst (observed timed_out code out err ms)) \<subseteq> set observation_fields"
  by (simp add: observed_def observation_fields_def)

lemma observe_child_fields:
  assumes "observe_child b c timed_out code = Inr observation"
  shows "set (map fst observation) \<subseteq> set observation_fields"
proof -
  obtain out m err m2 where *: "stable_read_regular (ch_stdout_read c) ''child_stdout'' (Some (b_service_uid b)) (Some 384) (Some max_child_artifact_bytes) = Inr (out, m)"
    "stable_read_regular (ch_stderr_read c) ''child_stderr'' (Some (b_service_uid b)) (Some 384) (Some max_child_artifact_bytes) = Inr (err, m2)"
    using assms unfolding observe_child_def by (fastforce elim!: runE)
  let ?o = "observed timed_out code out err (ch_elapsed_ms c)"
  consider "observation = ?o" | r usage where "check_child_result b r = Inr usage" "observation = update_all usage ?o"
    using assms by (auto simp: observe_child_def * Let_def elim!: runE split: if_splits)
  then show ?thesis
    by cases (use check_child_result_fields observed_fields in \<open>simp_all add: fst_set_update_all\<close>)
qed

lemma run_child_fields:
  assumes "run_child b c v fd secret root = (l, Inr observation)"
  shows "set (map fst observation) \<subseteq> set observation_fields"
proof -
  obtain a where "sbind (settle_attempt c a) (\<lambda>code. observe_child b c (at_timed_out a) code) = Inr observation"
    using assms unfolding run_child_def Let_def by (auto split: sum.splits)
  then show ?thesis by (elim runE) (rule observe_child_fields)
qed

lemma get_concluded:
  assumes "k \<notin> {''outcome'', ''reason''}"
  shows "get (update_all (concluded observation) d) k = get d k"
  using assms by (intro get_update_all_other) (auto simp: concluded_def split: if_splits)


section \<open>When the credential is opened\<close>

lemma get_run_isolated:
  assumes "k \<notin> set observation_fields \<union> {''outcome'', ''reason''}"
  shows "get (pr_result (snd (run_isolated x b v fd secret p))) k = get (pr_result p) k"
proof -
  have k: "k \<notin> {''outcome'', ''reason''}" using assms by simp
  have "get (update_all (concluded observation) (update_all observation q)) k = get q k"
    if "run_child b (x_child x) v fd secret root = (l, Inr observation)" for root l observation q
  proof -
    have "k \<notin> set (map fst observation)" using assms run_child_fields [OF that] by blast
    then show ?thesis by (rule trans [OF get_concluded [OF k] get_update_all_other])
  qed
  then show ?thesis by (auto simp: run_isolated_def Let_def split: sum.split prod.split)
qed

lemma run_isolated_secret: "pr_secret (snd (run_isolated x b v fd secret p)) = pr_secret p"
  by (simp add: run_isolated_def Let_def split: sum.split prod.split)

definition opens :: "'b progress \<Rightarrow> bool" where
  "opens p \<longleftrightarrow> get (pr_result p) ''credential_material_opened'' = JBool True"

lemma run_validated_opened:
  assumes "\<not> opens p"
  shows "opens (snd (run_validated x b v fd p)) \<longleftrightarrow> verify_bundle (x_bundle x) (v_operation v) = Inr ()
    \<and> (\<exists>s2 d2. consume_approval (x_import x) (x_evaluate x) (x_approval x) b v (pr_repo p) (pr_broker p) = (Inr (), s2, d2, None))
    \<and> (\<exists>secret. open_checked x b v = Inr secret)"
proof -
  obtain r s2 d2 left where c: "consume_approval (x_import x) (x_evaluate x) (x_approval x) b v (pr_repo p) (pr_broker p) = (r, s2, d2, left)"
    by (rule prod_cases4)
  have "left = None" if "r = Inr ()" using consume_approval_Inr [of x "x_approval x" b v "pr_repo p" "pr_broker p" "()" s2 d2 left] c that by simp
  moreover have "k \<notin> set observation_fields \<union> {''outcome'', ''reason''}" if "k = ''credential_material_opened''" for k
    using that by (simp add: observation_fields_def)
  ultimately show ?thesis
    using assms
    by (cases "verify_bundle (x_bundle x) (v_operation v)"; cases r; cases "open_checked x b v")
      (simp_all add: run_validated_def Let_def c opens_def get_run_isolated)
qed

lemma start_not_opened [simp]: "\<not> opens (start_progress b s d)"
  by (simp add: opens_def start_progress_def initial_result_def)

lemma start_fields [simp]: "pr_repo (start_progress b s d) = s" "pr_broker (start_progress b s d) = d"
  "pr_secret (start_progress b s d) = None" "pr_root (start_progress b s d) = None"
  by (simp_all add: start_progress_def)

lemma run_request_opened:
  "opens (snd (run_request x b request fd peer (start_progress b s d)))
   \<longleftrightarrow> (\<exists>v secret s2 d2. authorized x b request peer s d v secret s2 d2)"
  using run_validated_opened [OF start_not_opened, of x b _ fd b s d]
  by (cases "validate_request b (x_first x) (x_second x) request") (auto simp: run_request_def authorized_def)

text \<open>
  C12. The credential is opened exactly for an authorized request: the peer is a configured
  client, the request names one exact operation by the hash of its own content, the sealed
  bundle was verified before and after the approval, one signed approval for this operation
  was imported and its nonce consumed at the broker, the runtime has its pinned hash and the
  secret its own. The flag in the signed result says so and nothing else.
\<close>

theorem credential_opened_exactly:
  "get (pr_result (snd (execute x b request fd peer s d))) ''credential_material_opened'' = JBool True
   \<longleftrightarrow> (\<exists>v secret s2 d2. authorized x b request peer s d v secret s2 d2 \<and> exact_operation b v \<and> approval_used x v s d s2 d2
        \<and> verify_bundle (x_bundle_again x) (v_operation v) = Inr () \<and> verify_runtime b (b_service_uid b) (x_runtime x) = Inr ()
        \<and> tagged_sha256 secret = b_credential_sha256 b \<and> credential_shape secret)"
proof -
  have "get (pr_result (snd (execute x b request fd peer s d))) ''credential_material_opened'' = JBool True
      \<longleftrightarrow> opens (snd (run_request x b request fd peer (start_progress b s d)))"
    by (simp add: execute_progress execute_steps_def get_finish opens_def)
  also have "\<dots> \<longleftrightarrow> (\<exists>v secret s2 d2. authorized x b request peer s d v secret s2 d2)"
    by (rule run_request_opened)
  finally have opens: "get (pr_result (snd (execute x b request fd peer s d))) ''credential_material_opened'' = JBool True
      \<longleftrightarrow> (\<exists>v secret s2 d2. authorized x b request peer s d v secret s2 d2)" .
  have "exact_operation b v \<and> approval_used x v s d s2 d2 \<and> verify_bundle (x_bundle_again x) (v_operation v) = Inr ()
      \<and> verify_runtime b (b_service_uid b) (x_runtime x) = Inr () \<and> tagged_sha256 secret = b_credential_sha256 b \<and> credential_shape secret"
    if a: "authorized x b request peer s d v secret s2 d2" for v secret s2 d2
  proof -
    have "consume_approval (x_import x) (x_evaluate x) (x_approval x) b v s d = (Inr (), s2, d2, None)"
      "validate_request b (x_first x) (x_second x) request = Inr v"
      using a by (simp_all add: authorized_def)
    then have "approval_used x v s d s2 d2" "exact_operation b v"
      by (simp_all add: consume_approval_Inr validate_request_Inr)
    moreover have "open_checked x b v = Inr secret" using a by (simp add: authorized_def)
    ultimately show ?thesis unfolding open_checked_def open_credential_def by (auto elim!: runE)
  qed
  then show ?thesis unfolding opens by blast
qed

lemma get_run_validated:
  assumes "k \<notin> set observation_fields \<union> {''outcome'', ''reason'', ''operation_id'', ''plan_hash'', ''approval_consumed'', ''credential_material_opened''}"
  shows "get (pr_result (snd (run_validated x b v fd p))) k = get (pr_result p) k"
proof -
  have iso: "k \<notin> set observation_fields \<union> {''outcome'', ''reason''}" using assms by simp
  have ks: "k \<noteq> ''approval_consumed''" "k \<noteq> ''credential_material_opened''" "k \<noteq> ''plan_hash''" "k \<noteq> ''operation_id''"
    using assms by simp_all
  obtain r s2 d2 left where c: "consume_approval (x_import x) (x_evaluate x) (x_approval x) b v (pr_repo p) (pr_broker p) = (r, s2, d2, left)"
    by (rule prod_cases4)
  show ?thesis
    by (cases "verify_bundle (x_bundle x) (v_operation v)"; cases r; cases "open_checked x b v")
      (simp_all add: run_validated_def Let_def c get_run_isolated [OF iso] ks)
qed

lemma get_run_request:
  assumes "k \<notin> set observation_fields \<union> {''outcome'', ''reason'', ''operation_id'', ''plan_hash'', ''approval_consumed'', ''credential_material_opened''}"
  shows "get (pr_result (snd (run_request x b request fd peer p))) k = get (pr_result p) k"
  by (cases "validate_request b (x_first x) (x_second x) request") (simp_all add: run_request_def get_run_validated [OF assms])

lemma signed_constants:
  assumes "k \<in> set [''promotion_applied'', ''gate_enforce_applied'', ''deployment_applied'']"
  shows "get (pr_result (snd (execute x b request fd peer s d))) k = JBool False"
proof -
  have "get (pr_result (start_progress b s d)) k = JBool False"
    using assms by (simp only: list.set insert_iff empty_iff simp_thms) (elim disjE; simp add: start_progress_def initial_result_def)
  moreover have "get (pr_result (snd (execute x b request fd peer s d))) k = get (pr_result (snd (run_request x b request fd peer (start_progress b s d)))) k"
    using assms unfolding execute_progress execute_steps_def by (intro get_finish) auto
  moreover have "\<dots> = get (pr_result (start_progress b s d)) k"
    using assms by (intro get_run_request) (auto simp: observation_fields_def)
  ultimately show ?thesis by simp
qed

text \<open>
  No execution leaves the secret behind: the buffer is gone or zero, and whatever else
  happens the result denies a promotion, an enforced gate and a deployment.
\<close>

theorem execution_leaves_no_secret:
  "let p = snd (execute x b request fd peer s d) in
     (case pr_secret p of None \<Rightarrow> True | Some buffer \<Rightarrow> set buffer \<subseteq> {CHR 0x00})
     \<and> get (pr_result p) ''promotion_applied'' = JBool False \<and> get (pr_result p) ''gate_enforce_applied'' = JBool False
     \<and> get (pr_result p) ''deployment_applied'' = JBool False"
proof -
  let ?q = "run_request x b request fd peer (start_progress b s d)"
  have "pr_secret (snd (execute x b request fd peer s d)) = map_option zeroed (pr_secret (snd ?q))"
    unfolding execute_progress execute_steps_def by (rule finish_fields)
  then show ?thesis
    by (cases "pr_secret (snd ?q)") (auto simp: Let_def signed_constants zeroed_def)
qed


section \<open>When an execution is reported as completed\<close>

definition completed :: "obj run \<times> 'b progress \<Rightarrow> bool" where
  "completed r \<longleftrightarrow> (case fst r of Inl e \<Rightarrow> False
     | Inr envelope \<Rightarrow> get (dict_val (get envelope ''result'')) ''outcome'' = JStr ''completed'')"

definition successful :: "obj \<Rightarrow> bool" where
  "successful observation \<longleftrightarrow> \<not> truthy (get observation ''timed_out'') \<and> get observation ''return_code'' = JInt 0
     \<and> get observation ''child_outcome'' = JStr ''completed''"

definition outcome :: "'b progress \<Rightarrow> json" where
  "outcome p = get (pr_result p) ''outcome''"

text \<open>The isolated run succeeds in the root it was given, and the root is gone afterwards.\<close>

definition isolated_success :: "'b execution \<Rightarrow> bootstrap \<Rightarrow> validated \<Rightarrow> nat \<Rightarrow> string \<Rightarrow> string \<Rightarrow> bool" where
  "isolated_success x b v fd secret root \<longleftrightarrow> x_mkdtemp x = Inr root \<and> x_chmod x = Inr ()
     \<and> (\<exists>l observation. run_child b (x_child x) v fd secret root = (l, Inr observation) \<and> successful observation)"

lemma outcome_concluded:
  assumes "''outcome'' \<notin> set (map fst observation)"
  shows "get (update_all (concluded observation) (update_all observation d)) ''outcome''
    = (if successful observation then JStr ''completed'' else get d ''outcome'')"
  using get_update_all_other [OF assms, of d] by (auto simp: concluded_def successful_def)

lemma run_isolated_outcome:
  assumes "outcome p = JStr ''stopped_fail_closed''"
  shows "outcome (snd (run_isolated x b v fd secret p)) = JStr ''completed'' \<longleftrightarrow> (\<exists>root. isolated_success x b v fd secret root)"
proof -
  have o: "''outcome'' \<notin> set (map fst observation)" if "run_child b (x_child x) v fd secret root = (l, Inr observation)" for root l observation
    using run_child_fields [OF that] by (auto simp: observation_fields_def)
  show ?thesis
  proof (cases "x_mkdtemp x")
    case (Inr root)
    obtain l r where c: "run_child b (x_child x) v fd secret root = (l, r)" by (rule prod.exhaust)
    show ?thesis
      using assms o [of root] c Inr
      by (cases "x_chmod x"; cases r) (auto simp: run_isolated_def Let_def outcome_def isolated_success_def outcome_concluded)
  qed (use assms in \<open>simp add: run_isolated_def isolated_success_def\<close>)
qed

lemma run_isolated_root:
  "isolated_success x b v fd secret root \<Longrightarrow> pr_root (snd (run_isolated x b v fd secret p)) = Some root"
  by (auto simp: run_isolated_def Let_def isolated_success_def)

lemma initial_outcome [simp]: "outcome (start_progress b s d) = JStr ''stopped_fail_closed''"
  by (simp add: outcome_def start_progress_def initial_result_def)

lemma run_validated_outcome:
  assumes "outcome p = JStr ''stopped_fail_closed''"
  shows "outcome (snd (run_validated x b v fd p)) = JStr ''completed'' \<longleftrightarrow> verify_bundle (x_bundle x) (v_operation v) = Inr ()
    \<and> (\<exists>s2 d2 secret root. consume_approval (x_import x) (x_evaluate x) (x_approval x) b v (pr_repo p) (pr_broker p) = (Inr (), s2, d2, None)
         \<and> open_checked x b v = Inr secret \<and> isolated_success x b v fd secret root)"
    and "outcome (snd (run_validated x b v fd p)) = JStr ''completed'' \<Longrightarrow> pr_root (snd (run_validated x b v fd p)) \<noteq> None"
proof -
  obtain r s2 d2 left where c: "consume_approval (x_import x) (x_evaluate x) (x_approval x) b v (pr_repo p) (pr_broker p) = (r, s2, d2, left)"
    by (rule prod_cases4)
  have left: "left = None" if "r = Inr ()"
    using consume_approval_Inr [of x "x_approval x" b v "pr_repo p" "pr_broker p" "()" s2 d2 left] c that by simp
  have o: "outcome (mark k w q) = (if k = ''outcome'' then w else outcome q)" for k w and q :: "'a progress"
    by (simp add: outcome_def)
  have u: "outcome (q\<lparr>pr_repo := s, pr_broker := e, pr_envelope := f\<rparr>) = outcome q" "outcome (q\<lparr>pr_secret := z\<rparr>) = outcome q"
    for s e f z and q :: "'a progress"
    by (simp_all add: outcome_def)
  show "outcome (snd (run_validated x b v fd p)) = JStr ''completed'' \<longleftrightarrow> verify_bundle (x_bundle x) (v_operation v) = Inr ()
    \<and> (\<exists>s2 d2 secret root. consume_approval (x_import x) (x_evaluate x) (x_approval x) b v (pr_repo p) (pr_broker p) = (Inr (), s2, d2, None)
         \<and> open_checked x b v = Inr secret \<and> isolated_success x b v fd secret root)" (is ?outcome)
    using assms left
    by (cases "verify_bundle (x_bundle x) (v_operation v)"; cases r; cases "open_checked x b v")
      (simp_all add: run_validated_def Let_def c o u run_isolated_outcome)
  show "pr_root (snd (run_validated x b v fd p)) \<noteq> None" if fin: "outcome (snd (run_validated x b v fd p)) = JStr ''completed''"
  proof -
    obtain secret root where *: "verify_bundle (x_bundle x) (v_operation v) = Inr ()" "r = Inr ()" "open_checked x b v = Inr secret"
      "isolated_success x b v fd secret root"
      using fin \<open>?outcome\<close> c by auto
    show ?thesis by (simp add: run_validated_def Let_def c * run_isolated_root [OF *(4)])
  qed
qed

lemma run_request_outcome:
  "outcome (snd (run_request x b request fd peer (start_progress b s d))) = JStr ''completed'' \<longleftrightarrow>
    (\<exists>v secret s2 d2 root. authorized x b request peer s d v secret s2 d2 \<and> isolated_success x b v fd secret root)"
  using run_validated_outcome(1) [of "start_progress b s d" x b _ fd]
  by (cases "validate_request b (x_first x) (x_second x) request") (auto simp: run_request_def authorized_def)

lemma run_request_root:
  "outcome (snd (run_request x b request fd peer (start_progress b s d))) = JStr ''completed''
   \<Longrightarrow> pr_root (snd (run_request x b request fd peer (start_progress b s d))) \<noteq> None"
  using run_validated_outcome(2) [of "start_progress b s d" x b _ fd]
  by (cases "validate_request b (x_first x) (x_second x) request") (auto simp: run_request_def split: if_splits)

lemma sign_result_Inr: "sign_result b g r = Inr envelope \<Longrightarrow> get envelope ''result'' = JObj r"
  by (auto simp: sign_result_def run_Inr_iff split: option.splits)

text \<open>The last word: a completed outcome stays completed when the root is gone.\<close>

lemma finish_completed:
  assumes "get (pr_result (snd ep)) ''credential_material_zeroized'' = JBool True" and "pr_root (snd ep) \<noteq> None"
  shows "(\<exists>p. wind_up x ep = (None, p) \<and> outcome p = JStr ''completed'')
    \<longleftrightarrow> outcome (snd ep) = JStr ''completed'' \<and> x_rmtree x = Inr () \<and> \<not> x_exists x"
proof -
  let ?q = "zeroize (report (fst ep) (snd ep))"
  have z: "get (pr_result ?q) ''credential_material_zeroized'' = JBool True"
    using assms(1) by (simp add: zeroize_def zeroed_def list_all_iff get_report split: option.split)
  have o: "get (pr_result ?q) ''outcome'' = outcome (snd ep)"
    by (simp add: get_zeroize get_report outcome_def)
  obtain root where root: "pr_root (snd ep) = Some root" using assms(2) by blast
  show ?thesis
    by (cases "x_rmtree x"; cases "is_OSError (projl (x_rmtree x))"; cases "x_exists x")
      (simp_all add: wind_up_def remove_root_def root require_rollback_def rollback_complete_def z outcome_def o [unfolded outcome_def])
qed

lemma finish_outcome:
  assumes "wind_up x ep = (None, p)" and "outcome p = JStr ''completed''"
  shows "outcome (snd ep) = JStr ''completed''"
proof -
  let ?q = "zeroize (report (fst ep) (snd ep))"
  have q: "get (pr_result (snd (remove_root x ?q))) ''outcome'' = outcome (snd ep)"
    by (simp add: get_remove_root get_zeroize get_report outcome_def)
  obtain e r where r: "remove_root x ?q = (e, r)" by (rule prod.exhaust)
  have "p = require_rollback r" using assms(1) by (auto simp: wind_up_def r split: option.splits)
  then show ?thesis using assms(2) q by (auto simp: require_rollback_def outcome_def r split: if_splits)
qed

text \<open>
  C13. A signed result says \<open>completed\<close> exactly when the request was authorized, the child ran in a
  fresh isolation root, exited with 0 in time and reported completion within its budget, the
  root was removed and is gone, and the result could be signed with the configured key.
\<close>

theorem completed_exactly:
  "completed (execute x b request fd peer s d) \<longleftrightarrow>
     (\<exists>v secret s2 d2 root. authorized x b request peer s d v secret s2 d2 \<and> isolated_success x b v fd secret root)
     \<and> x_rmtree x = Inr () \<and> \<not> x_exists x
     \<and> (\<exists>envelope. sign_result b (x_signing x) (pr_result (snd (execute x b request fd peer s d))) = Inr envelope)"
proof -
  let ?ep = "run_request x b request fd peer (start_progress b s d)"
  have z: "get (pr_result (snd ?ep)) ''credential_material_zeroized'' = JBool True"
    by (subst get_run_request) (simp_all add: observation_fields_def start_progress_def initial_result_def)
  obtain e p where f: "wind_up x ?ep = (e, p)" by (rule prod.exhaust)
  have p: "snd (execute x b request fd peer s d) = p" by (simp add: execute_progress execute_steps_def f)
  have "completed (execute x b request fd peer s d)
      \<longleftrightarrow> e = None \<and> outcome p = JStr ''completed'' \<and> (\<exists>envelope. sign_result b (x_signing x) (pr_result p) = Inr envelope)"
    by (cases e; cases "sign_result b (x_signing x) (pr_result p)")
      (simp_all add: completed_def execute_def execute_steps_def f sign_result_Inr outcome_def)
  moreover have "e = None \<and> outcome p = JStr ''completed'' \<longleftrightarrow> outcome (snd ?ep) = JStr ''completed'' \<and> x_rmtree x = Inr () \<and> \<not> x_exists x"
  proof (cases "outcome (snd ?ep) = JStr ''completed''")
    case True
    show ?thesis using finish_completed [OF z run_request_root [OF True], of x] f by auto
  next
    case False
    then show ?thesis using finish_outcome [of x ?ep p] f by auto
  qed
  ultimately show ?thesis unfolding p run_request_outcome [symmetric] by blast
qed

end
