(* ===== verification/Bundle_Facts.thy ===== *)
theory Bundle_Facts
  imports Runner_Bundle
begin

text \<open>
  What a verified bundle is: an archive that holds its manifest, the sources the manifest lists
  and the originals of the managed files, and nothing else, each with the content it is bound to.
\<close>

definition source_path :: "json \<Rightarrow> string" where
  "source_path e = str_val (get (dict_val e) ''path'')"

text \<open>A source in the archive has the content its manifest entry names.\<close>

definition listed :: "archive \<Rightarrow> json \<Rightarrow> bool" where
  "listed a e \<longleftrightarrow> relative_name (source_path e)
     \<and> (\<exists>bytes. archive_read a (original_name (source_path e)) = Inr bytes \<and> get (dict_val e) ''value_hash'' = JStr (tagged_sha256 bytes))"

lemma content_matches_Inr:
  "source_content_matches a name h = Inr u \<Longrightarrow> \<exists>bytes. archive_read a name = Inr bytes \<and> h = tagged_sha256 bytes"
  by (auto simp: source_content_matches_def run_Inr_iff unzipped_Inr_iff)

lemma check_source_Inr:
  assumes "check_source a operation seen e = Inr path"
  shows "path = source_path e \<and> path \<notin> set seen \<and> listed a e"
proof -
  let ?d = "dict_val e"
  obtain h u where s: "source_path_ok seen (get ?d ''path'')" and h: "require_sha256 (get ?d ''value_hash'') ''source_tree_value_hash'' = Inr h"
    and c: "source_content_matches a (original_name (str_val (get ?d ''path''))) h = Inr u" and p: "path = str_val (get ?d ''path'')"
    using assms unfolding check_source_def Let_def by (elim runE) simp
  have "get ?d ''value_hash'' = JStr h"
    using h by (cases "get ?d ''value_hash''") (simp_all add: require_sha256_def demand_Inr_iff)
  then show ?thesis using content_matches_Inr [OF c] s p by (auto simp: source_path_def source_path_ok_def listed_def)
qed

lemma check_sources_Inr:
  "check_sources a operation seen es = Inr paths \<Longrightarrow> paths = seen @ map source_path es \<and> list_all (listed a) es"
proof (induction es arbitrary: seen)
  case (Cons e es)
  then obtain path where p: "check_source a operation seen e = Inr path" "check_sources a operation (seen @ [path]) es = Inr paths"
    by (auto elim!: runE)
  then show ?case using Cons.IH [OF p(2)] check_source_Inr [OF p(1)] by simp
qed simp

lemma check_sources_distinct:
  "check_sources a operation seen es = Inr paths \<Longrightarrow> distinct seen \<Longrightarrow> distinct paths"
proof (induction es arbitrary: seen)
  case (Cons e es)
  then obtain path where p: "check_source a operation seen e = Inr path" "check_sources a operation (seen @ [path]) es = Inr paths"
    by (auto elim!: runE)
  moreover have "distinct (seen @ [path])" using check_source_Inr [OF p(1)] Cons.prems(2) by auto
  ultimately show ?case using Cons.IH by blast
qed simp

definition managed_content :: "archive \<Rightarrow> string \<times> json \<Rightarrow> bool" where
  "managed_content a kv \<longleftrightarrow> (\<exists>bytes. archive_read a (fst kv) = Inr bytes \<and> snd kv = JStr (tagged_sha256 bytes))"

lemma check_managed_Inr: "check_managed a rows = Inr u \<Longrightarrow> list_all (managed_content a) rows"
proof (induction rows)
  case (Cons row rows)
  then show ?case by (cases row) (auto simp: managed_content_def run_Inr_iff unzipped_Inr_iff)
qed simp

lemma read_manifest_Inr: "read_manifest a = Inr (bytes, manifest) \<Longrightarrow> archive_read a source_manifest_path = Inr bytes"
  by (auto simp: read_manifest_def unzipped_def run_Inr_iff split: sum.splits archive_error.splits exn.splits if_splits)

lemma item_Inr: "item (JObj d) k = Inr v \<Longrightarrow> get d k = v"
  by (auto simp: get_def split: option.splits)

lemma managed_items_Inr: "managed_items operation = Inr rows \<Longrightarrow> get operation ''managed_hashes'' = JObj rows"
  by (auto simp: managed_items_def item_Inr elim!: resultE split: json.splits)

lemma check_archive_Inr:
  assumes "check_archive a limit operation = Inr u"
  shows "\<exists>manifest. archive_read a source_manifest_path = Inr (canonical_bytes (JArr manifest))
    \<and> get operation ''source_tree_hash'' = JStr (canonical_hash (JArr manifest))
    \<and> list_all (listed a) manifest \<and> distinct (map source_path manifest) \<and> distinct (map (z_name \<circ> fst) a)
    \<and> set (map (z_name \<circ> fst) a) = set (expected_names (map source_path manifest))
    \<and> list_all (managed_content a) (dict_val (get operation ''managed_hashes''))"
proof -
  let ?names = "map z_name (map fst a)"
  obtain bytes manifest paths tree rows where m: "read_manifest a = Inr (bytes, manifest)"
    and l: "is_list manifest" "bytes = canonical_bytes manifest" and s: "check_sources a operation [] (list_val manifest) = Inr paths"
    and n: "set ?names = set (expected_names paths)" and d: "distinct ?names"
    and t: "(if set ?names = set (expected_names paths) then zipped (item (JObj operation) ''source_tree_hash'') else Inr JNull) = Inr tree"
    and h: "tree = JStr (canonical_hash manifest)"
    and r: "managed_items operation = Inr rows" "check_managed a rows = Inr u"
    using assms unfolding check_archive_def Let_def by (elim runE) (auto simp: zipped_Inr_iff run_Inr_iff split: prod.splits)
  obtain es where es: "manifest = JArr es" using l(1) is_list_conv by blast
  have "get operation ''source_tree_hash'' = JStr (canonical_hash manifest)"
    using t h n by (intro item_Inr) (simp only: if_True zipped_Inr_iff simp_thms)
  then show ?thesis
    using read_manifest_Inr [OF m] l(2) check_sources_Inr [OF s] check_sources_distinct [OF s] n d
      managed_items_Inr [OF r(1)] check_managed_Inr [OF r(2)] by (intro exI [of _ es]) (simp add: es)
qed

text \<open>
  C15. A bundle that is accepted is the bundle the operation names: the archive holds its
  manifest in canonical form under the operation's source tree hash, every listed source (the
  kept original, for a managed file) with the hash the manifest gives it, each managed file
  with the operation's hash for it, and no entry besides these.
\<close>

theorem accepted_bundle_is_exact:
  assumes "verify_bundle c operation = Inr ()"
  shows "\<exists>a manifest. bc_archive c = Inr a \<and> archive_read a source_manifest_path = Inr (canonical_bytes (JArr manifest))
    \<and> get operation ''source_tree_hash'' = JStr (canonical_hash (JArr manifest))
    \<and> list_all (listed a) manifest \<and> distinct (map source_path manifest) \<and> distinct (map (z_name \<circ> fst) a)
    \<and> set (map (z_name \<circ> fst) a) = set (expected_names (map source_path manifest))
    \<and> list_all (managed_content a) (dict_val (get operation ''managed_hashes''))"
proof -
  obtain a limit where "bc_archive c = Inr a" "check_archive a limit operation = Inr ()"
    using assms unfolding verify_bundle_def by (elim runE) (auto simp: unzipped_Inr_iff run_Inr_iff)
  then show ?thesis using check_archive_Inr by blast
qed

definition bundle_manifest :: json where
  "bundle_manifest = JArr [JObj [(''kind'', JStr ''file''), (''mode'', JStr ''100644''), (''path'', JStr ''a.py''),
     (''value_hash'', JStr (tagged_sha256 ''x''))]]"

definition sample_archive :: archive where
  "sample_archive =
     [(\<lparr>z_name = ''a.py'', z_compress_type = 0, z_flag_bits = 0, z_file_size = 1\<rparr>, Inr ''x''),
      (\<lparr>z_name = source_manifest_path, z_compress_type = 0, z_flag_bits = 0, z_file_size = 1\<rparr>, Inr (canonical_bytes bundle_manifest))]"

definition sample_bundle :: bundle_calls where
  "sample_bundle = (let m = \<lparr>st_kind = Regular, st_perm = 384, st_uid = 7, st_gid = 7, st_dev = 1, st_ino = 2, st_nlink = 0, st_size = 3,
       st_mtime_ns = 0, st_ctime_ns = 0\<rparr> in
     \<lparr>bc_before = Inr m, bc_seals = Inr 15, bc_link = Inr ''/memfd:b'', bc_chunks = [Inr ''zi'', Inr ''p''], bc_after = Inr m, bc_dup = Inr (),
      bc_archive = Inr sample_archive\<rparr>)"

definition sample_bundle_operation :: obj where
  "sample_bundle_operation =
     [(''sealed_bundle_size_bytes'', JInt 3), (''sealed_bundle_hash'', JStr (tagged_sha256 ''zip'')), (''sealed_bundle_entry_count'', JInt 2),
      (''source_tree_hash'', JStr (canonical_hash bundle_manifest)), (''managed_hashes'', JObj [(''a.py'', JStr (tagged_sha256 ''x''))])]"

lemma no_duplicates_from_distinct:
  "distinct (map fst ps) \<Longrightarrow> (\<forall>k\<in>set (map fst ps). \<not> has_key seen k) \<Longrightarrow> no_duplicates_from seen ps = Inr (seen @ ps)"
proof (induction seen ps rule: no_duplicates_from.induct)
  case (2 seen k v ps)
  then show ?case by (auto simp: has_key_def)
qed simp

lemma load_no_duplicates_canonical: "wf_json v \<Longrightarrow> load_no_duplicates (canonical_bytes v) reason = Inr (canon v)"
  using loads_dumps [of no_duplicate_object v] no_duplicates_from_distinct [of _ "[]"]
  by (simp add: load_no_duplicates_def canonical_bytes_def no_duplicate_object_def)

lemma tagged_is_tagged [simp]: "is_tagged_sha256 (tagged_sha256 bytes)"
  by (simp add: is_tagged_sha256_def tagged_sha256_def starts_with_def)

lemma sample_manifest_canon: "canon bundle_manifest = bundle_manifest" "wf_json bundle_manifest"
  by (simp_all add: bundle_manifest_def sort_key_def)

lemma bundle_sample_names: "source_manifest_path \<noteq> ''a.py''" "relative_name ''a.py''" "relative_name source_manifest_path"
  "\<not> ends_with ''/'' ''a.py''" "\<not> starts_with ''.agent-factory/'' ''a.py''" "\<not> ends_with ''/'' source_manifest_path" "''a.py'' \<notin> set managed_paths"
  by code_simp+

lemma sample_verified: "verify_bundle sample_bundle sample_bundle_operation = Inr ()"
proof -
  have r: "archive_read sample_archive source_manifest_path = Inr (canonical_bytes bundle_manifest)" "archive_read sample_archive ''a.py'' = Inr ''x''"
    using bundle_sample_names(1) by (simp_all add: archive_read_def sample_archive_def)
  then have m: "read_manifest sample_archive = Inr (canonical_bytes bundle_manifest, bundle_manifest)"
    using load_no_duplicates_canonical [OF sample_manifest_canon(2)] by (simp add: read_manifest_def sample_manifest_canon(1) unzipped_def)
  have s: "check_sources sample_archive sample_bundle_operation [] (list_val bundle_manifest) = Inr [''a.py'']"
    using bundle_sample_names r by (simp add: bundle_manifest_def check_source_def source_fields_def keys_eq_def source_path_ok_def kind_ok_def
        require_sha256_def source_content_matches_def original_name_def sample_archive_def image_def unzipped_def insert_commute)
  have l: "length (map fst sample_archive) = 2" and n: "map z_name (map fst sample_archive) = [''a.py'', source_manifest_path]"
    by (simp_all add: sample_archive_def)
  have e: "check_entries 0 (map fst sample_archive) = Inr 2"
    using bundle_sample_names by (simp add: sample_archive_def plain_entry_def)
  have x: "expected_names [''a.py''] = [source_manifest_path, ''a.py'']"
    using bundle_sample_names by (simp add: expected_names_def names_of_source_def)
  have i: "item (JObj sample_bundle_operation) ''sealed_bundle_entry_count'' = Inr (JInt 2)"
    "item (JObj sample_bundle_operation) ''source_tree_hash'' = Inr (JStr (canonical_hash bundle_manifest))"
    "managed_items sample_bundle_operation = Inr [(''a.py'', JStr (tagged_sha256 ''x''))]"
    by (simp_all add: sample_bundle_operation_def managed_items_def)
  have j: "is_list bundle_manifest" "list_val bundle_manifest \<noteq> []" by (simp_all add: bundle_manifest_def)
  have g: "check_managed sample_archive [(''a.py'', JStr (tagged_sha256 ''x''))] = Inr ()" using r by (simp add: unzipped_def)
  have "check_archive sample_archive 3 sample_bundle_operation = Inr ()"
    using bundle_sample_names(1) unfolding check_archive_def Let_def l n i by (simp del: item.simps add: e m s x j r unzipped_def zipped_def i insert_commute)
  then show ?thesis
    by (simp add: verify_bundle_def sample_bundle_def Let_def sample_bundle_operation_def required_seals_def same_inode_def unzipped_def
        starts_with_def)
qed

theorem accepted_bundle_is_exact_witness:
  "verify_bundle sample_bundle sample_bundle_operation = Inr ()
   \<and> (\<exists>a manifest. bc_archive sample_bundle = Inr a \<and> get sample_bundle_operation ''source_tree_hash'' = JStr (canonical_hash (JArr manifest))
        \<and> list_all (listed a) manifest)"
  using sample_verified accepted_bundle_is_exact [OF sample_verified] by blast

end
