(* ===== verification/Runner_Parts.thy ===== *)
theory Runner_Parts
  imports Complex_Main Runner_Facts Bundle_Facts
begin

text \<open>
  The parts of the trusted runner: the base64 of its signatures, the budget, the launcher the
  child begins in and the environment it sees, the connection; and where the signed result says less
  than what happened.
\<close>


section \<open>Base64\<close>

lemma b64_value_char [simp]: "n < 64 \<Longrightarrow> b64_value (b64_char n) = Some n"
  by (auto simp: b64_char_def b64_value_def Let_def)

lemma b64_value_padding [simp]: "b64_value (CHR ''='') = None"
  by (simp add: b64_value_def)

definition padded_right :: "string \<Rightarrow> nat list \<Rightarrow> bool" where
  "padded_right pad ds \<longleftrightarrow> pad = '''' \<and> length ds mod 4 = 0 \<or> pad = ''='' \<and> length ds mod 4 = 3 \<or> pad = ''=='' \<and> length ds mod 4 = 2"

lemma b64_group:
  fixes x y z :: nat
  assumes "x < 256" "y < 256" "z < 256"
  shows "x div 4 < 64" "x mod 4 * 16 + y div 16 < 64" "y mod 16 * 4 + z div 64 < 64" "z mod 64 < 64" "x mod 4 * 16 < 64" "y mod 16 * 4 < 64"
    "x div 4 * 4 + (x mod 4 * 16 + y div 16) div 16 = x" "(x mod 4 * 16 + y div 16) mod 16 * 16 + (y mod 16 * 4 + z div 64) div 4 = y"
    "(y mod 16 * 4 + z div 64) mod 4 * 64 + z mod 64 = z" "x div 4 * 4 + x mod 4 * 16 div 16 = x"
    "(x mod 4 * 16 + y div 16) mod 16 * 16 + y mod 16 * 4 div 4 = y"
proof -
  have small: "y div 16 < 16" "z div 64 < 4" "x mod 4 < 4" "y mod 16 < 16" "z mod 64 < 64" "x div 4 < 64" using assms by auto
  then show "x div 4 < 64" "x mod 4 * 16 + y div 16 < 64" "y mod 16 * 4 + z div 64 < 64" "z mod 64 < 64" "x mod 4 * 16 < 64" "y mod 16 * 4 < 64"
    by simp_all
  have "(x mod 4 * 16 + y div 16) div 16 = x mod 4" "(x mod 4 * 16 + y div 16) mod 16 = y div 16"
    "(y mod 16 * 4 + z div 64) div 4 = y mod 16" "(y mod 16 * 4 + z div 64) mod 4 = z div 64"
    using small by simp_all
  then show "x div 4 * 4 + (x mod 4 * 16 + y div 16) div 16 = x"
    "(x mod 4 * 16 + y div 16) mod 16 * 16 + (y mod 16 * 4 + z div 64) div 4 = y"
    "(y mod 16 * 4 + z div 64) mod 4 * 64 + z mod 64 = z" "x div 4 * 4 + x mod 4 * 16 div 16 = x"
    "(x mod 4 * 16 + y div 16) mod 16 * 16 + y mod 16 * 4 div 4 = y"
    by simp_all
qed

lemma b64encode_groups: "\<exists>ds pad. b64encode s = map b64_char ds @ pad \<and> list_all (\<lambda>n. n < 64) ds \<and> b64_groups ds = s \<and> padded_right pad ds"
proof (induction s rule: b64encode.induct)
  case (1 a b c rest)
  let ?x = "of_char a :: nat" and ?y = "of_char b :: nat" and ?z = "of_char c :: nat"
  let ?g = "[?x div 4, ?x mod 4 * 16 + ?y div 16, ?y mod 16 * 4 + ?z div 64, ?z mod 64]"
  obtain ds pad where "b64encode rest = map b64_char ds @ pad" "list_all (\<lambda>n. n < 64) ds" "b64_groups ds = rest" "padded_right pad ds"
    using 1 by blast
  then have "b64encode (a # b # c # rest) = map b64_char (?g @ ds) @ pad \<and> list_all (\<lambda>n. n < 64) (?g @ ds)
      \<and> b64_groups (?g @ ds) = a # b # c # rest \<and> padded_right pad (?g @ ds)"
    using b64_group [of ?x ?y ?z] by (simp add: Let_def padded_right_def)
  then show ?case by blast
next
  case (2 a b)
  let ?x = "of_char a :: nat" and ?y = "of_char b :: nat"
  let ?g = "[?x div 4, ?x mod 4 * 16 + ?y div 16, ?y mod 16 * 4]"
  have "b64encode [a, b] = map b64_char ?g @ ''='' \<and> list_all (\<lambda>n. n < 64) ?g \<and> b64_groups ?g = [a, b] \<and> padded_right ''='' ?g"
    using b64_group [of ?x ?y 0] by (simp add: Let_def padded_right_def)
  then show ?case by blast
next
  case (3 a)
  let ?x = "of_char a :: nat"
  let ?g = "[?x div 4, ?x mod 4 * 16]"
  have "b64encode [a] = map b64_char ?g @ ''=='' \<and> list_all (\<lambda>n. n < 64) ?g \<and> b64_groups ?g = [a] \<and> padded_right ''=='' ?g"
    using b64_group [of ?x 0 0] by (simp add: Let_def padded_right_def)
  then show ?case by blast
next
  case 4
  then show ?case by (intro exI [of _ "[]"]) (simp add: padded_right_def)
qed

text \<open>
  What the runner signs can be checked by the code that verifies signatures: the strict
  decoder of signatures and keys reads back every byte string that the encoder writes.
\<close>

theorem base64_roundtrip: "b64decode (b64encode s) = Some s"
proof -
  obtain ds pad where e: "b64encode s = map b64_char ds @ pad" and small: "list_all (\<lambda>n. n < 64) ds"
    and g: "b64_groups ds = s" and pad: "padded_right pad ds"
    using b64encode_groups by blast
  have v: "b64_value c \<noteq> None" if "c \<in> set (map b64_char ds)" for c
    using that small by (auto simp: list_all_iff)
  have p: "takeWhile (\<lambda>c. b64_value c \<noteq> None) pad = [] \<and> dropWhile (\<lambda>c. b64_value c \<noteq> None) pad = pad"
    using pad by (auto simp: padded_right_def)
  have t: "takeWhile (\<lambda>c. b64_value c \<noteq> None) (b64encode s) = map b64_char ds" "dropWhile (\<lambda>c. b64_value c \<noteq> None) (b64encode s) = pad"
    unfolding e by (simp_all only: takeWhile_append2 [OF v] dropWhile_append2 [OF v] p append_Nil2)
  have "map (\<lambda>c. the (b64_value c)) (map b64_char ds) = ds"
    using small by (induction ds) auto
  then show ?thesis using pad g unfolding b64decode_def Let_def t by (auto simp: padded_right_def)
qed


section \<open>Costs\<close>

text \<open>The number a decimal stands for, and the budget as a statement about numbers.\<close>

definition decimal_value :: "decimal \<Rightarrow> rat option" where
  "decimal_value d = (case d of
     Not_Finite \<Rightarrow> None
   | Number neg n e \<Rightarrow> Some ((if neg then - 1 else 1) * of_nat n * 10 powi e))"

definition affordable :: "rat option \<Rightarrow> bool" where
  "affordable q = (case q of None \<Rightarrow> False | Some x \<Rightarrow> 0 \<le> x \<and> x \<le> 1 / 4)"

lemma of_nat_le_quarter: "(of_nat n :: rat) \<le> 1 / 4 * of_nat m \<longleftrightarrow> 4 * n \<le> m"
proof -
  have "(of_nat n :: rat) \<le> 1 / 4 * of_nat m \<longleftrightarrow> (of_nat (4 * n) :: rat) \<le> of_nat m" by (simp add: mult.commute)
  then show ?thesis by (simp only: of_nat_le_iff)
qed

lemma quarter_bound: "(of_nat n * 10 powi e :: rat) \<le> 1 / 4 \<longleftrightarrow> (if 0 \<le> e then 4 * n * 10 ^ nat e \<le> 1 else 4 * n \<le> 10 ^ nat (- e))"
proof (cases "0 \<le> e")
  case True
  then have v: "(of_nat n * 10 powi e :: rat) = of_nat (n * 10 ^ nat e)" by (simp add: power_int_def)
  have "(of_nat n * 10 powi e :: rat) \<le> 1 / 4 \<longleftrightarrow> 4 * (n * 10 ^ nat e) \<le> 1"
    using of_nat_le_quarter [of "n * 10 ^ nat e" 1] by (simp only: v of_nat_1 mult_1_right)
  then show ?thesis using True by (simp only: mult.assoc if_True)
next
  case False
  then have e: "(10 powi e :: rat) = 1 / of_nat (10 ^ nat (- e))" by (simp add: power_int_def divide_simps)
  have "(of_nat n * 10 powi e :: rat) \<le> 1 / 4 \<longleftrightarrow> (of_nat n :: rat) \<le> 1 / 4 * of_nat (10 ^ nat (- e))"
    unfolding e by (simp add: divide_simps)
  then show ?thesis using False of_nat_le_quarter [of n "10 ^ nat (- e)"] by simp
qed

text \<open>
  C35. The budget check on scaled integers is the check on numbers: a reported cost passes
  exactly when it is finite, not negative and at most a quarter of a dollar, for every
  coefficient and every exponent.
\<close>

theorem budget_is_quarter_dollar: "within_budget d \<longleftrightarrow> affordable (decimal_value d)"
proof (cases d)
  case (Number neg n e)
  have pos: "\<not> (10 powi e :: rat) \<le> 0" "0 \<le> (10 powi e :: rat)" by (simp_all add: not_le zero_less_power_int zero_le_power_int)
  have zero: "0 \<le> - (of_nat n * (10 powi e :: rat)) \<longleftrightarrow> n = 0"
    by (simp only: neg_0_le_iff_le mult_le_0_iff of_nat_0_le_iff of_nat_le_0_iff pos simp_thms)
  show ?thesis
  proof (cases neg)
    case True
    then show ?thesis using zero by (auto simp: Number within_budget_def affordable_def decimal_value_def)
  next
    case False
    have "0 \<le> (of_nat n * 10 powi e :: rat)" using pos(2) by (rule mult_nonneg_nonneg [OF of_nat_0_le_iff])
    then have "affordable (decimal_value d) \<longleftrightarrow> (of_nat n * 10 powi e :: rat) \<le> 1 / 4"
      using False by (simp only: Number affordable_def decimal_value_def decimal.case option.case if_False mult_1_left simp_thms)
    moreover have "within_budget d \<longleftrightarrow> (if 0 \<le> e then 4 * n * 10 ^ nat e \<le> 1 else 4 * n \<le> 10 ^ nat (- e))"
      using False by (auto simp: Number within_budget_def)
    ultimately show ?thesis by (simp only: quarter_bound)
  qed
qed (simp add: within_budget_def affordable_def decimal_value_def)

lemma digits_not_space: "list_all is_digit s \<Longrightarrow> list_all (\<lambda>c. \<not> is_space c) s"
  by (induction s) (auto simp: is_digit_def is_space_def)

lemma dropWhile_none: "\<forall>c\<in>set s. \<not> p c \<Longrightarrow> dropWhile p s = s"
  by (cases s) auto

lemma strip_no_space: "list_all (\<lambda>c. \<not> is_space c) s \<Longrightarrow> strip s = s"
  by (simp add: strip_def list_all_iff dropWhile_none)

lemma digits_no_underscore: "list_all is_digit s \<Longrightarrow> filter (\<lambda>c. c \<noteq> CHR ''_'') s = s"
  by (induction s) (auto simp: is_digit_def)

lemma signed_text_digits: "list_all is_digit s \<Longrightarrow> signed_text (s @ r) = (if s = [] then signed_text r else (False, s @ r))"
  by (cases s) (auto simp: is_digit_def)

definition pad_digits :: "nat \<Rightarrow> nat \<Rightarrow> string" where
  "pad_digits n places = replicate (Suc places - length (show_nat n)) (CHR ''0'') @ show_nat n"

lemma pad_digits:
  "list_all is_digit (pad_digits n places)" "places < length (pad_digits n places)" "digits_val (pad_digits n places) = n"
proof -
  have z: "digits_val (replicate k (CHR ''0'') @ s) = digits_val s" for k s
    by (induction k) (simp_all add: digits_val_def digit_val_def)
  have d: "list_all is_digit (replicate k (CHR ''0''))" for k
    by (induction k) (simp_all add: is_digit_def)
  show "list_all is_digit (pad_digits n places)" "digits_val (pad_digits n places) = n"
    by (simp_all add: pad_digits_def show_nat_digits z d digits_val_show_nat)
  show "places < length (pad_digits n places)" by (simp add: pad_digits_def)
qed

lemma digit_facts: "is_digit c \<Longrightarrow> c \<noteq> CHR ''.'' \<and> c \<noteq> CHR ''_'' \<and> c \<noteq> CHR ''-'' \<and> c \<noteq> CHR ''+'' \<and> \<not> is_space c"
  by (auto simp: is_digit_def is_space_def)

lemma takeWhile_digits: "list_all is_digit ds \<Longrightarrow> takeWhile is_digit (ds @ r) = ds @ takeWhile is_digit r"
    "list_all is_digit ds \<Longrightarrow> dropWhile is_digit (ds @ r) = dropWhile is_digit r"
  by (induction ds) auto

lemma special_decimal_digit:
  assumes "is_digit c"
  shows "\<not> special_decimal (c # s)"
proof -
  have "lower_char c \<noteq> CHR ''i''" "lower_char c \<noteq> CHR ''n''" "lower_char c \<noteq> CHR ''s''"
    using assms by (auto simp: lower_char_def is_digit_def)
  then show ?thesis by (simp add: special_decimal_def lower_def starts_with_def Let_def)
qed

text \<open>A numeral with a sign and a point, read by the grammar of \<open>Decimal\<close>.\<close>

lemma decimal_of_whole:
  assumes "signed_text (filter (\<lambda>c. c \<noteq> CHR ''_'') (strip t)) = (neg, whole)" and "list_all is_digit whole" and "whole \<noteq> []"
    and "\<not> special_decimal whole" and "exactly_held (digits_val whole) 0"
  shows "decimal_of t = Some (Number neg (digits_val whole) 0)"
proof -
  have whole: "takeWhile is_digit whole = whole" "dropWhile is_digit whole = []"
    using takeWhile_digits [OF assms(2), of "[]"] by simp_all
  show ?thesis using assms(3-5) by (simp add: decimal_of_def assms(1) whole exponent_of_def)
qed

lemma decimal_of_point:
  assumes "signed_text (filter (\<lambda>c. c \<noteq> CHR ''_'') (strip t)) = (neg, whole @ CHR ''.'' # ds)" and "list_all is_digit whole"
    and "whole \<noteq> []" and "list_all is_digit ds" and "\<not> special_decimal (whole @ CHR ''.'' # ds)"
    and "exactly_held (digits_val (whole @ ds)) (- int (length ds))"
  shows "decimal_of t = Some (Number neg (digits_val (whole @ ds)) (- int (length ds)))"
proof -
  have whole: "takeWhile is_digit (whole @ CHR ''.'' # ds) = whole" "dropWhile is_digit (whole @ CHR ''.'' # ds) = CHR ''.'' # ds"
    using takeWhile_digits [OF assms(2), of "CHR ''.'' # ds"] by (simp_all add: is_digit_def)
  have ds: "takeWhile is_digit ds = ds" "dropWhile is_digit ds = []"
    using takeWhile_digits [OF assms(4), of "[]"] by simp_all
  show ?thesis using assms(3,5,6) by (simp add: decimal_of_def assms(1) whole ds exponent_of_def)
qed

lemma decimal_of_text:
  assumes "list_all is_digit whole" and "whole \<noteq> []" and "list_all is_digit ds" and "exactly_held (digits_val (whole @ ds)) (- int (length ds))"
  shows "decimal_of ((if neg then ''-'' else []) @ whole @ (if ds = [] then [] else CHR ''.'' # ds))
    = Some (Number neg (digits_val (whole @ ds)) (- int (length ds)))"
proof -
  let ?body = "whole @ (if ds = [] then [] else CHR ''.'' # ds)"
  let ?text = "(if neg then ''-'' else []) @ ?body"
  have p: "list_all (\<lambda>c. \<not> is_space c \<and> c \<noteq> CHR ''_'') s" if "list_all is_digit s" for s
    using that by (rule list.pred_mono_strong) (simp add: digit_facts)
  have "\<not> is_space (CHR ''-'')" "\<not> is_space (CHR ''.'')" by (simp_all add: is_space_def)
  then have plain: "list_all (\<lambda>c. \<not> is_space c \<and> c \<noteq> CHR ''_'') ?text"
    using p [OF assms(1)] p [OF assms(3)] by simp
  then have "strip ?text = ?text" by (intro strip_no_space) (auto simp: list_all_iff)
  moreover have "filter (\<lambda>c. c \<noteq> CHR ''_'') ?text = ?text" using plain by (intro filter_True) (auto simp: list_all_iff)
  moreover obtain c w where w: "whole = c # w" "is_digit c" using assms(1,2) by (cases whole) auto
  then have "signed_text ?text = (neg, ?body)" using digit_facts [of c] by (cases neg) simp_all
  ultimately have s: "signed_text (filter (\<lambda>c. c \<noteq> CHR ''_'') (strip ?text)) = (neg, ?body)" by (simp only:)
  have special: "\<not> special_decimal ?body" using w special_decimal_digit by simp
  show ?thesis
  proof (cases "ds = []")
    case True
    then show ?thesis using decimal_of_whole [of ?text neg whole] s special assms by simp
  next
    case False
    then show ?thesis using decimal_of_point [of ?text neg whole ds] s special assms by simp
  qed
qed

text \<open>
  The cost in the signed result is the cost the child reported: the fixed-point text of
  every cost within the budget reads back as the same sign and digits, and an exponent above
  zero, which only a zero can have, is dropped.
\<close>

theorem reported_cost_roundtrip:
  assumes "within_budget (Number neg n e)" and "exactly_held n e"
  shows "decimal_of (format_cost (Number neg n e)) = Some (Number neg n (min e 0))"
proof -
  let ?p = "nat (- e)" and ?ds = "pad_digits n (nat (- e))"
  let ?k = "length ?ds - ?p"
  have "list_all is_digit (take ?k ?ds)" "list_all is_digit (drop ?k ?ds)"
    using pad_digits(1) [of n ?p] by (auto simp: list_all_iff dest: in_set_takeD in_set_dropD)
  moreover have "take ?k ?ds \<noteq> []" using pad_digits(2) [where n = n and places = ?p] by auto
  moreover have len: "length (drop ?k ?ds) = ?p" using pad_digits(2) [where n = n and places = ?p] by simp
  moreover have digits: "digits_val (take ?k ?ds @ drop ?k ?ds) = n" using pad_digits(3) by simp
  moreover have "exactly_held n (- int ?p)"
  proof (cases "e \<le> 0")
    case False
    have "n = 0" if small: "4 * n * (10::nat) ^ nat e \<le> Suc 0"
    proof (rule ccontr)
      assume "n \<noteq> 0"
      then have "4 * 1 * 1 \<le> 4 * n * (10::nat) ^ nat e" by (intro mult_le_mono) auto
      from le_trans [OF this small] show False by simp
    qed
    then have "n = 0" using assms(1) False by (auto simp: within_budget_def split: if_splits)
    then show ?thesis using False by (simp add: exactly_held_def min_exponent_def max_exponent_def)
  qed (use assms(2) in simp)
  ultimately have "decimal_of ((if neg then ''-'' else []) @ take ?k ?ds @ (if drop ?k ?ds = [] then [] else CHR ''.'' # drop ?k ?ds))
      = Some (Number neg n (- int ?p))"
    using decimal_of_text [of "take ?k ?ds" "drop ?k ?ds" neg] by simp
  moreover have dr: "(drop ?k ?ds = []) = (?p = 0)" using len by (metis length_0_conv)
  have "format_cost (Number neg n e)
      = (if neg then ''-'' else []) @ take ?k ?ds @ (if drop ?k ?ds = [] then [] else CHR ''.'' # drop ?k ?ds)"
    unfolding format_cost_def decimal.case fixed_point_def Let_def pad_digits_def [symmetric] dr by (rule refl)
  moreover have "- int ?p = min e 0" by (simp add: min_def)
  ultimately show ?thesis by (simp only:)
qed

theorem reported_cost_roundtrip_witness:
  "decimal_of ''0.00250'' = Some (Number False 250 (- 5)) \<and> decimal_of (format_cost (Number False 250 (- 5))) = Some (Number False 250 (- 5))"
proof -
  have "decimal_of ''0.00250'' = Some (Number False 250 (- 5))" by code_simp
  moreover have "within_budget (Number False 250 (- 5))" "exactly_held 250 (- 5)"
    by (simp_all add: within_budget_def exactly_held_def min_exponent_def max_exponent_def show_nat.simps)
  ultimately show ?thesis using reported_cost_roundtrip [of False 250 "- 5"] by simp
qed


section \<open>The launcher\<close>

lemma signed_text_show: "signed_text (show_nat n) = (False, show_nat n)"
  using signed_text_digits [OF show_nat_digits, of n "[]"] show_nat_nonempty [of n] by simp

lemma digits_grouped_digits: "list_all is_digit s \<Longrightarrow> s \<noteq> [] \<Longrightarrow> digits_grouped s"
  by (induction s rule: digits_grouped.induct) (auto simp: is_digit_def)

lemma int_of_text_show: "int_of_text (show_nat n) = Some (int n)"
  using show_nat_digits [of n] show_nat_nonempty [of n]
  by (simp add: int_of_text_def strip_no_space digits_not_space signed_text_show digits_grouped_digits digits_no_underscore
      digits_val_show_nat)

lemma read_secret_fd_all:
  assumes "length acc + length (concat chunks) \<le> limit" and "[] \<notin> set chunks"
  shows "read_secret_fd limit acc (map Inr chunks) = Inr (acc @ concat chunks)"
  using assms
proof (induction chunks arbitrary: acc)
  case (Cons c chunks)
  then show ?case using Cons.IH [of "acc @ c"] by auto
qed simp

lemma attempt_child_launch:
  assumes "at_launch (attempt_child b c launcher dir fd secret) = Some l"
  shows "\<exists>secret_fd. l = \<lparr>l_argv = child_argv b c launcher dir fd secret_fd, l_cwd = dir,
    l_environment = child_environment b c dir fd, l_pass_fds = [fd, secret_fd], l_pipe = secret\<rparr>"
  using assms
  by (auto simp: attempt_child_def start_child_def ended_def Let_def split: sum.splits prod.splits if_splits)

lemma run_child_launch:
  assumes "run_child b c v fd secret dir = (Some l, r)"
  shows "\<exists>launcher secret_fd. l = \<lparr>l_argv = child_argv b c launcher dir fd secret_fd, l_cwd = dir,
    l_environment = child_environment b c dir fd, l_pass_fds = [fd, secret_fd], l_pipe = secret\<rparr>"
  using assms attempt_child_launch by (auto simp: run_child_def Let_def split: sum.splits) blast

text \<open>
  C14. The two sides of the launch fit together: whatever the runner starts, the launcher that
  receives its command line, environment and pipe replaces itself by the pinned runtime with
  the substituted arguments, and hands over exactly the secret in exactly the environment the
  runner built; however the pipe delivers the bytes, nothing is cut off or added.
\<close>

theorem launcher_hands_over_secret:
  assumes "run_child b c v fd secret dir = (Some l, r)" and "is_absolute (b_runtime_executable b)"
    and "secret \<noteq> []" and "length secret \<le> max_secret_bytes"
    and "concat chunks = l_pipe l" and "[] \<notin> set chunks"
  shows "trusted_exec \<lparr>ex_reads = map Inr chunks, ex_core_limit = Inr (), ex_file_limit = Inr ()\<rparr> (drop 3 (l_argv l)) (l_environment l)
    = Exec (b_runtime_executable b) (b_runtime_executable b # map (substitute (placeholder_values dir fd)) (b_runtime_argv b))
        (set_env ''OPENAI_API_KEY'' secret (child_environment b c dir fd))"
proof -
  obtain launcher secret_fd where l: "l_argv l = child_argv b c launcher dir fd secret_fd" "l_environment l = child_environment b c dir fd"
    "l_pipe l = secret"
    using run_child_launch [OF assms(1)] by auto
  have "read_secret_fd max_secret_bytes [] (map Inr chunks) = Inr secret"
    using read_secret_fd_all [of "[]" chunks max_secret_bytes] assms(4-6) l(3) by simp
  moreover have "max_child_artifact_bytes > 0" "max_secret_bytes > 0" by (simp_all add: max_child_artifact_bytes_def max_secret_bytes_def)
  ultimately show ?thesis using assms(2-4)
    by (simp add: trusted_exec_def l child_argv_def int_of_text_show)
qed

text \<open>A bootstrap for rehearsals and a child that answers once.\<close>

definition sample_bootstrap :: bootstrap where
  "sample_bootstrap = \<lparr>b_runner_id = ''r1'', b_mode = ''rehearsal'', b_service_uid = 7, b_clients = [8], b_state_root = ''/s'',
     b_trusted_approvers_file = ''/t'', b_result_private_key = ''/k'', b_result_public_key = [], b_runtime_executable = ''/usr/bin/hermes'',
     b_runtime_sha256 = [], b_runtime_argv = [''--input'', placeholders ! 2], b_credential_ref = ''secret-ref://x'', b_credential_path = ''/c'',
     b_credential_sha256 = [], b_credential_binding_hash = [], b_isolation_parent = ''/iso'', b_bootstrap_path = ''/b''\<rparr>"

definition private_stat :: "int \<Rightarrow> os_stat" where
  "private_stat n = \<lparr>st_kind = Regular, st_perm = 384, st_uid = 7, st_gid = 7, st_dev = 1, st_ino = 2, st_nlink = 1, st_size = n,
     st_mtime_ns = 0, st_ctime_ns = 0\<rparr>"

definition read_back_calls :: "string \<Rightarrow> stable_calls" where
  "read_back_calls bytes = (let m = private_stat (int (length bytes)) in
     \<lparr>sc_before = Inr m, sc_open = Inr (), sc_opened = Inr m, sc_chunks = [Inr bytes], sc_after = Inr m, sc_path = Inr m\<rparr>)"

definition sample_child :: "string \<Rightarrow> child_calls" where
  "sample_child reply = \<lparr>ch_home = Inr (), ch_input = \<lparr>wr_open = Inr (), wr_writes = [Inr 5], wr_fsync = Inr (), wr_close = Inr ()\<rparr>,
     ch_launcher = Inr ''/l'', ch_python = ''/py'', ch_environ = (\<lambda>n. if n = ''LANG'' then Some ''C'' else Some ''private''),
     ch_stdout = Inr 5, ch_stderr = Inr 6, ch_pipe = Inr (9, 10), ch_pipe_writes = [Inr 2, Inr 2], ch_close_fails = [],
     ch_spawn = Inr (), ch_wait = Exited 0, ch_term = Inr (), ch_term_wait = Still_Running, ch_kill = Inr (),
     ch_kill_wait = Still_Running, ch_elapsed_ms = 3, ch_stdout_read = read_back_calls [], ch_stderr_read = read_back_calls [],
     ch_result_read = read_back_calls reply\<rparr>"

definition sample_validated :: validated where
  "sample_validated = \<lparr>v_request = [], v_operation = [], v_operation_id = ''o'', v_plan_hash = ''h'', v_approval_id = ''a'',
     v_envelope = JNull, v_payload = ''hello''\<rparr>"

lemma sample_start:
  "run_child sample_bootstrap (sample_child reply) sample_validated 4 ''sk-1'' ''/iso/x''
   = (Some \<lparr>l_argv = child_argv sample_bootstrap (sample_child reply) ''/l'' ''/iso/x'' 4 9, l_cwd = ''/iso/x'',
        l_environment = child_environment sample_bootstrap (sample_child reply) ''/iso/x'' 4, l_pass_fds = [4, 9], l_pipe = ''sk-1''\<rparr>,
      observe_child sample_bootstrap (sample_child reply) False 0)"
  by (simp add: run_child_def sample_child_def sample_validated_def write_private_def create_private_def put_bytes.simps
      attempt_child_def fill_pipe_def start_child_def Let_def wait_child_def ended_def settle_attempt_def all_closed_def)

theorem launcher_hands_over_secret_witness:
  "\<exists>l r. run_child sample_bootstrap (sample_child []) sample_validated 4 ''sk-1'' ''/iso/x'' = (Some l, r)
     \<and> trusted_exec \<lparr>ex_reads = map Inr [''sk'', ''-1''], ex_core_limit = Inr (), ex_file_limit = Inr ()\<rparr> (drop 3 (l_argv l)) (l_environment l)
       = Exec ''/usr/bin/hermes'' [''/usr/bin/hermes'', ''--input'', ''/iso/x/input.bin'']
           (set_env ''OPENAI_API_KEY'' ''sk-1'' (child_environment sample_bootstrap (sample_child []) ''/iso/x'' 4))"
proof -
  have p: "map (substitute (placeholder_values ''/iso/x'' 4)) (b_runtime_argv sample_bootstrap) = [''--input'', ''/iso/x/input.bin'']"
    by (simp add: sample_bootstrap_def substitute_def placeholder_values_def placeholders_def)
  have a: "is_absolute (b_runtime_executable sample_bootstrap)" "b_runtime_executable sample_bootstrap = ''/usr/bin/hermes''"
    by (simp_all add: sample_bootstrap_def is_absolute_def starts_with_def)
  show ?thesis
    using launcher_hands_over_secret [OF sample_start [of "[]"] a(1), of "[''sk'', ''-1'']"] sample_start [of "[]"]
    by (simp add: p a(2) max_secret_bytes_def)
qed


section \<open>What the child can see\<close>

lemma inherited_only: "set (map fst (inherited environ)) \<subseteq> set inherited_names"
  by (auto simp: inherited_def inherited_names_def split: option.splits if_splits)



section \<open>Where the result says less than what happened\<close>

text \<open>
  A child that ran and exited with 0, but whose result is refused: it admits an inference during
  a rehearsal. The signed result says that no runtime was started and no inference applied.
\<close>

lemma file_calls_read:
  assumes "length bytes \<le> n" and "length bytes \<le> 64 * 1024"
  shows "stable_read_regular (read_back_calls bytes) label (Some 7) (Some 384) (Some n) = Inr (bytes, private_stat (int (length bytes)))"
proof -
  have "take (min 65536 (Suc n)) bytes = bytes" using assms by simp
  then have "read_limited (Some (Suc n)) 0 [Inr bytes] = Inr bytes" by simp
  then show ?thesis using assms(1)
    by (simp add: stable_read_regular_def read_back_calls_def private_stat_def check_opened_def same_inode_def same_generation_def Let_def)
qed

definition admitted :: obj where
  "admitted = [(''contract_version'', JStr ''0.1''), (''cost_usd'', JNull), (''inference_applied'', JBool True),
     (''input_tokens'', JInt 3), (''outcome'', JStr ''completed''), (''output_tokens'', JInt 5)]"

lemma admitted_read: "strict_json_bytes (canonical_bytes (JObj admitted)) ''child_result'' = Inr admitted"
proof -
  have "canon (JObj admitted) = JObj admitted" "wf_json (JObj admitted)" by (code_simp, simp add: admitted_def)
  then show ?thesis by (simp add: strict_json_bytes_def load_no_duplicates_canonical)
qed

lemma admitted_length: "length (canonical_bytes (JObj admitted)) = 124"
  by code_simp

lemma admitted_refused:
  "observe_child sample_bootstrap (sample_child (canonical_bytes (JObj admitted))) False 0 = Inl (Violation ''rehearsal_inference_denied'')"
proof -
  have r: "check_child_result sample_bootstrap admitted = Inl (Violation ''rehearsal_inference_denied'')"
    by (simp add: check_child_result_def admitted_def child_result_fields_def keys_eq_def usage_ok_def natural_def cost_of_def
        max_output_tokens_def sample_bootstrap_def insert_commute)
  show ?thesis
    by (simp add: observe_child_def sample_child_def sample_bootstrap_def file_calls_read admitted_length max_child_artifact_bytes_def
        admitted_read r [unfolded sample_bootstrap_def])
qed

text \<open>The result keeps what it said before the child was started, whatever the refused child did.\<close>

theorem refused_result_hides_run:
  assumes "run_child b (x_child x) v fd secret dir = (Some l, Inl (Violation reason))" and "x_mkdtemp x = Inr dir" and "x_chmod x = Inr ()"
    and "run_isolated x b v fd secret p = (e, q)"
  shows "pr_launch q = Some l \<and> get (pr_result (report e q)) ''reason'' = JStr reason
    \<and> get (pr_result (report e q)) ''runtime_started'' = get (pr_result p) ''runtime_started''
    \<and> get (pr_result (report e q)) ''inference_applied'' = get (pr_result p) ''inference_applied''"
  using assms by (auto simp: run_isolated_def Let_def)

lemma refused_child_ran:
  "\<exists>l. run_child sample_bootstrap (sample_child (canonical_bytes (JObj admitted))) sample_validated 4 ''sk-1'' ''/iso/x''
     = (Some l, Inl (Violation ''rehearsal_inference_denied''))"
  using sample_start admitted_refused by simp

text \<open>
  The number 1 passes for the flag of a rehearsal, and the approval is then asked for the
  production environment.
\<close>

lemma numeric_rehearsal_flag:
  "py_eq (JInt 1) (JBool True)"
  "get (dict_val (approval_operation_payload [(''rehearsal_only'', JInt 1)] i h)) ''environment'' = JStr ''production''"
  by (simp_all add: approval_operation_payload_def)

text \<open>A message that is too large is refused before its descriptors are looked at: they stay open.\<close>

theorem oversized_message_keeps_descriptors:
  assumes "rc_seqpacket c" and "rc_peercred c" and "rc_peer_uid c = Inr uid" and "rc_message c = Inr m"
    and "ms_truncated m \<or> runner_request_limit < length (ms_bytes m)"
  shows "receive_one c = (Inl (Violation ''runner_request_too_large''), [])"
  using assms by (simp add: receive_one_def)

end
