(* ===== verification/Spec2Isabelle.thy ===== *)
theory Spec2Isabelle
  imports Work_Claims Escalation_Facts Broker_Service Merge_Witness Ci_Facts Dep_Witness Publish_Facts Runner_Parts
begin

text \<open>
  A verification of the governance runtime \<open>sddgov\<close> (\<open>src/src/sddgov\<close>).

  \<open>sddgov\<close> decides what an autonomous coding agent may do. It keeps its state in JSON stores
  under \<open>.sddgov/\<close> of a repository; the keys and approvers it trusts are root-owned documents
  outside it. An agent asks \<open>evaluate_escalation\<close>; the answer is to continue, to stop, or one
  bounded question for a human. A dangerous operation needs an owner-signed receipt for the exact
  payload, whose nonce a broker process spends once. Work is claimed by package, its evidence is
  collected in redacted packages, a merge gate binds a merge to the reviewed commit, a guard keeps
  hosted workflows within their contract, and a trusted runner performs one approved operation
  with a secret that the agent never sees.

  \<^bold>\<open>Parts, sources and theories\<close>

  Language and library: \<open>Prelude\<close> (exceptions as values, Python strings), \<open>Py_Json\<close>
  (documents, \<open>==\<close>, \<open>json.dumps\<close>), \<open>Json_Text\<close> (\<open>json.loads\<close>, strict readers), \<open>Datetime\<close>,
  \<open>Sha256\<close>, \<open>Regex\<close> (the constructs of \<open>re\<close> that occur), \<open>Effects\<close> (actions on a state and
  their weakest preconditions), \<open>Evolving_Store\<close> (the contract of the durable stores, a locale
  that is interpreted for the action queue, the decision store and the nonce ledger).

  \<open>governance.py\<close>: \<open>Governance\<close> has the record \<open>repo\<close> of the store files and \<open>init_project\<close>,
  \<open>emit_event\<close>, \<open>claim_work\<close>, \<open>enqueue_external_action\<close>, \<open>resolve_external_action\<close>,
  \<open>project_status\<close>; \<open>Action_Queue\<close> and \<open>Work_Claims\<close> hold the store invariants, the life cycle of
  a row and the exclusivity of a claim.

  \<open>trust.py\<close>: \<open>Trust\<close>, the readers of control-plane documents. \<open>fs_security.py\<close>: \<open>Fs_Snapshot\<close>
  (path checks and \<open>FileSetSnapshot\<close>), \<open>Dir_World\<close> and \<open>Owned_Files\<close> (\<open>remove_owned_at\<close> in a
  directory that other processes change).

  \<open>autonomy.py\<close>: \<open>Decision_Card\<close> (payloads, packages, request schemas), \<open>Approvals\<close> and
  \<open>Approval_Use\<close> (envelopes, approvers, import, consumption, the broker client), \<open>Escalation\<close>
  (\<open>evaluate_escalation\<close>, \<open>evaluate_deployment\<close>, artifact locks); \<open>Approval_Facts\<close> and
  \<open>Escalation_Facts\<close> show that an approval is authentic, used for its exact payload and used
  once, and that no dangerous request continues without one.

  \<open>broker.py\<close>: \<open>Broker\<close> (ledger, request reader, handler, accept loop), \<open>Broker_Facts\<close> and
  \<open>Broker_Service\<close> (the ledger refines a set of spent nonces, over any history of requests,
  restarts, short writes and failed flushes).

  \<open>merge_gate.py\<close>: \<open>Merge_Git\<close> (the answers of \<open>git\<close>), \<open>Merge_Gate\<close> (\<open>verify_merge\<close>),
  \<open>Merge_Facts\<close>, \<open>Merge_Witness\<close>. \<open>ci_guard.py\<close>: \<open>Ci_Guard\<close>, \<open>Ci_Facts\<close>.

  \<open>redaction.py\<close>: \<open>Redaction\<close> (the rules), \<open>Redaction_Stream\<close> (the streaming reader),
  \<open>Redaction_Facts\<close>. \<open>evidence.py\<close>: \<open>Dep_Files\<close> (reading a package), \<open>Dep_Verify\<close> (\<open>verify\<close>),
  \<open>Dep_Facts\<close>, \<open>Plain_Files\<close> and \<open>Dep_Witness\<close> (a concrete package), \<open>Dep_Transaction\<close>
  (\<open>_MutationTransaction\<close>), \<open>Dep_Publish\<close> and \<open>Publish_Facts\<close> (\<open>_write_bytes_at\<close> with every
  error path, and what it may remove).

  \<open>trusted_runner.py\<close> and \<open>_trusted_exec.py\<close>: \<open>Runner_Contract\<close> (fixed contract, bootstrap,
  descriptor), \<open>Runner_Request\<close> (\<open>_validate_request\<close>), \<open>Runner_Bundle\<close> (\<open>_verify_bundle\<close>),
  \<open>Runner_Approval\<close> (the approval, through the model of \<open>autonomy.py\<close>), \<open>Runner_Child\<close> (credential,
  child, launcher), \<open>Runner_Execute\<close> (\<open>execute\<close>, signing, the connection). \<open>Bundle_Facts\<close>,
  \<open>Runner_Facts\<close> and \<open>Runner_Parts\<close> show when the credential is opened, when a result says
  completed, what an accepted bundle is, and that runner and launcher fit together.

  \<^bold>\<open>How the code is modelled\<close>

  A store operation takes the clock and returns its outcome with the new \<open>repo\<close>. What lies
  outside a process is a parameter: the records \<open>world\<close>, \<open>merge_world\<close> and \<open>execution\<close>, and
  one record of outcomes for each routine that makes system calls, in the order of the calls; two
  calls on one name may disagree. Code that shares a directory with other processes runs in
  \<open>Dir_World\<close>: before each call the others may do anything, a call may fail before or after its
  effect, reads and writes may be short. File identities are not reused while the program runs,
  and names that are drawn at random are not guessed. Ed25519, \<open>git\<close>, the YAML loader,
  \<open>jsonschema\<close>, \<open>zipfile\<close> and child processes are parameters; properties hold for all of them.
  Digests are compared as strings; equal digests of unequal texts are not excluded.

  Integers are unbounded, as in Python; SHA-256 works on 32-bit words. A \<open>str\<close> holds code points
  up to U+00FF and JSON numbers are integers; texts and numbers beyond are outside the model.

  Loops are structural or have a measure. The JSON reader has fuel of twice the length of the text
  plus two, which every token and every nesting level pays from; that it is enough for a
  rendered value is part of the round trip. The redaction of a line has two levels of fuel, and
  more do not change its result. The decimal costs of a child follow the grammar and the
  exponent limits of \<open>decimal.Decimal\<close>.

  \<^bold>\<open>Not modelled\<close>

  \<open>write_new_regular_file\<close> of \<open>fs_security.py\<close>; the commands of \<open>evidence.py\<close> around
  verification and publication (\<open>make_dep\<close>, \<open>collect\<close>, \<open>redact\<close>, \<open>transition\<close>, \<open>attach\<close>);
  the publication of a redacted file; the socket files of the broker; the interactive owner
  client and its key handling (\<open>owner_approval.py\<close>, \<open>owner_cli.py\<close>) and the reviewer client
  (\<open>reviewer.py\<close>), whose receipts are checked by code that is modelled; the production checks of
  the runner, which refuses production mode before it reaches them, and
  \<open>production_containment.py\<close>, which no code uses yet; \<open>installer.py\<close>, \<open>pilot.py\<close>,
  \<open>benchmark.py\<close>, \<open>schema_validation.py\<close>, \<open>cli.py\<close> and the release scripts: copying, timing,
  printing and wrapping of packages.
\<close>

end
